(* ===== verification/Js_Number.thy ===== *)
theory Js_Number
  imports Complex_Main "HOL-Library.Log_Nat"
begin

text \<open>
  The JavaScript \<open>Number\<close> type.  A finite value is a rational; every arithmetic result is
  rounded to binary64, ties to even, as the language prescribes, so that a statement about
  balances is a statement about the doubles the code computes with.  Negative zero is identified
  with zero, which no modelled operation can tell apart.  \<open>toFixed\<close>, \<open>Math.round\<close> and the
  comparisons follow the language definition exactly.
\<close>

section \<open>Rounding a rational to binary64\<close>

definition ilog2 :: "rat \<Rightarrow> int" where
  "ilog2 x = (let (p, q) = quotient_of x; d = bitlen p - bitlen q
              in if 2 powi d \<le> x then d else d - 1)"

definition rne :: "rat \<Rightarrow> int" where
  "rne x = (let f = \<lfloor>x\<rfloor>; r = x - of_int f
            in if r < 1 / 2 then f else if 1 / 2 < r then f + 1
               else if even f then f else f + 1)"

definition fexp :: "rat \<Rightarrow> int" where
  "fexp x = max (ilog2 \<bar>x\<bar> - 52) (-1074)"

definition fl :: "rat \<Rightarrow> rat" where
  "fl x = (if x = 0 then 0 else of_int (rne (x / 2 powi fexp x)) * 2 powi fexp x)"


lemma powi2_pos [simp]: "(0::rat) < 2 powi e"
  by (simp add: zero_less_power_int)

lemma powi2_add: "(2::rat) powi (a + b) = 2 powi a * 2 powi b"
  by (simp add: power_int_add)

lemma powi2_diff: "(2::rat) powi (a - b) = 2 powi a / 2 powi b"
  by (simp add: power_int_diff)

lemma powi2_le_iff [simp]: "(2::rat) powi a \<le> 2 powi b \<longleftrightarrow> a \<le> b"
  by (metis linorder_not_le one_less_numeral_iff power_int_increasing power_int_strict_increasing
      semiring_norm(76) order_less_imp_le)

lemma powi2_less_iff [simp]: "(2::rat) powi a < 2 powi b \<longleftrightarrow> a < b"
  by (simp add: less_le_not_le)

lemma powi2_of_int: "0 \<le> e \<Longrightarrow> (2::rat) powi e = of_int (2 ^ nat e)"
  by (simp add: power_int_def)

lemma powi2_le_of_int: "0 \<le> e \<Longrightarrow> 2 powi e \<le> (of_int n :: rat) \<longleftrightarrow> 2 ^ nat e \<le> n"
  unfolding powi2_of_int of_int_le_iff ..

lemma of_int_le_powi2: "0 \<le> e \<Longrightarrow> (of_int n :: rat) \<le> 2 powi e \<longleftrightarrow> n \<le> 2 ^ nat e"
  unfolding powi2_of_int of_int_le_iff ..

lemma floor_half [simp]: "\<lfloor>1 / 2 :: rat\<rfloor> = 0"
  by (rule floor_unique) simp_all

lemma ilog2_bounds:
  assumes "0 < x"
  shows "2 powi ilog2 x \<le> x \<and> x < 2 powi (ilog2 x + 1)"
proof -
  obtain p q where pq: "quotient_of x = (p, q)" by fastforce
  have q: "0 < q" and x: "x = of_int p / of_int q"
    using pq quotient_of_denom_pos quotient_of_div by blast+
  have p: "0 < p" using assms x q by (simp add: zero_less_divide_iff)
  have pb: "of_int p < (2::rat) powi bitlen p" "(2::rat) powi (bitlen p - 1) \<le> of_int p"
   and qb: "of_int q < (2::rat) powi bitlen q" "(2::rat) powi (bitlen q - 1) \<le> of_int q"
  proof -
    have main: "of_int n < (2::rat) powi bitlen n \<and> (2::rat) powi (bitlen n - 1) \<le> of_int n"
      if n: "0 < n" for n
    proof -
      have b: "1 \<le> bitlen n" using n by (simp add: bitlen_ge_iff_power)
      show ?thesis using bitlen_bounds [OF n] b
        by (simp add: powi2_of_int del: of_int_power of_int_numeral)
    qed
    from main [OF p] main [OF q] show "of_int p < (2::rat) powi bitlen p"
      "(2::rat) powi (bitlen p - 1) \<le> of_int p" "of_int q < (2::rat) powi bitlen q"
      "(2::rat) powi (bitlen q - 1) \<le> of_int q" by auto
  qed
  define d where "d = bitlen p - bitlen q"
  have "x < 2 powi bitlen p / 2 powi (bitlen q - 1)"
    unfolding x by (rule frac_less) (use p q pb qb in auto)
  then have up: "x < 2 powi (d + 1)"
    by (simp add: d_def algebra_simps flip: powi2_diff)
  have "2 powi (bitlen p - 1) / 2 powi bitlen q \<le> x"
    unfolding x by (rule frac_le) (use p q pb qb in auto)
  then have lo: "2 powi (d - 1) \<le> x"
    by (simp add: d_def algebra_simps flip: powi2_diff)
  have il: "ilog2 x = (if 2 powi d \<le> x then d else d - 1)"
    by (simp add: ilog2_def pq d_def Let_def)
  show ?thesis
    using up lo by (auto simp: il)
qed

lemma ilog2_eqI:
  assumes "2 powi e \<le> x" "x < 2 powi (e + 1)"
  shows "ilog2 x = e"
proof -
  have "0 < x" using assms(1) powi2_pos less_le_trans by blast
  from ilog2_bounds [OF this] assms have "2 powi ilog2 x < (2::rat) powi (e + 1)"
    "(2::rat) powi e < 2 powi (ilog2 x + 1)" by linarith+
  then show ?thesis by simp
qed

lemma ilog2_mono: "0 < x \<Longrightarrow> x \<le> y \<Longrightarrow> ilog2 x \<le> ilog2 y"
proof -
  assume "0 < x" "x \<le> y"
  with ilog2_bounds [of x] ilog2_bounds [of y] have "2 powi ilog2 x < (2::rat) powi (ilog2 y + 1)"
    by linarith
  then show ?thesis by simp
qed

lemma rne_of_int [simp]: "rne (of_int n) = n"
  by (simp add: rne_def)

lemma rne_bound: "\<bar>of_int (rne x) - x\<bar> \<le> 1 / 2"
proof -
  have *: "of_int \<lfloor>x\<rfloor> \<le> x" "x < of_int \<lfloor>x\<rfloor> + 1" by linarith+
  show ?thesis
  proof (cases "x - of_int \<lfloor>x\<rfloor> < 1 / 2")
    case True
    with * show ?thesis by (simp add: rne_def Let_def)
  next
    case False
    then have "rne x = \<lfloor>x\<rfloor> + 1 \<or> (rne x = \<lfloor>x\<rfloor> \<and> x - of_int \<lfloor>x\<rfloor> = 1 / 2)"
      by (auto simp: rne_def Let_def)
    with * False show ?thesis by auto
  qed
qed

lemma rne_mono: "x \<le> y \<Longrightarrow> rne x \<le> rne y"
proof -
  assume le: "x \<le> y"
  then have f: "\<lfloor>x\<rfloor> \<le> \<lfloor>y\<rfloor>" by (rule floor_mono)
  show "rne x \<le> rne y"
  proof (cases "\<lfloor>x\<rfloor> = \<lfloor>y\<rfloor>")
    case True
    with le show ?thesis by (auto simp: rne_def Let_def)
  next
    case False
    with f have "rne x \<le> \<lfloor>y\<rfloor>" "\<lfloor>y\<rfloor> \<le> rne y" by (auto simp: rne_def Let_def)
    then show ?thesis by simp
  qed
qed

lemma rne_uminus: "rne (- x) = - rne x"
proof (cases "x = of_int \<lfloor>x\<rfloor>")
  case True
  then have "rne x = \<lfloor>x\<rfloor>" by (metis rne_of_int)
  moreover have "- x = of_int (- \<lfloor>x\<rfloor>)" using True by simp
  then have "rne (- x) = - \<lfloor>x\<rfloor>" by (metis rne_of_int)
  ultimately show ?thesis by simp
next
  case False
  then have fl: "\<lfloor>- x\<rfloor> = - \<lfloor>x\<rfloor> - 1" by linarith
  show ?thesis by (auto simp: rne_def Let_def fl)
qed

lemma rne_0 [simp]: "rne 0 = 0"
  using rne_of_int [of 0] by simp

lemma rne_nonneg: "0 \<le> x \<Longrightarrow> 0 \<le> rne x"
  using rne_mono [of 0 x] by simp

lemma fl_0 [simp]: "fl 0 = 0"
  by (simp add: fl_def)

lemma fl_uminus: "fl (- x) = - fl x"
  by (simp add: fl_def fexp_def rne_uminus)

text \<open>A value whose significand fits in 53 bits is not changed by rounding.\<close>

lemma fl_exact:
  assumes x: "x = of_int m * 2 powi e" and m: "\<bar>m\<bar> < 2 ^ 53" and e: "- 1074 \<le> e"
  shows "fl x = x"
proof (cases "x = 0")
  case False
  then have pos: "0 < \<bar>x\<bar>" by simp
  have "\<bar>x\<bar> = of_int \<bar>m\<bar> * 2 powi e" by (simp add: x abs_mult)
  also have "\<dots> < 2 powi 53 * 2 powi e"
    using m by (intro mult_strict_right_mono) (simp_all add: powi2_of_int flip: of_int_abs)
  finally have "\<bar>x\<bar> < 2 powi (53 + e)" by (simp add: powi2_add)
  with ilog2_bounds [OF pos] have "2 powi ilog2 \<bar>x\<bar> < (2::rat) powi (53 + e)" by linarith
  then have le: "fexp x \<le> e" using e by (simp add: fexp_def)
  have "x / 2 powi fexp x = of_int m * 2 powi (e - fexp x)"
    by (simp add: x powi2_diff)
  also have "\<dots> = of_int (m * 2 ^ nat (e - fexp x))"
    using le by (simp add: powi2_of_int)
  finally have q: "x / 2 powi fexp x = of_int (m * 2 ^ nat (e - fexp x))" .
  have "of_int (rne (x / 2 powi fexp x)) = x / 2 powi fexp x"
    unfolding q rne_of_int ..
  then show ?thesis using False by (simp add: fl_def)
qed simp

lemma fl_int: "\<bar>m\<bar> < 2 ^ 53 \<Longrightarrow> fl (of_int m) = of_int m"
  by (rule fl_exact [where e = 0]) simp_all

lemma fl_powi: "- 1074 \<le> e \<Longrightarrow> fl (2 powi e) = 2 powi e"
  by (rule fl_exact [where m = 1 and e = e]) simp_all

lemma fl_nonneg: "0 \<le> x \<Longrightarrow> 0 \<le> fl x"
  by (simp add: fl_def rne_nonneg)

lemma fl_nonpos: "x \<le> 0 \<Longrightarrow> fl x \<le> 0"
  using fl_nonneg [of "- x"] by (simp add: fl_uminus)

lemma fl_lower:
  assumes "0 < x" "2 powi e \<le> x" "- 1074 \<le> e"
  shows "2 powi e \<le> fl x"
proof -
  have le: "e \<le> ilog2 x"
    using ilog2_bounds [OF assms(1)] assms(2) by (smt (verit) powi2_less_iff order_le_less_trans)
  show ?thesis
  proof (cases "fexp x \<le> e")
    case True
    have "2 powi (e - fexp x) \<le> x / 2 powi fexp x"
      using assms by (simp add: powi2_diff divide_right_mono)
    then have "rne (2 powi (e - fexp x)) \<le> rne (x / 2 powi fexp x)" by (rule rne_mono)
    moreover have "rne (2 powi (e - fexp x)) = 2 ^ nat (e - fexp x)"
      using True powi2_of_int rne_of_int by (metis diff_ge_0_iff_ge)
    ultimately have "(2::rat) powi (e - fexp x) \<le> of_int (rne (x / 2 powi fexp x))"
      using True by (simp add: powi2_le_of_int)
    then have "2 powi (e - fexp x) * 2 powi fexp x
        \<le> of_int (rne (x / 2 powi fexp x)) * (2::rat) powi fexp x"
      by (rule mult_right_mono) (simp add: less_imp_le)
    then show ?thesis using assms(1) by (simp add: fl_def flip: powi2_add)
  next
    case False
    then have f: "fexp x = ilog2 x - 52" using assms by (auto simp: fexp_def max_def split: if_splits)
    have "2 powi (ilog2 x - fexp x) \<le> x / 2 powi fexp x"
      using ilog2_bounds [OF assms(1)] by (simp add: powi2_diff divide_right_mono)
    then have "(2::rat) powi 52 \<le> x / 2 powi fexp x" by (simp add: f)
    then have "rne (of_int (2 ^ 52)) \<le> rne (x / 2 powi fexp x)"
      by (intro rne_mono) (simp add: powi2_of_int)
    then have "(2::rat) powi 52 \<le> of_int (rne (x / 2 powi fexp x))"
      unfolding rne_of_int by (simp add: powi2_le_of_int)
    then have "2 powi 52 * 2 powi fexp x
        \<le> of_int (rne (x / 2 powi fexp x)) * (2::rat) powi fexp x"
      by (rule mult_right_mono) (simp add: less_imp_le)
    moreover have "(2::rat) powi 52 * 2 powi fexp x = 2 powi ilog2 x"
      unfolding f powi2_add [symmetric] by simp
    moreover have "fl x = of_int (rne (x / 2 powi fexp x)) * 2 powi fexp x"
      using assms(1) by (simp add: fl_def)
    ultimately have "2 powi ilog2 x \<le> fl x" by linarith
    moreover have "(2::rat) powi e \<le> 2 powi ilog2 x" using le by simp
    ultimately show ?thesis by linarith
  qed
qed

lemma fl_upper:
  assumes "0 < x" "x \<le> 2 powi e" "fexp x \<le> e"
  shows "fl x \<le> 2 powi e"
proof -
  have "x / 2 powi fexp x \<le> 2 powi (e - fexp x)"
    using assms by (simp add: powi2_diff divide_right_mono)
  also have "\<dots> = of_int (2 ^ nat (e - fexp x))" using assms by (simp add: powi2_of_int)
  finally have "rne (x / 2 powi fexp x) \<le> 2 ^ nat (e - fexp x)"
    by (metis rne_mono rne_of_int)
  then have "of_int (rne (x / 2 powi fexp x)) \<le> (2::rat) powi (e - fexp x)"
    using assms by (simp add: of_int_le_powi2)
  then have "of_int (rne (x / 2 powi fexp x)) * 2 powi fexp x
      \<le> 2 powi (e - fexp x) * (2::rat) powi fexp x"
    by (rule mult_right_mono) (simp add: less_imp_le)
  then show ?thesis using assms(1) by (simp add: fl_def flip: powi2_add)
qed

lemma fl_mono_pos:
  assumes "0 < x" "x \<le> y"
  shows "fl x \<le> fl y"
proof -
  have y: "0 < y" using assms by simp
  have fe: "fexp x \<le> fexp y" using ilog2_mono [OF assms] assms y by (simp add: fexp_def max_def)
  show ?thesis
  proof (cases "fexp x = fexp y")
    case True
    have "rne (x / 2 powi fexp y) \<le> rne (y / 2 powi fexp y)"
      using assms by (intro rne_mono divide_right_mono) (simp_all add: less_imp_le)
    then show ?thesis using assms y True by (simp add: fl_def mult_right_mono less_imp_le)
  next
    case False
    with fe have lt: "fexp x < fexp y" by simp
    then have fy: "fexp y = ilog2 y - 52" and "-1074 < fexp y"
      using y by (auto simp: fexp_def max_def split: if_splits)
    have abs: "\<bar>x\<bar> = x" "\<bar>y\<bar> = y" using assms y by simp_all
    have il: "ilog2 x < ilog2 y" using lt unfolding fexp_def abs by linarith
    have "x < 2 powi (ilog2 x + 1)" using ilog2_bounds assms by simp
    also have "\<dots> \<le> (2::rat) powi ilog2 y" using il by simp
    finally have "fl x \<le> 2 powi ilog2 y"
      using assms lt fy by (intro fl_upper) auto
    also have "\<dots> \<le> fl y"
      using ilog2_bounds [OF y] y fy \<open>-1074 < fexp y\<close> by (intro fl_lower) auto
    finally show ?thesis .
  qed
qed

lemma fl_mono: "x \<le> y \<Longrightarrow> fl x \<le> fl y"
proof -
  assume le: "x \<le> y"
  consider "0 < x" | "y < 0" | "x \<le> 0" "0 \<le> y" by linarith
  then show "fl x \<le> fl y"
  proof cases
    case 1
    then show ?thesis using le by (rule fl_mono_pos)
  next
    case 2
    then have "fl (- y) \<le> fl (- x)" using le by (intro fl_mono_pos) simp_all
    then show ?thesis by (simp add: fl_uminus)
  next
    case 3
    then show ?thesis using fl_nonneg fl_nonpos order_trans by blast
  qed
qed


lemma fl_scaled_le:
  "\<bar>rne (x / 2 powi fexp x)\<bar> \<le> 2 ^ 53"
proof (cases "x = 0")
  case False
  then have pos: "0 < \<bar>x\<bar>" by simp
  have "\<bar>x\<bar> \<le> 2 powi (53 + fexp x)"
  proof -
    have "\<bar>x\<bar> < 2 powi (ilog2 \<bar>x\<bar> + 1)" using ilog2_bounds [OF pos] by simp
    also have "\<dots> \<le> 2 powi (53 + fexp x)" by (simp add: fexp_def)
    finally show ?thesis by simp
  qed
  then have "\<bar>x\<bar> / 2 powi fexp x \<le> of_int (2 ^ 53)"
    by (simp add: powi2_add divide_le_eq powi2_of_int)
  then have "x / 2 powi fexp x \<le> of_int (2 ^ 53)" "of_int (- (2 ^ 53)) \<le> x / 2 powi fexp x"
    by (simp_all add: abs_le_iff divide_le_eq le_divide_eq powi2_of_int abs_if split: if_splits)
  then have "rne (x / 2 powi fexp x) \<le> 2 ^ 53" "- (2 ^ 53) \<le> rne (x / 2 powi fexp x)"
    by (metis rne_mono rne_of_int)+
  then show ?thesis by simp
qed simp

lemma fl_idem [simp]: "fl (fl x) = fl x"
proof (cases "x = 0")
  case False
  let ?m = "rne (x / 2 powi fexp x)"
  have x: "fl x = of_int ?m * 2 powi fexp x" using False by (simp add: fl_def)
  have e: "- 1074 \<le> fexp x" by (simp add: fexp_def)
  consider "\<bar>?m\<bar> < 2 ^ 53" | "?m = 2 ^ 53" | "?m = - (2 ^ 53)"
    using fl_scaled_le [of x] by linarith
  then show ?thesis
  proof cases
    case 1
    then show ?thesis using fl_exact [OF x _ e] by simp
  next
    case 2
    then have "fl x = 2 powi (53 + fexp x)" unfolding x powi2_add by (simp add: powi2_of_int)
    then show ?thesis using e by (simp add: fl_powi)
  next
    case 3
    then have "fl x = - (2 powi (53 + fexp x))" unfolding x powi2_add by (simp add: powi2_of_int)
    then show ?thesis using e by (simp add: fl_powi fl_uminus)
  qed
qed simp

lemma fl_error: "\<bar>fl x - x\<bar> \<le> 2 powi fexp x / 2"
proof (cases "x = 0")
  case False
  have "\<bar>of_int (rne (x / 2 powi fexp x)) - x / 2 powi fexp x\<bar> * 2 powi fexp x
      \<le> 1 / 2 * 2 powi fexp x"
    by (intro mult_right_mono rne_bound) (simp add: less_imp_le)
  also have "\<bar>of_int (rne (x / 2 powi fexp x)) - x / 2 powi fexp x\<bar> * 2 powi fexp x
      = \<bar>(of_int (rne (x / 2 powi fexp x)) - x / 2 powi fexp x) * 2 powi fexp x\<bar>"
    by (simp add: abs_mult less_imp_le abs_of_pos)
  also have "\<dots> = \<bar>fl x - x\<bar>" using False by (simp add: fl_def algebra_simps)
  finally show ?thesis by simp
qed simp

section \<open>The \<open>Number\<close> type and its operations\<close>

datatype jsnum = NaN | PInf | NInf | Fin rat

definition num :: "rat \<Rightarrow> jsnum" where
  "num x = (let y = fl x in if 1024 \<le> ilog2 \<bar>y\<bar> then (if 0 < y then PInf else NInf) else Fin y)"

fun isFinite :: "jsnum \<Rightarrow> bool" where
  "isFinite (Fin _) = True"
| "isFinite _ = False"

fun n_neg :: "jsnum \<Rightarrow> jsnum" where
  "n_neg NaN = NaN"
| "n_neg PInf = NInf"
| "n_neg NInf = PInf"
| "n_neg (Fin x) = Fin (- x)"

fun n_add :: "jsnum \<Rightarrow> jsnum \<Rightarrow> jsnum" where
  "n_add NaN _ = NaN"
| "n_add _ NaN = NaN"
| "n_add PInf NInf = NaN"
| "n_add NInf PInf = NaN"
| "n_add PInf _ = PInf"
| "n_add _ PInf = PInf"
| "n_add NInf _ = NInf"
| "n_add _ NInf = NInf"
| "n_add (Fin x) (Fin y) = num (x + y)"

definition n_sub :: "jsnum \<Rightarrow> jsnum \<Rightarrow> jsnum" where
  "n_sub x y = n_add x (n_neg y)"

definition signed_inf :: "rat \<Rightarrow> jsnum" where
  "signed_inf s = (if s = 0 then NaN else if 0 < s then PInf else NInf)"

fun n_sign :: "jsnum \<Rightarrow> rat" where
  "n_sign NaN = 0"
| "n_sign PInf = 1"
| "n_sign NInf = -1"
| "n_sign (Fin x) = sgn x"

fun n_mul :: "jsnum \<Rightarrow> jsnum \<Rightarrow> jsnum" where
  "n_mul NaN _ = NaN"
| "n_mul _ NaN = NaN"
| "n_mul (Fin x) (Fin y) = num (x * y)"
| "n_mul x y = signed_inf (n_sign x * n_sign y)"

text \<open>Division by zero gives an infinity with the sign of the dividend, and NaN for 0/0.\<close>

fun n_div :: "jsnum \<Rightarrow> jsnum \<Rightarrow> jsnum" where
  "n_div NaN _ = NaN"
| "n_div _ NaN = NaN"
| "n_div (Fin x) (Fin y) = (if y = 0 then signed_inf (sgn x) else num (x / y))"
| "n_div (Fin _) _ = Fin 0"
| "n_div x (Fin y) = (if y < 0 then n_neg x else x)"
| "n_div _ _ = NaN"

fun n_lt :: "jsnum \<Rightarrow> jsnum \<Rightarrow> bool" where
  "n_lt NaN _ = False"
| "n_lt _ NaN = False"
| "n_lt PInf _ = False"
| "n_lt _ NInf = False"
| "n_lt (Fin x) (Fin y) = (x < y)"
| "n_lt _ _ = True"

fun n_eq :: "jsnum \<Rightarrow> jsnum \<Rightarrow> bool" where
  "n_eq NaN _ = False"
| "n_eq x y = (x = y)"

definition n_le :: "jsnum \<Rightarrow> jsnum \<Rightarrow> bool" where
  "n_le x y = (n_lt x y \<or> n_eq x y)"

fun n_abs :: "jsnum \<Rightarrow> jsnum" where
  "n_abs NaN = NaN"
| "n_abs (Fin x) = Fin \<bar>x\<bar>"
| "n_abs _ = PInf"

definition n_max :: "jsnum \<Rightarrow> jsnum \<Rightarrow> jsnum" where
  "n_max x y = (if x = NaN \<or> y = NaN then NaN else if n_lt x y then y else x)"

definition n_min :: "jsnum \<Rightarrow> jsnum \<Rightarrow> jsnum" where
  "n_min x y = (if x = NaN \<or> y = NaN then NaN else if n_lt y x then y else x)"

text \<open>\<open>Math.round\<close>: the nearest integer, ties towards plus infinity.\<close>

fun n_round :: "jsnum \<Rightarrow> jsnum" where
  "n_round (Fin x) = Fin (of_int \<lfloor>x + 1 / 2\<rfloor>)"
| "n_round x = x"

fun n_ceil :: "jsnum \<Rightarrow> jsnum" where
  "n_ceil (Fin x) = Fin (of_int \<lceil>x\<rceil>)"
| "n_ceil x = x"

fun n_floor :: "jsnum \<Rightarrow> jsnum" where
  "n_floor (Fin x) = Fin (of_int \<lfloor>x\<rfloor>)"
| "n_floor x = x"

text \<open>
  \<open>Number(x.toFixed(d))\<close>: the integer \<open>n\<close> nearest to \<open>\<bar>x\<bar> * 10 ^ d\<close>, the larger one on a
  tie, then the double nearest to \<open>n / 10 ^ d\<close>.  From \<open>10 ^ 21\<close> on \<open>toFixed\<close> prints the number
  itself.
\<close>

definition fixed_digits :: "nat \<Rightarrow> rat \<Rightarrow> int" where
  "fixed_digits d x = \<lfloor>\<bar>x\<bar> * 10 ^ d + 1 / 2\<rfloor>"

fun n_fixed :: "nat \<Rightarrow> jsnum \<Rightarrow> jsnum" where
  "n_fixed d (Fin x) = (if 10 ^ 21 \<le> \<bar>x\<bar> then Fin x
     else num (sgn x * of_int (fixed_digits d x) / 10 ^ d))"
| "n_fixed d x = x"

definition EPSILON :: jsnum where
  "EPSILON = Fin (1 / 2 ^ 52)"


section \<open>Facts about double arithmetic\<close>

text \<open>The rationals that are doubles, and the numbers whose finite value is one.\<close>

definition dbl :: "rat \<Rightarrow> bool" where
  "dbl x \<longleftrightarrow> fl x = x \<and> \<bar>x\<bar> < 2 ^ 1024"

fun double :: "jsnum \<Rightarrow> bool" where
  "double (Fin x) = dbl x"
| "double _ = True"

lemma ilog2_0 [simp]: "ilog2 0 = - 2"
  by (simp add: ilog2_def Let_def compute_bitlen)

lemma ilog2_overflow: "1024 \<le> ilog2 \<bar>y\<bar> \<longleftrightarrow> 2 ^ 1024 \<le> \<bar>y\<bar>"
proof (cases "y = 0")
  case False
  then have b: "2 powi ilog2 \<bar>y\<bar> \<le> \<bar>y\<bar>" "\<bar>y\<bar> < 2 powi (ilog2 \<bar>y\<bar> + 1)"
    using ilog2_bounds [of "\<bar>y\<bar>"] by simp_all
  have p: "(2::rat) ^ 1024 = 2 powi 1024" by (simp only: power_int_numeral)
  show ?thesis
  proof
    assume "1024 \<le> ilog2 \<bar>y\<bar>"
    then have "(2::rat) powi 1024 \<le> 2 powi ilog2 \<bar>y\<bar>" by (simp only: powi2_le_iff)
    with b show "2 ^ 1024 \<le> \<bar>y\<bar>" unfolding p by linarith
  next
    assume "2 ^ 1024 \<le> \<bar>y\<bar>"
    with b have "(2::rat) powi 1024 < 2 powi (ilog2 \<bar>y\<bar> + 1)" unfolding p by linarith
    then show "1024 \<le> ilog2 \<bar>y\<bar>" by (simp only: powi2_less_iff)
  qed
next
  case True
  have "\<not> (2::rat) ^ 1024 \<le> 0" by (simp only: not_le zero_less_power zero_less_numeral)
  with True show ?thesis by simp
qed

lemma num_eq:
  "num x = (if 2 ^ 1024 \<le> \<bar>fl x\<bar> then (if 0 < fl x then PInf else NInf) else Fin (fl x))"
  by (simp only: num_def Let_def ilog2_overflow)

lemma num_dbl [simp]: "dbl x \<Longrightarrow> num x = Fin x"
  by (simp only: num_eq dbl_def not_le [symmetric] if_False simp_thms)

lemma double_num [simp]: "double (num x)"
  by (simp only: num_eq dbl_def not_le split: if_split) (simp only: double.simps fl_idem dbl_def simp_thms)

lemma dbl_0 [simp]: "dbl 0"
  by (simp add: dbl_def)

lemma dbl_uminus [simp]: "dbl (- x) = dbl x"
  by (simp add: dbl_def fl_uminus)

lemma dbl_int:
  assumes "\<bar>m\<bar> < 2 ^ 53"
  shows "dbl (of_int m)"
proof -
  have "\<bar>of_int m\<bar> < (2::rat) ^ 53" using assms by (metis of_int_abs of_int_less_iff of_int_numeral of_int_power)
  also have "(2::rat) ^ 53 \<le> 2 ^ 1024" by (rule power_increasing) simp_all
  finally show ?thesis using assms by (simp add: dbl_def fl_int)
qed

lemma dbl_numeral [simp]:
  "numeral n < (2 ^ 53 :: int) \<Longrightarrow> dbl (numeral n)"
  using dbl_int [of "numeral n"] by simp

lemma dbl_1 [simp]: "dbl 1"
  using dbl_int [of 1] by simp

lemma dbl_nat: "n < 2 ^ 53 \<Longrightarrow> dbl (of_nat n)"
  using dbl_int [of "int n"] by simp

lemma num_0 [simp]: "num 0 = Fin 0"
  by simp

lemma num_Fin_iff: "num x = Fin y \<longleftrightarrow> y = fl x \<and> \<bar>fl x\<bar> < 2 ^ 1024"
  unfolding num_eq not_le [symmetric] by auto

lemma num_not_NaN [simp]: "num x \<noteq> NaN"
  by (simp add: num_def Let_def)

lemma num_between:
  assumes "dbl a" "dbl b" "a \<le> x" "x \<le> b"
  shows "\<exists>y. num x = Fin y \<and> a \<le> y \<and> y \<le> b \<and> dbl y"
proof -
  have "a \<le> fl x" "fl x \<le> b" using assms fl_mono dbl_def by metis+
  moreover from this have "\<bar>fl x\<bar> < 2 ^ 1024" using assms by (auto simp: dbl_def)
  ultimately show ?thesis by (auto simp: num_Fin_iff dbl_def)
qed

lemma num_nonneg: "0 \<le> x \<Longrightarrow> num x = PInf \<or> (\<exists>y. num x = Fin y \<and> 0 \<le> y \<and> dbl y)"
proof (cases "num x")
  case (Fin y)
  then have "double (Fin y)" by (metis double_num)
  moreover assume "0 \<le> x"
  then have "0 \<le> y" using Fin fl_nonneg by (simp add: num_Fin_iff)
  ultimately show ?thesis using Fin by simp
next
  case NInf
  assume "0 \<le> x"
  then have "0 \<le> fl x" by (rule fl_nonneg)
  moreover have "fl x \<le> - (2 ^ 1024) " using NInf unfolding num_eq by (auto simp only: split: if_splits)
  ultimately show ?thesis by (meson neg_less_0_iff_less not_le order_trans zero_less_numeral zero_less_power)
qed simp_all

lemma n_add_comm: "n_add x y = n_add y x"
  by (cases x; cases y) (simp_all add: add.commute)

lemma double_n_add: "double x \<Longrightarrow> double y \<Longrightarrow> double (n_add x y)"
  by (cases x; cases y) simp_all

lemma double_n_neg: "double x \<Longrightarrow> double (n_neg x)"
  by (cases x) simp_all

lemma double_n_sub: "double x \<Longrightarrow> double y \<Longrightarrow> double (n_sub x y)"
  by (simp add: n_sub_def double_n_add double_n_neg)

lemma n_le_Fin [simp]: "n_le (Fin x) (Fin y) \<longleftrightarrow> x \<le> y"
  by (auto simp: n_le_def)

lemma n_le_NaN [simp]: "\<not> n_le NaN x" "\<not> n_le x NaN"
  by (cases x; simp add: n_le_def)+

lemma n_sub_Fin: "n_sub (Fin x) (Fin y) = num (x - y)"
  by (simp add: n_sub_def)

text \<open>A debit guarded by \<open>amount \<le> balance\<close> leaves a finite balance between 0 and the old one.\<close>

lemma n_sub_guarded:
  assumes "dbl b" "0 \<le> a" "a \<le> b"
  shows "\<exists>c. n_sub (Fin b) (Fin a) = Fin c \<and> 0 \<le> c \<and> c \<le> b \<and> dbl c"
  using num_between [of 0 b "b - a"] assms by (simp add: n_sub_Fin)

lemma n_add_int:
  assumes "\<bar>m + n\<bar> < 2 ^ 53"
  shows "n_add (Fin (of_int m)) (Fin (of_int n)) = Fin (of_int (m + n))"
  using dbl_int [OF assms] by simp

lemma n_sub_int:
  assumes "\<bar>m - n\<bar> < 2 ^ 53"
  shows "n_sub (Fin (of_int m)) (Fin (of_int n)) = Fin (of_int (m - n))"
  using dbl_int [OF assms] by (simp add: n_sub_Fin)

lemma n_fixed_int:
  assumes "\<bar>m\<bar> < 2 ^ 53"
  shows "n_fixed d (Fin (of_int m)) = Fin (of_int m)"
proof -
  have "\<bar>of_int m\<bar> * 10 ^ d = (of_int (\<bar>m\<bar> * 10 ^ d) :: rat)" by simp
  then have "fixed_digits d (of_int m) = \<bar>m\<bar> * 10 ^ d"
    unfolding fixed_digits_def by linarith
  then have "sgn (of_int m) * of_int (fixed_digits d (of_int m)) / 10 ^ d = (of_int m :: rat)"
    by (simp add: sgn_mult_abs)
  then show ?thesis using dbl_int [OF assms] by simp
qed

lemma n_fixed_0 [simp]: "n_fixed d (Fin 0) = Fin 0"
  by simp

lemma fixed_digits_nonneg: "0 \<le> fixed_digits d x"
  by (simp add: fixed_digits_def le_floor_iff)

lemma fexp_le:
  assumes "\<bar>x\<bar> < 2 powi (e + 53)" "- 1074 \<le> e" "x \<noteq> 0"
  shows "fexp x \<le> e"
proof -
  have "2 powi ilog2 \<bar>x\<bar> \<le> \<bar>x\<bar>" using ilog2_bounds [of "\<bar>x\<bar>"] assms by simp
  with assms(1) have "(2::rat) powi ilog2 \<bar>x\<bar> < 2 powi (e + 53)" by linarith
  then have "ilog2 \<bar>x\<bar> < e + 53" by simp
  with assms(2) show ?thesis by (simp add: fexp_def)
qed

lemma fl_error_le:
  assumes "\<bar>x\<bar> < 2 powi (e + 53)" "- 1074 \<le> e"
  shows "\<bar>fl x - x\<bar> \<le> 2 powi e / 2"
proof (cases "x = 0")
  case False
  have "\<bar>fl x - x\<bar> \<le> 2 powi fexp x / 2" by (rule fl_error)
  also have "\<dots> \<le> 2 powi e / 2" using fexp_le [OF assms False] by (simp add: divide_right_mono)
  finally show ?thesis .
qed simp

lemma fixed_digits_of_near:
  assumes "\<bar>\<bar>y\<bar> - of_int n / 10 ^ d\<bar> * 10 ^ d < 1 / 2"
  shows "fixed_digits d y = n"
proof -
  have "\<bar>\<bar>y\<bar> - of_int n / 10 ^ d\<bar> * 10 ^ d = \<bar>\<bar>y\<bar> * 10 ^ d - of_int n\<bar>"
  proof -
    have "\<bar>\<bar>y\<bar> - of_int n / 10 ^ d\<bar> * 10 ^ d = \<bar>(\<bar>y\<bar> - of_int n / 10 ^ d) * 10 ^ d\<bar>"
      by (simp add: abs_mult)
    then show ?thesis by (simp add: left_diff_distrib)
  qed
  with assms have "\<bar>\<bar>y\<bar> * 10 ^ d - of_int n\<bar> < 1 / 2" by simp
  then show ?thesis unfolding fixed_digits_def by linarith
qed

text \<open>
  \<open>dec d k\<close> is the double nearest to \<open>k / 10 ^ d\<close>: the number a program means by a decimal with
  \<open>d\<close> digits after the point.  \<open>toFixed\<close> sends every number closer than half a unit to a decimal
  to that decimal, so sums and differences of decimals rounded again are exact decimal sums.
\<close>

definition dec :: "nat \<Rightarrow> int \<Rightarrow> jsnum" where
  "dec d k = num (of_int k / 10 ^ d)"

definition decv :: "nat \<Rightarrow> int \<Rightarrow> rat" where
  "decv d k = fl (of_int k / 10 ^ d)"

lemma n_fixed_near:
  assumes near: "\<bar>y - of_int k / 10 ^ d\<bar> * 10 ^ d < 1 / 2" and y: "\<bar>y\<bar> < 10 ^ 21"
  shows "n_fixed d (Fin y) = dec d k"
proof -
  have p: "(0::rat) < 10 ^ d" by simp
  have n: "fixed_digits d y = \<bar>k\<bar>"
  proof (rule fixed_digits_of_near)
    have "\<bar>\<bar>y\<bar> - \<bar>of_int k / 10 ^ d\<bar>\<bar> \<le> \<bar>y - of_int k / 10 ^ d\<bar>" by (rule abs_triangle_ineq3)
    then have "\<bar>\<bar>y\<bar> - of_int \<bar>k\<bar> / 10 ^ d\<bar> * 10 ^ d \<le> \<bar>y - of_int k / 10 ^ d\<bar> * 10 ^ d"
      by (intro mult_right_mono) (simp_all add: abs_divide)
    with near show "\<bar>\<bar>y\<bar> - of_int \<bar>k\<bar> / 10 ^ d\<bar> * 10 ^ d < 1 / 2" by linarith
  qed
  have s: "sgn y * of_int \<bar>k\<bar> = of_int k"
  proof (cases "k = 0")
    case False
    then have "1 \<le> \<bar>of_int k :: rat\<bar>" by simp
    moreover have "\<bar>y * 10 ^ d - of_int k\<bar> < 1 / 2"
    proof -
      have "\<bar>y - of_int k / 10 ^ d\<bar> * 10 ^ d = \<bar>(y - of_int k / 10 ^ d) * 10 ^ d\<bar>"
        by (simp add: abs_mult)
      then show ?thesis using near by (simp add: left_diff_distrib)
    qed
    ultimately have "sgn (y * 10 ^ d) = sgn (of_int k :: rat)"
      by (auto simp: sgn_if abs_if split: if_splits)
    then have "sgn y = sgn (of_int k :: rat)" by (simp add: sgn_mult)
    then show ?thesis by (simp add: sgn_mult_abs)
  qed simp
  show ?thesis using y by (simp add: n s [simplified] dec_def)
qed

lemma decv_error:
  assumes "\<bar>of_int k\<bar> < (2::rat) ^ 42 * 10 ^ d" and "d \<le> 3"
  shows "\<bar>decv d k - of_int k / 10 ^ d\<bar> * 10 ^ d \<le> 1 / 4"
proof -
  have "\<bar>of_int k / 10 ^ d\<bar> < (2::rat) powi 42"
    using assms(1) by (simp add: abs_divide divide_less_eq powi2_of_int)
  then have "\<bar>decv d k - of_int k / 10 ^ d\<bar> \<le> 2 powi (-11) / 2"
    unfolding decv_def by (intro fl_error_le) simp_all
  then have "\<bar>decv d k - of_int k / 10 ^ d\<bar> * 10 ^ d \<le> 2 powi (-11) / 2 * 10 ^ 3"
    using assms(2) by (intro mult_mono power_increasing) simp_all
  also have "\<dots> \<le> 1 / 4" by (simp add: power_int_def power_divide)
  finally show ?thesis .
qed

lemma decv_bound:
  assumes "\<bar>of_int k\<bar> < (2::rat) ^ 42 * 10 ^ d" and "d \<le> 3"
  shows "\<bar>decv d k\<bar> < 2 ^ 42 + 1"
proof -
  have "\<bar>of_int k / 10 ^ d\<bar> < (2::rat) ^ 42"
    using assms(1) by (simp add: abs_divide divide_less_eq)
  moreover have "\<bar>decv d k - of_int k / 10 ^ d\<bar> \<le> \<bar>decv d k - of_int k / 10 ^ d\<bar> * 10 ^ d"
    using mult_left_mono [of 1 "10 ^ d" "\<bar>decv d k - of_int k / 10 ^ d\<bar>"] by simp
  moreover note decv_error [OF assms]
  ultimately show ?thesis by linarith
qed

lemma big_power: "(10::rat) ^ 21 < 2 ^ 1024"
proof -
  have "(10::rat) ^ 21 < 2 ^ 70" by simp
  also have "(2::rat) ^ 70 \<le> 2 ^ 1024" by (rule power_increasing) simp_all
  finally show ?thesis .
qed

lemma dec_Fin:
  assumes "\<bar>of_int k\<bar> < (2::rat) ^ 42 * 10 ^ d" and "d \<le> 3"
  shows "dec d k = Fin (decv d k)"
proof -
  have "\<bar>decv d k\<bar> < 10 ^ 21" using decv_bound [OF assms] by simp
  then have "\<bar>decv d k\<bar> < 2 ^ 1024" using big_power by (rule less_trans)
  then show ?thesis unfolding dec_def num_Fin_iff decv_def by blast
qed

lemma n_fixed_dec:
  assumes "\<bar>of_int k\<bar> < (2::rat) ^ 42 * 10 ^ d" and "d \<le> 3"
  shows "n_fixed d (dec d k) = dec d k"
proof -
  have "\<bar>decv d k - of_int k / 10 ^ d\<bar> * 10 ^ d < 1 / 2" using decv_error [OF assms] by linarith
  moreover have "\<bar>decv d k\<bar> < 10 ^ 21" using decv_bound [OF assms] by simp
  ultimately show ?thesis unfolding dec_Fin [OF assms] by (metis n_fixed_near dec_Fin [OF assms])
qed

text \<open>
  The decimal a finite amount rounds to.  It is monotone in the amount; rounding an amount below
  \<open>2 ^ 40\<close> twice is rounding it once.
\<close>

definition fixed_int :: "nat \<Rightarrow> rat \<Rightarrow> int" where
  "fixed_int d x = (if x < 0 then - fixed_digits d x else fixed_digits d x)"

lemma n_fixed_eq_dec: "\<bar>x\<bar> < 10 ^ 21 \<Longrightarrow> n_fixed d (Fin x) = dec d (fixed_int d x)"
proof -
  assume x: "\<bar>x\<bar> < 10 ^ 21"
  have "fixed_digits d 0 = 0" by (simp add: fixed_digits_def)
  then show ?thesis using x by (auto simp: dec_def fixed_int_def sgn_if)
qed

lemma fixed_int_mono: "x \<le> y \<Longrightarrow> fixed_int d x \<le> fixed_int d y"
proof -
  assume le: "x \<le> y"
  have p: "x * 10 ^ d \<le> y * 10 ^ d" using le by (intro mult_right_mono) simp_all
  have nn: "0 \<le> fixed_digits d z" for z by (rule fixed_digits_nonneg)
  consider "0 \<le> x" "0 \<le> y" | "x < 0" "y < 0" | "x < 0" "0 \<le> y" using le by linarith
  then show "fixed_int d x \<le> fixed_int d y"
  proof cases
    case 1
    have "fixed_digits d x \<le> fixed_digits d y"
      unfolding fixed_digits_def using p 1 by (intro floor_mono) simp
    then show ?thesis using 1 by (simp add: fixed_int_def)
  next
    case 2
    have "fixed_digits d y \<le> fixed_digits d x"
      unfolding fixed_digits_def using p 2 by (intro floor_mono) simp
    then show ?thesis using 2 by (simp add: fixed_int_def)
  next
    case 3
    then show ?thesis using nn [of x] nn [of y] by (simp add: fixed_int_def)
  qed
qed

lemma fixed_int_0 [simp]: "fixed_int d 0 = 0"
  by (simp add: fixed_int_def fixed_digits_def)

lemma fixed_int_nonneg: "0 \<le> x \<Longrightarrow> 0 \<le> fixed_int d x"
  using fixed_int_mono [of 0 x d] by simp

lemma fixed_int_bound: "\<bar>of_int (fixed_int d x)\<bar> \<le> (\<bar>x\<bar> + 1) * 10 ^ d"
proof -
  have p: "(1::rat) \<le> 10 ^ d" by simp
  have "of_int (fixed_digits d x) \<le> \<bar>x\<bar> * 10 ^ d + 1 / 2" by (simp add: fixed_digits_def)
  also have "\<dots> \<le> (\<bar>x\<bar> + 1) * 10 ^ d" unfolding distrib_right using p by linarith
  finally have "of_int (fixed_digits d x) \<le> (\<bar>x\<bar> + 1) * 10 ^ d" .
  moreover have "\<bar>of_int (fixed_int d x) :: rat\<bar> = of_int (fixed_digits d x)"
    using fixed_digits_nonneg [of d x] by (simp add: fixed_int_def)
  ultimately show ?thesis by metis
qed

lemma n_fixed_is_dec:
  assumes x: "\<bar>x\<bar> < 2 ^ 40"
  obtains k where "n_fixed d (Fin x) = dec d k" "\<bar>of_int k\<bar> < (2::rat) ^ 42 * 10 ^ d"
proof -
  have "\<bar>of_int (fixed_int d x)\<bar> \<le> (\<bar>x\<bar> + 1) * 10 ^ d" by (rule fixed_int_bound)
  also have "\<dots> < (2::rat) ^ 42 * 10 ^ d" using x by (intro mult_strict_right_mono) simp_all
  finally have "\<bar>of_int (fixed_int d x)\<bar> < (2::rat) ^ 42 * 10 ^ d" .
  moreover have "n_fixed d (Fin x) = dec d (fixed_int d x)" using x by (intro n_fixed_eq_dec) simp
  ultimately show thesis by (rule that [rotated])
qed

lemma n_fixed_idem:
  assumes "\<bar>x\<bar> < 2 ^ 40" and "d \<le> 3"
  shows "n_fixed d (n_fixed d (Fin x)) = n_fixed d (Fin x)"
proof -
  obtain k where "n_fixed d (Fin x) = dec d k" "\<bar>of_int k\<bar> < (2::rat) ^ 42 * 10 ^ d"
    using n_fixed_is_dec [OF assms(1)] by blast
  then show ?thesis using n_fixed_dec assms(2) by simp
qed

text \<open>Decimal addition and subtraction through doubles are exact.\<close>

lemma dec_add:
  assumes a: "\<bar>of_int a\<bar> < (2::rat) ^ 40 * 10 ^ d" and b: "\<bar>of_int b\<bar> < (2::rat) ^ 40 * 10 ^ d"
    and d: "d \<le> 3"
  shows "n_fixed d (n_add (dec d a) (dec d b)) = dec d (a + b)"
proof -
  have p: "(0::rat) < 10 ^ d" "(1::rat) \<le> 10 ^ d" by simp_all
  have up: "(2::rat) ^ 40 * 10 ^ d < 2 ^ 42 * 10 ^ d" by simp
  have a': "\<bar>of_int a\<bar> < (2::rat) ^ 42 * 10 ^ d" and b': "\<bar>of_int b\<bar> < (2::rat) ^ 42 * 10 ^ d"
    using a b up by linarith+
  let ?s = "decv d a + decv d b"
  have ea: "\<bar>decv d a - of_int a / 10 ^ d\<bar> \<le> 2 powi (-13) / 2"
    and eb: "\<bar>decv d b - of_int b / 10 ^ d\<bar> \<le> 2 powi (-13) / 2"
    using a b unfolding decv_def
    by (intro fl_error_le; simp add: abs_divide divide_less_eq powi2_of_int)+
  have qa: "\<bar>of_int a / 10 ^ d\<bar> < (2::rat) ^ 40" and qb: "\<bar>of_int b / 10 ^ d\<bar> < (2::rat) ^ 40"
    using a b by (simp_all add: abs_divide divide_less_eq)
  have one: "(2::rat) powi (-13) \<le> 1" "(2::rat) powi (-11) \<le> 1"
    by (simp_all add: power_int_def power_divide)
  have "\<bar>decv d a\<bar> \<le> \<bar>of_int a / 10 ^ d\<bar> + \<bar>decv d a - of_int a / 10 ^ d\<bar>"
    and "\<bar>decv d b\<bar> \<le> \<bar>of_int b / 10 ^ d\<bar> + \<bar>decv d b - of_int b / 10 ^ d\<bar>" by linarith+
  then have "\<bar>decv d a\<bar> < 2 ^ 40 + 1" "\<bar>decv d b\<bar> < 2 ^ 40 + 1"
    using ea eb qa qb one by linarith+
  then have s: "\<bar>?s\<bar> < 2 ^ 42" using abs_triangle_ineq [of "decv d a" "decv d b"] by simp
  then have es: "\<bar>fl ?s - ?s\<bar> \<le> 2 powi (-11) / 2"
    by (intro fl_error_le) (simp_all add: powi2_of_int)
  have "\<bar>fl ?s - of_int (a + b) / 10 ^ d\<bar> \<le> 2 powi (-11)"
  proof -
    have "of_int (a + b) / 10 ^ d = of_int a / 10 ^ d + (of_int b / 10 ^ d :: rat)"
      by (simp add: add_divide_distrib)
    moreover have "(2::rat) powi (-11) = 4 * 2 powi (-13)" by (simp add: power_int_def power_divide)
    ultimately show ?thesis using ea eb es by linarith
  qed
  then have "\<bar>fl ?s - of_int (a + b) / 10 ^ d\<bar> * 10 ^ d \<le> 2 powi (-11) * 10 ^ 3"
    using d by (intro mult_mono power_increasing) simp_all
  also have "\<dots> < 1 / 2" by (simp add: power_int_def power_divide)
  finally have near: "\<bar>fl ?s - of_int (a + b) / 10 ^ d\<bar> * 10 ^ d < 1 / 2" .
  have "\<bar>fl ?s\<bar> \<le> \<bar>?s\<bar> + \<bar>fl ?s - ?s\<bar>" by linarith
  then have "\<bar>fl ?s\<bar> < 2 ^ 42 + 1" using s es one by linarith
  then have small: "\<bar>fl ?s\<bar> < 10 ^ 21" by simp
  then have "\<bar>fl ?s\<bar> < 2 ^ 1024" using big_power by (rule less_trans)
  then have "num ?s = Fin (fl ?s)" unfolding num_Fin_iff by blast
  then show ?thesis using near small
    by (simp add: dec_Fin [OF a' d] dec_Fin [OF b' d] n_fixed_near del: n_fixed.simps)
qed

lemma num_uminus: "num (- x) = n_neg (num x)"
proof (cases "2 ^ 1024 \<le> \<bar>fl x\<bar>")
  case True
  have "(0::rat) < 2 ^ 1024" by (simp only: zero_less_power zero_less_numeral)
  then have "fl x \<noteq> 0" using True by auto
  then show ?thesis using True unfolding num_eq fl_uminus abs_minus_cancel by auto
next
  case False
  then show ?thesis unfolding num_eq fl_uminus abs_minus_cancel by simp
qed

lemma dec_neg: "n_neg (dec d k) = dec d (- k)"
  by (simp add: dec_def flip: num_uminus)

lemma dec_sub:
  assumes "\<bar>of_int a\<bar> < (2::rat) ^ 40 * 10 ^ d" and "\<bar>of_int b\<bar> < (2::rat) ^ 40 * 10 ^ d" "d \<le> 3"
  shows "n_fixed d (n_sub (dec d a) (dec d b)) = dec d (a - b)"
  using dec_add [of a d "- b"] assms by (simp add: n_sub_def dec_neg)

lemma n_le_num: "x \<le> y \<Longrightarrow> n_le (num x) (num y)"
proof -
  assume "x \<le> y"
  then have "fl x \<le> fl y" by (rule fl_mono)
  then show ?thesis unfolding num_eq n_le_def by (auto split: if_splits simp: abs_if)
qed


lemma n_le_refl: "x \<noteq> NaN \<Longrightarrow> n_le x x"
  by (cases x) (simp_all add: n_le_def)

lemma n_le_trans: "n_le x y \<Longrightarrow> n_le y z \<Longrightarrow> n_le x z"
  by (cases x; cases y; cases z) (auto simp: n_le_def)

lemma dec_mono: "a \<le> b \<Longrightarrow> n_le (dec d a) (dec d b)"
  unfolding dec_def by (intro n_le_num divide_right_mono) simp_all

lemma n_fixed_mono:
  assumes "x \<le> y" "\<bar>x\<bar> < 10 ^ 21" "\<bar>y\<bar> < 10 ^ 21"
  shows "n_le (n_fixed d (Fin x)) (n_fixed d (Fin y))"
  using assms dec_mono [OF fixed_int_mono [OF assms(1)]] by (simp only: n_fixed_eq_dec)

declare n_fixed.simps [simp del]

lemma n_fixed_special [simp]: "n_fixed d NaN = NaN" "n_fixed d PInf = PInf" "n_fixed d NInf = NInf"
  by (simp_all add: n_fixed.simps)

lemma frac_pos [simp]: "(0::rat) < numeral a / numeral b"
  by (simp add: zero_less_divide_iff)

lemma n_fixed_finite_nonneg:
  assumes "0 \<le> x"
  shows "\<exists>y. n_fixed d (Fin x) = Fin y \<and> 0 \<le> y"
proof (cases "10 ^ 21 \<le> \<bar>x\<bar>")
  case False
  then have x: "x < 10 ^ 21" using assms by simp
  have p: "(1::rat) \<le> 10 ^ d" by simp
  let ?q = "sgn x * of_int (fixed_digits d x) / 10 ^ d"
  have "of_int (fixed_digits d x) \<le> \<bar>x\<bar> * 10 ^ d + 1 / 2"
    by (simp add: fixed_digits_def)
  also have "\<dots> \<le> (\<bar>x\<bar> + 1) * 10 ^ d" unfolding distrib_right using p by linarith
  finally have "of_int (fixed_digits d x) / 10 ^ d \<le> \<bar>x\<bar> + 1" by (simp add: divide_le_eq)
  also have "\<dots> \<le> 2 powi 70" using x assms by (simp add: powi2_of_int)
  finally have "?q \<le> 2 powi 70" using assms by (auto simp: sgn_if)
  moreover have "0 \<le> ?q" using assms fixed_digits_nonneg [of d x] by (auto simp: sgn_if)
  moreover have "dbl (2 powi 70)" by (simp only: dbl_def fl_powi) (simp add: powi2_of_int)
  ultimately show ?thesis using num_between [of 0 "2 powi 70" ?q] False by (auto simp: n_fixed.simps)
qed (use assms in \<open>simp add: n_fixed.simps\<close>)

lemma dec_pos_Fin:
  assumes k: "1 \<le> k" "\<bar>of_int k\<bar> < (2::rat) ^ 42 * 10 ^ d" and d: "d \<le> 3"
  shows "2 powi (-10) \<le> decv d k"
  unfolding decv_def
proof (rule fl_lower)
  have p: "(10::rat) ^ d \<le> 10 ^ 3" using d by (intro power_increasing) simp_all
  have "(1::rat) \<le> of_int k" using k by simp
  then have "1 / 10 ^ d \<le> of_int k / (10::rat) ^ d" by (intro divide_right_mono) simp_all
  moreover have "1 / 10 ^ 3 \<le> 1 / (10::rat) ^ d" using p by (intro divide_left_mono) simp_all
  moreover have "(2::rat) powi (-10) \<le> 1 / 10 ^ 3" by (simp add: power_int_def power_divide)
  ultimately show "2 powi (-10) \<le> of_int k / (10::rat) ^ d" by linarith
  then show "0 < of_int k / (10::rat) ^ d" using powi2_pos [of "-10"] by linarith
qed simp

lemma dec_sign:
  assumes k: "\<bar>of_int k\<bar> < (2::rat) ^ 42 * 10 ^ d" and d: "d \<le> 3"
  shows "n_lt (Fin 0) (dec d k) \<longleftrightarrow> 0 < k"
proof (cases "0 < k")
  case True
  then have "0 < decv d k" using dec_pos_Fin [OF _ k d] powi2_pos [of "-10"] by linarith
  then show ?thesis using True by (simp add: dec_Fin [OF k d])
next
  case False
  then have "of_int k / (10::rat) ^ d \<le> 0" by (simp add: divide_nonpos_pos)
  then have "decv d k \<le> 0" unfolding decv_def by (rule fl_nonpos)
  then show ?thesis using False by (simp add: dec_Fin [OF k d])
qed

lemma decv_mono: "a \<le> b \<Longrightarrow> decv d a \<le> decv d b"
  unfolding decv_def by (intro fl_mono divide_right_mono) simp_all

end
