(* ===== verification/Js_Value.thy ===== *)
theory Js_Value
  imports Js_Number
begin

text \<open>
  JavaScript values and the conversions the code relies on: truthiness, \<open>Number(v)\<close>,
  \<open>String(v)\<close>, \<open>trim\<close>, \<open>toLowerCase\<close>.  A string is the list of the bytes of its UTF-8 form, so
  that string equality is byte equality; case mapping is modelled for ASCII letters, the only
  ones in the keys the code compares.
\<close>

section \<open>Strings\<close>

definition utf8 :: "nat list \<Rightarrow> string" where
  "utf8 bs = map char_of bs"

definition is_digit :: "char \<Rightarrow> bool" where
  "is_digit c \<longleftrightarrow> 48 \<le> (of_char c :: int) \<and> (of_char c :: int) \<le> 57"

definition is_upper :: "char \<Rightarrow> bool" where
  "is_upper c \<longleftrightarrow> 65 \<le> (of_char c :: int) \<and> (of_char c :: int) \<le> 90"

definition is_lower :: "char \<Rightarrow> bool" where
  "is_lower c \<longleftrightarrow> 97 \<le> (of_char c :: int) \<and> (of_char c :: int) \<le> 122"

definition lower_char :: "char \<Rightarrow> char" where
  "lower_char c = (if is_upper c then char_of (of_char c + (32::int)) else c)"

definition upper_char :: "char \<Rightarrow> char" where
  "upper_char c = (if is_lower c then char_of (of_char c - (32::int)) else c)"

definition toLowerCase :: "string \<Rightarrow> string" where
  "toLowerCase s = map lower_char s"

definition toUpperCase :: "string \<Rightarrow> string" where
  "toUpperCase s = map upper_char s"

text \<open>The white space and line terminators that \<open>trim\<close> removes, in UTF-8.\<close>

definition js_spaces :: "string list" where
  "js_spaces = map utf8
     ([[9], [10], [11], [12], [13], [32], [194, 160], [225, 154, 128]]
      @ map (\<lambda>b. [226, 128, b]) [128 ..< 139]
      @ [[226, 128, 168], [226, 128, 169], [226, 128, 175], [226, 129, 159], [227, 128, 128],
         [239, 187, 191]])"

lemma js_spaces_code [code]:
  "js_spaces = [[CHR 0x09], [CHR 0x0A], [CHR 0x0B], [CHR 0x0C], [CHR 0x0D], [CHR 0x20],
     [CHR 0xC2, CHR 0xA0], [CHR 0xE1, CHR 0x9A, CHR 0x80],
     [CHR 0xE2, CHR 0x80, CHR 0x80], [CHR 0xE2, CHR 0x80, CHR 0x81], [CHR 0xE2, CHR 0x80, CHR 0x82],
     [CHR 0xE2, CHR 0x80, CHR 0x83], [CHR 0xE2, CHR 0x80, CHR 0x84], [CHR 0xE2, CHR 0x80, CHR 0x85],
     [CHR 0xE2, CHR 0x80, CHR 0x86], [CHR 0xE2, CHR 0x80, CHR 0x87], [CHR 0xE2, CHR 0x80, CHR 0x88],
     [CHR 0xE2, CHR 0x80, CHR 0x89], [CHR 0xE2, CHR 0x80, CHR 0x8A],
     [CHR 0xE2, CHR 0x80, CHR 0xA8], [CHR 0xE2, CHR 0x80, CHR 0xA9], [CHR 0xE2, CHR 0x80, CHR 0xAF],
     [CHR 0xE2, CHR 0x81, CHR 0x9F], [CHR 0xE3, CHR 0x80, CHR 0x80], [CHR 0xEF, CHR 0xBB, CHR 0xBF]]"
  by code_simp

fun has_prefix :: "string \<Rightarrow> string \<Rightarrow> bool" where
  "has_prefix [] _ = True"
| "has_prefix (_ # _) [] = False"
| "has_prefix (a # as) (b # bs) = (a = b \<and> has_prefix as bs)"

fun strip_front :: "string list \<Rightarrow> nat \<Rightarrow> string \<Rightarrow> string" where
  "strip_front ws 0 s = s"
| "strip_front ws (Suc n) s = (case find (\<lambda>w. has_prefix w s) ws of
     None \<Rightarrow> s | Some w \<Rightarrow> strip_front ws n (drop (length w) s))"

definition trimStart :: "string \<Rightarrow> string" where
  "trimStart s = strip_front js_spaces (length s) s"

definition trim :: "string \<Rightarrow> string" where
  "trim s = rev (strip_front (map rev js_spaces) (length s) (rev (trimStart s)))"

text \<open>Decimal digits of a nonnegative integer.\<close>

definition digit_char :: "int \<Rightarrow> char" where
  "digit_char d = char_of (48 + d)"

function pos_digits :: "int \<Rightarrow> string" where
  "pos_digits n = (if n < 10 then [digit_char n]
                   else pos_digits (n div 10) @ [digit_char (n mod 10)])"
  by pat_completeness auto
termination
  by (relation "measure nat") auto

declare pos_digits.simps [simp del]

definition int_str :: "int \<Rightarrow> string" where
  "int_str i = (if i < 0 then CHR ''-'' # pos_digits (- i) else pos_digits i)"

definition digits_val :: "string \<Rightarrow> int" where
  "digits_val s = fold (\<lambda>c n. 10 * n + (of_char c - 48)) s 0"

section \<open>Numbers to strings\<close>

definition ilog10 :: "rat \<Rightarrow> int" where
  "ilog10 x = (let (p, q) = quotient_of x;
                   d = int (length (pos_digits p)) - int (length (pos_digits q))
               in if 10 powi d \<le> x then d else d - 1)"

text \<open>The shortest decimal significand of at most 17 digits that reads back as \<open>x\<close>.\<close>

definition sig_at :: "rat \<Rightarrow> nat \<Rightarrow> int \<times> int" where
  "sig_at x k = (let n = ilog10 x + 1; s = rne (x * 10 powi (int k - n))
     in if s = 10 ^ k then (s div 10, n + 1) else (s, n))"

definition shortest :: "rat \<Rightarrow> nat \<times> int \<times> int" where
  "shortest x = (case find (\<lambda>k. let (s, n) = sig_at x k in fl (of_int s * 10 powi (n - int k)) = x)
                   [1 ..< 18] of
     None \<Rightarrow> (17, sig_at x 17) | Some k \<Rightarrow> (k, sig_at x k))"

definition pos_str :: "rat \<Rightarrow> string" where
  "pos_str x = (let (k, s, n) = shortest x; ds = pos_digits s
     in if int k \<le> n \<and> n \<le> 21 then ds @ replicate (nat n - k) (CHR ''0'')
        else if 0 < n \<and> n \<le> 21 then take (nat n) ds @ [CHR ''.''] @ drop (nat n) ds
        else if -6 < n \<and> n \<le> 0 then ''0.'' @ replicate (nat (- n)) (CHR ''0'') @ ds
        else take 1 ds @ (if k = 1 then [] else CHR ''.'' # drop 1 ds)
             @ [CHR ''e''] @ (if n < 1 then [] else [CHR ''+'']) @ int_str (n - 1))"

fun num_str :: "jsnum \<Rightarrow> string" where
  "num_str NaN = ''NaN''"
| "num_str PInf = ''Infinity''"
| "num_str NInf = ''-Infinity''"
| "num_str (Fin x) = (if x = 0 then ''0'' else if x < 0 then CHR ''-'' # pos_str (- x) else pos_str x)"

section \<open>Strings to numbers\<close>

definition split_digits :: "string \<Rightarrow> string \<times> string" where
  "split_digits s = (takeWhile is_digit s, dropWhile is_digit s)"

text \<open>An optional exponent part that must end the string.\<close>

definition exponent :: "string \<Rightarrow> int option" where
  "exponent s = (case s of [] \<Rightarrow> Some 0
     | c # r \<Rightarrow> if c = CHR ''e'' \<or> c = CHR ''E'' then
         (let (sg, r') = (case r of [] \<Rightarrow> (1, []) | d # t \<Rightarrow>
             if d = CHR ''+'' then (1, t) else if d = CHR ''-'' then (-1, t) else (1, r));
              (ds, rest) = split_digits r'
          in if ds = [] \<or> rest \<noteq> [] then None else Some (sg * digits_val ds))
       else None)"

definition decimal :: "string \<Rightarrow> rat option" where
  "decimal s = (let (ip, r) = split_digits s;
       (fp, r') = (case r of c # t \<Rightarrow> if c = CHR ''.'' then split_digits t else ([], r) | [] \<Rightarrow> ([], []))
     in if ip = [] \<and> fp = [] then None
        else map_option (\<lambda>e. of_int (digits_val (ip @ fp)) * 10 powi (e - int (length fp)))
               (exponent r'))"

definition unsigned_num :: "string \<Rightarrow> jsnum" where
  "unsigned_num s = (if s = ''Infinity'' then PInf
     else case decimal s of None \<Rightarrow> NaN | Some x \<Rightarrow> num x)"

definition radix_digit :: "int \<Rightarrow> char \<Rightarrow> int option" where
  "radix_digit b c = (let n = (of_char (lower_char c) :: int);
       d = (if 48 \<le> n \<and> n \<le> 57 then n - 48 else if 97 \<le> n \<and> n \<le> 122 then n - 87 else 99)
     in if d < b then Some d else None)"

definition radix_num :: "int \<Rightarrow> string \<Rightarrow> jsnum" where
  "radix_num b s = (if s = [] \<or> (\<exists>c \<in> set s. radix_digit b c = None) then NaN
     else num (of_int (fold (\<lambda>c n. b * n + the (radix_digit b c)) s 0)))"

definition str_num :: "string \<Rightarrow> jsnum" where
  "str_num s = (let t = trim s; p = toLowerCase (take 2 t) in
     if t = [] then Fin 0
     else if p = ''0x'' then radix_num 16 (drop 2 t)
     else if p = ''0o'' then radix_num 8 (drop 2 t)
     else if p = ''0b'' then radix_num 2 (drop 2 t)
     else if hd t = CHR ''-'' then n_neg (unsigned_num (tl t))
     else if hd t = CHR ''+'' then unsigned_num (tl t)
     else unsigned_num t)"

section \<open>Values\<close>

datatype jsval = Undef | Null | Bool bool | Num jsnum | Str string
  | Arr "jsval list" | Obj "(string \<times> jsval) list" | JMap "(string \<times> jsval) list"

text \<open>\<open>JMap\<close> is a \<open>Map\<close> with string keys, which is how a loaded document holds a map field.\<close>

fun truthy :: "jsval \<Rightarrow> bool" where
  "truthy Undef = False"
| "truthy Null = False"
| "truthy (Bool b) = b"
| "truthy (Num n) = (n \<noteq> NaN \<and> n \<noteq> Fin 0)"
| "truthy (Str s) = (s \<noteq> [])"
| "truthy (Arr _) = True"
| "truthy (Obj _) = True"
| "truthy (JMap _) = True"

definition nullish :: "jsval \<Rightarrow> bool" where
  "nullish v \<longleftrightarrow> v = Undef \<or> v = Null"

text \<open>\<open>a || b\<close> and \<open>a ?? b\<close> as values.\<close>

definition or_else :: "jsval \<Rightarrow> jsval \<Rightarrow> jsval" where
  "or_else a b = (if truthy a then a else b)"

definition coalesce :: "jsval \<Rightarrow> jsval \<Rightarrow> jsval" where
  "coalesce a b = (if nullish a then b else a)"

fun join_with :: "string \<Rightarrow> string list \<Rightarrow> string" where
  "join_with sep [] = []"
| "join_with sep [x] = x"
| "join_with sep (x # y # zs) = x @ sep @ join_with sep (y # zs)"

fun toString :: "jsval \<Rightarrow> string" where
  "toString Undef = ''undefined''"
| "toString Null = ''null''"
| "toString (Bool b) = (if b then ''true'' else ''false'')"
| "toString (Num n) = num_str n"
| "toString (Str s) = s"
| "toString (Arr vs) = join_with '','' (map (\<lambda>v. if nullish v then [] else toString v) vs)"
| "toString (Obj _) = ''[object Object]''"
| "toString (JMap _) = ''[object Map]''"

fun toNumber :: "jsval \<Rightarrow> jsnum" where
  "toNumber Undef = NaN"
| "toNumber Null = Fin 0"
| "toNumber (Bool b) = Fin (if b then 1 else 0)"
| "toNumber (Num n) = n"
| "toNumber (Str s) = str_num s"
| "toNumber v = str_num (toString v)"

text \<open>Property access: a missing property, and any property of a primitive here, is undefined.\<close>

fun get :: "jsval \<Rightarrow> string \<Rightarrow> jsval" where
  "get (Obj kvs) k = (case map_of kvs k of None \<Rightarrow> Undef | Some v \<Rightarrow> v)"
| "get _ _ = Undef"

text \<open>Looking a key up in what may be a \<open>Map\<close> or a plain object.\<close>

fun map_get :: "jsval \<Rightarrow> string \<Rightarrow> jsval" where
  "map_get (JMap kvs) k = (case map_of kvs k of None \<Rightarrow> Undef | Some v \<Rightarrow> v)"
| "map_get v k = get v k"

text \<open>\<open>String(v || '').trim()\<close>, the commonest way the code reads a field.\<close>

definition clean :: "jsval \<Rightarrow> string" where
  "clean v = trim (toString (or_else v (Str [])))"

text \<open>A bound on the numeric reading of a value; infinities and NaN are never used as amounts.\<close>

definition below :: "rat \<Rightarrow> jsval \<Rightarrow> bool" where
  "below b v = (case toNumber v of Fin z \<Rightarrow> z < b | _ \<Rightarrow> True)"

section \<open>Setting a member\<close>

fun obj_set :: "string \<Rightarrow> jsval \<Rightarrow> (string \<times> jsval) list \<Rightarrow> (string \<times> jsval) list" where
  "obj_set k v [] = [(k, v)]"
| "obj_set k v ((k', v') # kvs) = (if k = k' then (k, v) # kvs else (k', v') # obj_set k v kvs)"

lemma get_obj_set: "get (Obj (obj_set k v kvs)) f = (if f = k then v else get (Obj kvs) f)"
  by (induction k v kvs rule: obj_set.induct) auto

section \<open>Trimming visible characters\<close>

definition is_graph :: "char \<Rightarrow> bool" where
  "is_graph c \<longleftrightarrow> (let b = (of_char c :: int) in 33 \<le> b \<and> b \<le> 126)"

lemma spaces_not_graph: "\<forall>w \<in> set (js_spaces @ map rev js_spaces). w \<noteq> [] \<and> \<not> is_graph (hd w)"
  by code_simp

lemma no_space_prefix:
  assumes "set ws \<subseteq> set (js_spaces @ map rev js_spaces)" "is_graph c"
  shows "find (\<lambda>w. has_prefix w (c # cs)) ws = None"
  unfolding find_None_iff
proof
  assume "\<exists>w. w \<in> set ws \<and> has_prefix w (c # cs)"
  then obtain w where w: "w \<in> set ws" "has_prefix w (c # cs)" by blast
  then have "w \<noteq> [] \<and> \<not> is_graph (hd w)" using spaces_not_graph assms(1) by blast
  then show False using w(2) assms(2) by (cases w) auto
qed

lemma strip_graph:
  assumes "set ws \<subseteq> set (js_spaces @ map rev js_spaces)" "s = [] \<or> is_graph (hd s)"
  shows "strip_front ws (length s) s = s"
proof (cases s)
  case (Cons c cs)
  then show ?thesis using assms(2) no_space_prefix [OF assms(1), of c cs] by simp
qed simp

lemma trim_graph:
  assumes "s = [] \<or> is_graph (hd s) \<and> is_graph (last s)"
  shows "trim s = s"
proof -
  have "trimStart s = s" unfolding trimStart_def using assms by (intro strip_graph) auto
  moreover have "strip_front (map rev js_spaces) (length (rev s)) (rev s) = rev s"
    using assms by (intro strip_graph) (auto simp: hd_rev)
  ultimately show ?thesis by (simp add: trim_def)
qed

lemma clean_graph: "s \<noteq> [] \<Longrightarrow> is_graph (hd s) \<Longrightarrow> is_graph (last s) \<Longrightarrow> clean (Str s) = s"
  by (simp add: clean_def or_else_def trim_graph)

end
