(* ===== verification/Pricing.thy ===== *)
theory Pricing
  imports Js_Value
begin

text \<open>
  Exchange rates and transfer costs: \<open>utils/transferPricing.js\<close>, \<open>utils/rateHelper.js\<close> and the
  part of \<open>utils/mobileTransferServiceCatalog.js\<close> they read.  Settings and company documents are
  dynamic values, as the code receives them.  The display labels of the services are left out;
  tables are looked up by their own keys.
\<close>

section \<open>Transfer pricing (\<open>transferPricing.js\<close>)\<close>

record pricing_def =
  amountCurrencyCode :: string
  rateDirection :: string

definition DEFAULT_PRICING :: pricing_def where
  "DEFAULT_PRICING = \<lparr>amountCurrencyCode = ''EGP'', rateDirection = ''lyd_to_source''\<rparr>"

definition SERVICE_PRICING :: "(string \<times> pricing_def) list" where
  "SERVICE_PRICING =
     [(''sefa_niger'', \<lparr>amountCurrencyCode = ''XOF'', rateDirection = ''source_to_lyd''\<rparr>),
      (''bankak_sudan'', \<lparr>amountCurrencyCode = ''SDG'', rateDirection = ''lyd_to_source''\<rparr>)]"

definition round_num :: "jsnum \<Rightarrow> nat \<Rightarrow> jsnum" where
  "round_num value precision = (if \<not> isFinite value then Fin 0 else n_fixed precision value)"

definition getTransferPricingDefinition :: "jsval \<Rightarrow> pricing_def" where
  "getTransferPricingDefinition serviceKey =
     (case map_of SERVICE_PRICING (clean serviceKey) of None \<Rightarrow> DEFAULT_PRICING | Some p \<Rightarrow> p)"

definition isSourceToLydRate :: "jsval \<Rightarrow> bool" where
  "isSourceToLydRate serviceKey =
     (rateDirection (getTransferPricingDefinition serviceKey) = ''source_to_lyd'')"

definition calculateTransferCostLYD :: "jsval \<Rightarrow> jsval \<Rightarrow> jsval \<Rightarrow> nat \<Rightarrow> jsnum" where
  "calculateTransferCostLYD serviceKey amount exchangeRate precision =
     (let sourceAmount = toNumber amount; rate = toNumber exchangeRate
      in if \<not> isFinite sourceAmount \<or> n_le sourceAmount (Fin 0)
            \<or> \<not> isFinite rate \<or> n_le rate (Fin 0) then Fin 0
         else round_num (if isSourceToLydRate serviceKey then n_mul sourceAmount rate
                         else n_div sourceAmount rate) precision)"

definition calculateSourceAmount :: "jsval \<Rightarrow> jsval \<Rightarrow> jsval \<Rightarrow> nat \<Rightarrow> jsnum" where
  "calculateSourceAmount serviceKey costLYD exchangeRate precision =
     (let cost = toNumber costLYD; rate = toNumber exchangeRate
      in if \<not> isFinite cost \<or> n_le cost (Fin 0)
            \<or> \<not> isFinite rate \<or> n_le rate (Fin 0) then Fin 0
         else round_num (if isSourceToLydRate serviceKey then n_div cost rate
                         else n_mul cost rate) precision)"

section \<open>The mobile service catalogue\<close>

record mobile_service =
  ms_key :: string
  ms_currency :: "string option"
  ms_direction :: "string option"
  ms_requiredFields :: "string list"
  ms_allowedSubtypes :: "string list option"
  ms_enabled :: bool

definition MOBILE_TRANSFER_SERVICES :: "mobile_service list" where
  "MOBILE_TRANSFER_SERVICES =
     [\<lparr>ms_key = ''vodafone'', ms_currency = None, ms_direction = None,
       ms_requiredFields = [''amount'', ''number''], ms_allowedSubtypes = None, ms_enabled = True\<rparr>,
      \<lparr>ms_key = ''post_account'', ms_currency = None, ms_direction = None,
       ms_requiredFields = [''amount'', ''number'', ''name''], ms_allowedSubtypes = None,
       ms_enabled = True\<rparr>,
      \<lparr>ms_key = ''post_card'', ms_currency = None, ms_direction = None,
       ms_requiredFields = [''amount'', ''number'', ''name'', ''idCardImage''],
       ms_allowedSubtypes = None, ms_enabled = True\<rparr>,
      \<lparr>ms_key = ''bank_account'', ms_currency = None, ms_direction = None,
       ms_requiredFields = [''amount'', ''number'', ''name''], ms_allowedSubtypes = None,
       ms_enabled = True\<rparr>,
      \<lparr>ms_key = ''sefa_niger'', ms_currency = Some ''XOF'', ms_direction = Some ''source_to_lyd'',
       ms_requiredFields = [''amount'', ''number'', ''name'', ''serviceSubtype''],
       ms_allowedSubtypes = Some [''nita'', ''nita_account''], ms_enabled = True\<rparr>,
      \<lparr>ms_key = ''bankak_sudan'', ms_currency = Some ''SDG'', ms_direction = Some ''lyd_to_source'',
       ms_requiredFields = [''amount'', ''number'', ''name'', ''recipientPhone''],
       ms_allowedSubtypes = None, ms_enabled = True\<rparr>]"

definition getEnabledMobileTransferServices :: "mobile_service list" where
  "getEnabledMobileTransferServices = filter ms_enabled MOBILE_TRANSFER_SERVICES"

definition getEnabledMobileTransferServiceKeys :: "string list" where
  "getEnabledMobileTransferServiceKeys = map ms_key getEnabledMobileTransferServices"

definition getTransferServiceDefinition :: "string \<Rightarrow> mobile_service option" where
  "getTransferServiceDefinition key =
     map_of (map (\<lambda>s. (ms_key s, s)) MOBILE_TRANSFER_SERVICES) key"

definition isEnabledMobileTransferService :: "string \<Rightarrow> bool" where
  "isEnabledMobileTransferService key =
     (case getTransferServiceDefinition key of None \<Rightarrow> False | Some s \<Rightarrow> ms_enabled s)"

record service_dto =
  dto_key :: string
  dto_currency :: string
  dto_direction :: string
  dto_requiredFields :: "string list"
  dto_allowedSubtypes :: "string list option"

definition buildMobileServiceCatalogDto :: "service_dto list" where
  "buildMobileServiceCatalogDto = map (\<lambda>s.
     \<lparr>dto_key = ms_key s,
      dto_currency = (case ms_currency s of None \<Rightarrow> ''EGP'' | Some c \<Rightarrow> c),
      dto_direction = (case ms_direction s of None \<Rightarrow> ''lyd_to_source'' | Some d \<Rightarrow> d),
      dto_requiredFields = ms_requiredFields s,
      dto_allowedSubtypes = ms_allowedSubtypes s\<rparr>) getEnabledMobileTransferServices"

section \<open>Rate tables (\<open>rateHelper.js\<close>)\<close>

definition DEFAULT_RATE :: jsnum where
  "DEFAULT_RATE = dec 2 640"

definition LEGACY_SERVICE_RATE_DELTAS :: "(string \<times> jsnum) list" where
  "LEGACY_SERVICE_RATE_DELTAS =
     [(''vodafone'', Fin 0), (''post_account'', dec 2 (-5)), (''post_card'', dec 2 (-15)),
      (''bank_account'', dec 2 (-10)), (''sefa_niger'', Fin 0), (''bankak_sudan'', dec 2 20)]"

definition VODAFONE_LINKED_SERVICE_DELTAS :: "(string \<times> jsnum) list" where
  "VODAFONE_LINKED_SERVICE_DELTAS =
     [(''post_account'', dec 2 (-5)), (''post_card'', dec 2 (-15)), (''bank_account'', dec 2 (-10))]"

record rate_config =
  fieldPrefix :: string
  level_defaults :: "jsnum list"

definition SERVICE_RATE_CONFIG :: "(string \<times> rate_config) list" where
  "SERVICE_RATE_CONFIG =
     [(''vodafone'', \<lparr>fieldPrefix = ''cashRate'', level_defaults = [dec 2 640, dec 2 645, dec 2 650]\<rparr>),
      (''post_account'', \<lparr>fieldPrefix = ''postAccountRate'',
         level_defaults = [dec 2 635, dec 2 640, dec 2 645]\<rparr>),
      (''post_card'', \<lparr>fieldPrefix = ''postCardRate'',
         level_defaults = [dec 2 625, dec 2 630, dec 2 635]\<rparr>),
      (''bank_account'', \<lparr>fieldPrefix = ''bankAccountRate'',
         level_defaults = [dec 2 630, dec 2 635, dec 2 640]\<rparr>),
      (''sefa_niger'', \<lparr>fieldPrefix = ''sefaNigerRate'',
         level_defaults = [Fin 15, Fin 15, Fin 15]\<rparr>),
      (''bankak_sudan'', \<lparr>fieldPrefix = ''bankakSudanRate'',
         level_defaults = [dec 2 660, dec 2 665, dec 2 670]\<rparr>)]"

definition SERVICE_RATE_KEYS :: "string list" where
  "SERVICE_RATE_KEYS = map fst SERVICE_RATE_CONFIG"

definition SERVICE_RATE_ADMIN_FIELDS :: "string list" where
  "SERVICE_RATE_ADMIN_FIELDS = concat (map (\<lambda>(k, c).
     [fieldPrefix c @ ''Level1'', fieldPrefix c @ ''Level2'', fieldPrefix c @ ''Level3''])
     SERVICE_RATE_CONFIG)"

text \<open>A rate table as the code builds it: one entry for every service key, in their order.\<close>

type_synonym rate_map = "(string \<times> jsnum) list"

definition rates_obj :: "rate_map \<Rightarrow> jsval" where
  "rates_obj rs = Obj (map (\<lambda>(k, n). (k, Num n)) rs)"

definition rate_of :: "rate_map \<Rightarrow> string \<Rightarrow> jsnum" where
  "rate_of rs k = (case map_of rs k of None \<Rightarrow> NaN | Some n \<Rightarrow> n)"

definition for_services :: "(string \<Rightarrow> jsnum) \<Rightarrow> rate_map" where
  "for_services f = map (\<lambda>k. (k, f k)) SERVICE_RATE_KEYS"

section \<open>Normalisation\<close>

definition normalizeRate :: "jsval \<Rightarrow> jsnum" where
  "normalizeRate rate = (let value = toNumber rate
     in if \<not> isFinite value \<or> n_le value (Fin 0) then DEFAULT_RATE else n_fixed 2 value)"

definition normalizeBaseRate :: "jsval \<Rightarrow> jsnum" where
  "normalizeBaseRate rate = (let value = toNumber rate
     in if \<not> isFinite value \<or> n_le value (n_abs (dec 2 (-15))) then DEFAULT_RATE
        else n_fixed 2 value)"

definition normalizeTier :: "jsval \<Rightarrow> nat" where
  "normalizeTier tier = (let parsed = toNumber tier
     in if parsed = Fin 2 then 2 else if parsed = Fin 3 then 3 else 1)"

definition tier_val :: "nat \<Rightarrow> jsval" where
  "tier_val t = Num (Fin (of_nat t))"

definition level_name :: "nat \<Rightarrow> string" where
  "level_name t = ''Level'' @ (if t = 2 then ''2'' else if t = 3 then ''3'' else ''1'')"

definition getRateForTier :: "jsval \<Rightarrow> jsval \<Rightarrow> jsnum" where
  "getRateForTier tier settings = (if \<not> truthy settings then DEFAULT_RATE
     else let t = normalizeTier tier;
              rate = (if t = 3 then get settings ''rateLevel3''
                      else if t = 2 then get settings ''rateLevel2''
                      else get settings ''rateLevel1'')
          in normalizeBaseRate rate)"

definition config_for :: "string \<Rightarrow> rate_config" where
  "config_for serviceKey = (case map_of SERVICE_RATE_CONFIG serviceKey of
       None \<Rightarrow> the (map_of SERVICE_RATE_CONFIG ''vodafone'') | Some c \<Rightarrow> c)"

definition getRateFieldName :: "string \<Rightarrow> jsval \<Rightarrow> string" where
  "getRateFieldName serviceKey tier =
     fieldPrefix (config_for serviceKey) @ level_name (normalizeTier tier)"

definition getServiceDefaultRate :: "string \<Rightarrow> jsval \<Rightarrow> jsnum" where
  "getServiceDefaultRate serviceKey tier =
     normalizeRate (Num (level_defaults (config_for serviceKey) ! (normalizeTier tier - 1)))"

definition delta_of :: "rate_map \<Rightarrow> string \<Rightarrow> jsnum" where
  "delta_of table k = (case map_of table k of None \<Rightarrow> Fin 0 | Some d \<Rightarrow> d)"

definition getLegacyServiceRateForTier :: "string \<Rightarrow> jsval \<Rightarrow> jsval \<Rightarrow> jsnum" where
  "getLegacyServiceRateForTier serviceKey tier settings =
     (if isSourceToLydRate (Str serviceKey) then getServiceDefaultRate serviceKey tier
      else normalizeRate (Num (n_add (getRateForTier tier settings)
             (delta_of LEGACY_SERVICE_RATE_DELTAS serviceKey))))"

definition direct_rate :: "jsval \<Rightarrow> string \<Rightarrow> jsnum" where
  "direct_rate settings fieldName =
     (if truthy settings then toNumber (get settings fieldName) else NaN)"

definition getServiceRateForTier :: "string \<Rightarrow> jsval \<Rightarrow> jsval \<Rightarrow> jsnum" where
  "getServiceRateForTier serviceKey tier settings =
     (let normalizedKey = (if map_of SERVICE_RATE_CONFIG serviceKey \<noteq> None then serviceKey
                           else ''vodafone'');
          normalizedTier = tier_val (normalizeTier tier)
      in case map_of VODAFONE_LINKED_SERVICE_DELTAS normalizedKey of
           Some delta \<Rightarrow>
             (let directCashRate = direct_rate settings (getRateFieldName ''vodafone'' normalizedTier);
                  cashRate = (if isFinite directCashRate \<and> n_lt (Fin 0) directCashRate
                              then normalizeBaseRate (Num directCashRate)
                              else getRateForTier normalizedTier settings)
              in normalizeRate (Num (n_add cashRate delta)))
         | None \<Rightarrow>
             (let directRate = direct_rate settings (getRateFieldName normalizedKey normalizedTier)
              in if isFinite directRate \<and> n_lt (Fin 0) directRate
                 then normalizeRate (Num directRate)
                 else getLegacyServiceRateForTier normalizedKey normalizedTier settings))"

definition getServiceRatesForTier :: "jsval \<Rightarrow> jsval \<Rightarrow> rate_map" where
  "getServiceRatesForTier tier settings =
     for_services (\<lambda>k. getServiceRateForTier k tier settings)"

section \<open>Company rates\<close>

datatype rate_mode = GENERAL | CUSTOM

definition explicitMode :: "jsval \<Rightarrow> string" where
  "explicitMode company = toLowerCase (clean (get company ''rateMode''))"

definition getCompanyRateMode :: "jsval \<Rightarrow> rate_mode" where
  "getCompanyRateMode company =
     (if explicitMode company = ''custom'' then CUSTOM
      else if explicitMode company = ''general'' then GENERAL
      else let legacyRate = toNumber (get company ''exchangeRate'')
           in if isFinite legacyRate \<and> n_lt (Fin 0) legacyRate then CUSTOM else GENERAL)"

definition company_tier :: "jsval \<Rightarrow> jsval" where
  "company_tier company = or_else (get company ''tier'') (Num (Fin 1))"

definition getCompanyRateOffsets :: "jsval \<Rightarrow> jsval \<Rightarrow> rate_map" where
  "getCompanyRateOffsets company settings =
     (let baseRates = getServiceRatesForTier (company_tier company) settings
      in if explicitMode company = ''general'' then for_services (\<lambda>k. Fin 0)
         else if explicitMode company = ''custom'' then
           for_services (\<lambda>k. let value = toNumber (get (get company ''rateOffsets'') k)
             in if isFinite value then n_fixed 2 value else Fin 0)
         else let legacyRate = toNumber (get company ''exchangeRate'')
              in for_services (\<lambda>k. if isFinite legacyRate \<and> n_lt (Fin 0) legacyRate
                   then n_fixed 2 (n_sub legacyRate (rate_of baseRates k)) else Fin 0))"

definition getCompanyServiceRates :: "jsval \<Rightarrow> jsval \<Rightarrow> rate_map" where
  "getCompanyServiceRates company settings =
     (let baseRates = getServiceRatesForTier (company_tier company) settings
      in if getCompanyRateMode company = GENERAL then baseRates
         else let offsets = getCompanyRateOffsets company settings
              in for_services (\<lambda>k. let adjusted = n_fixed 2 (n_add (rate_of baseRates k) (rate_of offsets k))
                   in if n_lt (Fin 0) adjusted then adjusted else rate_of baseRates k))"

definition buildCompanyRateOffsets :: "jsval \<Rightarrow> jsval \<Rightarrow> jsval \<Rightarrow> rate_map" where
  "buildCompanyRateOffsets company settings desiredRates =
     (let baseRates = getServiceRatesForTier (company_tier company) settings
      in for_services (\<lambda>k. let desiredRate = toNumber (get desiredRates k);
             effectiveRate = (if isFinite desiredRate \<and> n_lt (Fin 0) desiredRate then desiredRate
                              else rate_of baseRates k)
           in n_fixed 2 (n_sub effectiveRate (rate_of baseRates k))))"

record rate_configuration =
  cfg_mode :: rate_mode
  cfg_generalRates :: rate_map
  cfg_effectiveRates :: rate_map
  cfg_offsets :: rate_map

definition getCompanyRateConfig :: "jsval \<Rightarrow> jsval \<Rightarrow> rate_configuration" where
  "getCompanyRateConfig company settings =
     \<lparr>cfg_mode = getCompanyRateMode company,
      cfg_generalRates = getServiceRatesForTier (company_tier company) settings,
      cfg_effectiveRates = getCompanyServiceRates company settings,
      cfg_offsets = getCompanyRateOffsets company settings\<rparr>"

section \<open>Derived tables\<close>

definition getServiceRatesForBaseRate :: "jsval \<Rightarrow> rate_map" where
  "getServiceRatesForBaseRate baseExchangeRate =
     (let base = normalizeBaseRate baseExchangeRate
      in map (\<lambda>service. (ms_key service,
             if isSourceToLydRate (Str (ms_key service))
             then getServiceDefaultRate (ms_key service) (tier_val 1)
             else normalizeRate (Num (n_add base
                    (delta_of LEGACY_SERVICE_RATE_DELTAS (ms_key service))))))
           getEnabledMobileTransferServices)"

definition applyRateMargin :: "jsval \<Rightarrow> jsval \<Rightarrow> rate_map" where
  "applyRateMargin serviceRates margin =
     (let parsedMargin = (if margin = Undef then Fin 0 else toNumber margin);
          safeMargin = (if isFinite parsedMargin then parsedMargin else Fin 0)
      in for_services (\<lambda>k.
           let baseRate = normalizeRate (if truthy serviceRates then get serviceRates k else serviceRates);
               adjusted = n_fixed 2 (n_sub baseRate safeMargin)
           in if n_lt (Fin 0) adjusted then adjusted else baseRate))"

text \<open>The names under which a web form may send a service; the Arabic ones are in UTF-8.\<close>

definition WEB_TRANSFER_TYPE_TO_SERVICE_KEY :: "(string \<times> string) list" where
  "WEB_TRANSFER_TYPE_TO_SERVICE_KEY =
     [(''vodafone'', ''vodafone''),
      (''cash'', ''vodafone''),
      (utf8 [217, 131, 216, 167, 216, 180], ''vodafone''),
      (utf8 [216, 170, 216, 173, 217, 136, 217, 138, 217, 132, 32, 217, 131, 216, 167, 216, 180],
         ''vodafone''),
      (''post_account'', ''post_account''),
      (utf8 [216, 168, 216, 177, 217, 138, 216, 175, 32, 216, 173, 216, 179, 216, 167, 216, 168],
         ''post_account''),
      (utf8 [216, 170, 216, 173, 217, 136, 217, 138, 217, 132, 32, 216, 168, 216, 177, 217, 138,
         216, 175, 32, 216, 173, 216, 179, 216, 167, 216, 168], ''post_account''),
      (''post_card'', ''post_card''),
      (utf8 [216, 168, 216, 177, 217, 138, 216, 175, 32, 216, 168, 216, 183, 216, 167, 217, 130,
         216, 169], ''post_card''),
      (utf8 [216, 170, 216, 173, 217, 136, 217, 138, 217, 132, 32, 216, 168, 216, 177, 217, 138,
         216, 175, 32, 216, 168, 216, 183, 216, 167, 217, 130, 216, 169], ''post_card''),
      (''bank_account'', ''bank_account''),
      (''bank'', ''bank_account''),
      (utf8 [216, 173, 216, 179, 216, 167, 216, 168, 32, 216, 168, 217, 134, 217, 131, 217, 138],
         ''bank_account''),
      (utf8 [216, 170, 216, 173, 217, 136, 217, 138, 217, 132, 32, 216, 168, 217, 134, 217, 131,
         217, 138], ''bank_account''),
      (utf8 [216, 170, 216, 173, 217, 136, 217, 138, 217, 132, 32, 216, 173, 216, 179, 216, 167,
         216, 168, 32, 216, 168, 217, 134, 217, 131, 217, 138], ''bank_account''),
      (''sefa_niger'', ''sefa_niger''),
      (utf8 [216, 179, 217, 138, 217, 129, 216, 167, 32, 216, 167, 217, 132, 217, 134, 217, 138,
         216, 172, 216, 177], ''sefa_niger''),
      (utf8 [216, 170, 216, 173, 217, 136, 217, 138, 217, 132, 32, 216, 179, 217, 138, 217, 129,
         216, 167, 32, 216, 167, 217, 132, 217, 134, 217, 138, 216, 172, 216, 177], ''sefa_niger''),
      (''bankak_sudan'', ''bankak_sudan''),
      (utf8 [216, 168, 217, 134, 217, 131, 217, 131, 32, 216, 167, 217, 132, 216, 179, 217, 136,
         216, 175, 216, 167, 217, 134], ''bankak_sudan''),
      (utf8 [216, 170, 216, 173, 217, 136, 217, 138, 217, 132, 32, 216, 168, 217, 134, 217, 131,
         217, 131, 32, 216, 167, 217, 132, 216, 179, 217, 136, 216, 175, 216, 167, 217, 134],
         ''bankak_sudan'')]"

definition resolveTransferServiceKey :: "jsval \<Rightarrow> string option" where
  "resolveTransferServiceKey transferType =
     (let raw = clean transferType
      in if raw = [] then Some ''vodafone''
         else case map_of WEB_TRANSFER_TYPE_TO_SERVICE_KEY raw of
                Some k \<Rightarrow> Some k
              | None \<Rightarrow> map_of WEB_TRANSFER_TYPE_TO_SERVICE_KEY (toLowerCase raw))"

text \<open>
  The settings form: for every tier with a submitted cash rate, the legacy field and the fields of
  the services linked to the cash rate are overwritten.
\<close>

definition sync_tier :: "nat \<Rightarrow> (string \<times> jsval) list \<Rightarrow> (string \<times> jsval) list" where
  "sync_tier t rates =
     (let cashField = ''cashRate'' @ level_name t;
          legacyField = ''rate'' @ level_name t
      in if get (Obj rates) cashField = Undef \<and> get (Obj rates) legacyField = Undef then rates
         else let submittedCashRate = (if get (Obj rates) cashField \<noteq> Undef
                    then get (Obj rates) cashField else get (Obj rates) legacyField);
                  cashRate = normalizeBaseRate submittedCashRate;
                  rates1 = obj_set legacyField (Num cashRate) (obj_set cashField (Num cashRate) rates)
              in fold (\<lambda>(serviceKey, delta) rs.
                     obj_set (getRateFieldName serviceKey (tier_val t))
                       (Num (normalizeRate (Num (n_add cashRate delta)))) rs)
                   VODAFONE_LINKED_SERVICE_DELTAS rates1)"

definition synchronizeVodafoneLinkedRateFields ::
    "(string \<times> jsval) list \<Rightarrow> (string \<times> jsval) list" where
  "synchronizeVodafoneLinkedRateFields input = fold sync_tier [1, 2, 3] input"

record rate_contract =
  rc_tier :: nat
  rc_baseExchangeRate :: jsnum
  rc_exchangeRate :: jsnum
  rc_serviceRates :: rate_map
  rc_serviceCatalog :: "service_dto list"

definition buildMobileRateContract :: "jsval \<Rightarrow> jsval \<Rightarrow> rate_contract" where
  "buildMobileRateContract tier settings =
     (let t = tier_val (normalizeTier tier);
          baseExchangeRate = getServiceRateForTier ''vodafone'' t settings
      in \<lparr>rc_tier = normalizeTier tier, rc_baseExchangeRate = baseExchangeRate,
          rc_exchangeRate = baseExchangeRate, rc_serviceRates = getServiceRatesForTier t settings,
          rc_serviceCatalog = buildMobileServiceCatalogDto\<rparr>)"

definition buildCompanyRateContract :: "jsval \<Rightarrow> jsval \<Rightarrow> rate_contract" where
  "buildCompanyRateContract company settings =
     (let t = normalizeTier (company_tier company);
          serviceRates = getCompanyServiceRates company settings;
          v = rate_of serviceRates ''vodafone'';
          exchangeRate = (if v \<noteq> NaN \<and> v \<noteq> Fin 0 then v
                          else getServiceRateForTier ''vodafone'' (tier_val t) settings)
      in \<lparr>rc_tier = t, rc_baseExchangeRate = exchangeRate, rc_exchangeRate = exchangeRate,
          rc_serviceRates = serviceRates, rc_serviceCatalog = buildMobileServiceCatalogDto\<rparr>)"

section \<open>Facts about rates\<close>

lemma DEFAULT_RATE_Fin: "\<exists>y. DEFAULT_RATE = Fin y \<and> 0 < y"
proof -
  have "DEFAULT_RATE = Fin (3602879701896397 / 562949953421312)"
    unfolding DEFAULT_RATE_def by code_simp
  moreover have "(0::rat) < 3602879701896397 / 562949953421312" by (simp add: zero_less_divide_iff)
  ultimately show ?thesis by blast
qed

lemma normalizeRate_Fin: "\<exists>y. normalizeRate v = Fin y \<and> 0 \<le> y"
proof (cases "toNumber v")
  case (Fin x)
  then show ?thesis using DEFAULT_RATE_Fin n_fixed_finite_nonneg [of x 2]
    by (auto simp: normalizeRate_def Let_def )
qed (use DEFAULT_RATE_Fin in \<open>auto simp: normalizeRate_def Let_def\<close>)

lemma getServiceRateForTier_eq_normalized:
  "\<exists>v. getServiceRateForTier k t s = normalizeRate v"
  unfolding getServiceRateForTier_def getLegacyServiceRateForTier_def getServiceDefaultRate_def Let_def
  by (auto split: option.splits if_splits)

lemma fixed2_zero_iff:
  assumes "0 \<le> x" "x < 10 ^ 21"
  shows "n_fixed 2 (Fin x) = Fin 0 \<longleftrightarrow> x < 1 / 200"
proof -
  define n where "n = fixed_digits 2 x"
  have n: "n = \<lfloor>x * 100 + 1 / 2\<rfloor>" using assms by (simp add: n_def fixed_digits_def)
  show ?thesis
  proof (cases "x < 1 / 200")
    case True
    then have "n = 0" using assms unfolding n by (intro floor_unique) simp_all
    then show ?thesis using True assms by (simp add: n_def n_fixed.simps)
  next
    case False
    then have "1 \<le> n" unfolding n by (simp add: le_floor_iff)
    have e: "n_fixed 2 (Fin x) = num (of_int n / 100)"
      using assms False by (simp add: n_def n_fixed.simps)
    have "2 powi (-7) \<le> fl (of_int n / 100)"
    proof (rule fl_lower)
      have "(1::rat) \<le> of_int n" using \<open>1 \<le> n\<close> by simp
      then show "2 powi (-7) \<le> of_int n / (100::rat)" "0 < of_int n / (100::rat)"
        by (simp_all add: power_int_def power_divide)
    qed simp
    then have "fl (of_int n / 100) \<noteq> 0" using powi2_pos [of "-7"] by auto
    then have "n_fixed 2 (Fin x) \<noteq> Fin 0" unfolding e num_Fin_iff by simp
    then show ?thesis using False by simp
  qed
qed

lemma cost_zero_rate: "calculateTransferCostLYD k a (Num (Fin 0)) p = Fin 0"
  by (simp add: calculateTransferCostLYD_def Let_def)

lemma normalizeTier_val: "t \<in> {1, 2, 3} \<Longrightarrow> normalizeTier (tier_val t) = t"
  by (auto simp: normalizeTier_def tier_val_def)

definition tier_fields :: "nat \<Rightarrow> string list" where
  "tier_fields t = map (\<lambda>p. p @ level_name t)
     [''cashRate'', ''rate'', ''postAccountRate'', ''postCardRate'', ''bankAccountRate'']"

lemma getRateFieldName_linked:
  assumes "t \<in> {1, 2, 3}"
  shows "getRateFieldName ''vodafone'' (tier_val t) = ''cashRate'' @ level_name t"
    "getRateFieldName ''post_account'' (tier_val t) = ''postAccountRate'' @ level_name t"
    "getRateFieldName ''post_card'' (tier_val t) = ''postCardRate'' @ level_name t"
    "getRateFieldName ''bank_account'' (tier_val t) = ''bankAccountRate'' @ level_name t"
  using assms by (simp_all add: getRateFieldName_def config_for_def SERVICE_RATE_CONFIG_def normalizeTier_val)

definition submitted :: "nat \<Rightarrow> (string \<times> jsval) list \<Rightarrow> jsval" where
  "submitted t rates = (if get (Obj rates) (''cashRate'' @ level_name t) \<noteq> Undef
     then get (Obj rates) (''cashRate'' @ level_name t) else get (Obj rates) (''rate'' @ level_name t))"

lemma get_sync_other:
  assumes "f \<notin> set (tier_fields t)" "t \<in> {1, 2, 3}"
  shows "get (Obj (sync_tier t rates)) f = get (Obj rates) f"
  using assms unfolding sync_tier_def Let_def VODAFONE_LINKED_SERVICE_DELTAS_def
  by (simp add: get_obj_set getRateFieldName_linked tier_fields_def del: get.simps)

lemma get_sync_tier:
  assumes "t \<in> {1, 2, 3}" "submitted t rates \<noteq> Undef"
  defines "cash \<equiv> normalizeBaseRate (submitted t rates)"
  shows "get (Obj (sync_tier t rates)) (''cashRate'' @ level_name t) = Num cash"
    "get (Obj (sync_tier t rates)) (''rate'' @ level_name t) = Num cash"
    "map_of VODAFONE_LINKED_SERVICE_DELTAS k = Some delta \<Longrightarrow>
     get (Obj (sync_tier t rates)) (getRateFieldName k (tier_val t))
       = Num (normalizeRate (Num (n_add cash delta)))"
proof -
  have s: "\<not> (get (Obj rates) (''cashRate'' @ level_name t) = Undef
      \<and> get (Obj rates) (''rate'' @ level_name t) = Undef)"
    using assms(2) by (auto simp: submitted_def simp del: get.simps split: if_splits)
  have c: "normalizeBaseRate (if get (Obj rates) (''cashRate'' @ level_name t) \<noteq> Undef
      then get (Obj rates) (''cashRate'' @ level_name t) else get (Obj rates) (''rate'' @ level_name t))
      = cash"
    by (simp only: cash_def submitted_def)
  note eqs = sync_tier_def Let_def s c if_False VODAFONE_LINKED_SERVICE_DELTAS_def
  show "get (Obj (sync_tier t rates)) (''cashRate'' @ level_name t) = Num cash"
    "get (Obj (sync_tier t rates)) (''rate'' @ level_name t) = Num cash"
    unfolding eqs using assms(1) s
    by (simp_all add: get_obj_set getRateFieldName_linked del: get.simps)
  show "get (Obj (sync_tier t rates)) (getRateFieldName k (tier_val t))
       = Num (normalizeRate (Num (n_add cash delta)))"
    if "map_of VODAFONE_LINKED_SERVICE_DELTAS k = Some delta"
    using that unfolding eqs using assms(1) s
    by (auto simp: get_obj_set getRateFieldName_linked simp del: get.simps split: if_splits)
qed

lemma delta_15: "n_abs (dec 2 (-15)) = dec 2 15"
  by code_simp

lemma base_rate_stable:
  assumes x: "toNumber v = Fin x" "31 / 200 \<le> x" "x < 2 ^ 40"
  shows "normalizeBaseRate v = dec 2 (fixed_int 2 x)"
    and "normalizeBaseRate (Num (dec 2 (fixed_int 2 x))) = dec 2 (fixed_int 2 x)"
    and "\<exists>c. dec 2 (fixed_int 2 x) = Fin c \<and> 0 < c"
proof -
  have d15: "dec 2 15 = Fin (decv 2 15)" and "decv 2 15 < 31 / 200" and d1516: "decv 2 15 < decv 2 16"
    and pos: "0 < decv 2 16"
    by (rule dec_Fin) (simp_all, code_simp+)
  then have lt: "\<not> n_le (Fin x) (dec 2 15)" using x by simp
  show one: "normalizeBaseRate v = dec 2 (fixed_int 2 x)"
    using x lt by (simp add: normalizeBaseRate_def delta_15 n_fixed_eq_dec)
  have "fixed_int 2 x \<ge> 16" using x by (simp add: fixed_int_def fixed_digits_def le_floor_iff)
  then have v: "decv 2 16 \<le> decv 2 (fixed_int 2 x)"
    unfolding decv_def by (intro fl_mono divide_right_mono) simp_all
  have b: "\<bar>of_int (fixed_int 2 x)\<bar> < (2::rat) ^ 42 * 10 ^ 2"
  proof -
    have "\<bar>of_int (fixed_int 2 x)\<bar> \<le> (\<bar>x\<bar> + 1) * (10::rat) ^ 2" by (rule fixed_int_bound)
    also have "\<dots> < 2 ^ 42 * 10 ^ 2" using x by (intro mult_strict_right_mono) simp_all
    finally show ?thesis .
  qed
  have fin: "dec 2 (fixed_int 2 x) = Fin (decv 2 (fixed_int 2 x))" using b by (intro dec_Fin) simp_all
  then show "\<exists>c. dec 2 (fixed_int 2 x) = Fin c \<and> 0 < c" using v pos by auto
  have "n_fixed 2 (dec 2 (fixed_int 2 x)) = dec 2 (fixed_int 2 x)" using b by (intro n_fixed_dec) simp_all
  then show "normalizeBaseRate (Num (dec 2 (fixed_int 2 x))) = dec 2 (fixed_int 2 x)"
    using v d1516 by (simp add: normalizeBaseRate_def delta_15 fin d15)
qed

lemma linked_key_in_config:
  "map_of VODAFONE_LINKED_SERVICE_DELTAS k = Some delta \<Longrightarrow> map_of SERVICE_RATE_CONFIG k \<noteq> None"
  by (auto simp: VODAFONE_LINKED_SERVICE_DELTAS_def SERVICE_RATE_CONFIG_def split: if_splits)

lemma linked_rate_eq:
  assumes t: "t \<in> {1, 2, 3}" and k: "map_of VODAFONE_LINKED_SERVICE_DELTAS k = Some delta"
    and c: "get (Obj s) (''cashRate'' @ level_name t) = Num (Fin c)" "0 < c"
    and stable: "normalizeBaseRate (Num (Fin c)) = Fin c"
  shows "getServiceRateForTier k (tier_val t) (Obj s) = normalizeRate (Num (n_add (Fin c) delta))"
proof -
  have "direct_rate (Obj s) (getRateFieldName ''vodafone'' (tier_val t)) = Fin c"
    using c by (simp only: direct_rate_def getRateFieldName_linked [OF t]) simp
  then show ?thesis
    using linked_key_in_config [OF k] k c stable
    by (simp add: getServiceRateForTier_def Let_def normalizeTier_val [OF t] del: get.simps)
qed

lemma sync_fold_get:
  assumes t: "t \<in> {1, 2, 3}" and f: "f \<in> set (tier_fields t)"
  shows "\<exists>rates'. get (Obj (synchronizeVodafoneLinkedRateFields rates)) f = get (Obj (sync_tier t rates')) f
    \<and> (\<forall>g \<in> set (tier_fields t). get (Obj rates') g = get (Obj rates) g)"
proof -
  have disj: "g \<notin> set (tier_fields t')" if "t' \<in> {1, 2, 3}" "t' \<noteq> t" "g \<in> set (tier_fields t)" for g t'
    using that t by (auto simp: tier_fields_def level_name_def)
  show ?thesis
  proof -
    consider "t = 1" | "t = 2" | "t = 3" using t by blast
    then show ?thesis
    proof cases
      case 1
      then show ?thesis using disj [of 2] disj [of 3] f
        by (intro exI [of _ rates]) (simp add: synchronizeVodafoneLinkedRateFields_def get_sync_other del: get.simps)
    next
      case 2
      then show ?thesis using disj [of 1] disj [of 3] f
        by (intro exI [of _ "sync_tier 1 rates"]) (simp add: synchronizeVodafoneLinkedRateFields_def get_sync_other del: get.simps)
    next
      case 3
      then show ?thesis using disj [of 1] disj [of 2] f
        by (intro exI [of _ "sync_tier 2 (sync_tier 1 rates)"]) (simp add: synchronizeVodafoneLinkedRateFields_def get_sync_other del: get.simps)
    qed
  qed
qed

lemma map_of_for_services: "k \<in> set SERVICE_RATE_KEYS \<Longrightarrow> map_of (for_services f) k = Some (f k)"
  by (simp add: for_services_def map_of_map_restrict)

lemma rate_of_for_services [simp]: "k \<in> set SERVICE_RATE_KEYS \<Longrightarrow> rate_of (for_services f) k = f k"
  by (simp add: rate_of_def map_of_for_services)

lemma get_rates_obj: "get (rates_obj rs) k = (case map_of rs k of None \<Rightarrow> Undef | Some n \<Rightarrow> Num n)"
proof -
  have "map_of (map (\<lambda>(k, n). (k, Num n)) rs) k = map_option Num (map_of rs k)"
    by (induction rs) auto
  then show ?thesis by (simp add: rates_obj_def split: option.split)
qed


section \<open>Properties\<close>

text \<open>
  whatever the settings document, the tier and the service key hold, the rate the price engine
  uses is a finite non-negative number: never NaN and never an infinity.
\<close>

theorem service_rate_finite: "\<exists>y. getServiceRateForTier k t s = Fin y \<and> 0 \<le> y"
  using getServiceRateForTier_eq_normalized [of k t s] normalizeRate_Fin by metis




text \<open>
  the cost of a transfer is a finite non-negative number for every service, amount and rate,
  including overflowing, negative and non-numeric inputs.
\<close>

theorem transfer_cost_finite:
  "\<exists>y. calculateTransferCostLYD k a r p = Fin y \<and> 0 \<le> y"
proof -
  have fin: "\<exists>y. round_num n p = Fin y \<and> 0 \<le> y" if "n = PInf \<or> (\<exists>z. n = Fin z \<and> 0 \<le> z)" for n
    using that n_fixed_finite_nonneg [of _ p] by (auto simp: round_num_def )
  have "\<exists>y. calculateTransferCostLYD k a r p = Fin y \<and> 0 \<le> y"
    if "toNumber a = Fin x" "0 < x" "toNumber r = Fin z" "0 < z" for x z
  proof -
    have "0 \<le> x * z" "0 \<le> x / z" using that by simp_all
    then show ?thesis using that num_nonneg [of "x * z"] num_nonneg [of "x / z"]
      by (auto simp: calculateTransferCostLYD_def Let_def intro!: fin)
  qed
  then show ?thesis
    by (cases "toNumber a"; cases "toNumber r") (auto simp: calculateTransferCostLYD_def Let_def)
qed


text \<open>
  a submitted rate below 0.005 is stored as the rate 0, and a transfer priced at that rate
  costs nothing.  The guard against non-positive rates runs before the rounding.
\<close>

theorem subcent_rate_is_free:
  assumes "toNumber v = Fin x" "0 < x" "x < 1 / 200"
  shows "normalizeRate v = Fin 0 \<and> calculateTransferCostLYD k amount (Num (normalizeRate v)) p = Fin 0"
proof -
  have "normalizeRate v = n_fixed 2 (Fin x)" using assms by (simp add: normalizeRate_def)
  also have "\<dots> = Fin 0" using assms fixed2_zero_iff [of x] by simp
  finally show ?thesis by (simp add: cost_zero_rate)
qed

theorem subcent_rate_is_free_witness:
  "normalizeRate (Num (Fin (1 / 256))) = Fin 0
   \<and> calculateTransferCostLYD (Str ''sefa_niger'') (Num (Fin 50000))
        (Num (normalizeRate (Num (Fin (1 / 256))))) 3 = Fin 0"
  by (rule subcent_rate_is_free [of _ "1 / 256"]) simp_all

text \<open>
  the linked fields that the settings form writes agree with the price engine.  After
  \<open>synchronizeVodafoneLinkedRateFields\<close>, the stored field of every service linked to the cash rate
  holds exactly the rate that \<open>getServiceRateForTier\<close> computes from the stored settings, for every
  tier whose submitted cash rate is at least 0.155.
\<close>

theorem synchronized_rates_consistent:
  assumes t: "t \<in> {1, 2, 3}" and k: "map_of VODAFONE_LINKED_SERVICE_DELTAS k = Some delta"
    and x: "toNumber (submitted t input) = Fin x" "31 / 200 \<le> x" "x < 2 ^ 40"
  defines "out \<equiv> synchronizeVodafoneLinkedRateFields input"
  shows "get (Obj out) (getRateFieldName k (tier_val t))
      = Num (getServiceRateForTier k (tier_val t) (Obj out))"
proof -
  have kf: "getRateFieldName k (tier_val t) \<in> set (tier_fields t)"
    using k by (auto simp: VODAFONE_LINKED_SERVICE_DELTAS_def getRateFieldName_linked [OF t] tier_fields_def
        split: if_splits)
  have cf: "''cashRate'' @ level_name t \<in> set (tier_fields t)" "''rate'' @ level_name t \<in> set (tier_fields t)"
    by (simp_all add: tier_fields_def)
  obtain r1 where r1: "get (Obj out) (getRateFieldName k (tier_val t))
        = get (Obj (sync_tier t r1)) (getRateFieldName k (tier_val t))"
      "\<forall>g \<in> set (tier_fields t). get (Obj r1) g = get (Obj input) g"
    using sync_fold_get [OF t kf] unfolding out_def by blast
  obtain r2 where r2: "get (Obj out) (''cashRate'' @ level_name t)
        = get (Obj (sync_tier t r2)) (''cashRate'' @ level_name t)"
      "\<forall>g \<in> set (tier_fields t). get (Obj r2) g = get (Obj input) g"
    using sync_fold_get [OF t cf(1)] unfolding out_def by blast
  have sub: "submitted t r1 = submitted t input" "submitted t r2 = submitted t input"
    unfolding submitted_def using r1(2) r2(2) cf by metis+
  have nu: "submitted t r1 \<noteq> Undef" "submitted t r2 \<noteq> Undef" using x sub by auto
  let ?c = "dec 2 (fixed_int 2 x)"
  obtain c where c: "?c = Fin c" "0 < c" using base_rate_stable(3) [OF x] by blast
  have cash: "normalizeBaseRate (submitted t input) = Fin c" using base_rate_stable(1) [OF x] c by simp
  have "get (Obj out) (getRateFieldName k (tier_val t)) = Num (normalizeRate (Num (n_add (Fin c) delta)))"
    using get_sync_tier(3) [OF t nu(1) k] by (simp only: r1(1) sub cash)
  moreover have "get (Obj out) (''cashRate'' @ level_name t) = Num (Fin c)"
    using get_sync_tier(1) [OF t nu(2)] by (simp only: r2(1) sub cash)
  then have "getServiceRateForTier k (tier_val t) (Obj out) = normalizeRate (Num (n_add (Fin c) delta))"
    using base_rate_stable(2) [OF x] c by (intro linked_rate_eq [OF t k]) simp_all
  ultimately show ?thesis by simp
qed


theorem synchronized_rates_consistent_witness:
  "get (Obj (synchronizeVodafoneLinkedRateFields [(''cashRateLevel1'', Num (Fin 7))]))
     (getRateFieldName ''post_card'' (tier_val 1))
   = Num (getServiceRateForTier ''post_card'' (tier_val 1)
       (Obj (synchronizeVodafoneLinkedRateFields [(''cashRateLevel1'', Num (Fin 7))])))"
  by (rule synchronized_rates_consistent [of _ _ "dec 2 (-15)" _ 7])
    (simp_all add: VODAFONE_LINKED_SERVICE_DELTAS_def submitted_def level_name_def)

text \<open>
  C29: a company's custom rates survive being stored as offsets.  If the offsets built for the
  desired rates are stored with mode \<open>custom\<close>, the effective rate of a service is the desired rate,
  for two-digit decimals, although every intermediate value is a rounded double.
\<close>

theorem company_rates_roundtrip:
  assumes k: "k \<in> set SERVICE_RATE_KEYS"
    and mode: "explicitMode company' = ''custom''"
    and tier: "company_tier company' = company_tier company"
    and stored: "get company' ''rateOffsets'' = rates_obj (buildCompanyRateOffsets company settings desired)"
    and a: "toNumber (get desired k) = dec 2 a" "0 < a" "a < 2 ^ 39"
    and b: "getServiceRateForTier k (company_tier company) settings = dec 2 b" "0 \<le> b" "b < 2 ^ 39"
  shows "rate_of (getCompanyServiceRates company' settings) k = dec 2 a"
proof -
  have ra: "(of_int a :: rat) < of_int (2 ^ 39)" and rb: "(of_int b :: rat) < of_int (2 ^ 39)"
    using a b by (simp_all only: of_int_less_iff)
  have qa: "\<bar>of_int a\<bar> < (2::rat) ^ 40 * 10 ^ 2" and qb: "\<bar>of_int b\<bar> < (2::rat) ^ 40 * 10 ^ 2"
    using ra rb a b by simp_all
  have qd: "\<bar>of_int (a - b)\<bar> < (2::rat) ^ 40 * 10 ^ 2"
    using ra rb a b by (simp add: abs_less_iff)
  have big: "(2::rat) ^ 40 * 10 ^ 2 < 2 ^ 42 * 10 ^ 2" by simp
  have fa: "dec 2 a = Fin (decv 2 a)" "dec 2 (a - b) = Fin (decv 2 (a - b))"
    using qa qd big by (intro dec_Fin; linarith)+
  have pos: "n_lt (Fin 0) (dec 2 a)" using dec_sign [of a 2] qa big a by simp
  have off: "rate_of (buildCompanyRateOffsets company settings desired) k = dec 2 (a - b)"
    using k a b pos fa dec_sub [OF qa qb] by (simp add: buildCompanyRateOffsets_def getServiceRatesForTier_def Let_def)
  then have "get (get company' ''rateOffsets'') k = Num (dec 2 (a - b))"
    using k by (simp add: stored get_rates_obj buildCompanyRateOffsets_def map_of_for_services
        rate_of_def Let_def del: get.simps)
  moreover have "n_fixed 2 (dec 2 (a - b)) = dec 2 (a - b)"
    using qd big by (intro n_fixed_dec; linarith)
  ultimately have offs: "rate_of (getCompanyRateOffsets company' settings) k = dec 2 (a - b)"
    using k mode fa by (simp add: getCompanyRateOffsets_def Let_def del: get.simps)
  have "n_fixed 2 (n_add (dec 2 b) (dec 2 (a - b))) = dec 2 a"
    using dec_add [OF qb qd] by simp
  then show ?thesis
    using k mode tier offs b pos
    by (simp add: getCompanyServiceRates_def getCompanyRateMode_def getServiceRatesForTier_def Let_def)
qed


lemma default_cash_rate: "getServiceRateForTier ''vodafone'' v Undef = dec 2 640"
proof -
  have n: "normalizeRate (Num (n_add (dec 2 640) (Fin 0))) = dec 2 640" by code_simp
  have d: "\<not> isSourceToLydRate (Str ''vodafone'')" by code_simp
  have t: "map_of VODAFONE_LINKED_SERVICE_DELTAS ''vodafone'' = None"
    "map_of SERVICE_RATE_CONFIG ''vodafone'' \<noteq> None" "delta_of LEGACY_SERVICE_RATE_DELTAS ''vodafone'' = Fin 0"
    by code_simp+
  show ?thesis
    using t n d by (simp add: getServiceRateForTier_def getLegacyServiceRateForTier_def getRateForTier_def
        direct_rate_def DEFAULT_RATE_def)
qed

theorem company_rates_roundtrip_witness:
  "rate_of (getCompanyServiceRates
     (Obj [(''rateMode'', Str ''custom''),
           (''rateOffsets'', rates_obj (buildCompanyRateOffsets (Obj []) Undef
              (Obj [(''vodafone'', Num (dec 2 701))])))]) Undef) ''vodafone'' = dec 2 701"
proof (rule company_rates_roundtrip [where company = "Obj []" and a = 701 and b = 640])
  show "explicitMode (Obj [(''rateMode'', Str ''custom''),
           (''rateOffsets'', rates_obj (buildCompanyRateOffsets (Obj []) Undef
              (Obj [(''vodafone'', Num (dec 2 701))])))]) = ''custom''"
  proof -
    have "toLowerCase (trim ''custom'') = ''custom''" by code_simp
    then show ?thesis by (simp add: explicitMode_def clean_def or_else_def)
  qed
  show "toNumber (get (Obj [(''vodafone'', Num (dec 2 701))]) ''vodafone'') = dec 2 701"
    unfolding get.simps by simp
qed (simp_all add: SERVICE_RATE_KEYS_def SERVICE_RATE_CONFIG_def company_tier_def default_cash_rate or_else_def)

end
