(* ===== verification/Prelude.thy ===== *)
theory Prelude
  imports Js_Value
begin

text \<open>
  What the components share: errors as values, computations that pass an explicit state, and the
  interface of a document collection.  The database is not part of the program, so its operations
  are parameters: a component's definitions take the collections they use as arguments, and the
  theorems name the documented behaviour they rely on (\<open>coll_ok\<close>: single-document updates are
  atomic and filtered; \<open>txn_ok\<close>: an aborted transaction leaves no trace).  Every operation may
  fail at any time; the state type is arbitrary, so it can carry any schedule of faults.
\<close>

named_theorems run_simps \<open>unfolding of a computation\<close>

section \<open>Errors\<close>

record error =
  message :: string
  e_code :: string
  statusCode :: nat

definition coded :: "string \<Rightarrow> nat \<Rightarrow> error" where
  "coded c st = \<lparr>message = c, e_code = c, statusCode = st\<rparr>"

definition plain_error :: "string \<Rightarrow> error" where
  "plain_error m = \<lparr>message = m, e_code = [], statusCode = 0\<rparr>"

lemma coded_eq_iff [simp]: "coded c st = coded c' st' \<longleftrightarrow> c = c' \<and> st = st'"
  by (auto simp: coded_def)

lemma plain_error_eq_iff [simp]: "plain_error c = plain_error c' \<longleftrightarrow> c = c'"
  by (auto simp: plain_error_def)

fun includes_str :: "string \<Rightarrow> string \<Rightarrow> bool" where
  "includes_str [] t = has_prefix t []"
| "includes_str (c # cs) t = (has_prefix t (c # cs) \<or> includes_str cs t)"

section \<open>Computations\<close>

type_synonym ('s, 'a) run = "'s \<Rightarrow> (error + 'a) \<times> 's"

definition ret :: "'a \<Rightarrow> ('s, 'a) run" where
  "ret a = (\<lambda>s. (Inr a, s))"

definition throw :: "error \<Rightarrow> ('s, 'a) run" where
  "throw e = (\<lambda>s. (Inl e, s))"

definition bind :: "('s, 'a) run \<Rightarrow> ('a \<Rightarrow> ('s, 'b) run) \<Rightarrow> ('s, 'b) run" where
  "bind m k = (\<lambda>s. case m s of (Inl e, s') \<Rightarrow> (Inl e, s') | (Inr a, s') \<Rightarrow> k a s')"

definition andThen :: "('s, 'a) run \<Rightarrow> ('s, 'b) run \<Rightarrow> ('s, 'b) run" where
  "andThen m n = bind m (\<lambda>_. n)"

definition catch :: "('s, 'a) run \<Rightarrow> (error \<Rightarrow> ('s, 'a) run) \<Rightarrow> ('s, 'a) run" where
  "catch m h = (\<lambda>s. case m s of (Inl e, s') \<Rightarrow> h e s' | (Inr a, s') \<Rightarrow> (Inr a, s'))"

definition of_result :: "error + 'a \<Rightarrow> ('s, 'a) run" where
  "of_result r = (\<lambda>s. (r, s))"

definition throw_if :: "bool \<Rightarrow> error \<Rightarrow> ('s, unit) run" where
  "throw_if b e = (if b then throw e else ret ())"

definition bindE :: "error + 'a \<Rightarrow> ('a \<Rightarrow> error + 'b) \<Rightarrow> error + 'b" where
  "bindE r k = (case r of Inl e \<Rightarrow> Inl e | Inr a \<Rightarrow> k a)"

lemma bindE_simps [simp]: "bindE (Inl e) k = Inl e" "bindE (Inr a) k = k a"
  by (simp_all add: bindE_def)

lemma bindE_Inr_iff: "bindE r k = Inr b \<longleftrightarrow> (\<exists>a. r = Inr a \<and> k a = Inr b)"
  by (cases r) auto

lemma ret_run [simp, run_simps]: "ret a s = (Inr a, s)"
  by (simp add: ret_def)

lemma throw_run [simp, run_simps]: "throw e s = (Inl e, s)"
  by (simp add: throw_def)

lemma of_result_run [simp, run_simps]: "of_result r s = (r, s)"
  by (simp add: of_result_def)

lemma bind_run [run_simps]:
  "bind m k s = (case m s of (Inl e, s') \<Rightarrow> (Inl e, s') | (Inr a, s') \<Rightarrow> k a s')"
  by (simp add: bind_def)

lemma catch_run [run_simps]:
  "catch m h s = (case m s of (Inl e, s') \<Rightarrow> h e s' | (Inr a, s') \<Rightarrow> (Inr a, s'))"
  by (simp add: catch_def)

lemma andThen_run [run_simps]:
  "andThen m n s = (case m s of (Inl e, s') \<Rightarrow> (Inl e, s') | (Inr a, s') \<Rightarrow> n s')"
  by (simp add: andThen_def bind_def)

lemma throw_if_run [simp, run_simps]:
  "throw_if b e s = (if b then (Inl e, s) else (Inr (), s))"
  by (simp add: throw_if_def)

lemma bind_ret [simp]: "bind (ret a) k = k a"
  by (simp add: bind_def ret_def fun_eq_iff)

lemma bind_throw [simp]: "bind (throw e) k = throw e"
  by (simp add: bind_def throw_def fun_eq_iff)

lemma bind_assoc: "bind (bind m f) g = bind m (\<lambda>x. bind (f x) g)"
  by (auto simp: bind_def fun_eq_iff split: prod.splits sum.splits)

lemma bind_InrE:
  assumes "bind m k s = (Inr b, s'')"
  obtains a s' where "m s = (Inr a, s')" "k a s' = (Inr b, s'')"
  using assms by (auto simp: bind_def split: prod.splits sum.splits)

lemma andThen_InrE:
  assumes "andThen m n s = (Inr a, s')"
  obtains x s1 where "m s = (Inr x, s1)" "n s1 = (Inr a, s')"
  using assms by (auto simp: andThen_run split: prod.splits sum.splits)

lemma bind_InlE:
  assumes "bind m k s = (Inl e, s'')"
  obtains "m s = (Inl e, s'')" | a s' where "m s = (Inr a, s')" "k a s' = (Inl e, s'')"
  using assms by (auto simp: bind_def split: prod.splits sum.splits)

section \<open>Hoare triples\<close>

text \<open>
  \<open>spec P m Q E\<close>: from a state in \<open>P\<close>, a normal result satisfies \<open>Q\<close> and an error satisfies \<open>E\<close>.
\<close>

definition spec :: "('s \<Rightarrow> bool) \<Rightarrow> ('s, 'a) run \<Rightarrow> ('a \<Rightarrow> 's \<Rightarrow> bool) \<Rightarrow> (error \<Rightarrow> 's \<Rightarrow> bool) \<Rightarrow> bool" where
  "spec P m Q E \<longleftrightarrow> (\<forall>s. P s \<longrightarrow> (case m s of (Inr a, s') \<Rightarrow> Q a s' | (Inl e, s') \<Rightarrow> E e s'))"

lemma specI:
  assumes "\<And>s a s'. P s \<Longrightarrow> m s = (Inr a, s') \<Longrightarrow> Q a s'"
    and "\<And>s e s'. P s \<Longrightarrow> m s = (Inl e, s') \<Longrightarrow> E e s'"
  shows "spec P m Q E"
  using assms by (fastforce simp: spec_def split: prod.splits sum.splits)

lemma spec_Inr: "spec P m Q E \<Longrightarrow> P s \<Longrightarrow> m s = (Inr a, s') \<Longrightarrow> Q a s'"
  by (fastforce simp: spec_def)

lemma spec_Inl: "spec P m Q E \<Longrightarrow> P s \<Longrightarrow> m s = (Inl e, s') \<Longrightarrow> E e s'"
  by (fastforce simp: spec_def)

lemma spec_ret: "(\<And>s. P s \<Longrightarrow> Q a s) \<Longrightarrow> spec P (ret a) Q E"
  by (simp add: spec_def)

lemma spec_throw: "(\<And>s. P s \<Longrightarrow> E e s) \<Longrightarrow> spec P (throw e) Q E"
  by (simp add: spec_def)

lemma spec_of_result:
  "(\<And>s a. P s \<Longrightarrow> r = Inr a \<Longrightarrow> Q a s) \<Longrightarrow> (\<And>s e. P s \<Longrightarrow> r = Inl e \<Longrightarrow> E e s) \<Longrightarrow> spec P (of_result r) Q E"
  by (cases r) (simp_all add: spec_def)

lemma spec_throw_if:
  "(\<And>s. P s \<Longrightarrow> b \<Longrightarrow> E e s) \<Longrightarrow> (\<And>s. P s \<Longrightarrow> \<not> b \<Longrightarrow> Q () s) \<Longrightarrow> spec P (throw_if b e) Q E"
  by (simp add: spec_def)

lemma spec_bind: "spec P m R E \<Longrightarrow> (\<And>a. spec (R a) (k a) Q E) \<Longrightarrow> spec P (bind m k) Q E"
  by (fastforce simp: spec_def bind_def split: prod.splits sum.splits)

lemma spec_andThen: "spec P m (\<lambda>_. R) E \<Longrightarrow> spec R n Q E \<Longrightarrow> spec P (andThen m n) Q E"
  unfolding andThen_def by (rule spec_bind)

lemma spec_catch: "spec P m Q F \<Longrightarrow> (\<And>e. spec (F e) (h e) Q E) \<Longrightarrow> spec P (catch m h) Q E"
  by (fastforce simp: spec_def catch_def split: prod.splits sum.splits)

lemma spec_conseq:
  assumes "spec P' m Q' E'" "\<And>s. P s \<Longrightarrow> P' s" "\<And>a s. Q' a s \<Longrightarrow> Q a s" "\<And>e s. E' e s \<Longrightarrow> E e s"
  shows "spec P m Q E"
  using assms by (fastforce simp: spec_def split: prod.splits sum.splits)

lemma spec_pre: "spec P' m Q E \<Longrightarrow> (\<And>s. P s \<Longrightarrow> P' s) \<Longrightarrow> spec P m Q E"
  by (rule spec_conseq)

lemma spec_if: "(b \<Longrightarrow> spec P m Q E) \<Longrightarrow> (\<not> b \<Longrightarrow> spec P n Q E) \<Longrightarrow> spec P (if b then m else n) Q E"
  by simp

section \<open>Document collections\<close>

record ('s, 'd) coll =
  c_view :: "'s \<Rightarrow> string \<Rightarrow> 'd option"
  c_findOne :: "('d \<Rightarrow> bool) \<Rightarrow> ('s, 'd option) run"
  c_update :: "string \<Rightarrow> ('d \<Rightarrow> bool) \<Rightarrow> ('d \<Rightarrow> 'd) \<Rightarrow> ('s, 'd option) run"
  c_insert :: "string \<Rightarrow> 'd \<Rightarrow> ('s, unit) run"
  c_get :: "string \<Rightarrow> ('s, 'd option) run"
  c_findMany :: "('d \<Rightarrow> bool) \<Rightarrow> ('s, 'd list) run"
  c_upsert :: "string \<Rightarrow> ('d option \<Rightarrow> 'd) \<Rightarrow> ('s, 'd) run"
  c_deleteMany :: "('d \<Rightarrow> bool) \<Rightarrow> ('s, unit) run"

text \<open>
  \<open>c_view\<close> is the committed content by document id.  \<open>c_update\<close> is \<open>findOneAndUpdate\<close> on one id
  with a filter, returning the document after the update; \<open>c_insert\<close> is \<open>create\<close>, \<open>c_get\<close> is
  \<open>findById\<close>, \<open>c_findMany\<close> is \<open>find\<close>, \<open>c_upsert\<close> is an update that creates a missing document.
\<close>

definition find_law :: "('s, 'd) coll \<Rightarrow> ('d \<Rightarrow> bool) \<Rightarrow> 's \<Rightarrow> (error + 'd option) \<times> 's \<Rightarrow> bool" where
  "find_law c p s r \<longleftrightarrow> c_view c (snd r) = c_view c s \<and>
     (case fst r of Inl e \<Rightarrow> True
      | Inr None \<Rightarrow> (\<forall>i d. c_view c s i = Some d \<longrightarrow> \<not> p d)
      | Inr (Some d) \<Rightarrow> p d \<and> (\<exists>i. c_view c s i = Some d))"

definition update_law ::
    "('s, 'd) coll \<Rightarrow> string \<Rightarrow> ('d \<Rightarrow> bool) \<Rightarrow> ('d \<Rightarrow> 'd) \<Rightarrow> 's \<Rightarrow> (error + 'd option) \<times> 's \<Rightarrow> bool" where
  "update_law c i p f s r \<longleftrightarrow>
     (case fst r of
        Inl e \<Rightarrow> c_view c (snd r) = c_view c s
      | Inr None \<Rightarrow> c_view c (snd r) = c_view c s \<and> (\<forall>d. c_view c s i = Some d \<longrightarrow> \<not> p d)
      | Inr (Some d') \<Rightarrow> (\<exists>d. c_view c s i = Some d \<and> p d \<and> d' = f d
                              \<and> c_view c (snd r) = (c_view c s)(i \<mapsto> f d)))"

definition insert_law :: "('s, 'd) coll \<Rightarrow> string \<Rightarrow> 'd \<Rightarrow> 's \<Rightarrow> (error + unit) \<times> 's \<Rightarrow> bool" where
  "insert_law c i d s r \<longleftrightarrow>
     (case fst r of
        Inl e \<Rightarrow> c_view c (snd r) = c_view c s
      | Inr _ \<Rightarrow> c_view c s i = None \<and> c_view c (snd r) = (c_view c s)(i \<mapsto> d))"

definition get_law :: "('s, 'd) coll \<Rightarrow> string \<Rightarrow> 's \<Rightarrow> (error + 'd option) \<times> 's \<Rightarrow> bool" where
  "get_law c i s r \<longleftrightarrow> c_view c (snd r) = c_view c s \<and> (\<forall>x. fst r = Inr x \<longrightarrow> x = c_view c s i)"

definition many_law :: "('s, 'd) coll \<Rightarrow> ('d \<Rightarrow> bool) \<Rightarrow> 's \<Rightarrow> (error + 'd list) \<times> 's \<Rightarrow> bool" where
  "many_law c p s r \<longleftrightarrow> c_view c (snd r) = c_view c s
     \<and> (\<forall>ds. fst r = Inr ds \<longrightarrow> (\<exists>is. distinct is \<and> ds = map (\<lambda>i. the (c_view c s i)) is
          \<and> (\<forall>i. i \<in> set is \<longleftrightarrow> (\<exists>d. c_view c s i = Some d \<and> p d))))"

definition upsert_law ::
    "('s, 'd) coll \<Rightarrow> string \<Rightarrow> ('d option \<Rightarrow> 'd) \<Rightarrow> 's \<Rightarrow> (error + 'd) \<times> 's \<Rightarrow> bool" where
  "upsert_law c i f s r \<longleftrightarrow>
     (case fst r of
        Inl e \<Rightarrow> c_view c (snd r) = c_view c s
      | Inr d \<Rightarrow> d = f (c_view c s i) \<and> c_view c (snd r) = (c_view c s)(i \<mapsto> d))"

text \<open>A failed \<open>deleteMany\<close> may have deleted some of the documents.\<close>

definition delete_law :: "('s, 'd) coll \<Rightarrow> ('d \<Rightarrow> bool) \<Rightarrow> 's \<Rightarrow> (error + unit) \<times> 's \<Rightarrow> bool" where
  "delete_law c p s r \<longleftrightarrow>
     (\<forall>i. c_view c (snd r) i = c_view c s i \<or> (\<exists>d. c_view c s i = Some d \<and> p d) \<and> c_view c (snd r) i = None)
   \<and> (case fst r of Inl e \<Rightarrow> True
      | Inr _ \<Rightarrow> (\<forall>i d. c_view c (snd r) i = Some d \<longrightarrow> \<not> p d))"

definition coll_ok :: "('s, 'd) coll \<Rightarrow> bool" where
  "coll_ok c \<longleftrightarrow> (\<forall>p s. find_law c p s (c_findOne c p s))
     \<and> (\<forall>i p f s. update_law c i p f s (c_update c i p f s))
     \<and> (\<forall>i d s. insert_law c i d s (c_insert c i d s))
     \<and> (\<forall>i s. get_law c i s (c_get c i s))
     \<and> (\<forall>p s. many_law c p s (c_findMany c p s))
     \<and> (\<forall>i f s. upsert_law c i f s (c_upsert c i f s))
     \<and> (\<forall>p s. delete_law c p s (c_deleteMany c p s))"

text \<open>The operations of a collection do not change what \<open>v\<close> reads, as for another collection.\<close>

definition quiet :: "('s, 'd) coll \<Rightarrow> ('s \<Rightarrow> 'v) \<Rightarrow> bool" where
  "quiet c v \<longleftrightarrow> (\<forall>p s. v (snd (c_findOne c p s)) = v s)
     \<and> (\<forall>i p f s. v (snd (c_update c i p f s)) = v s)
     \<and> (\<forall>i d s. v (snd (c_insert c i d s)) = v s)
     \<and> (\<forall>i s. v (snd (c_get c i s)) = v s)
     \<and> (\<forall>p s. v (snd (c_findMany c p s)) = v s)
     \<and> (\<forall>i f s. v (snd (c_upsert c i f s)) = v s)
     \<and> (\<forall>p s. v (snd (c_deleteMany c p s)) = v s)"

lemma coll_okD:
  assumes "coll_ok c"
  shows "find_law c p s (c_findOne c p s)" "update_law c i q f s (c_update c i q f s)"
    "insert_law c i d s (c_insert c i d s)" "get_law c i s (c_get c i s)" "many_law c q s (c_findMany c q s)"
    "upsert_law c i g s (c_upsert c i g s)" "delete_law c q s (c_deleteMany c q s)"
  using assms unfolding coll_ok_def by blast+

lemma c_findOne_view: "coll_ok c \<Longrightarrow> c_findOne c p s = (r, s') \<Longrightarrow> c_view c s' = c_view c s"
  using coll_okD(1) [of c p s] by (simp add: find_law_def)

lemma c_findOne_None:
  "coll_ok c \<Longrightarrow> c_findOne c p s = (Inr None, s') \<Longrightarrow> c_view c s i = Some d \<Longrightarrow> \<not> p d"
  using coll_okD(1) [of c p s] by (simp add: find_law_def)

lemma c_findOne_Some:
  assumes "coll_ok c" "c_findOne c p s = (Inr (Some d), s')"
  obtains i where "p d" "c_view c s i = Some d"
  using coll_okD(1) [OF assms(1), of p s] assms(2) by (auto simp: find_law_def)

lemma c_update_fail: "coll_ok c \<Longrightarrow> c_update c i p f s = (Inl e, s') \<Longrightarrow> c_view c s' = c_view c s"
  using coll_okD(2) [of c i p f s] by (simp add: update_law_def)

lemma c_update_None:
  assumes "coll_ok c" "c_update c i p f s = (Inr None, s')"
  shows "c_view c s' = c_view c s" "c_view c s i = Some d \<Longrightarrow> \<not> p d"
  using coll_okD(2) [OF assms(1), of i p f s] assms(2) by (simp_all add: update_law_def)

lemma c_update_Some:
  assumes "coll_ok c" "c_update c i p f s = (Inr (Some d'), s')"
  obtains d where "c_view c s i = Some d" "p d" "d' = f d" "c_view c s' = (c_view c s)(i \<mapsto> f d)"
  using coll_okD(2) [OF assms(1), of i p f s] assms(2) by (auto simp: update_law_def)

lemma update_view:
  assumes "coll_ok c" "c_update c i p f s = (Inr x, s')"
  shows "case x of None \<Rightarrow> c_view c s' = c_view c s
    | Some d' \<Rightarrow> \<exists>d. c_view c s i = Some d \<and> p d \<and> d' = f d \<and> c_view c s' = (c_view c s)(i \<mapsto> d')"
proof (cases x)
  case None
  then show ?thesis using c_update_None(1) [OF assms(1)] assms(2) by simp
next
  case (Some d')
  then obtain d where "c_view c s i = Some d" "p d" "d' = f d" "c_view c s' = (c_view c s)(i \<mapsto> f d)"
    using c_update_Some [OF assms(1)] assms(2) by metis
  then show ?thesis using Some by simp
qed

lemma c_insert_fail: "coll_ok c \<Longrightarrow> c_insert c i d s = (Inl e, s') \<Longrightarrow> c_view c s' = c_view c s"
  using coll_okD(3) [of c i d s] by (simp add: insert_law_def)

lemma c_insert_ok:
  "coll_ok c \<Longrightarrow> c_insert c i d s = (Inr u, s')
    \<Longrightarrow> c_view c s i = None \<and> c_view c s' = (c_view c s)(i \<mapsto> d)"
  using coll_okD(3) [of c i d s] by (simp add: insert_law_def)

lemma c_get_view:
  "coll_ok c \<Longrightarrow> c_get c i s = (r, s') \<Longrightarrow> c_view c s' = c_view c s"
  "coll_ok c \<Longrightarrow> c_get c i s = (Inr x, s') \<Longrightarrow> x = c_view c s i"
  using coll_okD(4) [of c i s] by (simp_all add: get_law_def)

lemma c_findMany_view: "coll_ok c \<Longrightarrow> c_findMany c p s = (r, s') \<Longrightarrow> c_view c s' = c_view c s"
  using coll_okD(5) [of c p s] by (simp add: many_law_def)

lemma c_findMany_docs:
  assumes "coll_ok c" "c_findMany c p s = (Inr ds, s')"
  obtains "is" where "distinct is" "ds = map (\<lambda>i. the (c_view c s i)) is"
    "\<And>i. i \<in> set is \<longleftrightarrow> (\<exists>d. c_view c s i = Some d \<and> p d)"
  using coll_okD(5) [OF assms(1), of p s] assms(2) by (auto simp: many_law_def)

lemma c_upsert_fail: "coll_ok c \<Longrightarrow> c_upsert c i f s = (Inl e, s') \<Longrightarrow> c_view c s' = c_view c s"
  using coll_okD(6) [of c i f s] by (simp add: upsert_law_def)

lemma c_upsert_ok:
  "coll_ok c \<Longrightarrow> c_upsert c i f s = (Inr d, s')
    \<Longrightarrow> d = f (c_view c s i) \<and> c_view c s' = (c_view c s)(i \<mapsto> d)"
  using coll_okD(6) [of c i f s] by (simp add: upsert_law_def)

lemma quietD:
  assumes "quiet c v"
  shows "c_findOne c p s = (r1, s') \<Longrightarrow> v s' = v s" "c_update c i p f s = (r2, s') \<Longrightarrow> v s' = v s"
    "c_insert c i d s = (r3, s') \<Longrightarrow> v s' = v s" "c_get c i s = (r1, s') \<Longrightarrow> v s' = v s"
    "c_findMany c p s = (r4, s') \<Longrightarrow> v s' = v s" "c_upsert c i g s = (r5, s') \<Longrightarrow> v s' = v s"
    "c_deleteMany c p s = (r3, s') \<Longrightarrow> v s' = v s"
  using assms unfolding quiet_def by (metis snd_conv)+

lemmas coll_elims = c_update_Some c_findOne_Some

section \<open>Runs that leave a reading alone\<close>

text \<open>Whatever its outcome, the run does not change what \<open>v\<close> reads.\<close>

definition keeps :: "('s \<Rightarrow> 'v) \<Rightarrow> ('s, 'a) run \<Rightarrow> bool" where
  "keeps v m \<longleftrightarrow> (\<forall>s. v (snd (m s)) = v s)"

named_theorems keeps_intros

lemma keepsD: "keeps v m \<Longrightarrow> m s = (r, s') \<Longrightarrow> v s' = v s"
  unfolding keeps_def by (metis snd_conv)

lemma keepsI: "(\<And>s r s'. m s = (r, s') \<Longrightarrow> v s' = v s) \<Longrightarrow> keeps v m"
  unfolding keeps_def by (metis prod.collapse)

lemma keeps_basic [keeps_intros]: "keeps v (ret a)" "keeps v (throw e)" "keeps v (of_result r)"
  by (simp_all add: keeps_def run_simps)

lemma keeps_bind [keeps_intros]: "keeps v m \<Longrightarrow> (\<And>a. keeps v (f a)) \<Longrightarrow> keeps v (bind m f)"
  unfolding keeps_def bind_run by (auto split: prod.splits sum.splits) (metis snd_conv)+

lemma keeps_andThen [keeps_intros]: "keeps v m \<Longrightarrow> keeps v n \<Longrightarrow> keeps v (andThen m n)"
  unfolding keeps_def andThen_run by (auto split: prod.splits sum.splits) (metis snd_conv)+

lemma keeps_catch [keeps_intros]: "keeps v m \<Longrightarrow> (\<And>e. keeps v (h e)) \<Longrightarrow> keeps v (catch m h)"
  unfolding keeps_def catch_run by (auto split: prod.splits sum.splits) (metis snd_conv)+

lemma keeps_branch [keeps_intros]:
  "(b \<Longrightarrow> keeps v m) \<Longrightarrow> (\<not> b \<Longrightarrow> keeps v n) \<Longrightarrow> keeps v (if b then m else n)"
  "(x = None \<Longrightarrow> keeps v m) \<Longrightarrow> (\<And>a. x = Some a \<Longrightarrow> keeps v (f a)) \<Longrightarrow> keeps v (case x of None \<Rightarrow> m | Some a \<Rightarrow> f a)"
  "(xs = [] \<Longrightarrow> keeps v m) \<Longrightarrow> (\<And>y ys. xs = y # ys \<Longrightarrow> keeps v (g y ys)) \<Longrightarrow> keeps v (case xs of [] \<Rightarrow> m | y # ys \<Rightarrow> g y ys)"
  "(\<And>a b. p = (a, b) \<Longrightarrow> keeps v (k a b)) \<Longrightarrow> keeps v (case p of (a, b) \<Rightarrow> k a b)"
  by (cases b; cases x; cases xs; cases p; simp)+

lemma keeps_quiet [keeps_intros]:
  assumes "quiet c v"
  shows "keeps v (c_findOne c p)" "keeps v (c_update c i p f)" "keeps v (c_insert c i d)" "keeps v (c_get c i)"
    "keeps v (c_findMany c p)" "keeps v (c_upsert c i g)" "keeps v (c_deleteMany c p)"
  using assms unfolding quiet_def keeps_def by blast+

section \<open>Transactions\<close>

text \<open>
  A transaction runs its body from a state that reads the same (it may be retried).  When it
  throws, what \<open>v\<close> reads is unchanged, except that an error that leaves the outcome of the commit
  unknown may follow a commit that took place.
\<close>

definition txn_ok :: "(('s, 'a) run \<Rightarrow> ('s, 'a) run) \<Rightarrow> (error \<Rightarrow> bool) \<Rightarrow> ('s \<Rightarrow> 'v) \<Rightarrow> bool" where
  "txn_ok txn unknown v \<longleftrightarrow> (\<forall>m s. case txn m s of
       (Inr a, s') \<Rightarrow> (\<exists>s0 s1. v s0 = v s \<and> m s0 = (Inr a, s1) \<and> v s' = v s1)
     | (Inl e, s') \<Rightarrow> v s' = v s
         \<or> unknown e \<and> (\<exists>a s0 s1. v s0 = v s \<and> m s0 = (Inr a, s1) \<and> v s' = v s1))"

lemma txn_okD:
  assumes "txn_ok txn unknown v"
  shows "case txn m s of
       (Inr a, s') \<Rightarrow> (\<exists>s0 s1. v s0 = v s \<and> m s0 = (Inr a, s1) \<and> v s' = v s1)
     | (Inl e, s') \<Rightarrow> v s' = v s
         \<or> unknown e \<and> (\<exists>a s0 s1. v s0 = v s \<and> m s0 = (Inr a, s1) \<and> v s' = v s1)"
  by (rule assms [unfolded txn_ok_def, rule_format])

lemma txn_commit:
  assumes "txn_ok txn unknown v" "txn m s = (Inr a, s')"
  obtains s0 s1 where "v s0 = v s" "m s0 = (Inr a, s1)" "v s' = v s1"
  using txn_okD [OF assms(1), where m = m and s = s] assms(2) by auto

lemma txn_abort: "txn_ok txn unknown v \<Longrightarrow> txn m s = (Inl e, s') \<Longrightarrow> \<not> unknown e \<Longrightarrow> v s' = v s"
  using txn_okD [where txn = txn and unknown = unknown and v = v and m = m and s = s] by auto

lemma txn_cases:
  assumes "txn_ok txn unknown v" "txn m s = (r, s')"
  obtains "v s' = v s" | a s0 s1 where "v s0 = v s" "m s0 = (Inr a, s1)" "v s' = v s1"
  using txn_okD [OF assms(1), where m = m and s = s] assms(2) by (cases r) auto

lemma txn_ok_comp:
  assumes "txn_ok txn unknown v"
  shows "txn_ok txn unknown (\<lambda>s. f (v s))"
  unfolding txn_ok_def
proof (intro allI)
  fix m s
  obtain r s' where t: "txn m s = (r, s')" by fastforce
  show "case txn m s of
       (Inr a, s') \<Rightarrow> \<exists>s0 s1. f (v s0) = f (v s) \<and> m s0 = (Inr a, s1) \<and> f (v s') = f (v s1)
     | (Inl e, s') \<Rightarrow> f (v s') = f (v s) \<or> unknown e \<and> (\<exists>a s0 s1. f (v s0) = f (v s) \<and> m s0 = (Inr a, s1) \<and> f (v s') = f (v s1))"
    using txn_okD [OF assms, where m = m and s = s] t by (cases r; simp; metis)
qed

text \<open>The reference transaction: run the body, restore the state on an error.\<close>

definition atomic :: "('s, 'a) run \<Rightarrow> ('s, 'a) run" where
  "atomic m = (\<lambda>s. case m s of (Inl e, s') \<Rightarrow> (Inl e, s) | (Inr a, s') \<Rightarrow> (Inr a, s'))"

lemma atomic_ok: "txn_ok atomic unknown v"
  unfolding txn_ok_def atomic_def by (auto split: prod.splits sum.splits)

section \<open>A database that answers\<close>

text \<open>
  A collection that answers: no operation fails on it, except the creation of a document that exists.  A
  transaction that commits: its outcome is the one of its body whenever the body returns.
\<close>

definition answers :: "('s, 'd) coll \<Rightarrow> bool" where
  "answers c \<longleftrightarrow> (\<forall>i p f s. \<exists>x s'. c_update c i p f s = (Inr x, s'))
     \<and> (\<forall>i d s. c_view c s i = None \<longrightarrow> (\<exists>s'. c_insert c i d s = (Inr (), s')))
     \<and> (\<forall>i s. \<exists>x s'. c_get c i s = (Inr x, s')) \<and> (\<forall>p s. \<exists>x s'. c_findOne c p s = (Inr x, s'))"

definition commits :: "(('s, 'a) run \<Rightarrow> ('s, 'a) run) \<Rightarrow> bool" where
  "commits txn \<longleftrightarrow> (\<forall>m s a s1. m s = (Inr a, s1) \<longrightarrow> (\<exists>s'. txn m s = (Inr a, s')))"

lemma update_answers:
  assumes "answers c" "coll_ok c" "c_view c s i = Some d" "p d"
  obtains s' where "c_update c i p f s = (Inr (Some (f d)), s')" "c_view c s' = (c_view c s)(i \<mapsto> f d)"
proof -
  obtain x s' where u: "c_update c i p f s = (Inr x, s')" using assms(1) unfolding answers_def by blast
  then have "x \<noteq> None" using c_update_None(2) [OF assms(2)] assms(3,4) by metis
  then obtain d' where x: "x = Some d'" by blast
  obtain e where "c_view c s i = Some e" "d' = f e" "c_view c s' = (c_view c s)(i \<mapsto> f e)"
    using u unfolding x by (rule c_update_Some [OF assms(2)])
  then show thesis using that u x assms(3) by simp
qed

lemma insert_answers:
  assumes "answers c" "coll_ok c" "c_view c s i = None"
  obtains s' where "c_insert c i d s = (Inr (), s')" "c_view c s' = (c_view c s)(i \<mapsto> d)"
proof -
  obtain s' where u: "c_insert c i d s = (Inr (), s')" using assms(1,3) unfolding answers_def by blast
  then show thesis using that c_insert_ok [OF assms(2) u] by blast
qed

lemma get_answers:
  assumes "answers c" "coll_ok c"
  obtains s' where "c_get c i s = (Inr (c_view c s i), s')" "c_view c s' = c_view c s"
proof -
  obtain x s' where u: "c_get c i s = (Inr x, s')" using assms(1) unfolding answers_def by blast
  then show thesis using that c_get_view [OF assms(2) u] c_get_view(2) [OF assms(2) u] by blast
qed

lemma atomic_commits: "commits atomic"
  by (simp add: commits_def atomic_def)

section \<open>A collection in memory\<close>

text \<open>The reference collection: an association list inside the state.\<close>

definition mem_coll ::
    "('s \<Rightarrow> (string \<times> 'd) list) \<Rightarrow> ((string \<times> 'd) list \<Rightarrow> 's \<Rightarrow> 's) \<Rightarrow> ('s, 'd) coll" where
  "mem_coll g u =
     \<lparr>c_view = (\<lambda>s. map_of (g s)),
      c_findOne = (\<lambda>p s. (Inr (map_option snd (find (\<lambda>(i, d). p d \<and> map_of (g s) i = Some d) (g s))), s)),
      c_update = (\<lambda>i p f s. case map_of (g s) i of
         None \<Rightarrow> (Inr None, s)
       | Some d \<Rightarrow> if p d then (Inr (Some (f d)), u ((i, f d) # g s) s) else (Inr None, s)),
      c_insert = (\<lambda>i d s. case map_of (g s) i of
         None \<Rightarrow> (Inr (), u ((i, d) # g s) s)
       | Some _ \<Rightarrow> (Inl \<lparr>message = ''E11000'', e_code = ''11000'', statusCode = 0\<rparr>, s)),
      c_get = (\<lambda>i s. (Inr (map_of (g s) i), s)),
      c_findMany = (\<lambda>p s. (Inr (filter p (map (\<lambda>i. the (map_of (g s) i)) (remdups (map fst (g s))))), s)),
      c_upsert = (\<lambda>i f s. (Inr (f (map_of (g s) i)), u ((i, f (map_of (g s) i)) # g s) s)),
      c_deleteMany = (\<lambda>p s. (Inr (), u (filter (\<lambda>(i, d). \<not> p (the (map_of (g s) i))) (g s)) s))\<rparr>"

lemma mem_coll_view: "c_view (mem_coll g u) s = map_of (g s)"
  by (simp add: mem_coll_def)

lemma map_of_filter_keys: "map_of (filter (\<lambda>(i, d). q i) kvs) i = (if q i then map_of kvs i else None)"
  by (induction kvs) auto

lemma mem_coll_ok:
  assumes "\<And>l s. g (u l s) = l"
  shows "coll_ok (mem_coll g u)"
proof -
  have find: "find_law (mem_coll g u) p s (c_findOne (mem_coll g u) p s)" for p s
    by (auto simp: find_law_def mem_coll_def find_None_iff find_Some_iff map_of_SomeD
        split: option.splits dest: nth_mem) (metis (mono_tags, lifting) map_of_SomeD case_prod_conv)
  have many: "many_law (mem_coll g u) p s (c_findMany (mem_coll g u) p s)" for p s
  proof -
    let ?is = "filter (\<lambda>i. p (the (map_of (g s) i))) (remdups (map fst (g s)))"
    have key: "i \<in> set (map fst (g s)) \<longleftrightarrow> map_of (g s) i \<noteq> None" for i
      using map_of_eq_None_iff [of "g s" i] by simp
    have "i \<in> set ?is \<longleftrightarrow> (\<exists>d. map_of (g s) i = Some d \<and> p d)" for i
      unfolding set_filter set_remdups mem_Collect_eq key by (cases "map_of (g s) i") simp_all
    then show ?thesis
      by (auto simp: many_law_def mem_coll_def filter_map comp_def intro: exI [of _ ?is])
  qed
  have del: "delete_law (mem_coll g u) p s (c_deleteMany (mem_coll g u) p s)" for p s
  proof -
    have v: "c_view (mem_coll g u) (snd (c_deleteMany (mem_coll g u) p s)) i
        = (if p (the (map_of (g s) i)) then None else map_of (g s) i)" for i
      using map_of_filter_keys [of "\<lambda>i. \<not> p (the (map_of (g s) i))" "g s"] by (simp add: mem_coll_def assms)
    show ?thesis
      unfolding delete_law_def v
    proof (intro conjI allI)
      fix i
      show "(if p (the (map_of (g s) i)) then None else map_of (g s) i) = c_view (mem_coll g u) s i
        \<or> (\<exists>d. c_view (mem_coll g u) s i = Some d \<and> p d) \<and> (if p (the (map_of (g s) i)) then None else map_of (g s) i) = None"
        by (cases "map_of (g s) i") (simp_all add: mem_coll_def)
    qed (auto simp: mem_coll_def split: if_splits)
  qed
  show ?thesis
    unfolding coll_ok_def using find many del
    by (auto simp: update_law_def insert_law_def get_law_def upsert_law_def mem_coll_def assms fun_eq_iff split: option.split)
qed

lemma mem_coll_answers: "answers (mem_coll g u)"
  by (auto simp: answers_def mem_coll_def split: option.split)

lemma mem_coll_quiet: "(\<And>l s. v (u l s) = v s) \<Longrightarrow> quiet (mem_coll g u) v"
  by (auto simp: quiet_def mem_coll_def split: option.split)

text \<open>A collection whose inserts fail, to exercise the error paths.\<close>

definition failing_insert :: "error \<Rightarrow> ('s, 'd) coll \<Rightarrow> ('s, 'd) coll" where
  "failing_insert e c = c\<lparr>c_insert := (\<lambda>i d s. (Inl e, s))\<rparr>"

lemma failing_insert_simps [simp]:
  "c_view (failing_insert e c) = c_view c" "c_findOne (failing_insert e c) = c_findOne c"
  "c_update (failing_insert e c) = c_update c" "c_insert (failing_insert e c) i d s = (Inl e, s)"
  "c_get (failing_insert e c) = c_get c" "c_findMany (failing_insert e c) = c_findMany c"
  "c_upsert (failing_insert e c) = c_upsert c" "c_deleteMany (failing_insert e c) = c_deleteMany c"
  by (simp_all add: failing_insert_def)

lemma failing_insert_ok: "coll_ok c \<Longrightarrow> coll_ok (failing_insert e c)"
  unfolding coll_ok_def find_law_def update_law_def insert_law_def get_law_def many_law_def upsert_law_def
    delete_law_def failing_insert_simps by simp

lemma failing_insert_quiet: "quiet c v \<Longrightarrow> quiet (failing_insert e c) v"
  by (simp add: quiet_def failing_insert_def)

section \<open>Sums over the entries of a map\<close>

definition sum_map :: "('v \<Rightarrow> int) \<Rightarrow> (string \<Rightarrow> 'v option) \<Rightarrow> int" where
  "sum_map f m = (\<Sum>i\<in>dom m. f (the (m i)))"

lemma sum_map_upd:
  assumes "finite (dom m)"
  shows "sum_map f (m(k \<mapsto> v)) = sum_map f m - (case m k of None \<Rightarrow> 0 | Some u \<Rightarrow> f u) + f v"
proof -
  have "(\<Sum>i\<in>dom m - {k}. f (the ((m(k \<mapsto> v)) i))) = (\<Sum>i\<in>dom m - {k}. f (the (m i)))"
    by (rule sum.cong) auto
  moreover have "sum_map f m = (case m k of None \<Rightarrow> 0 | Some u \<Rightarrow> f u) + (\<Sum>i\<in>dom m - {k}. f (the (m i)))"
    using assms by (cases "m k") (simp_all add: sum_map_def domIff sum.remove [of "dom m" k])
  ultimately show ?thesis using assms
    by (simp add: sum_map_def sum.insert_remove del: fun_upd_apply) simp
qed

lemma sum_map_del:
  assumes "finite (dom m)" "m k = Some v"
  shows "sum_map f (m(k := None)) = sum_map f m - f v"
proof -
  have "(\<Sum>i\<in>dom m - {k}. f (the ((m(k := None)) i))) = (\<Sum>i\<in>dom m - {k}. f (the (m i)))"
    by (rule sum.cong) auto
  then show ?thesis using assms
    by (simp add: sum_map_def domIff sum.remove [of "dom m" k] del: fun_upd_apply)
qed

end
