(* ===== verification/Money.thy ===== *)
theory Money
  imports Prelude
begin

text \<open>
  Stored sums of money.  Amounts are decimals with three digits, but the database adds them as
  doubles without rounding, so a balance after many updates is only close to the exact sum.
  \<open>near n i v\<close> says that \<open>v\<close> is within \<open>n\<close> units of 2 to the power -23 of \<open>i / 1000\<close>; up to
  4096 such units the value still reads back as exactly \<open>i / 1000\<close> when it is rounded to three
  digits.  Sums are bounded by 2 to the power 30, above the largest credit limit of the code.
\<close>

definition LIMIT :: int where
  "LIMIT = 1000 * 2 ^ 30"

definition near :: "nat \<Rightarrow> int \<Rightarrow> jsnum \<Rightarrow> bool" where
  "near n i v \<longleftrightarrow> (case v of Fin y \<Rightarrow> \<bar>y - of_int i / 1000\<bar> \<le> of_nat n / 2 ^ 23 | _ \<Rightarrow> False)"

lemma near_Fin: "near n i v \<Longrightarrow> \<exists>y. v = Fin y \<and> \<bar>y - of_int i / 1000\<bar> \<le> of_nat n / 2 ^ 23"
  by (auto simp: near_def split: jsnum.splits)

lemma near_mono: "near n i v \<Longrightarrow> n \<le> m \<Longrightarrow> near m i v"
proof -
  assume "near n i v" "n \<le> m"
  moreover have "of_nat n / 2 ^ 23 \<le> (of_nat m / 2 ^ 23 :: rat)" if "n \<le> m"
    using that by (intro divide_right_mono) simp_all
  ultimately show ?thesis by (auto simp: near_def split: jsnum.splits)
qed

lemma LIMIT_rat: "\<bar>i\<bar> \<le> LIMIT \<Longrightarrow> \<bar>of_int i / 1000 :: rat\<bar> \<le> 2 ^ 30"
proof -
  assume "\<bar>i\<bar> \<le> LIMIT"
  then have "\<bar>of_int i :: rat\<bar> \<le> of_int LIMIT" by (simp flip: of_int_abs)
  then show ?thesis by (simp add: LIMIT_def)
qed

lemma num_near:
  assumes "\<bar>x - of_int i / 1000\<bar> \<le> of_nat n / 2 ^ 23" "\<bar>i\<bar> \<le> LIMIT" "n \<le> 4096"
  shows "near (Suc n) i (num x)"
proof -
  have n: "of_nat n / 2 ^ 23 \<le> (1 :: rat)" using assms(3) by simp
  have "\<bar>x\<bar> \<le> \<bar>x - of_int i / 1000\<bar> + \<bar>of_int i / 1000\<bar>" by linarith
  also have "\<dots> \<le> 1 + 2 ^ 30" using assms(1) n LIMIT_rat [OF assms(2)] by linarith
  finally have x: "\<bar>x\<bar> \<le> 1 + 2 ^ 30" .
  then have xb: "\<bar>x\<bar> < 2 powi (- 22 + 53)" by simp
  have err: "\<bar>fl x - x\<bar> \<le> 1 / 2 ^ 23"
    using fl_error_le [OF xb] by (simp add: power_int_minus)
  have "\<bar>fl x\<bar> \<le> \<bar>fl x - x\<bar> + \<bar>x\<bar>" by linarith
  also have "\<dots> \<le> 2 ^ 31" using err x by simp
  finally have "\<bar>fl x\<bar> < 2 ^ 1024"
    by (rule order_le_less_trans) (rule power_strict_increasing, simp_all)
  then have "num x = Fin (fl x)" by (simp add: num_Fin_iff)
  moreover have "\<bar>fl x - of_int i / 1000\<bar> \<le> \<bar>fl x - x\<bar> + \<bar>x - of_int i / 1000\<bar>" by linarith
  then have "\<bar>fl x - of_int i / 1000\<bar> \<le> of_nat (Suc n) / 2 ^ 23"
    using err assms(1) by (simp add: add_divide_distrib)
  ultimately show ?thesis by (simp add: near_def)
qed

lemma near_dec: "\<bar>i\<bar> \<le> LIMIT \<Longrightarrow> near 1 i (dec 3 i)"
  using num_near [of "of_int i / 10 ^ 3" i 0] by (simp add: dec_def)

lemma near_add:
  assumes "near n i v" "near m j w" "\<bar>i + j\<bar> \<le> LIMIT" "n + m \<le> 4096"
  shows "near (Suc (n + m)) (i + j) (n_add v w)"
proof -
  obtain y where y: "v = Fin y" "\<bar>y - of_int i / 1000\<bar> \<le> of_nat n / 2 ^ 23" using near_Fin assms(1) by blast
  obtain z where z: "w = Fin z" "\<bar>z - of_int j / 1000\<bar> \<le> of_nat m / 2 ^ 23" using near_Fin assms(2) by blast
  have "y + z - of_int (i + j) / 1000 = (y - of_int i / 1000) + (z - of_int j / 1000)"
    by (simp add: add_divide_distrib)
  then have "\<bar>y + z - of_int (i + j) / 1000\<bar> \<le> \<bar>y - of_int i / 1000\<bar> + \<bar>z - of_int j / 1000\<bar>"
    using abs_triangle_ineq by simp
  also have "\<dots> \<le> of_nat (n + m) / 2 ^ 23" using y(2) z(2) by (simp add: add_divide_distrib)
  finally show ?thesis using num_near [of "y + z" "i + j" "n + m"] assms y z by simp
qed

lemma near_neg: "near n i v \<Longrightarrow> near n (- i) (n_neg v)"
  by (cases v) (auto simp: near_def abs_minus_commute)

lemma n_sub_neg: "n_sub v w = n_add v (n_neg w)"
  by (simp add: n_sub_def)

lemma near_sub:
  assumes "near n i v" "near m j w" "\<bar>i - j\<bar> \<le> LIMIT" "n + m \<le> 4096"
  shows "near (Suc (n + m)) (i - j) (n_sub v w)"
  using near_add [OF assms(1) near_neg [OF assms(2)]] assms(3,4) by (simp add: n_sub_neg)

lemma near_add_dec:
  "\<bar>i\<bar> \<le> LIMIT \<Longrightarrow> \<bar>j\<bar> \<le> LIMIT \<Longrightarrow> \<bar>i + j\<bar> \<le> LIMIT \<Longrightarrow> near 3 (i + j) (n_add (dec 3 i) (dec 3 j))"
  by (rule near_mono [OF near_add [OF near_dec near_dec]]) simp_all

lemma near_sub_dec:
  "\<bar>i\<bar> \<le> LIMIT \<Longrightarrow> \<bar>j\<bar> \<le> LIMIT \<Longrightarrow> \<bar>i - j\<bar> \<le> LIMIT \<Longrightarrow> near 3 (i - j) (n_sub (dec 3 i) (dec 3 j))"
  by (rule near_mono [OF near_sub [OF near_dec near_dec]]) simp_all

lemma near_read:
  assumes "near n i v" "\<bar>i\<bar> \<le> LIMIT" "n \<le> 4096"
  shows "n_fixed 3 v = dec 3 i"
proof -
  obtain y where y: "v = Fin y" "\<bar>y - of_int i / 1000\<bar> \<le> of_nat n / 2 ^ 23" using near_Fin assms(1) by blast
  have n: "of_nat n / 2 ^ 23 \<le> (1 / 2048 :: rat)" using assms(3) by simp
  have "\<bar>y\<bar> \<le> \<bar>y - of_int i / 1000\<bar> + \<bar>of_int i / 1000\<bar>" by linarith
  also have "\<dots> \<le> 1 + 2 ^ 30" using y n LIMIT_rat [OF assms(2)] by linarith
  finally have "\<bar>y\<bar> < 10 ^ 21" by simp
  moreover have "\<bar>y - of_int i / 1000\<bar> \<le> 1 / 2048" using y n by linarith
  then have "\<bar>y - of_int i / 10 ^ 3\<bar> * 10 ^ 3 < 1 / 2" by simp
  ultimately show ?thesis using n_fixed_near [of y i 3] y by simp
qed

lemma near_unique:
  assumes "near n i v" "near m j v" "n + m \<le> 4096"
  shows "i = j"
proof -
  obtain y where y: "v = Fin y" "\<bar>y - of_int i / 1000\<bar> \<le> of_nat n / 2 ^ 23" using near_Fin assms(1) by blast
  have z: "\<bar>y - of_int j / 1000\<bar> \<le> of_nat m / 2 ^ 23" using y assms(2) by (simp add: near_def)
  have "\<bar>of_int (i - j) / 1000 :: rat\<bar> \<le> \<bar>y - of_int i / 1000\<bar> + \<bar>y - of_int j / 1000\<bar>"
    by (simp add: diff_divide_distrib)
  also have "\<dots> \<le> of_nat (n + m) / 2 ^ 23" using y(2) z by (simp add: add_divide_distrib)
  also have "\<dots> \<le> 4096 / 2 ^ 23" using assms(3) by (intro divide_right_mono) simp_all
  finally have "\<bar>of_int (i - j) :: rat\<bar> < 1" by simp
  then show ?thesis by simp
qed

lemma dec_limit: "\<bar>i\<bar> \<le> LIMIT \<Longrightarrow> dec 3 i = Fin (decv 3 i)"
  using LIMIT_rat [of i] by (intro dec_Fin) simp_all

lemma dec_le: "\<bar>a\<bar> \<le> LIMIT \<Longrightarrow> \<bar>b\<bar> \<le> LIMIT \<Longrightarrow> n_le (dec 3 a) (dec 3 b) \<longleftrightarrow> a \<le> b"
proof -
  assume a: "\<bar>a\<bar> \<le> LIMIT" and b: "\<bar>b\<bar> \<le> LIMIT"
  have "decv 3 a \<le> decv 3 b \<longleftrightarrow> a \<le> b"
  proof
    assume le: "decv 3 a \<le> decv 3 b"
    show "a \<le> b"
    proof (rule ccontr)
      assume "\<not> a \<le> b"
      then have "decv 3 a = decv 3 b" using decv_mono [of b a 3] le by simp
      then have "near 1 b (dec 3 a)" using near_dec [OF b] dec_limit [OF a] dec_limit [OF b] by simp
      then show False using near_unique [OF near_dec [OF a]] \<open>\<not> a \<le> b\<close> by fastforce
    qed
  qed (rule decv_mono)
  then show ?thesis by (simp add: dec_limit a b)
qed

lemma dec_lt: "\<bar>a\<bar> \<le> LIMIT \<Longrightarrow> \<bar>b\<bar> \<le> LIMIT \<Longrightarrow> n_lt (dec 3 a) (dec 3 b) \<longleftrightarrow> a < b"
  using dec_le [of b a] by (simp add: dec_limit) linarith

lemma dec_0: "dec d 0 = Fin 0"
  by (simp add: dec_def)

lemma n_max_dec: "\<bar>a\<bar> \<le> LIMIT \<Longrightarrow> \<bar>b\<bar> \<le> LIMIT \<Longrightarrow> n_max (dec 3 a) (dec 3 b) = dec 3 (max a b)"
  using dec_lt [of a b] by (auto simp: n_max_def max_def dec_limit)

lemma n_min_dec: "\<bar>a\<bar> \<le> LIMIT \<Longrightarrow> \<bar>b\<bar> \<le> LIMIT \<Longrightarrow> n_min (dec 3 a) (dec 3 b) = dec 3 (min a b)"
  using dec_lt [of b a] by (auto simp: n_min_def min_def dec_limit)

lemma near_max0:
  assumes "near n i v" "n \<le> 1000" "\<bar>i\<bar> \<le> LIMIT"
  shows "near n (max 0 i) (n_max (Fin 0) v)"
proof -
  obtain y where y: "v = Fin y" "\<bar>y - of_int i / 1000\<bar> \<le> of_nat n / 2 ^ 23" using near_Fin assms(1) by blast
  have n: "of_nat n / 2 ^ 23 \<le> (1000 / 2 ^ 23 :: rat)" using assms(2) by (intro divide_right_mono) simp_all
  show ?thesis
  proof (cases "0 < y")
    case True
    have "0 \<le> i"
    proof (rule ccontr)
      assume "\<not> 0 \<le> i"
      then have "of_int i \<le> (- 1 :: rat)" by simp
      then have "of_int i / 1000 \<le> (- 1 / 1000 :: rat)" by (intro divide_right_mono) simp_all
      then show False using y n True by simp
    qed
    then show ?thesis using y True by (simp add: near_def n_max_def)
  next
    case False
    have "i \<le> 0"
    proof (rule ccontr)
      assume "\<not> i \<le> 0"
      then have "(1 :: rat) \<le> of_int i" by simp
      then have "(1 / 1000 :: rat) \<le> of_int i / 1000" by (intro divide_right_mono) simp_all
      then show False using y n False by simp
    qed
    then show ?thesis using False by (simp add: near_def n_max_def y(1))
  qed
qed

lemma near_ge_dec:
  assumes "near n b v" "n \<le> 2000" "n_le (dec 3 k) v" "\<bar>k\<bar> \<le> LIMIT"
  shows "k \<le> b"
proof -
  obtain y where y: "v = Fin y" "\<bar>y - of_int b / 1000\<bar> \<le> of_nat n / 2 ^ 23" using near_Fin assms(1) by blast
  have n: "of_nat n / 2 ^ 23 \<le> (2000 / 2 ^ 23 :: rat)" using assms(2) by (intro divide_right_mono) simp_all
  have k: "\<bar>decv 3 k - of_int k / 1000\<bar> \<le> 1 / 2 ^ 23"
    using near_dec [OF assms(4)] by (simp add: near_def dec_limit [OF assms(4)])
  have "decv 3 k \<le> y" using assms(3) y by (simp add: dec_limit [OF assms(4)])
  then have "of_int k / 1000 - of_int b / 1000 \<le> (2001 / 2 ^ 23 :: rat)" using y n k by linarith
  then have "of_int (k - b) / 1000 \<le> (2001 / 2 ^ 23 :: rat)" by (simp add: diff_divide_distrib)
  then have "of_int (k - b) < (1 :: rat)" by simp
  then show ?thesis by simp
qed

text \<open>The exact amount of a stored number, in thousandths.\<close>

definition milli :: "jsnum \<Rightarrow> int" where
  "milli v = (case v of Fin y \<Rightarrow> fixed_int 3 y | _ \<Rightarrow> 0)"

lemma milli_near:
  assumes "near n i v" "n \<le> 4096"
  shows "milli v = i"
proof -
  obtain y where y: "v = Fin y" "\<bar>y - of_int i / 1000\<bar> \<le> of_nat n / 2 ^ 23" using near_Fin assms(1) by blast
  have n: "of_nat n / 2 ^ 23 \<le> (1 / 2048 :: rat)" using assms(2) by simp
  have d: "\<bar>y - of_int i / 1000\<bar> \<le> 1 / 2048" using y n by linarith
  show ?thesis
  proof (cases "y < 0")
    case True
    have "of_int i / 1000 < (1 / 1000 :: rat)" using d True by linarith
    then have i: "i \<le> 0" by simp
    have "\<bar>\<bar>y\<bar> - of_int (- i) / 10 ^ 3\<bar> = \<bar>y - of_int i / 1000\<bar>" using True by simp
    then have "\<bar>\<bar>y\<bar> - of_int (- i) / 10 ^ 3\<bar> * 10 ^ 3 < 1 / 2" using d by simp
    from fixed_digits_of_near [OF this] show ?thesis using True y by (simp add: milli_def fixed_int_def)
  next
    case False
    then have "\<bar>\<bar>y\<bar> - of_int i / 10 ^ 3\<bar> * 10 ^ 3 < 1 / 2" using d by simp
    from fixed_digits_of_near [OF this] show ?thesis using False y by (simp add: milli_def fixed_int_def)
  qed
qed

lemma milli_dec: "\<bar>k\<bar> \<le> LIMIT \<Longrightarrow> milli (dec 3 k) = k"
  by (rule milli_near [OF near_dec]) simp_all

lemma near_le:
  assumes "near n b v" "near m k w" "n_le w v" "n + m \<le> 4096"
  shows "k \<le> b"
proof -
  obtain y where y: "v = Fin y" "\<bar>y - of_int b / 1000\<bar> \<le> of_nat n / 2 ^ 23" using near_Fin assms(1) by blast
  obtain z where z: "w = Fin z" "\<bar>z - of_int k / 1000\<bar> \<le> of_nat m / 2 ^ 23" using near_Fin assms(2) by blast
  have zy: "z \<le> y" using y(1) z(1) assms(3) by simp
  have "of_int k / 1000 - of_int b / 1000 \<le> of_nat n / 2 ^ 23 + (of_nat m / 2 ^ 23 :: rat)"
    using y(2) z(2) zy by linarith
  also have "\<dots> \<le> 1 / 2048" using assms(4) by (simp flip: add_divide_distrib of_nat_add)
  finally have "of_int (k - b) < (1 :: rat)" by (simp add: diff_divide_distrib)
  then show ?thesis by simp
qed

lemma n_abs_dec: "\<bar>k\<bar> \<le> LIMIT \<Longrightarrow> n_abs (dec 3 k) = dec 3 \<bar>k\<bar>"
proof -
  assume k: "\<bar>k\<bar> \<le> LIMIT"
  have nonneg: "n_abs (dec 3 m) = dec 3 m" if m: "0 \<le> m" "m \<le> LIMIT" for m
  proof -
    have ml: "\<bar>m\<bar> \<le> LIMIT" using m by simp
    have "0 \<le> decv 3 m" using dec_le [of 0 m] ml m by (simp add: dec_0 dec_limit LIMIT_def)
    then show ?thesis using dec_limit [OF ml] by simp
  qed
  show ?thesis
  proof (cases "0 \<le> k")
    case True
    then show ?thesis using nonneg k by simp
  next
    case False
    have "n_abs (n_neg v) = n_abs v" for v by (cases v) simp_all
    then have "n_abs (dec 3 k) = n_abs (dec 3 (- k))" by (metis dec_neg)
    then show ?thesis using nonneg [of "- k"] k False by simp
  qed
qed

section \<open>Rounding functions\<close>

text \<open>
  The program rounds money in several ways.  Each of them is expected to turn a sum of decimals
  into the exact decimal; the consequences are shared by the components that round.
\<close>

locale money_rounding =
  fixes rnd :: "jsnum \<Rightarrow> jsnum"
  assumes rnd_near: "near n i v \<Longrightarrow> \<bar>i\<bar> \<le> LIMIT \<Longrightarrow> n \<le> 4000 \<Longrightarrow> rnd v = dec 3 i"
begin

lemma rnd_dec: "\<bar>i\<bar> \<le> LIMIT \<Longrightarrow> rnd (dec 3 i) = dec 3 i"
  by (rule rnd_near [OF near_dec]) simp_all

lemma rnd_add:
  "\<bar>i\<bar> \<le> LIMIT \<Longrightarrow> \<bar>j\<bar> \<le> LIMIT \<Longrightarrow> \<bar>i + j\<bar> \<le> LIMIT \<Longrightarrow> rnd (n_add (dec 3 i) (dec 3 j)) = dec 3 (i + j)"
  by (rule rnd_near [OF near_add_dec]) simp_all

lemma rnd_sub:
  "\<bar>i\<bar> \<le> LIMIT \<Longrightarrow> \<bar>j\<bar> \<le> LIMIT \<Longrightarrow> \<bar>i - j\<bar> \<le> LIMIT \<Longrightarrow> rnd (n_sub (dec 3 i) (dec 3 j)) = dec 3 (i - j)"
  by (rule rnd_near [OF near_sub_dec]) simp_all

lemma rnd_add_max0:
  "\<bar>i\<bar> \<le> LIMIT \<Longrightarrow> \<bar>j\<bar> \<le> LIMIT \<Longrightarrow> \<bar>i + j\<bar> \<le> LIMIT
    \<Longrightarrow> rnd (n_max (Fin 0) (n_add (dec 3 i) (dec 3 j))) = dec 3 (max 0 (i + j))"
  by (rule rnd_near [OF near_max0 [OF near_add_dec]]) (simp_all add: LIMIT_def)

lemma rnd_sub_max0:
  "\<bar>i\<bar> \<le> LIMIT \<Longrightarrow> \<bar>j\<bar> \<le> LIMIT \<Longrightarrow> \<bar>i - j\<bar> \<le> LIMIT
    \<Longrightarrow> rnd (n_max (Fin 0) (n_sub (dec 3 i) (dec 3 j))) = dec 3 (max 0 (i - j))"
  by (rule rnd_near [OF near_max0 [OF near_sub_dec]]) (simp_all add: LIMIT_def)

lemma rnd_neg: "\<bar>i\<bar> \<le> LIMIT \<Longrightarrow> rnd (n_neg (dec 3 i)) = dec 3 (- i)"
  unfolding dec_neg by (rule rnd_dec) simp

lemma rnd_idem: "near n i v \<Longrightarrow> \<bar>i\<bar> \<le> LIMIT \<Longrightarrow> n \<le> 4000 \<Longrightarrow> rnd (rnd v) = rnd v"
  using rnd_near rnd_dec by simp

end

interpretation to_fixed: money_rounding "n_fixed 3"
  by unfold_locales (rule near_read, assumption+, linarith)

end
