(* ===== verification/Agency_Pricing.thy ===== *)
theory Agency_Pricing
  imports Pricing Money
begin

text \<open>
  The agent's margin on a sub-account: \<open>utils/agencyPricing.js\<close>.  Margins are whole piasters
  between 0 and 500; prices are decimals with three digits.
\<close>

section \<open>Margins\<close>

definition MAX_MARGIN_PIASTERS :: jsnum where
  "MAX_MARGIN_PIASTERS = Fin 500"

definition finiteNumber :: "jsval \<Rightarrow> jsnum" where
  "finiteNumber value = (let parsed = toNumber value in if isFinite parsed then parsed else Fin 0)"

definition roundMoney :: "jsval \<Rightarrow> nat \<Rightarrow> jsnum" where
  "roundMoney value digits = n_fixed digits (finiteNumber value)"

function normalizeMarginPiasters :: "jsval \<Rightarrow> jsval \<Rightarrow> jsnum" where
  "normalizeMarginPiasters value fallback =
     (let parsed = toNumber value
      in if \<not> isFinite parsed then normalizeMarginPiasters fallback (Num (Fin 0))
         else n_min MAX_MARGIN_PIASTERS (n_max (Fin 0) (n_round parsed)))"
  by pat_completeness auto
termination
  by (relation "measure (\<lambda>(v, f). if isFinite (toNumber v) then 0 else
        if isFinite (toNumber f) then 1 else (2::nat))") auto

declare normalizeMarginPiasters.simps [simp del]

definition normalizeMargin :: "jsval \<Rightarrow> jsnum" where
  "normalizeMargin value = normalizeMarginPiasters value (Num (Fin 0))"

definition legacyMarginToPiasters :: "jsval \<Rightarrow> jsnum" where
  "legacyMarginToPiasters legacyMargin =
     normalizeMargin (Num (n_mul (finiteNumber legacyMargin) (Fin 100)))"

definition marginPiastersToRateDelta :: "jsval \<Rightarrow> jsnum" where
  "marginPiastersToRateDelta marginPiasters =
     n_fixed 2 (n_div (normalizeMargin marginPiasters) (Fin 100))"

definition readServiceMargin :: "jsval \<Rightarrow> string \<Rightarrow> jsnum option" where
  "readServiceMargin subAccount serviceKey =
     (let serviceMargins = get subAccount ''serviceMarginPiasters''
      in if \<not> truthy serviceMargins then None
         else let value = map_get serviceMargins serviceKey
              in if isFinite (toNumber value) then Some (toNumber value) else None)"

definition resolveMarginPiasters :: "jsval \<Rightarrow> string \<Rightarrow> jsnum" where
  "resolveMarginPiasters subAccount serviceKey =
     (case readServiceMargin subAccount serviceKey of
        Some serviceMargin \<Rightarrow> normalizeMargin (Num serviceMargin)
      | None \<Rightarrow> if isFinite (toNumber (get subAccount ''marginPiasters''))
                then normalizeMargin (get subAccount ''marginPiasters'')
                else legacyMarginToPiasters (get subAccount ''customMargin''))"

record margin_storage =
  st_marginPiasters :: jsnum
  st_customMargin :: jsnum
  st_serviceMarginPiasters :: "rate_map option"
  st_pricingVersion :: jsnum

definition buildMarginStorage :: "jsval \<Rightarrow> margin_storage" where
  "buildMarginStorage input =
     (let marginPiasters = get input ''marginPiasters'';
          normalized = (if isFinite (toNumber marginPiasters) then normalizeMargin marginPiasters
                        else legacyMarginToPiasters (get input ''customMargin''));
          serviceMargins = concat (map (\<lambda>serviceKey.
             let raw = get (get input ''serviceMarginPiasters'') serviceKey
             in if raw \<noteq> Str [] \<and> raw \<noteq> Null \<and> raw \<noteq> Undef \<and> isFinite (toNumber raw)
                then [(serviceKey, normalizeMargin raw)] else []) SERVICE_RATE_KEYS)
      in \<lparr>st_marginPiasters = normalized,
          st_customMargin = marginPiastersToRateDelta (Num normalized),
          st_serviceMarginPiasters = (if serviceMargins = [] then None else Some serviceMargins),
          st_pricingVersion = Fin 2\<rparr>)"

section \<open>Prices\<close>

definition shifted_rate :: "string \<Rightarrow> jsnum \<Rightarrow> jsnum \<Rightarrow> jsnum" where
  "shifted_rate serviceKey rate rateDelta =
     n_fixed 2 (n_add rate (if isSourceToLydRate (Str serviceKey) then rateDelta else n_neg rateDelta))"

definition applyCustomerRateMargins :: "jsval \<Rightarrow> jsval \<Rightarrow> rate_map" where
  "applyCustomerRateMargins masterRates subAccount = for_services (\<lambda>serviceKey.
     let baseRate = normalizeRate (get masterRates serviceKey);
         marginPiasters = resolveMarginPiasters subAccount serviceKey;
         rateDelta = marginPiastersToRateDelta (Num marginPiasters);
         adjustedRate = shifted_rate serviceKey baseRate rateDelta
     in if n_lt (Fin 0) adjustedRate then adjustedRate else baseRate)"

record agency_pricing =
  ap_serviceKey :: string
  ap_pricingVersion :: jsnum
  ap_amountEGP :: jsnum
  ap_amountCurrency :: string
  ap_agentRate :: jsnum
  ap_customerRate :: jsnum
  ap_marginPiasters :: jsnum
  ap_rateDelta :: jsnum
  ap_agentCostLYD :: jsnum
  ap_customerChargeLYD :: jsnum
  ap_profitLYD :: jsnum

definition or_num :: "jsnum \<Rightarrow> jsnum \<Rightarrow> jsnum" where
  "or_num a b = (if a = NaN \<or> a = Fin 0 then b else a)"

definition calculateAgencyPricing :: "jsval \<Rightarrow> jsval \<Rightarrow> string \<Rightarrow> jsval \<Rightarrow> agency_pricing" where
  "calculateAgencyPricing amountEGP masterRates serviceKey subAccount =
     (let amount = finiteNumber amountEGP;
          agentRate = normalizeRate (get masterRates serviceKey);
          marginPiasters = resolveMarginPiasters subAccount serviceKey;
          rateDelta = marginPiastersToRateDelta (Num marginPiasters);
          proposedCustomerRate = shifted_rate serviceKey agentRate rateDelta;
          customerRate = (if n_lt (Fin 0) proposedCustomerRate then proposedCustomerRate else agentRate);
          effectiveMarginPiasters = (if customerRate = agentRate then Fin 0 else marginPiasters);
          agentCostLYD = calculateTransferCostLYD (Str serviceKey) (Num amount) (Num agentRate) 3;
          customerChargeLYD = calculateTransferCostLYD (Str serviceKey) (Num amount) (Num customerRate) 3;
          profitLYD = roundMoney (Num (n_max (Fin 0) (n_sub customerChargeLYD agentCostLYD))) 3
      in \<lparr>ap_serviceKey = serviceKey,
          ap_pricingVersion = or_num (toNumber (get subAccount ''pricingVersion'')) (Fin 2),
          ap_amountEGP = roundMoney (Num amount) 2,
          ap_amountCurrency = amountCurrencyCode (getTransferPricingDefinition (Str serviceKey)),
          ap_agentRate = agentRate,
          ap_customerRate = customerRate,
          ap_marginPiasters = effectiveMarginPiasters,
          ap_rateDelta = marginPiastersToRateDelta (Num effectiveMarginPiasters),
          ap_agentCostLYD = agentCostLYD,
          ap_customerChargeLYD = customerChargeLYD,
          ap_profitLYD = profitLYD\<rparr>)"

text \<open>The pricing stored with a transaction, as a document.\<close>

definition pricing_obj :: "agency_pricing \<Rightarrow> jsval" where
  "pricing_obj p = Obj
     [(''serviceKey'', Str (ap_serviceKey p)), (''pricingVersion'', Num (ap_pricingVersion p)),
      (''amountEGP'', Num (ap_amountEGP p)), (''amountCurrency'', Str (ap_amountCurrency p)),
      (''agentRate'', Num (ap_agentRate p)), (''customerRate'', Num (ap_customerRate p)),
      (''marginPiasters'', Num (ap_marginPiasters p)), (''rateDelta'', Num (ap_rateDelta p)),
      (''agentCostLYD'', Num (ap_agentCostLYD p)),
      (''customerChargeLYD'', Num (ap_customerChargeLYD p)),
      (''profitLYD'', Num (ap_profitLYD p))]"

record tx_pricing =
  tp_serviceKey :: jsval
  tp_pricingVersion :: jsnum
  tp_amountEGP :: jsnum
  tp_amountCurrency :: jsval
  tp_agentRate :: jsnum
  tp_customerRate :: jsnum
  tp_marginPiasters :: jsnum
  tp_agentCostLYD :: jsnum
  tp_customerChargeLYD :: jsnum
  tp_profitLYD :: jsnum

definition pricingFromTransaction :: "jsval \<Rightarrow> tx_pricing" where
  "pricingFromTransaction transaction =
     (let snapshot = or_else (get transaction ''agencyPricing'') (Obj []);
          agentCostLYD = roundMoney (coalesce (get snapshot ''agentCostLYD'')
                                              (get transaction ''costLYD'')) 3;
          customerChargeLYD = roundMoney (coalesce (get snapshot ''customerChargeLYD'')
             (coalesce (get transaction ''subAccountCostLYD'') (Num agentCostLYD))) 3
      in \<lparr>tp_serviceKey = or_else (get snapshot ''serviceKey'')
                            (or_else (get transaction ''transferType'') (Str ''vodafone'')),
          tp_pricingVersion = or_num (toNumber (get snapshot ''pricingVersion'')) (Fin 1),
          tp_amountEGP = roundMoney (get transaction ''amount'') 2,
          tp_amountCurrency = or_else (get snapshot ''amountCurrency'')
             (Str (amountCurrencyCode (getTransferPricingDefinition
                (or_else (get snapshot ''serviceKey'') (get transaction ''transferType''))))),
          tp_agentRate = finiteNumber (coalesce (get snapshot ''agentRate'')
                                                (get transaction ''exchangeRate'')),
          tp_customerRate = finiteNumber (coalesce (get snapshot ''customerRate'')
             (coalesce (get transaction ''subClientRate'') (get transaction ''exchangeRate''))),
          tp_marginPiasters = (if isFinite (toNumber (get snapshot ''marginPiasters''))
             then normalizeMargin (get snapshot ''marginPiasters'')
             else normalizeMargin (Num (n_mul (n_sub (finiteNumber (get transaction ''exchangeRate''))
                    (finiteNumber (get transaction ''subClientRate''))) (Fin 100)))),
          tp_agentCostLYD = agentCostLYD,
          tp_customerChargeLYD = customerChargeLYD,
          tp_profitLYD = roundMoney (coalesce (get snapshot ''profitLYD'')
             (coalesce (get transaction ''masterProfit'')
               (coalesce (get transaction ''commission'')
                 (Num (n_sub customerChargeLYD agentCostLYD))))) 3\<rparr>)"

interpretation agency: money_rounding "\<lambda>v. roundMoney (Num v) 3"
proof
  fix n i v
  assume near: "near n i v" "\<bar>i\<bar> \<le> LIMIT" "n \<le> 4000"
  then have "finiteNumber (Num v) = v" using near_Fin [OF near(1)] by (auto simp: finiteNumber_def)
  then show "roundMoney (Num v) 3 = dec 3 i" by (simp add: roundMoney_def to_fixed.rnd_near [OF near])
qed

section \<open>Facts about margins and prices\<close>

lemma normalizeMarginPiasters_range:
  "\<exists>k. normalizeMarginPiasters v f = Fin (of_int k) \<and> 0 \<le> k \<and> k \<le> 500"
proof (induction v f rule: normalizeMarginPiasters.induct)
  case (1 v f)
  show ?case
  proof (cases "toNumber v")
    case (Fin x)
    let ?k = "min 500 (max 0 \<lfloor>x + 1 / 2\<rfloor>)"
    have "n_min (Fin 500) (n_max (Fin 0) (Fin (of_int m))) = Fin (of_int (min 500 (max 0 m)))" for m
      by (simp add: n_min_def n_max_def min_def max_def)
    then have "normalizeMarginPiasters v f = Fin (of_int ?k)"
      using Fin by (subst normalizeMarginPiasters.simps)
        (simp add: MAX_MARGIN_PIASTERS_def Let_def)
    then show ?thesis by (intro exI [of _ ?k]) simp
  qed (use "1.IH" in \<open>simp_all add: normalizeMarginPiasters.simps [of v f] Let_def\<close>)
qed

lemma normalizeMargin_range: "\<exists>k. normalizeMargin v = Fin (of_int k) \<and> 0 \<le> k \<and> k \<le> 500"
  unfolding normalizeMargin_def by (rule normalizeMarginPiasters_range)

lemma normalizeMargin_int:
  assumes "0 \<le> k" "k \<le> 500"
  shows "normalizeMargin (Num (Fin (of_int k))) = Fin (of_int k)"
proof -
  show ?thesis using assms unfolding normalizeMargin_def
    by (subst normalizeMarginPiasters.simps)
      (simp add: MAX_MARGIN_PIASTERS_def n_min_def n_max_def Let_def)
qed

lemma resolveMarginPiasters_range:
  "\<exists>k. resolveMarginPiasters s sk = Fin (of_int k) \<and> 0 \<le> k \<and> k \<le> 500"
  unfolding resolveMarginPiasters_def legacyMarginToPiasters_def
  by (auto split: option.splits simp: normalizeMargin_range)

lemma dec2_small_Fin: "\<bar>k\<bar> \<le> 1000000 \<Longrightarrow> dec 2 k = Fin (decv 2 k)"
proof -
  assume "\<bar>k\<bar> \<le> 1000000"
  then have "\<bar>of_int k :: rat\<bar> \<le> 1000000" by (simp flip: of_int_abs)
  then show ?thesis by (intro dec_Fin) simp_all
qed

lemma rateDelta_dec:
  assumes "0 \<le> k" "k \<le> 500"
  shows "marginPiastersToRateDelta (Num (Fin (of_int k))) = dec 2 k"
proof -
  have "n_div (Fin (of_int k)) (Fin 100) = dec 2 k"
    by (simp add: dec_def)
  moreover have "n_fixed 2 (dec 2 k) = dec 2 k"
  proof (rule n_fixed_dec)
    have "\<bar>of_int k :: rat\<bar> \<le> 500" using assms by simp
    then show "\<bar>of_int k\<bar> < (2::rat) ^ 42 * 10 ^ 2" by simp
  qed simp
  ultimately show ?thesis
    using assms by (simp add: marginPiastersToRateDelta_def normalizeMargin_int)
qed

lemma cost_dec:
  assumes fin: "num w = Fin z" and z: "0 \<le> z" "z < 2 ^ 39"
  shows "round_num (num w) 3 = dec 3 (fixed_int 3 z)"
    and "\<bar>of_int (fixed_int 3 z)\<bar> < (2::rat) ^ 40 * 10 ^ 3"
proof -
  show "round_num (num w) 3 = dec 3 (fixed_int 3 z)"
    using fin z by (simp add: round_num_def n_fixed_eq_dec)
  have "\<bar>of_int (fixed_int 3 z)\<bar> \<le> (\<bar>z\<bar> + 1) * (10::rat) ^ 3" by (rule fixed_int_bound)
  also have "\<dots> < 2 ^ 40 * 10 ^ 3" using z by (intro mult_strict_right_mono) simp_all
  finally show "\<bar>of_int (fixed_int 3 z)\<bar> < (2::rat) ^ 40 * 10 ^ 3" .
qed

lemma profit_exact:
  assumes "num w1 = Fin z1" "0 \<le> z1" "z1 \<le> z2" "num w2 = Fin z2" "z2 < 2 ^ 39"
  defines "a \<equiv> fixed_int 3 z1" and "c \<equiv> fixed_int 3 z2"
  shows "0 \<le> a \<and> a \<le> c \<and> round_num (num w1) 3 = dec 3 a \<and> round_num (num w2) 3 = dec 3 c
    \<and> roundMoney (Num (n_max (Fin 0) (n_sub (dec 3 c) (dec 3 a)))) 3 = dec 3 (c - a)"
proof -
  have a: "round_num (num w1) 3 = dec 3 a" "\<bar>of_int a\<bar> < (2::rat) ^ 40 * 10 ^ 3"
    using cost_dec [of w1 z1] assms by simp_all
  have c: "round_num (num w2) 3 = dec 3 c" "\<bar>of_int c\<bar> < (2::rat) ^ 40 * 10 ^ 3"
    using cost_dec [of w2 z2] assms by simp_all
  have ac: "0 \<le> a" "a \<le> c" unfolding a_def c_def using assms
    by (simp_all add: fixed_int_nonneg fixed_int_mono)
  have up: "(2::rat) ^ 40 * 10 ^ 3 < 2 ^ 42 * 10 ^ 3" by simp
  have a': "dec 3 a = Fin (decv 3 a)" and c': "dec 3 c = Fin (decv 3 c)"
    using a c up by (intro dec_Fin; linarith)+
  have le: "decv 3 a \<le> decv 3 c" unfolding decv_def using ac
    by (intro fl_mono divide_right_mono) simp_all
  have "n_le (num 0) (num (decv 3 c - decv 3 a))" using le by (intro n_le_num) simp
  then have nn: "n_le (Fin 0) (n_sub (dec 3 c) (dec 3 a))" by (simp add: a' c' n_sub_Fin)
  have sub: "n_fixed 3 (n_sub (dec 3 c) (dec 3 a)) = dec 3 (c - a)"
    using c a by (intro dec_sub) simp_all
  have ca: "dec 3 (c - a) = Fin (decv 3 (c - a))"
  proof (rule dec_Fin)
    have "\<bar>of_int (c - a)\<bar> \<le> (of_int c :: rat)" using ac by simp
    then show "\<bar>of_int (c - a)\<bar> < (2::rat) ^ 42 * 10 ^ 3" using c up by linarith
  qed simp
  have "roundMoney (Num (n_max (Fin 0) (n_sub (dec 3 c) (dec 3 a)))) 3 = dec 3 (c - a)"
    using nn sub ca
    by (cases "n_sub (dec 3 c) (dec 3 a)")
      (auto simp: n_max_def roundMoney_def finiteNumber_def n_le_def)
  then show ?thesis using a c ac by simp
qed


lemma shifted_rate_exact:
  assumes r: "\<bar>of_int r\<bar> < (2::rat) ^ 40 * 10 ^ 2" and m: "0 \<le> m" "m \<le> 500"
  shows "shifted_rate k (dec 2 r) (dec 2 m) = dec 2 (if isSourceToLydRate (Str k) then r + m else r - m)"
proof -
  have m': "\<bar>of_int m\<bar> < (2::rat) ^ 40 * 10 ^ 2"
    using m by simp
  show ?thesis using dec_add [OF r m'] dec_sub [OF r m']
    by (simp add: shifted_rate_def n_sub_def)
qed

definition cost_arg :: "string \<Rightarrow> rat \<Rightarrow> rat \<Rightarrow> rat" where
  "cost_arg k x y = (if y \<le> 0 then 0 else if isSourceToLydRate (Str k) then x * y else x / y)"

lemma cost_as_round:
  "0 < x \<Longrightarrow> calculateTransferCostLYD (Str k) (Num (Fin x)) (Num (Fin y)) 3
     = round_num (num (cost_arg k x y)) 3"
  by (simp add: calculateTransferCostLYD_def cost_arg_def Let_def round_num_def)

lemma num_le_pow38:
  assumes "0 \<le> w" "w \<le> 2 ^ 38"
  shows "\<exists>z. num w = Fin z \<and> 0 \<le> z \<and> z \<le> 2 ^ 38 \<and> z = fl w"
proof -
  have "dbl (2 powi 38)" by (simp only: dbl_def fl_powi) (simp add: powi2_of_int)
  then have "\<exists>z. num w = Fin z \<and> 0 \<le> z \<and> z \<le> 2 powi 38"
    using num_between [of 0 "2 powi 38" w] assms by (auto simp: powi2_of_int)
  then show ?thesis by (auto simp: num_Fin_iff powi2_of_int)
qed

lemma costs_exact:
  assumes x: "0 < x" and w: "cost_arg k x y1 \<le> cost_arg k x y2" "cost_arg k x y2 \<le> 2 ^ 38"
  shows "\<exists>a c. 0 \<le> a \<and> a \<le> c \<and> c < 2 ^ 50
    \<and> calculateTransferCostLYD (Str k) (Num (Fin x)) (Num (Fin y1)) 3 = dec 3 a
    \<and> calculateTransferCostLYD (Str k) (Num (Fin x)) (Num (Fin y2)) 3 = dec 3 c
    \<and> roundMoney (Num (n_max (Fin 0) (n_sub (dec 3 c) (dec 3 a)))) 3 = dec 3 (c - a)"
proof -
  have nn: "0 \<le> cost_arg k x y" for y using x by (simp add: cost_arg_def)
  obtain z2 where z2: "num (cost_arg k x y2) = Fin z2" "z2 \<le> 2 ^ 38" "z2 = fl (cost_arg k x y2)"
    using num_le_pow38 [OF nn w(2)] by blast
  obtain z1 where z1: "num (cost_arg k x y1) = Fin z1" "0 \<le> z1" "z1 = fl (cost_arg k x y1)"
    using num_le_pow38 [OF nn order_trans [OF w]] by blast
  have le: "z1 \<le> z2" using w z1 z2 fl_mono by simp
  have lt: "z2 < 2 ^ 39" using z2 by simp
  have "\<bar>of_int (fixed_int 3 z2)\<bar> \<le> (\<bar>z2\<bar> + 1) * (10::rat) ^ 3" by (rule fixed_int_bound)
  also have "\<dots> < of_int (2 ^ 50)" using lt le z1 by simp
  finally have "fixed_int 3 z2 < 2 ^ 50" by (simp only: of_int_abs [symmetric] of_int_less_iff abs_less_iff)
  with profit_exact [OF z1(1,2) le z2(1) lt] show ?thesis
    unfolding cost_as_round [OF x] by blast
qed

lemma normalizeRate_small:
  assumes "below (2 ^ 10) v"
  shows "\<exists>r. normalizeRate v = dec 2 r \<and> 0 \<le> r \<and> r \<le> 2 ^ 17"
proof (cases "\<exists>x. toNumber v = Fin x \<and> 0 < x")
  case True
  then obtain x where x: "toNumber v = Fin x" "0 < x" by blast
  with assms have lt: "x < 2 ^ 10" by (simp add: below_def)
  have e: "normalizeRate v = dec 2 (fixed_int 2 x)"
    using x lt by (simp add: normalizeRate_def n_fixed_eq_dec)
  have "\<bar>of_int (fixed_int 2 x)\<bar> \<le> (\<bar>x\<bar> + 1) * (10::rat) ^ 2" by (rule fixed_int_bound)
  also have "\<dots> \<le> of_int (2 ^ 17)" using x lt by simp
  finally have "fixed_int 2 x \<le> 2 ^ 17" by (simp only: of_int_abs [symmetric] of_int_le_iff abs_le_iff)
  then show ?thesis using e fixed_int_nonneg x by (metis less_imp_le)
next
  case False
  then have "normalizeRate v = dec 2 640"
    by (cases "toNumber v") (auto simp: normalizeRate_def DEFAULT_RATE_def)
  then show ?thesis by (intro exI [of _ 640]) simp
qed

lemma cost_arg_mono:
  fixes k :: string
  assumes x: "0 < x" "x < 2 ^ 26" and r: "0 \<le> r" "r \<le> 2 ^ 18" and m: "0 \<le> m" "m \<le> 500"
  defines "c \<equiv> (if isSourceToLydRate (Str k) then r + m else if m < r then r - m else r)"
  shows "cost_arg k x (decv 2 r) \<le> cost_arg k x (decv 2 c) \<and> cost_arg k x (decv 2 c) \<le> 2 ^ 38"
proof -
  have cb: "0 \<le> c" "c \<le> 2 ^ 18 + 500" using r m by (auto simp: c_def)
  have cq: "\<bar>of_int c\<bar> < (2::rat) ^ 42 * 10 ^ 2" "\<bar>of_int r\<bar> < (2::rat) ^ 42 * 10 ^ 2"
  proof -
    have "(of_int c :: rat) \<le> of_int (2 ^ 18 + 500)" "(of_int r :: rat) \<le> of_int (2 ^ 18)"
      using cb r by (simp_all only: of_int_le_iff)
    then show "\<bar>of_int c\<bar> < (2::rat) ^ 42 * 10 ^ 2" "\<bar>of_int r\<bar> < (2::rat) ^ 42 * 10 ^ 2"
      using cb r by simp_all
  qed
  have cv: "decv 2 c \<le> 1024 * 4"
  proof -
    have "fl (of_int c / 10 ^ 2) \<le> fl (of_int (1024 * 4))"
    proof (rule fl_mono)
      have "(of_int c :: rat) \<le> of_int (2 ^ 18 + 500)" using cb by (simp only: of_int_le_iff)
      then show "of_int c / 10 ^ 2 \<le> (of_int (1024 * 4) :: rat)" by simp
    qed
    also have "fl (of_int (1024 * 4)) = of_int (1024 * 4)" by (rule fl_int) simp
    finally show ?thesis by (simp add: decv_def)
  qed
  show ?thesis
  proof (cases "isSourceToLydRate (Str k)")
    case True
    have le: "decv 2 r \<le> decv 2 c" using m True by (intro decv_mono) (simp add: c_def)
    have c0: "0 \<le> decv 2 c" unfolding decv_def using cb by (intro fl_nonneg) simp
    have "x * decv 2 r \<le> x * decv 2 c" using le x by (intro mult_left_mono) simp_all
    moreover have "x * decv 2 c \<le> 2 ^ 26 * (1024 * 4)" using x cv c0 by (intro mult_mono) simp_all
    moreover have "(2::rat) ^ 26 * (1024 * 4) = 2 ^ 38" by simp
    ultimately show ?thesis using True le x c0 by (simp add: cost_arg_def)
  next
    case False
    then have c: "c = (if m < r then r - m else r)" by (simp add: c_def)
    show ?thesis
    proof (cases "r = 0")
      case True
      then show ?thesis using c m by (simp add: cost_arg_def decv_def)
    next
      case rne: False
      then have c1: "1 \<le> c" "c \<le> r" using c r m by auto
      have cpos: "2 powi (-10) \<le> decv 2 c" using dec_pos_Fin [OF c1(1) cq(1)] by simp
      have le: "decv 2 c \<le> decv 2 r" using c1 by (intro decv_mono)
      have pos: "0 < decv 2 c" using cpos powi2_pos [of "-10"] by linarith
      have "x / decv 2 r \<le> x / decv 2 c" using le pos x by (intro divide_left_mono) simp_all
      moreover have "x / decv 2 c \<le> 2 ^ 26 / 2 powi (-10)"
        using x cpos by (intro frac_le) simp_all
      moreover have "(2::rat) ^ 26 / 2 powi (-10) = 2 ^ 36" by (simp add: power_int_def power_divide)
      ultimately show ?thesis using False pos le x by (simp add: cost_arg_def)
    qed
  qed
qed

lemma agency_pricing_parts:
  fixes sub :: jsval
  assumes amt: "toNumber amount = Fin x" "0 < x" "x < 2 ^ 26"
    and rate: "below (2 ^ 10) (get rates k)"
  defines "p \<equiv> calculateAgencyPricing amount rates k sub"
  shows "\<exists>r m c a q e. 0 \<le> r \<and> r \<le> 2 ^ 18 \<and> 0 \<le> m \<and> m \<le> 500 \<and> 0 \<le> c \<and> c \<le> 2 ^ 18
    \<and> c = (if isSourceToLydRate (Str k) then r + m else if m < r then r - m else r)
    \<and> 0 \<le> e \<and> e \<le> 500 \<and> ap_marginPiasters p = Fin (of_int e)
    \<and> 0 \<le> a \<and> a \<le> q \<and> q < 2 ^ 50 \<and> ap_agentRate p = dec 2 r \<and> ap_customerRate p = dec 2 c
    \<and> ap_agentCostLYD p = dec 3 a \<and> ap_customerChargeLYD p = dec 3 q
    \<and> ap_profitLYD p = dec 3 (q - a)"
proof -
  obtain r where r: "normalizeRate (get rates k) = dec 2 r" "0 \<le> r" "r \<le> 2 ^ 17"
    using normalizeRate_small [OF rate] by blast
  obtain m where m: "resolveMarginPiasters sub k = Fin (of_int m)" "0 \<le> m" "m \<le> 500"
    using resolveMarginPiasters_range by blast
  define s where "s = (if isSourceToLydRate (Str k) then r + m else r - m)"
  define c where "c = (if isSourceToLydRate (Str k) then r + m else if m < r then r - m else r)"
  have rb: "(of_int r :: rat) \<le> of_int (2 ^ 17)" using r by (simp only: of_int_le_iff)
  have "shifted_rate k (dec 2 r) (dec 2 m) = dec 2 s"
    unfolding s_def using r m rb by (intro shifted_rate_exact) simp_all
  moreover have "n_lt (Fin 0) (dec 2 s) \<longleftrightarrow> 0 < s"
  proof (rule dec_sign)
    have "\<bar>s\<bar> \<le> 2 ^ 17 + 500" using r m by (auto simp: s_def abs_le_iff)
    then have "\<bar>of_int s\<bar> \<le> (of_int (2 ^ 17 + 500) :: rat)" by (simp only: of_int_abs [symmetric] of_int_le_iff)
    then show "\<bar>of_int s\<bar> < (2::rat) ^ 42 * 10 ^ 2" by simp
  qed simp
  moreover have "\<not> 0 < s \<Longrightarrow> c = r" "0 < s \<Longrightarrow> c = s" using r m by (auto simp: s_def c_def split: if_splits)
  ultimately have cust: "(if n_lt (Fin 0) (shifted_rate k (dec 2 r) (dec 2 m))
      then shifted_rate k (dec 2 r) (dec 2 m) else dec 2 r) = dec 2 c"
    by auto
  have small: "dec 2 q = Fin (decv 2 q)" if "0 \<le> q" "q \<le> 2 ^ 18" for q
  proof (rule dec_Fin)
    have "(of_int q :: rat) \<le> of_int (2 ^ 18)" using that by (simp only: of_int_le_iff)
    then show "\<bar>of_int q\<bar> < (2::rat) ^ 42 * 10 ^ 2" using that by simp
  qed simp
  have rc: "dec 2 r = Fin (decv 2 r)" "dec 2 c = Fin (decv 2 c)"
    using r m by (auto intro!: small simp: c_def)
  have "r \<le> 2 ^ 18" using r by simp
  from cost_arg_mono [OF amt(2,3) r(2) this m(2,3), of k]
  obtain a q where aq: "0 \<le> a" "a \<le> q" "q < 2 ^ 50"
      "calculateTransferCostLYD (Str k) (Num (Fin x)) (Num (dec 2 r)) 3 = dec 3 a"
      "calculateTransferCostLYD (Str k) (Num (Fin x)) (Num (dec 2 c)) 3 = dec 3 q"
      "roundMoney (Num (n_max (Fin 0) (n_sub (dec 3 q) (dec 3 a)))) 3 = dec 3 (q - a)"
    using costs_exact [OF amt(2), of k "decv 2 r" "decv 2 c"] unfolding rc c_def [symmetric] by blast
  have fin: "finiteNumber amount = Fin x" using amt by (simp add: finiteNumber_def)
  have cb: "0 \<le> c" "c \<le> 2 ^ 18" using r m by (auto simp: c_def)
  have "\<exists>e. 0 \<le> e \<and> e \<le> 500 \<and> (if dec 2 c = dec 2 r then Fin 0 else Fin (of_int m)) = Fin (of_int e)"
    using m by (cases "dec 2 c = dec 2 r") (auto intro: exI [of _ 0] exI [of _ m])
  then obtain e where e: "0 \<le> e" "e \<le> 500"
      "(if dec 2 c = dec 2 r then Fin 0 else Fin (of_int m)) = Fin (of_int e)" by blast
  have "0 \<le> r \<and> r \<le> 2 ^ 18 \<and> 0 \<le> m \<and> m \<le> 500 \<and> 0 \<le> c \<and> c \<le> 2 ^ 18
    \<and> c = (if isSourceToLydRate (Str k) then r + m else if m < r then r - m else r)
    \<and> 0 \<le> e \<and> e \<le> 500 \<and> ap_marginPiasters p = Fin (of_int e)
    \<and> 0 \<le> a \<and> a \<le> q \<and> q < 2 ^ 50 \<and> ap_agentRate p = dec 2 r \<and> ap_customerRate p = dec 2 c
    \<and> ap_agentCostLYD p = dec 3 a \<and> ap_customerChargeLYD p = dec 3 q
    \<and> ap_profitLYD p = dec 3 (q - a)"
    using aq(1-3) e(1,2) cb m(2,3) r(2) \<open>r \<le> 2 ^ 18\<close>
    by (simp only: p_def calculateAgencyPricing_def Let_def agency_pricing.select_convs r m fin
         rateDelta_dec [OF m(2,3)] cust aq e c_def [symmetric] simp_thms)
  then show ?thesis by blast
qed

lemma roundMoney_dec3:
  assumes "0 \<le> a" "a < 2 ^ 50"
  shows "roundMoney (Num (dec 3 a)) 3 = dec 3 a"
proof -
  have "(of_int a :: rat) < of_int (2 ^ 50)" using assms by (simp only: of_int_less_iff)
  then have b: "\<bar>of_int a\<bar> < (2::rat) ^ 42 * 10 ^ 3" using assms by simp
  show ?thesis using dec_Fin [OF b] n_fixed_dec [OF b]
    by (simp add: roundMoney_def finiteNumber_def)
qed

lemma finiteNumber_dec2:
  assumes "0 \<le> a" "a \<le> 2 ^ 18"
  shows "finiteNumber (Num (dec 2 a)) = dec 2 a"
proof -
  have "(of_int a :: rat) \<le> of_int (2 ^ 18)" using assms by (simp only: of_int_le_iff)
  then have b: "\<bar>of_int a\<bar> < (2::rat) ^ 42 * 10 ^ 2" using assms by simp
  show ?thesis using dec_Fin [OF b] by (simp add: finiteNumber_def)
qed

lemma or_num_idem: "or_num (or_num a (Fin 2)) (Fin 1) = or_num a (Fin 2)"
  by (simp add: or_num_def)

lemma get_pricing_obj:
  "get (pricing_obj p) ''serviceKey'' = Str (ap_serviceKey p)"
  "get (pricing_obj p) ''pricingVersion'' = Num (ap_pricingVersion p)"
  "get (pricing_obj p) ''amountCurrency'' = Str (ap_amountCurrency p)"
  "get (pricing_obj p) ''agentRate'' = Num (ap_agentRate p)"
  "get (pricing_obj p) ''customerRate'' = Num (ap_customerRate p)"
  "get (pricing_obj p) ''marginPiasters'' = Num (ap_marginPiasters p)"
  "get (pricing_obj p) ''agentCostLYD'' = Num (ap_agentCostLYD p)"
  "get (pricing_obj p) ''customerChargeLYD'' = Num (ap_customerChargeLYD p)"
  "get (pricing_obj p) ''profitLYD'' = Num (ap_profitLYD p)"
  "truthy (pricing_obj p)"
  by (simp_all add: pricing_obj_def)

lemma coalesce_Num [simp]: "coalesce (Num n) v = Num n"
  by (simp add: coalesce_def nullish_def)

lemma currency_nonempty: "amountCurrencyCode (getTransferPricingDefinition v) \<noteq> []"
  by (auto simp: getTransferPricingDefinition_def SERVICE_PRICING_def DEFAULT_PRICING_def)


section \<open>Properties\<close>

text \<open>
  C27: the agent never sells below cost and the books add up exactly.  For an amount below
  \<open>2 ^ 26\<close> and a master rate below 1024, the agent's rate is a two-digit decimal, the customer's
  rate is shifted by the margin in whole piasters against the customer, the customer's charge is at
  least the agent's cost, and the profit is exactly their difference in thousandths of a dinar.
\<close>

theorem agency_pricing_exact:
  assumes amt: "toNumber amount = Fin x" "0 < x" "x < 2 ^ 26"
    and rate: "below (2 ^ 10) (get rates k)"
  shows "\<exists>r m a c. 0 \<le> r \<and> 0 \<le> m \<and> m \<le> 500 \<and> 0 \<le> a \<and> a \<le> c
    \<and> ap_agentRate (calculateAgencyPricing amount rates k sub) = dec 2 r
    \<and> ap_customerRate (calculateAgencyPricing amount rates k sub)
        = dec 2 (if isSourceToLydRate (Str k) then r + m else if m < r then r - m else r)
    \<and> ap_agentCostLYD (calculateAgencyPricing amount rates k sub) = dec 3 a
    \<and> ap_customerChargeLYD (calculateAgencyPricing amount rates k sub) = dec 3 c
    \<and> ap_profitLYD (calculateAgencyPricing amount rates k sub) = dec 3 (c - a)"
proof -
  note parts = agency_pricing_parts [where rates = rates and k = k and sub = sub, OF amt rate]
  then show ?thesis by (elim exE conjE) (intro exI conjI; (assumption | simp))
qed


theorem agency_pricing_exact_witness:
  "\<exists>r m a c. 0 \<le> r \<and> 0 \<le> m \<and> m \<le> 500 \<and> 0 \<le> a \<and> a \<le> c
    \<and> ap_agentRate (calculateAgencyPricing (Num (Fin 1000)) (Obj [(''vodafone'', Num (Fin 7))])
         ''vodafone'' (Obj [(''marginPiasters'', Num (Fin 10))])) = dec 2 r
    \<and> ap_customerRate (calculateAgencyPricing (Num (Fin 1000)) (Obj [(''vodafone'', Num (Fin 7))])
         ''vodafone'' (Obj [(''marginPiasters'', Num (Fin 10))]))
        = dec 2 (if isSourceToLydRate (Str ''vodafone'') then r + m else if m < r then r - m else r)
    \<and> ap_agentCostLYD (calculateAgencyPricing (Num (Fin 1000)) (Obj [(''vodafone'', Num (Fin 7))])
         ''vodafone'' (Obj [(''marginPiasters'', Num (Fin 10))])) = dec 3 a
    \<and> ap_customerChargeLYD (calculateAgencyPricing (Num (Fin 1000)) (Obj [(''vodafone'', Num (Fin 7))])
         ''vodafone'' (Obj [(''marginPiasters'', Num (Fin 10))])) = dec 3 c
    \<and> ap_profitLYD (calculateAgencyPricing (Num (Fin 1000)) (Obj [(''vodafone'', Num (Fin 7))])
         ''vodafone'' (Obj [(''marginPiasters'', Num (Fin 10))])) = dec 3 (c - a)"
  by (rule agency_pricing_exact [of _ 1000]) (simp_all add: below_def)

lemma pricing_of_snapshot:
  assumes amt: "toNumber amount = Fin x" "0 < x" "x < 2 ^ 26"
    and rate: "below (2 ^ 10) (get rates k)"
    and k: "k \<noteq> []"
    and tx: "get tx ''agencyPricing'' = pricing_obj (calculateAgencyPricing amount rates k sub)"
            "get tx ''amount'' = amount"
  defines "p \<equiv> calculateAgencyPricing amount rates k sub"
  shows "pricingFromTransaction tx =
    \<lparr>tp_serviceKey = Str k, tp_pricingVersion = ap_pricingVersion p, tp_amountEGP = ap_amountEGP p,
     tp_amountCurrency = Str (ap_amountCurrency p), tp_agentRate = ap_agentRate p,
     tp_customerRate = ap_customerRate p, tp_marginPiasters = ap_marginPiasters p,
     tp_agentCostLYD = ap_agentCostLYD p, tp_customerChargeLYD = ap_customerChargeLYD p,
     tp_profitLYD = ap_profitLYD p\<rparr>"
proof -
  obtain r m c a q e where parts: "0 \<le> r" "r \<le> 2 ^ 18" "0 \<le> c" "c \<le> 2 ^ 18"
    "0 \<le> e" "e \<le> 500" "ap_marginPiasters p = Fin (of_int e)"
    "0 \<le> a" "a \<le> q" "q < 2 ^ 50" "ap_agentRate p = dec 2 r" "ap_customerRate p = dec 2 c"
    "ap_agentCostLYD p = dec 3 a" "ap_customerChargeLYD p = dec 3 q" "ap_profitLYD p = dec 3 (q - a)"
    using agency_pricing_parts [where rates = rates and k = k and sub = sub, OF amt rate]
    unfolding p_def by blast
  have sk: "ap_serviceKey p = k" "ap_amountCurrency p \<noteq> []"
    "ap_amountEGP p = roundMoney amount 2"
    "ap_pricingVersion p = or_num (toNumber (get sub ''pricingVersion'')) (Fin 2)"
    using amt by (simp_all add: p_def calculateAgencyPricing_def Let_def currency_nonempty
        roundMoney_def finiteNumber_def)
  have "roundMoney (Num (dec 3 a)) 3 = dec 3 a" "roundMoney (Num (dec 3 q)) 3 = dec 3 q"
    "roundMoney (Num (dec 3 (q - a))) 3 = dec 3 (q - a)"
    using parts by (intro roundMoney_dec3; simp)+
  then show ?thesis
    using parts sk k tx(2) unfolding pricingFromTransaction_def Let_def tx(1) p_def [symmetric]
    by (simp add: or_else_def get_pricing_obj finiteNumber_dec2 normalizeMargin_int or_num_idem del: get.simps)
qed

text \<open>
  the pricing stored with a transaction reads back unchanged.  Reading the snapshot that
  \<open>calculateAgencyPricing\<close> produced gives the same service, rates, margin, cost, charge and profit,
  so reports and reversals see the prices the transfer was made at.
\<close>

theorem pricing_snapshot_roundtrip:
  assumes amt: "toNumber amount = Fin x" "0 < x" "x < 2 ^ 26"
    and rate: "below (2 ^ 10) (get rates k)"
    and k: "k \<noteq> []"
    and tx: "get tx ''agencyPricing'' = pricing_obj (calculateAgencyPricing amount rates k sub)"
            "get tx ''amount'' = amount"
  defines "p \<equiv> calculateAgencyPricing amount rates k sub"
  shows "pricingFromTransaction tx =
    \<lparr>tp_serviceKey = Str k, tp_pricingVersion = ap_pricingVersion p, tp_amountEGP = ap_amountEGP p,
     tp_amountCurrency = Str (ap_amountCurrency p), tp_agentRate = ap_agentRate p,
     tp_customerRate = ap_customerRate p, tp_marginPiasters = ap_marginPiasters p,
     tp_agentCostLYD = ap_agentCostLYD p, tp_customerChargeLYD = ap_customerChargeLYD p,
     tp_profitLYD = ap_profitLYD p\<rparr>"
  unfolding p_def by (rule pricing_of_snapshot [OF assms(1-7)])

theorem pricing_snapshot_roundtrip_witness:
  "pricingFromTransaction (Obj [(''amount'', Num (Fin 1000)),
      (''agencyPricing'', pricing_obj (calculateAgencyPricing (Num (Fin 1000))
          (Obj [(''vodafone'', Num (Fin 7))]) ''vodafone'' (Obj [(''marginPiasters'', Num (Fin 10))])))]) =
    (let p = calculateAgencyPricing (Num (Fin 1000))
          (Obj [(''vodafone'', Num (Fin 7))]) ''vodafone'' (Obj [(''marginPiasters'', Num (Fin 10))])
     in \<lparr>tp_serviceKey = Str ''vodafone'', tp_pricingVersion = ap_pricingVersion p,
     tp_amountEGP = ap_amountEGP p,
     tp_amountCurrency = Str (ap_amountCurrency p), tp_agentRate = ap_agentRate p,
     tp_customerRate = ap_customerRate p, tp_marginPiasters = ap_marginPiasters p,
     tp_agentCostLYD = ap_agentCostLYD p, tp_customerChargeLYD = ap_customerChargeLYD p,
     tp_profitLYD = ap_profitLYD p\<rparr>)"
  unfolding Let_def by (rule pricing_snapshot_roundtrip [of _ 1000]) (simp_all add: below_def)

end
