(* ===== verification/Agency_Journal.thy ===== *)
theory Agency_Journal
  imports Agency_Pricing
begin

text \<open>
  Double entry journal of agency transfers (\<open>services/agencyJournalService.js\<close> and the check that
  \<open>models/AgencyJournal.js\<close> runs before an entry is stored).  A transfer is recorded when it is
  reserved, realized, repriced or reversed, and a settlement when it is paid; every event has one
  entry, and the entries of an event balance.  Labels, metadata and the created-by fields of an entry
  are left out.
\<close>

section \<open>Journal entries\<close>

datatype side = Debit | Credit

record journal_line =
  jl_accountCode :: string
  jl_side :: side
  jl_amount :: jsnum
  jl_entityId :: jsval
  jl_entityModel :: string

record journal_owner =
  ownerType :: string
  ownerId :: jsval

record journal_entry =
  je_eventId :: string
  je_owner :: journal_owner
  je_customerId :: jsval
  je_transactionId :: string
  je_eventType :: string
  je_status :: string
  je_idempotencyKey :: string
  je_pricing :: "tx_pricing option"
  je_lines :: "journal_line list"
  je_reversalOf :: "string option"
  je_debitTotal :: jsnum
  je_creditTotal :: jsnum

definition ownerDescriptor :: "jsval \<Rightarrow> jsval \<Rightarrow> journal_owner" where
  "ownerDescriptor subAccount fallbackOwnerId =
     \<lparr>ownerType = (if get subAccount ''masterType'' = Str ''company'' then ''company'' else ''agent''),
      ownerId = or_else (get subAccount ''masterId'') fallbackOwnerId\<rparr>"

text \<open>The schema's check before an entry is stored (\<open>models/AgencyJournal.js\<close>).\<close>

definition side_total :: "side \<Rightarrow> journal_line list \<Rightarrow> jsnum" where
  "side_total sd lines = foldl (\<lambda>sum l. if jl_side l = sd then n_add sum (or_num (jl_amount l) (Fin 0)) else sum) (Fin 0) lines"

definition validateBalancedJournal :: "journal_entry \<Rightarrow> error + journal_entry" where
  "validateBalancedJournal e =
     (let debitTotal = n_fixed 3 (side_total Debit (je_lines e));
          creditTotal = n_fixed 3 (side_total Credit (je_lines e));
          e' = e\<lparr>je_idempotencyKey := (if je_idempotencyKey e = [] then je_eventId e else je_idempotencyKey e),
                 je_debitTotal := debitTotal, je_creditTotal := creditTotal\<rparr>
      in if n_lt (dec 3 1) (n_abs (n_sub debitTotal creditTotal))
         then Inl (plain_error ''ValidationError: lines'') else Inr e')"

text \<open>
  Storing an entry.  The event id is unique; a second entry for an event returns the stored one.
  \<open>isValidObjectId\<close> is the driver's check of an id.
\<close>

definition createEntry ::
    "('s, journal_entry) coll \<Rightarrow> (jsval \<Rightarrow> bool) \<Rightarrow> journal_entry \<Rightarrow> ('s, journal_entry option) run" where
  "createEntry journal isValidObjectId payload =
     (if \<not> truthy (ownerId (je_owner payload)) \<or> je_transactionId payload = [] \<or> je_eventId payload = []
      then ret None
      else if \<not> isValidObjectId (ownerId (je_owner payload)) then ret None
      else catch
        (bind (of_result (validateBalancedJournal payload))
           (\<lambda>entry. andThen (c_insert journal (je_eventId payload) entry) (ret (Some entry))))
        (\<lambda>err. if e_code err = ''11000''
               then bind (c_findOne journal (\<lambda>d. je_eventId d = je_eventId payload))
                      (\<lambda>existingEntry. case existingEntry of Some d \<Rightarrow> ret (Some d) | None \<Rightarrow> throw err)
               else throw err))"

definition journal_line_of :: "string \<Rightarrow> side \<Rightarrow> jsnum \<Rightarrow> jsval \<Rightarrow> string \<Rightarrow> journal_line" where
  "journal_line_of code sd amount entity model =
     \<lparr>jl_accountCode = code, jl_side = sd, jl_amount = amount, jl_entityId = entity, jl_entityModel = model\<rparr>"

definition transferLines :: "tx_pricing \<Rightarrow> jsval \<Rightarrow> jsval \<Rightarrow> journal_line list" where
  "transferLines pricing customerId owner =
     [journal_line_of ''CUSTOMER_BALANCE'' Debit (tp_customerChargeLYD pricing) customerId ''SubAccount'',
      journal_line_of ''COMPANY_WALLET'' Credit (tp_agentCostLYD pricing) owner ''User'']
     @ (if n_lt (Fin 0) (tp_profitLYD pricing)
        then [journal_line_of ''AGENCY_MARGIN_REVENUE'' Credit (tp_profitLYD pricing) owner ''User''] else [])"

definition entry_of :: "jsval \<Rightarrow> journal_owner \<Rightarrow> string \<Rightarrow> string \<Rightarrow> tx_pricing \<Rightarrow> journal_line list \<Rightarrow> journal_entry" where
  "entry_of transaction owner event status pricing lines =
     \<lparr>je_eventId = toString (get transaction ''customId'') @ '':'' @ event, je_owner = owner,
      je_customerId = get transaction ''subAccountId'',
      je_transactionId = toString (get transaction ''customId''), je_eventType = event, je_status = status,
      je_idempotencyKey = [], je_pricing = Some pricing, je_lines = lines, je_reversalOf = None,
      je_debitTotal = Fin 0, je_creditTotal = Fin 0\<rparr>"

definition is_agency_tx :: "jsval \<Rightarrow> bool" where
  "is_agency_tx transaction \<longleftrightarrow> truthy (get transaction ''isSubAccountTx'') \<and> truthy (get transaction ''subAccountId'')"

definition reservation_entry :: "jsval \<Rightarrow> jsval \<Rightarrow> jsval \<Rightarrow> journal_entry" where
  "reservation_entry transaction subAccount fallbackOwnerId =
     (let pricing = pricingFromTransaction transaction; owner = ownerDescriptor subAccount fallbackOwnerId
      in entry_of transaction owner ''TRANSFER_RESERVED'' ''reserved'' pricing
           (transferLines pricing (get transaction ''subAccountId'') (ownerId owner)))"

definition recordTransferReservation ::
    "('s, journal_entry) coll \<Rightarrow> (jsval \<Rightarrow> bool) \<Rightarrow> jsval \<Rightarrow> jsval \<Rightarrow> jsval \<Rightarrow> ('s, journal_entry option) run" where
  "recordTransferReservation journal isValidObjectId transaction subAccount fallbackOwnerId =
     (if \<not> is_agency_tx transaction then ret None
      else createEntry journal isValidObjectId (reservation_entry transaction subAccount fallbackOwnerId))"

definition resolveSubAccount :: "('s, jsval) coll \<Rightarrow> jsval \<Rightarrow> ('s, jsval option) run" where
  "resolveSubAccount subAccounts transaction =
     (if \<not> truthy (get transaction ''subAccountId'') then ret None
      else c_findOne subAccounts (\<lambda>d. get d ''_id'' = get transaction ''subAccountId''))"

definition realization_entry :: "jsval \<Rightarrow> jsval \<Rightarrow> journal_entry" where
  "realization_entry transaction subAccount =
     entry_of transaction (ownerDescriptor subAccount Undef) ''TRANSFER_REALIZED'' ''posted''
       (pricingFromTransaction transaction) []"

definition recordTransferRealization ::
    "('s, journal_entry) coll \<Rightarrow> ('s, jsval) coll \<Rightarrow> (jsval \<Rightarrow> bool) \<Rightarrow> jsval \<Rightarrow> ('s, journal_entry option) run" where
  "recordTransferRealization journal subAccounts isValidObjectId transaction =
     (if \<not> is_agency_tx transaction then ret None
      else bind (resolveSubAccount subAccounts transaction) (\<lambda>found. case found of
          None \<Rightarrow> ret None
        | Some subAccount \<Rightarrow> createEntry journal isValidObjectId (realization_entry transaction subAccount)))"

fun flip_side :: "side \<Rightarrow> side" where
  "flip_side Debit = Credit"
| "flip_side Credit = Debit"

definition reversal_entry :: "jsval \<Rightarrow> jsval \<Rightarrow> journal_entry" where
  "reversal_entry transaction subAccount =
     (let owner = ownerDescriptor subAccount Undef; pricing = pricingFromTransaction transaction;
          lines = map (\<lambda>l. l\<lparr>jl_side := flip_side (jl_side l)\<rparr>)
                    (transferLines pricing (get transaction ''subAccountId'') (ownerId owner))
      in (entry_of transaction owner ''TRANSFER_REVERSED'' ''reversed'' pricing lines)
           \<lparr>je_reversalOf := Some (toString (get transaction ''customId'') @ '':TRANSFER_RESERVED'')\<rparr>)"

definition recordTransferReversal ::
    "('s, journal_entry) coll \<Rightarrow> ('s, jsval) coll \<Rightarrow> (jsval \<Rightarrow> bool) \<Rightarrow> jsval \<Rightarrow> ('s, journal_entry option) run" where
  "recordTransferReversal journal subAccounts isValidObjectId transaction =
     (if \<not> is_agency_tx transaction then ret None
      else bind (resolveSubAccount subAccounts transaction) (\<lambda>found. case found of
          None \<Rightarrow> ret None
        | Some subAccount \<Rightarrow> createEntry journal isValidObjectId (reversal_entry transaction subAccount)))"

definition deltaLine :: "string \<Rightarrow> jsnum \<Rightarrow> side \<Rightarrow> jsval \<Rightarrow> string \<Rightarrow> journal_line list" where
  "deltaLine accountCode delta positiveSide entityId entityModel =
     (let v = roundMoney (Num (n_abs delta)) 3
      in if n_le v (Fin 0) then []
         else [journal_line_of accountCode (if n_le (Fin 0) delta then positiveSide else flip_side positiveSide)
                 v entityId entityModel])"

definition repricing_lines :: "tx_pricing \<Rightarrow> tx_pricing \<Rightarrow> jsval \<Rightarrow> journal_owner \<Rightarrow> journal_line list" where
  "repricing_lines oldPricing newPricing customerId owner =
     (let customerDelta = roundMoney (Num (n_sub (tp_customerChargeLYD newPricing) (tp_customerChargeLYD oldPricing))) 3;
          agencyDelta = roundMoney (Num (n_sub (tp_agentCostLYD newPricing) (tp_agentCostLYD oldPricing))) 3;
          profitDelta = roundMoney (Num (n_sub customerDelta agencyDelta)) 3;
          ownerModel = (if ownerType owner = ''company'' then ''ClientCompany'' else ''User'')
      in deltaLine ''CUSTOMER_BALANCE'' customerDelta Debit customerId ''SubAccount''
         @ deltaLine ''COMPANY_WALLET'' agencyDelta Credit (ownerId owner) ownerModel
         @ deltaLine ''AGENCY_MARGIN_REVENUE'' profitDelta Credit (ownerId owner) ownerModel)"

definition recordTransferRepricing ::
    "('s, journal_entry) coll \<Rightarrow> (jsval \<Rightarrow> bool) \<Rightarrow> jsval \<Rightarrow> jsval \<Rightarrow> tx_pricing \<Rightarrow> tx_pricing \<Rightarrow> string
      \<Rightarrow> ('s, journal_entry option) run" where
  "recordTransferRepricing journal isValidObjectId transaction subAccount oldPricing newPricing key =
     (if \<not> truthy (get transaction ''isSubAccountTx'') \<or> \<not> truthy subAccount then ret None
      else let owner = ownerDescriptor subAccount Undef;
               entry = entry_of transaction owner ''TRANSFER_REPRICED'' ''reserved'' newPricing
                   (repricing_lines oldPricing newPricing (get transaction ''subAccountId'') owner)
           in createEntry journal isValidObjectId
                (entry\<lparr>je_eventId := je_eventId entry @ '':'' @ key, je_idempotencyKey := key\<rparr>))"

definition SETTLEMENT_EVENT_TYPES :: "(string \<times> string) list" where
  "SETTLEMENT_EVENT_TYPES =
     [(''customer_payment'', ''CUSTOMER_PAYMENT''), (''customer_payout'', ''CUSTOMER_PAYOUT''),
      (''debt_payment'', ''DEBT_PAYMENT''), (''balance_credit'', ''BALANCE_CREDIT''),
      (''balance_debit'', ''BALANCE_DEBIT'')]"

definition settlement_entry :: "string \<Rightarrow> jsval \<Rightarrow> string \<Rightarrow> jsnum \<Rightarrow> jsval \<Rightarrow> string \<Rightarrow> journal_entry" where
  "settlement_entry transactionId subAccount category amount delta key =
     (let owner = ownerDescriptor subAccount Undef;
          v = roundMoney (Num (n_abs amount)) 3;
          isCredit = n_le (Fin 0) (toNumber delta);
          lines = (if isCredit
            then [journal_line_of ''CUSTOMER_SETTLEMENT_CLEARING'' Debit v (ownerId owner) ''User'',
                  journal_line_of ''CUSTOMER_BALANCE'' Credit v (get subAccount ''_id'') ''SubAccount'']
            else [journal_line_of ''CUSTOMER_BALANCE'' Debit v (get subAccount ''_id'') ''SubAccount'',
                  journal_line_of ''CUSTOMER_SETTLEMENT_CLEARING'' Credit v (ownerId owner) ''User'']);
          event = (case map_of SETTLEMENT_EVENT_TYPES category of
              Some e \<Rightarrow> e | None \<Rightarrow> if isCredit then ''BALANCE_CREDIT'' else ''BALANCE_DEBIT'')
      in \<lparr>je_eventId = transactionId @ '':'' @ event, je_owner = owner, je_customerId = get subAccount ''_id'',
          je_transactionId = transactionId, je_eventType = event, je_status = ''posted'',
          je_idempotencyKey = key, je_pricing = None, je_lines = lines, je_reversalOf = None,
          je_debitTotal = Fin 0, je_creditTotal = Fin 0\<rparr>)"

definition recordCustomerSettlement ::
    "('s, journal_entry) coll \<Rightarrow> (jsval \<Rightarrow> bool) \<Rightarrow> string \<Rightarrow> jsval \<Rightarrow> string \<Rightarrow> jsnum \<Rightarrow> jsval \<Rightarrow> string
      \<Rightarrow> ('s, journal_entry option) run" where
  "recordCustomerSettlement journal isValidObjectId transactionId subAccount category amount delta key =
     createEntry journal isValidObjectId (settlement_entry transactionId subAccount category amount delta key)"

section \<open>The effect of an entry on an account\<close>

text \<open>Debits minus credits of an account, in thousandths.\<close>

definition line_effect :: "string \<Rightarrow> journal_line \<Rightarrow> int" where
  "line_effect code l = (if jl_accountCode l = code
     then (if jl_side l = Debit then milli (jl_amount l) else - milli (jl_amount l)) else 0)"

definition account_effect :: "string \<Rightarrow> journal_line list \<Rightarrow> int" where
  "account_effect code lines = sum_list (map (line_effect code) lines)"

text \<open>Exact prices: cost, charge and profit are decimals, and profit is charge minus cost.\<close>

definition priced :: "tx_pricing \<Rightarrow> int \<Rightarrow> int \<Rightarrow> bool" where
  "priced p a q \<longleftrightarrow> tp_agentCostLYD p = dec 3 a \<and> tp_customerChargeLYD p = dec 3 q \<and> tp_profitLYD p = dec 3 (q - a)
     \<and> 0 \<le> a \<and> a \<le> q \<and> q \<le> 100000000000"

definition balanced :: "journal_entry \<Rightarrow> bool" where
  "balanced e \<longleftrightarrow> (\<exists>e' k. validateBalancedJournal e = Inr e' \<and> je_lines e' = je_lines e
     \<and> je_debitTotal e' = dec 3 k \<and> je_creditTotal e' = dec 3 k)"

lemma or_num_near: "near n i v \<Longrightarrow> or_num v (Fin 0) = v"
  by (auto simp: near_def or_num_def)

lemma side_total_near:
  assumes "\<forall>l \<in> set lines. \<exists>j. jl_amount l = dec 3 j \<and> 0 \<le> j \<and> j \<le> 200000000000" "length lines \<le> 4"
  shows "near 8 (sum_list (map (\<lambda>l. if jl_side l = sd then milli (jl_amount l) else 0) lines)) (side_total sd lines)
    \<and> \<bar>sum_list (map (\<lambda>l. if jl_side l = sd then milli (jl_amount l) else 0) lines)\<bar> \<le> LIMIT"
proof -
  have "near (n + 2 * length ls) (i + sum_list (map (\<lambda>l. if jl_side l = sd then milli (jl_amount l) else 0) ls))
      (foldl (\<lambda>sum l. if jl_side l = sd then n_add sum (or_num (jl_amount l) (Fin 0)) else sum) v ls)
    \<and> \<bar>i + sum_list (map (\<lambda>l. if jl_side l = sd then milli (jl_amount l) else 0) ls)\<bar> \<le> LIMIT"
    if "\<forall>l \<in> set ls. \<exists>j. jl_amount l = dec 3 j \<and> 0 \<le> j \<and> j \<le> 200000000000" "near n i v"
      "n + 2 * length ls \<le> 1000" "\<bar>i\<bar> + 200000000000 * int (length ls) \<le> LIMIT" for ls n i v
    using that
  proof (induction ls arbitrary: n i v)
    case (Cons l ls)
    obtain j where j: "jl_amount l = dec 3 j" "0 \<le> j" "j \<le> 200000000000" using Cons.prems(1) by auto
    have jl: "\<bar>j\<bar> \<le> LIMIT" using j by (simp add: LIMIT_def)
    have m: "milli (jl_amount l) = j" "or_num (jl_amount l) (Fin 0) = dec 3 j"
      using milli_dec [OF jl] or_num_near [OF near_dec [OF jl]] j(1) by simp_all
    show ?case
    proof (cases "jl_side l = sd")
      case True
      have ij: "\<bar>i + j\<bar> + 200000000000 * int (length ls) \<le> LIMIT" using Cons.prems(4) j by simp
      have "near (Suc (n + 1)) (i + j) (n_add v (dec 3 j))"
        using Cons.prems(3) ij by (intro near_add [OF Cons.prems(2) near_dec [OF jl]]) simp_all
      then have "near (n + 2) (i + j) (n_add v (dec 3 j))" by simp
      from Cons.IH [OF _ this] show ?thesis using Cons.prems True ij by (simp add: m add.assoc)
    next
      case False
      from Cons.IH [OF _ near_mono [OF Cons.prems(2), of "n + 2"]] show ?thesis
        using Cons.prems False by simp
    qed
  qed simp
  from this [of lines 0 0 "Fin 0"] assms near_mono show ?thesis
    by (auto simp: side_total_def LIMIT_def near_def[of 0])
qed

lemma balancedI:
  assumes "\<forall>l \<in> set (je_lines e). \<exists>j. jl_amount l = dec 3 j \<and> 0 \<le> j \<and> j \<le> 200000000000" "length (je_lines e) \<le> 4"
    and eq: "sum_list (map (\<lambda>l. if jl_side l = Debit then milli (jl_amount l) else 0) (je_lines e))
      = sum_list (map (\<lambda>l. if jl_side l = Credit then milli (jl_amount l) else 0) (je_lines e))"
  shows "balanced e"
proof -
  let ?k = "sum_list (map (\<lambda>l. if jl_side l = Debit then milli (jl_amount l) else 0) (je_lines e))"
  have d: "n_fixed 3 (side_total Debit (je_lines e)) = dec 3 ?k"
    using side_total_near [OF assms(1,2), of Debit] by (intro to_fixed.rnd_near [of 8]) simp_all
  have c: "n_fixed 3 (side_total Credit (je_lines e)) = dec 3 ?k"
    using side_total_near [OF assms(1,2), of Credit] eq by (intro to_fixed.rnd_near [of 8]) simp_all
  have "n_sub (dec 3 ?k) (dec 3 ?k) = Fin 0"
    using dec_limit [of ?k] side_total_near [OF assms(1,2), of Debit] by (simp add: n_sub_Fin)
  moreover have "\<not> n_lt (dec 3 1) (Fin 0)" by code_simp
  ultimately show ?thesis by (auto simp: balanced_def validateBalancedJournal_def d c Let_def)
qed

lemma n_lt_dec_0: "\<bar>k\<bar> \<le> LIMIT \<Longrightarrow> n_lt (Fin 0) (dec 3 k) \<longleftrightarrow> 0 < k"
  using dec_lt [of 0 k] by (simp add: dec_0 LIMIT_def)

lemma n_le_dec_0: "\<bar>k\<bar> \<le> LIMIT \<Longrightarrow> n_le (dec 3 k) (Fin 0) \<longleftrightarrow> k \<le> 0"
    "\<bar>k\<bar> \<le> LIMIT \<Longrightarrow> n_le (Fin 0) (dec 3 k) \<longleftrightarrow> 0 \<le> k"
  using dec_le [of k 0] dec_le [of 0 k] by (simp_all add: dec_0 LIMIT_def)

lemma priced_limits:
  assumes "priced p a q"
  shows "\<bar>a\<bar> \<le> LIMIT" "\<bar>q\<bar> \<le> LIMIT" "\<bar>q - a\<bar> \<le> LIMIT"
  using assms by (simp_all add: priced_def LIMIT_def)

lemma transferLines_priced:
  assumes "priced p a q"
  shows "transferLines p c w = [journal_line_of ''CUSTOMER_BALANCE'' Debit (dec 3 q) c ''SubAccount'',
      journal_line_of ''COMPANY_WALLET'' Credit (dec 3 a) w ''User'']
    @ (if a < q then [journal_line_of ''AGENCY_MARGIN_REVENUE'' Credit (dec 3 (q - a)) w ''User''] else [])"
  using assms n_lt_dec_0 [OF priced_limits(3) [OF assms]] by (simp add: transferLines_def priced_def)

lemma journal_line_simps [simp]:
  "jl_accountCode (journal_line_of c sd n i m) = c" "jl_side (journal_line_of c sd n i m) = sd"
  "jl_amount (journal_line_of c sd n i m) = n"
  by (simp_all add: journal_line_of_def)

lemma priced_balanced:
  assumes p: "priced p a q"
  shows "je_lines e = transferLines p c w \<Longrightarrow> balanced e"
    and "je_lines e = map (\<lambda>l. l\<lparr>jl_side := flip_side (jl_side l)\<rparr>) (transferLines p c w) \<Longrightarrow> balanced e"
proof -
  note lim = priced_limits [OF p]
  have r: "0 \<le> a" "a \<le> q" "q \<le> 100000000000" using p by (simp_all add: priced_def)
  have m: "milli (dec 3 q) = q" "milli (dec 3 a) = a" "milli (dec 3 (q - a)) = q - a"
    using lim milli_dec by simp_all
  have amounts: "\<forall>l \<in> set (transferLines p c w). \<exists>j. jl_amount l = dec 3 j \<and> 0 \<le> j \<and> j \<le> 200000000000"
    unfolding transferLines_priced [OF p] using r
    by (auto intro: exI [of _ q] exI [of _ a] exI [of _ "q - a"])
  show "je_lines e = transferLines p c w \<Longrightarrow> balanced e"
    using amounts r by (intro balancedI) (simp_all add: transferLines_priced [OF p] m)
  show "je_lines e = map (\<lambda>l. l\<lparr>jl_side := flip_side (jl_side l)\<rparr>) (transferLines p c w) \<Longrightarrow> balanced e"
    using amounts r by (intro balancedI) (auto simp: transferLines_priced [OF p] m)
qed

lemma account_effect_flip:
  "account_effect code (map (\<lambda>l. l\<lparr>jl_side := flip_side (jl_side l)\<rparr>) ls) = - account_effect code ls"
proof (induction ls)
  case (Cons l ls)
  then show ?case by (cases "jl_side l") (simp_all add: account_effect_def line_effect_def)
qed (simp add: account_effect_def)

lemma dec_inj:
  assumes "dec 3 a = dec 3 b" "\<bar>of_int a\<bar> < (2::rat) ^ 42 * 10 ^ 3" "\<bar>of_int b\<bar> < (2::rat) ^ 42 * 10 ^ 3"
  shows "a = b"
proof -
  have e: "decv 3 a = decv 3 b" using assms dec_Fin by simp
  have "\<bar>decv 3 a - of_int a / 1000\<bar> \<le> 1 / 4000" "\<bar>decv 3 a - of_int b / 1000\<bar> \<le> 1 / 4000"
    using decv_error [OF assms(2)] decv_error [OF assms(3)] by (simp_all add: e)
  then have "\<bar>(of_int a - of_int b :: rat)\<bar> \<le> 1 / 2" by (simp only: abs_le_iff) (intro conjI; linarith)
  then have "\<bar>(of_int a - of_int b :: rat)\<bar> < 1" by linarith
  then have "(of_int \<bar>a - b\<bar> :: rat) < of_int 1" by simp
  then show ?thesis unfolding of_int_less_iff by simp
qed

lemma priced_of_snapshot:
  assumes amt: "toNumber amount = Fin x" "0 < x" "x < 2 ^ 26"
    and rate: "below (2 ^ 10) (get rates k)" and k: "k \<noteq> []"
    and tx: "get tx ''agencyPricing'' = pricing_obj (calculateAgencyPricing amount rates k sub)" "get tx ''amount'' = amount"
    and q: "ap_customerChargeLYD (calculateAgencyPricing amount rates k sub) = dec 3 q" "0 \<le> q" "q \<le> 100000000000"
  shows "\<exists>a. priced (pricingFromTransaction tx) a q"
proof -
  let ?p = "calculateAgencyPricing amount rates k sub"
  have "\<exists>a q'. 0 \<le> a \<and> a \<le> q' \<and> q' < 2 ^ 50 \<and> ap_agentCostLYD ?p = dec 3 a
      \<and> ap_customerChargeLYD ?p = dec 3 q' \<and> ap_profitLYD ?p = dec 3 (q' - a)"
    using agency_pricing_parts [where rates = rates and k = k and sub = sub, OF amt rate] by blast
  then obtain a q' where a: "0 \<le> a" "a \<le> q'" "q' < 2 ^ 50" "ap_agentCostLYD ?p = dec 3 a"
    "ap_customerChargeLYD ?p = dec 3 q'" "ap_profitLYD ?p = dec 3 (q' - a)" by blast
  have "(of_int q' :: rat) < of_int (2 ^ 50)" "(of_int q :: rat) \<le> of_int 100000000000"
    using a q by (simp_all only: of_int_less_iff of_int_le_iff)
  then have "q' = q" using a q by (intro dec_inj) simp_all
  then have "priced (pricingFromTransaction tx) a q"
    using pricing_of_snapshot [OF amt rate k tx] a q by (simp add: priced_def)
  then show ?thesis by blast
qed

section \<open>Repricing\<close>

lemma deltaLine_effect:
  assumes "\<bar>d\<bar> \<le> 200000000000"
  shows "account_effect code (deltaLine acc (dec 3 d) sd i m)
      = (if code = acc then (if sd = Debit then d else - d) else 0)"
    and "\<forall>l \<in> set (deltaLine acc (dec 3 d) sd i m). \<exists>j. jl_amount l = dec 3 j \<and> 0 \<le> j \<and> j \<le> 200000000000"
    and "length (deltaLine acc (dec 3 d) sd i m) \<le> 1"
    and "sum_list (map (\<lambda>l. if jl_side l = s then milli (jl_amount l) else 0) (deltaLine acc (dec 3 d) sd i m))
      = (if sd = s then max 0 d else max 0 (- d))"
proof -
  have l: "\<bar>d\<bar> \<le> LIMIT" "\<bar>\<bar>d\<bar>\<bar> \<le> LIMIT" using assms by (simp_all add: LIMIT_def)
  have v: "roundMoney (Num (n_abs (dec 3 d))) 3 = dec 3 \<bar>d\<bar>" using n_abs_dec [OF l(1)] agency.rnd_dec [OF l(2)] by simp
  have eq: "deltaLine acc (dec 3 d) sd i m = (if d = 0 then [] else
      [journal_line_of acc (if 0 \<le> d then sd else flip_side sd) (dec 3 \<bar>d\<bar>) i m])"
    unfolding deltaLine_def v Let_def n_le_dec_0(1) [OF l(2)] n_le_dec_0(2) [OF l(1)] by simp
  note m = milli_dec [OF l(2)]
  show "account_effect code (deltaLine acc (dec 3 d) sd i m) = (if code = acc then (if sd = Debit then d else - d) else 0)"
    unfolding eq by (cases sd) (simp_all add: account_effect_def line_effect_def m)
  show "\<forall>l \<in> set (deltaLine acc (dec 3 d) sd i m). \<exists>j. jl_amount l = dec 3 j \<and> 0 \<le> j \<and> j \<le> 200000000000"
    unfolding eq using assms by (auto intro: exI [of _ "\<bar>d\<bar>"])
  show "length (deltaLine acc (dec 3 d) sd i m) \<le> 1" unfolding eq by simp
  show "sum_list (map (\<lambda>l. if jl_side l = s then milli (jl_amount l) else 0) (deltaLine acc (dec 3 d) sd i m))
      = (if sd = s then max 0 d else max 0 (- d))"
    unfolding eq by (cases sd; cases s) (simp_all add: m)
qed

lemma repricing_lines_priced:
  assumes "priced old a q" "priced new a' q'"
  shows "repricing_lines old new c w = deltaLine ''CUSTOMER_BALANCE'' (dec 3 (q' - q)) Debit c ''SubAccount''
     @ deltaLine ''COMPANY_WALLET'' (dec 3 (a' - a)) Credit (ownerId w) (if ownerType w = ''company'' then ''ClientCompany'' else ''User'')
     @ deltaLine ''AGENCY_MARGIN_REVENUE'' (dec 3 ((q' - q) - (a' - a))) Credit (ownerId w)
         (if ownerType w = ''company'' then ''ClientCompany'' else ''User'')"
proof -
  have r: "0 \<le> a" "a \<le> q" "q \<le> 100000000000" "0 \<le> a'" "a' \<le> q'" "q' \<le> 100000000000"
    using assms by (simp_all add: priced_def)
  have "roundMoney (Num (n_sub (dec 3 q') (dec 3 q))) 3 = dec 3 (q' - q)"
    "roundMoney (Num (n_sub (dec 3 a') (dec 3 a))) 3 = dec 3 (a' - a)"
    "roundMoney (Num (n_sub (dec 3 (q' - q)) (dec 3 (a' - a)))) 3 = dec 3 ((q' - q) - (a' - a))"
    using r by (intro agency.rnd_sub; simp add: LIMIT_def)+
  then show ?thesis using assms by (simp add: repricing_lines_def priced_def Let_def)
qed

section \<open>Storing entries\<close>

text \<open>Entries are stored under their event id.\<close>

definition keyed_journal :: "(string \<Rightarrow> journal_entry option) \<Rightarrow> bool" where
  "keyed_journal v \<longleftrightarrow> (\<forall>i d. v i = Some d \<longrightarrow> je_eventId d = i)"

lemma keyedD: "keyed_journal v \<Longrightarrow> v i = Some d \<Longrightarrow> je_eventId d = i"
  by (simp add: keyed_journal_def)

definition keeps_entries ::
    "string \<Rightarrow> journal_entry option \<Rightarrow> (string \<Rightarrow> journal_entry option) \<Rightarrow> (string \<Rightarrow> journal_entry option) \<Rightarrow> bool" where
  "keeps_entries i r v v' \<longleftrightarrow> keyed_journal v' \<and> (v' = v \<or> v i = None \<and> (\<exists>d. v' = v(i \<mapsto> d)))
     \<and> (\<forall>d. r = Some d \<longrightarrow> v' i = Some d)"

lemma keeps_entriesI:
  "keyed_journal v \<Longrightarrow> keeps_entries i None v v"
  "keyed_journal v \<Longrightarrow> v i = Some d \<Longrightarrow> keeps_entries i (Some d) v v"
  "keyed_journal v \<Longrightarrow> v i = None \<Longrightarrow> je_eventId d = i \<Longrightarrow> keeps_entries i (Some d) v (v(i \<mapsto> d))"
  by (auto simp: keeps_entries_def keyed_journal_def)

lemma validate_keeps_event: "validateBalancedJournal p = Inr e \<Longrightarrow> je_eventId e = je_eventId p"
  by (auto simp: validateBalancedJournal_def Let_def split: if_splits)

lemma createEntry_spec:
  assumes ok: "coll_ok journal"
  shows "spec (\<lambda>t. c_view journal t = v \<and> keyed_journal v) (createEntry journal isValidObjectId p)
     (\<lambda>r t. keeps_entries (je_eventId p) r v (c_view journal t))
     (\<lambda>e t. c_view journal t = v)"
  unfolding createEntry_def
proof (rule spec_if [OF spec_ret], simp add: keeps_entriesI, rule spec_if [OF spec_ret], simp add: keeps_entriesI,
    rule spec_catch)
  let ?F = "\<lambda>(e :: error) t. c_view journal t = v \<and> keyed_journal v"
  let ?Q = "\<lambda>r t. keeps_entries (je_eventId p) r v (c_view journal t)"
  show "spec (\<lambda>t. c_view journal t = v \<and> keyed_journal v)
     (bind (of_result (validateBalancedJournal p))
        (\<lambda>entry. andThen (c_insert journal (je_eventId p) entry) (ret (Some entry)))) ?Q ?F"
  proof (rule specI, goal_cases)
    case (1 t r t')
    then obtain e u where e: "validateBalancedJournal p = Inr e" "c_insert journal (je_eventId p) e t = (Inr u, t')" "r = Some e"
      by (auto simp: bind_run andThen_run split: prod.splits sum.splits)
    show ?case using c_insert_ok [OF ok e(2)] validate_keeps_event [OF e(1)] 1(1) e(3) by (simp add: keeps_entriesI)
  next
    case (2 t e t')
    then show ?case
      using c_insert_fail [OF ok] by (auto simp: bind_run andThen_run split: prod.splits sum.splits)
  qed
  show "spec (?F err)
     (if e_code err = ''11000'' then bind (c_findOne journal (\<lambda>d. je_eventId d = je_eventId p))
         (\<lambda>existingEntry. case existingEntry of Some d \<Rightarrow> ret (Some d) | None \<Rightarrow> throw err) else throw err)
     ?Q (\<lambda>e t. c_view journal t = v)" for err
  proof (rule specI, goal_cases)
    case (1 t r t')
    then obtain d where d: "c_findOne journal (\<lambda>d. je_eventId d = je_eventId p) t = (Inr (Some d), t')" "r = Some d"
      by (auto simp: bind_run split: prod.splits sum.splits if_splits option.splits)
    obtain i where i: "je_eventId d = je_eventId p" "c_view journal t i = Some d" using c_findOne_Some [OF ok d(1)] .
    then have "v (je_eventId p) = Some d" using keyedD [of v i d] 1(1) by simp
    then show ?case using 1(1) c_findOne_view [OF ok d(1)] d(2) by (simp add: keeps_entriesI)
  next
    case (2 t e t')
    then show ?case
      using c_findOne_view [OF ok] by (auto simp: bind_run split: prod.splits sum.splits if_splits option.splits)
  qed
qed

section \<open>Properties\<close>

text \<open>
  C31: every reservation and every reversal of an agency transfer is a balanced double entry.  For a
  transaction that carries the prices computed by \<open>calculateAgencyPricing\<close>, the check of the schema
  accepts both entries, and their debit and credit totals are the same decimal.
\<close>

theorem agency_entries_balanced:
  assumes "toNumber amount = Fin x" "0 < x" "x < 2 ^ 26"
    and "below (2 ^ 10) (get rates k)" and "k \<noteq> []"
    and "get tx ''agencyPricing'' = pricing_obj (calculateAgencyPricing amount rates k sub)" "get tx ''amount'' = amount"
    and "ap_customerChargeLYD (calculateAgencyPricing amount rates k sub) = dec 3 q" "0 \<le> q" "q \<le> 100000000000"
  shows "balanced (reservation_entry tx subAccount fallback) \<and> balanced (reversal_entry tx subAccount)"
proof -
  obtain a where "priced (pricingFromTransaction tx) a q" using priced_of_snapshot [OF assms] by blast
  from priced_balanced [OF this] show ?thesis
    by (simp add: reservation_entry_def reversal_entry_def entry_of_def Let_def)
qed

theorem agency_entries_balanced_witness:
  "let tx = Obj [(''amount'', Num (Fin 1000)), (''agencyPricing'', pricing_obj (calculateAgencyPricing (Num (Fin 1000))
          (Obj [(''vodafone'', Num (Fin 8))]) ''vodafone'' (Obj [(''marginPiasters'', Num (Fin 0))])))]
   in balanced (reservation_entry tx (Obj []) (Str ''a1'')) \<and> balanced (reversal_entry tx (Obj []))"
  unfolding Let_def
proof (rule agency_entries_balanced [of _ 1000])
  show "ap_customerChargeLYD (calculateAgencyPricing (Num (Fin 1000)) (Obj [(''vodafone'', Num (Fin 8))]) ''vodafone''
      (Obj [(''marginPiasters'', Num (Fin 0))])) = dec 3 125000"
    by code_simp
qed (simp_all add: below_def)

text \<open>
  a reversal cancels its reservation.  On every account the reversal entry of a transaction has
  exactly the opposite effect of the reservation entry, whatever prices the transaction carries, and it
  names the reservation it reverses.
\<close>

theorem reversal_cancels_reservation:
  "account_effect code (je_lines (reservation_entry tx subAccount Undef))
     + account_effect code (je_lines (reversal_entry tx subAccount)) = 0
   \<and> je_reversalOf (reversal_entry tx subAccount) = Some (je_eventId (reservation_entry tx subAccount Undef))"
  by (simp add: reservation_entry_def reversal_entry_def entry_of_def account_effect_flip Let_def)

text \<open>
  repricing telescopes.  The reservation at the old prices followed by the repricing entry has, on
  every account, the effect of a reservation at the new prices; the repricing entry is balanced.
\<close>

theorem repricing_telescopes:
  assumes "priced old a q" "priced new a' q'"
  shows "account_effect code (transferLines old c (ownerId w)) + account_effect code (repricing_lines old new c w)
      = account_effect code (transferLines new c (ownerId w))
    \<and> balanced ((entry_of tx w event status new (repricing_lines old new c w))
        \<lparr>je_eventId := eid, je_idempotencyKey := key\<rparr>)"
proof -
  have r: "0 \<le> a" "a \<le> q" "q \<le> 100000000000" "0 \<le> a'" "a' \<le> q'" "q' \<le> 100000000000"
    using assms by (simp_all add: priced_def)
  have d: "\<bar>q' - q\<bar> \<le> 200000000000" "\<bar>a' - a\<bar> \<le> 200000000000" "\<bar>(q' - q) - (a' - a)\<bar> \<le> 200000000000"
    using r by linarith+
  have m: "milli (dec 3 q) = q" "milli (dec 3 a) = a" "milli (dec 3 (q - a)) = q - a"
    "milli (dec 3 q') = q'" "milli (dec 3 a') = a'" "milli (dec 3 (q' - a')) = q' - a'"
    using priced_limits [OF assms(1)] priced_limits [OF assms(2)] milli_dec by simp_all
  have app: "account_effect code (xs @ ys) = account_effect code xs + account_effect code ys" for xs ys
    by (simp add: account_effect_def)
  have "account_effect code (transferLines old c (ownerId w)) + account_effect code (repricing_lines old new c w)
      = account_effect code (transferLines new c (ownerId w))"
    unfolding repricing_lines_priced [OF assms] transferLines_priced [OF assms(1)] transferLines_priced [OF assms(2)]
      app deltaLine_effect(1) [OF d(1)] deltaLine_effect(1) [OF d(2)] deltaLine_effect(1) [OF d(3)]
    using r by (auto simp: account_effect_def line_effect_def m)
  moreover have "balanced e" if e: "je_lines e = repricing_lines old new c w" for e
  proof (rule balancedI)
    show "\<forall>l \<in> set (je_lines e). \<exists>j. jl_amount l = dec 3 j \<and> 0 \<le> j \<and> j \<le> 200000000000"
      unfolding e repricing_lines_priced [OF assms] set_append
      using deltaLine_effect(2) [OF d(1)] deltaLine_effect(2) [OF d(2)] deltaLine_effect(2) [OF d(3)] by blast
    have one: "length (deltaLine acc (dec 3 (q' - q)) sd i m) \<le> 1" "length (deltaLine acc (dec 3 (a' - a)) sd i m) \<le> 1"
      "length (deltaLine acc (dec 3 ((q' - q) - (a' - a))) sd i m) \<le> 1" for acc sd i m
      by (rule deltaLine_effect(3) [OF d(1)] deltaLine_effect(3) [OF d(2)] deltaLine_effect(3) [OF d(3)])+
    have three: "x \<le> 1 \<Longrightarrow> y \<le> 1 \<Longrightarrow> z \<le> 1 \<Longrightarrow> x + (y + z) \<le> (4::nat)" for x y z by simp
    show "length (je_lines e) \<le> 4"
      unfolding e repricing_lines_priced [OF assms] length_append by (rule three; rule one)
    show "sum_list (map (\<lambda>l. if jl_side l = Debit then milli (jl_amount l) else 0) (je_lines e))
        = sum_list (map (\<lambda>l. if jl_side l = Credit then milli (jl_amount l) else 0) (je_lines e))"
      unfolding e repricing_lines_priced [OF assms] map_append sum_list.append
        deltaLine_effect(4) [OF d(1)] deltaLine_effect(4) [OF d(2)] deltaLine_effect(4) [OF d(3)] by simp
  qed
  ultimately show ?thesis by (simp add: entry_of_def)
qed

theorem repricing_telescopes_witness:
  "let old = \<lparr>tp_serviceKey = Str ''vodafone'', tp_pricingVersion = Fin 2, tp_amountEGP = Fin 1000,
         tp_amountCurrency = Str ''EGP'', tp_agentRate = Fin 8, tp_customerRate = Fin 8, tp_marginPiasters = Fin 0,
         tp_agentCostLYD = dec 3 125000, tp_customerChargeLYD = dec 3 130000, tp_profitLYD = dec 3 5000\<rparr>;
       new = old\<lparr>tp_agentCostLYD := dec 3 120000, tp_profitLYD := dec 3 10000\<rparr>;
       w = \<lparr>ownerType = ''agent'', ownerId = Str ''a1''\<rparr>
   in account_effect ''COMPANY_WALLET'' (transferLines old (Str ''c1'') (ownerId w))
        + account_effect ''COMPANY_WALLET'' (repricing_lines old new (Str ''c1'') w)
      = account_effect ''COMPANY_WALLET'' (transferLines new (Str ''c1'') (ownerId w))
    \<and> balanced ((entry_of (Obj []) w ''e'' ''reserved'' new (repricing_lines old new (Str ''c1'') w))
        \<lparr>je_eventId := ''t:e:k'', je_idempotencyKey := ''k''\<rparr>)"
  unfolding Let_def
  by (rule repricing_telescopes [of _ 125000 130000 _ 120000 130000]) (simp_all add: priced_def)

text \<open>
  one entry per event.  Once \<open>createEntry\<close> has returned an entry for an event, a second call for
  the same event, whatever its payload, leaves the journal unchanged, and the entry it returns is the
  first one.  The first call changed nothing but that event's entry.
\<close>

theorem journal_entry_once:
  fixes p p' :: journal_entry
  assumes "coll_ok journal" "keyed_journal (c_view journal s)"
    and "createEntry journal isValidObjectId p s = (Inr (Some d), s1)"
    and "je_eventId p' = je_eventId p" "createEntry journal isValidObjectId p' s1 = (r, s2)"
  shows "c_view journal s2 = c_view journal s1 \<and> r \<in> range Inl \<union> {Inr None, Inr (Some d)}
    \<and> (\<exists>d'. c_view journal s1 = (c_view journal s)(je_eventId p \<mapsto> d'))"
proof -
  note sp = createEntry_spec [OF assms(1), where isValidObjectId = isValidObjectId]
  have k: "keeps_entries (je_eventId p) (Some d) (c_view journal s) (c_view journal s1)"
    using spec_Inr [OF sp [where v = "c_view journal s"] _ assms(3)] assms(2) by simp
  then have d: "keyed_journal (c_view journal s1)" "c_view journal s1 (je_eventId p) = Some d"
    "\<exists>d'. c_view journal s1 = (c_view journal s)(je_eventId p \<mapsto> d')"
    using map_upd_triv [of "c_view journal s" "je_eventId p" d] by (auto simp: keeps_entries_def) metis
  have "c_view journal s2 = c_view journal s1 \<and> r \<in> range Inl \<union> {Inr None, Inr (Some d)}"
  proof (cases r)
    case (Inl e)
    then show ?thesis using spec_Inl [OF sp [where v = "c_view journal s1"] _ assms(5) [unfolded Inl]] d by simp
  next
    case (Inr x)
    then have "keeps_entries (je_eventId p) x (c_view journal s1) (c_view journal s2)"
      using spec_Inr [OF sp [where v = "c_view journal s1"] _ assms(5) [unfolded Inr]] d assms(4) by simp
    then show ?thesis using d(2) Inr by (cases x) (auto simp: keeps_entries_def)
  qed
  then show ?thesis using d(3) by blast
qed

definition mem_journal :: "((string \<times> journal_entry) list, journal_entry) coll" where
  "mem_journal = mem_coll (\<lambda>s. s) (\<lambda>l _. l)"

definition demo_payment :: "jsnum \<Rightarrow> journal_entry" where
  "demo_payment amount = settlement_entry ''p1'' (Obj [(''_id'', Str ''c1''), (''masterId'', Str ''a1'')])
     ''customer_payment'' amount (Num amount) ''k1''"

theorem journal_entry_once_witness:
  "\<exists>d s1. createEntry mem_journal (\<lambda>_. True) (demo_payment (Fin 5)) [] = (Inr (Some d), s1)
    \<and> c_view mem_journal (snd (createEntry mem_journal (\<lambda>_. True) (demo_payment (Fin 7)) s1)) = c_view mem_journal s1"
proof -
  have "case fst (createEntry mem_journal (\<lambda>_. True) (demo_payment (Fin 5)) []) of Inr (Some _) \<Rightarrow> True | _ \<Rightarrow> False"
    by code_simp
  then obtain d s1 where 1: "createEntry mem_journal (\<lambda>_. True) (demo_payment (Fin 5)) [] = (Inr (Some d), s1)"
    by (auto split: sum.splits option.splits) (metis prod.collapse)
  obtain r s2 where 2: "createEntry mem_journal (\<lambda>_. True) (demo_payment (Fin 7)) s1 = (r, s2)" by fastforce
  have ok: "coll_ok mem_journal" unfolding mem_journal_def by (rule mem_coll_ok) simp
  have "je_eventId (demo_payment (Fin 7)) = je_eventId (demo_payment (Fin 5))" by code_simp
  from journal_entry_once [OF ok _ 1 this 2] 1 2 show ?thesis
    by (auto simp: keyed_journal_def mem_journal_def mem_coll_def)
qed

end
