(* ===== verification/Credit_Limit.thy ===== *)
theory Credit_Limit
  imports Money Agency_Pricing
begin

text \<open>
  Credit limits of sub-accounts: \<open>services/agencyCreditLimitService.js\<close>.  The rounding of this file is
  \<open>Math.round((x + EPSILON) * 1000) / 1000\<close>, not \<open>toFixed\<close>; the first lemmas show that both agree
  on sums of three-digit decimals.
\<close>

section \<open>Reading money\<close>

definition CREDIT_LIMIT_DECIMALS :: nat where
  "CREDIT_LIMIT_DECIMALS = 3"

definition MAX_CREDIT_LIMIT_LYD :: jsnum where
  "MAX_CREDIT_LIMIT_LYD = Fin 1000000000"

definition round_credit :: "jsval \<Rightarrow> jsnum" where
  "round_credit value = (let numeric = toNumber value; factor = Fin (10 ^ CREDIT_LIMIT_DECIMALS)
     in if \<not> isFinite numeric then Fin 0
        else n_div (n_round (n_mul (n_add numeric EPSILON) factor)) factor)"

definition readMoney :: "jsval \<Rightarrow> jsnum" where
  "readMoney value = (let numeric = toNumber value
     in if isFinite numeric then round_credit (Num numeric) else Fin 0)"

definition readCreditLimit :: "jsval \<Rightarrow> jsnum" where
  "readCreditLimit value = n_max (Fin 0) (readMoney value)"

definition blank :: "jsval \<Rightarrow> bool" where
  "blank value \<longleftrightarrow> value = Undef \<or> value = Null \<or> trim (toString value) = []"

definition normalizeCreditLimit :: "jsval \<Rightarrow> bool \<Rightarrow> error + jsnum" where
  "normalizeCreditLimit value required =
     (if blank value \<and> \<not> required then Inr (Fin 0)
      else let numeric = toNumber value
           in if \<not> isFinite numeric \<or> n_lt numeric (Fin 0) \<or> n_lt MAX_CREDIT_LIMIT_LYD numeric
              then Inl (coded ''INVALID_CREDIT_LIMIT'' 0) else Inr (round_credit (Num numeric)))"

section \<open>The credit state of a sub-account\<close>

record credit_state =
  cs_balance :: jsnum
  cs_creditLimit :: jsnum
  cs_minimumBalance :: jsnum
  cs_debt :: jsnum
  cs_availableToSpend :: jsnum
  cs_usedCredit :: jsnum
  cs_remainingCredit :: jsnum

definition calculateCreditState :: "jsval \<Rightarrow> credit_state" where
  "calculateCreditState account =
     (let currentBalance = readMoney (if get account ''balance'' = Undef then Num (Fin 0) else get account ''balance'');
          limit = readCreditLimit (if get account ''creditLimit'' = Undef then Num (Fin 0) else get account ''creditLimit'');
          minimumBalance = round_credit (Num (n_neg limit));
          debt = round_credit (Num (n_max (Fin 0) (n_neg currentBalance)));
          availableToSpend = round_credit (Num (n_max (Fin 0) (n_add currentBalance limit)));
          usedCredit = round_credit (Num (n_min limit debt));
          remainingCredit = round_credit (Num (n_max (Fin 0) (n_sub limit usedCredit)))
      in \<lparr>cs_balance = currentBalance, cs_creditLimit = limit, cs_minimumBalance = minimumBalance,
          cs_debt = debt, cs_availableToSpend = availableToSpend, cs_usedCredit = usedCredit,
          cs_remainingCredit = remainingCredit\<rparr>)"

definition minimumBalanceForDebit :: "jsval \<Rightarrow> jsval \<Rightarrow> jsnum" where
  "minimumBalanceForDebit cost creditLimit =
     (let debit = readMoney cost in round_credit (Num (n_sub debit (readCreditLimit creditLimit))))"

definition assertCreditLimitCanCoverBalance :: "jsval \<Rightarrow> error + credit_state" where
  "assertCreditLimitCanCoverBalance account =
     (let state = calculateCreditState account
      in if n_lt (cs_balance state) (cs_minimumBalance state)
         then Inl (coded ''CREDIT_LIMIT_BELOW_OUTSTANDING_DEBT'' 0) else Inr state)"

section \<open>Exactness\<close>

lemma EPSILON_near: "near 1 0 EPSILON"
  by (simp add: near_def EPSILON_def)

lemma round_credit_near:
  assumes v: "near n i v" and i: "\<bar>i\<bar> \<le> LIMIT" and n: "n \<le> 4000"
  shows "round_credit (Num v) = dec 3 i"
proof -
  have "near (Suc (n + 1)) (i + 0) (n_add v EPSILON)"
    by (rule near_add [OF v EPSILON_near]) (use i n in simp_all)
  then obtain z where z: "n_add v EPSILON = Fin z" "\<bar>z - of_int i / 1000\<bar> \<le> of_nat (n + 2) / 2 ^ 23"
    using near_Fin by fastforce
  have "of_nat (n + 2) / 2 ^ 23 \<le> (4002 / 2 ^ 23 :: rat)" using n by (intro divide_right_mono) simp_all
  then have zd: "\<bar>z - of_int i / 1000\<bar> \<le> 4002 / 2 ^ 23" using z by linarith
  have "\<bar>z * 1000 - of_int i\<bar> = \<bar>z - of_int i / 1000\<bar> * 1000" by (simp add: field_simps)
  also have "\<dots> \<le> 4002 / 2 ^ 23 * 1000" using zd by (intro mult_right_mono) simp_all
  finally have d: "\<bar>z * 1000 - of_int i\<bar> \<le> 4002000 / 2 ^ 23" by simp
  have ib: "\<bar>of_int i :: rat\<bar> \<le> 1000 * 2 ^ 30" using LIMIT_rat [OF i] by simp
  have zb: "\<bar>z * 1000\<bar> \<le> 1 + 1000 * 2 ^ 30"
  proof -
    have "\<bar>z * 1000\<bar> \<le> \<bar>z * 1000 - of_int i\<bar> + \<bar>of_int i\<bar>" by linarith
    then show ?thesis using d ib by simp
  qed
  then have "\<bar>z * 1000\<bar> < 2 powi (- 12 + 53)" by simp
  from fl_error_le [OF this] have e: "\<bar>fl (z * 1000) - z * 1000\<bar> \<le> 1 / 2 ^ 13"
    by (simp add: power_int_minus)
  have "\<bar>fl (z * 1000)\<bar> \<le> \<bar>fl (z * 1000) - z * 1000\<bar> + \<bar>z * 1000\<bar>" by linarith
  also have "\<dots> \<le> 2 ^ 41" using e zb by simp
  finally have "\<bar>fl (z * 1000)\<bar> < 2 ^ 1024"
    by (rule order_le_less_trans) (rule power_strict_increasing, simp_all)
  then have m: "n_mul (Fin z) (Fin 1000) = Fin (fl (z * 1000))" by (simp add: num_Fin_iff)
  have "\<bar>fl (z * 1000) - of_int i\<bar> \<le> \<bar>fl (z * 1000) - z * 1000\<bar> + \<bar>z * 1000 - of_int i\<bar>" by linarith
  also have "\<dots> < 1 / 2" using e d by simp
  finally have "\<lfloor>fl (z * 1000) + 1 / 2\<rfloor> = i" by (intro floor_unique) linarith+
  moreover have "isFinite v" using near_Fin [OF v] by auto
  ultimately show ?thesis using z m
    by (simp add: round_credit_def CREDIT_LIMIT_DECIMALS_def dec_def Let_def)
qed

interpretation credit: money_rounding "\<lambda>v. round_credit (Num v)"
  by unfold_locales (rule round_credit_near)

lemma round_credit_num: "toNumber v = Fin y \<Longrightarrow> round_credit v = round_credit (Num (Fin y))"
  by (simp add: round_credit_def)

lemma readMoney_near:
  assumes "near n i (toNumber v)" "\<bar>i\<bar> \<le> LIMIT" "n \<le> 4000"
  shows "readMoney v = dec 3 i"
proof -
  obtain y where "toNumber v = Fin y" using near_Fin [OF assms(1)] by blast
  then show ?thesis using round_credit_near [OF assms] by (simp add: readMoney_def)
qed

lemma calculateCreditState_exact:
  assumes b: "near n b (toNumber (get account ''balance''))" "n \<le> 900" "\<bar>b\<bar> \<le> LIMIT"
    and l: "near m l (toNumber (get account ''creditLimit''))" "m \<le> 900" "\<bar>l\<bar> \<le> LIMIT"
    and bl: "\<bar>b + max 0 l\<bar> \<le> LIMIT"
  shows "calculateCreditState account =
    \<lparr>cs_balance = dec 3 b, cs_creditLimit = dec 3 (max 0 l), cs_minimumBalance = dec 3 (- max 0 l),
     cs_debt = dec 3 (max 0 (- b)), cs_availableToSpend = dec 3 (max 0 (b + max 0 l)),
     cs_usedCredit = dec 3 (min (max 0 l) (max 0 (- b))),
     cs_remainingCredit = dec 3 (max 0 l - min (max 0 l) (max 0 (- b)))\<rparr>"
proof -
  let ?l = "max 0 l"
  have nb: "get account ''balance'' \<noteq> Undef" and nl: "get account ''creditLimit'' \<noteq> Undef"
    using b(1) l(1) by (auto simp: near_def)
  have B: "readMoney (get account ''balance'') = dec 3 b" by (rule readMoney_near [OF b(1,3)]) (use b(2) in linarith)
  have lb: "\<bar>?l\<bar> \<le> LIMIT" using l by (simp add: LIMIT_def)
  have "readMoney (get account ''creditLimit'') = dec 3 l" by (rule readMoney_near [OF l(1,3)]) (use l(2) in linarith)
  then have L: "readCreditLimit (get account ''creditLimit'') = dec 3 ?l"
    unfolding readCreditLimit_def using n_max_dec [of 0 l] l(3) by (simp add: dec_0 LIMIT_def)
  have db: "\<bar>max 0 (- b)\<bar> \<le> LIMIT" using b(3) by (simp add: LIMIT_def)
  have D: "n_max (Fin 0) (n_neg (dec 3 b)) = dec 3 (max 0 (- b))"
    using n_max_dec [of 0 "- b"] b(3) by (simp add: dec_0 dec_neg LIMIT_def)
  have A: "round_credit (Num (n_max (Fin 0) (n_add (dec 3 b) (dec 3 ?l)))) = dec 3 (max 0 (b + ?l))"
    by (rule credit.rnd_add_max0 [OF b(3) lb bl])
  let ?u = "min ?l (max 0 (- b))"
  have ub: "\<bar>?u\<bar> \<le> LIMIT" "\<bar>?l - ?u\<bar> \<le> LIMIT" "0 \<le> ?l - ?u" using lb db by linarith+
  have R: "round_credit (Num (n_max (Fin 0) (n_sub (dec 3 ?l) (dec 3 ?u)))) = dec 3 (?l - ?u)"
    using credit.rnd_sub_max0 [OF lb ub(1,2)] ub(3) by (simp add: max_def)
  have M: "round_credit (Num (n_neg (dec 3 ?l))) = dec 3 (- ?l)" by (rule credit.rnd_neg [OF lb])
  have U: "n_min (dec 3 ?l) (dec 3 (max 0 (- b))) = dec 3 ?u" by (rule n_min_dec [OF lb db])
  show ?thesis
    unfolding calculateCreditState_def Let_def
    using nb nl by (simp only: if_False B L D A M U R credit.rnd_dec [OF db] credit.rnd_dec [OF ub(1)])
qed

lemma minimumBalanceForDebit_exact:
  assumes "near n c (toNumber cost)" "n \<le> 900" "\<bar>c\<bar> \<le> LIMIT"
    and "near m l (toNumber limit)" "m \<le> 900" "\<bar>l\<bar> \<le> LIMIT" and "\<bar>c - max 0 l\<bar> \<le> LIMIT"
  shows "minimumBalanceForDebit cost limit = dec 3 (c - max 0 l)"
proof -
  have lb: "\<bar>max 0 l\<bar> \<le> LIMIT" using assms(6) by (simp add: LIMIT_def)
  have C: "readMoney cost = dec 3 c" by (rule readMoney_near [OF assms(1,3)]) (use assms(2) in linarith)
  have "readMoney limit = dec 3 l" by (rule readMoney_near [OF assms(4,6)]) (use assms(5) in linarith)
  then have L: "readCreditLimit limit = dec 3 (max 0 l)"
    unfolding readCreditLimit_def using n_max_dec [of 0 l] assms(6) by (simp add: dec_0 LIMIT_def)
  show ?thesis unfolding minimumBalanceForDebit_def Let_def C L
    by (rule credit.rnd_sub [OF assms(3) lb assms(7)])
qed

section \<open>Properties\<close>

text \<open>
  the credit state of a sub-account is exact.  From a balance and a limit that are sums of
  three-digit decimals, every field is the double of the exact value: the limit that is used and the
  limit that remains add up to the limit, and what can be spent is balance plus limit, or zero.
\<close>

theorem credit_state_exact:
  assumes "near n b (toNumber (get account ''balance''))" "n \<le> 900" "\<bar>b\<bar> \<le> LIMIT"
    and "near m l (toNumber (get account ''creditLimit''))" "m \<le> 900" "\<bar>l\<bar> \<le> LIMIT"
    and "\<bar>b + max 0 l\<bar> \<le> LIMIT"
  shows "\<exists>used rest. 0 \<le> used \<and> 0 \<le> rest \<and> used + rest = max 0 l
    \<and> (0 < used \<longrightarrow> b < 0) \<and> calculateCreditState account =
    \<lparr>cs_balance = dec 3 b, cs_creditLimit = dec 3 (max 0 l), cs_minimumBalance = dec 3 (- max 0 l),
     cs_debt = dec 3 (max 0 (- b)), cs_availableToSpend = dec 3 (max 0 (b + max 0 l)),
     cs_usedCredit = dec 3 used, cs_remainingCredit = dec 3 rest\<rparr>"
  by (rule exI [of _ "min (max 0 l) (max 0 (- b))"], rule exI [of _ "max 0 l - min (max 0 l) (max 0 (- b))"])
    (simp add: calculateCreditState_exact [OF assms] min_def max_def)

theorem credit_state_exact_witness:
  "\<exists>used rest. 0 \<le> used \<and> 0 \<le> rest \<and> used + rest = max 0 200000
    \<and> (0 < used \<longrightarrow> (-50250 :: int) < 0)
    \<and> calculateCreditState (Obj [(''balance'', Num (dec 3 (-50250))), (''creditLimit'', Num (Fin 200))]) =
    \<lparr>cs_balance = dec 3 (-50250), cs_creditLimit = dec 3 (max 0 200000), cs_minimumBalance = dec 3 (- max 0 200000),
     cs_debt = dec 3 (max 0 (- (-50250))), cs_availableToSpend = dec 3 (max 0 (-50250 + max 0 200000)),
     cs_usedCredit = dec 3 used, cs_remainingCredit = dec 3 rest\<rparr>"
proof (rule credit_state_exact [of 1 _ _ 1])
  show "near 1 200000 (toNumber (get (Obj [(''balance'', Num (dec 3 (-50250))), (''creditLimit'', Num (Fin 200))]) ''creditLimit''))"
    by (simp add: near_def)
qed (simp_all add: near_dec LIMIT_def del: One_nat_def)

text \<open>
  C28: a debit on credit never exceeds the limit.  If the stored balance passes the filter
  \<open>balance >= minimumBalanceForDebit(cost, creditLimit)\<close> of the debit, the exact balance after the
  debit is not below minus the limit, although filter and balance are doubles with rounding errors.
\<close>

theorem credit_debit_within_limit:
  assumes "near n b balance" "n \<le> 2000"
    and "near p c (toNumber cost)" "p \<le> 900" "\<bar>c\<bar> \<le> LIMIT"
    and "near q l (toNumber limit)" "q \<le> 900" "\<bar>l\<bar> \<le> LIMIT" "\<bar>c - max 0 l\<bar> \<le> LIMIT"
    and "n_le (minimumBalanceForDebit cost limit) balance"
  shows "- max 0 l \<le> b - c"
proof -
  have "n_le (dec 3 (c - max 0 l)) balance"
    using assms(10) minimumBalanceForDebit_exact [OF assms(3-9)] by simp
  from near_ge_dec [OF assms(1,2) this assms(9)] show ?thesis by simp
qed

theorem credit_debit_within_limit_witness: "- max 0 100000 \<le> (5500 :: int) - 105250"
proof (rule credit_debit_within_limit [of 1 5500 "dec 3 5500" 1 _ "Num (dec 3 105250)" 1 _ "Num (Fin 100)"])
  show lim: "near 1 100000 (toNumber (Num (Fin 100)))" by (simp add: near_def)
  have "minimumBalanceForDebit (Num (dec 3 105250)) (Num (Fin 100)) = dec 3 (105250 - max 0 100000)"
    by (rule minimumBalanceForDebit_exact [OF _ _ _ lim, of 1]) (simp_all add: near_dec LIMIT_def del: One_nat_def)
  then show "n_le (minimumBalanceForDebit (Num (dec 3 105250)) (Num (Fin 100))) (dec 3 5500)"
    by (simp add: dec_le LIMIT_def)
qed (simp_all add: near_dec LIMIT_def del: One_nat_def)

text \<open>
  a submitted credit limit is rejected exactly when it is not a finite number from 0 to the
  maximum.  An accepted one is stored as a three-digit decimal within the maximum, and reading it
  back gives the stored number.
\<close>

theorem credit_limit_stored:
  "case normalizeCreditLimit v required of
     Inl e \<Rightarrow> e = coded ''INVALID_CREDIT_LIMIT'' 0
       \<and> \<not> (\<exists>y. toNumber v = Fin y \<and> 0 \<le> y \<and> y \<le> 1000000000) \<and> \<not> (blank v \<and> \<not> required)
   | Inr n \<Rightarrow> (\<exists>k. n = dec 3 k \<and> 0 \<le> k \<and> k \<le> 1000000000000 \<and> readCreditLimit (Num n) = n)"
proof -
  have stored: "\<exists>k. round_credit (Num (Fin y)) = dec 3 k \<and> 0 \<le> k \<and> k \<le> 1000000000000"
    if y: "0 \<le> y" "y \<le> 1000000000" for y
  proof -
    let ?z = "fl (y + 1 / 2 ^ 52)"
    have "fl (1000000000 + 1 / 2 ^ 52) = 1000000000" by code_simp
    then have z: "0 \<le> ?z" "?z \<le> 1000000000"
      using fl_mono [of "y + 1 / 2 ^ 52" "1000000000 + 1 / 2 ^ 52"] y by (auto intro: fl_nonneg)
    obtain w where w: "num (?z * 1000) = Fin w" "0 \<le> w" "w \<le> 1000000000000"
      using num_between [of 0 1000000000000 "?z * 1000"] z by auto
    obtain u where "num (y + 1 / 2 ^ 52) = Fin u"
      using num_between [of 0 1000000001 "y + 1 / 2 ^ 52"] y by auto
    then have "num (y + 1 / 2 ^ 52) = Fin ?z" using num_Fin_iff by metis
    then have "round_credit (Num (Fin y)) = dec 3 \<lfloor>w + 1 / 2\<rfloor>"
      using w by (simp add: round_credit_def EPSILON_def CREDIT_LIMIT_DECIMALS_def dec_def)
    moreover have "0 \<le> \<lfloor>w + 1 / 2\<rfloor>" "\<lfloor>w + 1 / 2\<rfloor> \<le> 1000000000000" using w by linarith+
    ultimately show ?thesis by blast
  qed
  have reread: "readCreditLimit (Num (dec 3 k)) = dec 3 k" if "0 \<le> k" "k \<le> 1000000000000" for k
  proof -
    have k: "\<bar>k\<bar> \<le> LIMIT" using that by (simp add: LIMIT_def)
    have "readMoney (Num (dec 3 k)) = dec 3 k"
      by (rule readMoney_near [of 1]) (simp_all add: near_dec [OF k] k del: One_nat_def)
    then show ?thesis using n_max_dec [of 0 k] k that by (simp add: readCreditLimit_def dec_0 LIMIT_def)
  qed
  have zero: "\<exists>k. Fin 0 = dec 3 k \<and> 0 \<le> k \<and> k \<le> 1000000000000 \<and> readCreditLimit (Num (Fin 0)) = Fin 0"
    using reread [of 0] by (intro exI [of _ 0]) (simp add: dec_0)
  have okay: "\<exists>k. round_credit (Num (Fin y)) = dec 3 k \<and> 0 \<le> k \<and> k \<le> 1000000000000
      \<and> readCreditLimit (Num (round_credit (Num (Fin y)))) = round_credit (Num (Fin y))"
    if "0 \<le> y" "y \<le> 1000000000" for y
    using stored [OF that] reread by metis
  show ?thesis
  proof (cases "blank v \<and> \<not> required")
    case True
    then show ?thesis using zero by (simp add: normalizeCreditLimit_def)
  next
    case False
    then have nb: "(blank v \<and> \<not> required) = False" by blast
    show ?thesis
      unfolding normalizeCreditLimit_def nb if_False
      using okay False by (cases "toNumber v") (auto simp: MAX_CREDIT_LIMIT_LYD_def not_less Let_def)
  qed
qed

end
