(* ===== verification/Executor_Catalog.thy ===== *)
theory Executor_Catalog
  imports Prelude
begin

text \<open>
  The services an executor company can offer: \<open>utils/executorServiceCatalog.js\<close>.  Labels are left
  out.  A company document is a dynamic value.
\<close>


section \<open>Service catalogue\<close>

record executor_service =
  es_key :: string
  es_transferTypes :: "string list"
  es_requiresProof :: bool

definition EXECUTOR_SERVICE_CATALOG :: "executor_service list" where
  "EXECUTOR_SERVICE_CATALOG =
     [\<lparr>es_key = ''vodafone'', es_transferTypes = [''vodafone''], es_requiresProof = False\<rparr>,
      \<lparr>es_key = ''postal'', es_transferTypes = [''post_account'', ''post_card''], es_requiresProof = False\<rparr>,
      \<lparr>es_key = ''bank_account'', es_transferTypes = [''bank_account''], es_requiresProof = False\<rparr>,
      \<lparr>es_key = ''sefa_niger'', es_transferTypes = [''sefa_niger''], es_requiresProof = True\<rparr>,
      \<lparr>es_key = ''bankak_sudan'', es_transferTypes = [''bankak_sudan''], es_requiresProof = False\<rparr>]"

definition EXECUTOR_SERVICE_BY_KEY :: "string \<Rightarrow> executor_service option" where
  "EXECUTOR_SERVICE_BY_KEY key = find (\<lambda>s. es_key s = key) EXECUTOR_SERVICE_CATALOG"

definition EXECUTOR_SERVICE_KEYS :: "string list" where
  "EXECUTOR_SERVICE_KEYS = map es_key EXECUTOR_SERVICE_CATALOG"

definition SERVICE_ALIASES :: "(string \<times> string) list" where
  "SERVICE_ALIASES = [(''cash'', ''vodafone''), (''post_account'', ''postal''), (''post_card'', ''postal'')]"

definition alias_of :: "string \<Rightarrow> string" where
  "alias_of key = (case map_of SERVICE_ALIASES key of Some k \<Rightarrow> k | None \<Rightarrow> key)"

definition normalizeExecutorServiceKey :: "jsval \<Rightarrow> string option \<Rightarrow> string option" where
  "normalizeExecutorServiceKey v fallback =
     (let normalized = alias_of (toLowerCase (clean v))
      in if EXECUTOR_SERVICE_BY_KEY normalized \<noteq> None then Some normalized
         else case fallback of
                Some f \<Rightarrow> (if EXECUTOR_SERVICE_BY_KEY f \<noteq> None then Some f else None)
              | None \<Rightarrow> None)"

definition getExecutorServiceDefinition :: "jsval \<Rightarrow> executor_service option" where
  "getExecutorServiceDefinition v =
     (case normalizeExecutorServiceKey v (Some ''vodafone'') of
        None \<Rightarrow> None | Some key \<Rightarrow> EXECUTOR_SERVICE_BY_KEY key)"

fun is_object :: "jsval \<Rightarrow> bool" where
  "is_object (Obj _) = True"
| "is_object (Arr _) = True"
| "is_object (JMap _) = True"
| "is_object _ = False"

definition getExecutorPrimaryServiceKey :: "jsval \<Rightarrow> string option \<Rightarrow> string option" where
  "getExecutorPrimaryServiceKey executorOrKey fallback =
     normalizeExecutorServiceKey
       (if is_object executorOrKey then get executorOrKey ''serviceKey'' else executorOrKey) fallback"

fun array_or_single :: "jsval \<Rightarrow> jsval list" where
  "array_or_single (Arr vs) = vs"
| "array_or_single v = [v]"

fun array_or_empty :: "jsval \<Rightarrow> jsval list" where
  "array_or_empty (Arr vs) = vs"
| "array_or_empty v = []"

definition add_service_key :: "string list \<Rightarrow> jsval \<Rightarrow> string list" where
  "add_service_key keys v =
     (case normalizeExecutorServiceKey v None of
        None \<Rightarrow> keys | Some key \<Rightarrow> if key \<in> set keys then keys else keys @ [key])"

definition uniqueServiceKeys :: "jsval list \<Rightarrow> string list" where
  "uniqueServiceKeys values = foldl add_service_key [] values"

definition opt_val :: "string option \<Rightarrow> jsval" where
  "opt_val k = (case k of None \<Rightarrow> Null | Some s \<Rightarrow> Str s)"

definition getExecutorEnabledServiceKeys :: "jsval \<Rightarrow> string list" where
  "getExecutorEnabledServiceKeys executorOrKey =
     (if \<not> is_object executorOrKey then
        (case normalizeExecutorServiceKey executorOrKey (Some ''vodafone'') of
           None \<Rightarrow> [''vodafone''] | Some key \<Rightarrow> [key])
      else let primary = getExecutorPrimaryServiceKey executorOrKey (Some ''vodafone'')
           in uniqueServiceKeys (opt_val primary # array_or_empty (get executorOrKey ''serviceKeys'')))"

definition normalizeEnabledServiceKeys :: "jsval \<Rightarrow> jsval \<Rightarrow> string list" where
  "normalizeEnabledServiceKeys values primaryValue =
     (let primary = getExecutorPrimaryServiceKey primaryValue (Some ''vodafone'')
      in uniqueServiceKeys (opt_val primary # array_or_single values))"

definition collectEnabledServiceKeysFromBody :: "jsval \<Rightarrow> jsval \<Rightarrow> string list" where
  "collectEnabledServiceKeysFromBody body primaryValue =
     normalizeEnabledServiceKeys (coalesce (get body ''enabledServices'')
       (coalesce (get body ''serviceKeys'') (get body ''extraServiceKeys''))) primaryValue"

definition representativeTransferTypeForService :: "jsval \<Rightarrow> string" where
  "representativeTransferTypeForService serviceKey =
     (case getExecutorServiceDefinition serviceKey of
        None \<Rightarrow> ''vodafone''
      | Some d \<Rightarrow> (case es_transferTypes d of [] \<Rightarrow> ''vodafone'' | t # _ \<Rightarrow> t))"

definition types_of_key :: "string \<Rightarrow> string list" where
  "types_of_key key = (case getExecutorServiceDefinition (Str key) of
     None \<Rightarrow> [] | Some d \<Rightarrow> es_transferTypes d)"

definition getExecutorSupportedTransferTypes :: "jsval \<Rightarrow> string list" where
  "getExecutorSupportedTransferTypes executorOrKey =
     (if is_object executorOrKey then
        (let types = concat (map types_of_key (getExecutorEnabledServiceKeys executorOrKey))
         in rev (remdups (rev (if types = [] then [''vodafone''] else types))))
      else case getExecutorServiceDefinition executorOrKey of
             None \<Rightarrow> [''vodafone''] | Some d \<Rightarrow> es_transferTypes d)"

definition executorSupportsTransferType :: "jsval \<Rightarrow> jsval \<Rightarrow> bool" where
  "executorSupportsTransferType executorOrKey transferType \<longleftrightarrow>
     toLowerCase (trim (toString (or_else transferType (Str ''vodafone''))))
       \<in> set (getExecutorSupportedTransferTypes executorOrKey)"

definition executorTransferRequiresProof :: "jsval \<Rightarrow> bool" where
  "executorTransferRequiresProof transferType =
     (case getExecutorServiceDefinition transferType of None \<Rightarrow> False | Some d \<Rightarrow> es_requiresProof d)"

definition primary_key :: "jsval \<Rightarrow> string" where
  "primary_key grp = the (getExecutorPrimaryServiceKey grp (Some ''vodafone''))"

section \<open>Facts about service keys\<close>

lemma by_key_iff: "EXECUTOR_SERVICE_BY_KEY k \<noteq> None \<longleftrightarrow> k \<in> set EXECUTOR_SERVICE_KEYS"
  by (auto simp: EXECUTOR_SERVICE_BY_KEY_def EXECUTOR_SERVICE_KEYS_def find_None_iff)

lemma norm_valid: "normalizeExecutorServiceKey v f = Some k \<Longrightarrow> k \<in> set EXECUTOR_SERVICE_KEYS"
  by (auto simp: normalizeExecutorServiceKey_def Let_def by_key_iff [symmetric] split: if_splits option.splits)

lemma vodafone_key: "''vodafone'' \<in> set EXECUTOR_SERVICE_KEYS"
  by (simp add: EXECUTOR_SERVICE_KEYS_def EXECUTOR_SERVICE_CATALOG_def)

lemma norm_total: "f \<in> set EXECUTOR_SERVICE_KEYS \<Longrightarrow> \<exists>k. normalizeExecutorServiceKey v (Some f) = Some k"
  using by_key_iff [of f] by (auto simp: normalizeExecutorServiceKey_def Let_def)

lemma norm_key: "k \<in> set EXECUTOR_SERVICE_KEYS \<Longrightarrow> normalizeExecutorServiceKey (Str k) f = Some k"
proof -
  assume k: "k \<in> set EXECUTOR_SERVICE_KEYS"
  have "\<forall>k \<in> set EXECUTOR_SERVICE_KEYS. alias_of (toLowerCase (clean (Str k))) = k" by code_simp
  then show ?thesis using k by_key_iff [of k] by (simp add: normalizeExecutorServiceKey_def)
qed

lemma norm_empty: "normalizeExecutorServiceKey Null f = normalizeExecutorServiceKey Undef f"
  by (simp add: normalizeExecutorServiceKey_def clean_def or_else_def)

lemma primary_key: "getExecutorPrimaryServiceKey x (Some ''vodafone'') = Some (primary_key x)"
    "primary_key x \<in> set EXECUTOR_SERVICE_KEYS"
proof -
  obtain k where k: "getExecutorPrimaryServiceKey x (Some ''vodafone'') = Some k"
    using norm_total [OF vodafone_key] unfolding getExecutorPrimaryServiceKey_def by blast
  then show "getExecutorPrimaryServiceKey x (Some ''vodafone'') = Some (primary_key x)" by (simp add: primary_key_def)
  then show "primary_key x \<in> set EXECUTOR_SERVICE_KEYS"
    using norm_valid unfolding getExecutorPrimaryServiceKey_def by blast
qed

lemma add_service_key_inv:
  assumes "distinct keys" "set keys \<subseteq> set EXECUTOR_SERVICE_KEYS"
  shows "distinct (add_service_key keys v) \<and> set (add_service_key keys v) \<subseteq> set EXECUTOR_SERVICE_KEYS
    \<and> (\<exists>ks. add_service_key keys v = keys @ ks)"
  using assms norm_valid [of v None] by (auto simp: add_service_key_def split: option.split)

lemma fold_service_keys:
  assumes "distinct keys" "set keys \<subseteq> set EXECUTOR_SERVICE_KEYS"
  shows "distinct (foldl add_service_key keys vs) \<and> set (foldl add_service_key keys vs) \<subseteq> set EXECUTOR_SERVICE_KEYS
    \<and> (\<exists>ks. foldl add_service_key keys vs = keys @ ks)"
  using assms
proof (induction vs arbitrary: keys)
  case (Cons v vs)
  note inv = add_service_key_inv [OF Cons.prems, of v]
  then have "\<exists>ks. foldl add_service_key (add_service_key keys v) vs = add_service_key keys v @ ks"
    "distinct (foldl add_service_key (add_service_key keys v) vs)"
    "set (foldl add_service_key (add_service_key keys v) vs) \<subseteq> set EXECUTOR_SERVICE_KEYS"
    using Cons.IH [of "add_service_key keys v"] by blast+
  then show ?case using inv by (metis append.assoc foldl_Cons)
qed simp

lemma unique_with_primary:
  "\<exists>ks. uniqueServiceKeys (opt_val (Some p) # vs) = p # ks \<and> distinct (p # ks) \<and> set (p # ks) \<subseteq> set EXECUTOR_SERVICE_KEYS"
  if "p \<in> set EXECUTOR_SERVICE_KEYS"
proof -
  have "add_service_key [] (Str p) = [p]" by (simp add: add_service_key_def norm_key [OF that])
  then show ?thesis using fold_service_keys [of "[p]" vs] that by (auto simp: uniqueServiceKeys_def opt_val_def)
qed

section \<open>Properties\<close>

text \<open>
  the enabled services of an executor company always start with its primary service, contain no
  service twice and only services of the catalogue, whatever the stored document holds.
\<close>

theorem enabled_services_wf:
  "\<exists>ks. getExecutorEnabledServiceKeys (Obj doc) = primary_key (Obj doc) # ks
    \<and> distinct (primary_key (Obj doc) # ks) \<and> set (primary_key (Obj doc) # ks) \<subseteq> set EXECUTOR_SERVICE_KEYS"
proof -
  note p = primary_key [of "Obj doc"]
  show ?thesis
    unfolding getExecutorEnabledServiceKeys_def p(1) using unique_with_primary [OF p(2)]
    by (simp add: Let_def)
qed

end
