(* ===== verification/Executor_Ledger.thy ===== *)
theory Executor_Ledger
  imports Executor_Catalog Pricing Money
begin

text \<open>
  Balances of executor companies by service: \<open>utils/executorServiceLedger.js\<close> and the
  reconciliation of \<open>utils/helpers.js\<close>, which recomputes them from the transactions.  The rows that
  the database queries return are arguments; the filters of the queries are part of the model.
\<close>

section \<open>Service ledgers\<close>

text \<open>\<open>Number(v || 0)\<close>.\<close>

definition num_or_0 :: "jsval \<Rightarrow> jsnum" where
  "num_or_0 v = toNumber (or_else v (Num (Fin 0)))"

definition plain_balance_map :: "(string \<times> jsval) list \<Rightarrow> (string \<times> jsval) list" where
  "plain_balance_map kvs = fold (\<lambda>(key, v) m.
     case normalizeExecutorServiceKey (Str key) None of
       None \<Rightarrow> m | Some serviceKey \<Rightarrow> obj_set serviceKey (Num (num_or_0 v)) m) kvs []"

definition readServiceBalanceMap :: "jsval \<Rightarrow> (string \<times> jsval) list" where
  "readServiceBalanceMap grp = (case get grp ''serviceBalances'' of
     JMap kvs \<Rightarrow> kvs | Obj kvs \<Rightarrow> plain_balance_map kvs | _ \<Rightarrow> [])"

definition sum_balances :: "jsval list \<Rightarrow> jsnum" where
  "sum_balances docs = foldl (\<lambda>sum d. n_add sum (num_or_0 (get d ''balance''))) (Fin 0) docs"

definition doc_id :: "jsval \<Rightarrow> string" where
  "doc_id d = toString (get d ''_id'')"

definition is_solo :: "jsval list \<Rightarrow> jsval \<Rightarrow> bool" where
  "is_solo pools employee \<longleftrightarrow> get employee ''role'' = Str ''external''
     \<and> toString (get employee ''balancePoolId'') \<notin> doc_id ` set pools"

definition allocatedFromRows :: "jsval list \<Rightarrow> jsval list \<Rightarrow> jsnum" where
  "allocatedFromRows pools employees =
     n_add (sum_balances pools) (sum_balances (filter (is_solo pools) employees))"

definition private_of :: "jsval \<Rightarrow> string \<Rightarrow> jsnum" where
  "private_of grp key = (case map_of (readServiceBalanceMap grp) key of
       Some v \<Rightarrow> num_or_0 v
     | None \<Rightarrow> if key = primary_key grp then num_or_0 (get grp ''balance'') else Fin 0)"

definition servicePrivateBalance :: "jsval \<Rightarrow> jsval \<Rightarrow> jsnum" where
  "servicePrivateBalance grp serviceKey =
     private_of grp (the (normalizeExecutorServiceKey serviceKey (Some ''vodafone'')))"

definition ledgerServiceKeyForTransaction :: "jsval \<Rightarrow> string option \<Rightarrow> string option" where
  "ledgerServiceKeyForTransaction tx fallback =
     (if \<not> truthy tx \<or> get tx ''transferType'' = Str ''external_balance'' then None
      else case normalizeExecutorServiceKey (get tx ''canonicalServiceKey'') None of
             Some fromCanonical \<Rightarrow> Some fromCanonical
           | None \<Rightarrow> normalizeExecutorServiceKey (get tx ''transferType'') fallback)"

definition visibleServiceKeysForGroup :: "jsval \<Rightarrow> string list" where
  "visibleServiceKeysForGroup grp =
     (let enabled = getExecutorEnabledServiceKeys grp; m = readServiceBalanceMap grp
      in enabled @ filter (\<lambda>key. \<not> n_eq (num_or_0 (the (map_of m key))) (Fin 0) \<and> key \<notin> set enabled) (map fst m))"

text \<open>The operands of \<open>$inc\<close>: a service balance and, for the primary service, the company balance.\<close>

record ledger_inc =
  li_service :: "(string \<times> jsnum) option"
  li_balance :: "jsnum option"

definition or_zero :: "jsnum \<Rightarrow> jsnum" where
  "or_zero n = (if n = NaN then Fin 0 else n)"

definition serviceLedgerInc :: "jsval \<Rightarrow> jsval \<Rightarrow> jsval \<Rightarrow> ledger_inc" where
  "serviceLedgerInc grp serviceKey delta =
     (let amount = or_zero (toNumber delta);
          primary = getExecutorPrimaryServiceKey grp (Some ''vodafone'');
          key = normalizeExecutorServiceKey serviceKey primary
      in \<lparr>li_service = (case key of None \<Rightarrow> None | Some k \<Rightarrow> Some (k, amount)),
          li_balance = (if key = None \<or> key = primary then Some amount else None)\<rparr>)"

definition primaryServiceBalanceInc :: "jsval \<Rightarrow> jsval \<Rightarrow> ledger_inc" where
  "primaryServiceBalanceInc grp delta =
     serviceLedgerInc grp (opt_val (getExecutorPrimaryServiceKey grp (Some ''vodafone''))) delta"

definition completedTransferLedgerInc :: "jsval \<Rightarrow> jsval \<Rightarrow> jsval \<Rightarrow> ledger_inc" where
  "completedTransferLedgerInc grp tx delta =
     serviceLedgerInc grp
       (opt_val (ledgerServiceKeyForTransaction tx (getExecutorPrimaryServiceKey grp (Some ''vodafone'')))) delta"

definition fundingFieldsForService :: "jsval \<Rightarrow> (string \<times> jsval) list" where
  "fundingFieldsForService serviceKey =
     (let key = normalizeExecutorServiceKey serviceKey (Some ''vodafone'')
      in [(''canonicalServiceKey'', opt_val key),
          (''transferType'', Str (representativeTransferTypeForService (opt_val key)))])"

record service_row =
  sr_serviceKey :: string
  sr_appliesPoolModel :: bool
  sr_privateBalance :: jsnum
  sr_allocatedBalance :: jsnum
  sr_totalBalance :: jsnum

record ledger_snapshot =
  ls_primaryServiceKey :: string
  ls_multiService :: bool
  ls_byService :: "service_row list"
  ls_privateBalance :: jsnum
  ls_allocatedBalance :: jsnum
  ls_totalBalance :: jsnum

definition service_row_of :: "jsval \<Rightarrow> jsnum \<Rightarrow> string \<Rightarrow> service_row" where
  "service_row_of grp allocatedBalance serviceKey =
     (let isPrimary = (serviceKey = primary_key grp);
          privateBalance = private_of grp serviceKey;
          allocated = (if isPrimary then or_zero allocatedBalance else Fin 0)
      in \<lparr>sr_serviceKey = serviceKey, sr_appliesPoolModel = isPrimary, sr_privateBalance = privateBalance,
          sr_allocatedBalance = allocated, sr_totalBalance = n_add privateBalance allocated\<rparr>)"

definition snapshotServiceLedgers :: "jsval \<Rightarrow> jsnum \<Rightarrow> ledger_snapshot" where
  "snapshotServiceLedgers grp allocatedBalance =
     (let primary = primary_key grp;
          byService = map (service_row_of grp allocatedBalance) (visibleServiceKeysForGroup grp);
          primaryRow = (case find (\<lambda>row. sr_serviceKey row = primary) byService of
              Some row \<Rightarrow> row
            | None \<Rightarrow> \<lparr>sr_serviceKey = primary, sr_appliesPoolModel = True,
                sr_privateBalance = num_or_0 (get grp ''balance''),
                sr_allocatedBalance = or_zero allocatedBalance,
                sr_totalBalance = n_add (num_or_0 (get grp ''balance'')) (or_zero allocatedBalance)\<rparr>)
      in \<lparr>ls_primaryServiceKey = primary, ls_multiService = (1 < length byService), ls_byService = byService,
          ls_privateBalance = or_zero (sr_privateBalance primaryRow),
          ls_allocatedBalance = or_zero (sr_allocatedBalance primaryRow),
          ls_totalBalance = or_zero (sr_totalBalance primaryRow)\<rparr>)"

section \<open>Reconciliation (\<open>utils/helpers.js\<close>)\<close>

definition reconcile_filter :: "jsval \<Rightarrow> jsval \<Rightarrow> bool" where
  "reconcile_filter grp tx \<longleftrightarrow> get tx ''transferType'' \<noteq> Str ''external_balance''
     \<and> (if truthy (get grp ''isManagerGroup'')
        then (get tx ''managerGroupId'' = get grp ''_id'' \<and> get tx ''status'' = Str ''completed'')
           \<or> (get tx ''executorGroupId'' = get grp ''_id''
              \<and> get tx ''status'' \<in> {Str ''deposit'', Str ''deduction''})
        else get tx ''executorGroupId'' = get grp ''_id''
           \<and> get tx ''status'' \<in> {Str ''completed'', Str ''deposit'', Str ''deduction''})"

definition map_num :: "(string \<times> jsnum) list \<Rightarrow> string \<Rightarrow> jsnum" where
  "map_num m k = (case map_of m k of None \<Rightarrow> Fin 0 | Some n \<Rightarrow> or_zero n)"

fun num_set :: "string \<Rightarrow> jsnum \<Rightarrow> (string \<times> jsnum) list \<Rightarrow> (string \<times> jsnum) list" where
  "num_set k v [] = [(k, v)]"
| "num_set k v ((k', v') # kvs) = (if k = k' then (k, v) # kvs else (k', v') # num_set k v kvs)"

definition reconcile_step :: "string \<Rightarrow> (string \<times> jsnum) list \<Rightarrow> jsval \<Rightarrow> (string \<times> jsnum) list" where
  "reconcile_step primary byService t =
     (case ledgerServiceKeyForTransaction t (Some primary) of
        None \<Rightarrow> byService
      | Some serviceKey \<Rightarrow>
          (let current = map_num byService serviceKey
           in if get t ''status'' = Str ''completed''
              then num_set serviceKey (n_sub current (num_or_0 (get t ''amount''))) byService
              else if get t ''status'' = Str ''deposit''
              then num_set serviceKey (n_add current (num_or_0 (get t ''amount''))) byService
              else if get t ''status'' = Str ''deduction''
              then num_set serviceKey (n_sub current (n_abs (num_or_0 (get t ''amount'')))) byService
              else byService))"

definition active_row :: "jsval \<Rightarrow> jsval \<Rightarrow> bool" where
  "active_row grp row \<longleftrightarrow> get row ''groupId'' = get grp ''_id'' \<and> nullish (get row ''archivedAt'')"

definition reconciled_balances :: "jsval \<Rightarrow> jsval list \<Rightarrow> jsval list \<Rightarrow> jsval list \<Rightarrow> (string \<times> jsnum) list" where
  "reconciled_balances grp txs pools employees =
     (let primary = primary_key grp;
          byService = foldl (reconcile_step primary) [] (filter (reconcile_filter grp) txs);
          allocated = allocatedFromRows (filter (active_row grp) pools)
            (filter (\<lambda>e. active_row grp e \<and> get e ''role'' = Str ''external'') employees)
      in num_set primary (n_sub (map_num byService primary) allocated) byService)"

text \<open>The fields of the grp document after the reconciliation; the balance field is returned too.\<close>

definition reconcileBotBalance :: "(string \<times> jsval) list \<Rightarrow> jsval list \<Rightarrow> jsval list \<Rightarrow> jsval list
    \<Rightarrow> (string \<times> jsval) list \<times> jsnum" where
  "reconcileBotBalance grp txs pools employees =
     (let byService = reconciled_balances (Obj grp) txs pools employees;
          balance = map_num byService (primary_key (Obj grp))
      in (obj_set ''balance'' (Num balance)
            (obj_set ''serviceBalances'' (JMap (map (\<lambda>(k, n). (k, Num n)) byService)) grp), balance))"

section \<open>Reading and changing the ledgers\<close>

text \<open>The documented effect of \<open>$inc\<close> on the group document: a missing field counts as zero.\<close>

definition inc_map :: "(string \<times> jsval) list \<Rightarrow> string \<times> jsnum \<Rightarrow> (string \<times> jsval) list" where
  "inc_map m kd = obj_set (fst kd)
     (Num (n_add (case map_of m (fst kd) of None \<Rightarrow> Fin 0 | Some v \<Rightarrow> toNumber v) (snd kd))) m"

definition apply_inc :: "(string \<times> jsval) list \<Rightarrow> ledger_inc \<Rightarrow> (string \<times> jsval) list" where
  "apply_inc doc inc =
     (let doc1 = (case li_service inc of None \<Rightarrow> doc
            | Some kd \<Rightarrow> obj_set ''serviceBalances'' (JMap (inc_map (readServiceBalanceMap (Obj doc)) kd)) doc)
      in case li_balance inc of None \<Rightarrow> doc1
         | Some d \<Rightarrow> obj_set ''balance'' (Num (n_add (num_or_0 (get (Obj doc) ''balance'')) d)) doc1)"

lemma map_of_obj_set: "map_of (obj_set k v kvs) k' = (if k' = k then Some v else map_of kvs k')"
  by (induction k v kvs rule: obj_set.induct) auto

lemma map_of_num_set: "map_of (num_set k v kvs) k' = (if k' = k then Some v else map_of kvs k')"
  by (induction k v kvs rule: num_set.induct) auto

lemma map_num_set: "map_num (num_set k v kvs) k' = (if k' = k then or_zero v else map_num kvs k')"
  by (simp add: map_num_def map_of_num_set)

lemma num_or_0_Num: "num_or_0 (Num n) = or_zero n"
  by (simp add: num_or_0_def or_zero_def or_else_def)

lemma primary_key_doc: "get (Obj doc') ''serviceKey'' = get (Obj doc) ''serviceKey'' \<Longrightarrow> primary_key (Obj doc') = primary_key (Obj doc)"
  by (simp add: primary_key_def getExecutorPrimaryServiceKey_def del: get.simps)

text \<open>A seeded group document holds a map of numbers with an entry for its primary service.\<close>

definition seeded :: "(string \<times> jsval) list \<Rightarrow> (string \<times> jsnum) list \<Rightarrow> bool" where
  "seeded doc m \<longleftrightarrow> get (Obj doc) ''serviceBalances'' = JMap (map (\<lambda>(k, n). (k, Num n)) m)
     \<and> map_of m (primary_key (Obj doc)) \<noteq> None"

lemma map_of_Num: "map_of (map (\<lambda>(k, n). (k, Num n)) m) k = map_option Num (map_of m k)"
  by (induction m) auto

lemma private_of_seeded: "seeded doc m \<Longrightarrow> private_of (Obj doc) k = map_num m k"
  by (auto simp: seeded_def private_of_def readServiceBalanceMap_def map_of_Num map_num_def num_or_0_Num
      simp del: get.simps split: option.split)

lemma reconcile_seeded:
  "seeded (fst (reconcileBotBalance doc txs pools employees)) (reconciled_balances (Obj doc) txs pools employees)"
proof -
  have p: "primary_key (Obj (fst (reconcileBotBalance doc txs pools employees))) = primary_key (Obj doc)"
    by (rule primary_key_doc) (simp add: reconcileBotBalance_def Let_def get_obj_set del: get.simps)
  show ?thesis
    unfolding seeded_def p
    by (simp add: reconcileBotBalance_def reconciled_balances_def Let_def get_obj_set map_of_num_set del: get.simps)
qed

lemma or_zero_near: "near n i v \<Longrightarrow> or_zero v = v"
  by (auto simp: near_def or_zero_def)

section \<open>Sums\<close>

definition row_ok :: "string \<Rightarrow> jsval \<Rightarrow> bool" where
  "row_ok f d \<longleftrightarrow> (\<exists>j. num_or_0 (get d f) = dec 3 j \<and> \<bar>j\<bar> \<le> 100000000)"

definition row_milli :: "string \<Rightarrow> jsval \<Rightarrow> int" where
  "row_milli f d = milli (num_or_0 (get d f))"

lemma row_ok_dec: "row_ok f d \<Longrightarrow> num_or_0 (get d f) = dec 3 (row_milli f d) \<and> \<bar>row_milli f d\<bar> \<le> 100000000"
  unfolding row_ok_def row_milli_def using milli_dec by (auto simp: LIMIT_def)

lemma sum_list_bound: "(\<And>d. d \<in> set ds \<Longrightarrow> \<bar>f d\<bar> \<le> B) \<Longrightarrow> \<bar>sum_list (map f ds)\<bar> \<le> B * int (length ds)" for B :: int
proof (induction ds)
  case (Cons d ds)
  have "\<bar>f d + sum_list (map f ds)\<bar> \<le> \<bar>f d\<bar> + \<bar>sum_list (map f ds)\<bar>" by linarith
  also have "\<dots> \<le> B + B * int (length ds)" using Cons by (intro add_mono) simp_all
  finally show ?case by (simp add: algebra_simps)
qed simp

lemma foldl_near:
  assumes "\<And>d. d \<in> set ds \<Longrightarrow> \<exists>j. g d = dec 3 j \<and> j = h d \<and> \<bar>j\<bar> \<le> 100000000"
    and "near n i v" "n + 2 * length ds \<le> 4096" "\<bar>i\<bar> + 100000000 * int (length ds) \<le> LIMIT"
  shows "near (n + 2 * length ds) (i + sum_list (map h ds)) (foldl (\<lambda>s d. n_add s (g d)) v ds)"
  using assms
proof (induction ds arbitrary: n i v)
  case (Cons d ds)
  obtain j where j: "g d = dec 3 j" "j = h d" "\<bar>j\<bar> \<le> 100000000" using Cons.prems(1) by auto
  have ij: "\<bar>i + j\<bar> + 100000000 * int (length ds) \<le> LIMIT" using Cons.prems(4) j(3) by simp
  have "near (Suc (n + 1)) (i + j) (n_add v (g d))"
    unfolding j(1) using j(3) ij Cons.prems(3)
    by (intro near_add [OF Cons.prems(2) near_dec]) (simp_all add: LIMIT_def)
  then have "near (n + 2) (i + j) (n_add v (g d))" by simp
  from Cons.IH [OF _ this] have "near (n + 2 + 2 * length ds) (i + j + sum_list (map h ds)) (foldl (\<lambda>s d. n_add s (g d)) (n_add v (g d)) ds)"
    using Cons.prems ij by simp
  then show ?case using j by (simp add: add.assoc)
qed simp

lemma near_zero: "near 0 0 (Fin 0)"
  by (simp add: near_def)

lemma sum_balances_near:
  assumes "\<forall>d \<in> set ds. row_ok ''balance'' d" "length ds \<le> 1000"
  shows "near (2 * length ds) (sum_list (map (row_milli ''balance'') ds)) (sum_balances ds)"
  using foldl_near [of ds "\<lambda>d. num_or_0 (get d ''balance'')" "row_milli ''balance''" 0 0 "Fin 0"] assms row_ok_dec near_zero
  by (simp add: sum_balances_def LIMIT_def)

section \<open>The exact ledger\<close>

text \<open>
  The exact balance of a service, in thousandths: deposits minus deductions minus completed
  transfers of the transactions that belong to it.
\<close>

definition tx_delta :: "jsval \<Rightarrow> int" where
  "tx_delta t = (let a = row_milli ''amount'' t in
     if get t ''status'' = Str ''completed'' then - a
     else if get t ''status'' = Str ''deposit'' then a
     else if get t ''status'' = Str ''deduction'' then - \<bar>a\<bar> else 0)"

definition service_total :: "string \<Rightarrow> jsval list \<Rightarrow> string \<Rightarrow> int" where
  "service_total primary txs k =
     sum_list (map tx_delta (filter (\<lambda>t. ledgerServiceKeyForTransaction t (Some primary) = Some k) txs))"

definition allocated_total :: "jsval list \<Rightarrow> jsval list \<Rightarrow> int" where
  "allocated_total pools employees = sum_list (map (row_milli ''balance'') pools)
     + sum_list (map (row_milli ''balance'') (filter (is_solo pools) employees))"

lemma tx_delta_bound: "row_ok ''amount'' t \<Longrightarrow> \<bar>tx_delta t\<bar> \<le> 100000000"
  using row_ok_dec [of "''amount''" t] by (simp add: tx_delta_def Let_def)

text \<open>An entry of the map that holds, or stands for, the exact amount \<open>i\<close>.\<close>

definition entry_near :: "nat \<Rightarrow> int \<Rightarrow> jsnum option \<Rightarrow> bool" where
  "entry_near n i e \<longleftrightarrow> (case e of None \<Rightarrow> i = 0 | Some v \<Rightarrow> near n i v)"

lemma entry_near_mono: "entry_near n i e \<Longrightarrow> n \<le> m \<Longrightarrow> entry_near m i e"
  by (auto simp: entry_near_def near_mono split: option.splits)

lemma entry_near_num:
  assumes "entry_near n i (map_of m k)"
  shows "near n i (map_num m k)"
  using assms or_zero_near near_mono [OF near_zero, of n]
  by (auto simp: entry_near_def map_num_def split: option.splits)

lemma entry_near_set:
  "entry_near n i (map_of (num_set k' v m) k) \<longleftrightarrow> (if k = k' then near n i v else entry_near n i (map_of m k))"
  by (simp add: entry_near_def map_of_num_set)

lemma reconcile_step_near:
  assumes t: "row_ok ''amount'' t" and e: "entry_near n i (map_of m k)" and n: "n \<le> 4000"
    and i: "\<bar>i\<bar> + 100000000 \<le> LIMIT"
  shows "entry_near (n + 2) (i + (if ledgerServiceKeyForTransaction t (Some p) = Some k then tx_delta t else 0))
           (map_of (reconcile_step p m t) k)"
proof -
  obtain a where a: "num_or_0 (get t ''amount'') = dec 3 a" "row_milli ''amount'' t = a" "\<bar>a\<bar> \<le> 100000000"
    using row_ok_dec [OF t] by blast
  have al: "\<bar>a\<bar> \<le> LIMIT" using a(3) by (simp add: LIMIT_def)
  note near = entry_near_num [OF e]
  have up: "near (n + 2) (i + j) (n_add (map_num m k) (dec 3 j))"
    and dn: "near (n + 2) (i - j) (n_sub (map_num m k) (dec 3 j))" if j: "\<bar>j\<bar> \<le> 100000000" for j
  proof -
    have jl: "\<bar>j\<bar> \<le> LIMIT" using j by (simp add: LIMIT_def)
    have "near (Suc (n + 1)) (i + j) (n_add (map_num m k) (dec 3 j))"
      using i j n by (intro near_add [OF near near_dec [OF jl]]) simp_all
    then show "near (n + 2) (i + j) (n_add (map_num m k) (dec 3 j))" by simp
    have "near (Suc (n + 1)) (i - j) (n_sub (map_num m k) (dec 3 j))"
      using i j n by (intro near_sub [OF near near_dec [OF jl]]) simp_all
    then show "near (n + 2) (i - j) (n_sub (map_num m k) (dec 3 j))" by simp
  qed
  have same: "entry_near (n + 2) i (map_of m k)" by (rule entry_near_mono [OF e]) simp
  have aa: "\<bar>\<bar>a\<bar>\<bar> \<le> 100000000" using a(3) by simp
  consider "ledgerServiceKeyForTransaction t (Some p) \<noteq> Some k" | "ledgerServiceKeyForTransaction t (Some p) = Some k" by blast
  then show ?thesis
  proof cases
    case 1
    then show ?thesis using same
      by (auto simp: reconcile_step_def entry_near_set Let_def split: option.split)
  next
    case 2
    then show ?thesis using up [OF a(3)] dn [OF a(3)] dn [OF aa] same
      by (simp add: reconcile_step_def tx_delta_def entry_near_set a(1,2) n_abs_dec [OF al] Let_def)
  qed
qed

lemma reconcile_fold_near:
  assumes "\<forall>t \<in> set txs. row_ok ''amount'' t" "entry_near n i (map_of m k)" "n + 2 * length txs \<le> 4000"
    and "\<bar>i\<bar> + 100000000 * (int (length txs) + 1) \<le> LIMIT"
  shows "entry_near (n + 2 * length txs) (i + service_total p txs k) (map_of (foldl (reconcile_step p) m txs) k)"
  using assms
proof (induction txs arbitrary: n i m)
  case (Cons t txs)
  let ?d = "if ledgerServiceKeyForTransaction t (Some p) = Some k then tx_delta t else 0"
  have d: "\<bar>?d\<bar> \<le> 100000000" using tx_delta_bound Cons.prems(1) by simp
  have "entry_near (n + 2) (i + ?d) (map_of (reconcile_step p m t) k)"
    using Cons.prems by (intro reconcile_step_near) simp_all
  moreover have "\<bar>i + ?d\<bar> + 100000000 * (int (length txs) + 1) \<le> LIMIT" using Cons.prems(4) d by simp
  ultimately have "entry_near (n + 2 + 2 * length txs) (i + ?d + service_total p txs k)
      (map_of (foldl (reconcile_step p) (reconcile_step p m t) txs) k)"
    using Cons.prems by (intro Cons.IH) simp_all
  then show ?case
    by (cases "ledgerServiceKeyForTransaction t (Some p) = Some k") (simp_all add: service_total_def add.assoc)
qed (simp add: service_total_def)

lemma service_total_bound:
  assumes "\<forall>t \<in> set txs. row_ok ''amount'' t"
  shows "\<bar>service_total p txs k\<bar> \<le> 100000000 * int (length txs)"
proof -
  have "\<bar>service_total p txs k\<bar> \<le> 100000000 * int (length (filter (\<lambda>t. ledgerServiceKeyForTransaction t (Some p) = Some k) txs))"
    unfolding service_total_def using assms tx_delta_bound by (intro sum_list_bound) simp
  also have "\<dots> \<le> 100000000 * int (length txs)" by simp
  finally show ?thesis .
qed

lemma allocated_near:
  assumes "\<forall>d \<in> set pools. row_ok ''balance'' d" "\<forall>d \<in> set employees. row_ok ''balance'' d"
    and "length pools \<le> 500" "length employees \<le> 500"
  shows "near 2001 (allocated_total pools employees) (allocatedFromRows pools employees)"
    "\<bar>allocated_total pools employees\<bar> \<le> 100000000000"
proof -
  let ?s = "filter (is_solo pools) employees"
  have s: "\<forall>d \<in> set ?s. row_ok ''balance'' d" "length ?s \<le> 500"
    using assms(2) le_trans [OF length_filter_le assms(4)] by simp_all
  have b: "\<bar>sum_list (map (row_milli ''balance'') ds)\<bar> \<le> 50000000000"
    if "\<forall>d \<in> set ds. row_ok ''balance'' d" "length ds \<le> 500" for ds
  proof -
    have "\<bar>sum_list (map (row_milli ''balance'') ds)\<bar> \<le> 100000000 * int (length ds)"
      using that(1) row_ok_dec by (intro sum_list_bound) blast
    then show ?thesis using that(2) by simp
  qed
  have n: "near (Suc (2 * length pools + 2 * length ?s)) (allocated_total pools employees) (allocatedFromRows pools employees)"
    unfolding allocatedFromRows_def allocated_total_def
    using b [OF assms(1,3)] b [OF s] assms s(2)
    by (intro near_add sum_balances_near s) (simp_all add: LIMIT_def)
  show "near 2001 (allocated_total pools employees) (allocatedFromRows pools employees)"
    by (rule near_mono [OF n]) (use assms(3) s(2) in linarith)
  show "\<bar>allocated_total pools employees\<bar> \<le> 100000000000"
    using b [OF assms(1,3)] b [OF s] unfolding allocated_total_def by linarith
qed

section \<open>The exact private balance\<close>

text \<open>
  The exact private balance of a service, in thousandths, written without the filters and the keys of the
  code.  A transaction belongs to the service that its canonical key names, to the one its transfer type
  names when there is none, and to the primary service of the company when that names none either.
  Transfers a manager company has completed are its own as the manager, all other movements are those of
  the company itself, and what is moved to external executors is not a movement of the company.
\<close>

definition names_service :: "jsval \<Rightarrow> string \<Rightarrow> bool" where
  "names_service v k \<longleftrightarrow> k \<in> set EXECUTOR_SERVICE_KEYS \<and> (let s = toLowerCase (clean v) in
     s = k \<and> s \<notin> {''cash'', ''post_account'', ''post_card''} \<or> s = ''cash'' \<and> k = ''vodafone''
     \<or> s \<in> {''post_account'', ''post_card''} \<and> k = ''postal'')"

definition belongs_to :: "string \<Rightarrow> jsval \<Rightarrow> string \<Rightarrow> bool" where
  "belongs_to primary t k \<longleftrightarrow> names_service (get t ''canonicalServiceKey'') k
     \<or> (\<forall>j. \<not> names_service (get t ''canonicalServiceKey'') j)
       \<and> (names_service (get t ''transferType'') k
          \<or> (\<forall>j. \<not> names_service (get t ''transferType'') j) \<and> k = primary)"

definition movement :: "jsval \<Rightarrow> jsval \<Rightarrow> int" where
  "movement company t =
     (let me = get company ''_id''; a = milli (num_or_0 (get t ''amount''));
          payer = (if truthy (get company ''isManagerGroup'') then ''managerGroupId'' else ''executorGroupId'')
      in if get t ''transferType'' = Str ''external_balance'' then 0
         else if get t ''status'' = Str ''completed'' \<and> get t payer = me then - a
         else if get t ''status'' = Str ''deposit'' \<and> get t ''executorGroupId'' = me then a
         else if get t ''status'' = Str ''deduction'' \<and> get t ''executorGroupId'' = me then - \<bar>a\<bar>
         else 0)"

definition present_in :: "jsval \<Rightarrow> jsval \<Rightarrow> bool" where
  "present_in company d \<longleftrightarrow> get d ''groupId'' = get company ''_id'' \<and> get d ''archivedAt'' \<in> {Undef, Null}"

definition balances_of :: "jsval list \<Rightarrow> int" where
  "balances_of ds = (\<Sum>d\<leftarrow>ds. milli (num_or_0 (get d ''balance'')))"

definition given_out :: "jsval \<Rightarrow> jsval list \<Rightarrow> jsval list \<Rightarrow> int" where
  "given_out company pools employees =
     balances_of [p \<leftarrow> pools. present_in company p]
     + balances_of [e \<leftarrow> employees. present_in company e \<and> get e ''role'' = Str ''external''
         \<and> (\<forall>p\<in>set pools. present_in company p \<longrightarrow> toString (get p ''_id'') \<noteq> toString (get e ''balancePoolId''))]"

definition private_total :: "(string \<times> jsval) list \<Rightarrow> jsval list \<Rightarrow> jsval list \<Rightarrow> jsval list \<Rightarrow> string \<Rightarrow> int" where
  "private_total doc txs pools employees k =
     (\<Sum>t\<leftarrow>txs. if belongs_to (primary_key (Obj doc)) t k then movement (Obj doc) t else 0)
     - (if k = primary_key (Obj doc) then given_out (Obj doc) pools employees else 0)"

lemma names_iff: "names_service v k \<longleftrightarrow> normalizeExecutorServiceKey v None = Some k"
proof -
  define s where "s = toLowerCase (clean v)"
  have a: "alias_of s = k \<longleftrightarrow> s = k \<and> s \<notin> {''cash'', ''post_account'', ''post_card''} \<or> s = ''cash'' \<and> k = ''vodafone''
     \<or> s \<in> {''post_account'', ''post_card''} \<and> k = ''postal''"
    by (cases "s = ''cash''"; cases "s = ''post_account''"; cases "s = ''post_card''") (auto simp: alias_of_def SERVICE_ALIASES_def)
  have "normalizeExecutorServiceKey v None = Some k \<longleftrightarrow> alias_of s \<in> set EXECUTOR_SERVICE_KEYS \<and> alias_of s = k"
    by (simp add: normalizeExecutorServiceKey_def s_def [symmetric] by_key_iff [symmetric] Let_def)
  then show ?thesis unfolding names_service_def Let_def s_def [symmetric] a [symmetric] by blast
qed

lemma norm_fallback:
  assumes "p \<in> set EXECUTOR_SERVICE_KEYS"
  shows "normalizeExecutorServiceKey v (Some p) =
     Some (case normalizeExecutorServiceKey v None of Some k \<Rightarrow> k | None \<Rightarrow> p)"
proof -
  have "EXECUTOR_SERVICE_BY_KEY p \<noteq> None" using assms by (simp only: by_key_iff)
  then show ?thesis by (simp add: normalizeExecutorServiceKey_def Let_def)
qed

lemma belongs_iff:
  assumes "p \<in> set EXECUTOR_SERVICE_KEYS" "truthy t" "get t ''transferType'' \<noteq> Str ''external_balance''"
  shows "belongs_to p t k \<longleftrightarrow> ledgerServiceKeyForTransaction t (Some p) = Some k"
  using assms(2,3) unfolding belongs_to_def names_iff ledgerServiceKeyForTransaction_def norm_fallback [OF assms(1)]
  by (auto split: option.splits)

lemma selected_truthy: "reconcile_filter grp t \<Longrightarrow> truthy t"
  by (cases t) (simp_all add: reconcile_filter_def split: if_splits)

lemma movement_iff: "movement grp t = (if reconcile_filter grp t then tx_delta t else 0)"
proof -
  define st where "st = get t ''status''"
  have st: "Str ''completed'' \<noteq> Str ''deposit''" "Str ''completed'' \<noteq> Str ''deduction''" "Str ''deposit'' \<noteq> Str ''deduction''"
    by simp_all
  show ?thesis
    unfolding movement_def reconcile_filter_def tx_delta_def row_milli_def Let_def st_def [symmetric] insert_iff empty_iff
    using st by (cases "truthy (get grp ''isManagerGroup'')"; cases "get t ''transferType'' = Str ''external_balance''";
        cases "st = Str ''completed''"; cases "st = Str ''deposit''"; cases "st = Str ''deduction''") (simp_all only: simp_thms if_True if_False if_cancel cong: if_cong)
qed

lemma selected_total:
  assumes "p \<in> set EXECUTOR_SERVICE_KEYS"
  shows "(\<Sum>t\<leftarrow>txs. if belongs_to p t k then movement grp t else 0) = service_total p (filter (reconcile_filter grp) txs) k"
proof (induction txs)
  case (Cons t txs)
  show ?case
  proof (cases "reconcile_filter grp t")
    case True
    then have "belongs_to p t k \<longleftrightarrow> ledgerServiceKeyForTransaction t (Some p) = Some k"
      by (intro belongs_iff assms selected_truthy [OF True]) (simp add: reconcile_filter_def)
    then show ?thesis using Cons True by (simp add: service_total_def movement_iff)
  next
    case False
    then show ?thesis using Cons by (simp add: service_total_def movement_iff)
  qed
qed (simp add: service_total_def)

lemma given_out_eq:
  "given_out grp pools employees = allocated_total (filter (active_row grp) pools)
     (filter (\<lambda>e. active_row grp e \<and> get e ''role'' = Str ''external'') employees)"
proof -
  have a: "present_in grp d \<longleftrightarrow> active_row grp d" for d
    by (auto simp: present_in_def active_row_def nullish_def)
  have "is_solo (filter (active_row grp) pools) e \<longleftrightarrow> get e ''role'' = Str ''external''
      \<and> (\<forall>p\<in>set pools. active_row grp p \<longrightarrow> toString (get p ''_id'') \<noteq> toString (get e ''balancePoolId''))" for e
    unfolding is_solo_def doc_id_def by (simp only: set_filter image_iff mem_Collect_eq bex_simps) (metis)
  then show ?thesis
    by (simp add: given_out_def allocated_total_def a balances_of_def row_milli_def [abs_def] conj_ac cong: filter_cong)
qed

lemma private_total_booked:
  "private_total doc txs pools employees k =
     service_total (primary_key (Obj doc)) (filter (reconcile_filter (Obj doc)) txs) k
     - (if k = primary_key (Obj doc) then allocated_total (filter (active_row (Obj doc)) pools)
          (filter (\<lambda>e. active_row (Obj doc) e \<and> get e ''role'' = Str ''external'') employees) else 0)"
  unfolding private_total_def selected_total [OF primary_key(2)] given_out_eq ..

section \<open>The rounding errors\<close>

text \<open>The sizes and amounts for which the rounding errors are known to be too small to matter.\<close>

definition rows_bounded :: "jsval list \<Rightarrow> jsval list \<Rightarrow> jsval list \<Rightarrow> bool" where
  "rows_bounded txs pools employees \<longleftrightarrow>
     (\<forall>t \<in> set txs. row_ok ''amount'' t) \<and> length txs \<le> 900
     \<and> (\<forall>d \<in> set pools. row_ok ''balance'' d) \<and> length pools \<le> 500
     \<and> (\<forall>d \<in> set employees. row_ok ''balance'' d) \<and> length employees \<le> 500"

lemma reconciled_entry:
  assumes "rows_bounded txs pools employees"
  shows "entry_near 3802 (private_total doc txs pools employees k)
      (map_of (reconciled_balances (Obj doc) txs pools employees) k)"
    and "\<bar>private_total doc txs pools employees k\<bar> \<le> 200000000000"
proof -
  let ?p = "primary_key (Obj doc)"
  let ?txs = "filter (reconcile_filter (Obj doc)) txs"
  let ?pools = "filter (active_row (Obj doc)) pools"
  let ?emps = "filter (\<lambda>e. active_row (Obj doc) e \<and> get e ''role'' = Str ''external'') employees"
  have tx: "\<forall>t \<in> set ?txs. row_ok ''amount'' t" and lt: "length ?txs \<le> 900"
    and pl: "\<forall>d \<in> set ?pools. row_ok ''balance'' d" "length ?pools \<le> 500"
    and em: "\<forall>d \<in> set ?emps. row_ok ''balance'' d" "length ?emps \<le> 500"
    using assms by (auto simp: rows_bounded_def intro: le_trans [OF length_filter_le])
  have st: "\<bar>service_total ?p ?txs j\<bar> \<le> 90000000000" for j
    using service_total_bound [OF tx, of ?p j] lt by simp
  have fold: "entry_near (2 * length ?txs) (service_total ?p ?txs j) (map_of (foldl (reconcile_step ?p) [] ?txs) j)" for j
    using reconcile_fold_near [OF tx, of 0 0 "[]" j ?p] lt by (simp add: entry_near_def LIMIT_def)
  note al = allocated_near [OF pl(1) em(1) pl(2) em(2)]
  show "\<bar>private_total doc txs pools employees k\<bar> \<le> 200000000000"
  proof -
    have "\<bar>x - (if b then y else 0)\<bar> \<le> 200000000000" if "\<bar>x\<bar> \<le> 90000000000" "\<bar>y\<bar> \<le> 100000000000" for x y :: int and b
      using that by (auto simp: abs_le_iff)
    then show ?thesis unfolding private_total_booked using st al(2) by blast
  qed
  have "near (Suc (2 * length ?txs + 2001)) (service_total ?p ?txs ?p - allocated_total ?pools ?emps)
      (n_sub (map_num (foldl (reconcile_step ?p) [] ?txs) ?p) (allocatedFromRows ?pools ?emps))"
    using st [of ?p] al(2) lt by (intro near_sub entry_near_num [OF fold] al(1)) (simp_all add: LIMIT_def)
  then have "near 3802 (service_total ?p ?txs ?p - allocated_total ?pools ?emps)
      (n_sub (map_num (foldl (reconcile_step ?p) [] ?txs) ?p) (allocatedFromRows ?pools ?emps))"
    by (rule near_mono) (use lt in linarith)
  moreover have "entry_near 3802 (service_total ?p ?txs k) (map_of (foldl (reconcile_step ?p) [] ?txs) k)"
    by (rule entry_near_mono [OF fold]) (use lt in linarith)
  ultimately show "entry_near 3802 (private_total doc txs pools employees k)
      (map_of (reconciled_balances (Obj doc) txs pools employees) k)"
    by (simp add: private_total_booked reconciled_balances_def entry_near_set Let_def)
qed

lemma inc_entry:
  assumes seeded: "seeded doc m" and inc: "li_service inc = Some (k, d)"
  defines "v \<equiv> n_add (case map_of m k of None \<Rightarrow> Fin 0 | Some n \<Rightarrow> n) d"
  shows "seeded (apply_inc doc inc) (num_set k v m)"
proof -
  let ?m = "readServiceBalanceMap (Obj doc)"
  have m: "?m = map (\<lambda>(k, n). (k, Num n)) m"
    using seeded by (simp add: seeded_def readServiceBalanceMap_def del: get.simps)
  have set: "obj_set k (Num x) (map (\<lambda>(k, n). (k, Num n)) m) = map (\<lambda>(k, n). (k, Num n)) (num_set k x m)" for x
    by (induction k x m rule: num_set.induct) auto
  have sk: "get (Obj (apply_inc doc inc)) ''serviceKey'' = get (Obj doc) ''serviceKey''"
    "get (Obj (apply_inc doc inc)) ''serviceBalances'' = JMap (inc_map ?m (k, d))"
    by (simp_all add: apply_inc_def inc get_obj_set Let_def del: get.simps split: option.split)
  have "inc_map ?m (k, d) = map (\<lambda>(k, n). (k, Num n)) (num_set k v m)"
    by (simp add: inc_map_def m map_of_Num set v_def split: option.split)
  then show ?thesis
    using seeded unfolding seeded_def sk primary_key_doc [OF sk(1)] by (simp add: map_of_num_set)
qed

section \<open>Properties\<close>

text \<open>
  routing and funding agree.  The transfer type that represents a service is supported by every
  company that enables the service, and a transaction with the funding fields of a service is booked
  on the ledger of that service.
\<close>

theorem funding_fields_roundtrip:
  "ledgerServiceKeyForTransaction (Obj (fundingFieldsForService v)) fallback
     = normalizeExecutorServiceKey v (Some ''vodafone'')
   \<and> executorSupportsTransferType (Obj [(''serviceKey'', opt_val (normalizeExecutorServiceKey v (Some ''vodafone'')))])
       (Str (representativeTransferTypeForService (opt_val (normalizeExecutorServiceKey v (Some ''vodafone'')))))"
proof -
  obtain k where k: "normalizeExecutorServiceKey v (Some ''vodafone'') = Some k" "k \<in> set EXECUTOR_SERVICE_KEYS"
    using norm_total [OF vodafone_key] norm_valid by blast
  have rep: "\<forall>k \<in> set EXECUTOR_SERVICE_KEYS. representativeTransferTypeForService (Str k) \<noteq> ''external_balance''"
    by code_simp
  have low: "\<forall>k \<in> set EXECUTOR_SERVICE_KEYS. toLowerCase (trim (representativeTransferTypeForService (Str k))) \<in> set (types_of_key k)"
    by code_simp
  have non: "\<forall>k \<in> set EXECUTOR_SERVICE_KEYS. representativeTransferTypeForService (Str k) \<noteq> []"
    by code_simp
  have "add_service_key [] (Str k) = [k]" by (simp add: add_service_key_def norm_key [OF k(2)])
  then have "getExecutorEnabledServiceKeys (Obj [(''serviceKey'', Str k)]) = [k]"
    by (simp add: getExecutorEnabledServiceKeys_def getExecutorPrimaryServiceKey_def norm_key [OF k(2)]
        opt_val_def uniqueServiceKeys_def)
  then have "set (types_of_key k) \<subseteq> set (getExecutorSupportedTransferTypes (Obj [(''serviceKey'', Str k)]))"
    by (simp add: getExecutorSupportedTransferTypes_def Let_def)
  then have sup: "executorSupportsTransferType (Obj [(''serviceKey'', Str k)]) (Str (representativeTransferTypeForService (Str k)))"
    using low non k(2) by (auto simp: executorSupportsTransferType_def or_else_def)
  have "ledgerServiceKeyForTransaction (Obj (fundingFieldsForService v)) fallback = Some k"
    using bspec [OF rep k(2)]
    by (simp add: ledgerServiceKeyForTransaction_def fundingFieldsForService_def k(1) opt_val_def norm_key [OF k(2)])
  then show ?thesis using sup by (simp add: opt_val_def k(1))
qed

text \<open>
  C30: the reconciliation is exact.  After \<open>reconcileBotBalance\<close> the private balance of every service,
  read back through the same code that the dashboards use, is the exact sum of the company's
  transactions of that service, less the balances allocated to external executors and pools for the
  primary service.  There are at most 900 transactions, 500 pools and 500 employees, and their amounts
  have three decimals and are at most 100000.
\<close>

theorem reconcile_exact:
  assumes "rows_bounded txs pools employees"
  shows "milli (private_of (Obj (fst (reconcileBotBalance doc txs pools employees))) k)
    = private_total doc txs pools employees k"
  unfolding private_of_seeded [OF reconcile_seeded]
  by (rule milli_near [OF entry_near_num [OF reconciled_entry(1) [OF assms]]]) simp

theorem reconcile_exact_witness:
  "milli (private_of (Obj (fst (reconcileBotBalance [(''_id'', Str ''g1''), (''serviceKey'', Str ''postal'')]
      [Obj [(''executorGroupId'', Str ''g1''), (''status'', Str ''deposit''), (''amount'', Num (dec 3 900000))]] [] []))) ''postal'')
   = private_total [(''_id'', Str ''g1''), (''serviceKey'', Str ''postal'')]
      [Obj [(''executorGroupId'', Str ''g1''), (''status'', Str ''deposit''), (''amount'', Num (dec 3 900000))]] [] [] ''postal''"
proof (rule reconcile_exact)
  have "num_or_0 (Num (dec 3 900000)) = dec 3 900000"
    using or_zero_near [OF near_dec, of 900000] by (simp add: num_or_0_Num LIMIT_def)
  then show "rows_bounded [Obj [(''executorGroupId'', Str ''g1''), (''status'', Str ''deposit''), (''amount'', Num (dec 3 900000))]] [] []"
    by (auto simp: rows_bounded_def row_ok_def intro: exI [of _ 900000])
qed

text \<open>
  incremental bookkeeping agrees with the reconciliation.  Completing a transfer on a reconciled
  company document with the increments of \<open>completedTransferLedgerInc\<close> gives, for every service, the
  private balance that a reconciliation with the completed transfer would establish.
\<close>

theorem completion_matches_reconcile:
  assumes rows: "rows_bounded txs pools employees"
    and t: "row_ok ''amount'' t" "get t ''status'' = Str ''completed''" "reconcile_filter (Obj doc) t"
    and key: "ledgerServiceKeyForTransaction t (Some (primary_key (Obj doc))) = Some k"
  defines "doc' \<equiv> fst (reconcileBotBalance doc txs pools employees)"
  shows "milli (private_of (Obj (apply_inc doc' (completedTransferLedgerInc (Obj doc') t
           (Num (n_neg (num_or_0 (get t ''amount''))))))) k')
       = private_total doc (txs @ [t]) pools employees k'"
proof -
  let ?m = "reconciled_balances (Obj doc) txs pools employees"
  have pk: "primary_key (Obj doc') = primary_key (Obj doc)"
    unfolding doc'_def by (rule primary_key_doc) (simp add: reconcileBotBalance_def Let_def get_obj_set del: get.simps)
  obtain a where a: "num_or_0 (get t ''amount'') = dec 3 a" "row_milli ''amount'' t = a" "\<bar>a\<bar> \<le> 100000000"
    using row_ok_dec [OF t(1)] by blast
  have al: "\<bar>- a\<bar> \<le> LIMIT" using a(3) by (simp add: LIMIT_def)
  have kv: "k \<in> set EXECUTOR_SERVICE_KEYS" using key norm_valid
    by (auto simp: ledgerServiceKeyForTransaction_def split: if_splits option.splits)
  let ?inc = "completedTransferLedgerInc (Obj doc') t (Num (n_neg (num_or_0 (get t ''amount''))))"
  have inc: "li_service ?inc = Some (k, dec 3 (- a))"
    by (simp add: completedTransferLedgerInc_def serviceLedgerInc_def primary_key(1) pk key opt_val_def norm_key [OF kv]
        a(1) dec_neg or_zero_near [OF near_dec [OF al]] Let_def)
  let ?v = "n_add (case map_of ?m k of None \<Rightarrow> Fin 0 | Some n \<Rightarrow> n) (dec 3 (- a))"
  let ?tot = "private_total doc txs pools employees"
  note read = private_of_seeded [OF inc_entry [OF reconcile_seeded [of doc txs pools employees] inc [unfolded doc'_def]], folded doc'_def, where k = k']
  have "near 3802 (?tot k) (case map_of ?m k of None \<Rightarrow> Fin 0 | Some n \<Rightarrow> n)"
    using reconciled_entry(1) [OF rows, of doc k] near_mono [OF near_zero, of 3802]
    by (auto simp: entry_near_def split: option.splits)
  then have "near (Suc (3802 + 1)) (?tot k + - a) ?v"
    using reconciled_entry(2) [OF rows, of doc k] a(3)
    by (intro near_add near_dec al) (simp_all add: LIMIT_def)
  then have "milli (or_zero ?v) = ?tot k - a" using milli_near or_zero_near by fastforce
  moreover have "milli (map_num ?m k') = ?tot k'"
    by (rule milli_near [OF entry_near_num [OF reconciled_entry(1) [OF rows]]]) simp
  ultimately have "milli (map_num (num_set k ?v ?m) k') = ?tot k' + (if k' = k then tx_delta t else 0)"
    using t(2) a(2) by (simp add: map_num_set tx_delta_def)
  moreover have "private_total doc (txs @ [t]) pools employees k' = ?tot k' + (if k' = k then tx_delta t else 0)"
    using t(3) key by (simp add: private_total_booked service_total_def)
  ultimately show ?thesis using read by simp
qed

theorem completion_matches_reconcile_witness:
  "milli (private_of (Obj (apply_inc
       (fst (reconcileBotBalance [(''_id'', Str ''g1''), (''serviceKey'', Str ''postal'')] [] [] []))
       (completedTransferLedgerInc
          (Obj (fst (reconcileBotBalance [(''_id'', Str ''g1''), (''serviceKey'', Str ''postal'')] [] [] [])))
          (Obj [(''executorGroupId'', Str ''g1''), (''status'', Str ''completed''), (''transferType'', Str ''bank_account''),
             (''amount'', Num (dec 3 250500))])
          (Num (n_neg (num_or_0 (get (Obj [(''executorGroupId'', Str ''g1''), (''status'', Str ''completed''),
             (''transferType'', Str ''bank_account''), (''amount'', Num (dec 3 250500))]) ''amount'')))))))
     ''bank_account'')
   = private_total [(''_id'', Str ''g1''), (''serviceKey'', Str ''postal'')]
       ([] @ [Obj [(''executorGroupId'', Str ''g1''), (''status'', Str ''completed''), (''transferType'', Str ''bank_account''),
             (''amount'', Num (dec 3 250500))]]) [] [] ''bank_account''"
proof (rule completion_matches_reconcile)
  have "num_or_0 (Num (dec 3 250500)) = dec 3 250500"
    using or_zero_near [OF near_dec, of 250500] by (simp add: num_or_0_Num LIMIT_def)
  then show "row_ok ''amount'' (Obj [(''executorGroupId'', Str ''g1''), (''status'', Str ''completed''),
      (''transferType'', Str ''bank_account''), (''amount'', Num (dec 3 250500))])"
    by (auto simp: row_ok_def intro: exI [of _ 250500])
  have "''bank_account'' \<in> set EXECUTOR_SERVICE_KEYS" by (simp add: EXECUTOR_SERVICE_KEYS_def EXECUTOR_SERVICE_CATALOG_def)
  moreover have "normalizeExecutorServiceKey Undef None = None" by code_simp
  ultimately show "ledgerServiceKeyForTransaction (Obj [(''executorGroupId'', Str ''g1''), (''status'', Str ''completed''),
      (''transferType'', Str ''bank_account''), (''amount'', Num (dec 3 250500))])
      (Some (primary_key (Obj [(''_id'', Str ''g1''), (''serviceKey'', Str ''postal'')]))) = Some ''bank_account''"
    by (simp add: ledgerServiceKeyForTransaction_def norm_key)
qed (simp_all add: rows_bounded_def reconcile_filter_def)

text \<open>
  a company document without a per-service map loses its balance from view.  Before the first
  increment the private balance of its primary service is read from the company balance; the
  increment creates the map with the increment alone, and from then on only that is read.
\<close>

theorem unseeded_increment_hides_balance:
  assumes "get (Obj doc) ''serviceBalances'' = Undef" "get (Obj doc) ''balance'' = Num (Fin b)" "dbl d"
  shows "private_of (Obj doc) (primary_key (Obj doc)) = Fin b
    \<and> private_of (Obj (apply_inc doc (primaryServiceBalanceInc (Obj doc) (Num (Fin d))))) (primary_key (Obj doc)) = Fin d"
proof -
  let ?p = "primary_key (Obj doc)"
  let ?inc = "primaryServiceBalanceInc (Obj doc) (Num (Fin d))"
  have e: "readServiceBalanceMap (Obj doc) = []" using assms(1) by (simp add: readServiceBalanceMap_def del: get.simps)
  have inc: "li_service ?inc = Some (?p, Fin d)"
    by (simp add: primaryServiceBalanceInc_def serviceLedgerInc_def primary_key opt_val_def norm_key [OF primary_key(2)]
        or_zero_def Let_def)
  have sk: "get (Obj (apply_inc doc ?inc)) ''serviceBalances'' = JMap [(?p, Num (Fin d))]"
    using assms(3) by (simp add: apply_inc_def inc get_obj_set e inc_map_def Let_def del: get.simps split: option.split)
  show ?thesis
    using assms(2) sk e by (simp add: private_of_def readServiceBalanceMap_def num_or_0_Num or_zero_def del: get.simps)
qed

theorem unseeded_increment_hides_balance_witness:
  "private_of (Obj [(''balance'', Num (Fin 1000))]) (primary_key (Obj [(''balance'', Num (Fin 1000))])) = Fin 1000
   \<and> private_of (Obj (apply_inc [(''balance'', Num (Fin 1000))]
        (primaryServiceBalanceInc (Obj [(''balance'', Num (Fin 1000))]) (Num (Fin (- 100))))))
       (primary_key (Obj [(''balance'', Num (Fin 1000))])) = Fin (- 100)"
  by (rule unseeded_increment_hides_balance) simp_all

end
