(* ===== verification/Wallet.thy ===== *)
theory Wallet
  imports Money
begin

text \<open>
  The wallet: \<open>services/walletService.js\<close>.  A balance is changed only together with a ledger entry.
  \<open>accounts\<close> is the collection of the request's entity model, \<open>ledger\<close> the ledger collection, \<open>txn\<close> the
  driver's transaction, \<open>newId\<close> the id of the entry; all of them are parameters.
\<close>

section \<open>Environment\<close>

type_synonym environment = "string \<Rightarrow> jsval"

definition requiresMongoTransactions :: "bool \<Rightarrow> environment \<Rightarrow> bool" where
  "requiresMongoTransactions emergencyActive env \<longleftrightarrow>
     \<not> emergencyActive
     \<and> (env ''NODE_ENV'' = Str ''production''
        \<or> toLowerCase (toString (or_else (env ''MONGO_TRANSACTIONS_REQUIRED'') (Str []))) = ''true'')"

definition financialTransactionsUnavailableError :: error where
  "financialTransactionsUnavailableError = coded ''FINANCIAL_TRANSACTIONS_UNAVAILABLE'' 503"

definition isMongoTransactionFallbackError :: "error \<Rightarrow> bool" where
  "isMongoTransactionFallbackError err =
     (includes_str (message err) ''replica set''
      \<or> includes_str (message err) ''Transaction numbers''
      \<or> includes_str (message err) ''transactions are not supported''
      \<or> includes_str (message err) ''retryable writes''
      \<or> includes_str (message err) ''mongos'')"

section \<open>Accounts and ledger entries\<close>

record account =
  balance :: jsnum
  acc_tenantId :: "string option"

record ledger_entry =
  le_tenantId :: "string option"
  le_entityId :: string
  le_entityModel :: string
  le_transactionId :: string
  le_type :: string
  le_amount :: jsnum
  le_balanceBefore :: jsnum
  le_balanceAfter :: jsnum
  le_description :: string

record balance_update =
  bu_balanceBefore :: jsnum
  bu_balanceAfter :: jsnum

record wallet_options =
  minBalance :: jsnum
  allowNegative :: bool
  wo_tenantId :: "string option"

record wallet_request =
  wr_entityModel :: string
  wr_entityId :: string
  wr_amount :: jsnum
  wr_type :: string
  wr_transactionId :: string
  wr_description :: string
  wr_options :: wallet_options

definition default_options :: wallet_options where
  "default_options = \<lparr>minBalance = Fin 0, allowNegative = False, wo_tenantId = None\<rparr>"

section \<open>Updating a balance\<close>

definition guarded :: "wallet_request \<Rightarrow> bool" where
  "guarded r \<longleftrightarrow> n_lt (wr_amount r) (Fin 0) \<and> \<not> allowNegative (wr_options r)"

definition balance_filter :: "wallet_request \<Rightarrow> account \<Rightarrow> bool" where
  "balance_filter r acc \<longleftrightarrow>
     (guarded r \<longrightarrow> n_le (n_add (minBalance (wr_options r)) (n_abs (wr_amount r))) (balance acc))"

definition inc_balance :: "jsnum \<Rightarrow> account \<Rightarrow> account" where
  "inc_balance amount acc = acc\<lparr>balance := n_add (balance acc) amount\<rparr>"

definition missing_account :: "wallet_request \<Rightarrow> error" where
  "missing_account r = plain_error (if guarded r then ''INSUFFICIENT_BALANCE'' else ''ACCOUNT_NOT_FOUND'')"

definition build_entry :: "wallet_request \<Rightarrow> account \<Rightarrow> ledger_entry" where
  "build_entry r acc =
     \<lparr>le_tenantId = (case wo_tenantId (wr_options r) of Some t \<Rightarrow> Some t | None \<Rightarrow> acc_tenantId acc),
      le_entityId = wr_entityId r, le_entityModel = wr_entityModel r,
      le_transactionId = (if wr_transactionId r = [] then ''SYS-SYNC'' else wr_transactionId r),
      le_type = wr_type r, le_amount = wr_amount r,
      le_balanceBefore = n_sub (balance acc) (wr_amount r), le_balanceAfter = balance acc,
      le_description = wr_description r\<rparr>"

definition update_of :: "ledger_entry \<Rightarrow> balance_update" where
  "update_of e = \<lparr>bu_balanceBefore = le_balanceBefore e, bu_balanceAfter = le_balanceAfter e\<rparr>"

definition runWithSession ::
    "('s, account) coll \<Rightarrow> ('s, ledger_entry) coll \<Rightarrow> string \<Rightarrow> wallet_request \<Rightarrow> ('s, balance_update) run" where
  "runWithSession accounts ledger newId r =
     bind (c_update accounts (wr_entityId r) (balance_filter r) (inc_balance (wr_amount r)))
       (\<lambda>found. case found of
          None \<Rightarrow> throw (missing_account r)
        | Some acc \<Rightarrow>
            let entry = build_entry r acc
            in andThen (c_insert ledger newId entry) (ret (update_of entry)))"

definition executeFallback ::
    "('s, account) coll \<Rightarrow> ('s, ledger_entry) coll \<Rightarrow> string \<Rightarrow> wallet_request \<Rightarrow> ('s, balance_update) run" where
  "executeFallback accounts ledger newId r =
     bind (c_update accounts (wr_entityId r) (balance_filter r) (inc_balance (wr_amount r)))
       (\<lambda>found. case found of
          None \<Rightarrow> throw (missing_account r)
        | Some acc \<Rightarrow>
            let entry = build_entry r acc
            in andThen
                 (catch (c_insert ledger newId entry)
                    (\<lambda>err. andThen (c_update accounts (wr_entityId r) (\<lambda>_. True)
                                      (inc_balance (n_neg (wr_amount r))))
                             (throw err)))
                 (ret (update_of entry)))"

text \<open>
  Without a session of the caller the update runs in its own transaction; on a server without
  transactions it falls back to single updates, unless the deployment requires transactions.
\<close>

definition updateBalanceWithLedger ::
    "(('s, balance_update) run \<Rightarrow> ('s, balance_update) run) \<Rightarrow> bool \<Rightarrow> bool
      \<Rightarrow> ('s, account) coll \<Rightarrow> ('s, ledger_entry) coll \<Rightarrow> string \<Rightarrow> wallet_request \<Rightarrow> ('s, balance_update) run" where
  "updateBalanceWithLedger txn requires externalSession accounts ledger newId r =
     (if externalSession then runWithSession accounts ledger newId r
      else catch (txn (runWithSession accounts ledger newId r))
        (\<lambda>err. if isMongoTransactionFallbackError err
               then if requires then throw financialTransactionsUnavailableError
                    else executeFallback accounts ledger newId r
               else throw err))"

section \<open>What an update does\<close>

lemma balance_inc [simp]: "balance (inc_balance a acc) = n_add (balance acc) a"
  by (simp add: inc_balance_def)

text \<open>One posting: the guarded account is changed and the entry that describes it is added.\<close>

definition posted ::
    "string \<Rightarrow> wallet_request \<Rightarrow> (string \<Rightarrow> account option) \<Rightarrow> (string \<Rightarrow> ledger_entry option)
      \<Rightarrow> (string \<Rightarrow> account option) \<Rightarrow> (string \<Rightarrow> ledger_entry option) \<Rightarrow> account \<Rightarrow> bool" where
  "posted newId r a l a' l' acc \<longleftrightarrow> a (wr_entityId r) = Some acc \<and> balance_filter r acc \<and> l newId = None
     \<and> a' = a(wr_entityId r \<mapsto> inc_balance (wr_amount r) acc)
     \<and> l' = l(newId \<mapsto> build_entry r (inc_balance (wr_amount r) acc))"

lemma runWithSession_Inr:
  assumes ok: "coll_ok accounts" "coll_ok ledger"
    and q: "quiet accounts (c_view ledger)" "quiet ledger (c_view accounts)"
    and run: "runWithSession accounts ledger newId r s = (Inr u, s')"
  obtains acc where
    "posted newId r (c_view accounts s) (c_view ledger s) (c_view accounts s') (c_view ledger s') acc"
    "u = update_of (build_entry r (inc_balance (wr_amount r) acc))"
proof -
  obtain found s1 where 1: "c_update accounts (wr_entityId r) (balance_filter r) (inc_balance (wr_amount r)) s = (Inr found, s1)"
    and 2: "(case found of None \<Rightarrow> throw (missing_account r) | Some acc \<Rightarrow>
       let entry = build_entry r acc in andThen (c_insert ledger newId entry) (ret (update_of entry))) s1 = (Inr u, s')"
    using run unfolding runWithSession_def by (elim bind_InrE)
  obtain acc' where found: "found = Some acc'" using 2 by (cases found) auto
  obtain acc where acc: "c_view accounts s (wr_entityId r) = Some acc" "balance_filter r acc"
    "acc' = inc_balance (wr_amount r) acc"
    "c_view accounts s1 = (c_view accounts s)(wr_entityId r \<mapsto> inc_balance (wr_amount r) acc)"
    using c_update_Some [OF ok(1) 1 [unfolded found]] by metis
  obtain x where ins: "c_insert ledger newId (build_entry r acc') s1 = (Inr x, s')" "u = update_of (build_entry r acc')"
    using 2 found by (auto simp: run_simps Let_def split: prod.splits sum.splits)
  show thesis
    using that [of acc] acc c_insert_ok [OF ok(2) ins(1)] quietD(2) [OF q(1) 1] quietD(3) [OF q(2) ins(1)] ins(2)
    by (simp add: posted_def)
qed

lemma updateBalance_required:
  assumes "updateBalanceWithLedger txn True False accounts ledger newId r s = (res, s')"
  obtains res' where "txn (runWithSession accounts ledger newId r) s = (res', s')"
    "\<And>u. res = Inr u \<longleftrightarrow> res' = Inr u"
    "\<And>e. res' = Inl e \<Longrightarrow> res = Inl (if isMongoTransactionFallbackError e then financialTransactionsUnavailableError else e)"
  using assms by (auto simp: updateBalanceWithLedger_def run_simps split: prod.splits sum.splits if_splits)

section \<open>The interface of the ledger book\<close>

text \<open>
  What the other services rely on: an operation either leaves accounts and ledger as they were or
  makes exactly one posting.  \<open>accts\<close> and \<open>entries\<close> read the two collections.
\<close>

locale ledger_book =
  fixes accts :: "'s \<Rightarrow> string \<Rightarrow> account option"
    and entries :: "'s \<Rightarrow> string \<Rightarrow> ledger_entry option"
    and post :: "string \<Rightarrow> wallet_request \<Rightarrow> ('s, balance_update) run"
  assumes post_cases: "post n r s = (res, s') \<Longrightarrow>
      (\<exists>e. res = Inl e) \<and> accts s' = accts s \<and> entries s' = entries s
      \<or> (\<exists>acc. posted n r (accts s) (entries s) (accts s') (entries s') acc)"
begin

lemma post_other: "post n r s = (res, s') \<Longrightarrow> i \<noteq> wr_entityId r \<Longrightarrow> accts s' i = accts s i"
  using post_cases [of n r s res s'] by (auto simp: posted_def)

lemma post_keeps_accounts: "post n r s = (res, s') \<Longrightarrow> accts s i \<noteq> None \<Longrightarrow> accts s' i \<noteq> None"
  using post_cases [of n r s res s'] by (auto simp: posted_def)

lemma post_keeps_entries: "post n r s = (res, s') \<Longrightarrow> entries s i = Some e \<Longrightarrow> entries s' i = Some e"
  using post_cases [of n r s res s'] by (auto simp: posted_def)

end

section \<open>The ledger explains the balances\<close>

text \<open>
  The ledger entries of an account and the exact sum of their amounts in thousandths.
\<close>

definition entries_of :: "(string \<Rightarrow> ledger_entry option) \<Rightarrow> string \<Rightarrow> string set" where
  "entries_of l i = {n. \<exists>e. l n = Some e \<and> le_entityId e = i}"

definition ledger_sum :: "(string \<Rightarrow> ledger_entry option) \<Rightarrow> string \<Rightarrow> int" where
  "ledger_sum l i = (\<Sum>n \<in> entries_of l i. milli (le_amount (the (l n))))"

text \<open>
  A book is sound when the ledger is finite and every balance is, up to the rounding errors of the
  additions, the sum of the account's ledger entries, all of them three-digit decimals.
\<close>

definition sound_book :: "(string \<Rightarrow> account option) \<Rightarrow> (string \<Rightarrow> ledger_entry option) \<Rightarrow> bool" where
  "sound_book a l \<longleftrightarrow> finite (dom l)
     \<and> (\<forall>i acc. a i = Some acc \<longrightarrow> near (2 * card (entries_of l i)) (ledger_sum l i) (balance acc))"

lemma entries_of_insert:
  assumes "l n = None"
  shows "entries_of (l(n \<mapsto> e)) i = (if le_entityId e = i then insert n (entries_of l i) else entries_of l i)"
  using assms by (auto simp: entries_of_def)

lemma entries_finite: "finite (dom l) \<Longrightarrow> finite (entries_of l i)"
  by (rule finite_subset [of _ "dom l"]) (auto simp: entries_of_def)

lemma ledger_sum_insert:
  assumes "l n = None" "finite (dom l)"
  shows "ledger_sum (l(n \<mapsto> e)) i = ledger_sum l i + (if le_entityId e = i then milli (le_amount e) else 0)"
proof -
  have n: "n \<notin> entries_of l i" using assms by (simp add: entries_of_def)
  have "(\<Sum>m \<in> entries_of l i. milli (le_amount (the ((l(n \<mapsto> e)) m)))) = ledger_sum l i"
    unfolding ledger_sum_def using n by (intro sum.cong) auto
  then show ?thesis
    using n entries_finite [OF assms(2), of i] by (simp add: ledger_sum_def entries_of_insert [where l = l and n = n, OF assms(1)] del: fun_upd_apply) (simp)
qed

lemma sound_book_step:
  assumes sound: "sound_book a l" and acc: "a i = Some acc" and fresh: "l n = None"
    and e: "le_entityId e = i" "le_amount e = dec 3 k" "\<bar>k\<bar> \<le> LIMIT"
    and size: "card (entries_of l i) \<le> 2000" "\<bar>ledger_sum l i + k\<bar> \<le> LIMIT"
  shows "sound_book (a(i \<mapsto> inc_balance (dec 3 k) acc)) (l(n \<mapsto> e))"
proof -
  have fin: "finite (dom l)" and near: "\<And>j acc. a j = Some acc \<Longrightarrow> near (2 * card (entries_of l j)) (ledger_sum l j) (balance acc)"
    using sound by (auto simp: sound_book_def)
  have nn: "n \<notin> entries_of l i" using fresh by (simp add: entries_of_def)
  have "near (Suc (2 * card (entries_of l i) + 1)) (ledger_sum l i + k) (n_add (balance acc) (dec 3 k))"
    using size by (intro near_add near near_dec acc e) simp_all
  then show ?thesis
    using fin near e nn
    by (auto simp: sound_book_def entries_of_insert [where l = l and n = n, OF fresh] ledger_sum_insert [where l = l and n = n, OF fresh fin] milli_dec
        entries_finite [OF fin])
qed

text \<open>A request whose amount is a three-digit decimal of at most 100000 dinars.\<close>

definition small_request :: "wallet_request \<Rightarrow> bool" where
  "small_request r \<longleftrightarrow> (\<exists>k. wr_amount r = dec 3 k \<and> \<bar>k\<bar> \<le> 100000000)"

text \<open>A sequence of postings; a request that fails is skipped.\<close>

fun post_all :: "(string \<Rightarrow> wallet_request \<Rightarrow> ('s, balance_update) run) \<Rightarrow> (string \<times> wallet_request) list \<Rightarrow> 's \<Rightarrow> 's" where
  "post_all post [] s = s"
| "post_all post ((n, r) # rs) s = post_all post rs (snd (post n r s))"

definition room :: "(string \<Rightarrow> ledger_entry option) \<Rightarrow> nat \<Rightarrow> bool" where
  "room l n \<longleftrightarrow> (\<forall>i. card (entries_of l i) + n \<le> 2000 \<and> \<bar>ledger_sum l i\<bar> + 100000000 * int n \<le> LIMIT)"

lemma build_entry_simps [simp]:
  "le_entityId (build_entry r acc) = wr_entityId r" "le_amount (build_entry r acc) = wr_amount r"
  by (simp_all add: build_entry_def)

lemma posted_sound:
  assumes "sound_book a l" "room l (Suc n)" "small_request r" "posted i r a l a' l' acc"
  shows "sound_book a' l' \<and> room l' n"
proof -
  obtain k where k: "wr_amount r = dec 3 k" "\<bar>k\<bar> \<le> 100000000" using assms(3) by (auto simp: small_request_def)
  have kl: "\<bar>k\<bar> \<le> LIMIT" using k by (simp add: LIMIT_def)
  have p: "a (wr_entityId r) = Some acc" "l i = None" "a' = a(wr_entityId r \<mapsto> inc_balance (wr_amount r) acc)"
    "l' = l(i \<mapsto> build_entry r (inc_balance (wr_amount r) acc))"
    using assms(4) by (simp_all add: posted_def)
  have fin: "finite (dom l)" using assms(1) by (simp add: sound_book_def)
  have rm: "card (entries_of l j) + Suc n \<le> 2000" "\<bar>ledger_sum l j\<bar> + 100000000 * int (Suc n) \<le> LIMIT" for j
    using assms(2) by (simp_all add: room_def)
  have "sound_book a' l'"
    unfolding p(3,4) k(1)
    using rm [of "wr_entityId r"] k kl by (intro sound_book_step [OF assms(1) p(1,2)]) simp_all
  moreover have "room l' n"
    unfolding room_def
  proof
    fix j
    have "card (entries_of l' j) \<le> Suc (card (entries_of l j))"
      using entries_finite [OF fin] p(2)
      by (simp add: p(4) entries_of_insert [where l = l and n = i] card_insert_if)
    moreover have "\<bar>x + k\<bar> \<le> \<bar>x\<bar> + 100000000" for x using k(2) by linarith
    then have "\<bar>ledger_sum l' j\<bar> \<le> \<bar>ledger_sum l j\<bar> + 100000000"
      using k kl fin p(2) by (simp add: p(4) ledger_sum_insert [where l = l and n = i] milli_dec)
    ultimately show "card (entries_of l' j) + n \<le> 2000 \<and> \<bar>ledger_sum l' j\<bar> + 100000000 * int n \<le> LIMIT"
      using rm [of j] by simp
  qed
  ultimately show ?thesis by simp
qed

lemma room_mono: "room l (Suc n) \<Longrightarrow> room l n"
proof -
  assume r: "room l (Suc n)"
  show ?thesis unfolding room_def
  proof
    fix i
    have "card (entries_of l i) + Suc n \<le> 2000" "\<bar>ledger_sum l i\<bar> + 100000000 * int (Suc n) \<le> LIMIT"
      using r by (simp_all only: room_def)
    then show "card (entries_of l i) + n \<le> 2000 \<and> \<bar>ledger_sum l i\<bar> + 100000000 * int n \<le> LIMIT" by simp
  qed
qed

context ledger_book begin

lemma post_sound:
  assumes "sound_book (accts s) (entries s)" "room (entries s) (Suc n)" "small_request r"
    and "post i r s = (res, s')"
  shows "sound_book (accts s') (entries s') \<and> room (entries s') n"
  using post_cases [OF assms(4)] posted_sound [OF assms(1-3)] assms(1,2) room_mono by fastforce

lemma post_all_sound:
  assumes "sound_book (accts s) (entries s)" "room (entries s) (length rs)"
    and "\<forall>(n, r) \<in> set rs. small_request r"
  shows "sound_book (accts (post_all post rs s)) (entries (post_all post rs s))
    \<and> room (entries (post_all post rs s)) 0"
  using assms
proof (induction rs arbitrary: s)
  case (Cons nr rs)
  obtain n r where nr: "nr = (n, r)" by fastforce
  obtain res s' where p: "post n r s = (res, s')" by fastforce
  have "sound_book (accts s') (entries s') \<and> room (entries s') (length rs)"
    using Cons.prems nr by (intro post_sound [OF _ _ _ p]) simp_all
  then show ?case using Cons.IH [of s'] Cons.prems nr p by simp
qed simp

lemma post_all_keeps_accounts: "accts s i \<noteq> None \<Longrightarrow> accts (post_all post rs s) i \<noteq> None"
proof (induction rs arbitrary: s)
  case (Cons nr rs)
  obtain n r where nr: "nr = (n, r)" by fastforce
  show ?case using Cons.IH [OF post_keeps_accounts [OF _ Cons.prems]] nr by (metis post_all.simps(2) surjective_pairing)
qed simp

end

section \<open>The wallet is a ledger book\<close>

lemma runWithSession_book:
  assumes "coll_ok accounts" "coll_ok ledger" "quiet accounts (c_view ledger)" "quiet ledger (c_view accounts)"
    and t: "txn_ok txn unknown (\<lambda>s. (c_view accounts s, c_view ledger s))"
  shows "ledger_book (c_view accounts) (c_view ledger) (updateBalanceWithLedger txn True False accounts ledger)"
proof
  fix n r s res s'
  assume "updateBalanceWithLedger txn True False accounts ledger n r s = (res, s')"
  then obtain res' where tx: "txn (runWithSession accounts ledger n r) s = (res', s')" and rr: "\<And>u. res = Inr u \<longleftrightarrow> res' = Inr u"
    by (rule updateBalance_required) blast
  have posted: "\<exists>acc. posted n r (c_view accounts s) (c_view ledger s) (c_view accounts s') (c_view ledger s') acc"
    if v: "(c_view accounts s0, c_view ledger s0) = (c_view accounts s, c_view ledger s)"
      "runWithSession accounts ledger n r s0 = (Inr u, s1)"
      "(c_view accounts s', c_view ledger s') = (c_view accounts s1, c_view ledger s1)" for u s0 s1
    using runWithSession_Inr [OF assms(1-4) v(2)] v(1,3) by (metis prod.inject)
  show "(\<exists>e. res = Inl e) \<and> c_view accounts s' = c_view accounts s \<and> c_view ledger s' = c_view ledger s
      \<or> (\<exists>acc. posted n r (c_view accounts s) (c_view ledger s) (c_view accounts s') (c_view ledger s') acc)"
  proof (cases res')
    case (Inr u)
    then show ?thesis using txn_commit [OF t tx [unfolded Inr]] posted by metis
  next
    case (Inl e)
    then have "\<exists>e. res = Inl e" using rr by (cases res) auto
    then show ?thesis using txn_cases [OF t tx] posted by (metis prod.inject)
  qed
qed

lemma updateBalance_Inr:
  assumes t: "txn_ok txn unknown (\<lambda>s. (c_view accounts s, c_view ledger s))"
    and fb: "\<And>e. isMongoTransactionFallbackError e \<Longrightarrow> \<not> unknown e"
    and run: "updateBalanceWithLedger txn requires ext accounts ledger newId r s = (Inr u, s')"
  obtains s0 s1 where "c_view accounts s0 = c_view accounts s" "c_view ledger s0 = c_view ledger s"
    "runWithSession accounts ledger newId r s0 = (Inr u, s1)"
    "c_view accounts s' = c_view accounts s1" "c_view ledger s' = c_view ledger s1"
proof (cases ext)
  case True
  then show ?thesis using that run by (simp add: updateBalanceWithLedger_def)
next
  case False
  obtain res s2 where tx: "txn (runWithSession accounts ledger newId r) s = (res, s2)" by fastforce
  show ?thesis
  proof (cases res)
    case (Inl e)
    then have e: "isMongoTransactionFallbackError e" "executeFallback accounts ledger newId r s2 = (Inr u, s')"
      using run False tx by (auto simp: updateBalanceWithLedger_def run_simps split: if_splits)
    have "runWithSession accounts ledger newId r s2 = (Inr u, s')"
      using e(2) unfolding executeFallback_def runWithSession_def
      by (auto simp: run_simps Let_def split: prod.splits sum.splits option.splits)
    then show ?thesis
      using that [of s2 s'] txn_abort [OF t tx [unfolded Inl] fb [OF e(1)]] by simp
  next
    case (Inr v)
    then have "res = Inr u" "s2 = s'" using run False tx by (simp_all add: updateBalanceWithLedger_def run_simps)
    then show ?thesis using that txn_commit [OF t tx [unfolded \<open>res = Inr u\<close>]] by (metis prod.inject)
  qed
qed

lemma updateBalance_posted:
  assumes "coll_ok accounts" "coll_ok ledger" "quiet accounts (c_view ledger)" "quiet ledger (c_view accounts)"
    and t: "txn_ok txn unknown (\<lambda>s. (c_view accounts s, c_view ledger s))"
    and fb: "\<And>e. isMongoTransactionFallbackError e \<Longrightarrow> \<not> unknown e"
    and run: "updateBalanceWithLedger txn requires ext accounts ledger newId r s = (Inr u, s')"
  obtains acc where
    "posted newId r (c_view accounts s) (c_view ledger s) (c_view accounts s') (c_view ledger s') acc"
    "u = update_of (build_entry r (inc_balance (wr_amount r) acc))"
proof -
  obtain s0 s1 where "c_view accounts s0 = c_view accounts s" "c_view ledger s0 = c_view ledger s"
    "runWithSession accounts ledger newId r s0 = (Inr u, s1)"
    "c_view accounts s' = c_view accounts s1" "c_view ledger s' = c_view ledger s1"
    using updateBalance_Inr [OF t fb run] by metis
  then show thesis using runWithSession_Inr [OF assms(1-4)] that by metis
qed

section \<open>A wallet in memory\<close>

record wallet_db =
  db_accounts :: "(string \<times> account) list"
  db_ledger :: "(string \<times> ledger_entry) list"

definition mem_accounts :: "(wallet_db, account) coll" where
  "mem_accounts = mem_coll db_accounts (\<lambda>l s. s\<lparr>db_accounts := l\<rparr>)"

definition mem_ledger :: "(wallet_db, ledger_entry) coll" where
  "mem_ledger = mem_coll db_ledger (\<lambda>l s. s\<lparr>db_ledger := l\<rparr>)"

lemma mem_view [simp]: "c_view mem_accounts s = map_of (db_accounts s)" "c_view mem_ledger s = map_of (db_ledger s)"
  by (simp_all add: mem_accounts_def mem_ledger_def mem_coll_def)

lemma mem_ok: "coll_ok mem_accounts" "coll_ok mem_ledger"
    "quiet mem_accounts (c_view mem_ledger)" "quiet mem_ledger (c_view mem_accounts)"
  unfolding mem_accounts_def mem_ledger_def
  by (rule mem_coll_ok, simp, rule mem_coll_ok, simp, rule mem_coll_quiet, simp add: mem_coll_def,
      rule mem_coll_quiet, simp add: mem_coll_def)

interpretation mem_book: ledger_book "c_view mem_accounts" "c_view mem_ledger"
    "updateBalanceWithLedger atomic True False mem_accounts mem_ledger"
  by (rule runWithSession_book [OF mem_ok atomic_ok])

definition demo_request :: "int \<Rightarrow> wallet_request" where
  "demo_request k = \<lparr>wr_entityModel = ''User'', wr_entityId = ''u1'', wr_amount = dec 3 k,
     wr_type = ''TRANSFER'', wr_transactionId = ''TX-1'', wr_description = [],
     wr_options = default_options\<rparr>"

definition demo_db :: "int \<Rightarrow> wallet_db" where
  "demo_db b = \<lparr>db_accounts = [(''u1'', \<lparr>balance = dec 3 b, acc_tenantId = None\<rparr>)], db_ledger = []\<rparr>"

lemma demo_guarded: "0 < k \<Longrightarrow> k \<le> LIMIT \<Longrightarrow> guarded (demo_request (- k))"
proof -
  assume k: "0 < k" "k \<le> LIMIT"
  then have "n_lt (dec 3 (- k)) (dec 3 0)" by (intro dec_lt [THEN iffD2]) (simp_all add: LIMIT_def)
  then show ?thesis by (simp add: guarded_def demo_request_def default_options_def dec_0)
qed

section \<open>Properties\<close>

text \<open>
  C24: no overdraft.  A guarded debit that succeeds, in the caller's session, in its own transaction
  or in the fallback, leaves at least the minimum balance, in exact amounts; the stored balance is the
  exact difference up to rounding, and it is the balance the caller is told.
\<close>

theorem wallet_debit_floor:
  assumes "coll_ok accounts" "coll_ok ledger" "quiet accounts (c_view ledger)" "quiet ledger (c_view accounts)"
    and t: "txn_ok txn unknown (\<lambda>s. (c_view accounts s, c_view ledger s))"
    and fb: "\<And>e. isMongoTransactionFallbackError e \<Longrightarrow> \<not> unknown e"
    and run: "updateBalanceWithLedger txn requires ext accounts ledger newId r s = (Inr u, s')"
    and g: "guarded r" and k: "wr_amount r = dec 3 (- k)" "0 \<le> k" "k \<le> LIMIT"
    and m: "near p m (minBalance (wr_options r))" "p \<le> 1000" "\<bar>m\<bar> \<le> LIMIT" "\<bar>m + k\<bar> \<le> LIMIT"
    and b: "c_view accounts s (wr_entityId r) = Some acc" "near n b (balance acc)" "n \<le> 2000" "\<bar>b\<bar> \<le> LIMIT"
  shows "m \<le> b - k \<and> (\<exists>acc'. c_view accounts s' (wr_entityId r) = Some acc'
     \<and> milli (balance acc') = b - k \<and> bu_balanceAfter u = balance acc')"
proof -
  have p: "posted newId r (c_view accounts s) (c_view ledger s) (c_view accounts s') (c_view ledger s') acc"
    "u = update_of (build_entry r (inc_balance (wr_amount r) acc))"
    using updateBalance_posted [OF assms(1-5) fb run] b(1) by (auto simp: posted_def)
  have ab: "n_abs (dec 3 (- k)) = dec 3 k"
  proof -
    have kl: "\<bar>k\<bar> \<le> LIMIT" using k by simp
    have "dec 3 (- k) = n_neg (dec 3 k)" by (simp add: dec_neg)
    moreover have "0 \<le> decv 3 k" using dec_le [of 0 k] kl k by (simp add: dec_0 dec_limit LIMIT_def)
    ultimately show ?thesis using dec_limit [OF kl] by simp
  qed
  have "n_le (n_add (minBalance (wr_options r)) (dec 3 k)) (balance acc)"
    using p(1) g by (simp add: posted_def balance_filter_def k ab)
  moreover have "near (Suc (p + 1)) (m + k) (n_add (minBalance (wr_options r)) (dec 3 k))"
    using k m by (intro near_add near_dec) simp_all
  ultimately have le: "m + k \<le> b" using near_le [OF b(2)] m(2) b(3) by simp
  have "near (Suc (n + 1)) (b + - k) (n_add (balance acc) (dec 3 (- k)))"
    using k b m(3) le by (intro near_add near_dec) simp_all
  then have "milli (n_add (balance acc) (dec 3 (- k))) = b - k" using milli_near b(3) by fastforce
  then show ?thesis using p le by (simp add: posted_def k update_of_def build_entry_def)
qed

theorem wallet_debit_floor_witness:
  "0 \<le> (5000 :: int) - 1250 \<and> (\<exists>acc'. c_view mem_accounts
        (snd (updateBalanceWithLedger atomic True False mem_accounts mem_ledger ''L1'' (demo_request (-1250)) (demo_db 5000)))
        ''u1'' = Some acc' \<and> milli (balance acc') = 5000 - 1250)"
proof -
  let ?run = "updateBalanceWithLedger atomic True False mem_accounts mem_ledger ''L1'' (demo_request (-1250)) (demo_db 5000)"
  have "n_le (n_add (Fin 0) (n_abs (dec 3 (-1250)))) (dec 3 5000)" by code_simp
  then have "\<exists>u s'. ?run = (Inr u, s')"
    by (simp add: updateBalanceWithLedger_def run_simps atomic_def runWithSession_def mem_accounts_def mem_ledger_def
        mem_coll_def demo_db_def demo_request_def balance_filter_def default_options_def Let_def)
  then obtain u s' where run: "?run = (Inr u, s')" by blast
  have "m \<le> b - k \<and> (\<exists>acc'. c_view mem_accounts s' (wr_entityId (demo_request (-1250))) = Some acc'
     \<and> milli (balance acc') = b - k \<and> bu_balanceAfter u = balance acc')"
    if "m = 0" "b = 5000" "k = 1250" for m b k
    using that demo_guarded [of 1250]
    by (intro wallet_debit_floor [OF mem_ok atomic_ok [where unknown = "\<lambda>_. False"] _ run, of k 1 m
          "\<lparr>balance = dec 3 5000, acc_tenantId = None\<rparr>" 1 b])
      (simp_all add: demo_request_def demo_db_def near_dec default_options_def LIMIT_def dec_0 [of 3, symmetric] del: One_nat_def)
  from this [of 0 5000 1250] run show ?thesis by (auto simp: demo_request_def)
qed

text \<open>
  C26: a failed update leaves no trace.  When transactions are required and the caller has no session
  of its own, an update that throws, for any failure of the database at any point, leaves every
  balance and the ledger as they were, unless the error says that the outcome of the commit is
  unknown; an error that says that there are no transactions does not.
\<close>

theorem wallet_failure_atomic:
  assumes t: "txn_ok txn unknown (\<lambda>s. (c_view accounts s, c_view ledger s))"
    and fb: "\<And>e. isMongoTransactionFallbackError e \<Longrightarrow> \<not> unknown e"
    and run: "updateBalanceWithLedger txn True False accounts ledger newId r s = (Inl e, s')"
    and e: "\<not> unknown e"
  shows "c_view accounts s' = c_view accounts s \<and> c_view ledger s' = c_view ledger s"
proof -
  obtain res where tx: "txn (runWithSession accounts ledger newId r) s = (res, s')"
    and r: "\<And>u. (Inl e :: error + balance_update) = Inr u \<longleftrightarrow> res = Inr u"
    "\<And>e'. res = Inl e' \<Longrightarrow> (Inl e :: error + balance_update) = Inl (if isMongoTransactionFallbackError e' then financialTransactionsUnavailableError else e')"
    using updateBalance_required [OF run] by metis
  obtain e' where e': "res = Inl e'" using r(1) by (cases res) auto
  then have "\<not> unknown e'" using r(2) [of e'] fb e by (auto split: if_splits)
  then show ?thesis using txn_abort [OF t tx [unfolded e']] by simp
qed

theorem wallet_failure_atomic_witness:
  "let s' = snd (updateBalanceWithLedger atomic True False mem_accounts mem_ledger ''L1''
                   (demo_request (-7000)) (demo_db 5000))
   in c_view mem_accounts s' = c_view mem_accounts (demo_db 5000)
      \<and> c_view mem_ledger s' = c_view mem_ledger (demo_db 5000)"
proof -
  let ?run = "updateBalanceWithLedger atomic True False mem_accounts mem_ledger ''L1'' (demo_request (-7000)) (demo_db 5000)"
  have "\<not> n_le (n_add (Fin 0) (n_abs (dec 3 (-7000)))) (dec 3 5000)" by code_simp
  then have "\<exists>e s'. ?run = (Inl e, s')"
    using demo_guarded [of 7000]
    by (simp add: updateBalanceWithLedger_def run_simps atomic_def runWithSession_def mem_accounts_def mem_ledger_def
        mem_coll_def demo_db_def demo_request_def balance_filter_def default_options_def Let_def LIMIT_def)
  then obtain e s' where run: "?run = (Inl e, s')" by blast
  show ?thesis
    using wallet_failure_atomic [OF atomic_ok [where unknown = "\<lambda>_. False"] _ run] run by (simp add: Let_def)
qed

text \<open>
  C25: the ledger explains the balances when transactions are required and every update has a
  transaction of its own.  Starting from books in which every balance is the sum of the account's
  entries, after any sequence of updates of three-decimal amounts of at most 100000, of which any may
  fail at any point, every balance is still the exact sum of the amounts of the account's ledger
  entries, up to the rounding of the additions.  The account has at most 2000 entries in all and its
  sum stays below the bound of the model.
\<close>

theorem ledger_explains_balances:
  assumes "coll_ok accounts" "coll_ok ledger" "quiet accounts (c_view ledger)" "quiet ledger (c_view accounts)"
    and "txn_ok txn unknown (\<lambda>s. (c_view accounts s, c_view ledger s))"
    and "sound_book (c_view accounts s) (c_view ledger s)" "room (c_view ledger s) (length rs)"
    and "\<forall>(n, r) \<in> set rs. small_request r"
    and acc: "c_view accounts (post_all (updateBalanceWithLedger txn True False accounts ledger) rs s) i = Some acc"
  shows "milli (balance acc)
    = ledger_sum (c_view ledger (post_all (updateBalanceWithLedger txn True False accounts ledger) rs s)) i"
proof -
  let ?fin = "post_all (updateBalanceWithLedger txn True False accounts ledger) rs s"
  have "sound_book (c_view accounts ?fin) (c_view ledger ?fin)" "room (c_view ledger ?fin) 0"
    using ledger_book.post_all_sound [OF runWithSession_book [OF assms(1-5)] assms(6-8)] by simp_all
  then have near: "near (2 * card (entries_of (c_view ledger ?fin) i)) (ledger_sum (c_view ledger ?fin) i) (balance acc)"
    and c: "card (entries_of (c_view ledger ?fin) i) \<le> 2000"
    using acc by (simp_all add: sound_book_def room_def)
  show ?thesis by (rule milli_near [OF near]) (use c in linarith)
qed

theorem ledger_explains_balances_witness:
  "\<exists>acc. c_view mem_accounts (post_all (updateBalanceWithLedger atomic True False mem_accounts mem_ledger)
        [(''L1'', demo_request 5000), (''L2'', demo_request (-1250))] (demo_db 0)) ''u1'' = Some acc
    \<and> milli (balance acc)
      = ledger_sum (c_view mem_ledger (post_all (updateBalanceWithLedger atomic True False mem_accounts mem_ledger)
          [(''L1'', demo_request 5000), (''L2'', demo_request (-1250))] (demo_db 0))) ''u1''"
proof -
  let ?rs = "[(''L1'', demo_request 5000), (''L2'', demo_request (-1250))]"
  have "c_view mem_accounts (demo_db 0) ''u1'' \<noteq> None" by (simp add: demo_db_def)
  from mem_book.post_all_keeps_accounts [OF this, of ?rs]
  obtain acc where a: "c_view mem_accounts (post_all (updateBalanceWithLedger atomic True False mem_accounts mem_ledger) ?rs (demo_db 0)) ''u1'' = Some acc"
    by blast
  have sound: "sound_book (c_view mem_accounts (demo_db 0)) (c_view mem_ledger (demo_db 0))"
    by (auto simp: sound_book_def demo_db_def ledger_sum_def entries_of_def near_def dec_0)
  have room: "room (c_view mem_ledger (demo_db 0)) (length ?rs)"
    by (simp add: room_def demo_db_def ledger_sum_def entries_of_def LIMIT_def)
  have small: "\<forall>(n, r) \<in> set ?rs. small_request r"
    by (auto simp: small_request_def demo_request_def intro: exI [of _ 5000] exI [of _ "-1250"])
  show ?thesis
    using ledger_explains_balances [OF mem_ok atomic_ok [where unknown = "\<lambda>_. False"] sound room small a] a by blast
qed

text \<open>
  compensation.  In the fallback without transactions, if the ledger entry cannot be written the
  debit is taken back: unless the database also refuses the compensating update, every balance
  keeps its exact amount and the ledger is unchanged.
\<close>

theorem wallet_fallback_compensates:
  assumes ok: "coll_ok accounts" "coll_ok ledger"
    and q: "quiet accounts (c_view ledger)" "quiet ledger (c_view accounts)"
    and nofail: "\<And>i p f s e s'. c_update accounts i p f s \<noteq> (Inl e, s')"
    and run: "executeFallback accounts ledger newId r s = (Inl e, s')"
    and k: "wr_amount r = dec 3 k" "\<bar>k\<bar> \<le> LIMIT"
    and b: "c_view accounts s i = Some acc" "near n b (balance acc)" "n \<le> 2000" "\<bar>b\<bar> \<le> LIMIT" "\<bar>b + k\<bar> \<le> LIMIT"
  shows "c_view ledger s' = c_view ledger s
    \<and> (\<exists>acc'. c_view accounts s' i = Some acc' \<and> milli (balance acc') = b)"
proof -
  have same: ?thesis if "c_view accounts s' = c_view accounts s" "c_view ledger s' = c_view ledger s"
    using that b milli_near [OF b(2)] by simp
  have total: "\<exists>found s1. c_update accounts i p f s = (Inr found, s1)" for i p f s
    using nofail [of i p f s] by (cases "c_update accounts i p f s"; cases "fst (c_update accounts i p f s)") auto
  obtain found s1 where 1: "c_update accounts (wr_entityId r) (balance_filter r) (inc_balance (wr_amount r)) s = (Inr found, s1)"
    using total by blast
  show ?thesis
  proof (cases found)
    case None
    then have "s' = s1" using run 1 by (simp add: executeFallback_def run_simps)
    then show ?thesis using c_update_None [OF ok(1) 1 [unfolded None]] quietD(2) [OF q(1) 1] same by simp
  next
    case (Some a1)
    obtain a0 where a0: "c_view accounts s (wr_entityId r) = Some a0"
      "c_view accounts s1 = (c_view accounts s)(wr_entityId r \<mapsto> inc_balance (wr_amount r) a0)"
      using c_update_Some [OF ok(1) 1 [unfolded Some]] by metis
    obtain ins s2 where 2: "c_insert ledger newId (build_entry r a1) s1 = (ins, s2)" by fastforce
    obtain err where err: "ins = Inl err" using run 1 Some 2
      by (cases ins) (simp_all add: executeFallback_def run_simps Let_def)
    obtain comp s3 where 3: "c_update accounts (wr_entityId r) (\<lambda>_. True) (inc_balance (n_neg (wr_amount r))) s2 = (Inr comp, s3)"
      using total by blast
    have s3: "s' = s3" using run 1 Some 2 err 3 by (simp add: executeFallback_def run_simps Let_def)
    have v2: "c_view accounts s2 = c_view accounts s1" using quietD(3) [OF q(2) 2] .
    have a1: "c_view accounts s2 (wr_entityId r) = Some (inc_balance (wr_amount r) a0)" using v2 a0(2) by simp
    have a3: "c_view accounts s' = (c_view accounts s1)(wr_entityId r \<mapsto>
        inc_balance (n_neg (wr_amount r)) (inc_balance (wr_amount r) a0))"
    proof (cases comp)
      case None
      from c_update_None(2) [OF ok(1) 3 [unfolded None] a1] show ?thesis by simp
    next
      case (Some a2)
      from c_update_Some [OF ok(1) 3 [unfolded Some]] show ?thesis using a1 v2 s3 by (metis option.inject)
    qed
    have l: "c_view ledger s' = c_view ledger s"
      using quietD(2) [OF q(1) 1] c_insert_fail [OF ok(2) 2 [unfolded err]] quietD(2) [OF q(1) 3] s3 by simp
    show ?thesis
    proof (cases "i = wr_entityId r")
      case True
      then have "near n b (balance a0)" using a0 b by simp
      then have "near (Suc (n + 1)) (b + k) (n_add (balance a0) (dec 3 k))"
        by (rule near_add [OF _ near_dec [OF k(2)] b(5)]) (use b(3) in simp)
      then have "near (Suc (Suc (n + 1) + 1)) (b + k + - k) (n_add (n_add (balance a0) (dec 3 k)) (dec 3 (- k)))"
        by (rule near_add [OF _ near_dec]) (use b k in simp_all)
      then have "milli (n_add (n_add (balance a0) (dec 3 k)) (dec 3 (- k))) = b + k + - k"
        by (rule milli_near) (use b in simp)
      then show ?thesis using a3 True l k by (simp add: dec_neg)
    next
      case False
      then show ?thesis using a0 a3 b l milli_near [OF b(2)] by simp
    qed
  qed
qed

theorem wallet_fallback_compensates_witness:
  "let s' = snd (executeFallback mem_accounts (failing_insert (plain_error ''disk'') mem_ledger) ''L1''
                   (demo_request 200) (demo_db 100))
   in c_view mem_ledger s' = c_view mem_ledger (demo_db 100)
      \<and> (\<exists>acc'. c_view mem_accounts s' ''u1'' = Some acc' \<and> milli (balance acc') = 100)"
proof -
  let ?l = "failing_insert (plain_error ''disk'') mem_ledger"
  let ?run = "executeFallback mem_accounts ?l ''L1'' (demo_request 200) (demo_db 100)"
  have "\<not> n_lt (dec 3 200) (Fin 0)" by code_simp
  then have "\<exists>e s'. ?run = (Inl e, s')"
    by (simp add: executeFallback_def run_simps mem_accounts_def mem_coll_def
        demo_db_def demo_request_def balance_filter_def guarded_def Let_def)
  then obtain e s' where run: "?run = (Inl e, s')" by blast
  have nofail: "c_update mem_accounts i p f s \<noteq> (Inl e, s')" for i p f s e s'
    by (simp add: mem_accounts_def mem_coll_def split: option.split)
  have l: "coll_ok ?l" "quiet mem_accounts (c_view ?l)" "quiet ?l (c_view mem_accounts)"
    using mem_ok failing_insert_ok failing_insert_quiet by simp_all
  show ?thesis
    using wallet_fallback_compensates [OF mem_ok(1) l nofail run, where i = "''u1''" and k = 200 and b = 100
        and n = 1 and acc = "\<lparr>balance = dec 3 100, acc_tenantId = None\<rparr>"] run
    by (simp add: demo_request_def demo_db_def near_dec LIMIT_def del: One_nat_def)
qed

end
