(* ===== verification/Mongo_Session.thy ===== *)
theory Mongo_Session
  imports Wallet
begin

text \<open>
  Work in an optional database transaction: \<open>runWithOptionalTransaction\<close> of
  \<open>services/balanceAdjustmentService.js\<close> and \<open>withOptionalMongoTransaction\<close> of
  \<open>services/adminFinancialMutationService.js\<close>, with the contract the financial services rely on.
\<close>

section \<open>Running in an optional transaction\<close>

text \<open>
  \<open>work\<close> runs in a transaction (its argument says whether there is a session), and without one on a
  server that has no transactions, unless the deployment requires them.  \<open>notStarted\<close> tells the
  errors of starting the session from those of the work.
\<close>

definition runWithOptionalTransaction ::
    "(('s, 'a) run \<Rightarrow> ('s, 'a) run) \<Rightarrow> (error \<Rightarrow> bool) \<Rightarrow> bool \<Rightarrow> (bool \<Rightarrow> ('s, 'a) run) \<Rightarrow> ('s, 'a) run" where
  "runWithOptionalTransaction txn notStarted requires work =
     catch (txn (work True))
       (\<lambda>err. if isMongoTransactionFallbackError err
              then if requires then throw financialTransactionsUnavailableError else work False
              else if notStarted err \<and> requires then throw financialTransactionsUnavailableError
              else throw err)"

definition withOptionalMongoTransaction ::
    "(('s, 'a) run \<Rightarrow> ('s, 'a) run) \<Rightarrow> (error \<Rightarrow> bool) \<Rightarrow> bool \<Rightarrow> (bool \<Rightarrow> ('s, 'a) run) \<Rightarrow> ('s, 'a) run" where
  "withOptionalMongoTransaction txn notStarted requires work =
     catch (txn (work True))
       (\<lambda>err. if isMongoTransactionFallbackError err \<and> \<not> requires then work False
              else if isMongoTransactionFallbackError err \<or> notStarted err \<and> requires
              then throw financialTransactionsUnavailableError
              else throw err)"

text \<open>
  What the services rely on.  A result comes from one complete run of the work on a state that reads
  as the initial one, and when transactions are required an error leaves no trace, unless the outcome
  of the commit is unknown.
\<close>

locale optional_transaction =
  fixes txn :: "('s, 'a) run \<Rightarrow> ('s, 'a) run"
    and unknown :: "error \<Rightarrow> bool"
    and v :: "'s \<Rightarrow> 'v"
    and requires :: bool
    and run_work :: "(bool \<Rightarrow> ('s, 'a) run) \<Rightarrow> ('s, 'a) run"
  assumes commit: "run_work work s = (Inr a, s') \<Longrightarrow>
      \<exists>session s0 s1. v s0 = v s \<and> work session s0 = (Inr a, s1) \<and> v s' = v s1 \<and> (requires \<longrightarrow> session)"
    and abort: "run_work work s = (Inl e, s') \<Longrightarrow> requires \<Longrightarrow> \<not> unknown e \<Longrightarrow> v s' = v s"
begin

text \<open>A partial correctness statement about the work is one about its run.\<close>

lemma commit_spec:
  assumes "run_work work s = (Inr a, s')"
    and "\<And>session t t'. v t = v s \<Longrightarrow> requires \<longrightarrow> session \<Longrightarrow> work session t = (Inr a, t') \<Longrightarrow> Q (v t')"
  shows "Q (v s')"
  using commit [OF assms(1)] assms(2) by metis

lemma abort_or:
  assumes "run_work work s = (r, s')" "requires" "\<And>e. r = Inl e \<Longrightarrow> \<not> unknown e"
  obtains "v s' = v s" | a s0 s1 where "r = Inr a" "v s0 = v s" "work True s0 = (Inr a, s1)" "v s' = v s1"
proof (cases r)
  case (Inl e)
  then show ?thesis using that(1) abort [OF assms(1) [unfolded Inl] assms(2)] assms(3) by blast
next
  case (Inr a)
  obtain session s0 s1 where "v s0 = v s" "work session s0 = (Inr a, s1)" "v s' = v s1" "session"
    using commit [OF assms(1) [unfolded Inr]] assms(2) by blast
  then show ?thesis using that(2) Inr by simp
qed

end

locale txn_driver =
  fixes txn :: "('s, 'a) run \<Rightarrow> ('s, 'a) run"
    and unknown notStarted :: "error \<Rightarrow> bool"
    and v :: "'s \<Rightarrow> 'v"
  assumes txn: "txn_ok txn unknown v"
    and known: "isMongoTransactionFallbackError e \<or> notStarted e \<Longrightarrow> \<not> unknown e"
begin

lemma result:
  assumes "catch (txn (work True)) h s = (Inr a, s')"
    and h: "\<And>e t. h e t = (Inr a, s') \<Longrightarrow> \<not> requires \<and> isMongoTransactionFallbackError e \<and> work False t = (Inr a, s')"
  shows "\<exists>session s0 s1. v s0 = v s \<and> work session s0 = (Inr a, s1) \<and> v s' = v s1 \<and> (requires \<longrightarrow> session)"
proof -
  obtain r s1 where t: "txn (work True) s = (r, s1)" by fastforce
  show ?thesis
  proof (cases r)
    case (Inl e)
    then have "h e s1 = (Inr a, s')" using assms(1) t by (simp add: catch_run)
    then have e: "\<not> requires" "isMongoTransactionFallbackError e" "work False s1 = (Inr a, s')" using h by blast+
    then show ?thesis using txn_abort [OF txn t [unfolded Inl]] known by blast
  next
    case (Inr b)
    then have "b = a" "s1 = s'" using assms(1) t by (simp_all add: catch_run)
    then show ?thesis using txn_commit [OF txn t [unfolded Inr]] by metis
  qed
qed

lemma no_trace:
  assumes "catch (txn (work True)) h s = (Inl e, s')" "\<not> unknown e"
    and h: "\<And>err t r. h err t = r \<Longrightarrow> snd r = t \<and> (fst r = Inl err \<or> isMongoTransactionFallbackError err \<or> notStarted err)"
  shows "v s' = v s"
proof -
  obtain r s1 where t: "txn (work True) s = (r, s1)" by fastforce
  have "\<exists>err. r = Inl err" using assms(1) t by (cases r) (simp_all add: catch_run)
  then obtain err where r: "r = Inl err" by blast
  then have "h err s1 = (Inl e, s')" using assms(1) t by (simp add: catch_run)
  with h [OF this] have "s1 = s'" "\<not> unknown err" using assms(2) known by auto
  then show ?thesis using txn_abort [OF txn t [unfolded r]] by simp
qed

end

sublocale txn_driver \<subseteq> adjustment: optional_transaction txn unknown v requires
    "runWithOptionalTransaction txn notStarted requires" for requires
proof
  fix work :: "bool \<Rightarrow> ('s, 'a) run" and s a s'
  assume "runWithOptionalTransaction txn notStarted requires work s = (Inr a, s')"
  then show "\<exists>session s0 s1. v s0 = v s \<and> work session s0 = (Inr a, s1) \<and> v s' = v s1 \<and> (requires \<longrightarrow> session)"
    unfolding runWithOptionalTransaction_def by (rule result) (auto split: if_splits)
next
  fix work :: "bool \<Rightarrow> ('s, 'a) run" and s e s'
  assume "runWithOptionalTransaction txn notStarted requires work s = (Inl e, s')" "requires" "\<not> unknown e"
  then show "v s' = v s"
    unfolding runWithOptionalTransaction_def by (elim no_trace) (auto split: if_splits)
qed

sublocale txn_driver \<subseteq> admin: optional_transaction txn unknown v requires
    "withOptionalMongoTransaction txn notStarted requires" for requires
proof
  fix work :: "bool \<Rightarrow> ('s, 'a) run" and s a s'
  assume "withOptionalMongoTransaction txn notStarted requires work s = (Inr a, s')"
  then show "\<exists>session s0 s1. v s0 = v s \<and> work session s0 = (Inr a, s1) \<and> v s' = v s1 \<and> (requires \<longrightarrow> session)"
    unfolding withOptionalMongoTransaction_def by (rule result) (auto split: if_splits)
next
  fix work :: "bool \<Rightarrow> ('s, 'a) run" and s e s'
  assume "withOptionalMongoTransaction txn notStarted requires work s = (Inl e, s')" "requires" "\<not> unknown e"
  then show "v s' = v s"
    unfolding withOptionalMongoTransaction_def by (elim no_trace) (auto split: if_splits)
qed

context txn_driver begin

lemmas adjustment_commit = adjustment.commit
lemmas adjustment_abort = adjustment.abort
lemmas admin_commit = admin.commit
lemmas admin_abort = admin.abort

end

interpretation mem_txn: txn_driver atomic "\<lambda>_. False" "\<lambda>_. False" "\<lambda>s. s"
  by unfold_locales (simp_all add: atomic_ok)

section \<open>The collections of a money movement\<close>

text \<open>Account collections by model name, a ledger and transactions are independent of one another.\<close>

definition money_store ::
    "(string \<Rightarrow> ('s, account) coll) \<Rightarrow> ('s, ledger_entry) coll \<Rightarrow> ('s, 't) coll \<Rightarrow> bool" where
  "money_store accounts ledger txs \<longleftrightarrow> coll_ok ledger \<and> coll_ok txs
     \<and> quiet ledger (c_view txs) \<and> quiet txs (c_view ledger)
     \<and> (\<forall>m. coll_ok (accounts m) \<and> quiet (accounts m) (c_view ledger) \<and> quiet (accounts m) (c_view txs)
            \<and> quiet ledger (c_view (accounts m)) \<and> quiet txs (c_view (accounts m))
            \<and> (\<forall>m'. m' \<noteq> m \<longrightarrow> quiet (accounts m) (c_view (accounts m'))))"

definition money_view ::
    "(string \<Rightarrow> ('s, account) coll) \<Rightarrow> ('s, ledger_entry) coll \<Rightarrow> ('s, 't) coll \<Rightarrow> 's
      \<Rightarrow> (string \<Rightarrow> string \<Rightarrow> account option) \<times> (string \<Rightarrow> ledger_entry option) \<times> (string \<Rightarrow> 't option)" where
  "money_view accounts ledger txs s = (\<lambda>m. c_view (accounts m) s, c_view ledger s, c_view txs s)"

lemma money_storeD:
  assumes "money_store accounts ledger txs"
  shows "coll_ok ledger" "coll_ok txs" "coll_ok (accounts m)" "quiet ledger (c_view txs)" "quiet txs (c_view ledger)"
    "quiet (accounts m) (c_view ledger)" "quiet (accounts m) (c_view txs)" "quiet ledger (c_view (accounts m))"
    "quiet txs (c_view (accounts m))" "m' \<noteq> m \<Longrightarrow> quiet (accounts m) (c_view (accounts m'))"
  using assms unfolding money_store_def by blast+

lemma view_eqD:
  assumes "money_view accounts ledger txs s = money_view accounts ledger txs t"
  shows "c_view (accounts m) s = c_view (accounts m) t" "c_view ledger s = c_view ledger t" "c_view txs s = c_view txs t"
  using assms by (simp_all add: money_view_def fun_eq_iff)

lemma view_eqI:
  "(\<And>m. c_view (accounts m) s = c_view (accounts m) t) \<Longrightarrow> c_view ledger s = c_view ledger t
    \<Longrightarrow> c_view txs s = c_view txs t \<Longrightarrow> money_view accounts ledger txs s = money_view accounts ledger txs t"
  by (simp add: money_view_def)

end
