(* ===== verification/Js_Text.thy ===== *)
theory Js_Text
  imports Prelude
begin

text \<open>
  String operations the code uses beyond those of \<open>Js_Value\<close>: slices, searches, character classes, splitting
  on white space and replacement.  Strings are UTF-8, so the character classes are about ASCII.
\<close>

section \<open>Slices\<close>

text \<open>
  \<open>slice(0, n)\<close> counts UTF-16 code units: one for a character of up to three bytes, two for one of
  four bytes.  Where the code would cut between the two units of a character, the model drops it.
\<close>

definition units :: "char \<Rightarrow> nat" where
  "units c = (let b = (of_char c :: nat) in if b < 128 then 1 else if b < 192 then 0 else if b < 240 then 1 else 2)"

definition js_length :: "string \<Rightarrow> nat" where
  "js_length s = sum_list (map units s)"

fun slice_units :: "nat \<Rightarrow> string \<Rightarrow> string" where
  "slice_units n [] = []"
| "slice_units n (c # cs) = (if units c \<le> n then c # slice_units (n - units c) cs else [])"

section \<open>Searching\<close>

text \<open>The first suffix of a string on which a matcher succeeds.\<close>

fun search :: "(string \<Rightarrow> 'a option) \<Rightarrow> string \<Rightarrow> 'a option" where
  "search m [] = m []"
| "search m (c # cs) = (case m (c # cs) of Some x \<Rightarrow> Some x | None \<Rightarrow> search m cs)"

lemma search_skip:
  assumes "\<And>c t. c \<in> set p \<Longrightarrow> m (c # t) = None"
  shows "search m (p @ s) = search m s"
  using assms by (induction p) auto

lemma search_hit: "m s = Some x \<Longrightarrow> search m s = Some x"
  by (cases s) simp_all

section \<open>Character classes\<close>

definition is_letter :: "char \<Rightarrow> bool" where
  "is_letter c \<longleftrightarrow> is_upper c \<or> is_lower c"

definition is_hex :: "char \<Rightarrow> bool" where
  "is_hex c \<longleftrightarrow> is_digit c \<or> (let b = (of_char (lower_char c) :: int) in 97 \<le> b \<and> b \<le> 102)"

definition is_upper_hex :: "char \<Rightarrow> bool" where
  "is_upper_hex c \<longleftrightarrow> is_digit c \<or> (let b = (of_char c :: int) in 65 \<le> b \<and> b \<le> 70)"

text \<open>\<open>^\d{lo,hi}$\<close> and the like: every character in a class, and a length between two bounds.\<close>

definition all_in :: "(char \<Rightarrow> bool) \<Rightarrow> nat \<Rightarrow> nat \<Rightarrow> string \<Rightarrow> bool" where
  "all_in cls lo hi s \<longleftrightarrow> lo \<le> length s \<and> length s \<le> hi \<and> list_all cls s"

section \<open>Splitting\<close>

text \<open>\<open>s.split(/\s+/).filter(Boolean)\<close>: the maximal runs without white space.\<close>

fun split_words :: "nat \<Rightarrow> string \<Rightarrow> string \<Rightarrow> string list" where
  "split_words 0 w s = []"
| "split_words (Suc n) w [] = (if w = [] then [] else [rev w])"
| "split_words (Suc n) w (c # cs) = (case find (\<lambda>sp. has_prefix sp (c # cs)) js_spaces of
     Some sp \<Rightarrow> (if w = [] then [] else [rev w]) @ split_words n [] (drop (length sp) (c # cs))
   | None \<Rightarrow> split_words n (c # w) cs)"

definition words_of :: "string \<Rightarrow> string list" where
  "words_of s = split_words (Suc (length s)) [] s"

definition remove_spaces :: "string \<Rightarrow> string" where
  "remove_spaces s = concat (words_of s)"

text \<open>\<open>s.replace(/\s+/g, ' ')\<close> on a trimmed string.\<close>

definition collapse_spaces :: "string \<Rightarrow> string" where
  "collapse_spaces s = join_with '' '' (words_of s)"

text \<open>\<open>s.split(c)\<close> for one character.\<close>

fun split_on :: "char \<Rightarrow> string \<Rightarrow> string list" where
  "split_on c [] = [[]]"
| "split_on c (x # xs) = (if x = c then [] # split_on c xs
     else case split_on c xs of [] \<Rightarrow> [[x]] | w # ws \<Rightarrow> (x # w) # ws)"

lemma split_on_not_Nil [simp]: "split_on c s \<noteq> []"
  by (induction s) (auto split: list.splits)

fun replace_all :: "(string \<times> string) list \<Rightarrow> nat \<Rightarrow> string \<Rightarrow> string" where
  "replace_all rs 0 s = []"
| "replace_all rs (Suc n) [] = []"
| "replace_all rs (Suc n) (c # cs) = (case find (\<lambda>(a, _). has_prefix a (c # cs)) rs of
     Some (a, b) \<Rightarrow> b @ replace_all rs n (drop (length a) (c # cs))
   | None \<Rightarrow> c # replace_all rs n cs)"

text \<open>\<open>padStart(n, '0')\<close>.\<close>

definition pad_zeros :: "nat \<Rightarrow> string \<Rightarrow> string" where
  "pad_zeros n s = replicate (n - length s) (CHR ''0'') @ s"

text \<open>\<open>toFixed(d)\<close> as a string.\<close>

definition fixed_str :: "nat \<Rightarrow> jsnum \<Rightarrow> string" where
  "fixed_str d n = (case n of
     Fin x \<Rightarrow> if 10 ^ 21 \<le> \<bar>x\<bar> then num_str n
       else let k = fixed_digits d x in (if x < 0 then ''-'' else []) @ int_str (k div 10 ^ d)
              @ (if d = 0 then [] else ''.'' @ pad_zeros d (int_str (k mod 10 ^ d)))
   | _ \<Rightarrow> num_str n)"

section \<open>Strings that nothing changes\<close>

lemma is_graphI: "is_digit c \<Longrightarrow> is_graph c" "is_letter c \<Longrightarrow> is_graph c"
  by (auto simp: is_graph_def is_digit_def is_letter_def is_upper_def is_lower_def Let_def)

lemma replace_all_id:
  assumes "\<And>c a b. c \<in> set s \<Longrightarrow> (a, b) \<in> set rs \<Longrightarrow> a \<noteq> [] \<and> hd a \<noteq> c"
  shows "replace_all rs (length s) s = s"
  using assms
proof (induction s)
  case (Cons c cs)
  have "find (\<lambda>(a, _). has_prefix a (c # cs)) rs = None"
    unfolding find_None_iff
  proof
    assume "\<exists>x. x \<in> set rs \<and> (case x of (a, _) \<Rightarrow> has_prefix a (c # cs))"
    then obtain a b where "(a, b) \<in> set rs" "has_prefix a (c # cs)" by auto
    then show False using Cons.prems [of c a b] by (cases a) auto
  qed
  moreover have "replace_all rs (length cs) cs = cs"
    using Cons.prems by (intro Cons.IH) (metis list.set_intros(2))
  ultimately show ?case by simp
qed simp

end
