(* ===== verification/Balance_Adjustment.thy ===== *)
theory Balance_Adjustment
  imports Mongo_Session Js_Text
begin

text \<open>
  Voiding a deposit or deduction: \<open>services/balanceAdjustmentService.js\<close>.  \<open>accounts\<close> are the account
  collections by model name, \<open>ledger\<close> and \<open>txs\<close> the ledger and transaction collections; clock and random
  numbers are fields of the request.  \<open>findOne\<close> with a sort order returns one of the matching
  documents here, whichever it is.
\<close>

section \<open>Transactions and requests\<close>

record adjustment_tx =
  ax_customId :: string
  ax_status :: string
  ax_entityModel :: string
  ax_entityId :: string
  ax_delta :: "jsnum option"
  ax_reversible :: bool
  ax_originalStatus :: string
  ax_voidToken :: "string option"
  ax_voidStartedAt :: "int option"
  ax_voidedAt :: "int option"
  ax_voidedBy :: string
  ax_voidReason :: string
  ax_cancellationNumber :: string
  ax_cancellationReason :: string
  ax_cancelledBy :: string
  ax_cancelledByAdminId :: string
  ax_cancelledAt :: "int option"

text \<open>
  The arguments of a call and what it draws from the clock and the random generator: the token, the
  time it starts and the time it ends, the date stamp and the random digits of the void number, and
  the id of the ledger entry it may write.
\<close>

record void_request =
  vr_transactionId :: string
  vr_performedBy :: jsval
  vr_performedById :: jsval
  vr_reason :: jsval
  vr_token :: string
  vr_now :: int
  vr_voidedAt :: int
  vr_stamp :: string
  vr_random :: string
  vr_entryId :: string

record void_result =
  vd_transaction :: adjustment_tx
  vd_account :: account
  vd_entityModel :: string
  vd_entityId :: string
  vd_reversalDelta :: jsnum
  vd_balanceBefore :: jsnum
  vd_balanceAfter :: jsnum
  vd_voidNumber :: string

definition REVERSIBLE_MODELS :: "string list" where
  "REVERSIBLE_MODELS = [''User'', ''ClientCompany'', ''SubAccount'']"

definition createVoidNumber :: "string \<Rightarrow> string \<Rightarrow> string" where
  "createVoidNumber stamp hex = ''VOID-'' @ stamp @ ''-'' @ toUpperCase hex"

text \<open>\<open>match(/VOID-\d{6}-[A-F0-9]{6}/)\<close>.\<close>

definition match_void :: "string \<Rightarrow> string option" where
  "match_void s = (if has_prefix ''VOID-'' s \<and> all_in is_digit 6 6 (take 6 (drop 5 s))
       \<and> has_prefix ''-'' (drop 11 s) \<and> all_in is_upper_hex 6 6 (take 6 (drop 12 s))
     then Some (take 18 s) else None)"

definition original_label :: "string \<Rightarrow> string" where
  "original_label status = (if status = ''deposit''
     then utf8 [216, 167, 217, 132, 216, 165, 217, 138, 216, 175, 216, 167, 216, 185]
     else utf8 [216, 167, 217, 132, 216, 174, 216, 181, 217, 133])"

definition reversal_description :: "adjustment_tx \<Rightarrow> string \<Rightarrow> string" where
  "reversal_description tx voidNumber =
     utf8 [216, 165, 217, 132, 216, 186, 216, 167, 216, 161, 32] @ original_label (ax_status tx) @ '' ''
     @ ax_customId tx
     @ utf8 [32, 45, 32, 216, 177, 217, 130, 217, 133, 32, 216, 167, 217, 132, 216, 165, 217, 132, 216, 186, 216, 167, 216, 161, 32]
     @ voidNumber"

section \<open>Voiding an adjustment\<close>

definition original_filter :: "adjustment_tx \<Rightarrow> ledger_entry \<Rightarrow> bool" where
  "original_filter tx e \<longleftrightarrow> le_transactionId e = ax_customId tx
     \<and> (if ax_status tx = ''deposit'' then le_type e = ''DEPOSIT'' \<and> n_lt (Fin 0) (le_amount e)
        else le_type e = ''DEDUCTION'' \<and> n_lt (le_amount e) (Fin 0))
     \<and> (if ax_entityModel tx \<noteq> [] then le_entityModel e = ax_entityModel tx
        else le_entityModel e \<in> set REVERSIBLE_MODELS)
     \<and> (ax_entityId tx \<noteq> [] \<longrightarrow> le_entityId e = ax_entityId tx)"

definition findOriginalLedger :: "('s, ledger_entry) coll \<Rightarrow> adjustment_tx \<Rightarrow> ('s, ledger_entry option) run" where
  "findOriginalLedger ledger tx = c_findOne ledger (original_filter tx)"

text \<open>A claim on the transaction expires after two minutes.\<close>

definition claim_filter :: "int \<Rightarrow> adjustment_tx \<Rightarrow> bool" where
  "claim_filter now tx \<longleftrightarrow> ax_status tx \<in> {''deposit'', ''deduction''} \<and> ax_voidedAt tx = None
     \<and> (ax_voidToken tx = None \<or> ax_voidToken tx = Some [] \<or> ax_voidStartedAt tx = None
        \<or> the (ax_voidStartedAt tx) < now - 2 * 60 * 1000)"

definition claim_void :: "void_request \<Rightarrow> adjustment_tx \<Rightarrow> adjustment_tx" where
  "claim_void rq tx = tx\<lparr>ax_voidToken := Some (vr_token rq), ax_voidStartedAt := Some (vr_now rq)\<rparr>"

definition release_void :: "adjustment_tx \<Rightarrow> adjustment_tx" where
  "release_void tx = tx\<lparr>ax_voidToken := None, ax_voidStartedAt := None\<rparr>"

definition has_token :: "void_request \<Rightarrow> adjustment_tx \<Rightarrow> bool" where
  "has_token rq tx \<longleftrightarrow> ax_voidToken tx = Some (vr_token rq)"

definition not_claimed :: "adjustment_tx option \<Rightarrow> error" where
  "not_claimed existing = plain_error (case existing of
       None \<Rightarrow> ''ADJUSTMENT_NOT_FOUND''
     | Some tx \<Rightarrow> if ax_voidedAt tx \<noteq> None \<or> ax_status tx = ''cancelled_by_admin''
                  then ''ADJUSTMENT_ALREADY_VOIDED'' else ''ADJUSTMENT_NOT_REVERSIBLE'')"

definition reversal_filter :: "adjustment_tx \<Rightarrow> ledger_entry \<Rightarrow> ledger_entry \<Rightarrow> bool" where
  "reversal_filter tx orig e \<longleftrightarrow> le_transactionId e = ax_customId tx \<and> le_type e = ''REVERSAL''
     \<and> le_entityModel e = le_entityModel orig \<and> le_entityId e = le_entityId orig"

definition void_number :: "void_request \<Rightarrow> ledger_entry option \<Rightarrow> string" where
  "void_number rq existingReversal =
     (case (case existingReversal of None \<Rightarrow> None | Some r \<Rightarrow> search match_void (le_description r)) of
        Some n \<Rightarrow> n | None \<Rightarrow> createVoidNumber (vr_stamp rq) (vr_random rq))"

definition reversal_request :: "adjustment_tx \<Rightarrow> ledger_entry \<Rightarrow> string \<Rightarrow> wallet_request" where
  "reversal_request tx orig voidNumber =
     \<lparr>wr_entityModel = le_entityModel orig, wr_entityId = le_entityId orig, wr_amount = n_neg (le_amount orig),
      wr_type = ''REVERSAL'', wr_transactionId = ax_customId tx,
      wr_description = reversal_description tx voidNumber,
      wr_options = default_options\<lparr>allowNegative := True\<rparr>\<rparr>"

definition actor_name :: "jsval \<Rightarrow> string" where
  "actor_name v = slice_units 160 (clean v)"

definition normalized_reason :: "jsval \<Rightarrow> string" where
  "normalized_reason reason = slice_units 240 (trim (toString (or_else reason (Str (utf8
     [216, 173, 216, 176, 217, 129, 32, 216, 167, 217, 132, 216, 170, 216, 179, 217, 136, 217, 138, 216, 169,
      32, 217, 133, 217, 134, 32, 216, 167, 217, 132, 216, 165, 216, 175, 216, 167, 216, 177, 216, 169])))))"

definition finalize_void :: "void_request \<Rightarrow> adjustment_tx \<Rightarrow> ledger_entry \<Rightarrow> string \<Rightarrow> adjustment_tx \<Rightarrow> adjustment_tx" where
  "finalize_void rq claimed orig voidNumber tx =
     tx\<lparr>ax_status := ''cancelled_by_admin'', ax_cancellationNumber := voidNumber,
        ax_cancellationReason := normalized_reason (vr_reason rq),
        ax_cancelledBy := actor_name (vr_performedBy rq), ax_cancelledByAdminId := actor_name (vr_performedById rq),
        ax_cancelledAt := Some (vr_voidedAt rq), ax_entityModel := le_entityModel orig, ax_entityId := le_entityId orig,
        ax_delta := Some (le_amount orig), ax_reversible := False, ax_originalStatus := ax_status claimed,
        ax_voidedAt := Some (vr_voidedAt rq), ax_voidedBy := actor_name (vr_performedBy rq),
        ax_voidReason := normalized_reason (vr_reason rq), ax_voidToken := None, ax_voidStartedAt := None\<rparr>"

text \<open>The reversal: it is posted unless an earlier attempt has already posted it.\<close>

definition post_reversal ::
    "(('s, balance_update) run \<Rightarrow> ('s, balance_update) run) \<Rightarrow> bool \<Rightarrow> bool \<Rightarrow> (string \<Rightarrow> ('s, account) coll)
      \<Rightarrow> ('s, ledger_entry) coll \<Rightarrow> void_request \<Rightarrow> adjustment_tx \<Rightarrow> ledger_entry \<Rightarrow> ledger_entry option
      \<Rightarrow> ('s, balance_update) run" where
  "post_reversal wtxn requires session accounts ledger rq tx orig existingReversal =
     (case existingReversal of
        Some r \<Rightarrow> ret \<lparr>bu_balanceBefore = le_balanceBefore r, bu_balanceAfter = le_balanceAfter r\<rparr>
      | None \<Rightarrow> updateBalanceWithLedger wtxn requires session (accounts (le_entityModel orig)) ledger (vr_entryId rq)
                 (reversal_request tx orig (void_number rq None)))"

definition finish_void ::
    "(string \<Rightarrow> ('s, account) coll) \<Rightarrow> ('s, adjustment_tx) coll \<Rightarrow> void_request \<Rightarrow> adjustment_tx \<Rightarrow> ledger_entry
      \<Rightarrow> string \<Rightarrow> balance_update \<Rightarrow> ('s, void_result) run" where
  "finish_void accounts txs rq tx orig voidNumber result =
     (if actor_name (vr_performedBy rq) = [] \<or> actor_name (vr_performedById rq) = []
      then throw (plain_error ''ADJUSTMENT_ACTOR_REQUIRED'')
      else bind (c_update txs (vr_transactionId rq) (has_token rq) (finalize_void rq tx orig voidNumber))
        (\<lambda>finalized. case finalized of
           None \<Rightarrow> throw (plain_error ''ADJUSTMENT_VOID_CONFLICT'')
         | Some tx' \<Rightarrow> bind (c_get (accounts (le_entityModel orig)) (le_entityId orig))
             (\<lambda>found. case found of
                None \<Rightarrow> throw (plain_error ''ACCOUNT_NOT_FOUND'')
              | Some acc \<Rightarrow> ret \<lparr>vd_transaction = tx', vd_account = acc, vd_entityModel = le_entityModel orig,
                  vd_entityId = le_entityId orig, vd_reversalDelta = n_neg (le_amount orig),
                  vd_balanceBefore = bu_balanceBefore result, vd_balanceAfter = bu_balanceAfter result,
                  vd_voidNumber = voidNumber\<rparr>)))"

definition void_claimed ::
    "(('s, balance_update) run \<Rightarrow> ('s, balance_update) run) \<Rightarrow> bool \<Rightarrow> bool \<Rightarrow> (string \<Rightarrow> ('s, account) coll)
      \<Rightarrow> ('s, ledger_entry) coll \<Rightarrow> ('s, adjustment_tx) coll \<Rightarrow> void_request \<Rightarrow> adjustment_tx \<Rightarrow> ('s, void_result) run" where
  "void_claimed wtxn requires session accounts ledger txs rq tx =
     bind (findOriginalLedger ledger tx) (\<lambda>original. case original of
         None \<Rightarrow> throw (plain_error ''ADJUSTMENT_LEDGER_NOT_FOUND'')
       | Some orig \<Rightarrow>
           if le_entityModel orig \<notin> set REVERSIBLE_MODELS then throw (plain_error ''ADJUSTMENT_NOT_REVERSIBLE'')
           else bind (c_findOne ledger (reversal_filter tx orig)) (\<lambda>existingReversal.
             bind (post_reversal wtxn requires session accounts ledger rq tx orig existingReversal)
               (finish_void accounts txs rq tx orig (void_number rq existingReversal))))"

definition void_work ::
    "(('s, balance_update) run \<Rightarrow> ('s, balance_update) run) \<Rightarrow> bool \<Rightarrow> (string \<Rightarrow> ('s, account) coll)
      \<Rightarrow> ('s, ledger_entry) coll \<Rightarrow> ('s, adjustment_tx) coll \<Rightarrow> void_request \<Rightarrow> bool \<Rightarrow> ('s, void_result) run" where
  "void_work wtxn requires accounts ledger txs rq session =
     bind (c_update txs (vr_transactionId rq) (claim_filter (vr_now rq)) (claim_void rq)) (\<lambda>claimed. case claimed of
         None \<Rightarrow> bind (c_get txs (vr_transactionId rq)) (\<lambda>existing. throw (not_claimed existing))
       | Some tx \<Rightarrow> catch (void_claimed wtxn requires session accounts ledger txs rq tx)
           (\<lambda>err. if session then throw err
                  else andThen (catch (andThen (c_update txs (vr_transactionId rq) (has_token rq) release_void) (ret ()))
                                  (\<lambda>_. ret ()))
                         (throw err)))"

definition voidBalanceAdjustment ::
    "(('s, void_result) run \<Rightarrow> ('s, void_result) run) \<Rightarrow> (error \<Rightarrow> bool)
      \<Rightarrow> (('s, balance_update) run \<Rightarrow> ('s, balance_update) run) \<Rightarrow> bool \<Rightarrow> (string \<Rightarrow> ('s, account) coll)
      \<Rightarrow> ('s, ledger_entry) coll \<Rightarrow> ('s, adjustment_tx) coll \<Rightarrow> void_request \<Rightarrow> ('s, void_result) run" where
  "voidBalanceAdjustment txn notStarted wtxn requires accounts ledger txs rq =
     runWithOptionalTransaction txn notStarted requires (void_work wtxn requires accounts ledger txs rq)"

section \<open>The void number\<close>

lemma all_in_append: "length n = k \<Longrightarrow> all_in cls k k n \<Longrightarrow> all_in cls k k (take k (n @ r))"
  by (simp add: all_in_def)

lemma match_void_number:
  assumes "all_in is_digit 6 6 stamp" "all_in is_upper_hex 6 6 (toUpperCase hex)"
  shows "match_void (createVoidNumber stamp hex) = Some (createVoidNumber stamp hex)"
proof -
  have l: "length stamp = 6" "length (toUpperCase hex) = 6" using assms by (simp_all add: all_in_def)
  have d5: "drop 5 (createVoidNumber stamp hex) = stamp @ ''-'' @ toUpperCase hex"
    "drop 11 (createVoidNumber stamp hex) = ''-'' @ toUpperCase hex" "drop 12 (createVoidNumber stamp hex) = toUpperCase hex"
    "length (createVoidNumber stamp hex) = 18"
    using l by (simp_all add: createVoidNumber_def)
  have "has_prefix ''VOID-'' (createVoidNumber stamp hex)" by (simp add: createVoidNumber_def)
  then show ?thesis using assms l by (simp add: match_void_def d5)
qed

lemma match_void_None: "c \<noteq> CHR ''V'' \<Longrightarrow> match_void (c # t) = None"
  by (simp add: match_void_def)

section \<open>What a void does\<close>

text \<open>
  The reversal of the original entry: it is posted on its account, or an earlier attempt posted it.
\<close>

definition reversed_once ::
    "(string \<Rightarrow> ('s, account) coll) \<Rightarrow> ('s, ledger_entry) coll \<Rightarrow> void_request \<Rightarrow> adjustment_tx \<Rightarrow> ledger_entry
      \<Rightarrow> 's \<Rightarrow> 's \<Rightarrow> bool" where
  "reversed_once accounts ledger rq tx orig s s' \<longleftrightarrow>
     ((\<exists>n r. c_view ledger s n = Some r \<and> reversal_filter tx orig r)
        \<and> c_view ledger s' = c_view ledger s \<and> (\<forall>m. c_view (accounts m) s' = c_view (accounts m) s))
   \<or> ((\<forall>n r. c_view ledger s n = Some r \<longrightarrow> \<not> reversal_filter tx orig r)
        \<and> (\<exists>acc. posted (vr_entryId rq) (reversal_request tx orig (void_number rq None))
              (c_view (accounts (le_entityModel orig)) s) (c_view ledger s)
              (c_view (accounts (le_entityModel orig)) s') (c_view ledger s') acc)
        \<and> (\<forall>m. m \<noteq> le_entityModel orig \<longrightarrow> c_view (accounts m) s' = c_view (accounts m) s))"

lemma post_reversal_once:
  assumes st: "money_store accounts ledger txs"
    and found: "c_findOne ledger (reversal_filter tx orig) s = (Inr existing, s1)"
    and post: "post_reversal wtxn requires True accounts ledger rq tx orig existing s1 = (Inr u, s2)"
  shows "reversed_once accounts ledger rq tx orig s s2 \<and> c_view txs s2 = c_view txs s"
proof -
  let ?m = "le_entityModel orig"
  note D = money_storeD [OF st]
  have v1: "c_view ledger s1 = c_view ledger s" "c_view txs s1 = c_view txs s" "\<And>m. c_view (accounts m) s1 = c_view (accounts m) s"
    using c_findOne_view [OF D(1) found] quietD(1) [OF D(4) found] quietD(1) [OF D(8) found] by simp_all
  show ?thesis
  proof (cases existing)
    case (Some r)
    obtain n where "reversal_filter tx orig r" "c_view ledger s n = Some r"
      using c_findOne_Some [OF D(1) found [unfolded Some]] by metis
    then show ?thesis using post Some v1 by (auto simp: post_reversal_def reversed_once_def)
  next
    case None
    have run: "runWithSession (accounts ?m) ledger (vr_entryId rq) (reversal_request tx orig (void_number rq None)) s1 = (Inr u, s2)"
      using post None by (simp add: post_reversal_def updateBalanceWithLedger_def)
    obtain acc where p: "posted (vr_entryId rq) (reversal_request tx orig (void_number rq None))
        (c_view (accounts ?m) s1) (c_view ledger s1) (c_view (accounts ?m) s2) (c_view ledger s2) acc"
      using runWithSession_Inr [OF D(3,1,6,8) run] by metis
    have keep: "v s2 = v s1" if q: "quiet (accounts ?m) v" "quiet ledger v" for v :: "'a \<Rightarrow> 'v"
      using run quietD(2) [OF q(1)] quietD(3) [OF q(2)] unfolding runWithSession_def
      by (auto simp: run_simps Let_def split: prod.splits sum.splits option.splits)
    have "\<forall>n r. c_view ledger s n = Some r \<longrightarrow> \<not> reversal_filter tx orig r"
      using c_findOne_None [OF D(1) found [unfolded None]] by blast
    moreover have "c_view txs s2 = c_view txs s" using keep [of "c_view txs"] D(7,4) v1 by simp
    moreover have "\<forall>m. m \<noteq> ?m \<longrightarrow> c_view (accounts m) s2 = c_view (accounts m) s"
      using keep D(10) D(8) v1 by metis
    ultimately show ?thesis using p v1 by (auto simp: reversed_once_def)
  qed
qed

lemma finalized_not_claimed: "\<not> claim_filter t (finalize_void rq tx orig x tx')"
  by (simp add: claim_filter_def finalize_void_def)

lemma void_work_Inr:
  assumes st: "money_store accounts ledger txs"
    and run: "void_work wtxn requires accounts ledger txs rq True s = (Inr res, s')"
  obtains tx orig n where "c_view txs s (vr_transactionId rq) = Some tx" "claim_filter (vr_now rq) tx"
    "c_view ledger s n = Some orig" "original_filter tx orig" "le_entityModel orig \<in> set REVERSIBLE_MODELS"
    "reversed_once accounts ledger rq tx orig s s'"
    "c_view txs s' = (c_view txs s)(vr_transactionId rq \<mapsto>
        finalize_void rq tx orig (vd_voidNumber res) (claim_void rq tx))"
proof -
  note D = money_storeD [OF st]
  obtain claimed s1 where 1: "c_update txs (vr_transactionId rq) (claim_filter (vr_now rq)) (claim_void rq) s = (Inr claimed, s1)"
    and r1: "(case claimed of None \<Rightarrow> bind (c_get txs (vr_transactionId rq)) (\<lambda>existing. throw (not_claimed existing))
       | Some tx \<Rightarrow> catch (void_claimed wtxn requires True accounts ledger txs rq tx) (\<lambda>err. if True then throw err
            else andThen (catch (andThen (c_update txs (vr_transactionId rq) (has_token rq) release_void) (ret ())) (\<lambda>_. ret ())) (throw err))) s1
     = (Inr res, s')"
    using run unfolding void_work_def by (elim bind_InrE)
  obtain tx1 where c: "claimed = Some tx1" using r1 by (cases claimed) (auto simp: run_simps split: prod.splits sum.splits)
  obtain tx where tx: "c_view txs s (vr_transactionId rq) = Some tx" "claim_filter (vr_now rq) tx" "tx1 = claim_void rq tx"
    "c_view txs s1 = (c_view txs s)(vr_transactionId rq \<mapsto> claim_void rq tx)"
    using c_update_Some [OF D(2) 1 [unfolded c]] by metis
  have v1: "c_view ledger s1 = c_view ledger s" "\<And>m. c_view (accounts m) s1 = c_view (accounts m) s"
    using quietD(2) [OF D(5) 1] quietD(2) [OF D(9) 1] by simp_all
  have "void_claimed wtxn requires True accounts ledger txs rq tx1 s1 = (Inr res, s')"
    using r1 c by (auto simp: catch_run split: prod.splits sum.splits)
  then obtain original s2 where 2: "findOriginalLedger ledger tx1 s1 = (Inr original, s2)"
    and r2: "(case original of None \<Rightarrow> throw (plain_error ''ADJUSTMENT_LEDGER_NOT_FOUND'')
       | Some orig \<Rightarrow> if le_entityModel orig \<notin> set REVERSIBLE_MODELS then throw (plain_error ''ADJUSTMENT_NOT_REVERSIBLE'')
           else bind (c_findOne ledger (reversal_filter tx1 orig)) (\<lambda>existingReversal.
             bind (post_reversal wtxn requires True accounts ledger rq tx1 orig existingReversal)
               (finish_void accounts txs rq tx1 orig (void_number rq existingReversal)))) s2 = (Inr res, s')"
    unfolding void_claimed_def by (elim bind_InrE)
  obtain orig where o: "original = Some orig" using r2 by (cases original) auto
  have m: "le_entityModel orig \<in> set REVERSIBLE_MODELS" using r2 o by (auto split: if_splits)
  note f2 = 2 [unfolded findOriginalLedger_def o]
  obtain n where n: "original_filter tx1 orig" "c_view ledger s1 n = Some orig" using c_findOne_Some [OF D(1) f2] by metis
  have v2: "c_view ledger s2 = c_view ledger s1" "c_view txs s2 = c_view txs s1" "\<And>m. c_view (accounts m) s2 = c_view (accounts m) s1"
    using c_findOne_view [OF D(1) f2] quietD(1) [OF D(4) f2] quietD(1) [OF D(8) f2] by simp_all
  obtain existing s3 u s4 where 3: "c_findOne ledger (reversal_filter tx1 orig) s2 = (Inr existing, s3)"
    and 4: "post_reversal wtxn requires True accounts ledger rq tx1 orig existing s3 = (Inr u, s4)"
    and 5: "finish_void accounts txs rq tx1 orig (void_number rq existing) u s4 = (Inr res, s')"
    using r2 o m by (auto elim!: bind_InrE)
  have once: "reversed_once accounts ledger rq tx1 orig s2 s4" "c_view txs s4 = c_view txs s2"
    using post_reversal_once [OF st 3 4] by simp_all
  obtain fin s5 acc where 6: "c_update txs (vr_transactionId rq) (has_token rq)
       (finalize_void rq tx1 orig (void_number rq existing)) s4 = (Inr (Some fin), s5)"
    and 7: "c_get (accounts (le_entityModel orig)) (le_entityId orig) s5 = (Inr acc, s')"
    and num: "vd_voidNumber res = void_number rq existing"
    using 5 unfolding finish_void_def
    by (auto split: if_splits option.splits prod.splits sum.splits elim!: bind_InrE)
  have fin: "c_view txs s5 = (c_view txs s4)(vr_transactionId rq \<mapsto> finalize_void rq tx1 orig (void_number rq existing) tx1)"
    using c_update_Some [OF D(2) 6] once(2) v2 tx by (metis fun_upd_same option.inject)
  have v5: "c_view ledger s' = c_view ledger s4" "\<And>m. c_view (accounts m) s' = c_view (accounts m) s4" "c_view txs s' = c_view txs s5"
    using quietD(2) [OF D(5) 6] quietD(2) [OF D(9) 6] quietD(4) [OF D(6) 7] quietD(4) [OF D(7) 7]
      c_get_view(1) [OF D(3) 7] quietD(4) [OF D(10) 7] by (simp, metis, simp)
  have same: "reversal_filter tx1 orig = reversal_filter tx orig" "original_filter tx1 orig = original_filter tx orig"
    "reversal_request tx1 orig x = reversal_request tx orig x" "finalize_void rq tx1 orig x = finalize_void rq tx orig x" for x
    by (simp_all add: tx(3) claim_void_def reversal_filter_def original_filter_def reversal_request_def
        reversal_description_def finalize_void_def fun_eq_iff)
  show thesis
  proof (rule that [OF tx(1,2) _ _ m])
    show "c_view ledger s n = Some orig" using n v1 by simp
    show "original_filter tx orig" using n same by simp
    show "reversed_once accounts ledger rq tx orig s s'"
      using once(1) unfolding reversed_once_def same v5 v2 v1 by simp
    show "c_view txs s' = (c_view txs s)(vr_transactionId rq \<mapsto> finalize_void rq tx orig (vd_voidNumber res) (claim_void rq tx))"
      using v5 fin once v2 tx num same by simp
  qed
qed

section \<open>An adjustment in memory\<close>

definition demo_void :: void_request where
  "demo_void = \<lparr>vr_transactionId = ''t1'', vr_performedBy = Str ''admin'', vr_performedById = Str ''a1'', vr_reason = Undef,
     vr_token = ''k1'', vr_now = 0, vr_voidedAt = 5, vr_stamp = ''260807'', vr_random = ''a1b2c3'', vr_entryId = ''e2''\<rparr>"

definition demo_deposit :: adjustment_tx where
  "demo_deposit = \<lparr>ax_customId = ''DEP-1'', ax_status = ''deposit'', ax_entityModel = [], ax_entityId = [], ax_delta = None,
     ax_reversible = True, ax_originalStatus = [], ax_voidToken = None, ax_voidStartedAt = None, ax_voidedAt = None,
     ax_voidedBy = [], ax_voidReason = [], ax_cancellationNumber = [], ax_cancellationReason = [],
     ax_cancelledBy = [], ax_cancelledByAdminId = [], ax_cancelledAt = None\<rparr>"

definition demo_deposit_entry :: ledger_entry where
  "demo_deposit_entry = \<lparr>le_tenantId = None, le_entityId = ''u1'', le_entityModel = ''User'', le_transactionId = ''DEP-1'',
     le_type = ''DEPOSIT'', le_amount = dec 3 5000, le_balanceBefore = Fin 0, le_balanceAfter = dec 3 5000, le_description = []\<rparr>"

record adjustment_db =
  adb_accounts :: "string \<Rightarrow> (string \<times> account) list"
  adb_ledger :: "(string \<times> ledger_entry) list"
  adb_txs :: "(string \<times> adjustment_tx) list"

definition mem_adj_accounts :: "string \<Rightarrow> (adjustment_db, account) coll" where
  "mem_adj_accounts m = mem_coll (\<lambda>s. adb_accounts s m) (\<lambda>l s. s\<lparr>adb_accounts := (adb_accounts s)(m := l)\<rparr>)"

definition mem_adj_ledger :: "(adjustment_db, ledger_entry) coll" where
  "mem_adj_ledger = mem_coll adb_ledger (\<lambda>l s. s\<lparr>adb_ledger := l\<rparr>)"

definition mem_adj_txs :: "(adjustment_db, adjustment_tx) coll" where
  "mem_adj_txs = mem_coll adb_txs (\<lambda>l s. s\<lparr>adb_txs := l\<rparr>)"

lemma mem_adjustment_money: "money_store mem_adj_accounts mem_adj_ledger mem_adj_txs"
  unfolding money_store_def mem_adj_accounts_def mem_adj_ledger_def mem_adj_txs_def
  by (intro conjI allI impI mem_coll_ok mem_coll_quiet) (simp_all add: mem_coll_def)

definition demo_adjustment_db :: adjustment_db where
  "demo_adjustment_db = \<lparr>adb_accounts = (\<lambda>m. if m = ''User'' then [(''u1'', \<lparr>balance = dec 3 7000, acc_tenantId = None\<rparr>)] else []),
     adb_ledger = [(''e1'', demo_deposit_entry)], adb_txs = [(''t1'', demo_deposit)]\<rparr>"

section \<open>Properties\<close>

text \<open>
  a void number survives a retry.  The void number in the description of a posted reversal is the
  one that a later attempt reads back from that ledger entry, if the transaction's own number has
  no \<open>V\<close>.
\<close>

theorem void_number_recovered:
  assumes "all_in is_digit 6 6 (vr_stamp rq)" "all_in is_upper_hex 6 6 (toUpperCase (vr_random rq))"
    and "CHR ''V'' \<notin> set (ax_customId tx)"
    and "le_description r = wr_description (reversal_request tx orig (void_number rq None))"
  shows "void_number rq' (Some r) = void_number rq None"
proof -
  let ?n = "createVoidNumber (vr_stamp rq) (vr_random rq)"
  define p where "p = utf8 [216, 165, 217, 132, 216, 186, 216, 167, 216, 161, 32] @ original_label (ax_status tx) @ '' ''
     @ ax_customId tx
     @ utf8 [32, 45, 32, 216, 177, 217, 130, 217, 133, 32, 216, 167, 217, 132, 216, 165, 217, 132, 216, 186, 216, 167, 216, 161, 32]"
  have "CHR ''V'' \<notin> set (utf8 [216, 165, 217, 132, 216, 186, 216, 167, 216, 161, 32])" by code_simp
  moreover have "CHR ''V'' \<notin> set (utf8 [32, 45, 32, 216, 177, 217, 130, 217, 133, 32, 216, 167, 217, 132, 216, 165, 217, 132, 216, 186, 216, 167, 216, 161, 32])"
    by code_simp
  moreover have "CHR ''V'' \<notin> set (original_label ''deposit'') \<and> CHR ''V'' \<notin> set (original_label [])" by code_simp
  then have "CHR ''V'' \<notin> set (original_label (ax_status tx))" by (auto simp: original_label_def split: if_splits)
  ultimately have p: "CHR ''V'' \<notin> set p" using assms(3) by (auto simp: p_def)
  have "le_description r = p @ ?n"
    using assms(4) by (simp add: reversal_request_def reversal_description_def void_number_def p_def)
  moreover have "search match_void (p @ ?n) = Some ?n"
    using search_skip [of p match_void ?n] p match_void_None search_hit [where m = match_void, OF match_void_number [OF assms(1,2)]] by metis
  ultimately show ?thesis by (simp add: void_number_def)
qed


theorem void_number_recovered_witness:
  "void_number (demo_void\<lparr>vr_random := ''ffffff''\<rparr>)
     (Some (demo_deposit_entry\<lparr>le_type := ''REVERSAL'',
        le_description := wr_description (reversal_request demo_deposit demo_deposit_entry (void_number demo_void None))\<rparr>))
   = void_number demo_void None"
  by (rule void_number_recovered [where rq = demo_void and tx = demo_deposit and orig = demo_deposit_entry])
    (code_simp, code_simp, code_simp, simp)


text \<open>
  C32: an adjustment is reversed once.  When transactions are required, a void that returns has found
  the ledger entry of the adjustment, and its reversal is in the ledger exactly once: it was posted
  now on the account of that entry, or an earlier attempt had posted it; no other account changed and
  the transaction is cancelled under the void number.  Any later void of the same transaction fails
  and, unless the outcome of its commit is unknown, changes nothing.
\<close>

theorem void_reverses_once:
  assumes st: "money_store accounts ledger txs"
    and dr: "txn_driver txn unknown notStarted (money_view accounts ledger txs)"
    and run: "voidBalanceAdjustment txn notStarted wtxn True accounts ledger txs rq s = (Inr res, s')"
    and again: "vr_transactionId rq2 = vr_transactionId rq"
      "voidBalanceAdjustment txn notStarted wtxn True accounts ledger txs rq2 s' = (r2, s2)"
  shows "(\<exists>tx orig n. c_view txs s (vr_transactionId rq) = Some tx \<and> c_view ledger s n = Some orig
      \<and> original_filter tx orig \<and> reversed_once accounts ledger rq tx orig s s'
      \<and> (\<exists>tx'. c_view txs s' (vr_transactionId rq) = Some tx' \<and> ax_status tx' = ''cancelled_by_admin''
            \<and> ax_cancellationNumber tx' = vd_voidNumber res))
    \<and> (\<exists>e. r2 = Inl e \<and> (unknown e \<or> money_view accounts ledger txs s2 = money_view accounts ledger txs s'))"
proof -
  obtain s0 s1 where 0: "money_view accounts ledger txs s0 = money_view accounts ledger txs s"
    "void_work wtxn True accounts ledger txs rq True s0 = (Inr res, s1)"
    "money_view accounts ledger txs s' = money_view accounts ledger txs s1"
    using txn_driver.adjustment_commit [OF dr run [unfolded voidBalanceAdjustment_def]] by auto
  note E = view_eqD [OF 0(1)] view_eqD [OF 0(3)]
  obtain tx orig n where w: "c_view txs s0 (vr_transactionId rq) = Some tx" "claim_filter (vr_now rq) tx"
    "c_view ledger s0 n = Some orig" "original_filter tx orig" "reversed_once accounts ledger rq tx orig s0 s1"
    "c_view txs s1 = (c_view txs s0)(vr_transactionId rq \<mapsto> finalize_void rq tx orig (vd_voidNumber res) (claim_void rq tx))"
    using void_work_Inr [OF st 0(2)] by metis
  have voided: "c_view txs s' (vr_transactionId rq) = Some (finalize_void rq tx orig (vd_voidNumber res) (claim_void rq tx))"
    using w(6) E by simp
  have no_second: False if t: "money_view accounts ledger txs t0 = money_view accounts ledger txs s'"
    "void_work wtxn True accounts ledger txs rq2 True t0 = (Inr x, t1)" for t0 t1 x
  proof -
    obtain tx2 where "c_view txs t0 (vr_transactionId rq2) = Some tx2" "claim_filter (vr_now rq2) tx2"
      using void_work_Inr [OF st t(2)] by metis
    then show False using voided again(1) view_eqD(3) [OF t(1)] finalized_not_claimed by fastforce
  qed
  have "\<exists>e. r2 = Inl e \<and> (unknown e \<or> money_view accounts ledger txs s2 = money_view accounts ledger txs s')"
  proof (cases r2)
    case (Inl e)
    then show ?thesis using txn_driver.adjustment_abort [OF dr again(2) [unfolded voidBalanceAdjustment_def Inl]] by auto
  next
    case (Inr x)
    then show ?thesis
      using txn_driver.adjustment_commit [OF dr again(2) [unfolded voidBalanceAdjustment_def Inr]] no_second by auto
  qed
  moreover have "reversed_once accounts ledger rq tx orig s s'"
    using w(5) unfolding reversed_once_def E by simp
  ultimately show ?thesis using w(1,3,4) voided E by (auto simp: finalize_void_def)
qed

lemma demo_facts:
  "claim_filter t demo_deposit" "original_filter demo_deposit demo_deposit_entry"
  "le_entityModel demo_deposit_entry \<in> set REVERSIBLE_MODELS"
  "\<not> reversal_filter demo_deposit demo_deposit_entry demo_deposit_entry"
  "actor_name (Str ''admin'') \<noteq> []" "actor_name (Str ''a1'') \<noteq> []"
  by (simp add: claim_filter_def demo_deposit_def, code_simp, code_simp, code_simp, code_simp, code_simp)

lemma claimed_simps [simp]:
  "original_filter (claim_void rq tx) = original_filter tx" "reversal_filter (claim_void rq tx) = reversal_filter tx"
  "has_token rq (claim_void rq tx)" "has_token rq (claim_void rq' tx) \<longleftrightarrow> vr_token rq' = vr_token rq"
  by (auto simp: fun_eq_iff claim_void_def original_filter_def reversal_filter_def has_token_def)

lemma demo_simps [simp]:
  "vr_transactionId demo_void = ''t1''" "vr_token demo_void = ''k1''" "vr_entryId demo_void = ''e2''"
  "vr_performedBy demo_void = Str ''admin''" "vr_performedById demo_void = Str ''a1''" "vr_now demo_void = 0"
  "le_entityModel demo_deposit_entry = ''User''" "le_entityId demo_deposit_entry = ''u1''"
  "le_amount demo_deposit_entry = dec 3 5000"
  by (simp_all add: demo_void_def demo_deposit_entry_def)

lemmas void_eval = void_work_def void_claimed_def findOriginalLedger_def post_reversal_def finish_void_def
  updateBalanceWithLedger_def runWithSession_def mem_adj_accounts_def mem_adj_ledger_def mem_adj_txs_def mem_coll_def
  atomic_def run_simps Let_def balance_filter_def guarded_def reversal_request_def default_options_def demo_adjustment_db_def

lemma demo_void_runs: "\<exists>res s'. voidBalanceAdjustment atomic (\<lambda>_. False) atomic True mem_adj_accounts mem_adj_ledger mem_adj_txs
    demo_void demo_adjustment_db = (Inr res, s')"
  using demo_facts by (simp add: voidBalanceAdjustment_def runWithOptionalTransaction_def void_eval)

theorem void_reverses_once_witness:
  "\<exists>e. fst (voidBalanceAdjustment atomic (\<lambda>_. False) atomic True mem_adj_accounts mem_adj_ledger mem_adj_txs demo_void
      (snd (voidBalanceAdjustment atomic (\<lambda>_. False) atomic True mem_adj_accounts mem_adj_ledger mem_adj_txs
        demo_void demo_adjustment_db))) = Inl e"
proof -
  obtain res s' where 1: "voidBalanceAdjustment atomic (\<lambda>_. False) atomic True mem_adj_accounts mem_adj_ledger mem_adj_txs
    demo_void demo_adjustment_db = (Inr res, s')" using demo_void_runs by blast
  obtain r2 s2 where 2: "voidBalanceAdjustment atomic (\<lambda>_. False) atomic True mem_adj_accounts mem_adj_ledger mem_adj_txs
    demo_void s' = (r2, s2)" by fastforce
  have dr: "txn_driver atomic (\<lambda>_. False) (\<lambda>_. False) (money_view mem_adj_accounts mem_adj_ledger mem_adj_txs)"
    by unfold_locales (simp_all add: atomic_ok)
  show ?thesis using void_reverses_once [OF mem_adjustment_money dr 1 refl 2] 1 2 by auto
qed

text \<open>
  without transactions a claim that outlives its two minutes reverses twice.  One worker claims
  the transaction and finds no reversal; after three minutes a second worker voids it completely; when
  the first one goes on it posts the reversal again, and only then notices that its claim is lost.
\<close>

theorem stale_void_reverses_twice:
  "let s1 = snd (c_update mem_adj_txs ''t1'' (claim_filter 0) (claim_void demo_void) demo_adjustment_db);
       second = demo_void\<lparr>vr_now := 180000, vr_token := ''k2'', vr_entryId := ''e3''\<rparr>;
       s2 = snd (void_work atomic False mem_adj_accounts mem_adj_ledger mem_adj_txs second False s1);
       (r, s3) = bind (post_reversal atomic False False mem_adj_accounts mem_adj_ledger demo_void
            (claim_void demo_void demo_deposit) demo_deposit_entry None)
          (finish_void mem_adj_accounts mem_adj_txs demo_void (claim_void demo_void demo_deposit) demo_deposit_entry
            (void_number demo_void None)) s2
   in map_option balance (c_view (mem_adj_accounts ''User'') s1 ''u1'') = Some (dec 3 7000)
      \<and> map_option balance (c_view (mem_adj_accounts ''User'') s2 ''u1'') = Some (dec 3 2000)
      \<and> map_option balance (c_view (mem_adj_accounts ''User'') s3 ''u1'') = Some (dec 3 (-3000))
      \<and> (case r of Inl e \<Rightarrow> message e = ''ADJUSTMENT_VOID_CONFLICT'' | Inr _ \<Rightarrow> False)"
proof -
  have "\<not> has_token rq (finalize_void rq' tx orig x tx')" for rq rq' tx orig x tx'
    by (simp add: has_token_def finalize_void_def)
  moreover have "claim_filter 180000 (claim_void demo_void demo_deposit)"
    by (simp add: claim_filter_def claim_void_def demo_deposit_def)
  moreover have "n_add (dec 3 7000) (n_neg (dec 3 5000)) = dec 3 2000" "n_add (dec 3 2000) (n_neg (dec 3 5000)) = dec 3 (- 3000)"
    by code_simp+
  ultimately show ?thesis using demo_facts by (simp add: void_eval plain_error_def)
qed

end
