(* ===== verification/Js_Json.thy ===== *)
theory Js_Json
  imports Js_Text
begin

text \<open>
  Values as JSON texts, as JSON.stringify writes them, and that the text of a string can be read back: nothing
  that follows it can change what it says.  Fingerprints and lock keys of the code rest on this.
\<close>

section \<open>Strings in JSON\<close>

definition hex_digit :: "nat \<Rightarrow> char" where
  "hex_digit n = char_of (if n < 10 then 48 + n else 87 + n)"

definition backslash :: char where
  "backslash = CHR 0x5C"

definition quote_char :: char where
  "quote_char = CHR 0x22"

text \<open>Control characters, the quote and the backslash are escaped.\<close>

definition json_char :: "char \<Rightarrow> string" where
  "json_char c = (let b = (of_char c :: nat) in
     if b = 34 \<or> b = 92 then [backslash, c]
     else if b = 8 then [backslash, CHR ''b''] else if b = 9 then [backslash, CHR ''t'']
     else if b = 10 then [backslash, CHR ''n''] else if b = 12 then [backslash, CHR ''f'']
     else if b = 13 then [backslash, CHR ''r'']
     else if b < 32 then [backslash, CHR ''u'', CHR ''0'', CHR ''0'', hex_digit (b div 16), hex_digit (b mod 16)]
     else [c])"

definition json_string :: "string \<Rightarrow> string" where
  "json_string s = quote_char # concat (map json_char s) @ [quote_char]"

section \<open>Values in JSON\<close>

text \<open>
  Undefined members of an object are left out, undefined elements and numbers that are not finite
  become \<open>null\<close>.  The keys the code serialises are not integers, so members keep their order.
\<close>

fun stringify :: "jsval \<Rightarrow> string" where
  "stringify Undef = ''null''"
| "stringify Null = ''null''"
| "stringify (Bool b) = (if b then ''true'' else ''false'')"
| "stringify (Num n) = (if isFinite n then num_str n else ''null'')"
| "stringify (Str s) = json_string s"
| "stringify (Arr vs) = ''['' @ join_with '','' (map stringify vs) @ '']''"
| "stringify (Obj kvs) = ''{'' @ join_with '',''
     (concat (map (\<lambda>(k, v). if v = Undef then [] else [json_string k @ '':'' @ stringify v]) kvs)) @ ''}''"
| "stringify (JMap _) = ''{}''"

section \<open>Reading strings back\<close>

text \<open>The encoding of a string is uniquely readable: nothing that follows it can change it.\<close>

definition unhex :: "char \<Rightarrow> nat" where
  "unhex c = (let b = (of_char c :: nat) in if b < 58 then b - 48 else b - 87)"

definition read_char :: "string \<Rightarrow> char \<times> string" where
  "read_char s = (let x = hd s; y = hd (tl s); r = tl (tl s) in
     if x \<noteq> backslash then (x, tl s)
     else if y = quote_char \<or> y = backslash then (y, r)
     else if y = CHR ''b'' then (char_of (8::nat), r) else if y = CHR ''t'' then (char_of (9::nat), r)
     else if y = CHR ''n'' then (char_of (10::nat), r) else if y = CHR ''f'' then (char_of (12::nat), r)
     else if y = CHR ''r'' then (char_of (13::nat), r)
     else (char_of (16 * unhex (r ! 2) + unhex (r ! 3)), drop 4 r))"

lemma unhex_digit: "n < 16 \<Longrightarrow> unhex (hex_digit n) = n"
  by (simp add: unhex_def hex_digit_def of_char_of Let_def)

lemma special_chars: "(of_char c :: nat) = n \<longleftrightarrow> c = char_of n" if "n < 256"
  using that by (metis of_char_of char_of_char mod_less)

lemma quote_backslash: "char_of (34::nat) = quote_char" "char_of (92::nat) = backslash"
  by code_simp+

lemma read_json_char: "read_char (json_char c @ r) = (c, r)"
proof -
  define b where "b = (of_char c :: nat)"
  have c: "char_of b = c" by (simp add: b_def)
  note js = json_char_def [of c, folded b_def, unfolded Let_def]
  show ?thesis
  proof (cases "b = 34 \<or> b = 92")
    case True
    then have "c = quote_char \<or> c = backslash" using c quote_backslash by auto
    then show ?thesis using True by (auto simp: js read_char_def Let_def)
  next
    case False
    then have nq: "c \<noteq> backslash" using c quote_backslash special_chars [of 92 c] by (auto simp: b_def)
    show ?thesis
    proof (cases "b < 32")
      case True
      then have "16 * unhex (hex_digit (b div 16)) + unhex (hex_digit (b mod 16)) = b" by (simp add: unhex_digit)
      then show ?thesis using False True c
        by (simp add: js read_char_def Let_def quote_char_def backslash_def) (intro conjI impI; simp)
    next
      case False
      then show ?thesis using nq \<open>\<not> (b = 34 \<or> b = 92)\<close> by (simp add: js read_char_def Let_def)
    qed
  qed
qed

lemma json_char_hd: "json_char c \<noteq> [] \<and> hd (json_char c) \<noteq> quote_char"
  by (auto simp: json_char_def Let_def quote_char_def backslash_def)

lemma json_chars_inj:
  "concat (map json_char s) @ quote_char # r = concat (map json_char s') @ quote_char # r' \<Longrightarrow> s = s' \<and> r = r'"
proof (induction s arbitrary: s')
  case Nil
  then show ?case using json_char_hd by (cases s') (auto simp: hd_append, metis hd_append2 list.sel(1))
next
  case (Cons c s)
  show ?case
  proof (cases s')
    case Nil
    then show ?thesis using Cons.prems json_char_hd [of c] by (auto, metis hd_append2 list.sel(1))
  next
    case (Cons c' t)
    then have "json_char c @ concat (map json_char s) @ quote_char # r = json_char c' @ concat (map json_char t) @ quote_char # r'"
      using Cons.prems by simp
    then have "(c, concat (map json_char s) @ quote_char # r) = (c', concat (map json_char t) @ quote_char # r')"
      using read_json_char by metis
    then show ?thesis using Cons Cons.IH [of t] by simp
  qed
qed

lemma json_string_inj: "json_string s @ r = json_string s' @ r' \<Longrightarrow> s = s' \<and> r = r'"
  using json_chars_inj [of s r s' r'] by (simp add: json_string_def)

end
