(* ===== verification/Lock_Service.thy ===== *)
theory Lock_Service
  imports Wallet
begin

text \<open>
  Locks: \<open>services/lockService.js\<close> and \<open>config/runtimeScale.js\<close>.  The locks in memory are a table with
  timers; tasks that hold locks are a step relation over it.  Redlock is a parameter.
\<close>

section \<open>Whether locks must be distributed\<close>

definition env_truthy :: "jsval \<Rightarrow> bool" where
  "env_truthy v \<longleftrightarrow> toLowerCase (clean v) \<in> {''1'', ''true'', ''yes'', ''on''}"

definition positive_integer :: "jsnum \<Rightarrow> bool" where
  "positive_integer n \<longleftrightarrow> (case n of Fin x \<Rightarrow> x = of_int \<lfloor>x\<rfloor> \<and> 0 < x | _ \<Rightarrow> False)"

definition configuredInstanceCount :: "environment \<Rightarrow> jsnum" where
  "configuredInstanceCount env =
     (let values = filter positive_integer (map (toNumber \<circ> env) [''APP_INSTANCE_COUNT'', ''WEB_CONCURRENCY'', ''PM2_INSTANCES''])
      in case values of [] \<Rightarrow> Fin 1 | v # vs \<Rightarrow> fold n_max vs v)"

definition distributedStateRequired :: "environment \<Rightarrow> bool" where
  "distributedStateRequired env \<longleftrightarrow> toLowerCase (clean (env ''NODE_ENV'')) = ''production''
     \<or> env_truthy (env ''REDIS_REQUIRED'') \<or> env_truthy (env ''CLUSTER_MODE'')
     \<or> n_lt (Fin 1) (configuredInstanceCount env)"

section \<open>Locks in memory\<close>

text \<open>The set of held keys, and the pending timers that free a key when its time is over.\<close>

record lock_table =
  lt_held :: "string list"
  lt_timers :: "(nat \<times> string) list"
  lt_nextTimer :: nat

datatype lock = MemoryLock nat string | RedisLock string

definition lockKey :: "string \<Rightarrow> string" where
  "lockKey key = ''lock:'' @ key"

definition try_acquire :: "string \<Rightarrow> lock_table \<Rightarrow> lock option \<times> lock_table" where
  "try_acquire key t =
     (if lockKey key \<in> set (lt_held t) then (None, t)
      else (Some (MemoryLock (lt_nextTimer t) (lockKey key)),
            t\<lparr>lt_held := lockKey key # lt_held t, lt_timers := (lt_nextTimer t, lockKey key) # lt_timers t,
              lt_nextTimer := Suc (lt_nextTimer t)\<rparr>))"

definition timer_fires :: "nat \<Rightarrow> lock_table \<Rightarrow> lock_table" where
  "timer_fires i t = (case map_of (lt_timers t) i of
       None \<Rightarrow> t
     | Some k \<Rightarrow> t\<lparr>lt_held := removeAll k (lt_held t), lt_timers := filter (\<lambda>(j, _). j \<noteq> i) (lt_timers t)\<rparr>)"

fun release_handle :: "lock \<Rightarrow> lock_table \<Rightarrow> lock_table" where
  "release_handle (MemoryLock i k) t =
     t\<lparr>lt_timers := filter (\<lambda>(j, _). j \<noteq> i) (lt_timers t), lt_held := removeAll k (lt_held t)\<rparr>"
| "release_handle (RedisLock k) t = t"

definition lock_timeout :: error where
  "lock_timeout = plain_error ''LOCK_ACQUISITION_TIMEOUT''"

text \<open>The attempts; \<open>others n\<close> is what the rest of the process does during a wait.\<close>

fun acquireInMemoryLock ::
    "(nat \<Rightarrow> lock_table \<Rightarrow> lock_table) \<Rightarrow> string \<Rightarrow> nat \<Rightarrow> lock_table \<Rightarrow> (error + lock) \<times> lock_table" where
  "acquireInMemoryLock others key 0 t = (Inl lock_timeout, t)"
| "acquireInMemoryLock others key (Suc n) t =
     (case try_acquire key t of
        (Some l, t') \<Rightarrow> (Inr l, t')
      | (None, t') \<Rightarrow> acquireInMemoryLock others key n (others n t'))"

record lock_options =
  lo_retryCount :: nat
  lo_allowMemoryFallback :: bool

definition default_lock_options :: lock_options where
  "default_lock_options = \<lparr>lo_retryCount = 15, lo_allowMemoryFallback = False\<rparr>"

text \<open>
  \<open>redlock key\<close> is the outcome of Redlock: nothing when it could not be initialised, an error or its
  lock otherwise.
\<close>

definition acquireLock ::
    "bool \<Rightarrow> bool \<Rightarrow> (string \<Rightarrow> (error + lock) option) \<Rightarrow> (nat \<Rightarrow> lock_table \<Rightarrow> lock_table) \<Rightarrow> string \<Rightarrow> lock_options
      \<Rightarrow> lock_table \<Rightarrow> (error + lock) \<times> lock_table" where
  "acquireLock isRedis isRedisRequired redlock others key options t =
     (let memory = acquireInMemoryLock others key (lo_retryCount options) t;
          strict = (isRedisRequired \<and> \<not> lo_allowMemoryFallback options)
      in if isRedis
         then (case redlock (''locks:'' @ key) of
                 None \<Rightarrow> memory
               | Some (Inr l) \<Rightarrow> (Inr l, t)
               | Some (Inl e) \<Rightarrow> if strict then (Inl (plain_error ''REDIS_LOCK_FAILED''), t) else memory)
         else if strict then (Inl (plain_error ''REDIS_NOT_CONFIGURED''), t) else memory)"

definition releaseLock :: "lock option \<Rightarrow> lock_table \<Rightarrow> lock_table" where
  "releaseLock l t = (case l of None \<Rightarrow> t | Some h \<Rightarrow> release_handle h t)"

section \<open>Holders of a lock\<close>

text \<open>
  The table together with the tasks inside a locked region.  A task enters with the lock it acquired,
  leaves by releasing it, and a timer may fire while its task is still inside.
\<close>

record lock_system =
  sy_table :: lock_table
  sy_holders :: "(nat \<times> string) list"

definition empty_table :: lock_table where
  "empty_table = \<lparr>lt_held = [], lt_timers = [], lt_nextTimer = 0\<rparr>"

inductive lock_step :: "bool \<Rightarrow> lock_system \<Rightarrow> lock_system \<Rightarrow> bool" for timely where
  enter: "try_acquire key (sy_table s) = (Some (MemoryLock i k), t)
    \<Longrightarrow> lock_step timely s \<lparr>sy_table = t, sy_holders = (i, k) # sy_holders s\<rparr>"
| leave: "(i, k) \<in> set (sy_holders s)
    \<Longrightarrow> lock_step timely s \<lparr>sy_table = releaseLock (Some (MemoryLock i k)) (sy_table s),
          sy_holders = removeAll (i, k) (sy_holders s)\<rparr>"
| expire: "\<not> timely \<Longrightarrow> lock_step timely s (s\<lparr>sy_table := timer_fires i (sy_table s)\<rparr>)"

inductive reachable :: "bool \<Rightarrow> lock_system \<Rightarrow> bool" for timely where
  start: "reachable timely \<lparr>sy_table = empty_table, sy_holders = []\<rparr>"
| next_step: "reachable timely s \<Longrightarrow> lock_step timely s s' \<Longrightarrow> reachable timely s'"

inductive_cases lock_stepE: "lock_step timely s s'"

text \<open>As long as no timer fires, the keys in the table are those of the tasks inside, once each.\<close>

definition exclusive :: "lock_system \<Rightarrow> bool" where
  "exclusive s \<longleftrightarrow> distinct (map snd (sy_holders s)) \<and> set (lt_held (sy_table s)) = snd ` set (sy_holders s)"

lemma try_acquire_Some:
  assumes "try_acquire key t = (Some l, t')"
  shows "l = MemoryLock (lt_nextTimer t) (lockKey key)" "lockKey key \<notin> set (lt_held t)"
    "lt_held t' = lockKey key # lt_held t"
  using assms by (auto simp: try_acquire_def split: if_splits)

lemma exclusive_step:
  assumes "lock_step True s s'" "exclusive s"
  shows "exclusive s'"
  using assms(1)
proof (cases rule: lock_step.cases)
  case (enter key i k t)
  then show ?thesis using assms(2) try_acquire_Some [OF enter(2)] by (auto simp: exclusive_def)
next
  case (leave i k)
  have d: "distinct (map snd (sy_holders s))" "set (lt_held (sy_table s)) = snd ` set (sy_holders s)"
    using assms(2) by (simp_all add: exclusive_def)
  have "(i, k) \<noteq> h \<longleftrightarrow> snd h \<noteq> k" if "h \<in> set (sy_holders s)" for h
    using that inj_onD [of snd "set (sy_holders s)" "(i, k)" h] d(1) leave(2) by (auto simp: distinct_map)
  then have r: "removeAll (i, k) (sy_holders s) = filter (\<lambda>h. snd h \<noteq> k) (sy_holders s)"
    unfolding removeAll_filter_not_eq by (rule filter_cong [OF refl])
  show ?thesis using d unfolding leave exclusive_def r
    by (auto simp: releaseLock_def distinct_map intro: inj_on_subset)
qed simp

lemma exclusive_reachable: "reachable True s \<Longrightarrow> exclusive s"
  by (induction rule: reachable.induct) (simp add: exclusive_def empty_table_def, rule exclusive_step)

section \<open>The interface of the lock service\<close>

text \<open>
  What a client relies on: a lock that was acquired is held, and giving a lock back does not touch the
  documents \<open>v\<close> reads.  Waiting for a lock may change anything, since other tasks run meanwhile.
\<close>

locale lock_provider =
  fixes acquire :: "string \<Rightarrow> ('s, 'l) run"
    and release :: "'l \<Rightarrow> 's \<Rightarrow> 's"
    and held :: "'s \<Rightarrow> string \<Rightarrow> bool"
    and v :: "'s \<Rightarrow> 'v"
  assumes acquire_held: "acquire key s = (Inr l, s') \<Longrightarrow> held s' key"
    and release_quiet: "v (release l s) = v s"

text \<open>The locks in memory as a service on a state that holds the table next to other data.\<close>

definition lock_run ::
    "(nat \<Rightarrow> lock_table \<Rightarrow> lock_table) \<Rightarrow> lock_options \<Rightarrow> string \<Rightarrow> (lock_table \<times> 'd, lock) run" where
  "lock_run others options key s =
     (let (r, t) = acquireLock False False (\<lambda>_. None) others key options (fst s) in (r, (t, snd s)))"

definition unlock_run :: "lock \<Rightarrow> lock_table \<times> 'd \<Rightarrow> lock_table \<times> 'd" where
  "unlock_run l s = (releaseLock (Some l) (fst s), snd s)"

definition key_held :: "lock_table \<times> 'd \<Rightarrow> string \<Rightarrow> bool" where
  "key_held s key \<longleftrightarrow> lockKey key \<in> set (lt_held (fst s))"

lemma acquireInMemoryLock_held:
  "acquireInMemoryLock others key n t = (Inr l, t') \<Longrightarrow> lockKey key \<in> set (lt_held t')"
  by (induction n arbitrary: t) (auto simp: try_acquire_def split: if_splits)

interpretation locks: lock_provider "lock_run others options" unlock_run key_held snd for others options
  by unfold_locales
    (auto simp: lock_run_def unlock_run_def key_held_def acquireLock_def Let_def acquireInMemoryLock_held split: prod.splits)

section \<open>The attempts\<close>

text \<open>
  The table an attempt finds when all attempts before it have found the key held: attempt \<open>k\<close> of \<open>n\<close>
  comes after \<open>k\<close> waits.  \<open>acquires_within n\<close> says of a result that it is that of at most \<open>n\<close> attempts: the
  first one that finds the key free takes it, and after \<open>n\<close> attempts that found it held comes the error.
\<close>

primrec table_at ::
    "(nat \<Rightarrow> lock_table \<Rightarrow> lock_table) \<Rightarrow> nat \<Rightarrow> lock_table \<Rightarrow> nat \<Rightarrow> lock_table" where
  "table_at others n t 0 = t"
| "table_at others n t (Suc k) = others (n - Suc k) (table_at others n t k)"

definition acquires_within ::
    "nat \<Rightarrow> (nat \<Rightarrow> lock_table \<Rightarrow> lock_table) \<Rightarrow> string \<Rightarrow> lock_table \<Rightarrow> (error + lock) \<times> lock_table \<Rightarrow> bool" where
  "acquires_within n others key t r \<longleftrightarrow>
     (let at_try = table_at others n t; busy = (\<lambda>k. lockKey key \<in> set (lt_held (at_try k)))
      in (\<exists>k<n. (\<forall>j<k. busy j) \<and> \<not> busy k \<and> fst r = Inr (MemoryLock (lt_nextTimer (at_try k)) (lockKey key))
            \<and> lt_held (snd r) = lockKey key # lt_held (at_try k)
            \<and> lt_timers (snd r) = (lt_nextTimer (at_try k), lockKey key) # lt_timers (at_try k))
         \<or> (\<forall>k<n. busy k) \<and> r = (Inl lock_timeout, at_try n))"

lemma table_at_Suc: "k \<le> n \<Longrightarrow> table_at others (Suc n) t (Suc k) = table_at others n (others n t) k"
  by (induction k) simp_all

lemma acquires_within_later:
  assumes "lockKey key \<in> set (lt_held t)" "acquires_within n others key (others n t) r"
  shows "acquires_within (Suc n) others key t r"
proof -
  have step: "table_at others n (others n t) k = table_at others (Suc n) t (Suc k)" if "k \<le> n" for k
    using table_at_Suc [OF that] by simp
  show ?thesis
  proof (cases "\<forall>k<n. lockKey key \<in> set (lt_held (table_at others n (others n t) k))")
    case True
    then have "lockKey key \<in> set (lt_held (table_at others (Suc n) t k))" if "k < Suc n" for k
      using assms(1) that step by (cases k) (auto simp: less_eq_Suc_le simp del: table_at.simps(2))
    then show ?thesis using assms(2) True step [of n]
      by (auto simp: acquires_within_def Let_def simp del: table_at.simps(2))
  next
    case False
    then obtain k where k: "k < n" "\<forall>j<k. lockKey key \<in> set (lt_held (table_at others n (others n t) j))"
        "lockKey key \<notin> set (lt_held (table_at others n (others n t) k))"
        "fst r = Inr (MemoryLock (lt_nextTimer (table_at others n (others n t) k)) (lockKey key))"
        "lt_held (snd r) = lockKey key # lt_held (table_at others n (others n t) k)"
        "lt_timers (snd r) = (lt_nextTimer (table_at others n (others n t) k), lockKey key) # lt_timers (table_at others n (others n t) k)"
      using assms(2) by (auto simp: acquires_within_def Let_def)
    have "lockKey key \<in> set (lt_held (table_at others (Suc n) t j))" if "j < Suc k" for j
      using k(1,2) assms(1) that step by (cases j) (auto simp: less_eq_Suc_le simp del: table_at.simps(2))
    then show ?thesis using k step [of k] unfolding acquires_within_def Let_def
      by (intro disjI1 exI [of _ "Suc k"]) (simp del: table_at.simps(2))
  qed
qed

lemma acquires_within_memory: "acquires_within n others key t (acquireInMemoryLock others key n t)"
proof (induction n arbitrary: t)
  case (Suc n)
  show ?case
  proof (cases "lockKey key \<in> set (lt_held t)")
    case True
    then show ?thesis using acquires_within_later [OF True Suc] by (simp add: try_acquire_def)
  next
    case False
    then show ?thesis unfolding acquires_within_def Let_def
      by (intro disjI1 exI [of _ 0]) (simp add: try_acquire_def)
  qed
qed (simp add: acquires_within_def)

section \<open>Properties\<close>

text \<open>
  C35: mutual exclusion.  As long as every task leaves its region before its lock expires, two
  tasks are never inside with the same key, and while one is inside no other acquires the key.
\<close>

theorem lock_mutual_exclusion:
  assumes "reachable True s" "(i, k) \<in> set (sy_holders s)"
  shows "((j, k) \<in> set (sy_holders s) \<longrightarrow> j = i) \<and> (lockKey key = k \<longrightarrow> fst (try_acquire key (sy_table s)) = None)"
  using exclusive_reachable [OF assms(1)] assms(2)
  by (auto simp: exclusive_def try_acquire_def distinct_map inj_on_def image_iff) force+

theorem lock_mutual_exclusion_witness: "fst (try_acquire ''a'' (snd (try_acquire ''a'' empty_table))) = None"
proof -
  let ?s = "\<lparr>sy_table = snd (try_acquire ''a'' empty_table), sy_holders = [(0, lockKey ''a'')]\<rparr>"
  have "lock_step True \<lparr>sy_table = empty_table, sy_holders = []\<rparr> ?s"
    using enter [of "''a''" "\<lparr>sy_table = empty_table, sy_holders = []\<rparr>" 0 "lockKey ''a''" "sy_table ?s"]
    by (simp add: try_acquire_def empty_table_def)
  then have "reachable True ?s" using reachable.start reachable.next_step by metis
  from lock_mutual_exclusion [OF this, of 0 "lockKey ''a''" 0 "''a''"] show ?thesis by simp
qed

text \<open>
  C36: acquiring returns.  When Redis is not configured and not required, or memory is allowed in its
  place, the acquisition returns after at most the number of attempts of its options, 15 by default:
  the first attempt that finds the key free takes it and starts its timer, and when all of them have
  found it held, the timeout error comes with the table as the last wait left it.  This holds for every
  behaviour of the other tasks during the waits.
\<close>

theorem acquire_ends:
  assumes "isRedisRequired \<Longrightarrow> lo_allowMemoryFallback options"
  shows "acquires_within (lo_retryCount options) others key t (acquireLock False isRedisRequired redlock others key options t)
    \<and> acquires_within 15 others key t (acquireLock False False redlock others key default_lock_options t)"
  using assms acquires_within_memory by (auto simp: acquireLock_def default_lock_options_def)

theorem acquire_ends_witness:
  "acquires_within 20 (\<lambda>_. id) ''k'' empty_table
     (acquireLock False True (\<lambda>_. None) (\<lambda>_. id) ''k'' \<lparr>lo_retryCount = 20, lo_allowMemoryFallback = True\<rparr> empty_table)"
  using acquire_ends [of True "\<lparr>lo_retryCount = 20, lo_allowMemoryFallback = True\<rparr>" "\<lambda>_. id" "''k''" empty_table "\<lambda>_. None"]
  by simp

text \<open>
  a late release frees the lock of another task.  After a lock has expired and a second task has
  acquired the key, the release by the first task lets a third one in, while the timer of the second
  task is still pending.
\<close>

theorem late_release_admits_two:
  "\<exists>s i j. reachable False s \<and> i \<noteq> j \<and> (i, lockKey key) \<in> set (sy_holders s) \<and> (j, lockKey key) \<in> set (sy_holders s)
     \<and> (i, lockKey key) \<in> set (lt_timers (sy_table s)) \<and> (j, lockKey key) \<in> set (lt_timers (sy_table s))"
proof -
  let ?k = "lockKey key"
  define s1 where "s1 = \<lparr>sy_table = \<lparr>lt_held = [?k], lt_timers = [(0, ?k)], lt_nextTimer = 1\<rparr>, sy_holders = [(0, ?k)]\<rparr>"
  define s2 where "s2 = \<lparr>sy_table = \<lparr>lt_held = [], lt_timers = [], lt_nextTimer = 1\<rparr>, sy_holders = [(0, ?k)]\<rparr>"
  define s3 where "s3 = \<lparr>sy_table = \<lparr>lt_held = [?k], lt_timers = [(1, ?k)], lt_nextTimer = 2\<rparr>, sy_holders = [(1, ?k), (0, ?k)]\<rparr>"
  define s4 where "s4 = \<lparr>sy_table = \<lparr>lt_held = [], lt_timers = [(1, ?k)], lt_nextTimer = 2\<rparr>, sy_holders = [(1, ?k)]\<rparr>"
  define s5 where "s5 = \<lparr>sy_table = \<lparr>lt_held = [?k], lt_timers = [(2, ?k), (1, ?k)], lt_nextTimer = 3\<rparr>,
    sy_holders = [(2, ?k), (1, ?k)]\<rparr>"
  have "lock_step False \<lparr>sy_table = empty_table, sy_holders = []\<rparr> s1"
    using enter [of key "\<lparr>sy_table = empty_table, sy_holders = []\<rparr>" 0 ?k "sy_table s1"]
    by (simp add: s1_def try_acquire_def empty_table_def)
  moreover have "lock_step False s1 s2"
    using expire [of False s1 0] by (simp add: s1_def s2_def timer_fires_def)
  moreover have "lock_step False s2 s3"
    using enter [of key s2 1 ?k "sy_table s3"] by (simp add: s2_def s3_def try_acquire_def numeral_2_eq_2)
  moreover have "lock_step False s3 s4"
    using leave [of 0 ?k s3] by (simp add: s3_def s4_def releaseLock_def)
  moreover have "lock_step False s4 s5"
    using enter [of key s4 2 ?k "sy_table s5"] by (simp add: s4_def s5_def try_acquire_def numeral_3_eq_3 numeral_2_eq_2)
  ultimately have "reachable False s5" using reachable.start reachable.next_step by metis
  then show ?thesis
    by (intro exI [of _ s5] exI [of _ 1] exI [of _ 2]) (simp add: s5_def)
qed

end
