(* ===== verification/Transfer_Cooldown.thy ===== *)
theory Transfer_Cooldown
  imports Js_Json Lock_Service
begin

text \<open>
  The cooldown between transfers to one recipient: services/transferCooldownService.js.  Earlier transfers are
  a collection, the hash of a lock key and the lock service are parameters, and the clock is an argument.
  The Arabic text of an error is left out; its kind, the amount it names and its retry time are kept.
\<close>

section \<open>Recipients and amounts\<close>

definition arabic_digits :: "(string \<times> string) list" where
  "arabic_digits = map (\<lambda>n. (utf8 [217, 160 + n], [char_of (48 + n)])) [0 ..< 10]"

text \<open>\<open>replace(/[\s\-()./\\]+/g, '')\<close>.\<close>

definition separators :: "(string \<times> string) list" where
  "separators = map (\<lambda>sp. (sp, [])) (js_spaces @ [''-'', ''('', '')'', ''.'', ''/'', [CHR 0x5C]])"

definition strip_plus :: "string \<Rightarrow> string" where
  "strip_plus s = (case s of c # cs \<Rightarrow> if c = CHR ''+'' then cs else s | [] \<Rightarrow> [])"

definition egyptian_mobile :: "string \<Rightarrow> bool" where
  "egyptian_mobile s \<longleftrightarrow> all_in is_digit 10 10 s \<and> has_prefix ''1'' s"

definition canonical_digits :: "string \<Rightarrow> string" where
  "canonical_digits digits =
     (if has_prefix ''0020'' digits \<and> egyptian_mobile (drop 4 digits) then CHR ''0'' # drop 4 digits
      else if has_prefix ''20'' digits \<and> egyptian_mobile (drop 2 digits) then CHR ''0'' # drop 2 digits
      else digits)"

definition normalizeTransferRecipient :: "jsval \<Rightarrow> string" where
  "normalizeTransferRecipient v =
     (let t = trim (toString (coalesce v (Str []))); raw = replace_all arabic_digits (length t) t
      in if raw = [] then []
         else let compact = replace_all separators (length raw) raw; digits = strip_plus compact
              in if digits = [] \<or> \<not> list_all is_digit digits then toUpperCase compact
                 else canonical_digits digits)"

definition normalizeTransferAmount :: "jsval \<Rightarrow> jsnum option" where
  "normalizeTransferAmount v = (let amount = toNumber v in
     if \<not> isFinite amount \<or> n_le amount (Fin 0) then None else Some (n_fixed 3 amount))"

definition normalizeServiceKey :: "jsval \<Rightarrow> string" where
  "normalizeServiceKey v = toLowerCase (clean v)"

definition context_invalid :: error where
  "context_invalid = plain_error ''TRANSFER_COOLDOWN_CONTEXT_INVALID''"

definition buildRequestOwnerKey :: "jsval \<Rightarrow> jsval \<Rightarrow> error + string" where
  "buildRequestOwnerKey modelName i =
     (if clean modelName = [] \<or> clean i = [] then Inl context_invalid
      else Inr (''wallet:'' @ clean modelName @ '':'' @ clean i))"

definition buildCooldownLockKey :: "(string \<Rightarrow> string) \<Rightarrow> string \<Rightarrow> string \<Rightarrow> string \<Rightarrow> string" where
  "buildCooldownLockKey sha256 requestOwnerKey canonicalServiceKey canonicalRecipient =
     ''transfer-cooldown:'' @ sha256 (stringify (Obj [(''requestOwnerKey'', Str requestOwnerKey),
        (''canonicalServiceKey'', Str canonicalServiceKey), (''canonicalRecipient'', Str canonicalRecipient)]))"

section \<open>The cooldown\<close>

definition SAME_AMOUNT_COOLDOWN_MS :: int where
  "SAME_AMOUNT_COOLDOWN_MS = 5 * 60 * 1000"

definition DIFFERENT_AMOUNT_COOLDOWN_MS :: int where
  "DIFFERENT_AMOUNT_COOLDOWN_MS = 2 * 60 * 1000"

definition BLOCKING_STATUSES :: "string list" where
  "BLOCKING_STATUSES = [''pending'', ''processing'', ''accepted'', ''completed'']"

record cooldown_tx =
  ct_requestOwnerKey :: string
  ct_canonicalServiceKey :: string
  ct_canonicalRecipient :: string
  ct_status :: string
  ct_amount :: jsnum
  ct_createdAt :: int

record guard_fields =
  gf_requestOwnerKey :: string
  gf_canonicalServiceKey :: string
  gf_canonicalRecipient :: string

datatype cooldown_type = Same_amount | Different_amount | In_progress

text \<open>A \<open>TransferCooldownError\<close> is a left value of the result of a call; other errors are thrown.\<close>

record cooldown_error =
  ce_code :: string
  ce_cooldownType :: cooldown_type
  ce_retryAfterSeconds :: int
  ce_retryAt :: int

definition isSameAmount :: "jsnum \<Rightarrow> jsnum \<Rightarrow> bool" where
  "isSameAmount left right \<longleftrightarrow> n_fixed 3 left = n_fixed 3 right"

definition getRetryDetails :: "cooldown_tx \<Rightarrow> int \<Rightarrow> int \<Rightarrow> (int \<times> int) option" where
  "getRetryDetails tx cooldownMs now =
     (let retryAtMs = ct_createdAt tx + cooldownMs
      in if retryAtMs \<le> now then None
         else Some (max 1 (- ((now - retryAtMs) div 1000)), retryAtMs))"

text \<open>\<open>findOne\<close> sorted by descending time of creation.\<close>

definition newest :: "cooldown_tx list \<Rightarrow> cooldown_tx option" where
  "newest ds = (case ds of [] \<Rightarrow> None
     | d # ds' \<Rightarrow> Some (fold (\<lambda>x m. if ct_createdAt m < ct_createdAt x then x else m) ds' d))"

definition findLatestMatchingTransaction ::
    "('s, cooldown_tx) coll \<Rightarrow> (cooldown_tx \<Rightarrow> bool) \<Rightarrow> ('s, cooldown_tx option) run" where
  "findLatestMatchingTransaction txs p = bind (c_findMany txs p) (\<lambda>ds. ret (newest ds))"

definition base_filter :: "guard_fields \<Rightarrow> cooldown_tx \<Rightarrow> bool" where
  "base_filter g tx \<longleftrightarrow> ct_requestOwnerKey tx = gf_requestOwnerKey g
     \<and> ct_canonicalServiceKey tx = gf_canonicalServiceKey g
     \<and> ct_canonicalRecipient tx = gf_canonicalRecipient g \<and> ct_status tx \<in> set BLOCKING_STATUSES"

definition exact_filter :: "guard_fields \<Rightarrow> jsnum \<Rightarrow> int \<Rightarrow> cooldown_tx \<Rightarrow> bool" where
  "exact_filter g amount now tx \<longleftrightarrow> base_filter g tx \<and> ct_amount tx = amount
     \<and> now - SAME_AMOUNT_COOLDOWN_MS \<le> ct_createdAt tx"

definition different_filter :: "guard_fields \<Rightarrow> jsnum \<Rightarrow> int \<Rightarrow> cooldown_tx \<Rightarrow> bool" where
  "different_filter g amount now tx \<longleftrightarrow> base_filter g tx \<and> ct_amount tx \<noteq> amount
     \<and> now - DIFFERENT_AMOUNT_COOLDOWN_MS \<le> ct_createdAt tx"

definition createCooldownError :: "cooldown_type \<Rightarrow> int \<times> int \<Rightarrow> cooldown_error" where
  "createCooldownError ty retry = \<lparr>ce_code = ''TRANSFER_COOLDOWN_ACTIVE'', ce_cooldownType = ty,
     ce_retryAfterSeconds = fst retry, ce_retryAt = snd retry\<rparr>"

definition lock_busy :: "int \<Rightarrow> cooldown_error" where
  "lock_busy now = \<lparr>ce_code = ''TRANSFER_COOLDOWN_LOCK_TIMEOUT'', ce_cooldownType = In_progress,
     ce_retryAfterSeconds = 2, ce_retryAt = now + 2000\<rparr>"

definition retry_of :: "cooldown_tx option \<Rightarrow> (cooldown_tx \<Rightarrow> bool) \<Rightarrow> int \<Rightarrow> int \<Rightarrow> (int \<times> int) option" where
  "retry_of found ok cooldownMs now = (case found of None \<Rightarrow> None
     | Some tx \<Rightarrow> if ok tx then getRetryDetails tx cooldownMs now else None)"

definition check_cooldown ::
    "('s, cooldown_tx) coll \<Rightarrow> guard_fields \<Rightarrow> jsnum \<Rightarrow> int \<Rightarrow> ('s, cooldown_error option) run" where
  "check_cooldown txs g amount now =
     bind (findLatestMatchingTransaction txs (exact_filter g amount now)) (\<lambda>exactMatch.
       case retry_of exactMatch (\<lambda>tx. isSameAmount (ct_amount tx) amount) SAME_AMOUNT_COOLDOWN_MS now of
         Some retry \<Rightarrow> ret (Some (createCooldownError Same_amount retry))
       | None \<Rightarrow> bind (findLatestMatchingTransaction txs (different_filter g amount now)) (\<lambda>differentMatch.
           ret (map_option (createCooldownError Different_amount)
             (retry_of differentMatch (\<lambda>tx. \<not> isSameAmount (ct_amount tx) amount) DIFFERENT_AMOUNT_COOLDOWN_MS now))))"

definition request_owner :: "jsval \<Rightarrow> jsval \<Rightarrow> jsval \<Rightarrow> error + string" where
  "request_owner ownerKey ownerModel ownerId =
     (if truthy ownerKey then Inr (toString ownerKey) else buildRequestOwnerKey ownerModel ownerId)"

text \<open>
  \<open>acquire key\<close> and \<open>release lock\<close> are the lock service; the lock is given back whenever the call does
  not return it.
\<close>

definition acquireTransferCooldown ::
    "(string \<Rightarrow> string) \<Rightarrow> (string \<Rightarrow> ('s, 'l) run) \<Rightarrow> ('l \<Rightarrow> 's \<Rightarrow> 's) \<Rightarrow> ('s, cooldown_tx) coll
      \<Rightarrow> jsval \<Rightarrow> jsval \<Rightarrow> jsval \<Rightarrow> jsval \<Rightarrow> jsval \<Rightarrow> jsval \<Rightarrow> int
      \<Rightarrow> ('s, cooldown_error + 'l \<times> guard_fields) run" where
  "acquireTransferCooldown sha256 acquire release txs ownerKey ownerModel ownerId serviceKey recipient amount now =
     bind (of_result (request_owner ownerKey ownerModel ownerId))
      (\<lambda>owner. let g = \<lparr>gf_requestOwnerKey = owner, gf_canonicalServiceKey = normalizeServiceKey serviceKey,
                      gf_canonicalRecipient = normalizeTransferRecipient recipient\<rparr>
        in case normalizeTransferAmount amount of
             None \<Rightarrow> throw context_invalid
           | Some normalizedAmount \<Rightarrow>
             if gf_canonicalServiceKey g = [] \<or> gf_canonicalRecipient g = [] then throw context_invalid
             else bind (catch (bind (acquire (buildCooldownLockKey sha256 owner (gf_canonicalServiceKey g) (gf_canonicalRecipient g)))
                                  (\<lambda>l. ret (Some l)))
                          (\<lambda>_. ret None))
               (\<lambda>acquired. case acquired of
                  None \<Rightarrow> ret (Inl (lock_busy now))
                | Some lock \<Rightarrow>
                    bind (catch (check_cooldown txs g normalizedAmount now)
                            (\<lambda>err s. (Inl err, release lock s)))
                      (\<lambda>blocked s. case blocked of
                         None \<Rightarrow> (Inr (Inr (lock, g)), s)
                       | Some e \<Rightarrow> (Inr (Inl e), release lock s))))"

definition releaseTransferCooldown :: "('l \<Rightarrow> 's \<Rightarrow> 's) \<Rightarrow> 'l \<Rightarrow> 's \<Rightarrow> 's" where
  "releaseTransferCooldown release lock = release lock"

section \<open>The newest document\<close>

lemma newest_fold:
  "ct_createdAt d \<le> ct_createdAt (fold (\<lambda>x m. if ct_createdAt m < ct_createdAt x then x else m) ds d)
   \<and> (\<forall>x \<in> set ds. ct_createdAt x \<le> ct_createdAt (fold (\<lambda>x m. if ct_createdAt m < ct_createdAt x then x else m) ds d))
   \<and> fold (\<lambda>x m. if ct_createdAt m < ct_createdAt x then x else m) ds d \<in> set (d # ds)"
proof (induction ds arbitrary: d)
  case (Cons y ds)
  let ?d = "if ct_createdAt d < ct_createdAt y then y else d"
  show ?case using Cons [of ?d] by (auto split: if_splits)
qed simp

lemma newest_None: "newest ds = None \<longleftrightarrow> ds = []"
  by (simp add: newest_def split: list.split)

lemma newest_Some:
  assumes "newest ds = Some d"
  shows "d \<in> set ds" "x \<in> set ds \<Longrightarrow> ct_createdAt x \<le> ct_createdAt d"
  using assms newest_fold by (auto simp: newest_def split: list.splits)

lemma latest_spec:
  assumes "coll_ok txs" "findLatestMatchingTransaction txs p s = (Inr r, s')"
  shows "c_view txs s' = c_view txs s"
    and "r = None \<Longrightarrow> c_view txs s i = Some tx \<Longrightarrow> \<not> p tx"
    and "r = Some d \<Longrightarrow> p d \<and> (\<exists>i. c_view txs s i = Some d)"
    and "r = Some d \<Longrightarrow> c_view txs s i = Some tx \<Longrightarrow> p tx \<Longrightarrow> ct_createdAt tx \<le> ct_createdAt d"
proof -
  obtain ds where ds: "c_findMany txs p s = (Inr ds, s')" "r = newest ds"
    using assms(2) unfolding findLatestMatchingTransaction_def by (auto elim!: bind_InrE)
  show "c_view txs s' = c_view txs s" using c_findMany_view [OF assms(1) ds(1)] .
  obtain "is" where is': "ds = map (\<lambda>i. the (c_view txs s i)) is"
    "\<And>i. i \<in> set is \<longleftrightarrow> (\<exists>d. c_view txs s i = Some d \<and> p d)"
    using c_findMany_docs [OF assms(1) ds(1)] by metis
  have mem: "x \<in> set ds \<longleftrightarrow> p x \<and> (\<exists>i. c_view txs s i = Some x)" for x
    unfolding is'(1) set_map image_iff Bex_def is'(2) by force
  show "r = None \<Longrightarrow> c_view txs s i = Some tx \<Longrightarrow> \<not> p tx" using ds(2) mem newest_None [of ds] by auto
  show "r = Some d \<Longrightarrow> p d \<and> (\<exists>i. c_view txs s i = Some d)" using ds(2) mem newest_Some(1) [of ds d] by auto
  show "r = Some d \<Longrightarrow> c_view txs s i = Some tx \<Longrightarrow> p tx \<Longrightarrow> ct_createdAt tx \<le> ct_createdAt d"
    using ds(2) mem newest_Some(2) [of ds d tx] by auto
qed

section \<open>What a cooldown guarantees\<close>

text \<open>
  How long a stored transaction blocks a new one of a given amount, written without the filters of the
  code: five minutes for the same amount, two for another one, as long as it has not failed.
\<close>

definition cooldown_of :: "jsnum \<Rightarrow> cooldown_tx \<Rightarrow> int" where
  "cooldown_of amount tx = (if ct_amount tx = amount then 300000 else 120000)"

definition blocks :: "guard_fields \<Rightarrow> jsnum \<Rightarrow> int \<Rightarrow> cooldown_tx \<Rightarrow> bool" where
  "blocks g amount now tx \<longleftrightarrow> ct_requestOwnerKey tx = gf_requestOwnerKey g
     \<and> ct_canonicalServiceKey tx = gf_canonicalServiceKey g \<and> ct_canonicalRecipient tx = gf_canonicalRecipient g
     \<and> ct_status tx \<in> {''pending'', ''processing'', ''accepted'', ''completed''}
     \<and> now < ct_createdAt tx + cooldown_of amount tx"

lemma blocks_filter: "blocks g amount now tx \<longleftrightarrow> base_filter g tx \<and> now < ct_createdAt tx + cooldown_of amount tx"
  by (simp add: blocks_def base_filter_def BLOCKING_STATUSES_def)

lemma cooldown_constants:
  "cooldown_of amount tx = (if ct_amount tx = amount then SAME_AMOUNT_COOLDOWN_MS else DIFFERENT_AMOUNT_COOLDOWN_MS)"
  by (simp add: cooldown_of_def SAME_AMOUNT_COOLDOWN_MS_def DIFFERENT_AMOUNT_COOLDOWN_MS_def)

lemma getRetry_iff:
  "getRetryDetails tx c now = None \<longleftrightarrow> ct_createdAt tx + c \<le> now"
  "getRetryDetails tx c now = Some (sec, t) \<Longrightarrow>
     t = ct_createdAt tx + c \<and> now < t \<and> 1 \<le> sec \<and> t \<le> now + 1000 * sec \<and> now + 1000 * (sec - 1) < t"
  by (auto simp: getRetryDetails_def Let_def split: if_splits)

text \<open>The error names the transaction's end of blocking and the seconds until then, rounded up.\<close>

definition reports :: "jsnum \<Rightarrow> int \<Rightarrow> cooldown_error \<Rightarrow> cooldown_tx \<Rightarrow> bool" where
  "reports a now e tx \<longleftrightarrow> ce_code e = ''TRANSFER_COOLDOWN_ACTIVE'' \<and> ce_retryAt e = ct_createdAt tx + cooldown_of a tx
     \<and> ce_retryAt e \<le> now + 1000 * ce_retryAfterSeconds e \<and> now + 1000 * (ce_retryAfterSeconds e - 1) < ce_retryAt e"

lemma retry_reports:
  assumes "getRetryDetails tx c now = Some retry" "c = cooldown_of a tx" "base_filter g tx"
  shows "blocks g a now tx \<and> reports a now (createCooldownError ty retry) tx"
  using getRetry_iff(2) [of tx c now "fst retry" "snd retry"] assms
  by (simp add: blocks_filter reports_def createCooldownError_def)

lemma check_cooldown_result:
  assumes ok: "coll_ok txs" and run: "check_cooldown txs g a now s = (Inr r, s')"
    and dec: "n_fixed 3 a = a" "\<And>i tx. c_view txs s i = Some tx \<Longrightarrow> n_fixed 3 (ct_amount tx) = ct_amount tx"
  shows "c_view txs s' = c_view txs s \<and>
    (case r of None \<Rightarrow> (\<forall>i tx. c_view txs s i = Some tx \<longrightarrow> \<not> blocks g a now tx)
     | Some e \<Rightarrow> (\<exists>i tx. c_view txs s i = Some tx \<and> blocks g a now tx \<and> reports a now e tx))"
proof -
  let ?d1 = SAME_AMOUNT_COOLDOWN_MS and ?d2 = DIFFERENT_AMOUNT_COOLDOWN_MS
  have same: "isSameAmount (ct_amount tx) a \<longleftrightarrow> ct_amount tx = a" if "c_view txs s i = Some tx" for i tx
    using dec that by (auto simp: isSameAmount_def)
  obtain m1 s1 where 1: "findLatestMatchingTransaction txs (exact_filter g a now) s = (Inr m1, s1)"
    and r1: "(case retry_of m1 (\<lambda>tx. isSameAmount (ct_amount tx) a) ?d1 now of
         Some retry \<Rightarrow> ret (Some (createCooldownError Same_amount retry))
       | None \<Rightarrow> bind (findLatestMatchingTransaction txs (different_filter g a now)) (\<lambda>m2.
           ret (map_option (createCooldownError Different_amount)
             (retry_of m2 (\<lambda>tx. \<not> isSameAmount (ct_amount tx) a) ?d2 now)))) s1 = (Inr r, s')"
    using run unfolding check_cooldown_def by (elim bind_InrE)
  note L1 = latest_spec [OF ok 1]
  show ?thesis
  proof (cases "retry_of m1 (\<lambda>tx. isSameAmount (ct_amount tx) a) ?d1 now")
    case (Some retry)
    then obtain tx where tx: "m1 = Some tx" "isSameAmount (ct_amount tx) a" "getRetryDetails tx ?d1 now = Some retry"
      by (auto simp: retry_of_def split: option.splits if_splits)
    obtain i where i: "exact_filter g a now tx" "c_view txs s i = Some tx" using L1(3) [OF tx(1)] by blast
    have "blocks g a now tx \<and> reports a now (createCooldownError Same_amount retry) tx"
      using i by (intro retry_reports [OF tx(3)]) (simp_all add: exact_filter_def cooldown_constants)
    then show ?thesis using r1 Some i(2) L1(1) by (auto intro!: exI [of _ i] exI [of _ tx])
  next
    case None
    have free1: "\<not> blocks g a now tx" if v: "c_view txs s i = Some tx" "ct_amount tx = a" for i tx
    proof
      assume b: "blocks g a now tx"
      then have e: "exact_filter g a now tx" using v by (simp add: blocks_filter exact_filter_def cooldown_constants)
      then obtain d where d: "m1 = Some d" using L1(2) [OF _ v(1)] by (cases m1) auto
      obtain j where j: "exact_filter g a now d" "c_view txs s j = Some d" using L1(3) [OF d] by blast
      have "ct_createdAt tx \<le> ct_createdAt d" using L1(4) [OF d v(1) e] .
      moreover have "getRetryDetails d ?d1 now = None"
        using None d same [OF j(2)] j(1) by (simp add: retry_of_def exact_filter_def)
      ultimately show False using b v(2) by (simp add: getRetry_iff(1) blocks_filter cooldown_constants)
    qed
    obtain m2 where 2: "findLatestMatchingTransaction txs (different_filter g a now) s1 = (Inr m2, s')"
      and r: "r = map_option (createCooldownError Different_amount) (retry_of m2 (\<lambda>tx. \<not> isSameAmount (ct_amount tx) a) ?d2 now)"
      using r1 None by (auto elim!: bind_InrE)
    note L2 = latest_spec [OF ok 2, unfolded L1(1)]
    show ?thesis
    proof (cases "retry_of m2 (\<lambda>tx. \<not> isSameAmount (ct_amount tx) a) ?d2 now")
      case (Some retry)
      then obtain tx where tx: "m2 = Some tx" "getRetryDetails tx ?d2 now = Some retry"
        by (auto simp: retry_of_def split: option.splits if_splits)
      obtain i where i: "different_filter g a now tx" "c_view txs s i = Some tx" using L2(3) [OF tx(1)] by blast
      have "blocks g a now tx \<and> reports a now (createCooldownError Different_amount retry) tx"
        using i by (intro retry_reports [OF tx(2)]) (simp_all add: different_filter_def cooldown_constants)
      then show ?thesis using r Some i(2) L2(1) by (auto intro!: exI [of _ i] exI [of _ tx])
    next
      case None
      have "\<not> blocks g a now tx" if v: "c_view txs s i = Some tx" "ct_amount tx \<noteq> a" for i tx
      proof
        assume b: "blocks g a now tx"
        then have e: "different_filter g a now tx" using v by (simp add: blocks_filter different_filter_def cooldown_constants)
        then obtain d where d: "m2 = Some d" using L2(2) [OF _ v(1)] by (cases m2) auto
        obtain j where j: "different_filter g a now d" "c_view txs s j = Some d" using L2(3) [OF d] by blast
        have "ct_createdAt tx \<le> ct_createdAt d" using L2(4) [OF d v(1) e] .
        moreover have "getRetryDetails d ?d2 now = None"
          using None d same [OF j(2)] j(1) by (simp add: retry_of_def different_filter_def)
        ultimately show False using b v(2) by (simp add: getRetry_iff(1) blocks_filter cooldown_constants)
      qed
      then show ?thesis using r None free1 L2(1) by auto
    qed
  qed
qed

lemma digits_patterns: "\<forall>(a, _) \<in> set (arabic_digits @ separators). a \<noteq> [] \<and> \<not> is_digit (hd a) \<and> hd a \<noteq> CHR ''+''"
  by code_simp

lemma digits_recipient:
  assumes s: "s \<noteq> []" "\<forall>c \<in> set s. is_digit c \<or> c = CHR ''+''" "list_all is_digit (strip_plus s)" "strip_plus s \<noteq> []"
  shows "normalizeTransferRecipient (Str s) = canonical_digits (strip_plus s)"
proof -
  have "is_graph c" if "is_digit c \<or> c = CHR ''+''" for c
    using that is_graphI(1) by (auto simp: is_graph_def)
  then have "trim s = s" using s(1,2) by (intro trim_graph) auto
  moreover have "replace_all arabic_digits (length s) s = s" "replace_all separators (length s) s = s"
    using digits_patterns s(2) by (intro replace_all_id; fastforce)+
  ultimately show ?thesis using s by (simp add: normalizeTransferRecipient_def coalesce_def nullish_def Let_def)
qed

section \<open>Properties\<close>

text \<open>
  C34: the cooldown is exact.  Suppose that the stored amounts have three decimals, as the schema
  keeps them, and that the amount asked for is below 2 to the 40.  A call whose lock cannot be acquired
  is refused as busy.  Otherwise a call that returns the lock has found no blocking transaction of the
  same wallet, service and recipient: none of the same amount in the last five minutes and none of
  another amount in the last two; and a call that is refused names one that is stored, with the time it
  stops blocking and the seconds until then.
\<close>

theorem cooldown_exact:
  assumes ok: "coll_ok txs" and locks: "lock_provider acquire release held (c_view txs)" and small: "below (2 ^ 40) amount"
    and dec: "\<forall>i tx. c_view txs s' i = Some tx \<longrightarrow> n_fixed 3 (ct_amount tx) = ct_amount tx"
    and run: "acquireTransferCooldown sha256 acquire release txs ownerKey ownerModel ownerId serviceKey recipient amount now s
      = (Inr result, s')"
  shows "\<exists>a g. normalizeTransferAmount amount = Some a
    \<and> request_owner ownerKey ownerModel ownerId = Inr (gf_requestOwnerKey g)
    \<and> gf_canonicalServiceKey g = normalizeServiceKey serviceKey
    \<and> gf_canonicalRecipient g = normalizeTransferRecipient recipient
    \<and> (case fst (acquire (buildCooldownLockKey sha256 (gf_requestOwnerKey g) (gf_canonicalServiceKey g) (gf_canonicalRecipient g)) s) of
         Inl _ \<Rightarrow> result = Inl (lock_busy now)
       | Inr l \<Rightarrow> (case result of
           Inr (lock, g') \<Rightarrow> lock = l \<and> g' = g \<and> (\<forall>i tx. c_view txs s' i = Some tx \<longrightarrow> \<not> blocks g a now tx)
         | Inl e \<Rightarrow> (\<exists>i tx. c_view txs s' i = Some tx \<and> blocks g a now tx \<and> reports a now e tx)))"
proof -
  obtain a where a: "normalizeTransferAmount amount = Some a"
    using run by (auto simp: acquireTransferCooldown_def Let_def split: option.splits elim!: bind_InrE)
  obtain owner where own: "request_owner ownerKey ownerModel ownerId = Inr owner" and run1: "(let g = \<lparr>gf_requestOwnerKey = owner, gf_canonicalServiceKey = normalizeServiceKey serviceKey,
        gf_canonicalRecipient = normalizeTransferRecipient recipient\<rparr> in
      if gf_canonicalServiceKey g = [] \<or> gf_canonicalRecipient g = [] then throw context_invalid
      else bind (catch (bind (acquire (buildCooldownLockKey sha256 owner (gf_canonicalServiceKey g) (gf_canonicalRecipient g)))
                                  (\<lambda>l. ret (Some l))) (\<lambda>_. ret None))
               (\<lambda>acquired. case acquired of None \<Rightarrow> ret (Inl (lock_busy now))
                | Some lock \<Rightarrow> bind (catch (check_cooldown txs g a now) (\<lambda>err s. (Inl err, release lock s)))
                      (\<lambda>blocked s. case blocked of None \<Rightarrow> (Inr (Inr (lock, g)), s)
                       | Some e \<Rightarrow> (Inr (Inl e), release lock s)))) s = (Inr result, s')"
    using run unfolding acquireTransferCooldown_def Let_def
    by (elim bind_InrE) (auto simp: a of_result_def run_simps split: sum.splits)
  define g where "g = \<lparr>gf_requestOwnerKey = owner, gf_canonicalServiceKey = normalizeServiceKey serviceKey,
        gf_canonicalRecipient = normalizeTransferRecipient recipient\<rparr>"
  have dec_a: "n_fixed 3 a = a"
  proof -
    obtain x where "toNumber amount = Fin x" "0 < x" "a = n_fixed 3 (Fin x)"
      using a by (cases "toNumber amount") (auto simp: normalizeTransferAmount_def Let_def split: if_splits)
    then show ?thesis using small n_fixed_idem [of x 3] by (simp add: below_def)
  qed
  note unlocked = lock_provider.release_quiet [OF locks]
  obtain acquired s1 where 1: "catch (bind (acquire (buildCooldownLockKey sha256 owner (gf_canonicalServiceKey g)
      (gf_canonicalRecipient g))) (\<lambda>l. ret (Some l))) (\<lambda>_. ret None) s = (Inr acquired, s1)"
    and 2: "(case acquired of None \<Rightarrow> ret (Inl (lock_busy now))
        | Some lock \<Rightarrow> bind (catch (check_cooldown txs g a now) (\<lambda>err s. (Inl err, release lock s)))
              (\<lambda>blocked s. case blocked of None \<Rightarrow> (Inr (Inr (lock, g)), s)
               | Some e \<Rightarrow> (Inr (Inl e), release lock s))) s1 = (Inr result, s')"
    using run1 unfolding Let_def g_def [symmetric] by (auto split: if_splits elim!: bind_InrE)
  have res: "case fst (acquire (buildCooldownLockKey sha256 owner (gf_canonicalServiceKey g) (gf_canonicalRecipient g)) s) of
         Inl _ \<Rightarrow> result = Inl (lock_busy now)
       | Inr l \<Rightarrow> (case result of
           Inr (lock, g') \<Rightarrow> lock = l \<and> g' = g \<and> (\<forall>i tx. c_view txs s' i = Some tx \<longrightarrow> \<not> blocks g a now tx)
         | Inl e \<Rightarrow> (\<exists>i tx. c_view txs s' i = Some tx \<and> blocks g a now tx \<and> reports a now e tx))"
  proof (cases acquired)
    case None
    then show ?thesis using 1 2
      by (cases "acquire (buildCooldownLockKey sha256 owner (gf_canonicalServiceKey g) (gf_canonicalRecipient g)) s"
            rule: prod.exhaust) (auto simp: catch_run bind_def run_simps split: sum.splits)
  next
    case (Some lock)
    have l: "fst (acquire (buildCooldownLockKey sha256 owner (gf_canonicalServiceKey g) (gf_canonicalRecipient g)) s) = Inr lock"
      using 1 Some
      by (cases "acquire (buildCooldownLockKey sha256 owner (gf_canonicalServiceKey g) (gf_canonicalRecipient g)) s"
            rule: prod.exhaust) (auto simp: catch_run bind_def run_simps split: sum.splits)
    obtain blocked s2 where 3: "check_cooldown txs g a now s1 = (Inr blocked, s2)"
      and res: "result = (case blocked of None \<Rightarrow> Inr (lock, g) | Some e \<Rightarrow> Inl e)" "c_view txs s' = c_view txs s2"
      using 2 Some unlocked by (auto simp: catch_run split: prod.splits sum.splits option.splits elim!: bind_InrE)
    have "c_view txs s2 = c_view txs s1"
      using 3 latest_spec(1) [OF ok] unfolding check_cooldown_def
      by (auto split: option.splits elim!: bind_InrE)
    then show ?thesis
      using check_cooldown_result [OF ok 3 dec_a] dec res l by (cases blocked) simp_all
  qed
  show ?thesis using a own res by (intro exI [of _ a] exI [of _ g]) (simp add: g_def)
qed


text \<open>
  one recipient, one key.  The forms of an Egyptian mobile number, local, with the country code,
  with a plus sign or with the international prefix, are normalised to the local form.
\<close>

theorem recipient_forms:
  assumes "all_in is_digit 9 9 ds"
  shows "map (\<lambda>p. normalizeTransferRecipient (Str (p @ ''1'' @ ds))) [''0'', ''20'', ''+20'', ''0020'']
    = replicate 4 (''01'' @ ds)"
proof -
  have ds: "length ds = 9" "list_all is_digit ds" using assms by (simp_all add: all_in_def)
  have d: "is_digit (CHR ''0'')" "is_digit (CHR ''1'')" "is_digit (CHR ''2'')" "\<not> is_digit (CHR ''+'')" by code_simp+
  have m: "egyptian_mobile (CHR ''1'' # ds)" using ds d by (simp add: egyptian_mobile_def all_in_def)
  have n: "normalizeTransferRecipient (Str (p @ ''1'' @ ds)) = canonical_digits (strip_plus (p @ ''1'' @ ds))"
    if "p \<in> {''0'', ''20'', ''+20'', ''0020''}" for p
    using that ds d by (intro digits_recipient) (auto simp: strip_plus_def list_all_iff)
  have "canonical_digits (strip_plus (''0'' @ ''1'' @ ds)) = ''01'' @ ds"
    "canonical_digits (strip_plus (''20'' @ ''1'' @ ds)) = ''01'' @ ds"
    "canonical_digits (strip_plus (''+20'' @ ''1'' @ ds)) = ''01'' @ ds"
    "canonical_digits (strip_plus (''0020'' @ ''1'' @ ds)) = ''01'' @ ds"
    using m by (simp_all add: canonical_digits_def strip_plus_def)
  then show ?thesis using n [of "''0''"] n [of "''20''"] n [of "''+20''"] n [of "''0020''"] by (simp add: numeral_eq_Suc)
qed

theorem recipient_forms_witness:
  "map (\<lambda>p. normalizeTransferRecipient (Str (p @ ''1'' @ ''012345678''))) [''0'', ''20'', ''+20'', ''0020'']
    = replicate 4 (''01'' @ ''012345678'')"
  by (rule recipient_forms) code_simp

text \<open>
  one lock per context.  If the hash has no collision, two calls contend for the same lock exactly
  when wallet, service and recipient agree: no choice of strings confuses two contexts.
\<close>

theorem lock_key_injective:
  assumes "inj sha256"
  shows "buildCooldownLockKey sha256 o1 s1 r1 = buildCooldownLockKey sha256 o2 s2 r2 \<longleftrightarrow> o1 = o2 \<and> s1 = s2 \<and> r1 = r2"
proof
  assume "buildCooldownLockKey sha256 o1 s1 r1 = buildCooldownLockKey sha256 o2 s2 r2"
  then have e: "json_string o1 @ '','' @ json_string ''canonicalServiceKey'' @ '':'' @ json_string s1 @ '','' @
      json_string ''canonicalRecipient'' @ '':'' @ json_string r1 @ ''}''
    = json_string o2 @ '','' @ json_string ''canonicalServiceKey'' @ '':'' @ json_string s2 @ '','' @
      json_string ''canonicalRecipient'' @ '':'' @ json_string r2 @ ''}''"
    using assms by (auto simp: buildCooldownLockKey_def inj_eq)
  note 1 = json_string_inj [OF e]
  then have e2: "json_string s1 @ '','' @ json_string ''canonicalRecipient'' @ '':'' @ json_string r1 @ ''}''
    = json_string s2 @ '','' @ json_string ''canonicalRecipient'' @ '':'' @ json_string r2 @ ''}''" by auto
  note 2 = json_string_inj [OF e2]
  then have "json_string r1 @ ''}'' = json_string r2 @ ''}''" by auto
  from json_string_inj [OF this] 1 2 show "o1 = o2 \<and> s1 = s2 \<and> r1 = r2" by simp
qed simp

theorem lock_key_injective_witness:
  "buildCooldownLockKey (\<lambda>x. x) ''wallet:User:1'' ''vodafone'' ''010'' \<noteq> buildCooldownLockKey (\<lambda>x. x) ''wallet:User:1'' ''vodafone'' ''011''"
  using lock_key_injective [of "\<lambda>x. x" "''wallet:User:1''" "''vodafone''" "''010''" "''wallet:User:1''" "''vodafone''" "''011''"]
  by simp


section \<open>A cooldown in memory\<close>

definition mem_cooldown :: "(lock_table \<times> (string \<times> cooldown_tx) list, cooldown_tx) coll" where
  "mem_cooldown = mem_coll snd (\<lambda>l s. (fst s, l))"

definition demo_transfer :: cooldown_tx where
  "demo_transfer = \<lparr>ct_requestOwnerKey = ''wallet:User:u1'', ct_canonicalServiceKey = ''cash'',
     ct_canonicalRecipient = ''105'', ct_status = ''completed'', ct_amount = dec 3 500000, ct_createdAt = 1000\<rparr>"

definition demo_cooldown_options :: lock_options where
  "demo_cooldown_options = \<lparr>lo_retryCount = 2, lo_allowMemoryFallback = False\<rparr>"

definition demo_cooldown :: "int \<Rightarrow> (lock_table \<times> (string \<times> cooldown_tx) list, cooldown_error + lock \<times> guard_fields) run" where
  "demo_cooldown now = acquireTransferCooldown (\<lambda>_. ''h'') (lock_run (\<lambda>_ t. t) demo_cooldown_options)
     unlock_run mem_cooldown (Str ''wallet:User:u1'') Undef Undef (Str ''cash'') (Str ''105'') (Num (Fin 500)) now"

theorem cooldown_exact_witness:
  "\<exists>e s'. demo_cooldown 200000 (empty_table, [(''t1'', demo_transfer)]) = (Inr (Inl e), s')
    \<and> ce_code e = ''TRANSFER_COOLDOWN_ACTIVE'' \<and> ce_retryAt e = 301000 \<and> ce_retryAfterSeconds e = 101"
proof -
  let ?s = "(empty_table, [(''t1'', demo_transfer)])"
  let ?acquire = "lock_run (\<lambda>_ t. t) demo_cooldown_options :: string \<Rightarrow> (lock_table \<times> (string \<times> cooldown_tx) list, lock) run"
  have "case demo_cooldown 200000 ?s of (Inr (Inl _), s') \<Rightarrow> snd s' = [(''t1'', demo_transfer)] | _ \<Rightarrow> False" by code_simp
  then obtain e s' where run: "demo_cooldown 200000 ?s = (Inr (Inl e), s')" and left: "snd s' = [(''t1'', demo_transfer)]"
    by (cases "demo_cooldown 200000 ?s" rule: prod.exhaust, rename_tac r s', case_tac r, simp_all, rename_tac q, case_tac q, simp_all)
  have ok: "coll_ok mem_cooldown" unfolding mem_cooldown_def by (rule mem_coll_ok) simp
  have lp: "lock_provider ?acquire unlock_run key_held (c_view mem_cooldown)"
    by unfold_locales (simp_all add: locks.acquire_held unlock_run_def mem_cooldown_def mem_coll_def)
  have am: "normalizeTransferAmount (Num (Fin 500)) = Some (dec 3 500000)" "n_fixed 3 (dec 3 500000) = dec 3 500000"
    by code_simp+
  have same: "c_view mem_cooldown s' = c_view mem_cooldown ?s"
    using left by (simp add: mem_cooldown_def mem_coll_def)
  have stored: "\<forall>i tx. c_view mem_cooldown s' i = Some tx \<longrightarrow> n_fixed 3 (ct_amount tx) = ct_amount tx"
    unfolding same using am(2) by (auto simp: mem_cooldown_def mem_coll_def demo_transfer_def split: if_splits)
  have got: "\<exists>l. fst (?acquire k ?s) = Inr l" for k
    by (simp add: lock_run_def acquireLock_def demo_cooldown_options_def numeral_2_eq_2 try_acquire_def empty_table_def)
  have "below (2 ^ 40) (Num (Fin 500))" by (simp add: below_def)
  from cooldown_exact [OF ok lp this stored run [unfolded demo_cooldown_def]] got
  obtain a where "normalizeTransferAmount (Num (Fin 500)) = Some a"
    "\<exists>i tx. c_view mem_cooldown ?s i = Some tx \<and> reports a 200000 e tx"
    unfolding same by (auto split: sum.splits)
  then have "reports (dec 3 500000) 200000 e demo_transfer"
    using am(1) by (auto simp: mem_cooldown_def mem_coll_def split: if_splits)
  then show ?thesis using run by (auto simp: reports_def cooldown_of_def demo_transfer_def)
qed

end
