(* ===== verification/Financial_Safety.thy ===== *)
theory Financial_Safety
  imports Js_Json Lock_Service
begin

text \<open>
  Guards around money-moving requests: services/financialSafety.js (flags, tenants, fingerprints, idempotent
  requests, wallet locks) and services/merchantIdempotencyService.js.  The hash, the locks and the collection of
  transactions are parameters.  Of the merchant service the check that the index exists and the retry of a
  concurrent request are left out.
\<close>

section \<open>Flags and errors\<close>

definition tenantMode :: "environment \<Rightarrow> string" where
  "tenantMode env = (if toLowerCase (clean (env ''TENANT_MODE'')) = ''multi'' then ''multi'' else ''single'')"

definition multiTenantMode :: "environment \<Rightarrow> bool" where
  "multiTenantMode env \<longleftrightarrow> tenantMode env = ''multi''"

definition tenantGuardEnabled :: "environment \<Rightarrow> bool" where
  "tenantGuardEnabled env \<longleftrightarrow> env_truthy (env ''FINANCIAL_TENANT_GUARD'') \<and> multiTenantMode env"

definition idempotencyRequired :: "environment \<Rightarrow> bool" where
  "idempotencyRequired env \<longleftrightarrow> env_truthy (env ''FINANCIAL_IDEMPOTENCY_REQUIRED'')"

definition idempotencyEnabled :: "environment \<Rightarrow> bool" where
  "idempotencyEnabled env \<longleftrightarrow> idempotencyRequired env \<or> env_truthy (env ''FINANCIAL_IDEMPOTENCY_ENABLED'')"

definition strictIdempotencyBinding :: "environment \<Rightarrow> bool" where
  "strictIdempotencyBinding env \<longleftrightarrow> env_truthy (env ''FINANCIAL_IDEMPOTENCY_STRICT_BINDING'')"

definition blockMasterSubTenantMismatch :: "environment \<Rightarrow> bool" where
  "blockMasterSubTenantMismatch env \<longleftrightarrow>
     env_truthy (env ''FINANCIAL_BLOCK_MASTER_SUB_TENANT_MISMATCH'') \<and> multiTenantMode env"

definition auditInTransactionEnabled :: "environment \<Rightarrow> bool" where
  "auditInTransactionEnabled env \<longleftrightarrow> env_truthy (env ''FINANCIAL_AUDIT_IN_TRANSACTION'')"

definition redisFailClosed :: "environment \<Rightarrow> bool" where
  "redisFailClosed env \<longleftrightarrow> env_truthy (env ''FINANCIAL_REDIS_FAIL_CLOSED'')"

section \<open>Tenants\<close>

definition idString :: "jsval \<Rightarrow> string option" where
  "idString v = (if nullish v \<or> v = Str [] then None else Some (toString v))"

definition defaultTenantId :: "environment \<Rightarrow> string option" where
  "defaultTenantId env = idString (env ''DEFAULT_TENANT_ID'')"

definition canonicalTenantId :: "environment \<Rightarrow> jsval \<Rightarrow> string option" where
  "canonicalTenantId env v = (case idString v of
     Some t \<Rightarrow> if t = [] then defaultTenantId env else Some t | None \<Rightarrow> defaultTenantId env)"

definition is_object_value :: "jsval \<Rightarrow> bool" where
  "is_object_value v \<longleftrightarrow> (case v of Obj _ \<Rightarrow> True | Arr _ \<Rightarrow> True | JMap _ \<Rightarrow> True | _ \<Rightarrow> False)"

text \<open>
  The tenant of a request is the one the server resolved.  A source that is itself an \<open>ObjectId\<close>, the
  other shape the code accepts, does not occur: sources are records here.
\<close>

definition trustedRequestTenantId :: "jsval \<Rightarrow> jsval" where
  "trustedRequestTenantId source = (if \<not> is_object_value source then Null
     else or_else (or_else (get source ''tenantId'') (get (get source ''tenant'') ''_id'')) Null)"

definition resolveStampTenant :: "environment \<Rightarrow> jsval \<Rightarrow> jsval \<Rightarrow> error + jsval" where
  "resolveStampTenant env req account =
     (let requestTenant = trustedRequestTenantId req;
          accountTenant = or_else (get account ''tenantId'') Null
      in if \<not> tenantGuardEnabled env then
           (if truthy requestTenant \<and> truthy accountTenant \<and> idString requestTenant \<noteq> idString accountTenant
            then Inr accountTenant
            else Inr (or_else (or_else accountTenant requestTenant) Null))
         else let requestCanonical = canonicalTenantId env requestTenant;
                  accountCanonical = canonicalTenantId env accountTenant
              in if requestCanonical = None \<or> accountCanonical = None \<or> requestCanonical \<noteq> accountCanonical
                 then Inl (coded ''TENANT_UNRESOLVED'' 503)
                 else Inr (or_else (or_else accountTenant requestTenant) (Str (the requestCanonical))))"

definition assertAccountsSameTenant :: "environment \<Rightarrow> jsval \<Rightarrow> jsval \<Rightarrow> error + unit" where
  "assertAccountsSameTenant env sourceTenant targetTenant =
     (if \<not> tenantGuardEnabled env then Inr ()
      else let sourceCanonical = canonicalTenantId env sourceTenant;
               targetCanonical = canonicalTenantId env targetTenant
           in if sourceCanonical = None \<or> targetCanonical = None \<or> sourceCanonical \<noteq> targetCanonical
              then Inl (coded ''CROSS_TENANT_TRANSFER'' 403) else Inr ())"

definition assertMasterSubPolicy :: "environment \<Rightarrow> jsval \<Rightarrow> jsval \<Rightarrow> error + unit" where
  "assertMasterSubPolicy env subAccount master =
     (if \<not> blockMasterSubTenantMismatch env then Inr ()
      else let subTenant = canonicalTenantId env (get subAccount ''tenantId'');
               masterTenant = canonicalTenantId env (get master ''tenantId'')
           in if subTenant \<noteq> None \<and> masterTenant \<noteq> None \<and> subTenant \<noteq> masterTenant
              then Inl (coded ''MASTER_SUB_TENANT_MISMATCH'' 403) else Inr ())"

definition tenantStamp :: "jsval \<Rightarrow> (string \<times> jsval) list" where
  "tenantStamp tenantId = (if truthy tenantId then [(''tenantId'', tenantId)] else [])"

section \<open>Fingerprints\<close>

definition sensitive_words :: "string list" where
  "sensitive_words = [''password'', ''passphrase'', ''token'', ''authorization'', ''cookie'', ''secret'', ''otp'', ''pin'']"

definition SENSITIVE_KEY :: "string \<Rightarrow> bool" where
  "SENSITIVE_KEY key \<longleftrightarrow> list_ex (includes_str (toLowerCase key)) sensitive_words"

fun str_less :: "string \<Rightarrow> string \<Rightarrow> bool" where
  "str_less _ [] = False"
| "str_less [] (_ # _) = True"
| "str_less (a # as) (b # bs) = ((of_char a :: nat) < of_char b \<or> a = b \<and> str_less as bs)"

fun insert_member :: "string \<times> jsval \<Rightarrow> (string \<times> jsval) list \<Rightarrow> (string \<times> jsval) list" where
  "insert_member kv [] = [kv]"
| "insert_member kv (x # xs) = (if str_less (fst x) (fst kv) then x # insert_member kv xs else kv # x # xs)"

definition sort_members :: "(string \<times> jsval) list \<Rightarrow> (string \<times> jsval) list" where
  "sort_members kvs = foldr insert_member kvs []"

definition canonicalPayload :: "jsval \<Rightarrow> jsval" where
  "canonicalPayload payload = (case payload of
     Obj kvs \<Rightarrow> Obj (filter (\<lambda>(k, v). \<not> SENSITIVE_KEY k \<and> v \<noteq> Undef) (sort_members kvs))
   | _ \<Rightarrow> Obj [])"

definition opt_str :: "string option \<Rightarrow> jsval" where
  "opt_str x = (case x of None \<Rightarrow> Null | Some s \<Rightarrow> Str s)"

definition boundFingerprint :: "(string \<Rightarrow> string) \<Rightarrow> jsval \<Rightarrow> jsval \<Rightarrow> jsval \<Rightarrow> jsval \<Rightarrow> string" where
  "boundFingerprint sha256 accountId tenantId channel payload =
     sha256 (stringify (Obj [(''accountId'', opt_str (idString accountId)),
        (''tenantId'', if truthy tenantId then opt_str (idString tenantId) else Null),
        (''channel'', Str (toString (or_else channel (Str [])))),
        (''payload'', canonicalPayload payload)]))"

section \<open>Idempotent requests\<close>

record idem_tx =
  it_idempotencyKey :: "string option"
  it_idempotencyFingerprint :: "string option"
  it_idempotencyResponse :: jsval

definition replayFromExisting :: "'t idem_tx_scheme option \<Rightarrow> string \<Rightarrow> error + jsval option" where
  "replayFromExisting existing fingerprint = (case existing of
     None \<Rightarrow> Inr None
   | Some tx \<Rightarrow> if it_idempotencyFingerprint tx = Some fingerprint \<and> truthy (it_idempotencyResponse tx)
       then Inr (Some (it_idempotencyResponse tx)) else Inl (coded ''IDEMPOTENCY_CONFLICT'' 409))"

text \<open>\<open>id_lock\<close> is the lock that the caller's \<open>release\<close> gives back, if any.\<close>

record 'l idempotency =
  id_active :: bool
  id_key :: "string option"
  id_fingerprint :: "string option"
  id_replay :: "jsval option"
  id_lock :: "'l option"

definition inactive :: "'l idempotency" where
  "inactive = \<lparr>id_active = False, id_key = None, id_fingerprint = None, id_replay = None, id_lock = None\<rparr>"

definition UUID_RE :: "string \<Rightarrow> bool" where
  "UUID_RE s \<longleftrightarrow> map length (split_on (CHR ''-'') s) = [8, 4, 4, 4, 12] \<and> list_all (list_all is_hex) (split_on (CHR ''-'') s)"

definition find_replay :: "('s, 't idem_tx_scheme) coll \<Rightarrow> string \<Rightarrow> string \<Rightarrow> ('s, jsval option) run" where
  "find_replay txs key fingerprint =
     bind (c_findOne txs (\<lambda>tx. it_idempotencyKey tx = Some key)) (\<lambda>existing. of_result (replayFromExisting existing fingerprint))"

definition protected_request :: "string \<Rightarrow> string \<Rightarrow> jsval option \<Rightarrow> 'l option \<Rightarrow> 'l idempotency" where
  "protected_request key fingerprint replay lock =
     \<lparr>id_active = True, id_key = Some key, id_fingerprint = Some fingerprint, id_replay = replay, id_lock = lock\<rparr>"

text \<open>
  The second look, with the key locked.  \<open>acquire\<close> is the lock service with the options of this call;
  its failure is reported as a lock failure when a distributed lock is required and the operator chose
  to fail closed.
\<close>

definition begin_locked ::
    "environment \<Rightarrow> (string \<Rightarrow> ('s, 'l) run) \<Rightarrow> ('l \<Rightarrow> 's \<Rightarrow> 's) \<Rightarrow> ('s, 't idem_tx_scheme) coll \<Rightarrow> string \<Rightarrow> string
      \<Rightarrow> ('s, 'l idempotency) run" where
  "begin_locked env acquire release txs key fingerprint =
     bind (catch (acquire (''idemp:'' @ key))
             (\<lambda>err. throw (if redisFailClosed env \<and> distributedStateRequired env
                           then coded ''REDIS_LOCK_FAILED'' 503 else err)))
       (\<lambda>lock. bind (catch (find_replay txs key fingerprint) (\<lambda>err s. (Inl err, release lock s)))
          (\<lambda>second s. case second of
             Some r \<Rightarrow> (Inr (protected_request key fingerprint (Some r) None), release lock s)
           | None \<Rightarrow> (Inr (protected_request key fingerprint None (Some lock)), s)))"

definition request_fingerprint :: "(string \<Rightarrow> string) \<Rightarrow> jsval \<Rightarrow> jsval \<Rightarrow> jsval \<Rightarrow> jsval \<Rightarrow> string option \<Rightarrow> string" where
  "request_fingerprint sha256 accountId tenantId channel payload supplied = (case supplied of
     Some f \<Rightarrow> if f = [] then boundFingerprint sha256 accountId tenantId channel payload else f
   | None \<Rightarrow> boundFingerprint sha256 accountId tenantId channel payload)"

definition beginIdempotentFinancialRequest ::
    "environment \<Rightarrow> (string \<Rightarrow> string) \<Rightarrow> (string \<Rightarrow> ('s, 'l) run) \<Rightarrow> ('l \<Rightarrow> 's \<Rightarrow> 's) \<Rightarrow> ('s, 't idem_tx_scheme) coll
      \<Rightarrow> jsval \<Rightarrow> jsval \<Rightarrow> jsval \<Rightarrow> jsval \<Rightarrow> jsval \<Rightarrow> string option \<Rightarrow> ('s, 'l idempotency) run" where
  "beginIdempotentFinancialRequest env sha256 acquire release txs key accountId tenantId channel payload supplied =
     (let normalizedKey = clean key;
          fingerprint = request_fingerprint sha256 accountId tenantId channel payload supplied
      in if normalizedKey = [] then
           (if idempotencyRequired env then throw (coded ''IDEMPOTENCY_KEY_REQUIRED'' 400) else ret inactive)
         else if \<not> idempotencyEnabled env then ret inactive
         else if \<not> UUID_RE normalizedKey then throw (coded ''IDEMPOTENCY_KEY_INVALID'' 400)
         else bind (find_replay txs normalizedKey fingerprint) (\<lambda>first. case first of
             Some r \<Rightarrow> ret (protected_request normalizedKey fingerprint (Some r) None)
           | None \<Rightarrow> begin_locked env acquire release txs normalizedKey fingerprint))"

definition release_idempotency :: "('l \<Rightarrow> 's \<Rightarrow> 's) \<Rightarrow> 'l idempotency \<Rightarrow> 's \<Rightarrow> 's" where
  "release_idempotency release st s = (case id_lock st of None \<Rightarrow> s | Some l \<Rightarrow> release l s)"

definition acquireWalletLock ::
    "environment \<Rightarrow> (string \<Rightarrow> ('s, 'l) run) \<Rightarrow> jsval \<Rightarrow> ('s, 'l option) run" where
  "acquireWalletLock env acquire accountId =
     (if \<not> redisFailClosed env \<or> \<not> distributedStateRequired env then ret None
      else catch (bind (acquire (''wallet:'' @ (case idString accountId of Some s \<Rightarrow> s | None \<Rightarrow> ''null''))) (\<lambda>l. ret (Some l)))
             (\<lambda>_. throw (coded ''REDIS_LOCK_FAILED'' 503)))"

section \<open>Merchant requests (\<open>services/merchantIdempotencyService.js\<close>)\<close>

record merchant_state =
  ms_key :: string
  ms_fingerprint :: string

definition merchant_key_char :: "char \<Rightarrow> bool" where
  "merchant_key_char c \<longleftrightarrow> is_letter c \<or> is_digit c \<or> c \<in> set ''._:-''"

definition prepare_merchant :: "(string \<Rightarrow> string) \<Rightarrow> jsval \<Rightarrow> jsval \<Rightarrow> jsval \<Rightarrow> error + merchant_state option" where
  "prepare_merchant sha256 merchant key payload = (case key of
     Undef \<Rightarrow> Inr None
   | Str k \<Rightarrow>
       if \<not> all_in merchant_key_char 1 128 k then Inl (coded ''IDEMPOTENCY_KEY_INVALID'' 400)
       else let channel = ''merchant-api:'' @ toString (get merchant ''entityModel'');
                accountId = toString (get merchant ''_id'');
                tenantId = or_else (get merchant ''tenantId'') Null
            in Inr (Some \<lparr>ms_key = ''merchant-api:'' @ sha256 (stringify (Arr [Str channel, Str accountId,
                              Str (toString (or_else tenantId (Str []))), Str k])),
                          ms_fingerprint = boundFingerprint sha256 (Str accountId) tenantId (Str channel) payload\<rparr>)
   | _ \<Rightarrow> Inl (coded ''IDEMPOTENCY_KEY_INVALID'' 400))"

definition lookup_merchant :: "('s, 't idem_tx_scheme) coll \<Rightarrow> merchant_state option \<Rightarrow> ('s, jsval option) run" where
  "lookup_merchant txs state = (case state of
     None \<Rightarrow> ret None
   | Some st \<Rightarrow> bind (c_findOne txs (\<lambda>tx. it_idempotencyKey tx = Some (ms_key st))) (\<lambda>existing. case existing of
         None \<Rightarrow> ret None
       | Some tx \<Rightarrow>
           if it_idempotencyFingerprint tx \<noteq> Some (ms_fingerprint st) then throw (coded ''IDEMPOTENCY_CONFLICT'' 409)
           else if \<not> truthy (it_idempotencyResponse tx) then throw (coded ''IDEMPOTENCY_IN_PROGRESS'' 409)
           else ret (Some (it_idempotencyResponse tx))))"

definition persist_merchant ::
    "('s, 't idem_tx_scheme) coll \<Rightarrow> merchant_state option \<Rightarrow> string \<Rightarrow> jsval \<Rightarrow> bool \<Rightarrow> ('s, unit) run" where
  "persist_merchant txs state txId response session = (case state of
     None \<Rightarrow> ret ()
   | Some st \<Rightarrow>
       if \<not> session then throw (coded ''FINANCIAL_TRANSACTIONS_UNAVAILABLE'' 503)
       else bind (c_update txs txId (\<lambda>tx. it_idempotencyKey tx = Some (ms_key st)
                                       \<and> it_idempotencyFingerprint tx = Some (ms_fingerprint st))
                    (\<lambda>tx. tx\<lparr>it_idempotencyResponse := response\<rparr>))
              (\<lambda>updated. if updated = None then throw (coded ''IDEMPOTENCY_STORE_FAILED'' 503) else ret ()))"

section \<open>Reading a fingerprint\<close>

lemma opt_str_inj: "stringify (opt_str x) @ r = stringify (opt_str y) @ r' \<Longrightarrow> x = y \<and> r = r'"
proof (cases x)
  case None
  then show "stringify (opt_str x) @ r = stringify (opt_str y) @ r' \<Longrightarrow> x = y \<and> r = r'"
    by (cases y) (simp_all add: opt_str_def json_string_def quote_char_def)
next
  case (Some a)
  then show "stringify (opt_str x) @ r = stringify (opt_str y) @ r' \<Longrightarrow> x = y \<and> r = r'"
  proof (cases y)
    case (Some b)
    assume "stringify (opt_str x) @ r = stringify (opt_str y) @ r'"
    then have "json_string a @ r = json_string b @ r'" using \<open>x = Some a\<close> Some by (simp add: opt_str_def)
    from json_string_inj [OF this] show ?thesis using \<open>x = Some a\<close> Some by simp
  qed (simp add: opt_str_def json_string_def quote_char_def)
qed

definition tenant_of :: "jsval \<Rightarrow> string option" where
  "tenant_of t = (if truthy t then idString t else None)"

lemma tenant_opt: "(if truthy t then opt_str (idString t) else Null) = opt_str (tenant_of t)"
  by (simp add: tenant_of_def opt_str_def)

lemma opt_str_Undef [simp]: "opt_str x \<noteq> Undef" "canonicalPayload p \<noteq> Undef"
  by (simp_all add: opt_str_def canonicalPayload_def split: option.split jsval.split)

text \<open>
  C37: a fingerprint binds its request.  If the hash has no collision, equal fingerprints come from the
  same account, tenant and channel, and from payloads that serialise equally.
\<close>

theorem fingerprint_binds:
  assumes "inj sha256"
    and "boundFingerprint sha256 a t c p = boundFingerprint sha256 a' t' c' p'"
  shows "idString a = idString a' \<and> tenant_of t = tenant_of t'
    \<and> toString (or_else c (Str [])) = toString (or_else c' (Str []))
    \<and> stringify (canonicalPayload p) = stringify (canonicalPayload p')"
proof -
  let ?t = "\<lambda>t. stringify (opt_str (tenant_of t))" and ?c = "\<lambda>c. json_string (toString (or_else c (Str [])))"
  have "stringify (opt_str (idString a)) @ '','' @ json_string ''tenantId'' @ '':'' @ ?t t @ '','' @ json_string ''channel'' @ '':'' @ ?c c
      @ '','' @ json_string ''payload'' @ '':'' @ stringify (canonicalPayload p) @ ''}''
    = stringify (opt_str (idString a')) @ '','' @ json_string ''tenantId'' @ '':'' @ ?t t' @ '','' @ json_string ''channel'' @ '':'' @ ?c c'
      @ '','' @ json_string ''payload'' @ '':'' @ stringify (canonicalPayload p') @ ''}''"
    using assms by (simp add: boundFingerprint_def inj_eq tenant_opt)
  note 1 = opt_str_inj [OF this]
  then have "?t t @ '','' @ json_string ''channel'' @ '':'' @ ?c c @ '','' @ json_string ''payload'' @ '':'' @ stringify (canonicalPayload p) @ ''}''
    = ?t t' @ '','' @ json_string ''channel'' @ '':'' @ ?c c' @ '','' @ json_string ''payload'' @ '':'' @ stringify (canonicalPayload p') @ ''}''"
    by simp
  note 2 = opt_str_inj [OF this]
  then have "?c c @ '','' @ json_string ''payload'' @ '':'' @ stringify (canonicalPayload p) @ ''}''
    = ?c c' @ '','' @ json_string ''payload'' @ '':'' @ stringify (canonicalPayload p') @ ''}''" by simp
  note 3 = json_string_inj [OF this]
  then show ?thesis using 1 2 by simp
qed

theorem fingerprint_binds_witness:
  "boundFingerprint (\<lambda>x. x) (Str ''u1'') Null (Str ''web'') (Obj [(''amount'', Num (Fin 5))])
    \<noteq> boundFingerprint (\<lambda>x. x) (Str ''u2'') Null (Str ''web'') (Obj [(''amount'', Num (Fin 5))])"
  using fingerprint_binds [of "\<lambda>x. x" "Str ''u1''" Null "Str ''web''" "Obj [(''amount'', Num (Fin 5))]"
      "Str ''u2''" Null "Str ''web''" "Obj [(''amount'', Num (Fin 5))]"]
  by (auto simp: idString_def nullish_def)

section \<open>What an idempotent request guarantees\<close>

lemma find_replay_spec:
  assumes "coll_ok txs" "find_replay txs key fp s = (Inr r, s')"
  shows "c_view txs s' = c_view txs s"
    and "r = None \<Longrightarrow> c_view txs s i = Some tx \<Longrightarrow> it_idempotencyKey tx \<noteq> Some key"
    and "r = Some x \<Longrightarrow> \<exists>i tx. c_view txs s i = Some tx \<and> it_idempotencyKey tx = Some key
        \<and> it_idempotencyFingerprint tx = Some fp \<and> it_idempotencyResponse tx = x"
proof -
  obtain existing where e: "c_findOne txs (\<lambda>tx. it_idempotencyKey tx = Some key) s = (Inr existing, s')"
    "replayFromExisting existing fp = Inr r"
    using assms(2) unfolding find_replay_def by (auto elim!: bind_InrE)
  show "c_view txs s' = c_view txs s" using c_findOne_view [OF assms(1) e(1)] .
  show "it_idempotencyKey tx \<noteq> Some key" if "r = None" "c_view txs s i = Some tx" for i tx
  proof -
    have "existing = None" using e(2) that(1) by (auto simp: replayFromExisting_def split: option.splits if_splits)
    then show ?thesis using c_findOne_None [OF assms(1) e(1) [unfolded \<open>existing = None\<close>] that(2)] by simp
  qed
  show "\<exists>i tx. c_view txs s i = Some tx \<and> it_idempotencyKey tx = Some key
        \<and> it_idempotencyFingerprint tx = Some fp \<and> it_idempotencyResponse tx = x" if r: "r = Some x"
  proof -
    obtain tx where tx: "existing = Some tx" "it_idempotencyFingerprint tx = Some fp" "it_idempotencyResponse tx = x"
      using e(2) r by (cases existing) (auto simp: replayFromExisting_def split: if_splits)
    then show ?thesis using c_findOne_Some [OF assms(1) e(1) [unfolded tx(1)]] by metis
  qed
qed

lemma begin_locked_InrE:
  fixes st :: "'l idempotency"
  assumes "begin_locked env acquire release txs k fp s1 = (Inr st, s')"
  obtains lock s2 second s3 where "acquire (''idemp:'' @ k) s1 = (Inr lock, s2)"
    "find_replay txs k fp s2 = (Inr second, s3)"
    "(st, s') = (case second of Some r \<Rightarrow> (protected_request k fp (Some r) None, release lock s3)
       | None \<Rightarrow> (protected_request k fp None (Some lock), s3))"
proof -
  let ?rest = "\<lambda>lock. bind (catch (find_replay txs k fp) (\<lambda>err s. (Inl err, release lock s)))
      (\<lambda>second s. case second of
         Some r \<Rightarrow> (Inr (protected_request k fp (Some r) None), release lock s)
       | None \<Rightarrow> (Inr (protected_request k fp None (Some lock)), s))"
  obtain lock s2 where 1: "acquire (''idemp:'' @ k) s1 = (Inr lock, s2)" "?rest lock s2 = (Inr st, s')"
    using assms unfolding begin_locked_def
    by (cases "acquire (''idemp:'' @ k) s1" rule: prod.exhaust, rename_tac o1 s2, case_tac o1) (simp_all add: catch_run run_simps)
  then have "\<exists>second s3. find_replay txs k fp s2 = (Inr second, s3) \<and>
    (case second of Some r \<Rightarrow> (Inr (protected_request k fp (Some r) None), release lock s3)
       | None \<Rightarrow> (Inr (protected_request k fp None (Some lock)), s3)) = (Inr st :: error + 'l idempotency, s')"
    by (cases "find_replay txs k fp s2" rule: prod.exhaust, rename_tac o1 s3, case_tac o1) (simp_all add: catch_run run_simps)
  then obtain second s3 where "find_replay txs k fp s2 = (Inr second, s3)"
    "(case second of Some r \<Rightarrow> (Inr (protected_request k fp (Some r) None), release lock s3)
       | None \<Rightarrow> (Inr (protected_request k fp None (Some lock)), s3)) = (Inr st :: error + 'l idempotency, s')"
    by blast
  with 1(1) show thesis by (intro that [of lock s2 second s3]) (auto split: option.splits)
qed

lemma begin_request_spec:
  assumes ok: "coll_ok txs" and locks: "lock_provider acquire release held (c_view txs)" and q: "quiet txs held"
    and run: "beginIdempotentFinancialRequest env sha256 acquire release txs key accountId tenantId channel payload supplied s
      = (Inr st, s')"
    and active: "id_active st"
    and fp: "fp = request_fingerprint sha256 accountId tenantId channel payload supplied"
  shows "id_key st = Some (clean key) \<and> id_fingerprint st = Some fp
    \<and> (case id_replay st of
         None \<Rightarrow> held s' (''idemp:'' @ clean key) \<and> id_lock st \<noteq> None
           \<and> (\<forall>i tx. c_view txs s' i = Some tx \<longrightarrow> it_idempotencyKey tx \<noteq> Some (clean key))
       | Some r \<Rightarrow> id_lock st = None \<and> (\<exists>i tx. c_view txs s' i = Some tx \<and> it_idempotencyKey tx = Some (clean key)
           \<and> it_idempotencyFingerprint tx = Some fp \<and> it_idempotencyResponse tx = r))"
proof -
  let ?k = "clean key"
  have "bind (find_replay txs ?k fp) (\<lambda>first. case first of
             Some r \<Rightarrow> ret (protected_request ?k fp (Some r) None)
           | None \<Rightarrow> begin_locked env acquire release txs ?k fp) s = (Inr st, s')"
    using run active unfolding beginIdempotentFinancialRequest_def Let_def fp
    by (auto simp: inactive_def split: if_splits)
  then obtain first s1 where 1: "find_replay txs ?k fp s = (Inr first, s1)"
    and r1: "(case first of Some r \<Rightarrow> ret (protected_request ?k fp (Some r) None)
           | None \<Rightarrow> begin_locked env acquire release txs ?k fp) s1 = (Inr st, s')"
    by (elim bind_InrE)
  show ?thesis
  proof (cases first)
    case (Some r)
    have "st = protected_request ?k fp (Some r) None" "s1 = s'" using r1 Some by (simp_all add: run_simps)
    then show ?thesis using find_replay_spec(1) [OF ok 1] find_replay_spec(3) [OF ok 1 Some]
      by (simp add: protected_request_def)
  next
    case None
    have "begin_locked env acquire release txs ?k fp s1 = (Inr st, s')" using r1 None by simp
    then obtain lock s2 second s3 where 2: "acquire (''idemp:'' @ ?k) s1 = (Inr lock, s2)"
      and 3: "find_replay txs ?k fp s2 = (Inr second, s3)"
      and r: "(st, s') = (case second of Some r \<Rightarrow> (protected_request ?k fp (Some r) None, release lock s3)
          | None \<Rightarrow> (protected_request ?k fp None (Some lock), s3))"
      by (rule begin_locked_InrE)
    have "held s3 = held s2"
      using 3 quietD(1) [OF q] unfolding find_replay_def by (auto elim!: bind_InrE)
    then have h: "held s3 (''idemp:'' @ ?k)" using lock_provider.acquire_held [OF locks 2] by simp
    show ?thesis
    proof (cases second)
      case None
      have "st = protected_request ?k fp None (Some lock)" "s' = s3" using r None by simp_all
      then show ?thesis using h find_replay_spec(1,2) [OF ok 3] None by (auto simp: protected_request_def)
    next
      case (Some x)
      have "st = protected_request ?k fp (Some x) None" "s' = release lock s3" using r Some by simp_all
      then show ?thesis
        using find_replay_spec(1) [OF ok 3] find_replay_spec(3) [OF ok 3 Some] lock_provider.release_quiet [OF locks]
        by (simp add: protected_request_def)
    qed
  qed
qed

lemma begin_request_run:
  assumes "idempotencyEnabled env" "clean key \<noteq> []"
    and "beginIdempotentFinancialRequest env sha256 acquire release txs key i ten ch pl given s = (Inr st, s')"
  obtains fp first s1 where "find_replay txs (clean key) fp s = (Inr first, s1)"
    "(case first of Some r \<Rightarrow> ret (protected_request (clean key) fp (Some r) None)
      | None \<Rightarrow> begin_locked env acquire release txs (clean key) fp) s1 = (Inr st, s')"
proof -
  let ?fp = "request_fingerprint sha256 i ten ch pl given"
  have "bind (find_replay txs (clean key) ?fp) (\<lambda>first. case first of
      Some r \<Rightarrow> ret (protected_request (clean key) ?fp (Some r) None)
    | None \<Rightarrow> begin_locked env acquire release txs (clean key) ?fp) s = (Inr st, s')"
    using assms unfolding beginIdempotentFinancialRequest_def Let_def by (auto split: if_splits)
  then show thesis using that by (rule bind_InrE)
qed

lemma begin_request_first:
  assumes ok: "coll_ok txs"
    and run: "beginIdempotentFinancialRequest env sha256 acquire release txs key i ten ch pl given s = (Inr st, s')"
    and en: "idempotencyEnabled env" "clean key \<noteq> []" and none: "id_replay st = None"
  shows "id_active st \<and> id_key st = Some (clean key)
    \<and> (\<forall>j tx. c_view txs s' j = Some tx \<longrightarrow> it_idempotencyKey tx \<noteq> Some (clean key))"
proof -
  obtain fp first s1 where 1: "find_replay txs (clean key) fp s = (Inr first, s1)"
    and r: "(case first of Some r \<Rightarrow> ret (protected_request (clean key) fp (Some r) None)
      | None \<Rightarrow> begin_locked env acquire release txs (clean key) fp) s1 = (Inr st, s')"
    by (rule begin_request_run [OF en run])
  have "first = None" using r none by (cases first) (auto simp: protected_request_def run_simps)
  then have "begin_locked env acquire release txs (clean key) fp s1 = (Inr st, s')" using r by simp
  then obtain lock s2 second s3 where 2: "find_replay txs (clean key) fp s2 = (Inr second, s3)"
    and r2: "(st, s') = (case second of Some r \<Rightarrow> (protected_request (clean key) fp (Some r) None, release lock s3)
       | None \<Rightarrow> (protected_request (clean key) fp None (Some lock), s3))"
    by (rule begin_locked_InrE)
  then have n: "second = None" "s' = s3" "st = protected_request (clean key) fp None (Some lock)"
    using none by (cases second; simp add: protected_request_def)+
  show ?thesis using find_replay_spec(1,2) [OF ok 2] n by (simp add: protected_request_def)
qed

lemma begin_request_stored:
  assumes ok: "coll_ok txs"
    and run: "beginIdempotentFinancialRequest env sha256 acquire release txs key i ten ch pl given s = (Inr st, s')"
    and en: "idempotencyEnabled env" "clean key \<noteq> []"
    and stored: "c_view txs s j = Some tx" "it_idempotencyKey tx = Some (clean key)"
  shows "\<exists>j tx. c_view txs s j = Some tx \<and> it_idempotencyKey tx = Some (clean key)
    \<and> id_replay st = Some (it_idempotencyResponse tx)"
proof -
  obtain fp first s1 where 1: "find_replay txs (clean key) fp s = (Inr first, s1)"
    and r: "(case first of Some r \<Rightarrow> ret (protected_request (clean key) fp (Some r) None)
      | None \<Rightarrow> begin_locked env acquire release txs (clean key) fp) s1 = (Inr st, s')"
    by (rule begin_request_run [OF en run])
  obtain x where "first = Some x" using find_replay_spec(2) [OF ok 1 _ stored(1)] stored(2) by (cases first) auto
  then have "id_replay st = Some x" using r by (auto simp: protected_request_def run_simps)
  then show ?thesis using find_replay_spec(3) [OF ok 1 \<open>first = Some x\<close>] by blast
qed

section \<open>What a request leaves alone\<close>

definition quiet_locks :: "(string \<Rightarrow> ('s, 'l) run) \<Rightarrow> ('l \<Rightarrow> 's \<Rightarrow> 's) \<Rightarrow> ('s \<Rightarrow> 'v) \<Rightarrow> bool" where
  "quiet_locks acquire release v \<longleftrightarrow> (\<forall>k. keeps v (acquire k)) \<and> (\<forall>l s. v (release l s) = v s)"

lemma keeps_find_replay: "(\<And>p. keeps v (c_findOne txs p)) \<Longrightarrow> keeps v (find_replay txs key fp)"
  unfolding find_replay_def by (intro keeps_bind keeps_basic) simp

lemma keeps_begin:
  assumes f: "\<And>p. keeps v (c_findOne txs p)" and l: "quiet_locks acquire release v"
  shows "keeps v (beginIdempotentFinancialRequest env sha256 acquire release txs key i t c pl given)"
proof -
  have "keeps v (\<lambda>s. (Inl err :: error + jsval option, release lock s))" for err :: error and lock
    using l by (simp add: keeps_def quiet_locks_def)
  moreover have "keeps v (\<lambda>s. case second of Some r \<Rightarrow> (Inr (protected_request k fp (Some r) None), release lock s)
      | None \<Rightarrow> (Inr (protected_request k fp None (Some lock)), s))" for second k fp lock
    using l by (simp add: keeps_def quiet_locks_def split: option.split)
  moreover have "keeps v (acquire k)" for k using l by (simp add: quiet_locks_def)
  ultimately show ?thesis
    unfolding beginIdempotentFinancialRequest_def begin_locked_def Let_def
    by (intro keeps_intros keeps_find_replay f)
qed

lemma keeps_wallet_lock:
  "quiet_locks acquire release v \<Longrightarrow> keeps v (acquireWalletLock env acquire i)"
  unfolding acquireWalletLock_def quiet_locks_def by (intro keeps_intros) simp_all

lemma release_keeps: "quiet_locks acquire release v \<Longrightarrow> v (release_idempotency release st s) = v s"
  by (simp add: release_idempotency_def quiet_locks_def split: option.split)

text \<open>
  C33: an idempotent request runs once.  A request that is protected and has nothing to replay returns
  holding the lock of its key, and no transaction is stored under the key at that moment.  A request
  that is replayed gets the response that is stored under its key with its own fingerprint, and keeps
  no lock; the documents are as the wait for the lock left them.
\<close>

theorem idempotent_request_once:
  assumes ok: "coll_ok txs" and locks: "lock_provider acquire release held (c_view txs)" and q: "quiet txs held"
    and run: "beginIdempotentFinancialRequest env sha256 acquire release txs key accountId tenantId channel payload supplied s
      = (Inr st, s')"
    and active: "id_active st"
    and fp: "fp = request_fingerprint sha256 accountId tenantId channel payload supplied"
  shows "id_key st = Some (clean key) \<and> id_fingerprint st = Some fp
    \<and> (case id_replay st of
         None \<Rightarrow> held s' (''idemp:'' @ clean key) \<and> id_lock st \<noteq> None
           \<and> (\<forall>i tx. c_view txs s' i = Some tx \<longrightarrow> it_idempotencyKey tx \<noteq> Some (clean key))
       | Some r \<Rightarrow> id_lock st = None \<and> (\<exists>i tx. c_view txs s' i = Some tx \<and> it_idempotencyKey tx = Some (clean key)
           \<and> it_idempotencyFingerprint tx = Some fp \<and> it_idempotencyResponse tx = r))"
  using assms by (rule begin_request_spec)

section \<open>A request in memory\<close>

definition mem_idem :: "(lock_table \<times> (string \<times> idem_tx) list, idem_tx) coll" where
  "mem_idem = mem_coll snd (\<lambda>l s. (fst s, l))"

definition idem_env :: environment where
  "idem_env k = (if k = ''FINANCIAL_IDEMPOTENCY_ENABLED'' then Str ''true'' else Undef)"

definition demo_key :: string where
  "demo_key = ''01234567-89ab-cdef-0123-456789abcdef''"

definition demo_idem :: "(lock_table \<times> (string \<times> idem_tx) list, lock idempotency) run" where
  "demo_idem = beginIdempotentFinancialRequest idem_env (\<lambda>x. x) (lock_run (\<lambda>_ t. t) default_lock_options) unlock_run
     mem_idem (Str demo_key) Undef Undef Undef Undef (Some ''f1'')"

theorem idempotent_request_once_witness:
  "key_held (snd (demo_idem (empty_table, []))) (''idemp:'' @ clean (Str demo_key))"
proof -
  have k: "clean (Str demo_key) = demo_key" unfolding clean_def or_else_def
    by (simp add: trim_graph demo_key_def is_graph_def)
  have "UUID_RE demo_key" unfolding UUID_RE_def by code_simp
  moreover have "idempotencyEnabled idem_env" by code_simp
  moreover have "demo_key \<noteq> []" by (simp add: demo_key_def)
  ultimately have run: "demo_idem (empty_table, [])
      = (Inr (protected_request demo_key ''f1'' None (Some (MemoryLock 0 (lockKey (''idemp:'' @ demo_key))))),
         snd (lock_run (\<lambda>_ t. t) default_lock_options (''idemp:'' @ demo_key) (empty_table, [])))"
    by (simp add: demo_idem_def beginIdempotentFinancialRequest_def k request_fingerprint_def Let_def run_simps
        find_replay_def mem_idem_def mem_coll_def replayFromExisting_def begin_locked_def lock_run_def acquireLock_def
        default_lock_options_def try_acquire_def empty_table_def numeral_eq_Suc)
  have ok: "coll_ok mem_idem" unfolding mem_idem_def by (rule mem_coll_ok) simp
  have q: "quiet mem_idem key_held" unfolding mem_idem_def by (rule mem_coll_quiet) (simp add: key_held_def fun_eq_iff)
  have lp: "lock_provider (lock_run (\<lambda>_ t. t) default_lock_options) unlock_run key_held (c_view mem_idem)"
    by unfold_locales (simp_all add: locks.acquire_held unlock_run_def mem_idem_def mem_coll_def)
  from idempotent_request_once [OF ok lp q run [unfolded demo_idem_def] _ refl] run k show ?thesis
    by (simp add: protected_request_def)
qed

end
