(* ===== verification/Account_Codes.thy ===== *)
theory Account_Codes
  imports Financial_Safety
begin

text \<open>
  Account codes: services/accountCodeService.js.  The account documents of each model and the reservations of codes
  are collections; random numbers are arguments.  The queries that the code sends at once run one after the
  other here.
\<close>

section \<open>Codes\<close>

definition CODE_LENGTHS :: "string \<Rightarrow> nat" where
  "CODE_LENGTHS kind = (if kind = ''agent'' then 4 else if kind = ''company'' then 5 else 6)"

definition normalizeAccountCode :: "jsval \<Rightarrow> string" where
  "normalizeAccountCode code = clean code"

definition expectedUserCodeLength :: "jsval \<Rightarrow> bool \<Rightarrow> nat" where
  "expectedUserCodeLength user hasSubAccounts =
     (if get user ''role'' = Str ''agent'' \<or> hasSubAccounts then CODE_LENGTHS ''agent'' else CODE_LENGTHS ''user'')"

definition validateAccountCode :: "jsval \<Rightarrow> nat \<Rightarrow> error + string" where
  "validateAccountCode code len = (let normalized = normalizeAccountCode code in
     if all_in is_digit len len normalized then Inr normalized
     else Inl (plain_error (''ACCOUNT_CODE_INVALID_'' @ int_str (int len))))"

text \<open>\<open>random\<close> is the value of \<open>Math.random()\<close>.\<close>

definition generateNumericCode :: "nat \<Rightarrow> jsnum \<Rightarrow> string" where
  "generateNumericCode len random =
     (let min = (if len = 1 then Fin 0 else Fin (10 ^ (len - 1))); max = Fin (10 ^ len - 1)
      in pad_zeros len (num_str (n_floor (n_add min (n_mul random (n_add (n_sub max min) (Fin 1)))))))"

section \<open>Accounts and reservations\<close>

text \<open>
  \<open>people m\<close> are the documents of the model \<open>m\<close>.  The reservations are keyed by their owner, for the
  unique index on it.
\<close>

record owner =
  ow_modelName :: string
  ow_id :: string

record account_code =
  ac_code :: string
  ac_owner :: owner
  ac_tenantId :: jsval

definition owner_key :: "owner \<Rightarrow> string" where
  "owner_key w = ow_modelName w @ '':'' @ ow_id w"

definition has_code :: "string \<Rightarrow> jsval \<Rightarrow> bool" where
  "has_code code d \<longleftrightarrow> get d ''accountCode'' = Str code"

definition doc_id :: "jsval \<Rightarrow> string" where
  "doc_id d = toString (get d ''_id'')"

definition duplicate_error :: error where
  "duplicate_error = plain_error ''ACCOUNT_CODE_DUPLICATE''"

definition opt_owner :: "string \<Rightarrow> jsval option \<Rightarrow> owner list" where
  "opt_owner m found = (case found of None \<Rightarrow> [] | Some d \<Rightarrow> [\<lparr>ow_modelName = m, ow_id = doc_id d\<rparr>])"

definition findDuplicateAccountCode ::
    "(string \<Rightarrow> ('s, jsval) coll) \<Rightarrow> ('s, account_code) coll \<Rightarrow> jsval \<Rightarrow> owner option \<Rightarrow> ('s, owner option) run" where
  "findDuplicateAccountCode people codes code current =
     (let normalized = normalizeAccountCode code
      in if normalized = [] then ret None
         else bind (c_findOne (people ''User'') (has_code normalized)) (\<lambda>user.
              bind (c_findOne (people ''ClientCompany'') (has_code normalized)) (\<lambda>company.
              bind (c_findOne (people ''SubAccount'') (has_code normalized)) (\<lambda>subAccount.
              bind (c_findOne codes (\<lambda>r. ac_code r = normalized)) (\<lambda>reservation.
                ret (find (\<lambda>w. current \<noteq> Some w)
                  (opt_owner ''User'' user @ opt_owner ''ClientCompany'' company @ opt_owner ''SubAccount'' subAccount
                   @ (case reservation of None \<Rightarrow> [] | Some r \<Rightarrow> [ac_owner r]))))))))"

definition ensureAccountCodeAvailable ::
    "(string \<Rightarrow> ('s, jsval) coll) \<Rightarrow> ('s, account_code) coll \<Rightarrow> jsval \<Rightarrow> owner option \<Rightarrow> ('s, unit) run" where
  "ensureAccountCodeAvailable people codes code current =
     bind (findDuplicateAccountCode people codes code current)
       (\<lambda>duplicate. if duplicate = None then ret () else throw duplicate_error)"

definition reserveAccountCode ::
    "('s, account_code) coll \<Rightarrow> jsval \<Rightarrow> owner \<Rightarrow> jsval \<Rightarrow> ('s, account_code) run" where
  "reserveAccountCode codes code current tenantId =
     catch (c_upsert codes (owner_key current)
             (\<lambda>old. \<lparr>ac_code = normalizeAccountCode code, ac_owner = current,
                     ac_tenantId = (if truthy tenantId then tenantId
                        else case old of None \<Rightarrow> Undef | Some r \<Rightarrow> ac_tenantId r)\<rparr>))
       (\<lambda>err. throw (if e_code err = ''11000'' then duplicate_error else err))"

definition releaseAccountCodeReservation :: "('s, account_code) coll \<Rightarrow> owner \<Rightarrow> ('s, unit) run" where
  "releaseAccountCodeReservation codes current = c_deleteMany codes (\<lambda>r. ac_owner r = current)"

definition set_code :: "string \<Rightarrow> jsval \<Rightarrow> jsval" where
  "set_code code d = (case d of Obj kvs \<Rightarrow> Obj (obj_set ''accountCode'' (Str code) kvs) | _ \<Rightarrow> d)"

text \<open>One attempt gives the code, or nothing when another attempt is due.\<close>

definition claim_code ::
    "(string \<Rightarrow> ('s, jsval) coll) \<Rightarrow> ('s, account_code) coll \<Rightarrow> owner \<Rightarrow> jsval \<Rightarrow> string \<Rightarrow> ('s, string) run" where
  "claim_code people codes current tenantId code =
     andThen (reserveAccountCode codes (Str code) current tenantId)
       (andThen (c_update (people (ow_modelName current)) (ow_id current) (\<lambda>_. True) (set_code code)) (ret code))"

definition attempt_code ::
    "(string \<Rightarrow> ('s, jsval) coll) \<Rightarrow> ('s, account_code) coll \<Rightarrow> owner \<Rightarrow> bool \<Rightarrow> jsval \<Rightarrow> string \<Rightarrow> ('s, string option) run" where
  "attempt_code people codes current session tenantId code =
     bind (catch (andThen (ensureAccountCodeAvailable people codes (Str code) (Some current)) (ret True))
             (\<lambda>err. if message err = ''ACCOUNT_CODE_DUPLICATE'' then ret False else throw err))
       (\<lambda>free. if \<not> free then ret None
         else catch (bind (claim_code people codes current tenantId code) (\<lambda>c. ret (Some c)))
           (\<lambda>err. if session then throw err
                  else if message err \<noteq> ''ACCOUNT_CODE_DUPLICATE''
                  then andThen (catch (releaseAccountCodeReservation codes current) (\<lambda>_. ret ())) (throw err)
                  else ret None))"

text \<open>\<open>randoms\<close> are the random numbers of the attempts, as many as \<open>maxAttempts\<close>.\<close>

fun assignGeneratedAccountCode ::
    "(string \<Rightarrow> ('s, jsval) coll) \<Rightarrow> ('s, account_code) coll \<Rightarrow> owner \<Rightarrow> nat \<Rightarrow> bool \<Rightarrow> jsval \<Rightarrow> jsnum list
      \<Rightarrow> ('s, string) run" where
  "assignGeneratedAccountCode people codes current len session tenantId [] =
     throw (plain_error ''ACCOUNT_CODE_GENERATION_FAILED'')"
| "assignGeneratedAccountCode people codes current len session tenantId (random # randoms) =
     bind (of_result (validateAccountCode (Str (generateNumericCode len random)) len)) (\<lambda>code.
       bind (attempt_code people codes current session tenantId code) (\<lambda>got. case got of
           Some c \<Rightarrow> ret c
         | None \<Rightarrow> assignGeneratedAccountCode people codes current len session tenantId randoms))"

section \<open>Finding an account\<close>

record party =
  pa_modelName :: string
  pa_doc :: jsval
  pa_label :: string

definition accountLabel :: "string \<Rightarrow> jsval \<Rightarrow> string" where
  "accountLabel modelName doc =
     (if modelName = ''User'' then if get doc ''role'' = Str ''agent'' then utf8 [217, 136, 217, 131, 217, 138, 217, 132]
        else utf8 [216, 185, 217, 133, 217, 138, 217, 132]
      else if modelName = ''ClientCompany'' then utf8 [216, 180, 216, 177, 217, 131, 216, 169]
      else utf8 [216, 185, 217, 133, 217, 138, 217, 132, 32, 217, 136, 217, 131, 217, 138, 217, 132])"

definition party_of :: "string \<Rightarrow> jsval \<Rightarrow> party" where
  "party_of m d = \<lparr>pa_modelName = m, pa_doc = d, pa_label = accountLabel m d\<rparr>"

definition resolveFromReservation ::
    "(string \<Rightarrow> ('s, jsval) coll) \<Rightarrow> ('s, account_code) coll \<Rightarrow> account_code \<Rightarrow> string \<Rightarrow> ('s, party option) run" where
  "resolveFromReservation people codes reservation normalized =
     (let w = ac_owner reservation
      in if ow_modelName w \<notin> {''User'', ''ClientCompany'', ''SubAccount''} then ret None
         else bind (c_get (people (ow_modelName w)) (ow_id w)) (\<lambda>doc. case doc of
             Some d \<Rightarrow> if has_code normalized d then ret (Some (party_of (ow_modelName w) d))
               else andThen (catch (releaseAccountCodeReservation codes w) (\<lambda>_. ret ())) (ret None)
           | None \<Rightarrow> andThen (catch (releaseAccountCodeReservation codes w) (\<lambda>_. ret ())) (ret None)))"

definition tenantMatch :: "environment \<Rightarrow> jsval \<Rightarrow> jsval \<Rightarrow> bool" where
  "tenantMatch env tenantId docTenant \<longleftrightarrow> (let canonical = canonicalTenantId env tenantId in
     if canonical \<noteq> None \<and> canonical = defaultTenantId env
     then docTenant = opt_str canonical \<or> nullish docTenant
     else if canonical = None then nullish docTenant else docTenant = opt_str canonical)"

definition findForeignAccount ::
    "environment \<Rightarrow> (string \<Rightarrow> ('s, jsval) coll) \<Rightarrow> string \<Rightarrow> jsval \<Rightarrow> ('s, jsval option) run" where
  "findForeignAccount env people normalized tenantId =
     (let expected = canonicalTenantId env tenantId
      in bind (c_findOne (people ''User'') (has_code normalized)) (\<lambda>user.
         bind (c_findOne (people ''ClientCompany'') (has_code normalized)) (\<lambda>company.
         bind (c_findOne (people ''SubAccount'') (has_code normalized)) (\<lambda>subAccount.
           ret (find (\<lambda>d. canonicalTenantId env (get d ''tenantId'') \<noteq> expected)
             (map the (filter (\<lambda>x. x \<noteq> None) [user, company, subAccount])))))))"

definition opt_party :: "string \<Rightarrow> jsval option \<Rightarrow> party list" where
  "opt_party m found = (case found of None \<Rightarrow> [] | Some d \<Rightarrow> [party_of m d])"

definition in_scope :: "environment \<Rightarrow> bool \<Rightarrow> jsval \<Rightarrow> string \<Rightarrow> jsval \<Rightarrow> bool" where
  "in_scope env enforce tenantId normalized d \<longleftrightarrow>
     has_code normalized d \<and> (enforce \<longrightarrow> tenantMatch env tenantId (get d ''tenantId''))"

definition foreign_error :: "jsval option \<Rightarrow> error option" where
  "foreign_error foreign = (case foreign of None \<Rightarrow> None
     | Some d \<Rightarrow> Some (if truthy (get d ''tenantId'') then coded ''CROSS_TENANT_ACCOUNT'' 403 else coded ''TENANT_UNRESOLVED'' 503))"

definition resolve_unmatched ::
    "environment \<Rightarrow> (string \<Rightarrow> ('s, jsval) coll) \<Rightarrow> ('s, account_code) coll \<Rightarrow> bool \<Rightarrow> jsval \<Rightarrow> string \<Rightarrow> account_code option
      \<Rightarrow> ('s, party option) run" where
  "resolve_unmatched env people codes enforce tenantId normalized reservation =
     bind (if enforce then findForeignAccount env people normalized tenantId else ret None) (\<lambda>foreign.
       case foreign_error foreign of
         Some e \<Rightarrow> throw e
       | None \<Rightarrow> (case reservation of None \<Rightarrow> ret None
           | Some r \<Rightarrow> resolveFromReservation people codes r normalized))"

definition resolveAccountByCode ::
    "environment \<Rightarrow> (string \<Rightarrow> ('s, jsval) coll) \<Rightarrow> ('s, account_code) coll \<Rightarrow> jsval \<Rightarrow> jsval \<Rightarrow> ('s, party option) run" where
  "resolveAccountByCode env people codes code context =
     (let normalized = normalizeAccountCode code; enforce = tenantGuardEnabled env;
          tenantId = (if enforce then trustedRequestTenantId context else Null)
      in if \<not> all_in is_digit 4 6 normalized then ret None
         else if enforce \<and> \<not> truthy tenantId then throw (coded ''TENANT_UNRESOLVED'' 503)
         else bind (c_findOne (people ''User'') (in_scope env enforce tenantId normalized)) (\<lambda>user.
              bind (c_findOne (people ''ClientCompany'') (in_scope env enforce tenantId normalized)) (\<lambda>company.
              bind (c_findOne (people ''SubAccount'') (in_scope env enforce tenantId normalized)) (\<lambda>subAccount.
              bind (c_findOne codes (\<lambda>r. ac_code r = normalized
                      \<and> (enforce \<longrightarrow> tenantMatch env tenantId (ac_tenantId r)))) (\<lambda>reservation.
                case opt_party ''User'' user @ opt_party ''ClientCompany'' company @ opt_party ''SubAccount'' subAccount of
                  [] \<Rightarrow> resolve_unmatched env people codes enforce tenantId normalized reservation
                | [m] \<Rightarrow> ret (Some m)
                | _ \<Rightarrow> throw (plain_error ''ACCOUNT_CODE_AMBIGUOUS''))))))"


section \<open>What an assignment gives\<close>

definition people_store :: "(string \<Rightarrow> ('s, jsval) coll) \<Rightarrow> ('s, account_code) coll \<Rightarrow> bool" where
  "people_store people codes \<longleftrightarrow> coll_ok codes
     \<and> (\<forall>m. coll_ok (people m) \<and> quiet (people m) (c_view codes) \<and> quiet codes (c_view (people m))
            \<and> (\<forall>m'. m' \<noteq> m \<longrightarrow> quiet (people m) (c_view (people m'))))"

lemma people_storeD:
  assumes "people_store people codes"
  shows "coll_ok codes" "coll_ok (people m)" "quiet (people m) (c_view codes)" "quiet codes (c_view (people m))"
    "m' \<noteq> m \<Longrightarrow> quiet (people m) (c_view (people m'))"
  using assms unfolding people_store_def by blast+

lemma find_keeps:
  assumes "people_store people codes"
  shows "c_findOne (people m) p s = (r, s') \<Longrightarrow> c_view (people m') s' = c_view (people m') s \<and> c_view codes s' = c_view codes s"
    "c_findOne codes q s = (r', s') \<Longrightarrow> c_view (people m') s' = c_view (people m') s \<and> c_view codes s' = c_view codes s"
  using people_storeD [OF assms] c_findOne_view quietD(1) by metis+

lemma findDuplicate_None:
  assumes st: "people_store people codes" and code: "normalizeAccountCode code = n" "n \<noteq> []"
    and run: "findDuplicateAccountCode people codes code current s = (Inr r, s')"
  shows "c_view (people m) s' = c_view (people m) s \<and> c_view codes s' = c_view codes s"
    "r = None \<Longrightarrow> m \<in> {''User'', ''ClientCompany'', ''SubAccount''} \<Longrightarrow> c_view (people m) s i = Some d \<Longrightarrow> has_code n d
      \<Longrightarrow> \<exists>j d'. c_view (people m) s j = Some d' \<and> has_code n d' \<and> current = Some \<lparr>ow_modelName = m, ow_id = doc_id d'\<rparr>"
proof -
  define out where "out u c a v = find (\<lambda>w. current \<noteq> Some w)
      (opt_owner ''User'' u @ opt_owner ''ClientCompany'' c @ opt_owner ''SubAccount'' a
       @ (case v of None \<Rightarrow> [] | Some r \<Rightarrow> [ac_owner r]))" for u c a and v :: "account_code option"
  have run1: "bind (c_findOne (people ''User'') (has_code n)) (\<lambda>u.
      bind (c_findOne (people ''ClientCompany'') (has_code n)) (\<lambda>c.
      bind (c_findOne (people ''SubAccount'') (has_code n)) (\<lambda>a.
      bind (c_findOne codes (\<lambda>r. ac_code r = n)) (\<lambda>v. ret (out u c a v))))) s = (Inr r, s')"
    using run code(2) unfolding findDuplicateAccountCode_def Let_def code(1) out_def by simp
  obtain u s1 where f1: "c_findOne (people ''User'') (has_code n) s = (Inr u, s1)"
    and run2: "bind (c_findOne (people ''ClientCompany'') (has_code n)) (\<lambda>c.
      bind (c_findOne (people ''SubAccount'') (has_code n)) (\<lambda>a.
      bind (c_findOne codes (\<lambda>r. ac_code r = n)) (\<lambda>v. ret (out u c a v)))) s1 = (Inr r, s')"
    using run1 by (rule bind_InrE)
  obtain c s2 where f2: "c_findOne (people ''ClientCompany'') (has_code n) s1 = (Inr c, s2)"
    and run3: "bind (c_findOne (people ''SubAccount'') (has_code n)) (\<lambda>a.
      bind (c_findOne codes (\<lambda>r. ac_code r = n)) (\<lambda>v. ret (out u c a v))) s2 = (Inr r, s')"
    using run2 by (rule bind_InrE)
  obtain a s3 where f3: "c_findOne (people ''SubAccount'') (has_code n) s2 = (Inr a, s3)"
    and run4: "bind (c_findOne codes (\<lambda>r. ac_code r = n)) (\<lambda>v. ret (out u c a v)) s3 = (Inr r, s')"
    using run3 by (rule bind_InrE)
  obtain v where f4: "c_findOne codes (\<lambda>r. ac_code r = n) s3 = (Inr v, s')" and r: "r = out u c a v"
    using run4 by (rule bind_InrE) auto
  note K = find_keeps(1) [OF st f1] find_keeps(1) [OF st f2] find_keeps(1) [OF st f3] find_keeps(2) [OF st f4]
  show "c_view (people m) s' = c_view (people m) s \<and> c_view codes s' = c_view codes s" using K by simp
  have own: "\<exists>j d'. c_view (people m) s j = Some d' \<and> has_code n d' \<and> current = Some \<lparr>ow_modelName = m, ow_id = doc_id d'\<rparr>"
    if f: "c_findOne (people m) (has_code n) t = (Inr x, t')" "c_view (people m) t = c_view (people m) s"
      "\<forall>w \<in> set (opt_owner m x). current = Some w" and d: "c_view (people m) s i = Some d" "has_code n d" for m x t t'
  proof (cases x)
    case None
    then show ?thesis using c_findOne_None [OF people_storeD(2) [OF st] f(1) [unfolded None]] f(2) d by simp
  next
    case (Some d')
    obtain j where "has_code n d'" "c_view (people m) t j = Some d'"
      using c_findOne_Some [OF people_storeD(2) [OF st] f(1) [unfolded Some]] by blast
    then show ?thesis using f(2,3) Some by (auto simp: opt_owner_def)
  qed
  show "\<exists>j d'. c_view (people m) s j = Some d' \<and> has_code n d' \<and> current = Some \<lparr>ow_modelName = m, ow_id = doc_id d'\<rparr>"
    if h: "r = None" "m \<in> {''User'', ''ClientCompany'', ''SubAccount''}" "c_view (people m) s i = Some d" "has_code n d"
  proof -
    have all: "\<forall>w \<in> set (opt_owner ''User'' u @ opt_owner ''ClientCompany'' c @ opt_owner ''SubAccount'' a). current = Some w"
      using h(1) unfolding r out_def find_None_iff by auto
    consider "m = ''User''" | "m = ''ClientCompany''" | "m = ''SubAccount''" using h(2) by blast
    then show ?thesis
    proof cases
      case 1
      then show ?thesis using own [OF f1] all h by simp
    next
      case 2
      then show ?thesis using own [OF f2] all h K by simp
    next
      case 3
      then show ?thesis using own [OF f3] all h K by simp
    qed
  qed
qed

lemma reserve_ok:
  assumes st: "people_store people codes" and run: "reserveAccountCode codes code current t s = (r, s')"
  shows "c_view (people m) s' = c_view (people m) s"
    "r = Inr x \<Longrightarrow> ac_code x = normalizeAccountCode code \<and> ac_owner x = current \<and> c_view codes s' (owner_key current) = Some x"
  using run people_storeD(1) [OF st] quietD(6) [OF people_storeD(4) [OF st]] unfolding reserveAccountCode_def
  by (auto simp: catch_run run_simps dest: c_upsert_ok split: prod.splits sum.splits)

lemma claim_ok:
  assumes st: "people_store people codes" and run: "claim_code people codes current t code s = (r, s')"
  shows "r = Inl e \<Longrightarrow> c_view (people m) s' = c_view (people m) s"
    "r = Inr c \<Longrightarrow> c = code \<and> (\<exists>x. c_view codes s' (owner_key current) = Some x
        \<and> ac_code x = normalizeAccountCode (Str code) \<and> ac_owner x = current)"
proof -
  obtain r1 s1 where 1: "reserveAccountCode codes (Str code) current t s = (r1, s1)" by fastforce
  note R = reserve_ok [OF st 1]
  obtain r2 s2 where 2: "c_update (people (ow_modelName current)) (ow_id current) (\<lambda>_. True) (set_code code) s1 = (r2, s2)" by fastforce
  note q = quietD(2) [OF people_storeD(3) [OF st] 2]
  show "c_view (people m) s' = c_view (people m) s" if e: "r = Inl e"
  proof (cases r1)
    case (Inl x)
    then show ?thesis using run e 1 R(1) by (simp add: claim_code_def run_simps)
  next
    case (Inr x)
    then obtain e' where "r2 = Inl e'" "s' = s2" using run e 1 2 by (cases r2) (simp_all add: claim_code_def run_simps)
    moreover from this have "c_view (people m) s2 = c_view (people m) s1"
      using 2 c_update_fail [OF people_storeD(2) [OF st]] quietD(2) [OF people_storeD(5) [OF st] 2]
      by (cases "m = ow_modelName current") blast+
    ultimately show ?thesis using R(1) by simp
  qed
  show "c = code \<and> (\<exists>x. c_view codes s' (owner_key current) = Some x
        \<and> ac_code x = normalizeAccountCode (Str code) \<and> ac_owner x = current)" if "r = Inr c"
    using run that 1 2 R(2) q by (cases r1; cases r2) (auto simp: claim_code_def run_simps)
qed

lemma valid_code:
  assumes "validateAccountCode v len = Inr code" "0 < len"
  shows "all_in is_digit len len code" "normalizeAccountCode (Str code) = code" "code \<noteq> []"
proof -
  show a: "all_in is_digit len len code" using assms(1) by (auto simp: validateAccountCode_def Let_def split: if_splits)
  then show "code \<noteq> []" using assms(2) by (auto simp: all_in_def)
  then show "normalizeAccountCode (Str code) = code"
    using a is_graphI(1) unfolding normalizeAccountCode_def by (intro clean_graph) (auto simp: all_in_def list_all_iff)
qed

text \<open>
  No account carries the code, except the one it is for.  The lookup asks for one document per model, so when the account
  carries the code itself nothing is said about the others of its model.
\<close>

definition code_free :: "(string \<Rightarrow> ('s, jsval) coll) \<Rightarrow> string \<Rightarrow> owner \<Rightarrow> 's \<Rightarrow> bool" where
  "code_free people code current s \<longleftrightarrow>
     (\<forall>m \<in> {''User'', ''ClientCompany'', ''SubAccount''}. \<forall>i d. c_view (people m) s i = Some d \<longrightarrow> has_code code d
        \<longrightarrow> (\<exists>j d'. c_view (people m) s j = Some d' \<and> has_code code d' \<and> current = \<lparr>ow_modelName = m, ow_id = doc_id d'\<rparr>))"

definition reserved_for :: "('s, account_code) coll \<Rightarrow> string \<Rightarrow> owner \<Rightarrow> 's \<Rightarrow> bool" where
  "reserved_for codes code current s \<longleftrightarrow>
     (\<exists>x. c_view codes s (owner_key current) = Some x \<and> ac_code x = code \<and> ac_owner x = current)"

lemma attempt_ok:
  assumes st: "people_store people codes" and code: "normalizeAccountCode (Str code) = code" "code \<noteq> []"
    and run: "attempt_code people codes current session t code s = (Inr r, s')"
  shows "r = None \<Longrightarrow> c_view (people m) s' = c_view (people m) s"
    "r = Some c \<Longrightarrow> c = code \<and> reserved_for codes code current s' \<and> code_free people code current s"
proof -
  let ?ens = "ensureAccountCodeAvailable people codes (Str code) (Some current)"
  obtain r1 s1 where 1: "findDuplicateAccountCode people codes (Str code) (Some current) s = (r1, s1)" by fastforce
  have keep: "c_view (people m) s1 = c_view (people m) s" for m
    using find_keeps(1,2) [OF st] 1 code unfolding findDuplicateAccountCode_def
    by (auto simp: bind_run ret_run split: prod.splits sum.splits)
  obtain r2 s2 where 2: "claim_code people codes current t code s1 = (r2, s2)" by fastforce
  note C = claim_ok [OF st 2]
  have rel: "c_view (people m) (snd (releaseAccountCodeReservation codes current x)) = c_view (people m) x" for x m
    using quietD(7) [OF people_storeD(4) [OF st]] unfolding releaseAccountCodeReservation_def by (metis prod.collapse)
  show "c_view (people m) s' = c_view (people m) s" if "r = None"
    using run that 1 2 keep C(1) unfolding attempt_code_def ensureAccountCodeAvailable_def
    by (auto simp: run_simps catch_run duplicate_error_def split: prod.splits sum.splits if_splits)
  show "c = code \<and> reserved_for codes code current s' \<and> code_free people code current s" if "r = Some c"
  proof -
    have "r1 = Inr None \<and> r2 = Inr c \<and> s' = s2"
      using run that 1 2 unfolding attempt_code_def ensureAccountCodeAvailable_def
      by (auto simp: run_simps catch_run duplicate_error_def split: prod.splits sum.splits if_splits)
    then show ?thesis
      using C(2) findDuplicate_None(2) [OF st code 1 [unfolded conjunct1 [OF \<open>r1 = Inr None \<and> r2 = Inr c \<and> s' = s2\<close>]] refl] code
      unfolding reserved_for_def code_free_def by fastforce
  qed
qed

text \<open>
  C38: an assigned code is valid, reserved for its account and free.  When an assignment returns, the
  code has the length that was asked for, the reservation of the account carries it, and no other
  account had it when the assignment began, however many attempts failed, unless the account itself
  had it already, when the lookup does not see the others of its model.
\<close>

theorem assigned_code_unique:
  assumes st: "people_store people codes" and len: "0 < len"
    and run: "assignGeneratedAccountCode people codes current len session t randoms s = (Inr code, s')"
  shows "all_in is_digit len len code \<and> reserved_for codes code current s' \<and> code_free people code current s"
  using run
proof (induction randoms arbitrary: s)
  case (Cons x xs)
  obtain c1 where v: "validateAccountCode (Str (generateNumericCode len x)) len = Inr c1"
    using Cons.prems by (cases "validateAccountCode (Str (generateNumericCode len x)) len") (simp_all add: run_simps)
  note V = valid_code [OF v len]
  obtain got s1 where 1: "attempt_code people codes current session t c1 s = (Inr got, s1)"
    and rest: "(case got of Some c \<Rightarrow> ret c | None \<Rightarrow> assignGeneratedAccountCode people codes current len session t xs) s1 = (Inr code, s')"
    using Cons.prems v by (auto simp: run_simps elim!: bind_InrE split: prod.splits sum.splits)
  note A = attempt_ok [OF st V(2,3) 1]
  show ?case
  proof (cases got)
    case None
    then show ?thesis using Cons.IH [of s1] rest A(1) unfolding code_free_def by simp
  next
    case (Some c)
    then show ?thesis using A(2) V(1) rest by (auto simp: run_simps)
  qed
qed simp

section \<open>Codes in memory\<close>

record code_db =
  cd_people :: "string \<Rightarrow> (string \<times> jsval) list"
  cd_codes :: "(string \<times> account_code) list"

definition mem_people :: "string \<Rightarrow> (code_db, jsval) coll" where
  "mem_people m = mem_coll (\<lambda>s. cd_people s m) (\<lambda>l s. s\<lparr>cd_people := (cd_people s)(m := l)\<rparr>)"

definition mem_codes :: "(code_db, account_code) coll" where
  "mem_codes = mem_coll cd_codes (\<lambda>l s. s\<lparr>cd_codes := l\<rparr>)"

lemma mem_people_store: "people_store mem_people mem_codes"
  unfolding people_store_def mem_people_def mem_codes_def
  by (auto intro!: mem_coll_ok mem_coll_quiet simp: mem_coll_view)

definition demo_owner :: owner where
  "demo_owner = \<lparr>ow_modelName = ''User'', ow_id = ''u1''\<rparr>"

definition demo_code_db :: code_db where
  "demo_code_db = \<lparr>cd_people = (\<lambda>_. []), cd_codes = []\<rparr>"

theorem assigned_code_unique_witness:
  "\<exists>s'. assignGeneratedAccountCode mem_people mem_codes demo_owner 4 False Undef [Fin (1 / 2)] demo_code_db = (Inr ''5500'', s')
     \<and> reserved_for mem_codes ''5500'' demo_owner s'"
proof -
  have g: "generateNumericCode 4 (Fin (1 / 2)) = ''5500''" by code_simp
  have c: "clean (Str ''5500'') = ''5500''" by (rule clean_graph) (simp_all add: is_graph_def)
  have v: "validateAccountCode (Str ''5500'') 4 = Inr ''5500''"
    by (simp add: validateAccountCode_def normalizeAccountCode_def c all_in_def is_digit_def)
  have "\<exists>s'. assignGeneratedAccountCode mem_people mem_codes demo_owner 4 False Undef [Fin (1 / 2)] demo_code_db = (Inr ''5500'', s')"
    by (simp add: g v run_simps attempt_code_def ensureAccountCodeAvailable_def findDuplicateAccountCode_def
        normalizeAccountCode_def c Let_def mem_people_def mem_codes_def mem_coll_def demo_code_db_def opt_owner_def
        claim_code_def reserveAccountCode_def catch_run)
  then show ?thesis using assigned_code_unique [OF mem_people_store] by (metis zero_less_numeral)
qed


text \<open>
  A lookup between the two writes of an assignment takes the fresh reservation for a stale one and
  deletes it, so that the account keeps its code without a reservation.
\<close>

definition demo_account :: jsval where
  "demo_account = Obj [(''_id'', Str ''u1'')]"

lemma lookup_drops_reservation:
  "let s0 = demo_code_db\<lparr>cd_people := (\<lambda>m. if m = ''User'' then [(''u1'', demo_account)] else [])\<rparr>;
       s1 = snd (reserveAccountCode mem_codes (Str ''5500'') demo_owner Undef s0);
       (r, s2) = resolveAccountByCode (\<lambda>_. Undef) mem_people mem_codes (Str ''5500'') Undef s1;
       s3 = snd (c_update (mem_people ''User'') ''u1'' (\<lambda>_. True) (set_code ''5500'') s2)
   in r = Inr None \<and> c_view mem_codes s1 (owner_key demo_owner) \<noteq> None \<and> c_view mem_codes s3 = Map.empty
      \<and> (\<exists>d. c_view (mem_people ''User'') s3 ''u1'' = Some d \<and> has_code ''5500'' d)"
proof -
  have c: "clean (Str ''5500'') = ''5500''" by (rule clean_graph) (simp_all add: is_graph_def)
  have g: "\<not> tenantGuardEnabled (\<lambda>_. Undef)" unfolding tenantGuardEnabled_def by code_simp
  have a: "all_in is_digit 4 6 ''5500''" by code_simp
  show ?thesis
    by (simp add: reserveAccountCode_def normalizeAccountCode_def c demo_owner_def demo_code_db_def catch_run run_simps
        mem_people_def mem_codes_def mem_coll_def resolveAccountByCode_def g a in_scope_def has_code_def demo_account_def
        opt_party_def resolve_unmatched_def foreign_error_def resolveFromReservation_def releaseAccountCodeReservation_def
        set_code_def owner_key_def Let_def)
qed

end
