(* ===== verification/Balance_Transfer.thy ===== *)
theory Balance_Transfer
  imports Account_Codes Mongo_Session
begin

text \<open>
  Transfers between accounts: services/balanceTransferService.js.  The money of the accounts and the rest of their
  documents are two families of collections; the clock, the new identifiers and the outcomes of writing the
  receipt and the audit record are fields of the request.  The transaction of the database and the locks are
  parameters.  Notifications after the transfer are left out.
\<close>

section \<open>Parties of a transfer\<close>

definition accountName :: "party \<Rightarrow> string" where
  "accountName p = toString (or_else (or_else (or_else (get (pa_doc p) ''name'') (get (pa_doc p) ''webUsername''))
     (get (pa_doc p) ''phone'')) (Str (pa_modelName p)))"

definition accountCode :: "party \<Rightarrow> string \<Rightarrow> string" where
  "accountCode p fallback = toString (or_else (get (pa_doc p) ''accountCode'') (Str fallback))"

definition isActiveAccount :: "party \<Rightarrow> bool" where
  "isActiveAccount p \<longleftrightarrow> get (pa_doc p) ''status'' = Str ''active''"

definition same_account :: "party \<Rightarrow> party \<Rightarrow> bool" where
  "same_account p q \<longleftrightarrow> pa_modelName p = pa_modelName q \<and> doc_id (pa_doc p) = doc_id (pa_doc q)"

definition assertDifferentAccounts :: "party \<Rightarrow> party \<Rightarrow> error + unit" where
  "assertDifferentAccounts source target =
     (if same_account source target then Inl (plain_error ''SAME_ACCOUNT'') else Inr ())"

section \<open>Transactions and ledger entries\<close>

record transfer_tx = idem_tx +
  tt_customId :: string
  tt_transferType :: string
  tt_vodafoneNumber :: string
  tt_accountNumber :: string
  tt_accountName :: string
  tt_amount :: jsnum
  tt_costLYD :: jsnum
  tt_status :: string
  tt_notes :: string
  tt_customerNotes :: string
  tt_adminNotes :: string
  tt_userId :: jsval
  tt_companyId :: jsval
  tt_subAccountId :: jsval
  tt_isSubAccountTx :: bool
  tt_companyName :: jsval
  tt_subAccountName :: jsval
  tt_employeeName :: jsval
  tt_proofImage :: string
  tt_tenantId :: jsval

text \<open>The fields that do not depend on the kind of the account.\<close>

definition base_tx :: "party \<Rightarrow> string \<Rightarrow> string \<Rightarrow> jsnum \<Rightarrow> string \<Rightarrow> string \<Rightarrow> transfer_tx" where
  "base_tx p customId status amount notes adminNotes =
     \<lparr>it_idempotencyKey = None, it_idempotencyFingerprint = None, it_idempotencyResponse = Undef,
      tt_customId = customId, tt_transferType = ''balance_transfer'', tt_vodafoneNumber = accountCode p ''BALANCE'',
      tt_accountNumber = accountCode p [], tt_accountName = accountName p, tt_amount = amount, tt_costLYD = Fin 0,
      tt_status = status, tt_notes = notes, tt_customerNotes = notes, tt_adminNotes = adminNotes,
      tt_userId = Null, tt_companyId = Null, tt_subAccountId = Null, tt_isSubAccountTx = False,
      tt_companyName = Undef, tt_subAccountName = Undef, tt_employeeName = Undef, tt_proofImage = [], tt_tenantId = Undef\<rparr>"

definition login_of :: "jsval \<Rightarrow> jsval" where
  "login_of d = or_else (get d ''phone'') (get d ''webUsername'')"

definition user_tx :: "party \<Rightarrow> transfer_tx \<Rightarrow> transfer_tx" where
  "user_tx p base = base\<lparr>tt_userId := login_of (pa_doc p),
     tt_companyName := Str (if get (pa_doc p) ''role'' = Str ''agent''
        then utf8 [217, 136, 217, 131, 217, 138, 217, 132, 32, 217, 129, 216, 177, 216, 175, 217, 138]
        else utf8 [216, 185, 217, 133, 217, 138, 217, 132, 32, 217, 129, 216, 177, 216, 175, 217, 138]),
     tt_employeeName := get (pa_doc p) ''name''\<rparr>"

definition company_tx :: "party \<Rightarrow> jsval \<Rightarrow> transfer_tx \<Rightarrow> transfer_tx" where
  "company_tx p performedBy base = base\<lparr>tt_userId := Str ''balance-transfer'', tt_companyId := get (pa_doc p) ''_id'',
     tt_companyName := get (pa_doc p) ''name'', tt_employeeName := or_else performedBy (get (pa_doc p) ''name'')\<rparr>"

definition sub_account_tx :: "party \<Rightarrow> jsval option \<Rightarrow> transfer_tx \<Rightarrow> transfer_tx" where
  "sub_account_tx p master base = (let masterType = get (pa_doc p) ''masterType'' in
     base\<lparr>tt_userId := (case master of Some m \<Rightarrow> if masterType = Str ''user'' then login_of m else Null | None \<Rightarrow> Null),
       tt_companyId := (case master of Some m \<Rightarrow> if masterType = Str ''company'' then get m ''_id'' else Null | None \<Rightarrow> Null),
       tt_subAccountId := get (pa_doc p) ''_id'', tt_isSubAccountTx := True,
       tt_companyName := (case master of Some m \<Rightarrow> get m ''name''
          | None \<Rightarrow> Str (utf8 [217, 136, 217, 131, 217, 138, 217, 132, 32, 216, 186, 217, 138, 216, 177, 32, 217, 133, 216, 185, 216, 177, 217, 136, 217, 129])),
       tt_subAccountName := get (pa_doc p) ''name'', tt_employeeName := get (pa_doc p) ''name''\<rparr>)"

definition buildEntityTransactionFields ::
    "(string \<Rightarrow> ('s, jsval) coll) \<Rightarrow> party \<Rightarrow> jsval \<Rightarrow> string \<Rightarrow> string \<Rightarrow> jsnum \<Rightarrow> string \<Rightarrow> string \<Rightarrow> ('s, transfer_tx) run" where
  "buildEntityTransactionFields people p performedBy customId status amount notes adminNotes =
     (let base = base_tx p customId status amount notes adminNotes
      in if pa_modelName p = ''User'' then ret (user_tx p base)
         else if pa_modelName p = ''ClientCompany'' then ret (company_tx p performedBy base)
         else bind (c_get (people (if get (pa_doc p) ''masterType'' = Str ''company'' then ''ClientCompany'' else ''User''))
                     (toString (get (pa_doc p) ''masterId'')))
                (\<lambda>master. ret (sub_account_tx p master base)))"

definition tenant_text :: "jsval \<Rightarrow> string option" where
  "tenant_text tenantId = (if truthy tenantId then Some (toString tenantId) else None)"

definition createLedgerEntries :: "party \<Rightarrow> party \<Rightarrow> string \<Rightarrow> jsnum \<Rightarrow> jsnum \<Rightarrow> jsnum \<Rightarrow> jsval \<Rightarrow> ledger_entry \<times> ledger_entry" where
  "createLedgerEntries source target transferId amount sourceAfter targetAfter tenantId =
     (\<lparr>le_tenantId = tenant_text tenantId, le_entityId = doc_id (pa_doc source), le_entityModel = pa_modelName source,
       le_transactionId = transferId, le_type = ''TRANSFER'', le_amount = n_neg amount,
       le_balanceBefore = n_add sourceAfter amount, le_balanceAfter = sourceAfter,
       le_description = utf8 [216, 170, 216, 173, 217, 136, 217, 138, 217, 132, 32, 216, 177, 216, 181, 217, 138, 216, 175, 32, 216, 165, 217, 132, 217, 137, 32]
          @ accountName target @ '' ('' @ toString (get (pa_doc target) ''accountCode'') @ '')''\<rparr>,
      \<lparr>le_tenantId = tenant_text tenantId, le_entityId = doc_id (pa_doc target), le_entityModel = pa_modelName target,
       le_transactionId = transferId, le_type = ''TRANSFER'', le_amount = amount,
       le_balanceBefore = n_sub targetAfter amount, le_balanceAfter = targetAfter,
       le_description = utf8 [216, 167, 216, 179, 216, 170, 217, 132, 216, 167, 217, 133, 32, 216, 177, 216, 181, 217, 138, 216, 175, 32, 217, 133, 217, 134, 32]
          @ accountName source @ '' ('' @ accountCode source (utf8 [216, 168, 216, 175, 217, 136, 217, 134, 32, 73, 68]) @ '')''\<rparr>)"

section \<open>The state and the request\<close>

text \<open>
  The money of the accounts is in \<open>tw_accounts\<close> and the rest of their documents in \<open>tw_people\<close>, by model.
\<close>

record 's transfer_world =
  tw_accounts :: "string \<Rightarrow> ('s, account) coll"
  tw_people :: "string \<Rightarrow> ('s, jsval) coll"
  tw_codes :: "('s, account_code) coll"
  tw_ledger :: "('s, ledger_entry) coll"
  tw_txs :: "('s, transfer_tx) coll"
  tw_counters :: "('s, int) coll"

text \<open>
  \<open>sv_canUse\<close> and \<open>sv_started\<close> say whether the server has transactions and whether a session could be
  started.
\<close>

record server =
  sv_env :: environment
  sv_emergency :: bool
  sv_canUse :: bool
  sv_started :: bool
  sv_sha256 :: "string \<Rightarrow> string"

definition sv_requires :: "server \<Rightarrow> bool" where
  "sv_requires sv = requiresMongoTransactions (sv_emergency sv) (sv_env sv)"

text \<open>
  The request with the values of the clock (\<open>tr_yymm\<close>), the identifiers of the documents to create and
  the outcomes of writing the receipt and the audit record.
\<close>

record transfer_request =
  tr_source :: party
  tr_performedBy :: jsval
  tr_targetCode :: jsval
  tr_amount :: jsval
  tr_notes :: string
  tr_idempotencyKey :: jsval
  tr_idempotencyFingerprint :: "string option"
  tr_lockHeld :: bool
  tr_channel :: jsval
  tr_payload :: jsval
  tr_context :: jsval
  tr_external :: bool
  tr_yymm :: string
  tr_sourceTx :: string
  tr_targetTx :: string
  tr_sourceEntry :: string
  tr_targetEntry :: string
  tr_receipt :: "error option"
  tr_audit :: "error option"

record transfer_result =
  tf_clientResponse :: jsval
  tf_transferId :: string
  tf_amount :: jsnum
  tf_sourceBalance :: jsnum
  tf_target :: party

datatype transfer_outcome = Replayed jsval | Transferred transfer_result

section \<open>Checks before the transfer\<close>

definition check_parties :: "environment \<Rightarrow> party \<Rightarrow> party \<Rightarrow> error + unit" where
  "check_parties env source target =
     (if \<not> isActiveAccount source then Inl (plain_error ''SOURCE_INACTIVE'')
      else if \<not> isActiveAccount target then Inl (plain_error ''TARGET_INACTIVE'')
      else bindE (assertDifferentAccounts source target)
        (\<lambda>_. assertAccountsSameTenant env (get (pa_doc source) ''tenantId'') (get (pa_doc target) ''tenantId'')))"

definition prepare_transfer :: "server \<Rightarrow> 's transfer_world \<Rightarrow> transfer_request \<Rightarrow> ('s, jsnum \<times> jsval \<times> party) run" where
  "prepare_transfer sv w rq =
     (let normalizedAmount = toNumber (tr_amount rq)
      in if \<not> isFinite normalizedAmount \<or> n_le normalizedAmount (Fin 0) then throw (plain_error ''INVALID_AMOUNT'')
         else bind (of_result (resolveStampTenant (sv_env sv) (tr_context rq) (pa_doc (tr_source rq)))) (\<lambda>tenantId.
              bind (resolveAccountByCode (sv_env sv) (tw_people w) (tw_codes w) (tr_targetCode rq) (tr_context rq)) (\<lambda>found.
                case found of None \<Rightarrow> throw (plain_error ''TARGET_NOT_FOUND'')
                | Some target \<Rightarrow> andThen (of_result (check_parties (sv_env sv) (tr_source rq) target))
                    (ret (normalizedAmount, tenantId, target)))))"

section \<open>Moving the money\<close>

definition nextBalanceTransferId :: "('s, int) coll \<Rightarrow> string \<Rightarrow> ('s, string) run" where
  "nextBalanceTransferId counters yymm =
     bind (c_upsert counters ''balance_transfer'' (\<lambda>v. case v of None \<Rightarrow> 1 | Some n \<Rightarrow> n + 1))
       (\<lambda>n. ret (''BTR-'' @ yymm @ ''-'' @ pad_zeros 4 (int_str n)))"

definition proof_id :: "string \<Rightarrow> string" where
  "proof_id transferId = ''proofs/'' @ transferId @ ''_balance_transfer_receipt.svg''"

definition client_response :: "party \<Rightarrow> string \<Rightarrow> jsnum \<Rightarrow> jsnum \<Rightarrow> jsval" where
  "client_response target transferId amount sourceBalance = Obj
     [(''success'', Bool True),
      (''message'', Str (utf8 [216, 170, 217, 133, 32, 216, 170, 216, 173, 217, 136, 217, 138, 217, 132, 32] @ fixed_str 2 amount
          @ utf8 [32, 76, 89, 68, 32, 216, 165, 217, 132, 217, 137, 32] @ accountName target
          @ utf8 [32, 216, 168, 217, 134, 216, 172, 216, 167, 216, 173, 46])),
      (''transferId'', Str transferId), (''newBalance'', Str (fixed_str 2 sourceBalance)), (''amount'', Num amount),
      (''sourceBalance'', Num sourceBalance), (''targetName'', Str (accountName target)),
      (''targetCode'', get (pa_doc target) ''accountCode''), (''targetType'', Str (pa_label target))]"

text \<open>The key under which the outcome is stored: the protected one, or that of a caller who holds its lock.\<close>

definition stored_idempotency :: "'l idempotency \<Rightarrow> transfer_request \<Rightarrow> (string \<times> string option) option" where
  "stored_idempotency idem rq =
     (if id_active idem then (case id_key idem of Some k \<Rightarrow> Some (k, id_fingerprint idem) | None \<Rightarrow> None)
      else if tr_lockHeld rq \<and> truthy (tr_idempotencyKey rq)
      then Some (toString (tr_idempotencyKey rq), if tr_idempotencyFingerprint rq = Some [] then None
              else tr_idempotencyFingerprint rq) else None)"

definition stamp_tx :: "string \<Rightarrow> jsval \<Rightarrow> transfer_tx \<Rightarrow> transfer_tx" where
  "stamp_tx transferId tenantId tx = tx\<lparr>tt_proofImage := proof_id transferId,
     tt_tenantId := (if truthy tenantId then tenantId else Undef)\<rparr>"

definition store_key :: "(string \<times> string option) option \<Rightarrow> jsval \<Rightarrow> transfer_tx \<Rightarrow> transfer_tx" where
  "store_key stored response tx = (case stored of None \<Rightarrow> tx
     | Some (k, f) \<Rightarrow> tx\<lparr>it_idempotencyKey := Some k, it_idempotencyFingerprint := f, it_idempotencyResponse := response\<rparr>)"

definition source_note :: "party \<Rightarrow> string" where
  "source_note target = utf8 [216, 170, 216, 173, 217, 136, 217, 138, 217, 132, 32, 216, 177, 216, 181, 217, 138, 216, 175, 32, 216, 181, 216, 167, 216, 175, 216, 177, 32, 216, 165, 217, 132, 217, 137, 32]
     @ accountName target @ '' - ID: '' @ accountCode target (utf8 [216, 186, 217, 138, 216, 177, 32, 217, 133, 216, 173, 216, 175, 216, 175])"

definition target_note :: "party \<Rightarrow> string" where
  "target_note source = utf8 [216, 170, 216, 173, 217, 136, 217, 138, 217, 132, 32, 216, 177, 216, 181, 217, 138, 216, 175, 32, 217, 136, 216, 167, 216, 177, 216, 175, 32, 217, 133, 217, 134, 32]
     @ accountName source @ '' - ID: '' @ accountCode source (utf8 [216, 186, 217, 138, 216, 177, 32, 217, 133, 216, 173, 216, 175, 216, 175])"

definition fail_if :: "error option \<Rightarrow> ('s, unit) run" where
  "fail_if e = (case e of None \<Rightarrow> ret () | Some err \<Rightarrow> throw err)"

text \<open>A transfer: its number, amount and tenant, the two parties and the balances after it.\<close>

record transfer =
  tn_id :: string
  tn_amount :: jsnum
  tn_tenantId :: jsval
  tn_target :: party
  tn_sourceAfter :: jsnum
  tn_targetAfter :: jsnum

definition transfer_docs ::
    "'s transfer_world \<Rightarrow> transfer_request \<Rightarrow> (string \<times> string option) option \<Rightarrow> transfer \<Rightarrow> ('s, transfer_tx \<times> transfer_tx) run" where
  "transfer_docs w rq stored t =
     (let response = client_response (tn_target t) (tn_id t) (tn_amount t) (tn_sourceAfter t); notes = trim (tr_notes rq)
      in bind (buildEntityTransactionFields (tw_people w) (tr_source rq) (tr_performedBy rq) (tn_id t @ ''-D'') ''deduction''
                 (tn_amount t) notes (source_note (tn_target t)))
           (\<lambda>sourceTx. bind (buildEntityTransactionFields (tw_people w) (tn_target t) Undef (tn_id t @ ''-C'') ''deposit''
                 (tn_amount t) notes (target_note (tr_source rq)))
             (\<lambda>targetTx. ret (store_key stored response (stamp_tx (tn_id t) (tn_tenantId t) sourceTx),
                             stamp_tx (tn_id t) (tn_tenantId t) targetTx))))"

definition record_transfer ::
    "server \<Rightarrow> 's transfer_world \<Rightarrow> transfer_request \<Rightarrow> bool \<Rightarrow> (string \<times> string option) option \<Rightarrow> transfer
      \<Rightarrow> ('s, transfer_outcome) run" where
  "record_transfer sv w rq session stored t =
     andThen (fail_if (tr_receipt rq))
      (bind (transfer_docs w rq stored t) (\<lambda>(sourceTx, targetTx).
         let (sourceEntry, targetEntry) = createLedgerEntries (tr_source rq) (tn_target t) (tn_id t) (tn_amount t)
               (tn_sourceAfter t) (tn_targetAfter t) (tn_tenantId t)
         in andThen (c_insert (tw_txs w) (tr_sourceTx rq) sourceTx)
           (andThen (c_insert (tw_txs w) (tr_targetTx rq) targetTx)
           (andThen (c_insert (tw_ledger w) (tr_sourceEntry rq) sourceEntry)
           (andThen (c_insert (tw_ledger w) (tr_targetEntry rq) targetEntry)
           (andThen (if auditInTransactionEnabled (sv_env sv) \<and> session \<and> \<not> tr_external rq then fail_if (tr_audit rq) else ret ())
              (ret (Transferred \<lparr>tf_clientResponse = client_response (tn_target t) (tn_id t) (tn_amount t) (tn_sourceAfter t),
                 tf_transferId = tn_id t, tf_amount = tn_amount t, tf_sourceBalance = tn_sourceAfter t,
                 tf_target = tn_target t\<rparr>))))))))"

definition quietly :: "('s, 'a) run \<Rightarrow> ('s, unit) run" where
  "quietly m = catch (andThen m (ret ())) (\<lambda>_. ret ())"

definition add_to :: "'s transfer_world \<Rightarrow> party \<Rightarrow> (account \<Rightarrow> bool) \<Rightarrow> jsnum \<Rightarrow> ('s, account option) run" where
  "add_to w p ok amount = c_update (tw_accounts w (pa_modelName p)) (doc_id (pa_doc p)) ok (inc_balance amount)"

text \<open>Without a session, a failure after the debit is compensated; failures of the compensation are ignored.\<close>

definition compensate :: "'s transfer_world \<Rightarrow> party \<Rightarrow> party \<Rightarrow> string \<Rightarrow> jsnum \<Rightarrow> bool \<Rightarrow> ('s, unit) run" where
  "compensate w source target transferId amount credited =
     andThen (quietly (add_to w source (\<lambda>_. True) amount))
       (andThen (if credited then quietly (add_to w target (\<lambda>_. True) (n_neg amount)) else ret ())
         (andThen (quietly (c_deleteMany (tw_txs w) (\<lambda>tx. tt_customId tx \<in> {transferId @ ''-D'', transferId @ ''-C''})))
           (quietly (c_deleteMany (tw_ledger w) (\<lambda>e. le_transactionId e = transferId)))))"

definition guarded_step :: "bool \<Rightarrow> ('s, unit) run \<Rightarrow> ('s, 'a) run \<Rightarrow> ('s, 'a) run" where
  "guarded_step session undo m = (if session then m else catch m (\<lambda>err. andThen undo (throw err)))"

definition or_throw :: "string \<Rightarrow> 'a option \<Rightarrow> ('s, 'a) run" where
  "or_throw msg x = (case x of None \<Rightarrow> throw (plain_error msg) | Some a \<Rightarrow> ret a)"

definition move_money ::
    "server \<Rightarrow> 's transfer_world \<Rightarrow> transfer_request \<Rightarrow> (string \<times> string option) option \<Rightarrow> jsnum \<Rightarrow> jsval \<Rightarrow> party \<Rightarrow> bool
      \<Rightarrow> ('s, transfer_outcome) run" where
  "move_money sv w rq stored amount tenantId target session =
     bind (nextBalanceTransferId (tw_counters w) (tr_yymm rq)) (\<lambda>transferId.
     bind (bind (add_to w (tr_source rq) (\<lambda>acc. n_le amount (balance acc)) (n_neg amount)) (or_throw ''INSUFFICIENT_BALANCE''))
       (\<lambda>sourceAfter.
     bind (guarded_step session (compensate w (tr_source rq) target transferId amount False)
             (bind (add_to w target (\<lambda>_. True) amount) (or_throw ''TARGET_NOT_FOUND'')))
       (\<lambda>targetAfter.
     guarded_step session (compensate w (tr_source rq) target transferId amount True)
       (record_transfer sv w rq session stored
          \<lparr>tn_id = transferId, tn_amount = amount, tn_tenantId = tenantId, tn_target = target,
            tn_sourceAfter = balance sourceAfter, tn_targetAfter = balance targetAfter\<rparr>))))"

definition in_session ::
    "server \<Rightarrow> (('s, transfer_outcome) run \<Rightarrow> ('s, transfer_outcome) run) \<Rightarrow> bool
      \<Rightarrow> (bool \<Rightarrow> ('s, transfer_outcome) run) \<Rightarrow> ('s, transfer_outcome) run" where
  "in_session sv txn external work = catch
     (if external then work True
      else if sv_canUse sv \<and> sv_started sv then txn (work True)
      else if sv_requires sv then throw financialTransactionsUnavailableError else work False)
     (\<lambda>err. throw (if sv_requires sv \<and> isMongoTransactionFallbackError err then financialTransactionsUnavailableError else err))"

definition always :: "('s \<Rightarrow> 's) \<Rightarrow> ('s, 'a) run \<Rightarrow> ('s, 'a) run" where
  "always f m = (\<lambda>s. case m s of (r, s') \<Rightarrow> (r, f s'))"

definition default_payload :: "transfer_request \<Rightarrow> jsnum \<Rightarrow> jsval" where
  "default_payload rq amount = or_else (tr_payload rq) (Obj
     [(''targetAccountCode'', Str (toString (or_else (tr_targetCode rq) (Str [])))), (''amount'', Num amount),
      (''notes'', Str (tr_notes rq))])"

definition begin_transfer ::
    "server \<Rightarrow> (string \<Rightarrow> ('s, 'l) run) \<Rightarrow> ('l \<Rightarrow> 's \<Rightarrow> 's) \<Rightarrow> 's transfer_world \<Rightarrow> transfer_request \<Rightarrow> jsnum \<Rightarrow> jsval
      \<Rightarrow> ('s, 'l idempotency) run" where
  "begin_transfer sv acquire release w rq amount tenantId =
     (if tr_lockHeld rq then ret inactive
      else beginIdempotentFinancialRequest (sv_env sv) (sv_sha256 sv) acquire release (tw_txs w) (tr_idempotencyKey rq)
             (get (pa_doc (tr_source rq)) ''_id'') tenantId (tr_channel rq) (default_payload rq amount)
             (tr_idempotencyFingerprint rq))"

definition executeBalanceTransfer ::
    "server \<Rightarrow> (('s, transfer_outcome) run \<Rightarrow> ('s, transfer_outcome) run) \<Rightarrow> (string \<Rightarrow> ('s, 'l) run) \<Rightarrow> ('l \<Rightarrow> 's \<Rightarrow> 's)
      \<Rightarrow> 's transfer_world \<Rightarrow> transfer_request \<Rightarrow> ('s, transfer_outcome) run" where
  "executeBalanceTransfer sv txn acquire release w rq =
     bind (prepare_transfer sv w rq) (\<lambda>(amount, tenantId, target).
     bind (begin_transfer sv acquire release w rq amount tenantId) (\<lambda>idem. case id_replay idem of
         Some r \<Rightarrow> ret (Replayed r)
       | None \<Rightarrow> always (release_idempotency release idem)
           (bind (acquireWalletLock (sv_env sv) acquire (get (pa_doc (tr_source rq)) ''_id'')) (\<lambda>walletLock.
              always (case walletLock of None \<Rightarrow> id | Some l \<Rightarrow> release l)
                (in_session sv txn (tr_external rq)
                  (move_money sv w rq (stored_idempotency idem rq) amount tenantId target))))))"

section \<open>What a transfer leaves alone\<close>

definition transfer_view ::
    "'s transfer_world \<Rightarrow> 's \<Rightarrow> (string \<Rightarrow> string \<Rightarrow> account option) \<times> (string \<Rightarrow> ledger_entry option) \<times> (string \<Rightarrow> transfer_tx option)" where
  "transfer_view w = money_view (tw_accounts w) (tw_ledger w) (tw_txs w)"

definition transfer_store :: "'s transfer_world \<Rightarrow> bool" where
  "transfer_store w \<longleftrightarrow> money_store (tw_accounts w) (tw_ledger w) (tw_txs w)
     \<and> (\<forall>m. quiet (tw_people w m) (transfer_view w)) \<and> quiet (tw_codes w) (transfer_view w)
     \<and> quiet (tw_counters w) (transfer_view w)"

lemma keeps_resolve [keeps_intros]:
  assumes "\<And>m. quiet (people m) v" "quiet codes v"
  shows "keeps v (resolveAccountByCode env people codes code ctx)"
  unfolding resolveAccountByCode_def resolve_unmatched_def findForeignAccount_def resolveFromReservation_def
    releaseAccountCodeReservation_def Let_def
  by (intro keeps_intros assms)

lemma keeps_fields [keeps_intros]:
  "(\<And>m. quiet (people m) v) \<Longrightarrow> keeps v (buildEntityTransactionFields people p by' c st a n an)"
  unfolding buildEntityTransactionFields_def Let_def by (intro keeps_intros)

lemma transfer_storeD:
  assumes "transfer_store w"
  shows "money_store (tw_accounts w) (tw_ledger w) (tw_txs w)" "quiet (tw_people w m) (transfer_view w)"
    "quiet (tw_codes w) (transfer_view w)" "quiet (tw_counters w) (transfer_view w)"
  using assms unfolding transfer_store_def by blast+

lemma keeps_prepare: "transfer_store w \<Longrightarrow> keeps (transfer_view w) (prepare_transfer sv w rq)"
  unfolding prepare_transfer_def Let_def by (intro keeps_intros transfer_storeD)

lemma keeps_docs: "transfer_store w \<Longrightarrow> keeps (transfer_view w) (transfer_docs w rq stored t)"
  unfolding transfer_docs_def Let_def by (intro keeps_intros transfer_storeD)

lemma keeps_counter: "transfer_store w \<Longrightarrow> keeps (transfer_view w) (nextBalanceTransferId (tw_counters w) yymm)"
  unfolding nextBalanceTransferId_def by (intro keeps_intros transfer_storeD)

section \<open>What a transfer does\<close>

text \<open>The contents of the accounts by model and id.\<close>

definition acct :: "'s transfer_world \<Rightarrow> 's \<Rightarrow> string \<times> string \<Rightarrow> account option" where
  "acct w s = (\<lambda>(m, i). c_view (tw_accounts w m) s i)"

definition party_key :: "party \<Rightarrow> string \<times> string" where
  "party_key p = (pa_modelName p, doc_id (pa_doc p))"

lemma view_parts:
  "transfer_view w s = transfer_view w t \<longleftrightarrow> acct w s = acct w t \<and> c_view (tw_ledger w) s = c_view (tw_ledger w) t
     \<and> c_view (tw_txs w) s = c_view (tw_txs w) t"
  by (auto simp: transfer_view_def money_view_def acct_def fun_eq_iff)

lemma add_to_effect:
  assumes st: "transfer_store w" and run: "add_to w p ok amount s = (r, s')"
  shows "c_view (tw_ledger w) s' = c_view (tw_ledger w) s \<and> c_view (tw_txs w) s' = c_view (tw_txs w) s"
    "r = Inr (Some acc) \<Longrightarrow> \<exists>old. acct w s (party_key p) = Some old \<and> ok old \<and> acc = inc_balance amount old
       \<and> acct w s' = (acct w s)(party_key p \<mapsto> acc)"
proof -
  note M = money_storeD [OF transfer_storeD(1) [OF st]]
  note u = run [unfolded add_to_def]
  show "c_view (tw_ledger w) s' = c_view (tw_ledger w) s \<and> c_view (tw_txs w) s' = c_view (tw_txs w) s"
    using quietD(2) [OF M(6) u] quietD(2) [OF M(7) u] by simp
  show "\<exists>old. acct w s (party_key p) = Some old \<and> ok old \<and> acc = inc_balance amount old
       \<and> acct w s' = (acct w s)(party_key p \<mapsto> acc)" if r: "r = Inr (Some acc)"
  proof -
    obtain old where old: "c_view (tw_accounts w (pa_modelName p)) s (doc_id (pa_doc p)) = Some old" "ok old"
      "acc = inc_balance amount old" "c_view (tw_accounts w (pa_modelName p)) s'
         = (c_view (tw_accounts w (pa_modelName p)) s)(doc_id (pa_doc p) \<mapsto> inc_balance amount old)"
      using c_update_Some [OF M(3) u [unfolded r]] by metis
    have "c_view (tw_accounts w m) s' = c_view (tw_accounts w m) s" if "m \<noteq> pa_modelName p" for m
      using quietD(2) [OF M(10) u] that by blast
    then have "acct w s' k = ((acct w s)(party_key p \<mapsto> acc)) k" for k
      using old by (cases k, cases "fst k = pa_modelName p") (auto simp: acct_def party_key_def)
    then show ?thesis using old by (auto simp: acct_def party_key_def)
  qed
qed

definition carries :: "(string \<times> string option) option \<Rightarrow> jsval \<Rightarrow> transfer_tx \<Rightarrow> bool" where
  "carries stored response x \<longleftrightarrow> (case stored of None \<Rightarrow> it_idempotencyKey x = None
     | Some (k, f) \<Rightarrow> it_idempotencyKey x = Some k \<and> it_idempotencyFingerprint x = f \<and> it_idempotencyResponse x = response)"

text \<open>The two balances move by the amount, and the two transactions and the two ledger entries are new.\<close>

definition transferred ::
    "'s transfer_world \<Rightarrow> transfer_request \<Rightarrow> (string \<times> string option) option \<Rightarrow> party \<Rightarrow> transfer_result \<Rightarrow> account \<Rightarrow> account
      \<Rightarrow> 's \<Rightarrow> 's \<Rightarrow> bool" where
  "transferred w rq stored target res sa ta s s' \<longleftrightarrow>
     acct w s (party_key (tr_source rq)) = Some sa \<and> n_le (tf_amount res) (balance sa)
   \<and> ((acct w s)(party_key (tr_source rq) \<mapsto> inc_balance (n_neg (tf_amount res)) sa)) (party_key target) = Some ta
   \<and> acct w s' = (acct w s)(party_key (tr_source rq) \<mapsto> inc_balance (n_neg (tf_amount res)) sa,
       party_key target \<mapsto> inc_balance (tf_amount res) ta)
   \<and> (\<exists>x y. c_view (tw_ledger w) s (tr_sourceEntry rq) = None
       \<and> ((c_view (tw_ledger w) s)(tr_sourceEntry rq \<mapsto> x)) (tr_targetEntry rq) = None
       \<and> c_view (tw_ledger w) s' = (c_view (tw_ledger w) s)(tr_sourceEntry rq \<mapsto> x, tr_targetEntry rq \<mapsto> y)
       \<and> le_amount x = n_neg (tf_amount res) \<and> le_amount y = tf_amount res
       \<and> le_transactionId x = tf_transferId res \<and> le_transactionId y = tf_transferId res
       \<and> (le_entityModel x, le_entityId x) = party_key (tr_source rq) \<and> (le_entityModel y, le_entityId y) = party_key target)
   \<and> (\<exists>x y. c_view (tw_txs w) s (tr_sourceTx rq) = None
       \<and> c_view (tw_txs w) s' = (c_view (tw_txs w) s)(tr_sourceTx rq \<mapsto> x, tr_targetTx rq \<mapsto> y)
       \<and> tr_sourceTx rq \<noteq> tr_targetTx rq
       \<and> carries stored (tf_clientResponse res) x \<and> it_idempotencyKey y = None)"


lemma built_key: "it_idempotencyKey (base_tx p c st a n an) = None" "it_idempotencyKey (user_tx p b) = it_idempotencyKey b"
    "it_idempotencyKey (company_tx p by' b) = it_idempotencyKey b"
    "it_idempotencyKey (sub_account_tx p m b) = it_idempotencyKey b"
    "it_idempotencyKey (stamp_tx t i b) = it_idempotencyKey b"
  by (simp_all add: base_tx_def user_tx_def company_tx_def sub_account_tx_def stamp_tx_def Let_def)

lemma fields_key:
  "buildEntityTransactionFields people p by' c st a n an s = (Inr tx, s') \<Longrightarrow> it_idempotencyKey tx = None"
  unfolding buildEntityTransactionFields_def Let_def
  by (auto simp: built_key run_simps split: if_splits prod.splits sum.splits)

lemma docs_key:
  assumes "transfer_docs w rq stored t s = (Inr (x, y), s')"
  shows "carries stored (client_response (tn_target t) (tn_id t) (tn_amount t) (tn_sourceAfter t)) x \<and> it_idempotencyKey y = None"
  using assms fields_key unfolding transfer_docs_def Let_def
  by (auto simp: built_key carries_def store_key_def elim!: bind_InrE split: option.splits)

lemma fail_if_Inr: "fail_if e s = (Inr x, s') \<longleftrightarrow> e = None \<and> s' = s"
  by (auto simp: fail_if_def split: option.splits)

lemma record_transfer_effect:
  assumes st: "transfer_store w" and run: "record_transfer sv w rq session stored t s = (Inr out, s')"
  shows "acct w s' = acct w s \<and> (\<exists>res. out = Transferred res \<and> tf_amount res = tn_amount t \<and> tf_transferId res = tn_id t
     \<and> tf_sourceBalance res = tn_sourceAfter t \<and> tf_target res = tn_target t
     \<and> tf_clientResponse res = client_response (tn_target t) (tn_id t) (tn_amount t) (tn_sourceAfter t)
     \<and> (case createLedgerEntries (tr_source rq) (tn_target t) (tn_id t) (tn_amount t) (tn_sourceAfter t) (tn_targetAfter t)
            (tn_tenantId t) of (x, y) \<Rightarrow>
          c_view (tw_ledger w) s (tr_sourceEntry rq) = None
          \<and> ((c_view (tw_ledger w) s)(tr_sourceEntry rq \<mapsto> x)) (tr_targetEntry rq) = None
          \<and> c_view (tw_ledger w) s' = (c_view (tw_ledger w) s)(tr_sourceEntry rq \<mapsto> x, tr_targetEntry rq \<mapsto> y))
     \<and> (\<exists>x y. c_view (tw_txs w) s (tr_sourceTx rq) = None
       \<and> c_view (tw_txs w) s' = (c_view (tw_txs w) s)(tr_sourceTx rq \<mapsto> x, tr_targetTx rq \<mapsto> y)
       \<and> tr_sourceTx rq \<noteq> tr_targetTx rq \<and> carries stored (tf_clientResponse res) x \<and> it_idempotencyKey y = None))"
proof -
  note M = money_storeD [OF transfer_storeD(1) [OF st]]
  obtain e1 e2 where ce: "createLedgerEntries (tr_source rq) (tn_target t) (tn_id t) (tn_amount t)
               (tn_sourceAfter t) (tn_targetAfter t) (tn_tenantId t) = (e1, e2)" by fastforce
  define res where "res = \<lparr>tf_clientResponse = client_response (tn_target t) (tn_id t) (tn_amount t) (tn_sourceAfter t),
     tf_transferId = tn_id t, tf_amount = tn_amount t, tf_sourceBalance = tn_sourceAfter t, tf_target = tn_target t\<rparr>"
  let ?audit = "if auditInTransactionEnabled (sv_env sv) \<and> session \<and> \<not> tr_external rq then fail_if (tr_audit rq) else ret ()"
  let ?rest = "\<lambda>x y. andThen (c_insert (tw_txs w) (tr_sourceTx rq) x) (andThen (c_insert (tw_txs w) (tr_targetTx rq) y)
     (andThen (c_insert (tw_ledger w) (tr_sourceEntry rq) e1) (andThen (c_insert (tw_ledger w) (tr_targetEntry rq) e2)
       (andThen ?audit (ret (Transferred res))))))"
  have "andThen (fail_if (tr_receipt rq)) (bind (transfer_docs w rq stored t) (\<lambda>(x, y). ?rest x y)) s = (Inr out, s')"
    using run unfolding record_transfer_def ce res_def Let_def by (simp add: case_prod_beta')
  then have b: "bind (transfer_docs w rq stored t) (\<lambda>(x, y). ?rest x y) s = (Inr out, s')"
    by (rule andThen_InrE) (simp add: fail_if_Inr)
  obtain p s1 where 1: "transfer_docs w rq stored t s = (Inr p, s1)" and b2: "(case p of (x, y) \<Rightarrow> ?rest x y) s1 = (Inr out, s')"
    using b by (rule bind_InrE)
  obtain x y where p: "p = (x, y)" by fastforce
  note V = keepsD [OF keeps_docs [OF st] 1, unfolded view_parts] and K = docs_key [OF 1 [unfolded p]]
  obtain s2 where 2: "c_insert (tw_txs w) (tr_sourceTx rq) x s1 = (Inr (), s2)" and b3: "andThen (c_insert (tw_txs w) (tr_targetTx rq) y)
     (andThen (c_insert (tw_ledger w) (tr_sourceEntry rq) e1) (andThen (c_insert (tw_ledger w) (tr_targetEntry rq) e2)
       (andThen ?audit (ret (Transferred res))))) s2 = (Inr out, s')"
    using b2 [unfolded p prod.case] by (rule andThen_InrE) simp
  obtain s3 where 3: "c_insert (tw_txs w) (tr_targetTx rq) y s2 = (Inr (), s3)" and b4:
     "andThen (c_insert (tw_ledger w) (tr_sourceEntry rq) e1) (andThen (c_insert (tw_ledger w) (tr_targetEntry rq) e2)
       (andThen ?audit (ret (Transferred res)))) s3 = (Inr out, s')"
    using b3 by (rule andThen_InrE) simp
  obtain s4 where 4: "c_insert (tw_ledger w) (tr_sourceEntry rq) e1 s3 = (Inr (), s4)" and b5:
     "andThen (c_insert (tw_ledger w) (tr_targetEntry rq) e2) (andThen ?audit (ret (Transferred res))) s4 = (Inr out, s')"
    using b4 by (rule andThen_InrE) simp
  obtain s5 where 5: "c_insert (tw_ledger w) (tr_targetEntry rq) e2 s4 = (Inr (), s5)" and b6:
     "andThen ?audit (ret (Transferred res)) s5 = (Inr out, s')"
    using b5 by (rule andThen_InrE) simp
  have 6: "s' = s5 \<and> out = Transferred res"
    using b6 by (auto simp: fail_if_def elim!: andThen_InrE split: if_splits option.splits)
  note I = c_insert_ok [OF M(2) 2] c_insert_ok [OF M(2) 3] c_insert_ok [OF M(1) 4] c_insert_ok [OF M(1) 5]
    quietD(3) [OF M(5) 2] quietD(3) [OF M(5) 3] quietD(3) [OF M(4) 4] quietD(3) [OF M(4) 5]
  have "acct w s5 = acct w s1"
    using quietD(3) [OF M(9) 2] quietD(3) [OF M(9) 3] quietD(3) [OF M(8) 4] quietD(3) [OF M(8) 5] by (simp add: acct_def)
  moreover have "tr_sourceTx rq \<noteq> tr_targetTx rq" using I by auto
  moreover have "\<exists>x y. c_view (tw_txs w) s (tr_sourceTx rq) = None
       \<and> c_view (tw_txs w) s' = (c_view (tw_txs w) s)(tr_sourceTx rq \<mapsto> x, tr_targetTx rq \<mapsto> y)
       \<and> carries stored (tf_clientResponse res) x \<and> it_idempotencyKey y = None"
    using I V K 6 by (intro exI [of _ x] exI [of _ y]) (simp add: res_def)
  ultimately show ?thesis using I V 6 by (simp add: ce res_def)
qed

lemma ledger_pair:
  "createLedgerEntries source target tid a sb tb ten = (x, y) \<Longrightarrow>
     le_amount x = n_neg a \<and> le_amount y = a \<and> le_transactionId x = tid \<and> le_transactionId y = tid
     \<and> (le_entityModel x, le_entityId x) = party_key source \<and> (le_entityModel y, le_entityId y) = party_key target"
  by (auto simp: createLedgerEntries_def party_key_def)

lemma guarded_step_Inr: "guarded_step session undo m s = (Inr a, s') \<Longrightarrow> m s = (Inr a, s')"
  by (auto simp: guarded_step_def catch_run andThen_run throw_run split: if_splits prod.splits sum.splits)

lemma or_throw_Inr: "or_throw msg x s = (Inr a, s') \<longleftrightarrow> x = Some a \<and> s' = s"
  by (auto simp: or_throw_def split: option.splits)

lemma add_or_throw:
  assumes "bind (add_to w p ok amount) (or_throw msg) s = (Inr acc, s')"
  shows "add_to w p ok amount s = (Inr (Some acc), s')"
  using assms by (rule bind_InrE) (simp add: or_throw_Inr)

lemma move_money_effect:
  assumes st: "transfer_store w" and run: "move_money sv w rq stored amount tenantId target session s = (Inr out, s')"
  obtains res sa ta where "out = Transferred res" "tf_amount res = amount" "tf_target res = target"
    "transferred w rq stored target res sa ta s s'"
    "tf_sourceBalance res = balance (inc_balance (n_neg amount) sa)"
proof -
  obtain tid s1 where 1: "nextBalanceTransferId (tw_counters w) (tr_yymm rq) s = (Inr tid, s1)"
    and r1: "bind (bind (add_to w (tr_source rq) (\<lambda>acc. n_le amount (balance acc)) (n_neg amount)) (or_throw ''INSUFFICIENT_BALANCE''))
       (\<lambda>sourceAfter.
     bind (guarded_step session (compensate w (tr_source rq) target tid amount False)
             (bind (add_to w target (\<lambda>_. True) amount) (or_throw ''TARGET_NOT_FOUND'')))
       (\<lambda>targetAfter.
     guarded_step session (compensate w (tr_source rq) target tid amount True)
       (record_transfer sv w rq session stored
          \<lparr>tn_id = tid, tn_amount = amount, tn_tenantId = tenantId, tn_target = target,
            tn_sourceAfter = balance sourceAfter, tn_targetAfter = balance targetAfter\<rparr>))) s1 = (Inr out, s')"
    using run unfolding move_money_def by (rule bind_InrE)
  obtain x s2 where 2: "bind (add_to w (tr_source rq) (\<lambda>acc. n_le amount (balance acc)) (n_neg amount)) (or_throw ''INSUFFICIENT_BALANCE'') s1 = (Inr x, s2)"
    and r2: "bind (guarded_step session (compensate w (tr_source rq) target tid amount False)
             (bind (add_to w target (\<lambda>_. True) amount) (or_throw ''TARGET_NOT_FOUND'')))
       (\<lambda>targetAfter.
     guarded_step session (compensate w (tr_source rq) target tid amount True)
       (record_transfer sv w rq session stored
          \<lparr>tn_id = tid, tn_amount = amount, tn_tenantId = tenantId, tn_target = target,
            tn_sourceAfter = balance x, tn_targetAfter = balance targetAfter\<rparr>)) s2 = (Inr out, s')"
    using r1 by (rule bind_InrE)
  obtain y s3 where 3: "guarded_step session (compensate w (tr_source rq) target tid amount False)
             (bind (add_to w target (\<lambda>_. True) amount) (or_throw ''TARGET_NOT_FOUND'')) s2 = (Inr y, s3)"
    and r3: "guarded_step session (compensate w (tr_source rq) target tid amount True)
       (record_transfer sv w rq session stored
          \<lparr>tn_id = tid, tn_amount = amount, tn_tenantId = tenantId, tn_target = target,
            tn_sourceAfter = balance x, tn_targetAfter = balance y\<rparr>) s3 = (Inr out, s')"
    using r2 by (rule bind_InrE)
  note V = keepsD [OF keeps_counter [OF st] 1, unfolded view_parts]
  note A = add_to_effect [OF st add_or_throw [OF 2]] and B = add_to_effect [OF st add_or_throw [OF guarded_step_Inr [OF 3]]]
  obtain sa where sa: "acct w s1 (party_key (tr_source rq)) = Some sa" "n_le amount (balance sa)" "x = inc_balance (n_neg amount) sa"
    "acct w s2 = (acct w s1)(party_key (tr_source rq) \<mapsto> x)" using A(2) by blast
  obtain ta where ta: "acct w s2 (party_key target) = Some ta" "y = inc_balance amount ta"
    "acct w s3 = (acct w s2)(party_key target \<mapsto> y)" using B(2) by blast
  note R = record_transfer_effect [OF st guarded_step_Inr [OF r3]]
  obtain res where res: "out = Transferred res" "tf_amount res = amount" "tf_transferId res = tid" "tf_target res = target"
    "tf_sourceBalance res = balance x"
    using R by auto
  obtain e1 e2 where ce: "createLedgerEntries (tr_source rq) target tid amount (balance x) (balance y) tenantId = (e1, e2)" by fastforce
  note lp = ledger_pair [OF ce]
  have T: "\<exists>x y. c_view (tw_txs w) s3 (tr_sourceTx rq) = None \<and>
        c_view (tw_txs w) s' = (c_view (tw_txs w) s3)(tr_sourceTx rq \<mapsto> x, tr_targetTx rq \<mapsto> y) \<and>
        tr_sourceTx rq \<noteq> tr_targetTx rq \<and> carries stored (tf_clientResponse res) x \<and> it_idempotencyKey y = None"
    using R unfolding res(1) transfer_outcome.inject by blast
  have "transferred w rq stored target res sa ta s s'"
    unfolding transferred_def
  proof (intro conjI)
    show "\<exists>x y. c_view (tw_txs w) s (tr_sourceTx rq) = None \<and>
        c_view (tw_txs w) s' = (c_view (tw_txs w) s)(tr_sourceTx rq \<mapsto> x, tr_targetTx rq \<mapsto> y) \<and>
        tr_sourceTx rq \<noteq> tr_targetTx rq \<and> carries stored (tf_clientResponse res) x \<and> it_idempotencyKey y = None"
      using T V A(1) B(1) by metis
    show "\<exists>x y. c_view (tw_ledger w) s (tr_sourceEntry rq) = None \<and>
        ((c_view (tw_ledger w) s)(tr_sourceEntry rq \<mapsto> x)) (tr_targetEntry rq) = None \<and>
        c_view (tw_ledger w) s' = (c_view (tw_ledger w) s)(tr_sourceEntry rq \<mapsto> x, tr_targetEntry rq \<mapsto> y) \<and>
        le_amount x = n_neg (tf_amount res) \<and> le_amount y = tf_amount res \<and>
        le_transactionId x = tf_transferId res \<and> le_transactionId y = tf_transferId res \<and>
        (le_entityModel x, le_entityId x) = party_key (tr_source rq) \<and> (le_entityModel y, le_entityId y) = party_key target"
      using conjunct2 [OF R] V A(1) B(1) res lp by (intro exI [of _ e1] exI [of _ e2]) (simp add: ce)
  qed (use sa ta res R V in simp_all)
  then show thesis using that res sa(3) by simp
qed

lemma in_session_Inr:
  assumes t: "txn_ok txn unknown v" and run: "in_session sv txn external work s = (Inr out, s')"
  obtains session s0 s1 where "v s0 = v s" "work session s0 = (Inr out, s1)" "v s' = v s1"
  using run txn_commit [OF t] unfolding in_session_def
  by (auto simp: catch_run split: prod.splits sum.splits if_splits) metis+

lemma in_session_Inl:
  assumes t: "txn_ok txn unknown v" and run: "in_session sv txn False work s = (Inl e, s')"
    and req: "sv_requires sv" and known: "\<And>e. isMongoTransactionFallbackError e \<Longrightarrow> \<not> unknown e" and e: "\<not> unknown e"
  shows "v s' = v s"
proof (cases "sv_canUse sv \<and> sv_started sv")
  case True
  obtain r s1 where 1: "txn (work True) s = (r, s1)" by fastforce
  obtain e' where r: "r = Inl e'" "s' = s1" "e = (if isMongoTransactionFallbackError e' then financialTransactionsUnavailableError else e')"
    using run True 1 req unfolding in_session_def by (cases r) (auto simp: catch_run)
  then have "\<not> unknown e'" using known e by (auto split: if_splits)
  then show ?thesis using txn_abort [OF t 1 [unfolded r(1)]] r(2) by simp
next
  case False
  then show ?thesis using run req unfolding in_session_def by (auto simp: catch_run)
qed


section \<open>The whole request\<close>

lemma keeps_findOne_txs: "transfer_store w \<Longrightarrow> keeps (transfer_view w) (c_findOne (tw_txs w) p)"
proof (rule keepsI)
  fix s r s' assume st: "transfer_store w" and run: "c_findOne (tw_txs w) p s = (r, s')"
  note M = money_storeD [OF transfer_storeD(1) [OF st]]
  have "acct w s' = acct w s" using quietD(1) [OF M(9) run] by (auto simp: acct_def)
  then show "transfer_view w s' = transfer_view w s"
    unfolding view_parts using c_findOne_view [OF M(2) run] quietD(1) [OF M(5) run] by simp
qed

lemma keeps_begin_transfer:
  "transfer_store w \<Longrightarrow> quiet_locks acquire release (transfer_view w)
    \<Longrightarrow> keeps (transfer_view w) (begin_transfer sv acquire release w rq amount tenantId)"
  unfolding begin_transfer_def by (intro keeps_branch(1) keeps_basic keeps_begin keeps_findOne_txs)

text \<open>A request that gets past its checks either replays, or moves the money in a session and gives its locks back.\<close>

lemma execute_cases:
  assumes st: "transfer_store w" and l: "quiet_locks acquire release (transfer_view w)"
    and run: "executeBalanceTransfer sv txn acquire release w rq s = (out, s')"
  obtains (early) e where "out = Inl e" "transfer_view w s' = transfer_view w s"
  | (replay) amount tenantId target s1 idem r s2 where "prepare_transfer sv w rq s = (Inr (amount, tenantId, target), s1)"
      "begin_transfer sv acquire release w rq amount tenantId s1 = (Inr idem, s2)" "id_replay idem = Some r"
      "out = Inr (Replayed r)" "transfer_view w s' = transfer_view w s"
  | (moved) amount tenantId target s1 idem s2 s3 s4 where "prepare_transfer sv w rq s = (Inr (amount, tenantId, target), s1)"
      "begin_transfer sv acquire release w rq amount tenantId s1 = (Inr idem, s2)" "id_replay idem = None"
      "transfer_view w s2 = transfer_view w s" "transfer_view w s3 = transfer_view w s"
      "in_session sv txn (tr_external rq) (move_money sv w rq (stored_idempotency idem rq) amount tenantId target) s3 = (out, s4)"
      "transfer_view w s' = transfer_view w s4"
proof -
  obtain r1 s1 where 1: "prepare_transfer sv w rq s = (r1, s1)" by fastforce
  note K1 = keepsD [OF keeps_prepare [OF st] 1]
  show thesis
  proof (cases r1)
    case (Inl e)
    then have "out = Inl e \<and> s' = s1" using run 1 by (auto simp: executeBalanceTransfer_def bind_run)
    then show thesis using early [of e] K1 by blast
  next
    case (Inr p)
    obtain amount tenantId target where p: "p = (amount, tenantId, target)" by (cases p)
    obtain r2 s2 where 2: "begin_transfer sv acquire release w rq amount tenantId s1 = (r2, s2)" by fastforce
    note K2 = keepsD [OF keeps_begin_transfer [OF st l] 2]
    show thesis
    proof (cases r2)
      case (Inl e)
      then have "out = Inl e \<and> s' = s2" using run 1 2 Inr p by (auto simp: executeBalanceTransfer_def bind_run)
      then show thesis using early [of e] K1 K2 by simp
    next
      case r2: (Inr idem)
      show thesis
      proof (cases "id_replay idem")
        case (Some r)
        have "out = Inr (Replayed r) \<and> s' = s2"
          using run 1 2 Inr p r2 Some by (auto simp: executeBalanceTransfer_def bind_run run_simps)
        then show thesis using replay [OF 1 [unfolded Inr p] 2 [unfolded r2] Some] K1 K2 by simp
      next
        case None
        obtain r3 s3 where 3: "acquireWalletLock (sv_env sv) acquire (get (pa_doc (tr_source rq)) ''_id'') s2 = (r3, s3)" by fastforce
        note K3 = keepsD [OF keeps_wallet_lock [OF l] 3]
        show thesis
        proof (cases r3)
          case (Inl e)
          have "out = Inl e \<and> s' = release_idempotency release idem s3"
            using run 1 2 3 Inr p r2 None Inl by (auto simp: executeBalanceTransfer_def bind_run always_def)
          then show thesis using early [of e] K1 K2 K3 release_keeps [OF l] by simp
        next
          case r3: (Inr wl)
          obtain r4 s4 where 4: "in_session sv txn (tr_external rq)
              (move_money sv w rq (stored_idempotency idem rq) amount tenantId target) s3 = (r4, s4)" by fastforce
          have fin: "out = r4 \<and> s' = release_idempotency release idem ((case wl of None \<Rightarrow> id | Some k \<Rightarrow> release k) s4)"
            using run 1 2 3 4 Inr p r2 None r3 by (auto simp: executeBalanceTransfer_def bind_run always_def)
          have "transfer_view w ((case wl of None \<Rightarrow> id | Some k \<Rightarrow> release k) x) = transfer_view w x" for x
            using l by (simp add: quiet_locks_def split: option.split)
          then show thesis
            using fin moved [OF 1 [unfolded Inr p] 2 [unfolded r2] None, of s3 s4] 4 K1 K2 K3 release_keeps [OF l] by simp
        qed
      qed
    qed
  qed
qed

lemma prepared:
  assumes "prepare_transfer sv w rq s = (Inr (amount, tenantId, target), s1)"
  shows "amount = toNumber (tr_amount rq)" "isFinite amount" "\<not> n_le amount (Fin 0)"
    "party_key (tr_source rq) \<noteq> party_key target" "isActiveAccount (tr_source rq)" "isActiveAccount target"
proof -
  have "amount = toNumber (tr_amount rq) \<and> isFinite amount \<and> \<not> n_le amount (Fin 0)
     \<and> check_parties (sv_env sv) (tr_source rq) target = Inr ()"
    using assms unfolding prepare_transfer_def Let_def
    by (auto simp: run_simps split: if_splits option.splits prod.splits sum.splits elim!: bind_InrE andThen_InrE)
  moreover from this have "\<not> same_account (tr_source rq) target \<and> isActiveAccount (tr_source rq) \<and> isActiveAccount target"
    by (auto simp: check_parties_def assertDifferentAccounts_def split: if_splits)
  ultimately show "amount = toNumber (tr_amount rq)" "isFinite amount" "\<not> n_le amount (Fin 0)"
    "party_key (tr_source rq) \<noteq> party_key target" "isActiveAccount (tr_source rq)" "isActiveAccount target"
    by (auto simp: party_key_def same_account_def)
qed

section \<open>Properties\<close>

text \<open>
  C21: a balance transfer conserves money.  When a transfer of \<open>k\<close> thousandths returns, in a caller's
  session, its own transaction or the fallback, the two accounts are different, the source had at
  least \<open>k\<close>, in exact amounts the source lost \<open>k\<close> and the target gained \<open>k\<close>, no other account
  changed, and the ledger has exactly two new entries, of minus and plus the amount under one number.
\<close>

theorem balance_transfer_conserves:
  assumes st: "transfer_store w" and l: "quiet_locks acquire release (transfer_view w)"
    and t: "txn_ok txn unknown (transfer_view w)"
    and run: "executeBalanceTransfer sv txn acquire release w rq s = (Inr (Transferred res), s')"
    and k: "toNumber (tr_amount rq) = dec 3 k" "\<bar>k\<bar> \<le> LIMIT"
    and books: "\<forall>p acc. acct w s p = Some acc \<longrightarrow> near n (b p) (balance acc) \<and> \<bar>b p\<bar> + \<bar>k\<bar> \<le> LIMIT" "n \<le> 2000"
  shows "let src = party_key (tr_source rq); tgt = party_key (tf_target res) in
     src \<noteq> tgt \<and> k \<le> b src
   \<and> (\<exists>sa ta. acct w s' src = Some sa \<and> acct w s' tgt = Some ta \<and> milli (balance sa) = b src - k
        \<and> milli (balance ta) = b tgt + k \<and> tf_sourceBalance res = balance sa)
   \<and> (\<forall>p. p \<noteq> src \<longrightarrow> p \<noteq> tgt \<longrightarrow> acct w s' p = acct w s p)
   \<and> (\<exists>x y. c_view (tw_ledger w) s' = (c_view (tw_ledger w) s)(tr_sourceEntry rq \<mapsto> x, tr_targetEntry rq \<mapsto> y)
        \<and> c_view (tw_ledger w) s (tr_sourceEntry rq) = None \<and> c_view (tw_ledger w) s (tr_targetEntry rq) = None
        \<and> tr_sourceEntry rq \<noteq> tr_targetEntry rq \<and> le_amount x = dec 3 (- k) \<and> le_amount y = dec 3 k
        \<and> le_transactionId x = tf_transferId res \<and> le_transactionId y = tf_transferId res)"
  using st l run
proof (cases rule: execute_cases)
  case (moved amount tenantId target s1 idem s2 s3 s4)
  note P = prepared [OF moved(1)]
  obtain session s5 s6 where w5: "transfer_view w s5 = transfer_view w s3"
    and mv: "move_money sv w rq (stored_idempotency idem rq) amount tenantId target session s5 = (Inr (Transferred res), s6)"
    and w6: "transfer_view w s4 = transfer_view w s6"
    using in_session_Inr [OF t moved(6)] by metis
  obtain sa ta where tr: "tf_amount res = amount" "tf_target res = target"
    "transferred w rq (stored_idempotency idem rq) target res sa ta s5 s6"
    "tf_sourceBalance res = balance (inc_balance (n_neg amount) sa)"
    using move_money_effect [OF st mv] by (metis transfer_outcome.inject(2))
  have V: "acct w s5 = acct w s" "acct w s' = acct w s6" "c_view (tw_ledger w) s5 = c_view (tw_ledger w) s"
    "c_view (tw_ledger w) s' = c_view (tw_ledger w) s6"
    using w5 w6 moved(5,7) unfolding view_parts by simp_all
  let ?src = "party_key (tr_source rq)" and ?tgt = "party_key target"
  have a: "amount = dec 3 k" using P(1) k(1) by simp
  have sa: "acct w s ?src = Some sa" "n_le (dec 3 k) (balance sa)" and ta: "acct w s ?tgt = Some ta"
    using tr(1,3) V P(4) a unfolding transferred_def by auto
  have bs: "near n (b ?src) (balance sa)" "\<bar>b ?src\<bar> + \<bar>k\<bar> \<le> LIMIT" and bt: "near n (b ?tgt) (balance ta)" "\<bar>b ?tgt\<bar> + \<bar>k\<bar> \<le> LIMIT"
    using books(1) sa(1) ta by blast+
  have nk: "near 1 (- k) (n_neg (dec 3 k))" using near_neg [OF near_dec [OF k(2)]] .
  have "near (Suc (n + 1)) (b ?src + - k) (n_add (balance sa) (n_neg (dec 3 k)))"
    using books(2) bs by (intro near_add nk) simp_all
  then have ms: "milli (n_add (balance sa) (n_neg (dec 3 k))) = b ?src - k" using milli_near books(2) by fastforce
  have "near (Suc (n + 1)) (b ?tgt + k) (n_add (balance ta) (dec 3 k))"
    using books(2) bt by (intro near_add near_dec k) simp_all
  then have mt: "milli (n_add (balance ta) (dec 3 k)) = b ?tgt + k" using milli_near books(2) by fastforce
  have "k \<le> b ?src" using near_le [OF bs(1) near_dec [OF k(2)] sa(2)] books(2) by simp
  moreover have "\<exists>sa ta. acct w s' ?src = Some sa \<and> acct w s' ?tgt = Some ta \<and> milli (balance sa) = b ?src - k
        \<and> milli (balance ta) = b ?tgt + k \<and> tf_sourceBalance res = balance sa"
    using tr V P(4) ms mt a unfolding transferred_def
    by (intro exI [of _ "inc_balance (n_neg amount) sa"] exI [of _ "inc_balance amount ta"]) (simp add: balance_inc)
  moreover have "\<forall>p. p \<noteq> ?src \<longrightarrow> p \<noteq> ?tgt \<longrightarrow> acct w s' p = acct w s p"
    using tr(1,3) V unfolding transferred_def by simp
  moreover have "\<exists>x y. c_view (tw_ledger w) s' = (c_view (tw_ledger w) s)(tr_sourceEntry rq \<mapsto> x, tr_targetEntry rq \<mapsto> y)
        \<and> c_view (tw_ledger w) s (tr_sourceEntry rq) = None \<and> c_view (tw_ledger w) s (tr_targetEntry rq) = None
        \<and> tr_sourceEntry rq \<noteq> tr_targetEntry rq \<and> le_amount x = dec 3 (- k) \<and> le_amount y = dec 3 k
        \<and> le_transactionId x = tf_transferId res \<and> le_transactionId y = tf_transferId res"
    using tr(1,3) V a unfolding transferred_def by (metis dec_neg fun_upd_apply option.distinct(1))
  ultimately show ?thesis using P(4) by (simp add: tr(2) Let_def)
qed simp_all

text \<open>
  C23: a transfer that fails leaves no trace.  When transactions are required and the caller has no
  session of its own, a call that throws, for any failure of the database, the locks, the receipt or
  the audit record, leaves every balance, the ledger and the transactions as they were, unless the
  outcome of the commit is unknown.
\<close>

theorem balance_transfer_atomic:
  assumes st: "transfer_store w" and l: "quiet_locks acquire release (transfer_view w)"
    and t: "txn_ok txn unknown (transfer_view w)"
    and known: "\<forall>e. isMongoTransactionFallbackError e \<longrightarrow> \<not> unknown e"
    and req: "sv_requires sv" "\<not> tr_external rq"
    and run: "executeBalanceTransfer sv txn acquire release w rq s = (Inl e, s')" and e: "\<not> unknown e"
  shows "transfer_view w s' = transfer_view w s"
  using st l run
proof (cases rule: execute_cases)
  case (moved amount tenantId target s1 idem s2 s3 s4)
  have "transfer_view w s4 = transfer_view w s3"
    using in_session_Inl [OF t _ req(1) _ e] known req(2) moved(6) by simp
  then show ?thesis using moved by simp
qed simp_all

text \<open>
  C22: a repeated request moves the money once.  After a protected transfer has returned, any further
  request with its key, whatever else it asks for, changes no balance, no ledger entry and no
  transaction, and if it returns it returns the stored response of the first one.
\<close>

theorem repeated_transfer_moves_once:
  assumes st: "transfer_store w" and l: "quiet_locks acquire release (transfer_view w)"
    and t: "txn_ok txn unknown (transfer_view w)"
    and key: "idempotencyEnabled (sv_env sv)" "clean (tr_idempotencyKey rq) \<noteq> []" "\<not> tr_lockHeld rq"
    and again: "clean (tr_idempotencyKey rq2) = clean (tr_idempotencyKey rq)" "\<not> tr_lockHeld rq2"
    and run: "executeBalanceTransfer sv txn acquire release w rq s = (Inr (Transferred res), s')"
    and run2: "executeBalanceTransfer sv txn acquire release w rq2 s' = (r2, s2')"
  shows "transfer_view w s2' = transfer_view w s'
    \<and> (\<forall>out. r2 = Inr out \<longrightarrow> out = Replayed (tf_clientResponse res))"
proof -
  let ?k = "clean (tr_idempotencyKey rq)"
  have ok: "coll_ok (tw_txs w)" using money_storeD(2) [OF transfer_storeD(1) [OF st]] .
  have stored: "\<forall>i x. c_view (tw_txs w) s' i = Some x \<longrightarrow> it_idempotencyKey x = Some ?k
      \<longrightarrow> it_idempotencyResponse x = tf_clientResponse res"
    "\<exists>i x. c_view (tw_txs w) s' i = Some x \<and> it_idempotencyKey x = Some ?k"
  proof -
    have "\<exists>s0 x fp. (\<forall>i tx. c_view (tw_txs w) s0 i = Some tx \<longrightarrow> it_idempotencyKey tx \<noteq> Some ?k)
      \<and> carries (Some (?k, fp)) (tf_clientResponse res) x
      \<and> (\<exists>y. c_view (tw_txs w) s' = (c_view (tw_txs w) s0)(tr_sourceTx rq \<mapsto> x, tr_targetTx rq \<mapsto> y)
           \<and> tr_sourceTx rq \<noteq> tr_targetTx rq \<and> it_idempotencyKey y = None)"
      using st l run
    proof (cases rule: execute_cases)
      case (moved amount tenantId target s1 idem s2 s3 s4)
      obtain session s5 s6 where w5: "transfer_view w s5 = transfer_view w s3"
        and mv: "move_money sv w rq (stored_idempotency idem rq) amount tenantId target session s5 = (Inr (Transferred res), s6)"
        and w6: "transfer_view w s4 = transfer_view w s6"
        using in_session_Inr [OF t moved(6)] by metis
      obtain sa ta where tr: "transferred w rq (stored_idempotency idem rq) target res sa ta s5 s6"
        using move_money_effect [OF st mv] by (metis transfer_outcome.inject(2))
      have b: "id_active idem \<and> id_key idem = Some ?k
          \<and> (\<forall>i tx. c_view (tw_txs w) s2 i = Some tx \<longrightarrow> it_idempotencyKey tx \<noteq> Some ?k)"
        using begin_request_first [OF ok moved(2) [unfolded begin_transfer_def if_not_P [OF key(3)]] key(1,2) moved(3)] .
      have "c_view (tw_txs w) s5 = c_view (tw_txs w) s2" "c_view (tw_txs w) s' = c_view (tw_txs w) s6"
        using w5 w6 moved(4,5,7) unfolding view_parts by simp_all
      then show ?thesis using tr b unfolding transferred_def stored_idempotency_def
        by (intro exI [of _ s2]) auto
    qed simp_all
    then show "\<forall>i x. c_view (tw_txs w) s' i = Some x \<longrightarrow> it_idempotencyKey x = Some ?k
        \<longrightarrow> it_idempotencyResponse x = tf_clientResponse res"
      "\<exists>i x. c_view (tw_txs w) s' i = Some x \<and> it_idempotencyKey x = Some ?k"
      by (auto simp: carries_def split: if_splits)
  qed
  from st l run2 show ?thesis
  proof (cases rule: execute_cases)
    case (replay amount tenantId target s1 idem r s2)
    have "c_view (tw_txs w) s1 = c_view (tw_txs w) s'"
      using keepsD [OF keeps_prepare [OF st] replay(1)] unfolding view_parts by simp
    then have "r = tf_clientResponse res"
      using begin_request_stored [OF ok replay(2) [unfolded begin_transfer_def if_not_P [OF again(2)]] key(1)]
        replay(3) stored again(1) key(2) by force
    then show ?thesis using replay by simp
  next
    case (moved amount tenantId target s1 idem s2 s3 s4)
    have "c_view (tw_txs w) s1 = c_view (tw_txs w) s'"
      using keepsD [OF keeps_prepare [OF st] moved(1)] unfolding view_parts by simp
    then have False
      using begin_request_stored [OF ok moved(2) [unfolded begin_transfer_def if_not_P [OF again(2)]] key(1)]
        moved(3) stored(2) again(1) key(2) by force
    then show ?thesis ..
  qed auto
qed
section \<open>A transfer in memory\<close>

record transfer_db =
  td_accounts :: "string \<Rightarrow> (string \<times> account) list"
  td_people :: "string \<Rightarrow> (string \<times> jsval) list"
  td_codes :: "(string \<times> account_code) list"
  td_ledger :: "(string \<times> ledger_entry) list"
  td_txs :: "(string \<times> transfer_tx) list"
  td_counters :: "(string \<times> int) list"

definition mem_transfer :: "(lock_table \<times> transfer_db) transfer_world" where
  "mem_transfer = \<lparr>
     tw_accounts = (\<lambda>m. mem_coll (\<lambda>s. td_accounts (snd s) m) (\<lambda>l s. (fst s, (snd s)\<lparr>td_accounts := (td_accounts (snd s))(m := l)\<rparr>))),
     tw_people = (\<lambda>m. mem_coll (\<lambda>s. td_people (snd s) m) (\<lambda>l s. (fst s, (snd s)\<lparr>td_people := (td_people (snd s))(m := l)\<rparr>))),
     tw_codes = mem_coll (\<lambda>s. td_codes (snd s)) (\<lambda>l s. (fst s, (snd s)\<lparr>td_codes := l\<rparr>)),
     tw_ledger = mem_coll (\<lambda>s. td_ledger (snd s)) (\<lambda>l s. (fst s, (snd s)\<lparr>td_ledger := l\<rparr>)),
     tw_txs = mem_coll (\<lambda>s. td_txs (snd s)) (\<lambda>l s. (fst s, (snd s)\<lparr>td_txs := l\<rparr>)),
     tw_counters = mem_coll (\<lambda>s. td_counters (snd s)) (\<lambda>l s. (fst s, (snd s)\<lparr>td_counters := l\<rparr>))\<rparr>"

lemma mem_transfer_store: "transfer_store mem_transfer"
  unfolding transfer_store_def money_store_def transfer_view_def money_view_def mem_transfer_def
  by (auto intro!: mem_coll_ok mem_coll_quiet simp: mem_coll_view fun_eq_iff)

lemma mem_transfer_locks:
  "quiet_locks (lock_run (\<lambda>_ t. t) default_lock_options) unlock_run (transfer_view mem_transfer)"
proof -
  have v: "transfer_view mem_transfer s = transfer_view mem_transfer t" if "snd s = snd t" for s t
    using that by (simp add: transfer_view_def money_view_def mem_transfer_def mem_coll_view)
  have "snd (snd (lock_run f o' k s)) = snd s" for f o' k and s :: "lock_table \<times> transfer_db"
    by (cases s) (simp add: lock_run_def split: prod.split)
  then show ?thesis
    unfolding quiet_locks_def keeps_def by (intro conjI allI v) (simp_all add: unlock_run_def)
qed

definition transfer_env :: environment where
  "transfer_env k = (if k = ''FINANCIAL_IDEMPOTENCY_ENABLED'' then Str ''true''
     else if k = ''NODE_ENV'' then Str ''production'' else Undef)"

definition demo_server :: server where
  "demo_server = \<lparr>sv_env = transfer_env, sv_emergency = False, sv_canUse = True, sv_started = True, sv_sha256 = (\<lambda>x. x)\<rparr>"

definition demo_person :: "string \<Rightarrow> string \<Rightarrow> jsval" where
  "demo_person i code = Obj [(''_id'', Str i), (''name'', Str i), (''status'', Str ''active''), (''accountCode'', Str code)]"

definition demo_transfer_rq :: "string \<Rightarrow> transfer_request" where
  "demo_transfer_rq n = \<lparr>tr_source = party_of ''User'' (demo_person ''u1'' ''1111''), tr_performedBy = Undef,
     tr_targetCode = Str ''2222'', tr_amount = Num (dec 3 1250), tr_notes = [], tr_idempotencyKey = Str demo_key,
     tr_idempotencyFingerprint = Some ''f1'', tr_lockHeld = False, tr_channel = Str ''web'', tr_payload = Undef,
     tr_context = Undef, tr_external = False, tr_yymm = ''2601'', tr_sourceTx = ''td'' @ n, tr_targetTx = ''tc'' @ n,
     tr_sourceEntry = ''ed'' @ n, tr_targetEntry = ''ec'' @ n, tr_receipt = (if n = ''f'' then Some (plain_error ''EIO'') else None), tr_audit = None\<rparr>"

definition demo_transfer_db :: transfer_db where
  "demo_transfer_db = \<lparr>
     td_accounts = (\<lambda>m. if m = ''User'' then [(''u1'', \<lparr>balance = dec 3 5000, acc_tenantId = None\<rparr>),
        (''u2'', \<lparr>balance = dec 3 700, acc_tenantId = None\<rparr>)] else []),
     td_people = (\<lambda>m. if m = ''User'' then [(''u1'', demo_person ''u1'' ''1111''), (''u2'', demo_person ''u2'' ''2222'')] else []),
     td_codes = [], td_ledger = [], td_txs = [], td_counters = []\<rparr>"

definition demo_run :: "transfer_request \<Rightarrow> (lock_table \<times> transfer_db, transfer_outcome) run" where
  "demo_run rq = executeBalanceTransfer demo_server atomic (lock_run (\<lambda>_ t. t) default_lock_options) unlock_run mem_transfer rq"

lemma demo_env: "\<not> tenantGuardEnabled transfer_env" "idempotencyEnabled transfer_env" "\<not> redisFailClosed transfer_env"
    "\<not> auditInTransactionEnabled transfer_env" "requiresMongoTransactions False transfer_env"
  unfolding tenantGuardEnabled_def multiTenantMode_def tenantMode_def by code_simp+

lemma demo_server_fields: "sv_env demo_server = transfer_env" "sv_canUse demo_server" "sv_started demo_server" "sv_requires demo_server"
    "tr_external (demo_transfer_rq n) = False"
  by (simp_all add: demo_server_def sv_requires_def demo_env demo_transfer_rq_def)

lemma demo_codes: "clean (Str ''2222'') = ''2222''" "all_in is_digit 4 6 ''2222''"
    "clean (Str demo_key) = demo_key" "UUID_RE demo_key" "demo_key \<noteq> []"
proof -
  show "clean (Str ''2222'') = ''2222''" by (rule clean_graph) (simp_all add: is_graph_def)
  show "clean (Str demo_key) = demo_key" by (rule clean_graph) (simp_all add: demo_key_def is_graph_def)
qed code_simp+

lemma demo_prepare: "prepare_transfer demo_server mem_transfer (demo_transfer_rq n) (t, demo_transfer_db)
    = (Inr (dec 3 1250, Null, party_of ''User'' (demo_person ''u2'' ''2222'')), (t, demo_transfer_db))"
proof -
  have a: "isFinite (dec 3 1250)" "\<not> n_le (dec 3 1250) (Fin 0)" by code_simp+
  show ?thesis
    by (simp add: prepare_transfer_def demo_transfer_rq_def a demo_server_def resolveStampTenant_def demo_env Let_def
        trustedRequestTenantId_def is_object_value_def or_else_def party_of_def demo_person_def resolveAccountByCode_def
        normalizeAccountCode_def demo_codes run_simps mem_transfer_def mem_coll_def demo_transfer_db_def in_scope_def
        has_code_def opt_party_def check_parties_def isActiveAccount_def assertDifferentAccounts_def same_account_def
        doc_id_def assertAccountsSameTenant_def)
qed

lemma demo_begin: "\<exists>idem t'. begin_transfer demo_server (lock_run (\<lambda>_ t. t) default_lock_options) unlock_run mem_transfer (demo_transfer_rq n)
      a ten (empty_table, demo_transfer_db) = (Inr idem, (t', demo_transfer_db)) \<and> id_replay idem = None"
  by (simp add: begin_transfer_def demo_transfer_rq_def demo_server_def beginIdempotentFinancialRequest_def demo_codes
      demo_env Let_def find_replay_def run_simps mem_transfer_def mem_coll_def demo_transfer_db_def replayFromExisting_def
      begin_locked_def lock_run_def acquireLock_def default_lock_options_def try_acquire_def empty_table_def
      numeral_eq_Suc request_fingerprint_def protected_request_def)

lemma demo_move: "n \<noteq> ''f'' \<Longrightarrow> \<exists>out s'. move_money demo_server mem_transfer (demo_transfer_rq n) stored (dec 3 1250) ten
      (party_of ''User'' (demo_person ''u2'' ''2222'')) True (t', demo_transfer_db) = (Inr out, s')"
proof -
  have a: "n_le (dec 3 1250) (dec 3 5000)" by code_simp
  assume "n \<noteq> ''f''"
  then show ?thesis
    by (simp add: move_money_def nextBalanceTransferId_def mem_transfer_def mem_coll_def demo_transfer_db_def run_simps
        add_to_def demo_transfer_rq_def party_of_def doc_id_def demo_person_def a or_throw_def guarded_step_def
        record_transfer_def fail_if_def transfer_docs_def buildEntityTransactionFields_def Let_def createLedgerEntries_def
        demo_server_def demo_env)
qed

lemma demo_move_fails: "\<exists>s'. move_money demo_server mem_transfer (demo_transfer_rq ''f'') stored (dec 3 1250) ten
      (party_of ''User'' (demo_person ''u2'' ''2222'')) True (t', demo_transfer_db) = (Inl (plain_error ''EIO''), s')"
proof -
  have a: "n_le (dec 3 1250) (dec 3 5000)" by code_simp
  show ?thesis
    by (simp add: move_money_def nextBalanceTransferId_def mem_transfer_def mem_coll_def demo_transfer_db_def run_simps
        add_to_def demo_transfer_rq_def party_of_def doc_id_def demo_person_def a or_throw_def guarded_step_def
        record_transfer_def fail_if_def transfer_docs_def buildEntityTransactionFields_def Let_def createLedgerEntries_def
        demo_server_def demo_env)
qed

lemma demo_runs: "n \<noteq> ''f'' \<Longrightarrow> \<exists>res s'. demo_run (demo_transfer_rq n) (empty_table, demo_transfer_db) = (Inr (Transferred res), s')
    \<and> tf_target res = party_of ''User'' (demo_person ''u2'' ''2222'')"
proof -
  assume n: "n \<noteq> ''f''"
  let ?a = "dec 3 1250" and ?tgt = "party_of ''User'' (demo_person ''u2'' ''2222'')"
  obtain idem t' where b: "begin_transfer demo_server (lock_run (\<lambda>_ t. t) default_lock_options) unlock_run mem_transfer
      (demo_transfer_rq n) ?a Null (empty_table, demo_transfer_db) = (Inr idem, (t', demo_transfer_db))" "id_replay idem = None"
    using demo_begin by blast
  obtain out s1 where m: "move_money demo_server mem_transfer (demo_transfer_rq n) (stored_idempotency idem (demo_transfer_rq n))
      ?a Null ?tgt True (t', demo_transfer_db) = (Inr out, s1)" using demo_move [OF n] by blast
  obtain res where res: "out = Transferred res" "tf_target res = ?tgt" using move_money_effect [OF mem_transfer_store m] by metis
  have "\<exists>s'. demo_run (demo_transfer_rq n) (empty_table, demo_transfer_db) = (Inr (Transferred res), s')"
    using b m res(1) by (simp add: demo_run_def executeBalanceTransfer_def demo_prepare bind_run always_def in_session_def
        acquireWalletLock_def demo_env run_simps atomic_def catch_run demo_server_fields)
  then show ?thesis using res(2) by blast
qed

theorem balance_transfer_conserves_witness:
  "\<exists>res s' sa ta. demo_run (demo_transfer_rq []) (empty_table, demo_transfer_db) = (Inr (Transferred res), s')
     \<and> acct mem_transfer s' (''User'', ''u1'') = Some sa \<and> milli (balance sa) = 3750
     \<and> acct mem_transfer s' (''User'', ''u2'') = Some ta \<and> milli (balance ta) = 1950"
proof -
  let ?s = "(empty_table, demo_transfer_db)" and ?rq = "demo_transfer_rq []"
  let ?b = "\<lambda>p. if p = (''User'', ''u1'') then 5000 else (700 :: int)"
  obtain res s' where run: "demo_run ?rq ?s = (Inr (Transferred res), s')"
    and target: "tf_target res = party_of ''User'' (demo_person ''u2'' ''2222'')" using demo_runs [of "[]"] by auto
  have books: "\<forall>p acc. acct mem_transfer ?s p = Some acc \<longrightarrow> near 1 (?b p) (balance acc) \<and> \<bar>?b p\<bar> + \<bar>1250\<bar> \<le> LIMIT"
    by (auto simp: acct_def mem_transfer_def mem_coll_view demo_transfer_db_def LIMIT_def intro!: near_dec split: if_splits simp del: One_nat_def)
  have k: "toNumber (tr_amount ?rq) = dec 3 1250" "\<bar>1250\<bar> \<le> LIMIT" by (simp_all add: demo_transfer_rq_def LIMIT_def)
  have src: "party_key (tr_source ?rq) = (''User'', ''u1'')"
    by (simp add: demo_transfer_rq_def party_key_def party_of_def doc_id_def demo_person_def)
  note C = balance_transfer_conserves [OF mem_transfer_store mem_transfer_locks atomic_ok [where unknown = "\<lambda>_. False"]
      run [unfolded demo_run_def] k books]
  have tgt: "party_key (tf_target res) = (''User'', ''u2'')"
    by (simp add: target party_key_def party_of_def doc_id_def demo_person_def)
  show ?thesis using C run by (auto simp: src tgt Let_def)
qed

lemma demo_fails: "\<exists>s'. demo_run (demo_transfer_rq ''f'') (empty_table, demo_transfer_db) = (Inl (plain_error ''EIO''), s')"
proof -
  obtain idem t' where b: "begin_transfer demo_server (lock_run (\<lambda>_ t. t) default_lock_options) unlock_run mem_transfer
      (demo_transfer_rq ''f'') (dec 3 1250) Null (empty_table, demo_transfer_db) = (Inr idem, (t', demo_transfer_db))" "id_replay idem = None"
    using demo_begin by blast
  obtain s1 where m: "move_money demo_server mem_transfer (demo_transfer_rq ''f'') (stored_idempotency idem (demo_transfer_rq ''f''))
      (dec 3 1250) Null (party_of ''User'' (demo_person ''u2'' ''2222'')) True (t', demo_transfer_db) = (Inl (plain_error ''EIO''), s1)"
    using demo_move_fails by blast
  have "\<not> isMongoTransactionFallbackError (plain_error ''EIO'')" by code_simp
  then show ?thesis
    using b m by (simp add: demo_run_def executeBalanceTransfer_def demo_prepare bind_run always_def in_session_def
        acquireWalletLock_def demo_env run_simps atomic_def catch_run demo_server_fields)
qed

theorem balance_transfer_atomic_witness:
  "\<exists>s'. demo_run (demo_transfer_rq ''f'') (empty_table, demo_transfer_db) = (Inl (plain_error ''EIO''), s')
     \<and> transfer_view mem_transfer s' = transfer_view mem_transfer (empty_table, demo_transfer_db)"
proof -
  obtain s' where run: "demo_run (demo_transfer_rq ''f'') (empty_table, demo_transfer_db) = (Inl (plain_error ''EIO''), s')"
    using demo_fails by blast
  show ?thesis
    using balance_transfer_atomic [OF mem_transfer_store mem_transfer_locks atomic_ok [where unknown = "\<lambda>_. False"] _
        demo_server_fields(4) _ run [unfolded demo_run_def]] run by (simp add: demo_transfer_rq_def)
qed

theorem repeated_transfer_moves_once_witness:
  "let s' = snd (demo_run (demo_transfer_rq []) (empty_table, demo_transfer_db)) in
     transfer_view mem_transfer (snd (demo_run ((demo_transfer_rq ''2'') \<lparr>tr_targetCode := Str ''1111''\<rparr>) s'))
       = transfer_view mem_transfer s'"
proof -
  let ?s = "(empty_table, demo_transfer_db)" and ?rq2 = "(demo_transfer_rq ''2'') \<lparr>tr_targetCode := Str ''1111''\<rparr>"
  obtain res s' where run: "demo_run (demo_transfer_rq []) ?s = (Inr (Transferred res), s')" using demo_runs [of "[]"] by auto
  obtain r2 s2 where run2: "demo_run ?rq2 s' = (r2, s2)" using prod.exhaust by blast
  show ?thesis
    using repeated_transfer_moves_once [OF mem_transfer_store mem_transfer_locks atomic_ok [where unknown = "\<lambda>_. False"]
        _ _ _ _ _ run [unfolded demo_run_def] run2 [unfolded demo_run_def]] run run2
    by (simp add: demo_server_fields demo_env demo_transfer_rq_def demo_codes)
qed

end
