(* ===== verification/Executor_Policy.thy ===== *)
theory Executor_Policy
  imports Js_Text
begin

text \<open>
  The execution policy of an executor company and its employees (utils/executorManualPolicy.js): reading a
  stored policy with its bounds, the employee's override, the public view, storing a submitted policy, and the
  check of a sender's number.  The messages and the label of the allowed lengths are left out, and so is the
  second argument of webSessionMaxAgeMsForPolicy, which is never reached: a session limit is never zero.
\<close>

section \<open>Flags and bounds\<close>

definition parseBooleanFlag :: "jsval \<Rightarrow> bool option" where
  "parseBooleanFlag v =
     (if v \<in> {Bool True, Str ''true'', Str ''on'', Str ''1'', Num (Fin 1)} then Some True
      else if v \<in> {Bool False, Str ''false'', Str ''off'', Str ''0'', Num (Fin 0)} then Some False
      else None)"

definition present :: "jsval \<Rightarrow> bool" where
  "present v \<longleftrightarrow> v \<noteq> Undef \<and> v \<noteq> Null \<and> v \<noteq> Str []"

definition hasOwn :: "jsval \<Rightarrow> string \<Rightarrow> bool" where
  "hasOwn object key \<longleftrightarrow> present (get object key)"

definition DEFAULT_PHONE_LENGTHS :: "nat list" where
  "DEFAULT_PHONE_LENGTHS = [3, 4, 11]"

definition PHONE_LENGTH_MODES :: "(string \<times> nat list) list" where
  "PHONE_LENGTH_MODES = [(''3'', [3]), (''4'', [4]), (''11'', [11]), (''all'', [3, 4, 11])]"

definition DEFAULT_MAX_CONCURRENT_DEVICES :: int where
  "DEFAULT_MAX_CONCURRENT_DEVICES = 1"

definition MAX_CONCURRENT_DEVICES_CAP :: int where
  "MAX_CONCURRENT_DEVICES_CAP = 20"

definition DEFAULT_SESSION_TTL_SECONDS :: int where
  "DEFAULT_SESSION_TTL_SECONDS = 8 * 60 * 60"

definition MIN_SESSION_TTL_SECONDS :: int where
  "MIN_SESSION_TTL_SECONDS = 15 * 60"

definition MAX_SESSION_TTL_SECONDS :: int where
  "MAX_SESSION_TTL_SECONDS = 30 * 24 * 60 * 60"

definition OPEN_WEB_SESSION_MS :: int where
  "OPEN_WEB_SESSION_MS = 30 * 24 * 60 * 60 * 1000"

section \<open>Phone lengths\<close>

definition phone_length :: "jsnum \<Rightarrow> nat option" where
  "phone_length n = (if n = Fin 3 then Some 3 else if n = Fin 4 then Some 4 else if n = Fin 11 then Some 11 else None)"

definition normalize_lengths :: "jsnum list \<Rightarrow> nat list" where
  "normalize_lengths ns = (let normalized = List.map_filter phone_length ns
     in if normalized = [] then DEFAULT_PHONE_LENGTHS else sort (remdups normalized))"

definition length_num :: "nat \<Rightarrow> jsnum" where
  "length_num n = Fin (of_nat n)"

definition normalizeAllowedPhoneLengths :: "jsval \<Rightarrow> nat list" where
  "normalizeAllowedPhoneLengths lengths = normalize_lengths
     (case lengths of Arr vs \<Rightarrow> map toNumber vs | _ \<Rightarrow> map length_num DEFAULT_PHONE_LENGTHS)"

definition mode_of_lengths :: "nat list \<Rightarrow> string" where
  "mode_of_lengths normalized =
     (if normalized = [3] then ''3'' else if normalized = [4] then ''4'' else if normalized = [11] then ''11'' else ''all'')"

definition phoneLengthModeFromLengths :: "jsval \<Rightarrow> string" where
  "phoneLengthModeFromLengths lengths = mode_of_lengths (normalizeAllowedPhoneLengths lengths)"

text \<open>
  The modes are a plain object, so that the two lower case names its prototype has are found too, and
  spreading what is found there throws.
\<close>

definition lengthsFromPhoneLengthMode :: "jsval \<Rightarrow> jsval \<Rightarrow> error + nat list" where
  "lengthsFromPhoneLengthMode mode fallbackLengths =
     (let key = toLowerCase (clean mode) in case map_of PHONE_LENGTH_MODES key of
        Some ls \<Rightarrow> Inr ls
      | None \<Rightarrow> if key \<in> {''constructor'', ''__proto__''} then Inl (plain_error ''TypeError'')
                else Inr (normalizeAllowedPhoneLengths fallbackLengths))"

definition normalizeMaxConcurrentDevices :: "jsval \<Rightarrow> jsnum" where
  "normalizeMaxConcurrentDevices v = (let parsed = toNumber v in
     if \<not> isFinite parsed then Fin (of_int DEFAULT_MAX_CONCURRENT_DEVICES)
     else n_min (Fin (of_int MAX_CONCURRENT_DEVICES_CAP)) (n_max (Fin 1) (n_floor parsed)))"

definition normalizeSessionTtlSeconds :: "jsval \<Rightarrow> jsnum" where
  "normalizeSessionTtlSeconds v = (let parsed = toNumber v in
     if \<not> isFinite parsed \<or> n_le parsed (Fin 0) then Fin (of_int DEFAULT_SESSION_TTL_SECONDS)
     else n_min (Fin (of_int MAX_SESSION_TTL_SECONDS)) (n_max (Fin (of_int MIN_SESSION_TTL_SECONDS)) (n_floor parsed)))"

definition digitsOnly :: "jsval \<Rightarrow> string" where
  "digitsOnly v = filter is_digit (toString (or_else v (Str [])))"

text \<open>The refusals of a sender's number, by the message they give.\<close>

datatype phone_check = Phone_ok string | Phone_required | Phone_split | Phone_length "nat list" | Phone_prefix

definition full_phone :: "string \<Rightarrow> bool" where
  "full_phone digits \<longleftrightarrow> all_in is_digit 11 11 digits \<and> has_prefix ''01'' digits"

definition validateSenderPhoneDigits :: "jsval \<Rightarrow> jsval \<Rightarrow> bool \<Rightarrow> bool \<Rightarrow> phone_check" where
  "validateSenderPhoneDigits phone allowedPhoneLengths splitRequiresFullPhone isSplit =
     (let digits = digitsOnly phone; lengths = normalizeAllowedPhoneLengths allowedPhoneLengths
      in if digits = [] then Phone_required
         else if isSplit \<and> splitRequiresFullPhone then if full_phone digits then Phone_ok digits else Phone_split
         else if length digits \<notin> set lengths then Phone_length lengths
         else if length digits = 11 \<and> \<not> full_phone digits then Phone_prefix
         else Phone_ok digits)"

section \<open>Reading a policy\<close>

record policy =
  po_proofRequired :: bool
  po_quickExecuteEnabled :: bool
  po_allowedPhoneLengths :: "nat list"
  po_phoneLengthMode :: string
  po_splitRequiresFullPhone :: bool
  po_maxConcurrentDevices :: jsnum
  po_sessionTtlEnabled :: bool
  po_sessionTtlSeconds :: "jsnum option"

record inherited =
  in_proofRequired :: bool
  in_quickExecute :: bool
  in_allowedPhoneLengths :: bool
  in_maxConcurrentDevices :: bool
  in_sessionTtl :: bool

record executor_policy = policy +
  ep_company :: policy
  ep_inherited :: inherited

definition readCompanyExecutionPolicy :: "jsval \<Rightarrow> policy" where
  "readCompanyExecutionPolicy grp =
     (let lengths = normalizeAllowedPhoneLengths (get grp ''manualAllowedPhoneLengths'');
          ttl = truthy (get grp ''sessionTtlEnabled'')
      in \<lparr>po_proofRequired = truthy (get grp ''manualProofRequired''),
          po_quickExecuteEnabled = truthy (get grp ''manualQuickExecuteEnabled''),
          po_allowedPhoneLengths = lengths,
          po_phoneLengthMode = phoneLengthModeFromLengths (Arr (map (Num \<circ> length_num) lengths)),
          po_splitRequiresFullPhone = (get grp ''manualSplitRequiresFullPhone'' \<noteq> Bool False),
          po_maxConcurrentDevices = normalizeMaxConcurrentDevices (get grp ''maxConcurrentDevices''),
          po_sessionTtlEnabled = ttl,
          po_sessionTtlSeconds = (if ttl then Some (normalizeSessionTtlSeconds (get grp ''sessionTtlSeconds'')) else None)\<rparr>)"

definition own_lengths :: "jsval \<Rightarrow> bool" where
  "own_lengths override \<longleftrightarrow> (case get override ''allowedPhoneLengths'' of Arr vs \<Rightarrow> vs \<noteq> [] | _ \<Rightarrow> False)"

definition opt_num :: "jsnum option \<Rightarrow> jsval" where
  "opt_num x = (case x of None \<Rightarrow> Null | Some n \<Rightarrow> Num n)"

definition override_of :: "jsval \<Rightarrow> jsval" where
  "override_of employee = or_else (get employee ''executionPolicyOverride'') (Obj [])"

definition inherited_of :: "jsval \<Rightarrow> inherited" where
  "inherited_of override =
     \<lparr>in_proofRequired = (\<not> hasOwn override ''proofRequired''),
      in_quickExecute = (\<not> hasOwn override ''quickExecuteEnabled''),
      in_allowedPhoneLengths = (\<not> own_lengths override),
      in_maxConcurrentDevices = (\<not> hasOwn override ''maxConcurrentDevices''),
      in_sessionTtl = (\<not> hasOwn override ''sessionTtlEnabled'' \<and> \<not> hasOwn override ''sessionTtlSeconds'')\<rparr>"

definition readExecutorManualPolicy :: "jsval \<Rightarrow> jsval \<Rightarrow> executor_policy" where
  "readExecutorManualPolicy grp employee =
     (let company = readCompanyExecutionPolicy grp;
          override = override_of employee;
          lengths = (if own_lengths override then normalizeAllowedPhoneLengths (get override ''allowedPhoneLengths'')
                     else po_allowedPhoneLengths company);
          ttl = (if hasOwn override ''sessionTtlEnabled'' then truthy (get override ''sessionTtlEnabled'')
                 else po_sessionTtlEnabled company)
      in \<lparr>po_proofRequired = (if hasOwn override ''proofRequired'' then truthy (get override ''proofRequired'')
             else po_proofRequired company),
          po_quickExecuteEnabled = (if hasOwn override ''quickExecuteEnabled'' then truthy (get override ''quickExecuteEnabled'')
             else po_quickExecuteEnabled company),
          po_allowedPhoneLengths = lengths,
          po_phoneLengthMode = phoneLengthModeFromLengths (Arr (map (Num \<circ> length_num) lengths)),
          po_splitRequiresFullPhone = po_splitRequiresFullPhone company,
          po_maxConcurrentDevices = (if hasOwn override ''maxConcurrentDevices''
             then normalizeMaxConcurrentDevices (get override ''maxConcurrentDevices'') else po_maxConcurrentDevices company),
          po_sessionTtlEnabled = ttl,
          po_sessionTtlSeconds = (if ttl then Some (normalizeSessionTtlSeconds (if hasOwn override ''sessionTtlSeconds''
             then get override ''sessionTtlSeconds'' else opt_num (po_sessionTtlSeconds company))) else None),
          ep_company = company, ep_inherited = inherited_of override\<rparr>)"

text \<open>
  The objects the two readers return, and the public view of such an object or of a missing policy: a
  member of \<open>undefined\<close> or \<open>null\<close> reads as \<open>undefined\<close>.
\<close>

definition policy_members :: "'a policy_scheme \<Rightarrow> (string \<times> jsval) list" where
  "policy_members p =
     [(''proofRequired'', Bool (po_proofRequired p)), (''quickExecuteEnabled'', Bool (po_quickExecuteEnabled p)),
      (''allowedPhoneLengths'', Arr (map (Num \<circ> length_num) (po_allowedPhoneLengths p))),
      (''phoneLengthMode'', Str (po_phoneLengthMode p)), (''splitRequiresFullPhone'', Bool (po_splitRequiresFullPhone p)),
      (''maxConcurrentDevices'', Num (po_maxConcurrentDevices p)), (''sessionTtlEnabled'', Bool (po_sessionTtlEnabled p)),
      (''sessionTtlSeconds'', opt_num (po_sessionTtlSeconds p))]"




record public_policy = policy +
  pp_inherited :: jsval

definition toPublicExecutionPolicy :: "jsval \<Rightarrow> public_policy" where
  "toPublicExecutionPolicy p =
     \<lparr>po_proofRequired = truthy (get p ''proofRequired''), po_quickExecuteEnabled = truthy (get p ''quickExecuteEnabled''),
      po_allowedPhoneLengths = normalizeAllowedPhoneLengths (get p ''allowedPhoneLengths''),
      po_phoneLengthMode = phoneLengthModeFromLengths (get p ''allowedPhoneLengths''),
      po_splitRequiresFullPhone = (get p ''splitRequiresFullPhone'' \<noteq> Bool False),
      po_maxConcurrentDevices = normalizeMaxConcurrentDevices (get p ''maxConcurrentDevices''),
      po_sessionTtlEnabled = truthy (get p ''sessionTtlEnabled''),
      po_sessionTtlSeconds = (if truthy (get p ''sessionTtlEnabled'')
         then Some (normalizeSessionTtlSeconds (get p ''sessionTtlSeconds'')) else None),
      pp_inherited = or_else (get p ''inherited'') Null\<rparr>"

section \<open>Storing a policy\<close>

definition checked :: "jsval \<Rightarrow> bool" where
  "checked v \<longleftrightarrow> v \<in> {Str ''on'', Bool True, Str ''1''}"

definition serializeAllowedPhoneLengths :: "jsval \<Rightarrow> error + nat list" where
  "serializeAllowedPhoneLengths body =
     (if truthy (get body ''phoneLengthMode'')
      then lengthsFromPhoneLengthMode (get body ''phoneLengthMode'') (get body ''allowedPhoneLengths'')
      else if own_lengths body then Inr (normalizeAllowedPhoneLengths (get body ''allowedPhoneLengths''))
      else Inr (normalize_lengths (map length_num
        ((if checked (get body ''allowPhone3'') then [3] else []) @ (if checked (get body ''allowPhone4'') then [4] else [])
         @ (if checked (get body ''allowPhone11'') then [11] else [])))))"

definition ttl_seconds :: "jsval \<Rightarrow> jsval" where
  "ttl_seconds body = coalesce (get body ''sessionTtlSeconds'')
     (if present (get body ''sessionTtlHours'') then Num (n_mul (toNumber (get body ''sessionTtlHours'')) (Fin 3600)) else Undef)"

definition serializeCompanyExecutionPolicy :: "jsval \<Rightarrow> error + (string \<times> jsval) list" where
  "serializeCompanyExecutionPolicy body =
     (let ttl = (parseBooleanFlag (get body ''sessionTtlEnabled'') = Some True)
      in bindE (serializeAllowedPhoneLengths body) (\<lambda>lengths. Inr
       [(''manualProofRequired'', Bool (parseBooleanFlag (coalesce (get body ''proofRequired'') (get body ''manualProofRequired'')) = Some True)),
        (''manualQuickExecuteEnabled'', Bool (parseBooleanFlag
           (coalesce (get body ''quickExecuteEnabled'') (get body ''manualQuickExecuteEnabled'')) = Some True)),
        (''manualAllowedPhoneLengths'', Arr (map (Num \<circ> length_num) lengths)),
        (''manualSplitRequiresFullPhone'', Bool (parseBooleanFlag
           (coalesce (get body ''splitRequiresFullPhone'') (get body ''manualSplitRequiresFullPhone'')) \<noteq> Some False)),
        (''maxConcurrentDevices'', Num (normalizeMaxConcurrentDevices (get body ''maxConcurrentDevices''))),
        (''sessionTtlEnabled'', Bool ttl),
        (''sessionTtlSeconds'', if ttl then Num (normalizeSessionTtlSeconds (ttl_seconds body)) else Null)]))"

definition normalizeAdminEmployeePolicyBody :: "jsval \<Rightarrow> (string \<times> jsval) list" where
  "normalizeAdminEmployeePolicyBody body =
     (if parseBooleanFlag (get body ''inheritCompanyPolicy'') = Some True then [(''inheritCompanyPolicy'', Bool True)]
      else [(''inheritCompanyPolicy'', Bool False), (''inheritProofRequired'', Bool False), (''inheritPhoneLengths'', Bool False),
        (''inheritMaxConcurrentDevices'', Bool False), (''inheritSessionTtl'', Bool False),
        (''phoneLengthMode'', get body ''phoneLengthMode''), (''allowedPhoneLengths'', get body ''allowedPhoneLengths''),
        (''allowPhone3'', get body ''allowPhone3''), (''allowPhone4'', get body ''allowPhone4''),
        (''allowPhone11'', get body ''allowPhone11''),
        (''proofRequired'', Bool (parseBooleanFlag (get body ''proofRequired'') = Some True)),
        (''maxConcurrentDevices'', get body ''maxConcurrentDevices''),
        (''sessionTtlEnabled'', Bool (parseBooleanFlag (get body ''sessionTtlEnabled'') = Some True)),
        (''sessionTtlHours'', get body ''sessionTtlHours''), (''sessionTtlSeconds'', get body ''sessionTtlSeconds'')])"

definition flag_member :: "jsval \<Rightarrow> string \<Rightarrow> string \<Rightarrow> (string \<times> jsval) list" where
  "flag_member body inherit key =
     (case parseBooleanFlag (get body key) of
        Some b \<Rightarrow> if parseBooleanFlag (get body inherit) \<noteq> Some True then [(key, Bool b)] else []
      | None \<Rightarrow> [])"

definition lengths_given :: "jsval \<Rightarrow> bool" where
  "lengths_given body \<longleftrightarrow> list_ex (\<lambda>k. truthy (get body k))
     [''phoneLengthMode'', ''allowedPhoneLengths'', ''allowPhone3'', ''allowPhone4'', ''allowPhone11'']"

definition session_members :: "jsval \<Rightarrow> (string \<times> jsval) list" where
  "session_members body = (case flag_member body ''inheritSessionTtl'' ''sessionTtlEnabled'' of
     [] \<Rightarrow> []
   | m # _ \<Rightarrow> m # (if snd m = Bool True then [(''sessionTtlSeconds'', Num (normalizeSessionTtlSeconds (ttl_seconds body)))] else []))"

definition serializeEmployeePolicyOverride :: "jsval \<Rightarrow> error + (string \<times> jsval) list" where
  "serializeEmployeePolicyOverride body =
     (if parseBooleanFlag (get body ''inheritCompanyPolicy'') = Some True then Inr []
      else bindE (if parseBooleanFlag (get body ''inheritPhoneLengths'') \<noteq> Some True \<and> lengths_given body
                  then bindE (serializeAllowedPhoneLengths body) (\<lambda>ls. Inr [(''allowedPhoneLengths'', Arr (map (Num \<circ> length_num) ls))])
                  else Inr [])
             (\<lambda>lengths. Inr (flag_member body ''inheritProofRequired'' ''proofRequired''
                @ flag_member body ''inheritQuickExecute'' ''quickExecuteEnabled''
                @ lengths
                @ (if parseBooleanFlag (get body ''inheritMaxConcurrentDevices'') \<noteq> Some True
                      \<and> present (get body ''maxConcurrentDevices'')
                   then [(''maxConcurrentDevices'', Num (normalizeMaxConcurrentDevices (get body ''maxConcurrentDevices'')))] else [])
                @ session_members body)))"

definition session_ms :: "policy \<Rightarrow> jsnum" where
  "session_ms p = n_mul (normalizeSessionTtlSeconds (opt_num (po_sessionTtlSeconds p))) (Fin 1000)"

definition webSessionMaxAgeMsForPolicy :: "policy option \<Rightarrow> jsnum" where
  "webSessionMaxAgeMsForPolicy policy = (case policy of
     Some p \<Rightarrow> if po_sessionTtlEnabled p then session_ms p else Fin (of_int OPEN_WEB_SESSION_MS)
   | None \<Rightarrow> Fin (of_int OPEN_WEB_SESSION_MS))"

definition absoluteSessionExpiresAtForPolicy :: "policy option \<Rightarrow> jsnum \<Rightarrow> jsnum" where
  "absoluteSessionExpiresAtForPolicy policy now = (case policy of
     Some p \<Rightarrow> if po_sessionTtlEnabled p then n_add now (session_ms p) else Fin 0 | None \<Rightarrow> Fin 0)"


section \<open>What a policy promises\<close>

definition lengths_wf :: "nat list \<Rightarrow> bool" where
  "lengths_wf ls \<longleftrightarrow> ls \<noteq> [] \<and> sorted ls \<and> distinct ls \<and> set ls \<subseteq> set DEFAULT_PHONE_LENGTHS"

definition int_between :: "int \<Rightarrow> int \<Rightarrow> jsnum \<Rightarrow> bool" where
  "int_between a b n \<longleftrightarrow> (case n of Fin x \<Rightarrow> x = of_int \<lfloor>x\<rfloor> \<and> a \<le> \<lfloor>x\<rfloor> \<and> \<lfloor>x\<rfloor> \<le> b | _ \<Rightarrow> False)"

definition ttl_wf :: "jsnum \<Rightarrow> bool" where
  "ttl_wf = int_between MIN_SESSION_TTL_SECONDS MAX_SESSION_TTL_SECONDS"

definition devices_wf :: "jsnum \<Rightarrow> bool" where
  "devices_wf = int_between 1 MAX_CONCURRENT_DEVICES_CAP"

definition policy_wf :: "'a policy_scheme \<Rightarrow> bool" where
  "policy_wf p \<longleftrightarrow> lengths_wf (po_allowedPhoneLengths p) \<and> po_phoneLengthMode p = mode_of_lengths (po_allowedPhoneLengths p)
     \<and> devices_wf (po_maxConcurrentDevices p)
     \<and> (po_sessionTtlEnabled p \<longleftrightarrow> po_sessionTtlSeconds p \<noteq> None)
     \<and> (\<forall>n\<in>set_option (po_sessionTtlSeconds p). ttl_wf n)"

lemma phone_length_iff: "phone_length n = Some k \<longleftrightarrow> n = length_num k \<and> k \<in> set DEFAULT_PHONE_LENGTHS"
  by (auto simp: phone_length_def length_num_def DEFAULT_PHONE_LENGTHS_def)

lemma normalize_lengths_wf [simp]: "lengths_wf (normalize_lengths ns)"
proof -
  have sub: "set (List.map_filter phone_length ns) \<subseteq> set DEFAULT_PHONE_LENGTHS"
    by (induction ns) (auto simp: phone_length_iff split: option.splits)
  have "sort (remdups xs) = [] \<longleftrightarrow> xs = []" for xs :: "nat list"
    by (metis set_sort set_empty set_remdups)
  then show ?thesis using sub
    by (auto simp: lengths_wf_def normalize_lengths_def Let_def)
       (auto simp: DEFAULT_PHONE_LENGTHS_def)
qed

lemma normalizeAllowedPhoneLengths_wf [simp]: "lengths_wf (normalizeAllowedPhoneLengths v)"
  by (simp add: normalizeAllowedPhoneLengths_def)

lemma map_filter_lengths: "set ls \<subseteq> set DEFAULT_PHONE_LENGTHS \<Longrightarrow> List.map_filter phone_length (map length_num ls) = ls"
proof (induction ls)
  case (Cons l ls)
  then have "phone_length (length_num l) = Some l" by (simp add: phone_length_iff)
  with Cons show ?case by simp
qed simp

lemma normalize_lengths_id [simp]: "lengths_wf ls \<Longrightarrow> normalize_lengths (map length_num ls) = ls"
  by (simp add: lengths_wf_def normalize_lengths_def map_filter_lengths distinct_remdups_id sorted_sort_id)

lemma stored_lengths_id [simp]: "lengths_wf ls \<Longrightarrow> normalizeAllowedPhoneLengths (Arr (map (Num \<circ> length_num) ls)) = ls"
proof -
  have "toNumber \<circ> (Num \<circ> length_num) = length_num" by (auto simp: fun_eq_iff)
  then show "lengths_wf ls \<Longrightarrow> normalizeAllowedPhoneLengths (Arr (map (Num \<circ> length_num) ls)) = ls"
    by (simp add: normalizeAllowedPhoneLengths_def)
qed

lemma mode_of_stored [simp]: "lengths_wf ls \<Longrightarrow> phoneLengthModeFromLengths (Arr (map (Num \<circ> length_num) ls)) = mode_of_lengths ls"
  by (simp add: phoneLengthModeFromLengths_def)

lemma int_between_of_int [simp]: "int_between a b (Fin (of_int k)) \<longleftrightarrow> a \<le> k \<and> k \<le> b"
  by (simp add: int_between_def)

lemma int_between_E:
  assumes "int_between a b n"
  obtains k where "n = Fin (of_int k)" "a \<le> k" "k \<le> b"
  using assms by (auto simp: int_between_def split: jsnum.splits)

text \<open>Both bounded settings clamp a rounded number into an interval.\<close>

lemma clamp_between:
  assumes "a \<le> b" and "isFinite n"
  shows "int_between a b (n_min (Fin (of_int b)) (n_max (Fin (of_int a)) (n_floor n)))"
  using assms by (cases n) (simp_all add: n_min_def n_max_def)

lemma clamp_id:
  assumes "a \<le> k" "k \<le> b"
  shows "n_min (Fin (of_int b)) (n_max (Fin (of_int a)) (n_floor (Fin (of_int k)))) = Fin (of_int k)"
  using assms by (auto simp: n_min_def n_max_def)

lemma devices_bounded [simp]: "devices_wf (normalizeMaxConcurrentDevices v)"
  using clamp_between [of 1 MAX_CONCURRENT_DEVICES_CAP "toNumber v"]
  by (simp add: normalizeMaxConcurrentDevices_def devices_wf_def Let_def MAX_CONCURRENT_DEVICES_CAP_def)
     (simp add: int_between_def DEFAULT_MAX_CONCURRENT_DEVICES_def)

lemma ttl_bounded [simp]: "ttl_wf (normalizeSessionTtlSeconds v)"
  using clamp_between [of MIN_SESSION_TTL_SECONDS MAX_SESSION_TTL_SECONDS "toNumber v"]
  by (simp add: normalizeSessionTtlSeconds_def ttl_wf_def Let_def MAX_SESSION_TTL_SECONDS_def MIN_SESSION_TTL_SECONDS_def)
     (simp add: int_between_def DEFAULT_SESSION_TTL_SECONDS_def)

lemma devices_id [simp]: "devices_wf n \<Longrightarrow> normalizeMaxConcurrentDevices (Num n) = n"
  using clamp_id [of 1]
  by (auto simp: normalizeMaxConcurrentDevices_def devices_wf_def Let_def elim!: int_between_E)

lemma ttl_id [simp]: "ttl_wf n \<Longrightarrow> normalizeSessionTtlSeconds (Num n) = n"
  using clamp_id [of MIN_SESSION_TTL_SECONDS]
  by (auto simp: normalizeSessionTtlSeconds_def ttl_wf_def Let_def MIN_SESSION_TTL_SECONDS_def elim!: int_between_E)

lemma company_policy_wf: "policy_wf (readCompanyExecutionPolicy grp)"
  by (auto simp: policy_wf_def readCompanyExecutionPolicy_def Let_def)


text \<open>The public view of a well-formed policy has its settings, and the marks of what is inherited.\<close>

definition with_inherited :: "'a policy_scheme \<Rightarrow> jsval \<Rightarrow> public_policy" where
  "with_inherited p i = policy.extend (policy.truncate p) \<lparr>pp_inherited = i\<rparr>"

lemma public_policy:
  assumes "policy_wf p"
  shows "toPublicExecutionPolicy (Obj (policy_members p @ ms)) = with_inherited p (or_else (get (Obj ms) ''inherited'') Null)"
  using assms
  by (cases "po_sessionTtlSeconds p")
     (auto simp: policy_wf_def toPublicExecutionPolicy_def policy_members_def with_inherited_def policy.defs
        public_policy.defs opt_num_def or_else_def)









text \<open>An employee without an override has the policy of the company, marked as inherited.\<close>

lemma no_override_inherits:
  assumes "override_of employee = Obj []"
  shows "policy.truncate (readExecutorManualPolicy grp employee) = readCompanyExecutionPolicy grp
    \<and> ep_inherited (readExecutorManualPolicy grp employee)
      = \<lparr>in_proofRequired = True, in_quickExecute = True, in_allowedPhoneLengths = True,
         in_maxConcurrentDevices = True, in_sessionTtl = True\<rparr>"
  using company_policy_wf [of grp] assms
  by (auto simp: readExecutorManualPolicy_def inherited_of_def hasOwn_def present_def own_lengths_def Let_def
        policy_wf_def policy.truncate_def opt_num_def readCompanyExecutionPolicy_def)

section \<open>Storing and reading agree\<close>

lemma serialized_lengths_wf:
  assumes "serializeAllowedPhoneLengths body = Inr ls" shows "lengths_wf ls"
proof -
  have "map_of PHONE_LENGTH_MODES key = Some ls' \<Longrightarrow> lengths_wf ls'" for key ls'
    by (auto simp: PHONE_LENGTH_MODES_def lengths_wf_def DEFAULT_PHONE_LENGTHS_def split: if_splits)
  with assms show ?thesis
    by (auto simp: serializeAllowedPhoneLengths_def lengthsFromPhoneLengthMode_def Let_def split: if_splits option.splits)
qed

lemma company_policy_stored:
  assumes "serializeCompanyExecutionPolicy body = Inr members"
  shows "\<exists>ls. serializeAllowedPhoneLengths body = Inr ls \<and> readCompanyExecutionPolicy (Obj members) =
    \<lparr>po_proofRequired = (parseBooleanFlag (coalesce (get body ''proofRequired'') (get body ''manualProofRequired'')) = Some True),
     po_quickExecuteEnabled = (parseBooleanFlag (coalesce (get body ''quickExecuteEnabled'') (get body ''manualQuickExecuteEnabled'')) = Some True),
     po_allowedPhoneLengths = ls, po_phoneLengthMode = mode_of_lengths ls,
     po_splitRequiresFullPhone = (parseBooleanFlag
        (coalesce (get body ''splitRequiresFullPhone'') (get body ''manualSplitRequiresFullPhone'')) \<noteq> Some False),
     po_maxConcurrentDevices = normalizeMaxConcurrentDevices (get body ''maxConcurrentDevices''),
     po_sessionTtlEnabled = (parseBooleanFlag (get body ''sessionTtlEnabled'') = Some True),
     po_sessionTtlSeconds = (if parseBooleanFlag (get body ''sessionTtlEnabled'') = Some True
        then Some (normalizeSessionTtlSeconds (ttl_seconds body)) else None)\<rparr>"
proof -
  obtain ls where ls: "serializeAllowedPhoneLengths body = Inr ls"
    using assms by (cases "serializeAllowedPhoneLengths body") (auto simp: serializeCompanyExecutionPolicy_def Let_def)
  have wf: "lengths_wf ls" using ls by (rule serialized_lengths_wf)
  show ?thesis using assms wf
    by (auto simp: serializeCompanyExecutionPolicy_def ls readCompanyExecutionPolicy_def Let_def)
qed

text \<open>A submitted body fails only for a mode that names something else of a plain object.\<close>

lemma serialize_fails_iff:
  "(\<exists>members. serializeCompanyExecutionPolicy body = Inr members) \<longleftrightarrow>
     toLowerCase (clean (get body ''phoneLengthMode'')) \<notin> {''constructor'', ''__proto__''}"
proof -
  have blank: "toLowerCase (clean v) \<notin> {''constructor'', ''__proto__''}" if "\<not> truthy v" for v
    using that by (simp add: clean_def or_else_def trim_graph is_graph_def toLowerCase_def)
  have modes: "map_of PHONE_LENGTH_MODES ''constructor'' = None" "map_of PHONE_LENGTH_MODES ''__proto__'' = None"
    by (simp_all add: PHONE_LENGTH_MODES_def)
  have "(\<exists>ls. serializeAllowedPhoneLengths body = Inr ls) \<longleftrightarrow>
      toLowerCase (clean (get body ''phoneLengthMode'')) \<notin> {''constructor'', ''__proto__''}"
    using blank [of "get body ''phoneLengthMode''"]
    by (auto simp: serializeAllowedPhoneLengths_def lengthsFromPhoneLengthMode_def Let_def modes split: option.splits)
  moreover have "(\<exists>members. serializeCompanyExecutionPolicy body = Inr members) \<longleftrightarrow> (\<exists>ls. serializeAllowedPhoneLengths body = Inr ls)"
    by (cases "serializeAllowedPhoneLengths body") (auto simp: serializeCompanyExecutionPolicy_def Let_def)
  ultimately show ?thesis by simp
qed

text \<open>A phone number that is accepted has an allowed length, and in a split execution it is complete.\<close>

lemma sender_phone_ok:
  assumes "validateSenderPhoneDigits phone lengths full isSplit = Phone_ok d"
  shows "d = digitsOnly phone \<and> d \<noteq> []
    \<and> (if isSplit \<and> full then full_phone d else length d \<in> set (normalizeAllowedPhoneLengths lengths))
    \<and> (length d = 11 \<longrightarrow> full_phone d)"
  using assms by (auto simp: validateSenderPhoneDigits_def Let_def split: if_splits)

lemma accepted_phone_short: 
  assumes "validateSenderPhoneDigits phone lengths full isSplit = Phone_ok d"
  shows "length d \<in> {3, 4, 11}"
proof -
  have "set (normalizeAllowedPhoneLengths lengths) \<subseteq> {3, 4, 11}"
    using normalizeAllowedPhoneLengths_wf [of lengths] by (auto simp: lengths_wf_def DEFAULT_PHONE_LENGTHS_def)
  with sender_phone_ok [OF assms] show ?thesis
    by (auto simp: full_phone_def all_in_def split: if_splits)
qed

lemma session_age_bounded:
  assumes "policy_wf p"
  shows "int_between 900000 (30 * 24 * 60 * 60 * 1000) (webSessionMaxAgeMsForPolicy (Some p))"
proof (cases "po_sessionTtlSeconds p")
  case None
  with assms show ?thesis
    using int_between_of_int [of 900000 2592000000 2592000000]
    by (simp add: policy_wf_def webSessionMaxAgeMsForPolicy_def OPEN_WEB_SESSION_MS_def del: int_between_of_int)
next
  case (Some n)
  with assms have n: "ttl_wf n" "po_sessionTtlEnabled p" by (auto simp: policy_wf_def)
  then obtain k where k: "n = Fin (of_int k)" "900 \<le> k" "k \<le> 2592000"
    by (auto simp: ttl_wf_def MIN_SESSION_TTL_SECONDS_def MAX_SESSION_TTL_SECONDS_def elim!: int_between_E)
  have m: "n_mul n (Fin 1000) = Fin (of_int (k * 1000))"
    using dbl_int [of "k * 1000"] k by simp
  have "webSessionMaxAgeMsForPolicy (Some p) = Fin (of_int (k * 1000))"
    using n Some m by (simp add: webSessionMaxAgeMsForPolicy_def session_ms_def opt_num_def)
  then show ?thesis using k by (simp del: of_int_mult)
qed


end
