(* ===== verification/Transfer_Rules.thy ===== *)
theory Transfer_Rules
  imports Js_Text
begin

text \<open>
  The rules of the transfer services and the check of a submitted transfer (utils/transferServiceRules.js), the
  table of the Egyptian banks and how a bank is recognised (utils/egyptianBanks.js), and the completion of a bank
  transfer (utils/bankTransferExecution.js).  A message is a constructor of refusal; labels and placeholders of
  the forms are left out.  Names are UTF-8 bytes.
\<close>

section \<open>The banks\<close>

record egyptian_bank =
  code :: string
  nameAr :: string
  aliases :: "string list"

definition bank :: "string \<times> string \<times> string list \<Rightarrow> egyptian_bank" where
  "bank b = \<lparr>code = fst b, nameAr = fst (snd b), aliases = snd (snd b)\<rparr>"

definition EGYPTIAN_BANKS :: "egyptian_bank list" where
  "EGYPTIAN_BANKS =
     [bank (''nbe'', utf8 [216, 167, 217, 132, 216, 168, 217, 134, 217, 131, 32, 216, 167, 217, 132, 216, 163, 217, 135, 217, 132, 217, 138, 32, 216, 167, 217, 132, 217, 133, 216, 181, 216, 177, 217, 138], [''nbe'', utf8 [216, 167, 217, 132, 216, 167, 217, 135, 217, 132, 217, 138, 32, 216, 167, 217, 132, 217, 133, 216, 181, 216, 177, 217, 138]]),
      bank (''bmisr'', utf8 [216, 168, 217, 134, 217, 131, 32, 217, 133, 216, 181, 216, 177], [''banque misr'']),
      bank (''cib'', utf8 [216, 167, 217, 132, 216, 168, 217, 134, 217, 131, 32, 216, 167, 217, 132, 216, 170, 216, 172, 216, 167, 216, 177, 217, 138, 32, 216, 167, 217, 132, 216, 175, 217, 136, 217, 132, 217, 138, 32, 67, 73, 66], [''cib'', utf8 [216, 167, 217, 132, 216, 170, 216, 172, 216, 167, 216, 177, 217, 138, 32, 216, 167, 217, 132, 216, 175, 217, 136, 217, 132, 217, 138]]),
      bank (''qnb'', utf8 [216, 168, 217, 134, 217, 131, 32, 217, 130, 216, 183, 216, 177, 32, 216, 167, 217, 132, 217, 136, 216, 183, 217, 134, 217, 138, 32, 216, 167, 217, 132, 216, 163, 217, 135, 217, 132, 217, 138, 32, 81, 78, 66], [''qnb'', utf8 [113, 110, 98, 32, 216, 167, 217, 132, 216, 167, 217, 135, 217, 132, 217, 138]]),
      bank (''bdc'', utf8 [216, 168, 217, 134, 217, 131, 32, 216, 167, 217, 132, 217, 130, 216, 167, 217, 135, 216, 177, 216, 169], [''banque du caire'']),
      bank (''aaib'', utf8 [216, 167, 217, 132, 216, 168, 217, 134, 217, 131, 32, 216, 167, 217, 132, 216, 185, 216, 177, 216, 168, 217, 138, 32, 216, 167, 217, 132, 216, 163, 217, 129, 216, 177, 217, 138, 217, 130, 217, 138, 32, 216, 167, 217, 132, 216, 175, 217, 136, 217, 132, 217, 138], [''aaib'']),
      bank (''adib'', utf8 [217, 133, 216, 181, 216, 177, 217, 129, 32, 216, 163, 216, 168, 217, 136, 216, 184, 216, 168, 217, 138, 32, 216, 167, 217, 132, 216, 165, 216, 179, 217, 132, 216, 167, 217, 133, 217, 138, 32, 65, 68, 73, 66], [''adib'', utf8 [216, 167, 216, 168, 217, 136, 32, 216, 184, 216, 168, 217, 138, 32, 216, 167, 217, 132, 216, 167, 216, 179, 217, 132, 216, 167, 217, 133, 217, 138], utf8 [216, 168, 217, 134, 217, 131, 32, 216, 167, 216, 168, 217, 136, 32, 216, 184, 216, 168, 217, 138, 32, 216, 167, 217, 132, 216, 167, 216, 179, 217, 132, 216, 167, 217, 133, 217, 138, 32, 217, 133, 216, 181, 216, 177]]),
      bank (''faisal'', utf8 [216, 168, 217, 134, 217, 131, 32, 217, 129, 217, 138, 216, 181, 217, 132, 32, 216, 167, 217, 132, 216, 165, 216, 179, 217, 132, 216, 167, 217, 133, 217, 138, 32, 216, 167, 217, 132, 217, 133, 216, 181, 216, 177, 217, 138], [''faisal'']),
      bank (''saib'', utf8 [216, 168, 217, 134, 217, 131, 32, 216, 167, 217, 132, 216, 180, 216, 177, 217, 131, 216, 169, 32, 216, 167, 217, 132, 217, 133, 216, 181, 216, 177, 217, 129, 217, 138, 216, 169, 32, 216, 167, 217, 132, 216, 185, 216, 177, 216, 168, 217, 138, 216, 169, 32, 216, 167, 217, 132, 216, 175, 217, 136, 217, 132, 217, 138, 216, 169, 32, 115, 97, 105, 98], [''saib'', utf8 [216, 168, 217, 134, 217, 131, 32, 216, 167, 217, 132, 216, 180, 216, 177, 217, 131, 217, 135, 32, 216, 167, 217, 132, 217, 133, 216, 181, 216, 177, 217, 129, 217, 138, 217, 135, 32, 216, 167, 217, 132, 216, 185, 216, 177, 216, 168, 217, 138, 217, 135, 32, 216, 167, 217, 132, 216, 175, 217, 136, 217, 132, 217, 138, 217, 135, 32, 83, 65, 73, 66]]),
      bank (''hsbc'', utf8 [216, 168, 217, 134, 217, 131, 32, 72, 83, 66, 67, 32, 217, 133, 216, 181, 216, 177], [''hsbc'']),
      bank (''alexbank'', utf8 [216, 168, 217, 134, 217, 131, 32, 216, 167, 217, 132, 216, 165, 216, 179, 217, 131, 217, 134, 216, 175, 216, 177, 217, 138, 216, 169], [''alexbank'', utf8 [216, 168, 217, 134, 217, 131, 32, 216, 167, 217, 132, 216, 167, 216, 179, 217, 131, 217, 134, 216, 175, 216, 177, 217, 138, 217, 135]]),
      bank (''aub'', utf8 [216, 167, 217, 132, 216, 168, 217, 134, 217, 131, 32, 216, 167, 217, 132, 216, 163, 217, 135, 217, 132, 217, 138, 32, 216, 167, 217, 132, 217, 133, 216, 170, 216, 173, 216, 175, 32, 217, 133, 216, 181, 216, 177], [''aub'', utf8 [216, 167, 217, 132, 216, 167, 217, 135, 217, 132, 217, 138, 32, 216, 167, 217, 132, 217, 133, 216, 170, 216, 173, 216, 175]]),
      bank (''aib'', utf8 [216, 167, 217, 132, 217, 133, 216, 181, 216, 177, 217, 129, 32, 216, 167, 217, 132, 216, 185, 216, 177, 216, 168, 217, 138, 32, 216, 167, 217, 132, 216, 175, 217, 136, 217, 132, 217, 138], [''arab international bank'']),
      bank (''abc'', utf8 [216, 168, 217, 134, 217, 131, 32, 216, 167, 217, 132, 217, 133, 216, 164, 216, 179, 216, 179, 216, 169, 32, 216, 167, 217, 132, 216, 185, 216, 177, 216, 168, 217, 138, 216, 169, 32, 216, 167, 217, 132, 217, 133, 216, 181, 216, 177, 217, 129, 217, 138, 216, 169, 32, 65, 66, 67], [''abc'']),
      bank (''blom'', utf8 [216, 168, 217, 134, 217, 131, 32, 216, 168, 217, 132, 217, 136, 217, 133, 32, 217, 133, 216, 181, 216, 177], [''blom'']),
      bank (''enbd'', utf8 [216, 168, 217, 134, 217, 131, 32, 216, 167, 217, 132, 216, 165, 217, 133, 216, 167, 216, 177, 216, 167, 216, 170, 32, 216, 175, 216, 168, 217, 138, 32, 216, 167, 217, 132, 217, 136, 216, 183, 217, 134, 217, 138, 32, 217, 133, 216, 181, 216, 177], [''enbd'', utf8 [216, 167, 217, 132, 216, 167, 217, 133, 216, 167, 216, 177, 216, 167, 216, 170, 32, 216, 175, 216, 168, 217, 138, 32, 216, 167, 217, 132, 217, 136, 216, 183, 217, 134, 217, 138]]),
      bank (''adcb'', utf8 [216, 168, 217, 134, 217, 131, 32, 216, 163, 216, 168, 217, 136, 216, 184, 216, 168, 217, 138, 32, 216, 167, 217, 132, 216, 170, 216, 172, 216, 167, 216, 177, 217, 138, 32, 65, 68, 67, 66], [''adcb'', utf8 [216, 167, 216, 168, 217, 136, 216, 184, 216, 168, 217, 138, 32, 216, 167, 217, 132, 216, 170, 216, 172, 216, 167, 216, 177, 217, 138], utf8 [216, 168, 217, 134, 217, 131, 32, 216, 167, 216, 168, 217, 136, 32, 216, 184, 216, 168, 217, 138, 32, 216, 167, 217, 132, 216, 170, 216, 172, 216, 167, 216, 177, 217, 138, 32, 217, 133, 216, 181, 216, 177]]),
      bank (''mashreq'', utf8 [216, 168, 217, 134, 217, 131, 32, 216, 167, 217, 132, 217, 133, 216, 180, 216, 177, 217, 130], [''mashreq'', utf8 [216, 168, 217, 134, 217, 131, 32, 216, 167, 217, 132, 217, 133, 216, 180, 216, 177, 217, 130, 32, 217, 133, 216, 181, 216, 177]]),
      bank (''audi'', utf8 [216, 168, 217, 134, 217, 131, 32, 216, 185, 217, 136, 216, 175, 217, 135, 32, 217, 133, 216, 181, 216, 177], [''audi'', utf8 [216, 185, 217, 136, 216, 175, 217, 135]]),
      bank (''nbk'', utf8 [216, 168, 217, 134, 217, 131, 32, 216, 167, 217, 132, 217, 131, 217, 136, 217, 138, 216, 170, 32, 216, 167, 217, 132, 217, 136, 216, 183, 217, 134, 217, 138, 32, 217, 133, 216, 181, 216, 177], [''nbk'', utf8 [216, 167, 217, 132, 217, 131, 217, 136, 217, 138, 216, 170, 32, 216, 167, 217, 132, 217, 136, 216, 183, 217, 134, 217, 138]]),
      bank (''awb'', utf8 [216, 167, 217, 132, 216, 170, 216, 172, 216, 167, 216, 177, 217, 138, 32, 217, 136, 217, 129, 216, 167, 32, 216, 168, 217, 134, 217, 131, 32, 216, 165, 217, 138, 216, 172, 217, 138, 216, 168, 216, 170], [''attijariwafa'', utf8 [216, 167, 217, 132, 216, 170, 216, 172, 216, 167, 216, 177, 217, 138, 32, 217, 136, 217, 129, 216, 167]]),
      bank (''idb'', utf8 [216, 168, 217, 134, 217, 131, 32, 216, 167, 217, 132, 216, 170, 217, 134, 217, 133, 217, 138, 216, 169, 32, 216, 167, 217, 132, 216, 181, 217, 134, 216, 167, 216, 185, 217, 138, 216, 169], [''idb'', utf8 [216, 167, 217, 132, 216, 170, 217, 134, 217, 133, 217, 138, 217, 135, 32, 216, 167, 217, 132, 216, 181, 217, 134, 216, 167, 216, 185, 217, 138, 217, 135]]),
      bank (''hdb'', utf8 [216, 168, 217, 134, 217, 131, 32, 216, 167, 217, 132, 216, 170, 216, 185, 217, 133, 217, 138, 216, 177, 32, 217, 136, 216, 167, 217, 132, 216, 165, 216, 179, 217, 131, 216, 167, 217, 134], [''hdb'', utf8 [216, 167, 217, 132, 216, 170, 216, 185, 217, 133, 217, 138, 216, 177, 32, 217, 136, 216, 167, 217, 132, 216, 167, 216, 179, 217, 131, 216, 167, 217, 134]]),
      bank (''ealbank'', utf8 [216, 167, 217, 132, 216, 168, 217, 134, 217, 131, 32, 216, 167, 217, 132, 216, 185, 217, 130, 216, 167, 216, 177, 217, 138, 32, 216, 167, 217, 132, 217, 133, 216, 181, 216, 177, 217, 138, 32, 216, 167, 217, 132, 216, 185, 216, 177, 216, 168, 217, 138], [''ealbank'', utf8 [216, 167, 217, 132, 216, 185, 217, 130, 216, 167, 216, 177, 217, 138, 32, 216, 167, 217, 132, 217, 133, 216, 181, 216, 177, 217, 138]]),
      bank (''abe'', utf8 [216, 167, 217, 132, 216, 168, 217, 134, 217, 131, 32, 216, 167, 217, 132, 216, 178, 216, 177, 216, 167, 216, 185, 217, 138, 32, 216, 167, 217, 132, 217, 133, 216, 181, 216, 177, 217, 138], [''abe'', utf8 [216, 167, 217, 132, 216, 178, 216, 177, 216, 167, 216, 185, 217, 138, 32, 216, 167, 217, 132, 217, 133, 216, 181, 216, 177, 217, 138]]),
      bank (''ub'', utf8 [216, 167, 217, 132, 217, 133, 216, 181, 216, 177, 217, 129, 32, 216, 167, 217, 132, 217, 133, 216, 170, 216, 173, 216, 175], [''the united bank'']),
      bank (''albaraka'', utf8 [216, 168, 217, 134, 217, 131, 32, 216, 167, 217, 132, 216, 168, 216, 177, 217, 131, 216, 169, 32, 217, 133, 216, 181, 216, 177], [''albaraka'', utf8 [216, 167, 217, 132, 216, 168, 216, 177, 217, 131, 217, 135]]),
      bank (''scbank'', utf8 [216, 168, 217, 134, 217, 131, 32, 217, 130, 217, 134, 216, 167, 216, 169, 32, 216, 167, 217, 132, 216, 179, 217, 136, 217, 138, 216, 179], [''suez canal bank'']),
      bank (''arabbank'', utf8 [216, 167, 217, 132, 216, 168, 217, 134, 217, 131, 32, 216, 167, 217, 132, 216, 185, 216, 177, 216, 168, 217, 138], [''arab bank'']),
      bank (''cae'', utf8 [216, 168, 217, 134, 217, 131, 32, 217, 131, 216, 177, 217, 138, 216, 175, 217, 138, 32, 216, 163, 216, 172, 216, 177, 217, 138, 217, 131, 217, 136, 217, 132, 32, 217, 133, 216, 181, 216, 177], [''credit agricole'', utf8 [217, 131, 216, 177, 217, 138, 216, 175, 217, 138, 32, 216, 167, 216, 172, 216, 177, 217, 138, 217, 131, 217, 136, 217, 132]]),
      bank (''abk'', utf8 [216, 167, 217, 132, 216, 168, 217, 134, 217, 131, 32, 216, 167, 217, 132, 216, 163, 217, 135, 217, 132, 217, 138, 32, 216, 167, 217, 132, 217, 131, 217, 136, 217, 138, 216, 170, 217, 138, 32, 217, 133, 216, 181, 216, 177], [''abk'', utf8 [216, 167, 217, 132, 216, 167, 217, 135, 217, 132, 217, 138, 32, 216, 167, 217, 132, 217, 131, 217, 136, 217, 138, 216, 170, 217, 138]]),
      bank (''aibk'', utf8 [216, 168, 217, 134, 217, 131, 32, 216, 167, 217, 132, 216, 167, 216, 179, 216, 170, 216, 171, 217, 133, 216, 167, 216, 177, 32, 216, 167, 217, 132, 216, 185, 216, 177, 216, 168, 217, 138], [''arab investment bank'']),
      bank (''citi'', utf8 [216, 179, 217, 138, 216, 170, 217, 138, 32, 216, 168, 217, 134, 217, 131, 32, 217, 133, 216, 181, 216, 177], [''citibank'', ''citi'']),
      bank (''egbank'', utf8 [216, 167, 217, 132, 216, 168, 217, 134, 217, 131, 32, 216, 167, 217, 132, 217, 133, 216, 181, 216, 177, 217, 138, 32, 216, 167, 217, 132, 216, 174, 217, 132, 217, 138, 216, 172, 217, 138, 32, 69, 71, 66, 65, 78, 75], [''egbank'']),
      bank (''ebe'', utf8 [216, 167, 217, 132, 216, 168, 217, 134, 217, 131, 32, 216, 167, 217, 132, 217, 133, 216, 181, 216, 177, 217, 138, 32, 217, 132, 216, 170, 217, 134, 217, 133, 217, 138, 216, 169, 32, 216, 167, 217, 132, 216, 181, 216, 167, 216, 175, 216, 177, 216, 167, 216, 170], [''edbe'', utf8 [216, 170, 217, 134, 217, 133, 217, 138, 217, 135, 32, 216, 167, 217, 132, 216, 181, 216, 167, 216, 175, 216, 177, 216, 167, 216, 170]]),
      bank (''fab'', utf8 [216, 168, 217, 134, 217, 131, 32, 216, 163, 216, 168, 217, 136, 216, 184, 216, 168, 217, 138, 32, 216, 167, 217, 132, 216, 163, 217, 136, 217, 132, 32, 217, 133, 216, 181, 216, 177, 32, 70, 65, 66], [''fab'', utf8 [216, 167, 216, 168, 217, 136, 32, 216, 184, 216, 168, 217, 138, 32, 216, 167, 217, 132, 216, 167, 217, 136, 217, 132]]),
      bank (''next'', utf8 [216, 168, 217, 134, 217, 131, 32, 217, 134, 217, 131, 216, 179, 216, 170], [''next bank'', utf8 [217, 134, 217, 131, 216, 179, 216, 170]])]"

definition BANK_TRANSFER_KEYS :: "string list" where
  "BANK_TRANSFER_KEYS = [''bank_account'', ''bank_transfer'']"

text \<open>\<open>s.replace(/\s+/g, ' ')\<close> on any string; the flag says that a space has just been written.\<close>

fun squeeze :: "nat \<Rightarrow> bool \<Rightarrow> string \<Rightarrow> string" where
  "squeeze 0 sp s = []"
| "squeeze (Suc n) sp [] = []"
| "squeeze (Suc n) sp (c # cs) = (case find (\<lambda>w. has_prefix w (c # cs)) js_spaces of
     Some w \<Rightarrow> (if sp then [] else '' '') @ squeeze n True (drop (length w) (c # cs))
   | None \<Rightarrow> c # squeeze n False cs)"

text \<open>The letters that one spelling of Arabic writes for another; the first one, tatweel, is dropped.\<close>

definition letter_forms :: "(string \<times> string) list" where
  "letter_forms =
     [(utf8 [217, 128], []),
      (utf8 [216, 163], utf8 [216, 167]), (utf8 [216, 165], utf8 [216, 167]), (utf8 [216, 162], utf8 [216, 167]),
      (utf8 [216, 169], utf8 [217, 135]), (utf8 [217, 137], utf8 [217, 138])]"

definition bank_token :: "string \<Rightarrow> string" where
  "bank_token s = (let t = trim s; r = replace_all letter_forms (length t) t
     in toLowerCase (squeeze (length r) False r))"

definition normalizeBankToken :: "jsval \<Rightarrow> string" where
  "normalizeBankToken v = bank_token (toString (or_else v (Str [])))"

definition tokens_of :: "egyptian_bank \<Rightarrow> string list" where
  "tokens_of b = code b # nameAr b # aliases b"

definition BANK_INDEX :: "(string \<times> egyptian_bank) list" where
  "BANK_INDEX = filter (\<lambda>e. fst e \<noteq> [])
     (concat (map (\<lambda>b. map (\<lambda>t. (normalizeBankToken (Str t), b)) (tokens_of b)) EGYPTIAN_BANKS))"

definition isBankTransferService :: "jsval list \<Rightarrow> bool" where
  "isBankTransferService vs = list_ex (\<lambda>v. toLowerCase (clean v) \<in> set BANK_TRANSFER_KEYS) vs"

definition resolveEgyptianBank :: "jsval \<Rightarrow> egyptian_bank option" where
  "resolveEgyptianBank v = map_of BANK_INDEX (normalizeBankToken v)"

definition readBankInput :: "jsval \<Rightarrow> string" where
  "readBankInput source = clean (foldr or_else
     [get source ''bankCode'', get source ''bank_code'', get source ''bankName'', get source ''bank_name'', get source ''bank'',
      get (get source ''serviceDetails'') ''bankCode'', get (get source ''serviceDetails'') ''bankName''] (Str []))"

datatype bank_error = BANK_REQUIRED | BANK_INVALID

record stored_bank =
  sb_required :: bool
  sb_bank :: "egyptian_bank option"
  sb_error :: "bank_error option"

definition normalizeStoredBank :: "jsval \<Rightarrow> stored_bank" where
  "normalizeStoredBank source =
     (if \<not> isBankTransferService [get source ''transferType'', get source ''serviceKey'', get source ''canonicalServiceKey'']
      then \<lparr>sb_required = False, sb_bank = None, sb_error = None\<rparr>
      else let raw = readBankInput source in case resolveEgyptianBank (Str raw) of
          Some b \<Rightarrow> \<lparr>sb_required = True, sb_bank = Some b, sb_error = None\<rparr>
        | None \<Rightarrow> \<lparr>sb_required = True, sb_bank = None,
                   sb_error = Some (if raw \<noteq> [] then BANK_INVALID else BANK_REQUIRED)\<rparr>)"

definition bankLabelForTransaction :: "jsval \<Rightarrow> string" where
  "bankLabelForTransaction tx =
     (let details = or_else (get tx ''serviceDetails'') (Obj []);
          storedName = clean (or_else (get details ''bankName'') (get tx ''bankName''))
      in if storedName \<noteq> [] then case resolveEgyptianBank (Str storedName) of
              Some b \<Rightarrow> if nameAr b \<noteq> [] then nameAr b else storedName | None \<Rightarrow> storedName
         else case resolveEgyptianBank (or_else (get details ''bankCode'') (get tx ''bankCode'')) of
              Some b \<Rightarrow> nameAr b | None \<Rightarrow> [])"

fun contains_str :: "string \<Rightarrow> string \<Rightarrow> bool" where
  "contains_str w [] = has_prefix w []"
| "contains_str w (c # cs) = (has_prefix w (c # cs) \<or> contains_str w cs)"

definition formatClientReceiptAccountName :: "jsval \<Rightarrow> jsval \<Rightarrow> string" where
  "formatClientReceiptAccountName tx displayedName =
     (let name = clean displayedName; label = bankLabelForTransaction tx; beneficiary = clean (get tx ''accountName'')
      in if label = [] \<or> name = [] \<or> beneficiary = [] \<or> name \<noteq> beneficiary \<or> contains_str label name then name
         else name @ utf8 [32, 226, 128, 148, 32] @ label)"

section \<open>The rules of the services\<close>

datatype dest_pattern = Mobile_number | Digits nat nat

definition matches :: "dest_pattern \<Rightarrow> string \<Rightarrow> bool" where
  "matches p s = (case p of
     Mobile_number \<Rightarrow> all_in is_digit 11 11 s \<and> take 3 s \<in> {''010'', ''011'', ''012'', ''015''}
   | Digits lo hi \<Rightarrow> all_in is_digit lo hi s)"

record service_rules =
  destinationRequired :: bool
  destinationInputMode :: "string option"
  destinationPattern :: "dest_pattern option"
  destinationMinLength :: "nat option"
  destinationMaxLength :: "nat option"
  beneficiaryRequired :: bool
  beneficiaryMinWords :: "nat option"
  requiresBank :: bool
  requiresNationalId :: bool
  nationalIdLength :: "nat option"
  requiresGovernorate :: bool
  requiresIdentityImage :: bool
  requiresSubtype :: bool
  allowedSubtypes :: "string list option"
  cityRequiredForSubtypes :: "string list option"
  requiresDataEntryAcknowledgement :: bool
  minAmount :: "int option"
  maxAmount :: "int option"
  integerAmount :: bool
  amountStep :: "string option"

text \<open>An object without any of the members of a rule.\<close>

definition no_rules :: service_rules where
  "no_rules = \<lparr>destinationRequired = False, destinationInputMode = None, destinationPattern = None,
     destinationMinLength = None, destinationMaxLength = None, beneficiaryRequired = False, beneficiaryMinWords = None,
     requiresBank = False, requiresNationalId = False, nationalIdLength = None, requiresGovernorate = False,
     requiresIdentityImage = False, requiresSubtype = False, allowedSubtypes = None, cityRequiredForSubtypes = None,
     requiresDataEntryAcknowledgement = False, minAmount = None, maxAmount = None, integerAmount = False, amountStep = None\<rparr>"

definition TRANSFER_SERVICE_RULES :: "(string \<times> service_rules) list" where
  "TRANSFER_SERVICE_RULES =
     [(''vodafone'', no_rules \<lparr>destinationRequired := True, destinationInputMode := Some ''numeric'',
         destinationPattern := Some Mobile_number, destinationMinLength := Some 11, destinationMaxLength := Some 11,
         minAmount := Some 100, maxAmount := Some 50000, amountStep := Some ''0.01''\<rparr>),
      (''post_account'', no_rules \<lparr>destinationRequired := True, destinationInputMode := Some ''numeric'',
         destinationPattern := Some (Digits 15 15), destinationMinLength := Some 15, destinationMaxLength := Some 15,
         beneficiaryRequired := True, beneficiaryMinWords := Some 3, minAmount := Some 500, amountStep := Some ''0.01''\<rparr>),
      (''post_card'', no_rules \<lparr>beneficiaryRequired := True, beneficiaryMinWords := Some 3, requiresNationalId := True,
         nationalIdLength := Some 14, requiresGovernorate := True, requiresIdentityImage := True,
         minAmount := Some 500, amountStep := Some ''0.01''\<rparr>),
      (''bank_account'', no_rules \<lparr>destinationRequired := True, destinationInputMode := Some ''text'',
         beneficiaryRequired := True, beneficiaryMinWords := Some 2, requiresBank := True,
         requiresDataEntryAcknowledgement := True, minAmount := Some 500, amountStep := Some ''0.01''\<rparr>),
      (''sefa_niger'', no_rules \<lparr>destinationRequired := True, destinationInputMode := Some ''numeric'',
         destinationPattern := Some (Digits 8 11), destinationMinLength := Some 8, destinationMaxLength := Some 11,
         beneficiaryRequired := True, requiresSubtype := True, allowedSubtypes := Some [''nita'', ''nita_account''],
         cityRequiredForSubtypes := Some [''nita''], requiresDataEntryAcknowledgement := True,
         minAmount := Some 10, integerAmount := True, amountStep := Some ''1''\<rparr>),
      (''bankak_sudan'', no_rules \<lparr>destinationRequired := True, destinationInputMode := Some ''numeric'',
         destinationPattern := Some (Digits 14 14), destinationMinLength := Some 14, destinationMaxLength := Some 14,
         beneficiaryRequired := True, amountStep := Some ''0.01''\<rparr>)]"

text \<open>The names a plain object finds in its prototype: what they stand for is truthy and has no rules.\<close>

definition prototype_names :: "string list" where
  "prototype_names = [''constructor'', ''__defineGetter__'', ''__defineSetter__'', ''hasOwnProperty'', ''__lookupGetter__'',
     ''__lookupSetter__'', ''isPrototypeOf'', ''propertyIsEnumerable'', ''toString'', ''valueOf'', ''__proto__'', ''toLocaleString'']"

definition getTransferServiceRules :: "jsval \<Rightarrow> service_rules option" where
  "getTransferServiceRules serviceKey = (let key = toString serviceKey in case map_of TRANSFER_SERVICE_RULES key of
     Some r \<Rightarrow> Some r | None \<Rightarrow> if key \<in> set prototype_names then Some no_rules else None)"

definition countWords :: "string \<Rightarrow> nat" where
  "countWords s = length (words_of (trim s))"

section \<open>Checking a transfer\<close>

datatype refusal = Unknown_service | Bad_amount | Below_minimum int | Above_maximum int | Fractional_amount
  | Bank_method | Card_unavailable | Bad_phone | Bad_ipa | Bad_account | Bad_iban | Bad_destination
  | Name_required | Name_words nat | Subtype_required | Subtype_unknown | City_required | Not_acknowledged
  | Bad_national_id nat | Governorate_required | Identity_image_required | Bank_refused bank_error

text \<open>The first condition that holds decides.\<close>

definition first_refusal :: "(bool \<times> 'r) list \<Rightarrow> 'r option" where
  "first_refusal checks = map_option snd (find fst checks)"

definition is_integer :: "jsnum \<Rightarrow> bool" where
  "is_integer n = (case n of Fin x \<Rightarrow> x = of_int \<lfloor>x\<rfloor> | _ \<Rightarrow> False)"

definition is_word_char :: "char \<Rightarrow> bool" where
  "is_word_char c \<longleftrightarrow> is_letter c \<or> is_digit c"

definition ipa_address :: "string \<Rightarrow> bool" where
  "ipa_address s = (let name = takeWhile (\<lambda>c. c \<noteq> CHR ''@'') s; rest = dropWhile (\<lambda>c. c \<noteq> CHR ''@'') s
     in all_in (\<lambda>c. is_word_char c \<or> c \<in> set ''._-'') 3 64 name
        \<and> (rest = [] \<or> all_in (\<lambda>c. is_word_char c \<or> c \<in> set ''.-'') 2 253 (tl rest)))"

definition iban_form :: "string \<Rightarrow> bool" where
  "iban_form s \<longleftrightarrow> list_ex is_letter s \<and> list_ex is_digit s \<and> all_in is_word_char 5 34 s"

definition BANK_METHODS :: "string list" where
  "BANK_METHODS = [''mobile'', ''ipa'', ''account'', ''iban'', ''card'']"

definition amount_checks :: "service_rules \<Rightarrow> jsnum \<Rightarrow> (bool \<times> refusal) list" where
  "amount_checks rules n =
     [(\<not> isFinite n \<or> n_le n (Fin 0), Bad_amount)]
     @ (case minAmount rules of None \<Rightarrow> [] | Some m \<Rightarrow> [(n_lt n (Fin (of_int m)), Below_minimum m)])
     @ (case maxAmount rules of None \<Rightarrow> [] | Some m \<Rightarrow> [(n_lt (Fin (of_int m)) n, Above_maximum m)])
     @ [(integerAmount rules \<and> \<not> is_integer n, Fractional_amount)]"

definition bank_method_checks :: "jsval \<Rightarrow> string \<Rightarrow> (bool \<times> refusal) list" where
  "bank_method_checks method dest =
     [(method \<notin> set (map Str BANK_METHODS), Bank_method),
      (method = Str ''card'', Card_unavailable),
      (method = Str ''mobile'' \<and> \<not> all_in is_digit 11 11 dest, Bad_phone),
      (method = Str ''ipa'' \<and> \<not> ipa_address dest, Bad_ipa),
      (method = Str ''account'' \<and> \<not> all_in is_digit 5 34 dest, Bad_account),
      (method = Str ''iban'' \<and> \<not> iban_form dest, Bad_iban)]"

definition destination_checks :: "service_rules \<Rightarrow> string \<Rightarrow> (bool \<times> refusal) list" where
  "destination_checks rules dest =
     [(destinationRequired rules \<and> dest = [], Bad_destination),
      ((case destinationPattern rules of None \<Rightarrow> False | Some p \<Rightarrow> \<not> matches p dest), Bad_destination)]"

definition name_checks :: "service_rules \<Rightarrow> string \<Rightarrow> (bool \<times> refusal) list" where
  "name_checks rules nm =
     [(beneficiaryRequired rules \<and> nm = [], Name_required)]
     @ (case beneficiaryMinWords rules of None \<Rightarrow> [] | Some k \<Rightarrow> [(countWords nm < k, Name_words k)])"

definition subtype_checks :: "service_rules \<Rightarrow> string \<Rightarrow> string \<Rightarrow> (bool \<times> refusal) list" where
  "subtype_checks rules subtype city =
     [(requiresSubtype rules \<and> subtype = [], Subtype_required),
      ((case allowedSubtypes rules of None \<Rightarrow> False | Some ss \<Rightarrow> subtype \<notin> set ss), Subtype_unknown),
      ((case cityRequiredForSubtypes rules of None \<Rightarrow> False | Some ss \<Rightarrow> subtype \<in> set ss) \<and> city = [], City_required)]"

definition acknowledged :: "jsval \<Rightarrow> bool" where
  "acknowledged v \<longleftrightarrow> v = Bool True \<or> toLowerCase (clean v) \<in> {''true'', ''1'', ''on'', ''yes''}"

definition identity_checks :: "service_rules \<Rightarrow> jsval \<Rightarrow> (bool \<times> refusal) list" where
  "identity_checks rules i =
     (let k = (case nationalIdLength rules of Some k \<Rightarrow> if k = 0 then 14 else k | None \<Rightarrow> 14) in
      [(requiresNationalId rules \<and> \<not> all_in is_digit k k (clean (get i ''nationalId'')), Bad_national_id k),
       (requiresGovernorate rules \<and> clean (get i ''governorate'') = [], Governorate_required),
       (requiresIdentityImage rules \<and> \<not> truthy (get i ''hasIdentityImage''), Identity_image_required)])"

definition bank_source :: "jsval \<Rightarrow> jsval" where
  "bank_source i = Obj [(''transferType'', Str ''bank_account''), (''bank'', get i ''bank''),
     (''bankCode'', get i ''bankCode''), (''bankName'', get i ''bankName'')]"

definition bank_checks :: "jsval \<Rightarrow> (bool \<times> refusal) list" where
  "bank_checks i = (if get i ''bankMethod'' \<in> {Str ''account'', Str ''iban''}
     then case sb_error (normalizeStoredBank (bank_source i)) of None \<Rightarrow> [] | Some e \<Rightarrow> [(True, Bank_refused e)]
     else [])"

definition canonical_service :: "jsval \<Rightarrow> jsval" where
  "canonical_service serviceKey = (if serviceKey = Str ''bank_transfer'' then Str ''bank_account'' else serviceKey)"

definition validateTransferInput :: "jsval \<Rightarrow> refusal option" where
  "validateTransferInput i =
     (let canonicalKey = canonical_service (get i ''serviceKey''); isBank = (canonicalKey = Str ''bank_account'')
      in case getTransferServiceRules canonicalKey of
        None \<Rightarrow> Some Unknown_service
      | Some rules \<Rightarrow>
          let dest = (if isBank then remove_spaces (clean (get i ''destination'')) else clean (get i ''destination''))
          in first_refusal
             (amount_checks rules (toNumber (get i ''amount''))
              @ (if isBank then bank_method_checks (get i ''bankMethod'') dest else [])
              @ destination_checks rules dest
              @ name_checks rules (clean (get i ''beneficiaryName''))
              @ subtype_checks rules (clean (get i ''subtype'')) (clean (get i ''city''))
              @ [(truthy (get i ''enforceDataEntryAcknowledgement'') \<and> requiresDataEntryAcknowledgement rules
                  \<and> \<not> acknowledged (get i ''dataEntryAcknowledged''), Not_acknowledged)]
              @ identity_checks rules i
              @ (if isBank then bank_checks i else [])))"

section \<open>Completing a bank transfer\<close>

definition normalizedServiceType :: "jsval \<Rightarrow> string" where
  "normalizedServiceType v = toLowerCase (clean v)"

definition isBankTransferOperation :: "jsval \<Rightarrow> bool" where
  "isBankTransferOperation tx \<longleftrightarrow> normalizedServiceType (get tx ''transferType'') \<in> set BANK_TRANSFER_KEYS
     \<or> normalizedServiceType (get tx ''canonicalServiceKey'') \<in> set BANK_TRANSFER_KEYS"

definition pushProofPayload :: "jsval \<Rightarrow> string list \<Rightarrow> string list" where
  "pushProofPayload v images = (let image = clean v in
     if image = [] \<or> image \<in> set images then images else images @ [image])"

definition elements :: "jsval \<Rightarrow> jsval list" where
  "elements v = (case v of Arr vs \<Rightarrow> vs | _ \<Rightarrow> [])"

definition collectBankTransferProofPayloads :: "jsval \<Rightarrow> string list" where
  "collectBankTransferProofPayloads body =
     (let given = elements (get body ''imagesBase64'');
          images = (if given \<noteq> [] then fold pushProofPayload given [] else pushProofPayload (get body ''imageBase64'') [])
      in fold (\<lambda>entry. pushProofPayload (or_else (get entry ''proofImageBase64'') (get entry ''proofImage'')))
           (elements (get body ''senderEntries'')) images)"

definition bank_transfer_error :: "string \<Rightarrow> error" where
  "bank_transfer_error c = coded c 400"

definition assertBankTransferDestination :: "jsval \<Rightarrow> error + egyptian_bank option" where
  "assertBankTransferDestination source = (let r = normalizeStoredBank source in case sb_error r of
     None \<Rightarrow> Inr (sb_bank r)
   | Some BANK_REQUIRED \<Rightarrow> Inl (bank_transfer_error ''BANK_REQUIRED'')
   | Some BANK_INVALID \<Rightarrow> Inl (bank_transfer_error ''BANK_INVALID''))"

definition is_object :: "jsval \<Rightarrow> bool" where
  "is_object v = (case v of Obj _ \<Rightarrow> True | Arr _ \<Rightarrow> True | JMap _ \<Rightarrow> True | _ \<Rightarrow> False)"

definition prepareBankTransferCompletion :: "jsval \<Rightarrow> error + string list" where
  "prepareBankTransferCompletion body =
     (if 1 < length (filter is_object (elements (get body ''senderEntries'')))
      then Inl (bank_transfer_error ''BANK_TRANSFER_SPLIT_FORBIDDEN'')
      else let proofs = collectBankTransferProofPayloads body in
        if proofs = [] then Inl (bank_transfer_error ''BANK_TRANSFER_PROOF_REQUIRED'') else Inr proofs)"

section \<open>What the checks promise\<close>

lemma find_None: "find P xs = None \<longleftrightarrow> (\<forall>x\<in>set xs. \<not> P x)"
  by (auto simp: find_None_iff)

lemma first_refusal_None: "first_refusal checks = None \<longleftrightarrow> (\<forall>c\<in>set checks. \<not> fst c)"
  by (simp add: first_refusal_def find_None)

text \<open>A resolved bank is a bank of the table that has the token among its code, name and aliases.\<close>

lemma resolved_bank:
  assumes "resolveEgyptianBank v = Some b"
  shows "b \<in> set EGYPTIAN_BANKS \<and> (\<exists>t\<in>set (tokens_of b). normalizeBankToken (Str t) = normalizeBankToken v)
    \<and> normalizeBankToken v \<noteq> []"
proof -
  from assms have "(normalizeBankToken v, b) \<in> set BANK_INDEX"
    by (simp add: resolveEgyptianBank_def map_of_SomeD)
  then show ?thesis by (auto simp: BANK_INDEX_def)
qed

text \<open>Every token of every bank resolves to a bank that has the same normalised token.\<close>

lemma token_resolves:
  assumes "b \<in> set EGYPTIAN_BANKS" "t \<in> set (tokens_of b)" "normalizeBankToken (Str t) \<noteq> []"
  shows "\<exists>b'. resolveEgyptianBank (Str t) = Some b'"
proof -
  have "(normalizeBankToken (Str t), b) \<in> set BANK_INDEX"
    using assms by (auto simp: BANK_INDEX_def intro!: bexI [of _ b])
  then have "map_of BANK_INDEX (normalizeBankToken (Str t)) \<noteq> None"
    by (metis fst_conv image_eqI map_of_eq_None_iff)
  then show ?thesis by (auto simp: resolveEgyptianBank_def)
qed

lemma squeeze_graph: "list_all is_graph s \<Longrightarrow> squeeze (length s) sp s = s"
proof (induction s arbitrary: sp)
  case (Cons c s)
  have "find (\<lambda>w. has_prefix w (c # s)) js_spaces = None"
  proof -
    have "\<not> has_prefix w (c # s)" if "w \<in> set js_spaces" for w
      using spaces_not_graph Cons.prems that by (cases w) (auto simp: ball_Un)
    then show ?thesis by (simp add: find_None)
  qed
  with Cons show ?case by simp
qed simp

lemma letter_not_graph: "(a, b) \<in> set letter_forms \<Longrightarrow> a \<noteq> [] \<and> \<not> is_graph (hd a)"
proof -
  have "\<forall>e\<in>set letter_forms. fst e \<noteq> [] \<and> \<not> is_graph (hd (fst e))" by code_simp
  then show "(a, b) \<in> set letter_forms \<Longrightarrow> a \<noteq> [] \<and> \<not> is_graph (hd a)" by force
qed

lemma bank_token_graph: "list_all is_graph s \<Longrightarrow> bank_token s = toLowerCase s"
proof -
  assume g: "list_all is_graph s"
  then have "s = [] \<or> is_graph (hd s) \<and> is_graph (last s)"
    by (cases s) (auto simp: list_all_iff)
  moreover have "replace_all letter_forms (length s) s = s"
    by (rule replace_all_id) (use g letter_not_graph in \<open>auto simp: list_all_iff\<close>)
  ultimately show ?thesis using squeeze_graph [OF g]
    by (simp add: bank_token_def trim_graph Let_def)
qed

text \<open>What an accepted transfer satisfies, service by service.\<close>

definition ok_destination :: "jsval \<Rightarrow> string" where
  "ok_destination i = (if canonical_service (get i ''serviceKey'') = Str ''bank_account''
     then remove_spaces (clean (get i ''destination'')) else clean (get i ''destination''))"

lemma accepted_iff:
  "validateTransferInput i = None \<longleftrightarrow>
     (\<exists>rules. getTransferServiceRules (canonical_service (get i ''serviceKey'')) = Some rules
       \<and> (\<forall>c\<in>set (amount_checks rules (toNumber (get i ''amount''))). \<not> fst c)
       \<and> (\<forall>c\<in>set (destination_checks rules (ok_destination i)). \<not> fst c)
       \<and> (\<forall>c\<in>set (name_checks rules (clean (get i ''beneficiaryName''))). \<not> fst c)
       \<and> (\<forall>c\<in>set (subtype_checks rules (clean (get i ''subtype'')) (clean (get i ''city''))). \<not> fst c)
       \<and> (truthy (get i ''enforceDataEntryAcknowledgement'') \<and> requiresDataEntryAcknowledgement rules
            \<longrightarrow> acknowledged (get i ''dataEntryAcknowledged''))
       \<and> (\<forall>c\<in>set (identity_checks rules i). \<not> fst c)
       \<and> (canonical_service (get i ''serviceKey'') = Str ''bank_account'' \<longrightarrow>
            (\<forall>c\<in>set (bank_method_checks (get i ''bankMethod'') (ok_destination i)). \<not> fst c)
            \<and> (\<forall>c\<in>set (bank_checks i). \<not> fst c)))"
  by (auto simp: validateTransferInput_def ok_destination_def Let_def first_refusal_None ball_Un
      split: option.splits)

lemma amount_accepted:
  "(\<forall>c\<in>set (amount_checks rules n). \<not> fst c) \<longleftrightarrow>
     (\<exists>x. n = Fin x \<and> 0 < x \<and> (\<forall>m\<in>set_option (minAmount rules). of_int m \<le> x)
        \<and> (\<forall>m\<in>set_option (maxAmount rules). x \<le> of_int m) \<and> (integerAmount rules \<longrightarrow> x = of_int \<lfloor>x\<rfloor>))"
  by (cases n; cases "minAmount rules"; cases "maxAmount rules")
     (auto simp: amount_checks_def is_integer_def not_le not_less)

lemma bank_accepted:
  assumes "\<forall>c\<in>set (bank_checks i). \<not> fst c" "get i ''bankMethod'' \<in> {Str ''account'', Str ''iban''}"
  shows "\<exists>b\<in>set EGYPTIAN_BANKS. resolveEgyptianBank (Str (readBankInput (bank_source i))) = Some b"
proof -
  have c: "clean (Str ''bank_account'') = ''bank_account''"
    by (rule clean_graph) (simp_all add: is_graph_def)
  have "isBankTransferService [get (bank_source i) ''transferType'', get (bank_source i) ''serviceKey'',
      get (bank_source i) ''canonicalServiceKey'']"
    by (simp add: bank_source_def isBankTransferService_def c BANK_TRANSFER_KEYS_def toLowerCase_def lower_char_def is_upper_def)
  moreover have "sb_error (normalizeStoredBank (bank_source i)) = None"
  proof (rule ccontr)
    assume "sb_error (normalizeStoredBank (bank_source i)) \<noteq> None"
    then obtain e where "sb_error (normalizeStoredBank (bank_source i)) = Some e" by blast
    then have "bank_checks i = [(True, Bank_refused e)]" using assms(2) by (simp add: bank_checks_def)
    with assms(1) show False by simp
  qed
  ultimately obtain b where "resolveEgyptianBank (Str (readBankInput (bank_source i))) = Some b"
    by (auto simp: normalizeStoredBank_def Let_def split: option.splits)
  with resolved_bank show ?thesis by blast
qed

lemma rules_of [simp]:
  "getTransferServiceRules (Str ''vodafone'') = Some (the (map_of TRANSFER_SERVICE_RULES ''vodafone''))"
  "getTransferServiceRules (Str ''bank_account'') = Some (the (map_of TRANSFER_SERVICE_RULES ''bank_account''))"
  by (simp_all add: getTransferServiceRules_def TRANSFER_SERVICE_RULES_def Let_def)

text \<open>
  The rules as the services state them, written without the table: what a payment address, an account, an
  international number and an acknowledgement look like, and what each service asks for.
\<close>

definition address_form :: "string \<Rightarrow> bool" where
  "address_form d \<longleftrightarrow> (\<exists>user. all_in (\<lambda>c. is_letter c \<or> is_digit c \<or> c \<in> {CHR ''.'', CHR ''_'', CHR ''-''}) 3 64 user
     \<and> (d = user \<or> (\<exists>host. d = user @ ''@'' @ host
          \<and> all_in (\<lambda>c. is_letter c \<or> is_digit c \<or> c \<in> {CHR ''.'', CHR ''-''}) 2 253 host)))"

definition bank_destination :: "jsval \<Rightarrow> string \<Rightarrow> bool" where
  "bank_destination i d \<longleftrightarrow>
     get i ''bankMethod'' = Str ''mobile'' \<and> all_in is_digit 11 11 d
   \<or> get i ''bankMethod'' = Str ''ipa'' \<and> address_form d
   \<or> (get i ''bankMethod'' = Str ''account'' \<and> all_in is_digit 5 34 d
      \<or> get i ''bankMethod'' = Str ''iban'' \<and> all_in (\<lambda>c. is_letter c \<or> is_digit c) 5 34 d
          \<and> (\<exists>c\<in>set d. is_letter c) \<and> (\<exists>c\<in>set d. is_digit c))
     \<and> (\<exists>b\<in>set EGYPTIAN_BANKS. resolveEgyptianBank (Str (readBankInput (bank_source i))) = Some b)"

definition responsible :: "jsval \<Rightarrow> bool" where
  "responsible i \<longleftrightarrow> \<not> truthy (get i ''enforceDataEntryAcknowledgement'') \<or> get i ''dataEntryAcknowledged'' = Bool True
     \<or> toLowerCase (clean (get i ''dataEntryAcknowledged'')) \<in> {''true'', ''1'', ''on'', ''yes''}"

definition in_order :: "string \<Rightarrow> jsval \<Rightarrow> bool" where
  "in_order key i \<longleftrightarrow> (\<exists>x. toNumber (get i ''amount'') = Fin x \<and> 0 < x \<and>
     (let d = clean (get i ''destination''); nm = clean (get i ''beneficiaryName'') in
        key = ''vodafone'' \<and> 100 \<le> x \<and> x \<le> 50000 \<and> all_in is_digit 11 11 d \<and> take 3 d \<in> {''010'', ''011'', ''012'', ''015''}
      \<or> key = ''post_account'' \<and> 500 \<le> x \<and> all_in is_digit 15 15 d \<and> 3 \<le> countWords nm
      \<or> key = ''post_card'' \<and> 500 \<le> x \<and> 3 \<le> countWords nm \<and> all_in is_digit 14 14 (clean (get i ''nationalId''))
          \<and> clean (get i ''governorate'') \<noteq> [] \<and> truthy (get i ''hasIdentityImage'')
      \<or> (key = ''bank_account'' \<or> key = ''bank_transfer'') \<and> 500 \<le> x \<and> bank_destination i (remove_spaces d)
          \<and> 2 \<le> countWords nm \<and> responsible i
      \<or> key = ''sefa_niger'' \<and> 10 \<le> x \<and> x = of_int \<lfloor>x\<rfloor> \<and> all_in is_digit 8 11 d \<and> nm \<noteq> []
          \<and> (clean (get i ''subtype'') = ''nita'' \<and> clean (get i ''city'') \<noteq> [] \<or> clean (get i ''subtype'') = ''nita_account'')
          \<and> responsible i
      \<or> key = ''bankak_sudan'' \<and> all_in is_digit 14 14 d \<and> nm \<noteq> []))"

lemma split_at_sign:
  assumes "all_in P lo hi user" "\<not> P (CHR ''@'')" "rest = [] \<or> hd rest = CHR ''@''"
  shows "takeWhile (\<lambda>c. c \<noteq> CHR ''@'') (user @ rest) = user" "dropWhile (\<lambda>c. c \<noteq> CHR ''@'') (user @ rest) = rest"
proof -
  have "\<forall>c\<in>set user. c \<noteq> CHR ''@''" using assms(1,2) by (auto simp: all_in_def list_all_iff)
  then show "takeWhile (\<lambda>c. c \<noteq> CHR ''@'') (user @ rest) = user" "dropWhile (\<lambda>c. c \<noteq> CHR ''@'') (user @ rest) = rest"
    using assms(3) by (cases rest; simp add: takeWhile_append dropWhile_append)+
qed

lemma address_form_iff: "ipa_address d \<longleftrightarrow> address_form d"
proof -
  let ?at = "\<lambda>c. c \<noteq> CHR ''@''"
  let ?u = "\<lambda>c. is_letter c \<or> is_digit c \<or> c \<in> {CHR ''.'', CHR ''_'', CHR ''-''}"
  let ?h = "\<lambda>c. is_letter c \<or> is_digit c \<or> c \<in> {CHR ''.'', CHR ''-''}"
  define user rest where "user = takeWhile ?at d" and "rest = dropWhile ?at d"
  have whole: "d = user @ rest" by (simp add: user_def rest_def)
  have no_at: "\<not> ?u (CHR ''@'')" by code_simp
  have chars: "(\<lambda>c. is_word_char c \<or> c \<in> set ''._-'') = ?u" "(\<lambda>c. is_word_char c \<or> c \<in> set ''.-'') = ?h"
    by (auto simp: is_word_char_def fun_eq_iff)
  have form: "ipa_address d \<longleftrightarrow> all_in ?u 3 64 user \<and> (rest = [] \<or> all_in ?h 2 253 (tl rest))"
    unfolding ipa_address_def Let_def chars user_def rest_def ..
  show ?thesis
  proof
    assume ipa: "ipa_address d"
    show "address_form d"
    proof (cases rest)
      case Nil
      then show ?thesis using ipa whole unfolding form address_form_def by (intro exI [of _ user]) simp
    next
      case (Cons c host)
      then have "c = CHR ''@''" using hd_dropWhile [of ?at d] by (simp add: rest_def)
      then show ?thesis using ipa whole Cons unfolding form address_form_def
        by (intro exI [of _ user] conjI disjI2 exI [of _ host]) simp_all
    qed
  next
    assume "address_form d"
    then obtain u where u: "all_in ?u 3 64 u" and d: "d = u \<or> (\<exists>host. d = u @ ''@'' @ host \<and> all_in ?h 2 253 host)"
      unfolding address_form_def by blast
    from d show "ipa_address d"
    proof
      assume "d = u"
      then have "user = u" "rest = []" using split_at_sign [OF u no_at, of "[]"] by (simp_all add: user_def rest_def)
      then show ?thesis using u unfolding form by simp
    next
      assume "\<exists>host. d = u @ ''@'' @ host \<and> all_in ?h 2 253 host"
      then obtain host where h: "d = u @ ''@'' @ host" "all_in ?h 2 253 host" by blast
      have "user = u" "rest = ''@'' @ host"
        using split_at_sign [OF u no_at, of "''@'' @ host"] by (simp_all add: user_def rest_def h(1))
      then show ?thesis using u h(2) unfolding form by simp
    qed
  qed
qed

lemma bank_checked:
  assumes "get i ''bankMethod'' \<in> {Str ''account'', Str ''iban''}"
  shows "(\<forall>c\<in>set (bank_checks i). \<not> fst c)
    \<longleftrightarrow> (\<exists>b\<in>set EGYPTIAN_BANKS. resolveEgyptianBank (Str (readBankInput (bank_source i))) = Some b)"
proof
  assume "\<exists>b\<in>set EGYPTIAN_BANKS. resolveEgyptianBank (Str (readBankInput (bank_source i))) = Some b"
  then obtain b where "resolveEgyptianBank (Str (readBankInput (bank_source i))) = Some b" by (elim bexE)
  then have e: "sb_error (normalizeStoredBank (bank_source i)) = None" by (simp add: normalizeStoredBank_def)
  show "\<forall>c\<in>set (bank_checks i). \<not> fst c" unfolding bank_checks_def e option.case if_cancel by simp
next
  assume ok: "\<forall>c\<in>set (bank_checks i). \<not> fst c"
  show "\<exists>b\<in>set EGYPTIAN_BANKS. resolveEgyptianBank (Str (readBankInput (bank_source i))) = Some b"
    by (rule bank_accepted [OF ok assms])
qed

lemma iban_form_iff: "iban_form d \<longleftrightarrow> all_in (\<lambda>c. is_letter c \<or> is_digit c) 5 34 d
      \<and> (\<exists>c\<in>set d. is_letter c) \<and> (\<exists>c\<in>set d. is_digit c)"
    by (auto simp: iban_form_def is_word_char_def [abs_def] list_ex_iff)

lemma methods_accepted: "(\<forall>c\<in>set (bank_method_checks m d). \<not> fst c) \<longleftrightarrow>
      m = Str ''mobile'' \<and> all_in is_digit 11 11 d \<or> m = Str ''ipa'' \<and> ipa_address d
      \<or> m = Str ''account'' \<and> all_in is_digit 5 34 d \<or> m = Str ''iban'' \<and> iban_form d"
    proof (cases "m \<in> set (map Str BANK_METHODS)")
      case True
      then have "m = Str ''mobile'' \<or> m = Str ''ipa'' \<or> m = Str ''account'' \<or> m = Str ''iban'' \<or> m = Str ''card''"
        by (simp add: BANK_METHODS_def)
      then show ?thesis using True by (elim disjE) (simp_all add: bank_method_checks_def)
    next
      case False
    then have "m \<noteq> Str ''mobile''" "m \<noteq> Str ''ipa''" "m \<noteq> Str ''account''" "m \<noteq> Str ''iban''" 
     by (simp_all add: BANK_METHODS_def)
      then show ?thesis using False by (simp add: bank_method_checks_def)
    qed

lemma bank_method_accepted:
  "(\<forall>c\<in>set (bank_method_checks (get i ''bankMethod'') d). \<not> fst c) \<and> (\<forall>c\<in>set (bank_checks i). \<not> fst c)
   \<longleftrightarrow> bank_destination i d"
proof -
  define m where "m = get i ''bankMethod''"
  show ?thesis
  proof (cases "m \<in> {Str ''account'', Str ''iban''}")
    case True
    show ?thesis
      unfolding bank_checked [OF True [unfolded m_def]] bank_destination_def m_def [symmetric] methods_accepted
        address_form_iff iban_form_iff
      using True by (elim insertE emptyE) simp_all
  next
    case False
    then have "bank_checks i = []" by (simp add: bank_checks_def m_def)
    then show ?thesis unfolding bank_destination_def m_def [symmetric] methods_accepted address_form_iff
      using False by (simp add: conj_disj_distribR)
  qed
qed

lemma bank_destination_given: "bank_destination i d \<Longrightarrow> d \<noteq> []"
  by (auto simp: bank_destination_def address_form_def all_in_def)

lemma responsible_iff:
  "responsible i \<longleftrightarrow> (truthy (get i ''enforceDataEntryAcknowledgement'') \<longrightarrow> acknowledged (get i ''dataEntryAcknowledged''))"
  by (auto simp: responsible_def acknowledged_def)

lemma words_nonempty: "k \<le> countWords s \<Longrightarrow> 0 < k \<Longrightarrow> s \<noteq> []"
  by (auto simp: countWords_def trim_graph words_of_def)


lemma accepted_by:
  assumes "get i ''serviceKey'' = Str key" "key \<noteq> ''bank_account''" "key \<noteq> ''bank_transfer''"
    "map_of TRANSFER_SERVICE_RULES key = Some rules"
  shows "validateTransferInput i = None \<longleftrightarrow>
     (\<exists>x. toNumber (get i ''amount'') = Fin x \<and> 0 < x \<and> (\<forall>m\<in>set_option (minAmount rules). of_int m \<le> x)
        \<and> (\<forall>m\<in>set_option (maxAmount rules). x \<le> of_int m) \<and> (integerAmount rules \<longrightarrow> x = of_int \<lfloor>x\<rfloor>))
     \<and> (\<forall>c\<in>set (destination_checks rules (clean (get i ''destination''))). \<not> fst c)
     \<and> (\<forall>c\<in>set (name_checks rules (clean (get i ''beneficiaryName''))). \<not> fst c)
     \<and> (\<forall>c\<in>set (subtype_checks rules (clean (get i ''subtype'')) (clean (get i ''city''))). \<not> fst c)
     \<and> (requiresDataEntryAcknowledgement rules \<longrightarrow> responsible i)
     \<and> (\<forall>c\<in>set (identity_checks rules i). \<not> fst c)"
proof -
  have c: "canonical_service (get i ''serviceKey'') = Str key" "Str key \<noteq> Str ''bank_account''"
    using assms(1-3) by (simp_all add: canonical_service_def)
  have r: "getTransferServiceRules (Str key) = Some rules"
    using assms(4) by (simp add: getTransferServiceRules_def)
  show ?thesis
    unfolding accepted_iff c(1) r option.inject ok_destination_def amount_accepted responsible_iff
    using c(2) by (simp only: simp_thms if_False) blast
qed

lemma bank_by:
  assumes "get i ''serviceKey'' = Str key" "key = ''bank_account'' \<or> key = ''bank_transfer''"
  shows "validateTransferInput i = None \<longleftrightarrow>
     (\<exists>x. toNumber (get i ''amount'') = Fin x \<and> 0 < x \<and> 500 \<le> x)
     \<and> 2 \<le> countWords (clean (get i ''beneficiaryName'')) \<and> responsible i
     \<and> bank_destination i (remove_spaces (clean (get i ''destination'')))"
proof -
  have c: "canonical_service (get i ''serviceKey'') = Str ''bank_account''"
    using assms by (auto simp: canonical_service_def)
  let ?d = "remove_spaces (clean (get i ''destination''))"
  define r where "r = the (map_of TRANSFER_SERVICE_RULES ''bank_account'')"
  have rules: "minAmount r = Some 500" "maxAmount r = None" "\<not> integerAmount r" "destinationRequired r"
      "destinationPattern r = None" "beneficiaryRequired r" "beneficiaryMinWords r = Some 2"
      "\<not> requiresSubtype r" "allowedSubtypes r = None" "cityRequiredForSubtypes r = None"
      "requiresDataEntryAcknowledgement r" "\<not> requiresNationalId r" "\<not> requiresGovernorate r" "\<not> requiresIdentityImage r"
    by (simp_all add: r_def TRANSFER_SERVICE_RULES_def no_rules_def)
  have name: "(\<forall>c\<in>set (name_checks r nm). \<not> fst c) \<longleftrightarrow> 2 \<le> countWords nm" for nm
    using words_nonempty [of 2 nm] by (auto simp: name_checks_def rules)
  have dest: "bank_destination i ?d \<Longrightarrow> \<forall>c\<in>set (destination_checks r ?d). \<not> fst c"
    using bank_destination_given [of i ?d] by (simp add: destination_checks_def rules)
  have rest: "\<forall>c\<in>set (subtype_checks r a b). \<not> fst c" "\<forall>c\<in>set (identity_checks r i). \<not> fst c" for a b
    by (simp_all add: subtype_checks_def identity_checks_def rules Let_def)
  have amount: "(\<forall>c\<in>set (amount_checks r n). \<not> fst c) \<longleftrightarrow> (\<exists>x. n = Fin x \<and> 0 < x \<and> 500 \<le> x)" for n
    unfolding amount_accepted by (simp add: rules)
  have ok: "ok_destination i = ?d" by (simp add: ok_destination_def c)
  show ?thesis
    unfolding accepted_iff c rules_of(2) option.inject r_def [symmetric] ok bank_method_accepted responsible_iff
      simp_thms amount name
    using dest rest rules(11) by blast
qed

lemma no_bank_account: "''bank_account'' \<notin> set prototype_names"
  by (simp add: prototype_names_def)

lemma all_in_given: "all_in P lo hi s \<Longrightarrow> 0 < lo \<Longrightarrow> s \<noteq> []"
  by (auto simp: all_in_def)

lemma map_of_rules:
  "key \<in> {''vodafone'', ''post_account'', ''post_card'', ''sefa_niger'', ''bankak_sudan''} \<Longrightarrow>
     map_of TRANSFER_SERVICE_RULES key = Some (the (map_of TRANSFER_SERVICE_RULES key))"
  by (auto simp: TRANSFER_SERVICE_RULES_def)

lemmas by_rule_of = accepted_by [OF _ _ _ map_of_rules]
lemmas rule_checks = TRANSFER_SERVICE_RULES_def no_rules_def destination_checks_def name_checks_def subtype_checks_def
  identity_checks_def matches_def

lemma wallet_by:
  assumes "get i ''serviceKey'' = Str ''vodafone''"
  shows "validateTransferInput i = None \<longleftrightarrow> in_order ''vodafone'' i"
proof -
  have m: "''vodafone'' \<in> {''vodafone'', ''post_account'', ''post_card'', ''sefa_niger'', ''bankak_sudan''}"
    "''vodafone'' \<noteq> ''bank_account''" "''vodafone'' \<noteq> ''bank_transfer''" by simp_all
  show ?thesis unfolding by_rule_of [OF assms m(2,3,1)] in_order_def Let_def
    by (auto simp: rule_checks dest: all_in_given words_nonempty)
qed

lemma post_account_by:
  assumes "get i ''serviceKey'' = Str ''post_account''"
  shows "validateTransferInput i = None \<longleftrightarrow> in_order ''post_account'' i"
proof -
  have m: "''post_account'' \<in> {''vodafone'', ''post_account'', ''post_card'', ''sefa_niger'', ''bankak_sudan''}"
    "''post_account'' \<noteq> ''bank_account''" "''post_account'' \<noteq> ''bank_transfer''" by simp_all
  show ?thesis unfolding by_rule_of [OF assms m(2,3,1)] in_order_def Let_def
    by (auto simp: rule_checks dest: all_in_given words_nonempty)
qed

lemma post_card_by:
  assumes "get i ''serviceKey'' = Str ''post_card''"
  shows "validateTransferInput i = None \<longleftrightarrow> in_order ''post_card'' i"
proof -
  have m: "''post_card'' \<in> {''vodafone'', ''post_account'', ''post_card'', ''sefa_niger'', ''bankak_sudan''}"
    "''post_card'' \<noteq> ''bank_account''" "''post_card'' \<noteq> ''bank_transfer''" by simp_all
  show ?thesis unfolding by_rule_of [OF assms m(2,3,1)] in_order_def Let_def
    by (auto simp: rule_checks dest: all_in_given words_nonempty)
qed

lemma niger_by:
  assumes "get i ''serviceKey'' = Str ''sefa_niger''"
  shows "validateTransferInput i = None \<longleftrightarrow> in_order ''sefa_niger'' i"
proof -
  have m: "''sefa_niger'' \<in> {''vodafone'', ''post_account'', ''post_card'', ''sefa_niger'', ''bankak_sudan''}"
    "''sefa_niger'' \<noteq> ''bank_account''" "''sefa_niger'' \<noteq> ''bank_transfer''" by simp_all
  show ?thesis unfolding by_rule_of [OF assms m(2,3,1)] in_order_def Let_def
    by (auto simp: rule_checks dest: all_in_given words_nonempty)
qed

lemma sudan_by:
  assumes "get i ''serviceKey'' = Str ''bankak_sudan''"
  shows "validateTransferInput i = None \<longleftrightarrow> in_order ''bankak_sudan'' i"
proof -
  have m: "''bankak_sudan'' \<in> {''vodafone'', ''post_account'', ''post_card'', ''sefa_niger'', ''bankak_sudan''}"
    "''bankak_sudan'' \<noteq> ''bank_account''" "''bankak_sudan'' \<noteq> ''bank_transfer''" by simp_all
  show ?thesis unfolding by_rule_of [OF assms m(2,3,1)] in_order_def Let_def
    by (auto simp: rule_checks dest: all_in_given words_nonempty)
qed

lemma rule_keys:
  "map_of TRANSFER_SERVICE_RULES key \<noteq> None \<longleftrightarrow>
     key \<in> {''vodafone'', ''post_account'', ''post_card'', ''bank_account'', ''sefa_niger'', ''bankak_sudan''}"
  unfolding map_of_eq_None_iff by (simp add: TRANSFER_SERVICE_RULES_def)

lemma banks_by:
  assumes "get i ''serviceKey'' = Str key" "key = ''bank_account'' \<or> key = ''bank_transfer''"
  shows "validateTransferInput i = None \<longleftrightarrow> in_order key i"
proof -
  have "in_order key i \<longleftrightarrow> (\<exists>x. toNumber (get i ''amount'') = Fin x \<and> 0 < x \<and> 500 \<le> x
      \<and> bank_destination i (remove_spaces (clean (get i ''destination'')))
      \<and> 2 \<le> countWords (clean (get i ''beneficiaryName'')) \<and> responsible i)"
    using assms(2) by (elim disjE) (simp_all add: in_order_def Let_def)
  then show ?thesis unfolding bank_by [OF assms] by blast
qed

lemma unknown_by:
  assumes "get i ''serviceKey'' = Str key" "key \<notin> set prototype_names" "key \<noteq> ''bank_transfer''"
    "key \<notin> {''vodafone'', ''post_account'', ''post_card'', ''bank_account'', ''sefa_niger'', ''bankak_sudan''}"
  shows "validateTransferInput i \<noteq> None \<and> \<not> in_order key i"
proof -
  have "map_of TRANSFER_SERVICE_RULES key = None" using rule_keys [of key] assms(4) by (simp only: simp_thms)
  then have "getTransferServiceRules (canonical_service (get i ''serviceKey'')) = None"
    using assms(1-3) by (simp add: canonical_service_def getTransferServiceRules_def)
  moreover have "\<not> in_order key i" using assms(3,4) by (simp add: in_order_def)
  ultimately show ?thesis by (simp only: accepted_iff option.distinct simp_thms)
qed

lemma services_by:
  "get i ''serviceKey'' = Str key \<Longrightarrow>
     key \<in> {''vodafone'', ''post_account'', ''post_card'', ''sefa_niger'', ''bankak_sudan''} \<Longrightarrow>
     validateTransferInput i = None \<longleftrightarrow> in_order key i"
  by (elim insertE emptyE) (simp_all only: wallet_by post_account_by post_card_by niger_by sudan_by)

text \<open>
  C40: the check is exact.  For a service name that is not a member every object inherits, a transfer passes
  exactly when its amount is a positive finite number and it is in order for its service.  A wallet takes 100 to
  50000 and eleven digits starting with 010, 011, 012 or 015.  A post account takes 500 and more, fifteen digits
  and three words of a name; a post card three words, a national number of fourteen digits, a governorate and a
  picture.  A bank takes 500 and more, two words of a name, and eleven digits for a mobile number, a payment
  address, or five to 34 digits of an account or letters and digits of an IBAN with a bank of the table; to Niger
  the amount is a whole number from 10, the account has eight to eleven digits, there is a name, and the subtype
  is an account or NITA with its city; to Sudan the account has fourteen digits and there is a name.  Where the
  form asks for it, a bank transfer and one to Niger are acknowledged.  Any other service is refused.
\<close>

theorem accepted_transfer:
  assumes "get i ''serviceKey'' = Str key" "key \<notin> set prototype_names"
  shows "validateTransferInput i = None \<longleftrightarrow> in_order key i"
proof (cases "key = ''bank_account'' \<or> key = ''bank_transfer''")
  case True
  then show ?thesis by (rule banks_by [OF assms(1)])
next
  case False
  show ?thesis
  proof (cases "key \<in> {''vodafone'', ''post_account'', ''post_card'', ''sefa_niger'', ''bankak_sudan''}")
    case True
    then show ?thesis by (rule services_by [OF assms(1)])
  next
    case other: False
    then have "validateTransferInput i \<noteq> None \<and> \<not> in_order key i"
      using False by (intro unknown_by [OF assms]) (simp_all only: insert_iff empty_iff de_Morgan_disj simp_thms)
    then show ?thesis by (simp only: simp_thms)
  qed
qed

definition wallet_transfer :: jsval where
  "wallet_transfer = Obj [(''serviceKey'', Str ''vodafone''), (''amount'', Num (Fin 100)), (''destination'', Str ''01012345678'')]"

lemma accepted_transfer_witness: "validateTransferInput wallet_transfer = None"
proof -
  have "clean (Str ''01012345678'') = ''01012345678''" by (rule clean_graph) (simp_all add: is_graph_def)
  moreover have "all_in is_digit 11 11 ''01012345678''" by code_simp
  ultimately have "in_order ''vodafone'' wallet_transfer" by (simp add: in_order_def wallet_transfer_def Let_def)
  then show ?thesis using accepted_transfer [of wallet_transfer "''vodafone''"]
    by (simp add: wallet_transfer_def prototype_names_def)
qed

text \<open>
  A name that every object inherits is a service without rules, and a transfer for it is accepted.
\<close>

theorem prototype_service_accepted:
  assumes "key \<in> set prototype_names" "get i ''serviceKey'' = Str key" "toNumber (get i ''amount'') = Fin x" "0 < x"
  shows "validateTransferInput i = None"
proof -
  have "key \<noteq> ''bank_account'' \<and> key \<noteq> ''bank_transfer'' \<and> map_of TRANSFER_SERVICE_RULES key = None"
    using assms(1) by (auto simp: prototype_names_def TRANSFER_SERVICE_RULES_def)
  then show ?thesis
    using assms amount_accepted [of no_rules "Fin x"]
    by (auto simp: accepted_iff canonical_service_def getTransferServiceRules_def destination_checks_def name_checks_def
         subtype_checks_def identity_checks_def no_rules_def Let_def)
qed

lemma prototype_service_accepted_witness:
  "validateTransferInput (Obj [(''serviceKey'', Str ''constructor''), (''amount'', Num (Fin 1))]) = None"
  by (rule prototype_service_accepted [where key = "''constructor''" and x = 1]) (simp_all add: prototype_names_def)

section \<open>What a completion promises\<close>

lemma push_proof: "distinct images \<Longrightarrow> [] \<notin> set images \<Longrightarrow>
    distinct (pushProofPayload v images) \<and> [] \<notin> set (pushProofPayload v images)"
  by (auto simp: pushProofPayload_def Let_def)

lemma fold_push_proof: "distinct images \<Longrightarrow> [] \<notin> set images \<Longrightarrow>
    distinct (fold (\<lambda>e. pushProofPayload (f e)) es images) \<and> [] \<notin> set (fold (\<lambda>e. pushProofPayload (f e)) es images)"
  by (induction es arbitrary: images) (use push_proof in auto)

text \<open>A completion carries at least one proof, none twice or blank, and at most one sender.\<close>

lemma completion_has_proof:
  assumes "prepareBankTransferCompletion body = Inr proofs"
  shows "proofs \<noteq> [] \<and> distinct proofs \<and> [] \<notin> set proofs
    \<and> length (filter is_object (elements (get body ''senderEntries''))) \<le> 1"
proof -
  have "distinct (collectBankTransferProofPayloads body) \<and> [] \<notin> set (collectBankTransferProofPayloads body)"
    using fold_push_proof [of "[]" "\<lambda>v. v" "elements (get body ''imagesBase64'')"] push_proof [of "[]" "get body ''imageBase64''"]
    by (auto simp: collectBankTransferProofPayloads_def Let_def intro!: fold_push_proof)
  then show ?thesis using assms
    by (auto simp: prepareBankTransferCompletion_def Let_def split: if_splits)
qed

lemma destination_bank_known:
  assumes "assertBankTransferDestination source = Inr (Some b)"
  shows "b \<in> set EGYPTIAN_BANKS"
proof -
  have "resolveEgyptianBank (Str (readBankInput source)) = Some b"
    using assms by (auto simp: assertBankTransferDestination_def normalizeStoredBank_def Let_def split: if_splits option.splits bank_error.splits)
  then show ?thesis using resolved_bank by blast
qed

end
