(* ===== verification/Executor_Pool.thy ===== *)
theory Executor_Pool
  imports Executor_Ledger Mongo_Session Js_Text
begin

text \<open>
  The balance pools of an executor company (\<open>src/services/executorBalancePoolService.js\<close> and its guard
  \<open>src/utils/executorLedgerGuard.js\<close>): the documents that the service reads and writes, the units of work that run
  under the lock of a company's ledger, the requests that a manager sends and the funding of an external executor.
  The four collections are parameters with the laws of \<open>coll_ok\<close>; so are the transaction runner of the driver, its
  test for transactions that never started and the hash of the funding number.  Messages for the reader are left out:
  an error is its code and its status.  A \<open>Map\<close> from identifiers to pools is an association list, latest entry first.
\<close>

section \<open>Documents\<close>

record pool =
  bp_id :: string
  bp_name :: string
  bp_groupId :: string
  bp_balance :: jsnum
  bp_archived :: bool
  bp_archivedBy :: string
  bp_tenantId :: jsval

record executor =
  ex_id :: string
  ex_name :: string
  ex_phone :: string
  ex_webUsername :: string
  ex_status :: string
  ex_role :: string
  ex_groupId :: string
  ex_balance :: jsnum
  ex_balancePoolId :: "string option"
  ex_archived :: bool
  ex_tenantId :: jsval

record movement =
  mv_customId :: string
  mv_executorGroupId :: string
  mv_operatorId :: string
  mv_executorName :: string
  mv_amount :: jsnum
  mv_status :: string
  mv_notes :: string

type_synonym grp = "(string \<times> jsval) list"

text \<open>
  The collections of the service.  Movements are stored by their \<open>customId\<close>, which has a unique index.
\<close>

record 's pool_world =
  pw_groups :: "('s, grp) coll"
  pw_pools :: "('s, pool) coll"
  pw_executors :: "('s, executor) coll"
  pw_movements :: "('s, movement) coll"

definition fail :: "string \<Rightarrow> nat \<Rightarrow> ('s, 'a) run" where
  "fail c status = throw (coded c status)"

definition or_fail :: "string \<Rightarrow> nat \<Rightarrow> 'a option \<Rightarrow> ('s, 'a) run" where
  "or_fail c status x = (case x of None \<Rightarrow> fail c status | Some a \<Rightarrow> ret a)"

definition require :: "bool \<Rightarrow> string \<Rightarrow> nat \<Rightarrow> ('s, unit) run" where
  "require b c status = throw_if (\<not> b) (coded c status)"

definition objectIdString :: "jsval \<Rightarrow> string" where
  "objectIdString v = toString (or_else (or_else (get v ''_id'') v) (Str []))"

definition cleanPoolName :: "jsval \<Rightarrow> string" where
  "cleanPoolName v = collapse_spaces (toString (or_else v (Str [])))"

definition active_pool :: "string \<Rightarrow> pool \<Rightarrow> bool" where
  "active_pool gid p \<longleftrightarrow> bp_groupId p = gid \<and> \<not> bp_archived p"

definition active_executor :: "string \<Rightarrow> executor \<Rightarrow> bool" where
  "active_executor gid e \<longleftrightarrow> ex_groupId e = gid \<and> \<not> ex_archived e"

definition is_external :: "string \<Rightarrow> executor \<Rightarrow> bool" where
  "is_external gid e \<longleftrightarrow> active_executor gid e \<and> ex_role e = ''external''"

definition parseAmount :: "jsval \<Rightarrow> ('s, jsnum) run" where
  "parseAmount amount = (let parsed = toNumber amount in
     if \<not> isFinite parsed \<or> n_le parsed (Fin 0) then fail ''INVALID_AMOUNT'' 400
     else ret (n_div (n_round (n_mul parsed (Fin 100))) (Fin 100)))"

definition uniqueIds :: "jsval \<Rightarrow> string list" where
  "uniqueIds values = rev (remdups (rev (filter (\<lambda>s. s \<noteq> [])
     (map objectIdString (case values of Undef \<Rightarrow> [] | Arr vs \<Rightarrow> vs | v \<Rightarrow> [v])))))"

definition managerGroupId :: "executor option \<Rightarrow> ('s, string) run" where
  "managerGroupId manager = (case manager of
     Some m \<Rightarrow> if ex_role m = ''manager'' \<and> ex_groupId m \<noteq> [] then ret (ex_groupId m) else fail ''FORBIDDEN'' 403
   | None \<Rightarrow> fail ''FORBIDDEN'' 403)"

section \<open>Locking the ledger\<close>

definition bump_version :: "grp \<Rightarrow> grp" where
  "bump_version g = obj_set ''__v'' (Num (n_add (num_or_0 (get (Obj g) ''__v'')) (Fin 1))) g"

definition lockExecutorLedger :: "'s pool_world \<Rightarrow> string \<Rightarrow> bool \<Rightarrow> ('s, grp option) run" where
  "lockExecutorLedger w gid session =
     (if session then c_update (pw_groups w) gid (\<lambda>_. True) bump_version else c_get (pw_groups w) gid)"

text \<open>What a unit of work returns: a pool with its members, nothing, or a movement.\<close>

datatype outcome = Served pool "executor list" | Done | Moved movement

type_synonym 's txn = "('s, outcome) run \<Rightarrow> ('s, outcome) run"

definition withLedgerTransaction ::
    "'s txn \<Rightarrow> (error \<Rightarrow> bool) \<Rightarrow> bool \<Rightarrow> 's pool_world \<Rightarrow> string \<Rightarrow> (bool \<Rightarrow> grp \<Rightarrow> ('s, outcome) run) \<Rightarrow> ('s, outcome) run" where
  "withLedgerTransaction txn notStarted requires w gid work =
     withOptionalMongoTransaction txn notStarted requires
       (\<lambda>session. bind (bind (lockExecutorLedger w gid session) (or_fail ''GROUP_NOT_FOUND'' 404)) (work session))"

section \<open>Reading balances\<close>

definition pool_doc :: "pool \<Rightarrow> jsval" where
  "pool_doc p = Obj [(''_id'', Str (bp_id p)), (''balance'', Num (bp_balance p))]"

definition executor_doc :: "executor \<Rightarrow> jsval" where
  "executor_doc e = Obj [(''role'', Str (ex_role e)), (''balance'', Num (ex_balance e)),
     (''balancePoolId'', case ex_balancePoolId e of None \<Rightarrow> Null | Some i \<Rightarrow> Str i)]"

record company_balances =
  cb_groupId :: string
  cb_name :: string
  cb_ledgers :: ledger_snapshot

definition snapshotFromParts :: "grp \<Rightarrow> pool list \<Rightarrow> executor list \<Rightarrow> company_balances" where
  "snapshotFromParts g pools employees =
     \<lparr>cb_groupId = objectIdString (get (Obj g) ''_id''), cb_name = toString (or_else (get (Obj g) ''name'') (Str [])),
      cb_ledgers = snapshotServiceLedgers (Obj g) (allocatedFromRows (map pool_doc pools) (map executor_doc employees))\<rparr>"

definition loadActiveExternalLedger :: "'s pool_world \<Rightarrow> string \<Rightarrow> ('s, pool list \<times> executor list) run" where
  "loadActiveExternalLedger w gid =
     bind (c_findMany (pw_pools w) (active_pool gid)) (\<lambda>pools.
     bind (c_findMany (pw_executors w) (is_external gid)) (\<lambda>employees. ret (pools, employees)))"

definition add_allocated :: "(string \<times> jsnum) list \<Rightarrow> string \<times> jsnum \<Rightarrow> (string \<times> jsnum) list" where
  "add_allocated m kv = num_set (fst kv) (n_add (map_num m (fst kv)) (snd kv)) m"

definition loadAllocatedByGroupIds :: "'s pool_world \<Rightarrow> string list \<Rightarrow> ('s, (string \<times> jsnum) list) run" where
  "loadAllocatedByGroupIds w ids = (let allocated = map (\<lambda>i. (i, Fin 0)) ids in
     if ids = [] then ret allocated
     else bind (c_findMany (pw_pools w) (\<lambda>p. bp_groupId p \<in> set ids \<and> \<not> bp_archived p)) (\<lambda>pools.
          bind (c_findMany (pw_executors w) (\<lambda>e. ex_groupId e \<in> set ids \<and> ex_role e = ''external'' \<and> \<not> ex_archived e
                  \<and> ex_balancePoolId e = None)) (\<lambda>employees.
          ret (foldl add_allocated allocated
            (map (\<lambda>p. (bp_groupId p, or_zero (bp_balance p))) pools @ map (\<lambda>e. (ex_groupId e, or_zero (ex_balance e))) employees)))))"

definition snapshotCompanyBalances :: "'s pool_world \<Rightarrow> string \<Rightarrow> ('s, company_balances) run" where
  "snapshotCompanyBalances w gid =
     bind (bind (c_get (pw_groups w) gid) (or_fail ''GROUP_NOT_FOUND'' 404)) (\<lambda>g.
     bind (loadActiveExternalLedger w gid) (\<lambda>(pools, employees). ret (snapshotFromParts g pools employees)))"

text \<open>How an external executor works: alone, or from a pool with its identifier, name and balance.\<close>

datatype working = No_balance | Solo_balance jsnum | Pool_balance jsnum string string

record decorated =
  de_employee :: executor
  de_soloBalance :: jsnum
  de_working :: working

definition decorateExternalEmployee :: "executor \<Rightarrow> (string \<times> pool) list \<Rightarrow> decorated" where
  "decorateExternalEmployee e poolsById =
     \<lparr>de_employee = e, de_soloBalance = or_zero (ex_balance e),
      de_working = (case Option.bind (ex_balancePoolId e) (map_of poolsById) of
          Some p \<Rightarrow> Pool_balance (or_zero (bp_balance p)) (bp_id p) (bp_name p)
        | None \<Rightarrow> Solo_balance (or_zero (ex_balance e)))\<rparr>"

record pool_view =
  pv_id :: string
  pv_name :: string
  pv_balance :: jsnum
  pv_members :: "executor list"

definition serializePool :: "pool \<Rightarrow> executor list \<Rightarrow> pool_view" where
  "serializePool p members = \<lparr>pv_id = bp_id p, pv_name = bp_name p, pv_balance = or_zero (bp_balance p), pv_members = members\<rparr>"

record workspace =
  ws_balances :: company_balances
  ws_pools :: "pool_view list"
  ws_solos :: "decorated list"
  ws_employees :: "decorated list"

definition workspace_of :: "grp \<Rightarrow> pool list \<Rightarrow> executor list \<Rightarrow> workspace" where
  "workspace_of g pools employees =
     (let poolsById = rev (map (\<lambda>p. (bp_id p, p)) pools);
          in_pool = (\<lambda>e. case ex_balancePoolId e of None \<Rightarrow> False | Some i \<Rightarrow> i \<noteq> [] \<and> i \<in> bp_id ` set pools)
      in \<lparr>ws_balances = snapshotFromParts g pools employees,
          ws_pools = map (\<lambda>p. serializePool p (filter (\<lambda>e. in_pool e \<and> ex_balancePoolId e = Some (bp_id p)) employees)) pools,
          ws_solos = map (\<lambda>e. decorateExternalEmployee e poolsById) (filter (\<lambda>e. \<not> in_pool e) employees),
          ws_employees = map (\<lambda>e. decorateExternalEmployee e poolsById) employees\<rparr>)"

definition listExternalBalanceWorkspace :: "'s pool_world \<Rightarrow> executor option \<Rightarrow> ('s, workspace) run" where
  "listExternalBalanceWorkspace w manager =
     bind (managerGroupId manager) (\<lambda>gid.
     bind (bind (c_get (pw_groups w) gid) (or_fail ''GROUP_NOT_FOUND'' 404)) (\<lambda>g.
     bind (loadActiveExternalLedger w gid) (\<lambda>(pools, employees). ret (workspace_of g pools employees))))"

definition workingBalanceForEmployee :: "'s pool_world \<Rightarrow> executor option \<Rightarrow> ('s, working) run" where
  "workingBalanceForEmployee w employee = (case employee of
     None \<Rightarrow> ret No_balance
   | Some e \<Rightarrow> if ex_role e \<noteq> ''external'' then ret No_balance
       else bind (case ex_balancePoolId e of None \<Rightarrow> ret None | Some i \<Rightarrow> c_get (pw_pools w) i) (\<lambda>found. ret (case found of
           Some p \<Rightarrow> if active_pool (ex_groupId e) p then Pool_balance (or_zero (bp_balance p)) (bp_id p) (bp_name p)
                     else Solo_balance (or_zero (ex_balance e))
         | None \<Rightarrow> Solo_balance (or_zero (ex_balance e)))))"

section \<open>Membership\<close>

definition assertUniquePoolName :: "'s pool_world \<Rightarrow> string \<Rightarrow> string \<Rightarrow> string option \<Rightarrow> ('s, unit) run" where
  "assertUniquePoolName w gid name excludeId =
     bind (c_findOne (pw_pools w) (\<lambda>p. active_pool gid p \<and> bp_name p = name \<and> Some (bp_id p) \<noteq> excludeId))
       (\<lambda>existing. require (existing = None) ''POOL_NAME_TAKEN'' 400)"

definition loadOwnedPool :: "'s pool_world \<Rightarrow> executor option \<Rightarrow> string \<Rightarrow> ('s, pool) run" where
  "loadOwnedPool w manager poolId =
     bind (managerGroupId manager) (\<lambda>gid. bind (c_get (pw_pools w) poolId) (\<lambda>found. case found of
       Some p \<Rightarrow> if active_pool gid p then ret p else fail ''POOL_NOT_FOUND'' 404
     | None \<Rightarrow> fail ''POOL_NOT_FOUND'' 404))"

definition loadExternalEmployees :: "'s pool_world \<Rightarrow> string \<Rightarrow> jsval \<Rightarrow> ('s, executor list) run" where
  "loadExternalEmployees w gid memberIds = (let ids = uniqueIds memberIds in
     if ids = [] then ret []
     else bind (c_findMany (pw_executors w) (\<lambda>e. ex_id e \<in> set ids \<and> active_executor gid e)) (\<lambda>employees.
       if length employees \<noteq> length ids then fail ''EMPLOYEE_NOT_FOUND'' 404
       else if \<exists>e\<in>set employees. ex_role e \<noteq> ''external'' then fail ''INVALID_MEMBER'' 400
       else ret employees))"

text \<open>\<open>save\<close> writes the fields that the service has set; a document that is gone is an error.\<close>

definition save_executor :: "'s pool_world \<Rightarrow> string \<Rightarrow> jsnum \<Rightarrow> string option \<Rightarrow> ('s, unit) run" where
  "save_executor w i bal poolId =
     bind (c_update (pw_executors w) i (\<lambda>_. True) (\<lambda>d. d\<lparr>ex_balance := bal, ex_balancePoolId := poolId\<rparr>))
       (\<lambda>d. bind (or_fail ''DocumentNotFoundError'' 0 d) (\<lambda>_. ret ()))"

fun attach_each :: "'s pool_world \<Rightarrow> pool \<Rightarrow> jsnum \<Rightarrow> executor list \<Rightarrow> ('s, jsnum) run" where
  "attach_each w p incomingSolo [] = ret incomingSolo"
| "attach_each w p incomingSolo (e # es) = (case ex_balancePoolId e of
     Some i \<Rightarrow> if i \<noteq> bp_id p then fail ''ALREADY_IN_POOL'' 400 else attach_each w p incomingSolo es
   | None \<Rightarrow> andThen (save_executor w (ex_id e) (Fin 0) (Some (bp_id p)))
       (attach_each w p (n_add incomingSolo (or_zero (ex_balance e))) es))"

definition add_balance :: "jsnum \<Rightarrow> pool \<Rightarrow> pool" where
  "add_balance amount p = p\<lparr>bp_balance := n_add (bp_balance p) amount\<rparr>"

definition attachEmployeesToPool :: "'s pool_world \<Rightarrow> pool \<Rightarrow> executor list \<Rightarrow> ('s, pool) run" where
  "attachEmployeesToPool w p employees =
     bind (attach_each w p (Fin 0) employees) (\<lambda>incomingSolo.
       if truthy (Num incomingSolo)
       then bind (bind (c_update (pw_pools w) (bp_id p) (\<lambda>_. True) (add_balance incomingSolo)) (or_fail ''POOL_NOT_FOUND'' 404))
              (\<lambda>updated. ret (p\<lparr>bp_balance := bp_balance updated\<rparr>))
       else ret p)"

definition new_pool :: "string \<Rightarrow> string \<Rightarrow> string \<Rightarrow> executor \<Rightarrow> pool" where
  "new_pool i name gid m = \<lparr>bp_id = i, bp_name = name, bp_groupId = gid, bp_balance = Fin 0, bp_archived = False,
     bp_archivedBy = [], bp_tenantId = or_else (ex_tenantId m) Undef\<rparr>"

definition create_work :: "'s pool_world \<Rightarrow> executor option \<Rightarrow> string \<Rightarrow> string \<Rightarrow> jsval \<Rightarrow> string \<Rightarrow> ('s, outcome) run" where
  "create_work w manager gid poolName memberIds newId =
     andThen (assertUniquePoolName w gid poolName None)
       (bind (loadExternalEmployees w gid memberIds) (\<lambda>members.
          let p = new_pool newId poolName gid (the manager)
          in andThen (c_insert (pw_pools w) newId p)
            (bind (attachEmployeesToPool w p members) (\<lambda>p'. ret (Served p' members)))))"

definition createPool ::
    "'s txn \<Rightarrow> (error \<Rightarrow> bool) \<Rightarrow> bool \<Rightarrow> 's pool_world \<Rightarrow> executor option \<Rightarrow> jsval \<Rightarrow> jsval \<Rightarrow> string \<Rightarrow> ('s, outcome) run" where
  "createPool txn notStarted requires w manager name memberIds newId =
     bind (managerGroupId manager) (\<lambda>gid. let poolName = cleanPoolName name in
     andThen (require (2 \<le> js_length poolName) ''INVALID_NAME'' 400)
       (withLedgerTransaction txn notStarted requires w gid (\<lambda>session g. create_work w manager gid poolName memberIds newId)))"

definition renamePool :: "'s pool_world \<Rightarrow> executor option \<Rightarrow> string \<Rightarrow> jsval \<Rightarrow> ('s, pool_view) run" where
  "renamePool w manager poolId name =
     bind (managerGroupId manager) (\<lambda>gid. bind (loadOwnedPool w manager poolId) (\<lambda>p. let poolName = cleanPoolName name in
     andThen (require (2 \<le> js_length poolName) ''INVALID_NAME'' 400)
       (andThen (assertUniquePoolName w gid poolName (Some (bp_id p)))
         (bind (bind (c_update (pw_pools w) (bp_id p) (\<lambda>_. True) (\<lambda>d. d\<lparr>bp_name := poolName\<rparr>)) (or_fail ''DocumentNotFoundError'' 0))
           (\<lambda>_. ret (serializePool (p\<lparr>bp_name := poolName\<rparr>) []))))))"

definition attach_work :: "'s pool_world \<Rightarrow> executor option \<Rightarrow> string \<Rightarrow> string \<Rightarrow> jsval \<Rightarrow> ('s, outcome) run" where
  "attach_work w manager gid poolId memberIds =
     bind (loadOwnedPool w manager poolId) (\<lambda>p.
     bind (loadExternalEmployees w gid memberIds) (\<lambda>members.
       andThen (require (members \<noteq> []) ''NO_MEMBERS'' 400)
         (bind (attachEmployeesToPool w p members) (\<lambda>_. ret Done))))"

definition attachMembers ::
    "'s txn \<Rightarrow> (error \<Rightarrow> bool) \<Rightarrow> bool \<Rightarrow> 's pool_world \<Rightarrow> executor option \<Rightarrow> string \<Rightarrow> jsval \<Rightarrow> ('s, workspace) run" where
  "attachMembers txn notStarted requires w manager poolId memberIds =
     bind (managerGroupId manager) (\<lambda>gid.
       andThen (withLedgerTransaction txn notStarted requires w gid (\<lambda>session g. attach_work w manager gid poolId memberIds))
         (listExternalBalanceWorkspace w manager))"

definition member_of :: "string \<Rightarrow> pool \<Rightarrow> executor \<Rightarrow> bool" where
  "member_of gid p e \<longleftrightarrow> is_external gid e \<and> ex_balancePoolId e = Some (bp_id p)"

text \<open>The last member takes the balance of the pool along; any other one leaves with nothing.\<close>

definition empty_pool :: "'s pool_world \<Rightarrow> pool \<Rightarrow> jsnum \<Rightarrow> ('s, unit) run" where
  "empty_pool w p poolBalance = (if truthy (Num poolBalance)
     then bind (bind (c_update (pw_pools w) (bp_id p) (\<lambda>d. n_le poolBalance (bp_balance d)) (add_balance (n_neg poolBalance)))
            (or_fail ''POOL_BALANCE_CHANGED'' 400)) (\<lambda>_. ret ())
     else ret ())"

definition detach_work :: "'s pool_world \<Rightarrow> executor option \<Rightarrow> string \<Rightarrow> string \<Rightarrow> string \<Rightarrow> ('s, outcome) run" where
  "detach_work w manager gid poolId employeeId =
     bind (loadOwnedPool w manager poolId) (\<lambda>p.
     bind (c_get (pw_executors w) employeeId) (\<lambda>found. case found of
         None \<Rightarrow> fail ''EMPLOYEE_NOT_FOUND'' 404
       | Some e \<Rightarrow> if \<not> is_external gid e then fail ''EMPLOYEE_NOT_FOUND'' 404
           else if ex_balancePoolId e \<noteq> Some (bp_id p) then fail ''NOT_IN_POOL'' 400
           else bind (c_findMany (pw_executors w) (\<lambda>d. member_of gid p d \<and> ex_id d \<noteq> ex_id e)) (\<lambda>others.
             if others = [] then let poolBalance = or_zero (bp_balance p) in
                  andThen (empty_pool w p poolBalance)
                    (andThen (save_executor w (ex_id e) (n_add (or_zero (ex_balance e)) poolBalance) None) (ret Done))
             else andThen (save_executor w (ex_id e) (Fin 0) None) (ret Done))))"

definition detachMember ::
    "'s txn \<Rightarrow> (error \<Rightarrow> bool) \<Rightarrow> bool \<Rightarrow> 's pool_world \<Rightarrow> executor option \<Rightarrow> string \<Rightarrow> string \<Rightarrow> ('s, workspace) run" where
  "detachMember txn notStarted requires w manager poolId employeeId =
     bind (managerGroupId manager) (\<lambda>gid.
       andThen (withLedgerTransaction txn notStarted requires w gid (\<lambda>session g. detach_work w manager gid poolId employeeId))
         (listExternalBalanceWorkspace w manager))"

definition archive_work :: "'s pool_world \<Rightarrow> executor option \<Rightarrow> string \<Rightarrow> string \<Rightarrow> ('s, outcome) run" where
  "archive_work w manager gid poolId =
     bind (loadOwnedPool w manager poolId) (\<lambda>p.
     bind (c_findMany (pw_executors w) (member_of gid p)) (\<lambda>members.
       andThen (require (members = []) ''POOL_HAS_MEMBERS'' 400)
         (andThen (require (\<not> n_lt (Fin 0) (or_zero (bp_balance p))) ''POOL_HAS_BALANCE'' 400)
           (bind (bind (c_update (pw_pools w) (bp_id p) (\<lambda>_. True)
                    (\<lambda>d. d\<lparr>bp_archived := True, bp_archivedBy := ex_id (the manager)\<rparr>)) (or_fail ''DocumentNotFoundError'' 0))
              (\<lambda>_. ret Done)))))"

definition archivePool ::
    "'s txn \<Rightarrow> (error \<Rightarrow> bool) \<Rightarrow> bool \<Rightarrow> 's pool_world \<Rightarrow> executor option \<Rightarrow> string \<Rightarrow> ('s, workspace) run" where
  "archivePool txn notStarted requires w manager poolId =
     bind (managerGroupId manager) (\<lambda>gid.
       andThen (withLedgerTransaction txn notStarted requires w gid (\<lambda>session g. archive_work w manager gid poolId))
         (listExternalBalanceWorkspace w manager))"

definition as_manager :: "executor \<Rightarrow> executor" where
  "as_manager e = e\<lparr>ex_role := ''manager''\<rparr>"

definition detachEmployeeOnArchive ::
    "'s txn \<Rightarrow> (error \<Rightarrow> bool) \<Rightarrow> bool \<Rightarrow> 's pool_world \<Rightarrow> executor \<Rightarrow> ('s, executor) run" where
  "detachEmployeeOnArchive txn notStarted requires w e = (case ex_balancePoolId e of
     None \<Rightarrow> ret e
   | Some i \<Rightarrow> if ex_role e \<noteq> ''external'' then ret e
       else catch (andThen (detachMember txn notStarted requires w (Some (as_manager e)) i (ex_id e))
                (bind (c_get (pw_executors w) (ex_id e)) (\<lambda>refreshed. ret (case refreshed of Some r \<Rightarrow> r | None \<Rightarrow> e))))
              (\<lambda>_. ret e))"

section \<open>Funding an external executor\<close>

record funding =
  fu_manager :: "executor option"
  fu_employeeId :: string
  fu_type :: string
  fu_amount :: jsval
  fu_note :: jsval
  fu_requestId :: jsval
  fu_generatedId :: string

definition normalizedRequestId :: "funding \<Rightarrow> string" where
  "normalizedRequestId f = clean (fu_requestId f)"

definition valid_request_id :: "string \<Rightarrow> bool" where
  "valid_request_id s = all_in (\<lambda>c. is_letter c \<or> is_digit c \<or> c \<in> set ''_-'') 16 80 s"

text \<open>The number of a movement; \<open>sha256\<close> gives the hexadecimal digest, a random number comes with the request.\<close>

definition customId :: "(string \<Rightarrow> string) \<Rightarrow> funding \<Rightarrow> string" where
  "customId sha256 f = (if normalizedRequestId f \<noteq> []
     then ''EXT-'' @ toUpperCase (take 24 (sha256 (ex_id (the (fu_manager f)) @ '':'' @ fu_employeeId f @ '':'' @ fu_type f
            @ '':'' @ normalizedRequestId f)))
     else fu_generatedId f)"

definition stored_note :: "funding \<Rightarrow> string" where
  "stored_note f = slice_units 1000 (clean (fu_note f))"

definition matchingMovement :: "funding \<Rightarrow> string \<Rightarrow> executor \<Rightarrow> jsnum \<Rightarrow> movement \<Rightarrow> bool" where
  "matchingMovement f gid e amount tx \<longleftrightarrow> mv_operatorId tx = ex_id e \<and> mv_executorGroupId tx = gid
     \<and> mv_status tx = fu_type f \<and> mv_amount tx = amount \<and> trim (mv_notes tx) = stored_note f"

record funding_result =
  fr_customId :: string
  fr_companyPrivateBalance :: jsnum
  fr_companyTotalBalance :: jsnum
  fr_working :: working
  fr_recipientId :: string
  fr_replayed :: bool

definition resultForMovement :: "'s pool_world \<Rightarrow> string \<Rightarrow> string \<Rightarrow> executor \<Rightarrow> bool \<Rightarrow> ('s, funding_result) run" where
  "resultForMovement w gid cid e replayed =
     bind (c_get (pw_groups w) gid) (\<lambda>latestGroup. bind (c_get (pw_executors w) (ex_id e)) (\<lambda>latestEmployee.
     bind (loadAllocatedByGroupIds w [gid]) (\<lambda>allocated. bind (workingBalanceForEmployee w latestEmployee) (\<lambda>working.
     bind (or_fail ''TypeError'' 0 latestGroup) (\<lambda>g. let own = num_or_0 (get (Obj g) ''balance'') in
       ret \<lparr>fr_customId = cid, fr_companyPrivateBalance = own, fr_companyTotalBalance = n_add own (map_num allocated gid),
            fr_working = working, fr_recipientId = ex_id e, fr_replayed = replayed\<rparr>)))))"

text \<open>The pool that an executor works from; a pool of another company or in the archive is an error.\<close>

definition pool_of :: "'s pool_world \<Rightarrow> string \<Rightarrow> executor \<Rightarrow> ('s, pool option) run" where
  "pool_of w gid e = (case ex_balancePoolId e of None \<Rightarrow> ret None
     | Some i \<Rightarrow> bind (c_get (pw_pools w) i) (\<lambda>found. case found of
         Some p \<Rightarrow> if active_pool gid p then ret (Some p) else fail ''POOL_NOT_FOUND'' 404
       | None \<Rightarrow> fail ''POOL_NOT_FOUND'' 404))"

definition add_to_target ::
    "'s pool_world \<Rightarrow> executor \<Rightarrow> pool option \<Rightarrow> (jsnum \<Rightarrow> bool) \<Rightarrow> jsnum \<Rightarrow> string \<Rightarrow> nat \<Rightarrow> ('s, unit) run" where
  "add_to_target w e p ok amount c status = (case p of
     Some q \<Rightarrow> bind (bind (c_update (pw_pools w) (bp_id q) (\<lambda>d. ok (bp_balance d)) (add_balance amount)) (or_fail c status)) (\<lambda>_. ret ())
   | None \<Rightarrow> bind (bind (c_update (pw_executors w) (ex_id e) (\<lambda>d. ok (ex_balance d))
              (\<lambda>d. d\<lparr>ex_balance := n_add (ex_balance d) amount\<rparr>)) (or_fail c status)) (\<lambda>_. ret ()))"

definition add_to_company :: "'s pool_world \<Rightarrow> string \<Rightarrow> grp \<Rightarrow> (jsnum \<Rightarrow> bool) \<Rightarrow> jsnum \<Rightarrow> string \<Rightarrow> nat \<Rightarrow> ('s, unit) run" where
  "add_to_company w gid g ok amount c status =
     bind (bind (c_update (pw_groups w) gid (\<lambda>d. ok (toNumber (get (Obj d) ''balance'')))
              (\<lambda>d. apply_inc d (primaryServiceBalanceInc (Obj g) (Num amount)))) (or_fail c status)) (\<lambda>_. ret ())"

definition move_funds :: "'s pool_world \<Rightarrow> string \<Rightarrow> grp \<Rightarrow> executor \<Rightarrow> pool option \<Rightarrow> string \<Rightarrow> jsnum \<Rightarrow> ('s, unit) run" where
  "move_funds w gid g e p typ amount =
     (if typ = ''deposit''
      then andThen (add_to_company w gid g (n_le amount) (n_neg amount) ''INSUFFICIENT_PRIVATE_BALANCE'' 400)
             (add_to_target w e p (\<lambda>_. True) amount (case p of None \<Rightarrow> ''EMPLOYEE_NOT_FOUND'' | Some _ \<Rightarrow> ''POOL_NOT_FOUND'') 409)
      else andThen (require (\<not> n_lt (or_zero (case p of Some q \<Rightarrow> bp_balance q | None \<Rightarrow> ex_balance e)) amount)
                      ''INSUFFICIENT_EXECUTOR_BALANCE'' 400)
             (andThen (add_to_target w e p (n_le amount) (n_neg amount) ''INSUFFICIENT_EXECUTOR_BALANCE'' 400)
               (add_to_company w gid g (\<lambda>_. True) amount ''GROUP_NOT_FOUND'' 409)))"

definition movement_of :: "funding \<Rightarrow> string \<Rightarrow> string \<Rightarrow> executor \<Rightarrow> jsnum \<Rightarrow> movement" where
  "movement_of f cid gid e amount =
     \<lparr>mv_customId = cid, mv_executorGroupId = gid, mv_operatorId = ex_id e, mv_executorName = ex_name e,
      mv_amount = amount, mv_status = fu_type f, mv_notes = stored_note f\<rparr>"

definition fund_work :: "'s pool_world \<Rightarrow> funding \<Rightarrow> string \<Rightarrow> string \<Rightarrow> jsnum \<Rightarrow> grp \<Rightarrow> ('s, outcome) run" where
  "fund_work w f cid gid amount g =
     bind (c_get (pw_executors w) (fu_employeeId f)) (\<lambda>found. case found of
         None \<Rightarrow> fail ''EMPLOYEE_NOT_FOUND'' 404
       | Some e \<Rightarrow> if \<not> is_external gid e then fail ''EMPLOYEE_NOT_FOUND'' 404
           else bind (pool_of w gid e) (\<lambda>p.
             andThen (move_funds w gid g e p (fu_type f) amount)
               (let tx = movement_of f cid gid e amount
                in andThen (c_insert (pw_movements w) cid tx) (ret (Moved tx)))))"

text \<open>The checks before the movement.\<close>

definition funding_party :: "'s pool_world \<Rightarrow> funding \<Rightarrow> string \<Rightarrow> ('s, executor) run" where
  "funding_party w f gid =
     bind (c_get (pw_executors w) (fu_employeeId f)) (\<lambda>found. case found of
         None \<Rightarrow> fail ''EMPLOYEE_NOT_FOUND'' 404
       | Some e \<Rightarrow> if ex_groupId e \<noteq> gid then fail ''EMPLOYEE_NOT_FOUND'' 404
           else andThen (require (ex_role e = ''external'') ''INVALID_MEMBER'' 400)
             (andThen (bind (c_get (pw_groups w) gid) (or_fail ''GROUP_NOT_FOUND'' 404))
               (andThen (pool_of w gid e)
                 (andThen (require (normalizedRequestId f = [] \<or> valid_request_id (normalizedRequestId f)) ''INVALID_REQUEST_ID'' 400)
                   (ret e)))))"

definition check_funding :: "'s pool_world \<Rightarrow> funding \<Rightarrow> ('s, string \<times> jsnum \<times> executor) run" where
  "check_funding w f =
     bind (managerGroupId (fu_manager f)) (\<lambda>gid.
     andThen (require (fu_type f \<in> {''deposit'', ''deduction''}) ''INVALID_TYPE'' 400)
       (bind (parseAmount (fu_amount f)) (\<lambda>amount. bind (funding_party w f gid) (\<lambda>e. ret (gid, amount, e)))))"

text \<open>
  The movement itself, and the answer when another request has stored the same one in the meantime; the result says
  whether the movement had been made before.
\<close>

definition post_movement ::
    "'s txn \<Rightarrow> (error \<Rightarrow> bool) \<Rightarrow> bool \<Rightarrow> 's pool_world \<Rightarrow> funding \<Rightarrow> string \<Rightarrow> string \<Rightarrow> jsnum \<Rightarrow> executor \<Rightarrow> ('s, bool) run" where
  "post_movement txn notStarted requires w f cid gid amount e =
     catch (bind (withLedgerTransaction txn notStarted requires w gid (\<lambda>session g. fund_work w f cid gid amount g)) (\<lambda>_. ret False))
       (\<lambda>err. if normalizedRequestId f \<noteq> [] \<and> e_code err = ''11000''
              then bind (c_get (pw_movements w) cid) (\<lambda>committed. case committed of
                   Some tx \<Rightarrow> if matchingMovement f gid e amount tx then ret True else throw err
                 | None \<Rightarrow> throw err)
              else throw err)"

definition fund_checked ::
    "'s txn \<Rightarrow> (error \<Rightarrow> bool) \<Rightarrow> bool \<Rightarrow> 's pool_world \<Rightarrow> funding \<Rightarrow> string \<Rightarrow> string \<Rightarrow> jsnum \<Rightarrow> executor \<Rightarrow> ('s, funding_result) run" where
  "fund_checked txn notStarted requires w f cid gid amount e =
     bind (if normalizedRequestId f \<noteq> [] then c_get (pw_movements w) cid else ret None) (\<lambda>existing. case existing of
         Some tx \<Rightarrow> if matchingMovement f gid e amount tx then resultForMovement w gid cid e True
                    else fail ''REQUEST_ID_CONFLICT'' 409
       | None \<Rightarrow> bind (post_movement txn notStarted requires w f cid gid amount e) (resultForMovement w gid cid e))"

definition fundExternalExecutor ::
    "'s txn \<Rightarrow> (error \<Rightarrow> bool) \<Rightarrow> bool \<Rightarrow> (string \<Rightarrow> string) \<Rightarrow> 's pool_world \<Rightarrow> funding \<Rightarrow> ('s, funding_result) run" where
  "fundExternalExecutor txn notStarted requires sha256 w f =
     bind (check_funding w f) (\<lambda>(gid, amount, e). fund_checked txn notStarted requires w f (customId sha256 f) gid amount e)"

end
