(* ===== verification/Pool_Ledger.thy ===== *)
theory Pool_Ledger
  imports Executor_Pool
begin

text \<open>
  What the balance pools promise: an abstract ledger with a company's own money, the amounts of its pools and its
  external executors, and the only steps that may happen to it.  The abstraction function reads it off the stored
  documents; the lemmas give the effect of the database operations on the two views.
\<close>

section \<open>The abstract ledger\<close>

text \<open>
  What the pools promise: a company's own money, the amounts of its pools and its external executors, each alone
  with an amount or in a pool, and the steps that may happen to them.  Amounts are exact, in thousandths.
\<close>

datatype membership = Solo int | In_pool string

record pool_ledger =
  la_private :: int
  la_pool :: "string \<Rightarrow> int option"
  la_member :: "string \<Rightarrow> membership option"

inductive pool_step :: "pool_ledger \<Rightarrow> pool_ledger \<Rightarrow> bool" where
  create: "la_pool a p = None \<Longrightarrow> pool_step a (a\<lparr>la_pool := (la_pool a)(p \<mapsto> 0)\<rparr>)"
| attach: "la_member a e = Some (Solo x) \<Longrightarrow> la_pool a p = Some y \<Longrightarrow>
    pool_step a (a\<lparr>la_pool := (la_pool a)(p \<mapsto> y + x), la_member := (la_member a)(e \<mapsto> In_pool p)\<rparr>)"
| leave: "la_member a e = Some (In_pool p) \<Longrightarrow> la_member a e' = Some (In_pool p) \<Longrightarrow> e' \<noteq> e \<Longrightarrow>
    pool_step a (a\<lparr>la_member := (la_member a)(e \<mapsto> Solo 0)\<rparr>)"
| leave_last: "la_member a e = Some (In_pool p) \<Longrightarrow> \<forall>e'. e' \<noteq> e \<longrightarrow> la_member a e' \<noteq> Some (In_pool p) \<Longrightarrow> la_pool a p = Some y \<Longrightarrow>
    pool_step a (a\<lparr>la_pool := (la_pool a)(p \<mapsto> 0), la_member := (la_member a)(e \<mapsto> Solo y)\<rparr>)"
| archive: "la_pool a p = Some 0 \<Longrightarrow> \<forall>e. la_member a e \<noteq> Some (In_pool p) \<Longrightarrow>
    pool_step a (a\<lparr>la_pool := (la_pool a)(p := None)\<rparr>)"
| fund_solo: "la_member a e = Some (Solo b) \<Longrightarrow> x \<le> 0 \<or> x \<le> la_private a \<Longrightarrow> 0 \<le> b + x \<Longrightarrow>
    pool_step a (a\<lparr>la_private := la_private a - x, la_member := (la_member a)(e \<mapsto> Solo (b + x))\<rparr>)"
| fund_pool: "la_member a e = Some (In_pool p) \<Longrightarrow> la_pool a p = Some b \<Longrightarrow> x \<le> 0 \<or> x \<le> la_private a \<Longrightarrow> 0 \<le> b + x \<Longrightarrow>
    pool_step a (a\<lparr>la_private := la_private a - x, la_pool := (la_pool a)(p \<mapsto> b + x)\<rparr>)"

definition solo_amount :: "membership \<Rightarrow> int" where
  "solo_amount m = (case m of Solo x \<Rightarrow> x | In_pool _ \<Rightarrow> 0)"

definition ledger_total :: "pool_ledger \<Rightarrow> int" where
  "ledger_total a = la_private a + sum_map (\<lambda>x. x) (la_pool a) + sum_map solo_amount (la_member a)"

definition finite_ledger :: "pool_ledger \<Rightarrow> bool" where
  "finite_ledger a \<longleftrightarrow> finite (dom (la_pool a)) \<and> finite (dom (la_member a))"

text \<open>No step makes or loses money.\<close>

lemma step_total:
  assumes "pool_step a b" "finite_ledger a"
  shows "ledger_total b = ledger_total a \<and> finite_ledger b"
  using assms
  by (induction rule: pool_step.induct)
     (simp_all add: ledger_total_def finite_ledger_def sum_map_upd sum_map_del solo_amount_def)

lemma steps_total:
  assumes "pool_step\<^sup>*\<^sup>* a b" "finite_ledger a"
  shows "ledger_total b = ledger_total a \<and> finite_ledger b"
  using assms by (induction rule: rtranclp_induct) (use step_total in auto)

section \<open>The stored ledger\<close>

definition money_ok :: "nat \<Rightarrow> jsnum \<Rightarrow> bool" where
  "money_ok k v \<longleftrightarrow> near k (milli v) v \<and> 0 \<le> milli v \<and> milli v \<le> 1000000000"

definition abs_ledger :: "string \<Rightarrow> (string \<Rightarrow> grp option) \<times> (string \<Rightarrow> pool option) \<times> (string \<Rightarrow> executor option) \<Rightarrow> pool_ledger" where
  "abs_ledger gid v = (case v of (gs, ps, es) \<Rightarrow>
     \<lparr>la_private = (case gs gid of None \<Rightarrow> 0 | Some g \<Rightarrow> milli (toNumber (get (Obj g) ''balance''))),
      la_pool = (\<lambda>i. case ps i of None \<Rightarrow> None | Some p \<Rightarrow> if active_pool gid p then Some (milli (bp_balance p)) else None),
      la_member = (\<lambda>i. case es i of None \<Rightarrow> None | Some e \<Rightarrow> if \<not> is_external gid e then None
         else Some (case ex_balancePoolId e of None \<Rightarrow> Solo (milli (ex_balance e)) | Some p \<Rightarrow> In_pool p))\<rparr>)"

definition pools_wf :: "nat \<Rightarrow> string \<Rightarrow> (string \<Rightarrow> grp option) \<times> (string \<Rightarrow> pool option) \<times> (string \<Rightarrow> executor option) \<Rightarrow> bool" where
  "pools_wf k gid v \<longleftrightarrow> (case v of (gs, ps, es) \<Rightarrow>
     (\<forall>g. gs gid = Some g \<longrightarrow> (\<exists>n. get (Obj g) ''balance'' = Num n \<and> money_ok k n))
   \<and> (\<forall>i p. ps i = Some p \<longrightarrow> bp_id p = i \<and> (active_pool gid p \<longrightarrow> money_ok k (bp_balance p)))
   \<and> (\<forall>i e. es i = Some e \<longrightarrow> ex_id e = i \<and> (is_external gid e \<longrightarrow> money_ok k (ex_balance e)
        \<and> (\<forall>p. ex_balancePoolId e = Some p \<longrightarrow> milli (ex_balance e) = 0 \<and> (\<exists>q. ps p = Some q \<and> active_pool gid q)))))"

lemma pools_wfD:
  assumes "pools_wf k gid (gs, ps, es)"
  shows "gs gid = Some g \<Longrightarrow> \<exists>n. get (Obj g) ''balance'' = Num n \<and> money_ok k n"
    "ps i = Some p \<Longrightarrow> bp_id p = i" "ps i = Some p \<Longrightarrow> active_pool gid p \<Longrightarrow> money_ok k (bp_balance p)"
    "es i = Some e \<Longrightarrow> ex_id e = i" "es i = Some e \<Longrightarrow> is_external gid e \<Longrightarrow> money_ok k (ex_balance e)"
    "es i = Some e \<Longrightarrow> is_external gid e \<Longrightarrow> ex_balancePoolId e = Some pid \<Longrightarrow> milli (ex_balance e) = 0 \<and> (\<exists>q. ps pid = Some q \<and> active_pool gid q)"
  using assms unfolding pools_wf_def by blast+

text \<open>The abstract ledger after the change of one document.\<close>

lemma abs_pool_upd:
  "active_pool gid p \<Longrightarrow> abs_ledger gid (gs, ps(i \<mapsto> p), es)
    = (abs_ledger gid (gs, ps, es))\<lparr>la_pool := (la_pool (abs_ledger gid (gs, ps, es)))(i \<mapsto> milli (bp_balance p))\<rparr>"
  "\<not> active_pool gid p \<Longrightarrow> abs_ledger gid (gs, ps(i \<mapsto> p), es)
    = (abs_ledger gid (gs, ps, es))\<lparr>la_pool := (la_pool (abs_ledger gid (gs, ps, es)))(i := None)\<rparr>"
  by (auto simp: abs_ledger_def fun_eq_iff)

lemma abs_executor_upd:
  "is_external gid e \<Longrightarrow> abs_ledger gid (gs, ps, es(i \<mapsto> e))
    = (abs_ledger gid (gs, ps, es))\<lparr>la_member := (la_member (abs_ledger gid (gs, ps, es)))
        (i \<mapsto> (case ex_balancePoolId e of None \<Rightarrow> Solo (milli (ex_balance e)) | Some p \<Rightarrow> In_pool p))\<rparr>"
  by (auto simp: abs_ledger_def fun_eq_iff)

lemma abs_group_upd:
  "abs_ledger gid (gs(gid \<mapsto> g), ps, es) = (abs_ledger gid (gs, ps, es))\<lparr>la_private := milli (toNumber (get (Obj g) ''balance''))\<rparr>"
  by (auto simp: abs_ledger_def fun_eq_iff)

lemma abs_pool: "ps i = Some p \<Longrightarrow> active_pool gid p \<Longrightarrow> la_pool (abs_ledger gid (gs, ps, es)) i = Some (milli (bp_balance p))"
  by (simp add: abs_ledger_def)

lemma abs_member:
  "es i = Some e \<Longrightarrow> is_external gid e \<Longrightarrow> la_member (abs_ledger gid (gs, ps, es)) i
     = Some (case ex_balancePoolId e of None \<Rightarrow> Solo (milli (ex_balance e)) | Some p \<Rightarrow> In_pool p)"
  by (simp add: abs_ledger_def)

lemma abs_private: "gs gid = Some g \<Longrightarrow> la_private (abs_ledger gid (gs, ps, es)) = milli (toNumber (get (Obj g) ''balance''))"
  by (simp add: abs_ledger_def)

lemma abs_member_In:
  "la_member (abs_ledger gid (gs, ps, es)) i = Some (In_pool p) \<longleftrightarrow>
     (\<exists>e. es i = Some e \<and> is_external gid e \<and> ex_balancePoolId e = Some p)"
  by (auto simp: abs_ledger_def split: option.splits)

section \<open>Runs on the four collections\<close>

definition ledger_view :: "'s pool_world \<Rightarrow> 's \<Rightarrow> (string \<Rightarrow> grp option) \<times> (string \<Rightarrow> pool option) \<times> (string \<Rightarrow> executor option)" where
  "ledger_view w s = (c_view (pw_groups w) s, c_view (pw_pools w) s, c_view (pw_executors w) s)"

definition world_view :: "'s pool_world \<Rightarrow> 's \<Rightarrow>
    ((string \<Rightarrow> grp option) \<times> (string \<Rightarrow> pool option) \<times> (string \<Rightarrow> executor option)) \<times> (string \<Rightarrow> movement option)" where
  "world_view w s = (ledger_view w s, c_view (pw_movements w) s)"

definition pool_store :: "'s pool_world \<Rightarrow> bool" where
  "pool_store w \<longleftrightarrow> coll_ok (pw_groups w) \<and> coll_ok (pw_pools w) \<and> coll_ok (pw_executors w) \<and> coll_ok (pw_movements w)
     \<and> quiet (pw_groups w) (\<lambda>s. (c_view (pw_pools w) s, c_view (pw_executors w) s, c_view (pw_movements w) s))
     \<and> quiet (pw_pools w) (\<lambda>s. (c_view (pw_groups w) s, c_view (pw_executors w) s, c_view (pw_movements w) s))
     \<and> quiet (pw_executors w) (\<lambda>s. (c_view (pw_groups w) s, c_view (pw_pools w) s, c_view (pw_movements w) s))
     \<and> quiet (pw_movements w) (\<lambda>s. (c_view (pw_groups w) s, c_view (pw_pools w) s, c_view (pw_executors w) s))"

text \<open>Reading a collection changes nothing.\<close>

lemma keeps_reads:
  assumes "coll_ok c" "quiet c u" "\<And>s s'. c_view c s' = c_view c s \<Longrightarrow> u s' = u s \<Longrightarrow> v s' = v s"
  shows "keeps v (c_get c i)" "keeps v (c_findOne c p)" "keeps v (c_findMany c p)"
proof -
  show "keeps v (c_get c i)"
    by (rule keepsI, rule assms(3)) (use c_get_view(1) [OF assms(1)] quietD(4) [OF assms(2)] in blast)+
  show "keeps v (c_findOne c p)"
    by (rule keepsI, rule assms(3)) (use c_findOne_view [OF assms(1)] quietD(1) [OF assms(2)] in blast)+
  show "keeps v (c_findMany c p)"
    by (rule keepsI, rule assms(3)) (use c_findMany_view [OF assms(1)] quietD(5) [OF assms(2)] in blast)+
qed

lemma store_reads:
  assumes "pool_store w"
  shows "keeps (world_view w) (c_get (pw_groups w) i)" "keeps (world_view w) (c_get (pw_pools w) i)"
    "keeps (world_view w) (c_get (pw_executors w) i)" "keeps (world_view w) (c_get (pw_movements w) i)"
    "keeps (world_view w) (c_findMany (pw_pools w) p)" "keeps (world_view w) (c_findMany (pw_executors w) q)"
    "keeps (world_view w) (c_findOne (pw_pools w) p)"
proof -
  note d = assms [unfolded pool_store_def]
  show "keeps (world_view w) (c_get (pw_groups w) i)" using d
    by (elim conjE) (rule keeps_reads, assumption, assumption, simp add: world_view_def ledger_view_def)
  show "keeps (world_view w) (c_get (pw_pools w) i)" using d
    by (elim conjE) (rule keeps_reads [where c = "pw_pools w"], assumption, assumption, simp add: world_view_def ledger_view_def)
  show "keeps (world_view w) (c_get (pw_executors w) i)" using d
    by (elim conjE) (rule keeps_reads [where c = "pw_executors w"], assumption, assumption, simp add: world_view_def ledger_view_def)
  show "keeps (world_view w) (c_get (pw_movements w) i)" using d
    by (elim conjE) (rule keeps_reads [where c = "pw_movements w"], assumption, assumption, simp add: world_view_def ledger_view_def)
  show "keeps (world_view w) (c_findMany (pw_pools w) p)" using d
    by (elim conjE) (rule keeps_reads [where c = "pw_pools w"], assumption, assumption, simp add: world_view_def ledger_view_def)
  show "keeps (world_view w) (c_findMany (pw_executors w) q)" using d
    by (elim conjE) (rule keeps_reads [where c = "pw_executors w"], assumption, assumption, simp add: world_view_def ledger_view_def)
  show "keeps (world_view w) (c_findOne (pw_pools w) p)" using d
    by (elim conjE) (rule keeps_reads [where c = "pw_pools w"], assumption, assumption, simp add: world_view_def ledger_view_def)
qed

lemma or_fail_Inr: "or_fail c st x s = (Inr a, s') \<longleftrightarrow> x = Some a \<and> s' = s"
  by (cases x) (auto simp: or_fail_def fail_def)

lemma require_Inr: "require b c st s = (Inr u, s') \<longleftrightarrow> b \<and> s' = s"
  by (auto simp: require_def)

lemma fail_Inr [simp]: "fail c st s \<noteq> (Inr a, s')"
  by (simp add: fail_def)

lemmas check_Inr = or_fail_Inr require_Inr

text \<open>An update that finds its document changes that document only.\<close>

lemma upd_pool:
  assumes "pool_store w" "world_view w s = ((gs, ps, es), ms)" "c_update (pw_pools w) i q f s = (Inr (Some d'), s')"
  obtains d where "ps i = Some d" "q d" "d' = f d" "world_view w s' = ((gs, ps(i \<mapsto> f d), es), ms)"
proof -
  have st: "coll_ok (pw_pools w)" "quiet (pw_pools w) (\<lambda>s. (c_view (pw_groups w) s, c_view (pw_executors w) s, c_view (pw_movements w) s))"
    using assms(1) by (simp_all add: pool_store_def)
  obtain d where d: "c_view (pw_pools w) s i = Some d" "q d" "d' = f d" "c_view (pw_pools w) s' = (c_view (pw_pools w) s)(i \<mapsto> f d)"
    using c_update_Some [OF st(1) assms(3)] by blast
  show ?thesis by (rule that [of d]) (use d quietD(2) [OF st(2) assms(3)] assms(2) in \<open>simp_all add: world_view_def ledger_view_def\<close>)
qed

lemma upd_executor:
  assumes "pool_store w" "world_view w s = ((gs, ps, es), ms)" "c_update (pw_executors w) i q f s = (Inr (Some d'), s')"
  obtains d where "es i = Some d" "q d" "d' = f d" "world_view w s' = ((gs, ps, es(i \<mapsto> f d)), ms)"
proof -
  have st: "coll_ok (pw_executors w)" "quiet (pw_executors w) (\<lambda>s. (c_view (pw_groups w) s, c_view (pw_pools w) s, c_view (pw_movements w) s))"
    using assms(1) by (simp_all add: pool_store_def)
  obtain d where d: "c_view (pw_executors w) s i = Some d" "q d" "d' = f d" "c_view (pw_executors w) s' = (c_view (pw_executors w) s)(i \<mapsto> f d)"
    using c_update_Some [OF st(1) assms(3)] by blast
  show ?thesis by (rule that [of d]) (use d quietD(2) [OF st(2) assms(3)] assms(2) in \<open>simp_all add: world_view_def ledger_view_def\<close>)
qed

lemma upd_group:
  assumes "pool_store w" "world_view w s = ((gs, ps, es), ms)" "c_update (pw_groups w) i q f s = (Inr (Some d'), s')"
  obtains d where "gs i = Some d" "q d" "d' = f d" "world_view w s' = ((gs(i \<mapsto> f d), ps, es), ms)"
proof -
  have st: "coll_ok (pw_groups w)" "quiet (pw_groups w) (\<lambda>s. (c_view (pw_pools w) s, c_view (pw_executors w) s, c_view (pw_movements w) s))"
    using assms(1) by (simp_all add: pool_store_def)
  obtain d where d: "c_view (pw_groups w) s i = Some d" "q d" "d' = f d" "c_view (pw_groups w) s' = (c_view (pw_groups w) s)(i \<mapsto> f d)"
    using c_update_Some [OF st(1) assms(3)] by blast
  show ?thesis by (rule that [of d]) (use d quietD(2) [OF st(2) assms(3)] assms(2) in \<open>simp_all add: world_view_def ledger_view_def\<close>)
qed

lemma ins_pool:
  assumes "pool_store w" "world_view w s = ((gs, ps, es), ms)" "c_insert (pw_pools w) i d s = (Inr u, s')"
  shows "ps i = None" "world_view w s' = ((gs, ps(i \<mapsto> d), es), ms)"
proof -
  have st: "coll_ok (pw_pools w)" "quiet (pw_pools w) (\<lambda>s. (c_view (pw_groups w) s, c_view (pw_executors w) s, c_view (pw_movements w) s))"
    using assms(1) by (simp_all add: pool_store_def)
  show "ps i = None" "world_view w s' = ((gs, ps(i \<mapsto> d), es), ms)"
    using c_insert_ok [OF st(1) assms(3)] quietD(3) [OF st(2) assms(3)] assms(2) by (simp_all add: world_view_def ledger_view_def)
qed

lemma ins_movement:
  assumes "pool_store w" "world_view w s = ((gs, ps, es), ms)" "c_insert (pw_movements w) i d s = (Inr u, s')"
  shows "ms i = None" "world_view w s' = ((gs, ps, es), ms(i \<mapsto> d))"
proof -
  have st: "coll_ok (pw_movements w)" "quiet (pw_movements w) (\<lambda>s. (c_view (pw_groups w) s, c_view (pw_pools w) s, c_view (pw_executors w) s))"
    using assms(1) by (simp_all add: pool_store_def)
  show "ms i = None" "world_view w s' = ((gs, ps, es), ms(i \<mapsto> d))"
    using c_insert_ok [OF st(1) assms(3)] quietD(3) [OF st(2) assms(3)] assms(2) by (simp_all add: world_view_def ledger_view_def)
qed

text \<open>What a read returns, in terms of the view.\<close>

lemma get_pool:
  assumes "pool_store w" "world_view w s = ((gs, ps, es), ms)" "c_get (pw_pools w) i s = (Inr x, s')"
  shows "x = ps i" "world_view w s' = ((gs, ps, es), ms)"
  using c_get_view(2) [OF _ assms(3)] keepsD [OF store_reads(2) [OF assms(1)] assms(3)] assms(1,2)
  by (auto simp: pool_store_def world_view_def ledger_view_def)

lemma get_executor:
  assumes "pool_store w" "world_view w s = ((gs, ps, es), ms)" "c_get (pw_executors w) i s = (Inr x, s')"
  shows "x = es i" "world_view w s' = ((gs, ps, es), ms)"
  using c_get_view(2) [OF _ assms(3)] keepsD [OF store_reads(3) [OF assms(1)] assms(3)] assms(1,2)
  by (auto simp: pool_store_def world_view_def ledger_view_def)

lemma get_group:
  assumes "pool_store w" "world_view w s = ((gs, ps, es), ms)" "c_get (pw_groups w) i s = (Inr x, s')"
  shows "x = gs i" "world_view w s' = ((gs, ps, es), ms)"
  using c_get_view(2) [OF _ assms(3)] keepsD [OF store_reads(1) [OF assms(1)] assms(3)] assms(1,2)
  by (auto simp: pool_store_def world_view_def ledger_view_def)

lemma get_movement:
  assumes "pool_store w" "world_view w s = ((gs, ps, es), ms)" "c_get (pw_movements w) i s = (Inr x, s')"
  shows "x = ms i" "world_view w s' = ((gs, ps, es), ms)"
  using c_get_view(2) [OF _ assms(3)] keepsD [OF store_reads(4) [OF assms(1)] assms(3)] assms(1,2)
  by (auto simp: pool_store_def world_view_def ledger_view_def)

lemma find_executors:
  assumes "pool_store w" "world_view w s = ((gs, ps, es), ms)" "c_findMany (pw_executors w) q s = (Inr xs, s')"
    and "\<And>i e. es i = Some e \<Longrightarrow> ex_id e = i"
  shows "world_view w s' = ((gs, ps, es), ms)" "distinct (map ex_id xs)"
    "e \<in> set xs \<longleftrightarrow> es (ex_id e) = Some e \<and> q e"
proof -
  show v: "world_view w s' = ((gs, ps, es), ms)"
    using keepsD [OF store_reads(6) [OF assms(1)] assms(3)] assms(2) by simp
  have c: "coll_ok (pw_executors w)" "c_view (pw_executors w) s = es"
    using assms(1,2) by (simp_all add: pool_store_def world_view_def ledger_view_def)
  from c_findMany_docs [OF c(1) assms(3), unfolded c(2)] obtain "is" where
    i: "distinct is" "xs = map (\<lambda>i. the (es i)) is" "\<And>i. i \<in> set is \<longleftrightarrow> (\<exists>d. es i = Some d \<and> q d)" by blast
  have id: "ex_id (the (es i)) = i" if "i \<in> set is" for i using that i(3) assms(4) by auto
  then have m: "map ex_id xs = is" unfolding i(2) by (simp add: map_idI)
  then show "distinct (map ex_id xs)" using i(1) by simp
  show "e \<in> set xs \<longleftrightarrow> es (ex_id e) = Some e \<and> q e"
  proof
    assume "e \<in> set xs"
    then obtain j where j: "j \<in> set is" "e = the (es j)" unfolding i(2) by auto
    then show "es (ex_id e) = Some e \<and> q e" using i(3) id by fastforce
  next
    assume "es (ex_id e) = Some e \<and> q e"
    then have "ex_id e \<in> set is" "the (es (ex_id e)) = e" using i(3) by auto
    then show "e \<in> set xs" unfolding i(2) by force
  qed
qed

definition manages :: "executor option \<Rightarrow> string \<Rightarrow> bool" where
  "manages manager gid \<longleftrightarrow> (\<exists>m. manager = Some m \<and> ex_role m = ''manager'' \<and> ex_groupId m = gid \<and> gid \<noteq> [])"

lemma managerGroupId_Inr: "managerGroupId manager s = (Inr gid, s') \<longleftrightarrow> manages manager gid \<and> s' = s"
  by (auto simp: managerGroupId_def manages_def split: option.splits)

lemma managerGroupId_run: "manages manager gid \<Longrightarrow> managerGroupId manager = ret gid"
  by (auto simp: managerGroupId_def manages_def)

lemma owned_pool:
  assumes "pool_store w" "world_view w s = ((gs, ps, es), ms)" "loadOwnedPool w manager i s = (Inr p, s')"
    and "manages manager gid"
  shows "ps i = Some p" "active_pool gid p" "world_view w s' = ((gs, ps, es), ms)"
proof -
  obtain x s1 where g: "c_get (pw_pools w) i s = (Inr x, s1)"
    and r: "(case x of Some p \<Rightarrow> if active_pool gid p then ret p else fail ''POOL_NOT_FOUND'' 404 | None \<Rightarrow> fail ''POOL_NOT_FOUND'' 404) s1 = (Inr p, s')"
    using assms(3) unfolding loadOwnedPool_def managerGroupId_run [OF assms(4)] bind_ret by (rule bind_InrE)
  have x: "x = Some p" "active_pool gid p" "s' = s1" using r by (auto split: option.splits if_splits)
  show "ps i = Some p" "active_pool gid p" "world_view w s' = ((gs, ps, es), ms)"
    using get_pool [OF assms(1,2) g] x by auto
qed

lemma saved_executor:
  assumes "pool_store w" "world_view w s = ((gs, ps, es), ms)" "save_executor w i b p s = (Inr u, s')"
  obtains d where "es i = Some d" "world_view w s' = ((gs, ps, es(i \<mapsto> d\<lparr>ex_balance := b, ex_balancePoolId := p\<rparr>)), ms)"
proof -
  obtain x s1 where c: "c_update (pw_executors w) i (\<lambda>_. True) (\<lambda>d. d\<lparr>ex_balance := b, ex_balancePoolId := p\<rparr>) s = (Inr x, s1)"
    and "bind (or_fail ''DocumentNotFoundError'' 0 x) (\<lambda>_. ret ()) s1 = (Inr u, s')"
    using assms(3) unfolding save_executor_def by (rule bind_InrE)
  then obtain d' where d': "x = Some d'" "s' = s1" by (elim bind_InrE) (auto simp: check_Inr)
  show ?thesis using upd_executor [OF assms(1,2) c [unfolded d'(1)]] that d'(2) by metis
qed

text \<open>Members that join carry their amounts into the pool.\<close>

lemma near_money: "money_ok k v \<Longrightarrow> or_zero v = v"
  by (auto simp: money_ok_def intro: or_zero_near)

lemma milli_0: "milli (Fin 0) = 0"
  by (rule milli_near [of 0]) (simp_all add: near_def)

definition pooled :: "pool_ledger \<Rightarrow> string \<Rightarrow> int \<Rightarrow> pool_ledger" where
  "pooled a p v = a\<lparr>la_pool := (la_pool a)(p \<mapsto> v)\<rparr>"

lemma upd_commute: "a\<lparr>la_member := m, la_pool := p\<rparr> = a\<lparr>la_pool := p, la_member := m\<rparr>"
  by (rule pool_ledger.equality) simp_all

lemma attach_step:
  assumes "es i = Some e" "is_external gid e" "ex_balancePoolId e = None"
  shows "pool_step (pooled (abs_ledger gid (gs, ps, es)) p y)
    (pooled (abs_ledger gid (gs, ps, es(i \<mapsto> e\<lparr>ex_balance := Fin 0, ex_balancePoolId := Some p\<rparr>))) p (y + milli (ex_balance e)))"
proof -
  have ext: "is_external gid (e\<lparr>ex_balance := Fin 0, ex_balancePoolId := Some p\<rparr>)"
    using assms(2) by (simp add: is_external_def active_executor_def)
  have m: "la_member (abs_ledger gid (gs, ps, es)) i = Some (Solo (milli (ex_balance e)))"
    using abs_member [of es, OF assms(1,2)] assms(3) by simp
  show ?thesis
    using pool_step.attach [of "pooled (abs_ledger gid (gs, ps, es)) p y" i "milli (ex_balance e)" p y]
    by (simp add: pooled_def m abs_executor_upd [OF ext] upd_commute)
qed

lemma attach_each_steps:
  assumes "pool_store w" "world_view w s = ((gs, ps, es), ms)" "attach_each w p inc xs s = (Inr inc', s')"
    and "\<forall>e\<in>set xs. es (ex_id e) = Some e \<and> is_external gid e \<and> money_ok k (ex_balance e)" "distinct (map ex_id xs)"
    and "near n i inc" "0 \<le> i" "i + 1000000000 * int (length xs) \<le> LIMIT" "n + Suc k * length xs \<le> 4096"
  shows "\<exists>es' i'. world_view w s' = ((gs, ps, es'), ms) \<and> near (n + Suc k * length xs) i' inc'
    \<and> 0 \<le> i' \<and> i' \<le> i + 1000000000 * int (length xs)
    \<and> (\<forall>y. pool_step\<^sup>*\<^sup>* (pooled (abs_ledger gid (gs, ps, es)) (bp_id p) (y + i))
          (pooled (abs_ledger gid (gs, ps, es')) (bp_id p) (y + i')))"
  using assms(2-)
proof (induction xs arbitrary: s es inc i n)
  case Nil
  then have "world_view w s' = ((gs, ps, es), ms) \<and> near (n + Suc k * length []) i inc'" by simp
  with Nil.prems(6) show ?case by (intro exI [of _ es] exI [of _ i]) simp
next
  case (Cons e xs)
  have e: "es (ex_id e) = Some e" "is_external gid e" "money_ok k (ex_balance e)" using Cons.prems(3) by simp_all
  show ?case
  proof (cases "ex_balancePoolId e")
    case (Some j)
    then have r: "attach_each w p inc xs s = (Inr inc', s')" using Cons.prems(2) by (simp split: if_splits)
    have f: "\<forall>d\<in>set xs. es (ex_id d) = Some d \<and> is_external gid d \<and> money_ok k (ex_balance d)" "distinct (map ex_id xs)"
      "i + 1000000000 * int (length xs) \<le> LIMIT" "n + Suc k * length xs \<le> 4096"
      using Cons.prems(3,4,7,8) by simp_all
    obtain es' i' where es': "world_view w s' = ((gs, ps, es'), ms)" "near (n + Suc k * length xs) i' inc'"
      "0 \<le> i'" "i' \<le> i + 1000000000 * int (length xs)"
      "\<forall>y. pool_step\<^sup>*\<^sup>* (pooled (abs_ledger gid (gs, ps, es)) (bp_id p) (y + i)) (pooled (abs_ledger gid (gs, ps, es')) (bp_id p) (y + i'))"
      using Cons.IH [OF Cons.prems(1) r f(1,2) Cons.prems(5,6) f(3,4)] by (elim exE conjE) (rule that)
    from es'(2) have "near (n + Suc k * length (e # xs)) i' inc'" by (rule near_mono) simp
    moreover have "i' \<le> i + 1000000000 * int (length (e # xs))" using es'(4) by simp
    ultimately show ?thesis using es'(1,3,5) by blast
  next
    case None
    obtain s1 where sv: "save_executor w (ex_id e) (Fin 0) (Some (bp_id p)) s = (Inr (), s1)"
      and r: "attach_each w p (n_add inc (ex_balance e)) xs s1 = (Inr inc', s')"
      using Cons.prems(2) near_money [OF e(3)] by (simp add: None) (elim andThen_InrE, simp)
    define e' where "e' = e\<lparr>ex_balance := Fin 0, ex_balancePoolId := Some (bp_id p)\<rparr>"
    have v1: "world_view w s1 = ((gs, ps, es(ex_id e \<mapsto> e')), ms)"
      by (rule saved_executor [OF assms(1) Cons.prems(1) sv]) (simp add: e(1) e'_def)
    let ?x = "milli (ex_balance e)"
    have x: "near k ?x (ex_balance e)" "0 \<le> ?x" "?x \<le> 1000000000" using e(3) by (simp_all add: money_ok_def)
    have n: "near (Suc (n + k)) (i + ?x) (n_add inc (ex_balance e))"
    proof (rule near_add [OF Cons.prems(5) x(1)])
      have "0 \<le> 1000000000 * int (length xs)" by simp
      then show "\<bar>i + ?x\<bar> \<le> LIMIT" using Cons.prems(6,7) x by (simp add: algebra_simps)
      show "n + k \<le> 4096" using Cons.prems(8) by simp
    qed
    have "\<forall>d\<in>set xs. (es(ex_id e \<mapsto> e')) (ex_id d) = Some d \<and> is_external gid d \<and> money_ok k (ex_balance d)"
    proof
      fix d assume d: "d \<in> set xs"
      then have "ex_id d \<noteq> ex_id e" using Cons.prems(4) by (metis distinct.simps(2) image_eqI list.simps(9) list.set_map)
      then show "(es(ex_id e \<mapsto> e')) (ex_id d) = Some d \<and> is_external gid d \<and> money_ok k (ex_balance d)"
        using d Cons.prems(3) by simp
    qed
    moreover have "i + ?x + 1000000000 * int (length xs) \<le> LIMIT" using Cons.prems(7) x by simp
    moreover have "Suc (n + k) + Suc k * length xs \<le> 4096" using Cons.prems(8) by simp
    ultimately have "\<exists>es' i'. world_view w s' = ((gs, ps, es'), ms) \<and> near (Suc (n + k) + Suc k * length xs) i' inc'
      \<and> 0 \<le> i' \<and> i' \<le> i + ?x + 1000000000 * int (length xs)
      \<and> (\<forall>y. pool_step\<^sup>*\<^sup>* (pooled (abs_ledger gid (gs, ps, es(ex_id e \<mapsto> e'))) (bp_id p) (y + (i + ?x)))
           (pooled (abs_ledger gid (gs, ps, es')) (bp_id p) (y + i')))"
      using Cons.prems(4,6) x by (intro Cons.IH [OF v1 r _ _ n]) (assumption | simp)+
    then obtain es' i' where es': "world_view w s' = ((gs, ps, es'), ms)" "near (Suc (n + k) + Suc k * length xs) i' inc'"
      "0 \<le> i'" "i' \<le> i + ?x + 1000000000 * int (length xs)"
      and st: "\<forall>y. pool_step\<^sup>*\<^sup>* (pooled (abs_ledger gid (gs, ps, es(ex_id e \<mapsto> e'))) (bp_id p) (y + (i + ?x)))
           (pooled (abs_ledger gid (gs, ps, es')) (bp_id p) (y + i'))"
      by (elim exE conjE) (rule that)
    have step: "pool_step (pooled (abs_ledger gid (gs, ps, es)) (bp_id p) (y + i))
        (pooled (abs_ledger gid (gs, ps, es(ex_id e \<mapsto> e'))) (bp_id p) (y + (i + ?x)))" for y
      unfolding e'_def add.assoc [symmetric] by (rule attach_step [of es, OF e(1,2) None])
    have "\<forall>y. pool_step\<^sup>*\<^sup>* (pooled (abs_ledger gid (gs, ps, es)) (bp_id p) (y + i))
          (pooled (abs_ledger gid (gs, ps, es')) (bp_id p) (y + i'))"
      by (intro allI) (rule converse_rtranclp_into_rtranclp [OF step st [rule_format]])
    moreover have "near (n + Suc k * length (e # xs)) i' inc'" using es'(2) by (rule near_mono) simp
    moreover have "i' \<le> i + 1000000000 * int (length (e # xs))" using es'(4) x by simp
    ultimately show ?thesis using es'(1,3) by blast
  qed
qed

end
