(* ===== verification/Pool_Refinement.thy ===== *)
theory Pool_Refinement
  imports Pool_Ledger
begin

text \<open>
  Every unit of work of the pools, run to its end, takes the abstract ledger through its steps: attaching, detaching,
  archiving, creating and funding.
\<close>

text \<open>Each unit of work takes the ledger through steps of the abstract one.\<close>

definition refines :: "'s pool_world \<Rightarrow> nat \<Rightarrow> nat \<Rightarrow> string \<Rightarrow> ('s, 'a) run \<Rightarrow> bool" where
  "refines w k m gid run \<longleftrightarrow> (\<forall>s a s'. fst (ledger_view w s) gid \<noteq> None \<longrightarrow> pools_wf k gid (ledger_view w s) \<longrightarrow> Suc k * Suc m \<le> 2000 \<longrightarrow> run s = (Inr a, s')
     \<longrightarrow> pool_step\<^sup>*\<^sup>* (abs_ledger gid (ledger_view w s)) (abs_ledger gid (ledger_view w s')))"

lemma refinesI:
  assumes "\<And>s a s' gs ps es ms. world_view w s = ((gs, ps, es), ms) \<Longrightarrow> gs gid \<noteq> None \<Longrightarrow> pools_wf k gid (gs, ps, es) \<Longrightarrow> Suc k * Suc m \<le> 2000
      \<Longrightarrow> run s = (Inr a, s') \<Longrightarrow> pool_step\<^sup>*\<^sup>* (abs_ledger gid (gs, ps, es)) (abs_ledger gid (ledger_view w s'))"
  shows "refines w k m gid run"
  unfolding refines_def
proof (intro allI impI)
  fix s a s'
  assume h: "fst (ledger_view w s) gid \<noteq> None" "pools_wf k gid (ledger_view w s)" "Suc k * Suc m \<le> 2000" "run s = (Inr a, s')"
  obtain gs ps es where v: "ledger_view w s = (gs, ps, es)" by (metis prod_cases3)
  then have "world_view w s = ((gs, ps, es), c_view (pw_movements w) s)" by (simp add: world_view_def)
  from assms [OF this] h v show "pool_step\<^sup>*\<^sup>* (abs_ledger gid (ledger_view w s)) (abs_ledger gid (ledger_view w s'))" by simp
qed

lemma view_ledger: "world_view w s = (v, ms) \<Longrightarrow> ledger_view w s = v"
  by (simp add: world_view_def)

lemma external_members:
  assumes "pool_store w" "world_view w s = ((gs, ps, es), ms)" "pools_wf k gid (gs, ps, es)"
    and "loadExternalEmployees w gid ids s = (Inr xs, s')"
  shows "world_view w s' = ((gs, ps, es), ms)" "distinct (map ex_id xs)" "length xs = length (uniqueIds ids)"
    "\<forall>e\<in>set xs. es (ex_id e) = Some e \<and> is_external gid e \<and> money_ok k (ex_balance e)"
proof -
  have "world_view w s' = ((gs, ps, es), ms) \<and> distinct (map ex_id xs) \<and> length xs = length (uniqueIds ids)
    \<and> (\<forall>e\<in>set xs. es (ex_id e) = Some e \<and> is_external gid e)"
  proof (cases "uniqueIds ids = []")
    case True
    then show ?thesis using assms(2,4) by (simp add: loadExternalEmployees_def)
  next
    case False
    let ?q = "\<lambda>e. ex_id e \<in> set (uniqueIds ids) \<and> active_executor gid e"
    obtain ys s1 where f: "c_findMany (pw_executors w) ?q s = (Inr ys, s1)"
      and r: "(if length ys \<noteq> length (uniqueIds ids) then fail ''EMPLOYEE_NOT_FOUND'' 404
          else if \<exists>e\<in>set ys. ex_role e \<noteq> ''external'' then fail ''INVALID_MEMBER'' 400 else ret ys) s1 = (Inr xs, s')"
      using assms(4) False unfolding loadExternalEmployees_def Let_def by (auto elim!: bind_InrE)
    have r': "ys = xs" "s1 = s'" "length xs = length (uniqueIds ids)" "\<forall>e\<in>set xs. ex_role e = ''external''"
      using r by (auto split: if_splits)
    note x = find_executors [OF assms(1,2) f pools_wfD(4) [OF assms(3)], unfolded r'(1,2)]
    show ?thesis using x r'(3,4) by (auto simp: is_external_def)
  qed
  then show "world_view w s' = ((gs, ps, es), ms)" "distinct (map ex_id xs)" "length xs = length (uniqueIds ids)"
    "\<forall>e\<in>set xs. es (ex_id e) = Some e \<and> is_external gid e \<and> money_ok k (ex_balance e)"
    using pools_wfD(5) [OF assms(3)] by auto
qed

lemma pooled_abs: "ps i = Some p \<Longrightarrow> active_pool gid p \<Longrightarrow> pooled (abs_ledger gid (gs, ps, es)) i (milli (bp_balance p)) = abs_ledger gid (gs, ps, es)"
  by (auto simp: pooled_def abs_ledger_def fun_eq_iff)

lemma attach_steps:
  assumes "pool_store w" "world_view w s = ((gs, ps, es), ms)" "attachEmployeesToPool w p xs s = (Inr p', s')"
    and "\<forall>e\<in>set xs. es (ex_id e) = Some e \<and> is_external gid e \<and> money_ok k (ex_balance e)" "distinct (map ex_id xs)"
    and p: "ps (bp_id p) = Some p" "active_pool gid p" "money_ok k (bp_balance p)"
    and "Suc k * Suc (length xs) \<le> 2000" "length xs \<le> 1000"
  shows "pool_step\<^sup>*\<^sup>* (abs_ledger gid (gs, ps, es)) (abs_ledger gid (ledger_view w s'))"
proof -
  let ?y = "milli (bp_balance p)"
  obtain inc s1 where a: "attach_each w p (Fin 0) xs s = (Inr inc, s1)"
    and r: "(if truthy (Num inc)
       then bind (bind (c_update (pw_pools w) (bp_id p) (\<lambda>_. True) (add_balance inc)) (or_fail ''POOL_NOT_FOUND'' 404))
              (\<lambda>updated. ret (p\<lparr>bp_balance := bp_balance updated\<rparr>)) else ret p) s1 = (Inr p', s')"
    using assms(3) unfolding attachEmployeesToPool_def by (rule bind_InrE)
  have l: "0 + 1000000000 * int (length xs) \<le> LIMIT" "0 + Suc k * length xs \<le> 4096"
    using assms(9,10) by (simp_all add: LIMIT_def)
  obtain es' i where v: "world_view w s1 = ((gs, ps, es'), ms)" and n: "near (0 + Suc k * length xs) i inc"
    and i: "0 \<le> i" "i \<le> 0 + 1000000000 * int (length xs)"
    and st: "\<forall>y. pool_step\<^sup>*\<^sup>* (pooled (abs_ledger gid (gs, ps, es)) (bp_id p) (y + 0)) (pooled (abs_ledger gid (gs, ps, es')) (bp_id p) (y + i))"
    using attach_each_steps [OF assms(1,2) a assms(4,5) near_zero order_refl l] by (elim exE conjE) (rule that)
  have st: "pool_step\<^sup>*\<^sup>* (abs_ledger gid (gs, ps, es)) (pooled (abs_ledger gid (gs, ps, es')) (bp_id p) (?y + i))"
    using st [rule_format, of ?y] pooled_abs [of ps, OF p(1,2)] by simp
  show ?thesis
  proof (cases "truthy (Num inc)")
    case True
    then obtain d' where "c_update (pw_pools w) (bp_id p) (\<lambda>_. True) (add_balance inc) s1 = (Inr (Some d'), s')"
      using r by (auto elim!: bind_InrE simp: check_Inr)
    from upd_pool [OF assms(1) v this] p(1) have v': "world_view w s' = ((gs, ps(bp_id p \<mapsto> add_balance inc p), es'), ms)"
      by (metis option.inject)
    have "near (Suc (k + (0 + Suc k * length xs))) (?y + i) (n_add (bp_balance p) inc)"
    proof (rule near_add [OF _ n])
      show "near k ?y (bp_balance p)" using p(3) by (simp add: money_ok_def)
      show "\<bar>?y + i\<bar> \<le> LIMIT" using p(3) i assms(10) by (simp add: money_ok_def LIMIT_def)
      show "k + (0 + Suc k * length xs) \<le> 4096" using assms(9) by simp
    qed
    then have "milli (n_add (bp_balance p) inc) = ?y + i" by (rule milli_near) (use assms(9) in simp)
    moreover have "active_pool gid (add_balance inc p)" using p(2) by (simp add: add_balance_def active_pool_def)
    ultimately have "abs_ledger gid (ledger_view w s') = pooled (abs_ledger gid (gs, ps, es')) (bp_id p) (?y + i)"
      by (simp add: view_ledger [OF v'] abs_pool_upd pooled_def add_balance_def)
    then show ?thesis using st by simp
  next
    case False
    then have "inc = Fin 0" using n by (cases inc) (auto simp: near_def)
    then have "i = 0" using near_unique [OF n, of 0 0] near_zero l(2) by simp
    moreover have "s' = s1" using r False by (simp split: if_splits)
    ultimately show ?thesis using st pooled_abs [of ps, OF p(1,2), where es = es'] view_ledger [OF v] by simp
  qed
qed

lemma attach_work_refines:
  assumes "pool_store w" "manages manager gid" "length (uniqueIds ids) \<le> m" "m \<le> 1000"
  shows "refines w k m gid (attach_work w manager gid poolId ids)"
proof (rule refinesI)
  fix s a s' gs ps es ms
  assume v: "world_view w s = ((gs, ps, es), ms)" and wf: "pools_wf k gid (gs, ps, es)" and km: "Suc k * Suc m \<le> 2000"
    and run: "attach_work w manager gid poolId ids s = (Inr a, s')"
  obtain p s1 xs s2 where lp: "loadOwnedPool w manager poolId s = (Inr p, s1)"
    and le: "loadExternalEmployees w gid ids s1 = (Inr xs, s2)"
    and r: "andThen (require (xs \<noteq> []) ''NO_MEMBERS'' 400) (bind (attachEmployeesToPool w p xs) (\<lambda>_. ret Done)) s2 = (Inr a, s')"
    using run unfolding attach_work_def by (elim bind_InrE) blast
  obtain p' where at: "attachEmployeesToPool w p xs s2 = (Inr p', s')"
    using r by (auto elim!: bind_InrE andThen_InrE simp: check_Inr)
  note o = owned_pool [OF assms(1) v lp assms(2)]
  note e = external_members [OF assms(1) o(3) wf le]
  have b: "bp_id p = poolId" using pools_wfD(2) [OF wf o(1)] .
  have kx: "Suc k * Suc (length xs) \<le> 2000" "length xs \<le> 1000"
    using e(3) assms(3,4) le_trans [OF mult_le_mono2 [of "Suc (length xs)" "Suc m" "Suc k"] km] by simp_all
  show "pool_step\<^sup>*\<^sup>* (abs_ledger gid (gs, ps, es)) (abs_ledger gid (ledger_view w s'))"
    using attach_steps [OF assms(1) e(1) at e(4,2) _ o(2) pools_wfD(3) [OF wf o(1,2)] kx] o(1) b by simp
qed

lemma archive_work_refines:
  assumes "pool_store w" "manages manager gid"
  shows "refines w k m gid (archive_work w manager gid poolId)"
proof (rule refinesI)
  fix s a s' gs ps es ms
  assume v: "world_view w s = ((gs, ps, es), ms)" and wf: "pools_wf k gid (gs, ps, es)" and km: "Suc k * Suc m \<le> 2000"
    and run: "archive_work w manager gid poolId s = (Inr a, s')"
  obtain p s1 xs s2 where lp: "loadOwnedPool w manager poolId s = (Inr p, s1)"
    and fm: "c_findMany (pw_executors w) (member_of gid p) s1 = (Inr xs, s2)"
    and r: "andThen (require (xs = []) ''POOL_HAS_MEMBERS'' 400)
         (andThen (require (\<not> n_lt (Fin 0) (or_zero (bp_balance p))) ''POOL_HAS_BALANCE'' 400)
           (bind (bind (c_update (pw_pools w) (bp_id p) (\<lambda>_. True)
                    (\<lambda>d. d\<lparr>bp_archived := True, bp_archivedBy := ex_id (the manager)\<rparr>)) (or_fail ''DocumentNotFoundError'' 0))
              (\<lambda>_. ret Done))) s2 = (Inr a, s')"
    using run unfolding archive_work_def by (elim bind_InrE) blast
  note o = owned_pool [OF assms(1) v lp assms(2)]
  note f = find_executors [OF assms(1) o(3) fm pools_wfD(4) [OF wf]]
  obtain d' where none: "xs = []" and le0: "\<not> n_lt (Fin 0) (or_zero (bp_balance p))"
    and up: "c_update (pw_pools w) (bp_id p) (\<lambda>_. True) (\<lambda>d. d\<lparr>bp_archived := True, bp_archivedBy := ex_id (the manager)\<rparr>) s2 = (Inr (Some d'), s')"
    using r by (auto elim!: bind_InrE andThen_InrE simp: check_Inr)
  have b: "bp_id p = poolId" using pools_wfD(2) [OF wf o(1)] .
  obtain d where d: "ps (bp_id p) = Some d" "world_view w s' = ((gs, ps(bp_id p \<mapsto> d\<lparr>bp_archived := True, bp_archivedBy := ex_id (the manager)\<rparr>), es), ms)"
    by (rule upd_pool [OF assms(1) f(1) up]) blast
  have m: "money_ok k (bp_balance p)" using pools_wfD(3) [OF wf o(1,2)] .
  have "milli (bp_balance p) \<le> 0"
  proof -
    obtain y where y: "bp_balance p = Fin y" using m near_Fin by (fastforce simp: money_ok_def)
    have "n_le (bp_balance p) (Fin 0)" using le0 near_money [OF m] y by simp
    moreover have "k \<le> 4096" using km by simp
    ultimately show ?thesis using m near_le [OF near_zero, of k "milli (bp_balance p)" "bp_balance p"] by (simp add: money_ok_def)
  qed
  then have z: "milli (bp_balance p) = 0" using m by (simp add: money_ok_def)
  have "\<not> active_pool gid (d\<lparr>bp_archived := True, bp_archivedBy := ex_id (the manager)\<rparr>)" by (simp add: active_pool_def)
  then have abs': "abs_ledger gid (ledger_view w s') = (abs_ledger gid (gs, ps, es))\<lparr>la_pool := (la_pool (abs_ledger gid (gs, ps, es)))(poolId := None)\<rparr>"
    by (simp add: view_ledger [OF d(2)] abs_pool_upd(2) b)
  have "la_member (abs_ledger gid (gs, ps, es)) e \<noteq> Some (In_pool poolId)" for e
  proof
    assume "la_member (abs_ledger gid (gs, ps, es)) e = Some (In_pool poolId)"
    then obtain x where "es e = Some x" "is_external gid x" "ex_balancePoolId x = Some poolId" unfolding abs_member_In by blast
    then have "x \<in> set xs" using f(3) [of x] pools_wfD(4) [OF wf] b by (simp add: member_of_def)
    then show False using none by simp
  qed
  then have "pool_step (abs_ledger gid (gs, ps, es)) (abs_ledger gid (ledger_view w s'))"
    unfolding abs' by (intro pool_step.archive) (use abs_pool [of ps, OF o(1,2)] z in simp_all)
  then show "pool_step\<^sup>*\<^sup>* (abs_ledger gid (gs, ps, es)) (abs_ledger gid (ledger_view w s'))" by blast
qed

lemma near_k: "money_ok k v \<Longrightarrow> near k (milli v) v \<and> 0 \<le> milli v \<and> milli v \<le> 1000000000"
  by (simp add: money_ok_def)

lemma money_NaN: "money_ok k v \<Longrightarrow> v \<noteq> NaN"
  by (auto simp: money_ok_def near_def)

lemma milli_falsy: "money_ok k v \<Longrightarrow> k \<le> 4096 \<Longrightarrow> \<not> truthy (Num v) \<Longrightarrow> v = Fin 0"
  using money_NaN by auto

lemma detach_work_refines:
  assumes "pool_store w" "manages manager gid"
  shows "refines w k m gid (detach_work w manager gid poolId employeeId)"
proof (rule refinesI)
  fix s a s' gs ps es ms
  assume v: "world_view w s = ((gs, ps, es), ms)" and wf: "pools_wf k gid (gs, ps, es)" and km: "Suc k * Suc m \<le> 2000"
    and run: "detach_work w manager gid poolId employeeId s = (Inr a, s')"
  have k: "k \<le> 1000 \<or> m = 0" "k \<le> 1999" using km by (cases m; simp)+
  obtain p s1 x s2 where lp: "loadOwnedPool w manager poolId s = (Inr p, s1)" and g: "c_get (pw_executors w) employeeId s1 = (Inr x, s2)"
    and r0: "(case x of None \<Rightarrow> fail ''EMPLOYEE_NOT_FOUND'' 404
       | Some e \<Rightarrow> if \<not> is_external gid e then fail ''EMPLOYEE_NOT_FOUND'' 404
           else if ex_balancePoolId e \<noteq> Some (bp_id p) then fail ''NOT_IN_POOL'' 400
           else bind (c_findMany (pw_executors w) (\<lambda>d. member_of gid p d \<and> ex_id d \<noteq> ex_id e)) (\<lambda>others.
             if others = [] then let poolBalance = or_zero (bp_balance p) in
                  andThen (empty_pool w p poolBalance)
                    (andThen (save_executor w (ex_id e) (n_add (or_zero (ex_balance e)) poolBalance) None) (ret Done))
             else andThen (save_executor w (ex_id e) (Fin 0) None) (ret Done))) s2 = (Inr a, s')"
    using run unfolding detach_work_def by (elim bind_InrE) blast
  note o = owned_pool [OF assms(1) v lp assms(2)]
  note ge = get_executor [OF assms(1) o(3) g]
  obtain e where e: "x = Some e" "is_external gid e" "ex_balancePoolId e = Some (bp_id p)"
    using r0 by (auto split: option.splits if_splits)
  obtain others s3 where fm: "c_findMany (pw_executors w) (\<lambda>d. member_of gid p d \<and> ex_id d \<noteq> ex_id e) s2 = (Inr others, s3)"
    and r: "(if others = [] then andThen (empty_pool w p (or_zero (bp_balance p)))
                    (andThen (save_executor w (ex_id e) (n_add (or_zero (ex_balance e)) (or_zero (bp_balance p))) None) (ret Done))
             else andThen (save_executor w (ex_id e) (Fin 0) None) (ret Done)) s3 = (Inr a, s')"
    using r0 e unfolding Let_def by (auto elim!: bind_InrE)
  note f = find_executors [OF assms(1) ge(2) fm pools_wfD(4) [OF wf]]
  have ee: "es employeeId = Some e" using ge(1) e(1) by simp
  have id: "ex_id e = employeeId" "bp_id p = poolId" using pools_wfD(4) [OF wf ee] pools_wfD(2) [OF wf o(1)] .
  have mp: "money_ok k (bp_balance p)" using pools_wfD(3) [OF wf o(1,2)] .
  have me: "money_ok k (ex_balance e)" "milli (ex_balance e) = 0" using pools_wfD(5,6) [OF wf ee e(2)] e(3) by blast+
  let ?a = "abs_ledger gid (gs, ps, es)"
  have am: "la_member ?a employeeId = Some (In_pool poolId)" using abs_member [of es, OF ee e(2)] e(3) id by simp
  have ap: "la_pool ?a poolId = Some (milli (bp_balance p))" using abs_pool [of ps, OF o(1,2)] .
  have other: "la_member ?a d = Some (In_pool poolId) \<and> d \<noteq> employeeId \<longleftrightarrow> (\<exists>y\<in>set others. ex_id y = d)" for d
  proof -
    have mem: "y \<in> set others \<longleftrightarrow> es (ex_id y) = Some y \<and> is_external gid y \<and> ex_balancePoolId y = Some poolId \<and> ex_id y \<noteq> employeeId" for y
      using f(3) [of y] by (simp add: member_of_def id conj_ac)
    show ?thesis
    proof
      assume "la_member ?a d = Some (In_pool poolId) \<and> d \<noteq> employeeId"
      then obtain y where "es d = Some y" "is_external gid y" "ex_balancePoolId y = Some poolId" "d \<noteq> employeeId"
        unfolding abs_member_In by blast
      moreover have "ex_id y = d" using pools_wfD(4) [OF wf] \<open>es d = Some y\<close> .
      ultimately show "\<exists>y\<in>set others. ex_id y = d" using mem by blast
    next
      assume "\<exists>y\<in>set others. ex_id y = d"
      then show "la_member ?a d = Some (In_pool poolId) \<and> d \<noteq> employeeId" unfolding abs_member_In using mem by blast
    qed
  qed
  show "pool_step\<^sup>*\<^sup>* ?a (abs_ledger gid (ledger_view w s'))"
  proof (cases "others = []")
    case False
    then have "save_executor w (ex_id e) (Fin 0) None s3 = (Inr (), s')"
      using r by (auto elim!: andThen_InrE)
    then have sv: "save_executor w (ex_id e) (Fin 0) None s3 = (Inr (), s')" .
    obtain d where d: "es (ex_id e) = Some d" "world_view w s' = ((gs, ps, es(ex_id e \<mapsto> d\<lparr>ex_balance := Fin 0, ex_balancePoolId := None\<rparr>)), ms)"
      by (rule saved_executor [OF assms(1) f(1) sv])
    have "d = e" using d(1) ee id by simp
    then have "is_external gid (d\<lparr>ex_balance := Fin 0, ex_balancePoolId := None\<rparr>)" using e(2) by (simp add: is_external_def active_executor_def)
    then have "abs_ledger gid (ledger_view w s') = ?a\<lparr>la_member := (la_member ?a)(employeeId \<mapsto> Solo 0)\<rparr>"
      by (simp add: view_ledger [OF d(2)] abs_executor_upd id milli_0)
    moreover obtain y where "y \<in> set others" using False by (cases others) auto
    then have "la_member ?a (ex_id y) = Some (In_pool poolId)" "ex_id y \<noteq> employeeId" using other [of "ex_id y"] by blast+
    ultimately show ?thesis using pool_step.leave [OF am] by (intro r_into_rtranclp) simp
  next
    case True
    let ?y = "bp_balance p"
    obtain s4 where em: "empty_pool w p ?y s3 = (Inr (), s4)"
      and sv: "save_executor w (ex_id e) (n_add (ex_balance e) ?y) None s4 = (Inr (), s')"
      using r True near_money [OF mp] near_money [OF me(1)] by (auto elim!: andThen_InrE)
    obtain ps' where ps': "world_view w s4 = ((gs, ps', es), ms)"
      "\<And>es'. abs_ledger gid (gs, ps', es') = (abs_ledger gid (gs, ps, es'))\<lparr>la_pool := (la_pool (abs_ledger gid (gs, ps, es')))(poolId \<mapsto> 0)\<rparr>"
    proof (cases "truthy (Num ?y)")
      case True
      then obtain d' where up: "c_update (pw_pools w) (bp_id p) (\<lambda>d. n_le ?y (bp_balance d)) (add_balance (n_neg ?y)) s3 = (Inr (Some d'), s4)"
        using em unfolding empty_pool_def by (auto elim!: bind_InrE simp: check_Inr)
      obtain d where d: "ps (bp_id p) = Some d" "world_view w s4 = ((gs, ps(bp_id p \<mapsto> add_balance (n_neg ?y) d), es), ms)"
        by (rule upd_pool [OF assms(1) f(1) up]) blast
      have dp: "d = p" using d(1) o(1) id by simp
      have "active_pool gid (add_balance (n_neg ?y) p)" using o(2) by (simp add: add_balance_def active_pool_def)
      moreover have "milli (bp_balance (add_balance (n_neg ?y) p)) = 0"
      proof -
        have "near (Suc (k + k)) (milli ?y + - milli ?y) (n_add ?y (n_neg ?y))"
          by (rule near_add) (use near_k [OF mp] near_neg k in \<open>simp_all add: LIMIT_def\<close>)
        then have "milli (n_add ?y (n_neg ?y)) = milli ?y + - milli ?y" by (rule milli_near) (use k in simp)
        then show ?thesis by (simp add: add_balance_def)
      qed
      ultimately show ?thesis using that [OF d(2)] by (simp add: abs_pool_upd dp id)
    next
      case False
      then have z: "?y = Fin 0" using milli_falsy [OF mp] k by simp
      have "s4 = s3" using em False by (simp add: empty_pool_def split: if_splits)
      moreover have "(la_pool (abs_ledger gid (gs, ps, es')))(poolId \<mapsto> 0) = la_pool (abs_ledger gid (gs, ps, es'))" for es'
        using abs_pool [of ps, OF o(1,2)] z by (simp add: milli_0 fun_upd_idem)
      ultimately show ?thesis using that [of ps] f(1) by simp
    qed
    obtain d where d: "es (ex_id e) = Some d"
      "world_view w s' = ((gs, ps', es(ex_id e \<mapsto> d\<lparr>ex_balance := n_add (ex_balance e) ?y, ex_balancePoolId := None\<rparr>)), ms)"
      by (rule saved_executor [OF assms(1) ps'(1) sv])
    have de: "d = e" using d(1) ee id by simp
    then have "is_external gid (d\<lparr>ex_balance := n_add (ex_balance e) ?y, ex_balancePoolId := None\<rparr>)" using e(2) by (simp add: is_external_def active_executor_def)
    moreover have "milli (n_add (ex_balance e) ?y) = milli ?y"
    proof -
      have "near (Suc (k + k)) (milli (ex_balance e) + milli ?y) (n_add (ex_balance e) ?y)"
        by (rule near_add) (use near_k [OF mp] near_k [OF me(1)] k in \<open>simp_all add: LIMIT_def\<close>)
      then have "milli (n_add (ex_balance e) ?y) = milli (ex_balance e) + milli ?y" by (rule milli_near) (use k in simp)
      then show ?thesis using me(2) by simp
    qed
    ultimately have abs': "abs_ledger gid (ledger_view w s') = ?a\<lparr>la_pool := (la_pool ?a)(poolId \<mapsto> 0), la_member := (la_member ?a)(employeeId \<mapsto> Solo (milli ?y))\<rparr>"
      by (simp add: view_ledger [OF d(2)] abs_executor_upd ps'(2) id)
    have "\<forall>d. d \<noteq> employeeId \<longrightarrow> la_member ?a d \<noteq> Some (In_pool poolId)" using other True by (metis empty_iff list.set(1))
    from pool_step.leave_last [OF am this ap] show ?thesis unfolding abs' by (rule r_into_rtranclp)
  qed
qed

section \<open>Creating a pool\<close>

lemma keeps_unique: "pool_store w \<Longrightarrow> keeps (world_view w) (assertUniquePoolName w gid name x)"
  unfolding assertUniquePoolName_def require_def throw_if_def by (intro keeps_intros store_reads)

lemma create_work_refines:
  assumes "pool_store w" "manages manager gid" "length (uniqueIds ids) \<le> m" "m \<le> 1000"
  shows "refines w k m gid (create_work w manager gid name ids newId)"
proof (rule refinesI)
  fix s a s' gs ps es ms
  assume v: "world_view w s = ((gs, ps, es), ms)" and wf: "pools_wf k gid (gs, ps, es)" and km: "Suc k * Suc m \<le> 2000"
    and run: "create_work w manager gid name ids newId s = (Inr a, s')"
  let ?p = "new_pool newId name gid (the manager)"
  obtain u s1 xs s2 s3 p' where as: "assertUniquePoolName w gid name None s = (Inr u, s1)"
    and le: "loadExternalEmployees w gid ids s1 = (Inr xs, s2)"
    and ins: "c_insert (pw_pools w) newId ?p s2 = (Inr (), s3)" and at: "attachEmployeesToPool w ?p xs s3 = (Inr p', s')"
    using run unfolding create_work_def Let_def by (elim bind_InrE andThen_InrE) auto
  have v1: "world_view w s1 = ((gs, ps, es), ms)" using keepsD [OF keeps_unique [OF assms(1)] as] v by simp
  note e = external_members [OF assms(1) v1 wf le]
  note i = ins_pool [OF assms(1) e(1) ins]
  have p: "bp_id ?p = newId" "bp_balance ?p = Fin 0" "active_pool gid ?p" "money_ok k (Fin 0)"
    using near_mono [OF near_zero, of k] by (simp_all add: new_pool_def active_pool_def money_ok_def milli_0)
  have kx: "Suc k * Suc (length xs) \<le> 2000" "length xs \<le> 1000"
    using e(3) assms(3,4) le_trans [OF mult_le_mono2 [of "Suc (length xs)" "Suc m" "Suc k"] km] by simp_all
  have "pool_step\<^sup>*\<^sup>* (abs_ledger gid (gs, ps(newId \<mapsto> ?p), es)) (abs_ledger gid (ledger_view w s'))"
    by (rule attach_steps [OF assms(1) i(2) at e(4,2) _ p(3) _ kx]) (simp_all add: p)
  moreover have "pool_step (abs_ledger gid (gs, ps, es)) (abs_ledger gid (gs, ps(newId \<mapsto> ?p), es))"
  proof -
    have "la_pool (abs_ledger gid (gs, ps, es)) newId = None" using i(1) by (simp add: abs_ledger_def)
    from pool_step.create [OF this] show ?thesis by (simp add: abs_pool_upd(1) p milli_0)
  qed
  ultimately show "pool_step\<^sup>*\<^sup>* (abs_ledger gid (gs, ps, es)) (abs_ledger gid (ledger_view w s'))"
    by (rule converse_rtranclp_into_rtranclp [rotated])
qed

section \<open>Moving funds\<close>

lemma primary_inc: "li_balance (primaryServiceBalanceInc (Obj g) (Num a)) = Some (or_zero a)"
  by (simp add: primaryServiceBalanceInc_def serviceLedgerInc_def primary_key opt_val_def norm_key [OF primary_key(2)] Let_def)

lemma apply_inc_balance:
  "get (Obj d) ''balance'' = Num n \<Longrightarrow> a \<noteq> NaN \<Longrightarrow> n \<noteq> NaN
    \<Longrightarrow> get (Obj (apply_inc d (primaryServiceBalanceInc (Obj g) (Num a)))) ''balance'' = Num (n_add n a)"
  by (simp add: apply_inc_def primary_inc get_obj_set num_or_0_Num or_zero_def del: get.simps)

text \<open>An amount that passes a comparison with a stored balance is a sum of money of at most that balance.\<close>

lemma amount_form:
  assumes "parseAmount v s = (Inr amount, s')"
  shows "s' = s \<and> (amount = PInf \<or> (\<exists>r. amount = num (of_int r / 100) \<and> 0 \<le> r))"
proof -
  obtain y where y: "toNumber v = Fin y" "0 < y" "amount = n_div (n_round (n_mul (Fin y) (Fin 100))) (Fin 100)" "s' = s"
    using assms by (cases "toNumber v") (auto simp: parseAmount_def fail_def Let_def split: if_splits)
  consider "num (y * 100) = PInf" | z where "num (y * 100) = Fin z" "0 \<le> z" using num_nonneg [of "y * 100"] y(2) by auto
  then show ?thesis
  proof cases
    case 1
    then show ?thesis using y(3,4) by simp
  next
    case (2 z)
    have "0 \<le> \<lfloor>z + 1 / 2\<rfloor>" using 2(2) by simp
    then show ?thesis using y(3,4) 2(1) by auto
  qed
qed

lemma amount_below:
  assumes "amount = PInf \<or> (\<exists>r. amount = num (of_int r / 100) \<and> 0 \<le> r)" "n_le amount v" "money_ok k v" "k \<le> 1999"
  shows "near 1 (milli amount) amount \<and> 0 \<le> milli amount \<and> milli amount \<le> milli v"
proof -
  obtain y where y: "v = Fin y" "\<bar>y - of_int (milli v) / 1000\<bar> \<le> of_nat k / 2 ^ 23"
    using near_Fin near_k [OF assms(3)] by blast
  have "of_nat k / 2 ^ 23 \<le> (1 :: rat)" using assms(4) by simp
  moreover have "of_int (milli v) / 1000 \<le> (1000000 :: rat)" using near_k [OF assms(3)] by simp
  ultimately have y1: "y \<le> 1000001" using y(2) by linarith
  obtain r where r: "amount = num (of_int r / 100)" "0 \<le> r" using assms(1,2) y(1) by (auto simp: n_le_def)
  have "r \<le> 100000200"
  proof (rule ccontr)
    assume "\<not> r \<le> 100000200"
    then have "(1000002 :: rat) \<le> of_int r / 100" by simp
    then have "n_le (num 1000002) amount" unfolding r(1) by (rule n_le_num)
    then have "n_le (Fin 1000002) v" using n_le_trans [OF _ assms(2)] by simp
    then show False using y(1) y1 by simp
  qed
  then have l: "\<bar>10 * r\<bar> \<le> LIMIT" using r(2) by (simp add: LIMIT_def)
  have "amount = dec 3 (10 * r)" by (simp add: r(1) dec_def)
  then have n: "near 1 (10 * r) amount" using near_dec [OF l] by simp
  then have m: "milli amount = 10 * r" by (rule milli_near) simp
  have "10 * r \<le> milli v" using near_le [OF _ n assms(2), of k "milli v"] near_k [OF assms(3)] assms(4) by simp
  then show ?thesis using n m r(2) by simp
qed

lemma funded_solo:
  assumes "gs gid = Some d" "get (Obj d) ''balance'' = Num n" "get (Obj d') ''balance'' = Num n'" "milli n' = milli n - x"
    and "es i = Some e" "is_external gid e" "ex_balancePoolId e = None" "milli b' = milli (ex_balance e) + x"
    and "x \<le> 0 \<or> x \<le> milli n" "0 \<le> milli (ex_balance e) + x"
  shows "pool_step (abs_ledger gid (gs, ps, es)) (abs_ledger gid (gs(gid \<mapsto> d'), ps, es(i \<mapsto> e\<lparr>ex_balance := b'\<rparr>)))"
proof -
  let ?a = "abs_ledger gid (gs, ps, es)"
  have ext: "is_external gid (e\<lparr>ex_balance := b'\<rparr>)" using assms(6) by (simp add: is_external_def active_executor_def)
  have m: "la_member ?a i = Some (Solo (milli (ex_balance e)))" using abs_member [of es, OF assms(5,6)] assms(7) by simp
  have p: "la_private ?a = milli n" using abs_private [of gs, OF assms(1)] assms(2) by (simp del: get.simps)
  have "abs_ledger gid (gs(gid \<mapsto> d'), ps, es(i \<mapsto> e\<lparr>ex_balance := b'\<rparr>))
      = ?a\<lparr>la_private := milli n - x, la_member := (la_member ?a)(i \<mapsto> Solo (milli (ex_balance e) + x))\<rparr>"
    by (simp add: abs_executor_upd [OF ext] abs_group_upd assms(3,4,7,8) del: get.simps)
  then show ?thesis using pool_step.fund_solo [OF m, of x] assms(9,10) p by simp
qed

lemma funded_pool:
  assumes "gs gid = Some d" "get (Obj d) ''balance'' = Num n" "get (Obj d') ''balance'' = Num n'" "milli n' = milli n - x"
    and "es i = Some e" "is_external gid e" "ex_balancePoolId e = Some j" "ps j = Some p" "active_pool gid p"
    and "milli b' = milli (bp_balance p) + x" "x \<le> 0 \<or> x \<le> milli n" "0 \<le> milli (bp_balance p) + x"
  shows "pool_step (abs_ledger gid (gs, ps, es)) (abs_ledger gid (gs(gid \<mapsto> d'), ps(j \<mapsto> p\<lparr>bp_balance := b'\<rparr>), es))"
proof -
  let ?a = "abs_ledger gid (gs, ps, es)"
  have act: "active_pool gid (p\<lparr>bp_balance := b'\<rparr>)" using assms(9) by (simp add: active_pool_def)
  have m: "la_member ?a i = Some (In_pool j)" using abs_member [of es, OF assms(5,6)] assms(7) by simp
  have q: "la_pool ?a j = Some (milli (bp_balance p))" using abs_pool [of ps, OF assms(8,9)] .
  have r: "la_private ?a = milli n" using abs_private [of gs, OF assms(1)] assms(2) by (simp del: get.simps)
  have "abs_ledger gid (gs(gid \<mapsto> d'), ps(j \<mapsto> p\<lparr>bp_balance := b'\<rparr>), es)
      = ?a\<lparr>la_private := milli n - x, la_pool := (la_pool ?a)(j \<mapsto> milli (bp_balance p) + x)\<rparr>"
    by (simp add: abs_pool_upd(1) [OF act] abs_group_upd assms(3,4,10) del: get.simps)
  then show ?thesis using pool_step.fund_pool [OF m q, of x] assms(11,12) r by simp
qed

lemma company_added:
  assumes "pool_store w" "world_view w s = ((gs, ps, es), ms)" "add_to_company w gid g ok amount c st s = (Inr u, s')"
    and "gs gid = Some d" "get (Obj d) ''balance'' = Num n" "n \<noteq> NaN" "amount \<noteq> NaN"
  obtains d' where "ok n" "world_view w s' = ((gs(gid \<mapsto> d'), ps, es), ms)" "get (Obj d') ''balance'' = Num (n_add n amount)"
proof -
  obtain d0 where up: "c_update (pw_groups w) gid (\<lambda>d. ok (toNumber (get (Obj d) ''balance'')))
      (\<lambda>d. apply_inc d (primaryServiceBalanceInc (Obj g) (Num amount))) s = (Inr (Some d0), s')"
    using assms(3) unfolding add_to_company_def by (auto elim!: bind_InrE simp: check_Inr simp del: get.simps)
  show ?thesis
    by (rule upd_group [OF assms(1,2) up])
       (rule that, use assms(4,5) apply_inc_balance [OF assms(5,7,6)] in \<open>simp_all del: get.simps\<close>)
qed

lemma target_added:
  assumes "pool_store w" "world_view w s = ((gs, ps, es), ms)" "add_to_target w e t ok amount c st s = (Inr u, s')"
  shows "t = None \<Longrightarrow> es (ex_id e) = Some x \<Longrightarrow> ok (ex_balance x)
      \<and> world_view w s' = ((gs, ps, es(ex_id e \<mapsto> x\<lparr>ex_balance := n_add (ex_balance x) amount\<rparr>)), ms)"
    and "t = Some q \<Longrightarrow> ps (bp_id q) = Some y \<Longrightarrow> ok (bp_balance y)
      \<and> world_view w s' = ((gs, ps(bp_id q \<mapsto> y\<lparr>bp_balance := n_add (bp_balance y) amount\<rparr>), es), ms)"
proof -
  assume t: "t = None" and x: "es (ex_id e) = Some x"
  then obtain d0 where up: "c_update (pw_executors w) (ex_id e) (\<lambda>d. ok (ex_balance d))
      (\<lambda>d. d\<lparr>ex_balance := n_add (ex_balance d) amount\<rparr>) s = (Inr (Some d0), s')"
    using assms(3) unfolding add_to_target_def by (auto elim!: bind_InrE simp: check_Inr)
  show "ok (ex_balance x) \<and> world_view w s' = ((gs, ps, es(ex_id e \<mapsto> x\<lparr>ex_balance := n_add (ex_balance x) amount\<rparr>)), ms)"
    by (rule upd_executor [OF assms(1,2) up]) (simp add: x)
next
  assume t: "t = Some q" and y: "ps (bp_id q) = Some y"
  then obtain d0 where up: "c_update (pw_pools w) (bp_id q) (\<lambda>d. ok (bp_balance d)) (add_balance amount) s = (Inr (Some d0), s')"
    using assms(3) unfolding add_to_target_def by (auto elim!: bind_InrE simp: check_Inr)
  show "ok (bp_balance y) \<and> world_view w s' = ((gs, ps(bp_id q \<mapsto> y\<lparr>bp_balance := n_add (bp_balance y) amount\<rparr>), es), ms)"
    by (rule upd_pool [OF assms(1,2) up]) (simp add: y add_balance_def)
qed

lemma added_amount:
  assumes "money_ok k v" "near 1 x a" "\<bar>x\<bar> \<le> 1000000000" "k \<le> 1999"
  shows "milli (n_add v a) = milli v + x"
proof -
  have "near (Suc (k + 1)) (milli v + x) (n_add v a)"
  proof (rule near_add [OF _ assms(2)])
    have "0 \<le> milli v" "milli v \<le> 1000000000" using near_k [OF assms(1)] by simp_all
    then show "\<bar>milli v + x\<bar> \<le> LIMIT" unfolding LIMIT_def using assms(3) by (simp add: abs_le_iff)
  qed (use near_k [OF assms(1)] assms(4) in simp_all)
  then show ?thesis by (rule milli_near) (use assms(4) in simp)
qed

lemma pool_of_found:
  assumes "pool_store w" "world_view w s = ((gs, ps, es), ms)" "pool_of w gid e s = (Inr t, s')"
  shows "world_view w s' = ((gs, ps, es), ms)"
    "case ex_balancePoolId e of None \<Rightarrow> t = None | Some i \<Rightarrow> (\<exists>q. t = Some q \<and> ps i = Some q \<and> active_pool gid q)"
proof -
  show "world_view w s' = ((gs, ps, es), ms)"
  proof (cases "ex_balancePoolId e")
    case (Some i)
    then obtain x s1 where g: "c_get (pw_pools w) i s = (Inr x, s1)" and "s' = s1"
      using assms(3) by (auto simp: pool_of_def fail_def elim!: bind_InrE split: option.splits if_splits)
    then show ?thesis using get_pool [OF assms(1,2) g] by simp
  qed (use assms(2,3) in \<open>simp add: pool_of_def\<close>)
  show "case ex_balancePoolId e of None \<Rightarrow> t = None | Some i \<Rightarrow> (\<exists>q. t = Some q \<and> ps i = Some q \<and> active_pool gid q)"
  proof (cases "ex_balancePoolId e")
    case (Some i)
    then obtain x s1 where g: "c_get (pw_pools w) i s = (Inr x, s1)" and "\<exists>q. x = Some q \<and> t = Some q \<and> active_pool gid q"
      using assms(3) by (auto simp: pool_of_def fail_def elim!: bind_InrE split: option.splits if_splits)
    then show ?thesis using get_pool [OF assms(1,2) g] Some by auto
  qed (use assms(3) in \<open>simp add: pool_of_def\<close>)
qed

text \<open>Moving funds, once the executor and the target are known.\<close>

lemma move_funds_step:
  assumes "pool_store w" "world_view w s = ((gs, ps, es), ms)" "pools_wf k gid (gs, ps, es)" "k \<le> 1999"
    and "move_funds w gid g e t typ amount s = (Inr u, s')"
    and e: "es i = Some e" "is_external gid e"
    and t: "case ex_balancePoolId e of None \<Rightarrow> t = None | Some j \<Rightarrow> (\<exists>q. t = Some q \<and> ps j = Some q \<and> active_pool gid q)"
    and form: "amount = PInf \<or> (\<exists>r. amount = num (of_int r / 100) \<and> 0 \<le> r)" and gd: "gs gid \<noteq> None"
  shows "pool_step (abs_ledger gid (gs, ps, es)) (abs_ledger gid (ledger_view w s')) \<and> (\<exists>v. world_view w s' = (v, ms))"
proof -
  obtain d n where d: "gs gid = Some d" "get (Obj d) ''balance'' = Num n" "money_ok k n"
    using gd pools_wfD(1) [OF assms(3)] by blast
  have "amount \<noteq> NaN" using form num_not_NaN by (metis jsnum.distinct(1))
  then have nn: "n \<noteq> NaN" "amount \<noteq> NaN" "n_neg amount \<noteq> NaN"
    using money_NaN [OF d(3)] by (cases amount; simp)+
  have id: "ex_id e = i" using pools_wfD(4) [OF assms(3) e(1)] .
  have me: "money_ok k (ex_balance e)" using pools_wfD(5) [OF assms(3) e] .
  show ?thesis
  proof (cases "typ = ''deposit''")
    case True
    obtain s1 where c: "add_to_company w gid g (n_le amount) (n_neg amount) ''INSUFFICIENT_PRIVATE_BALANCE'' 400 s = (Inr (), s1)"
      and r: "add_to_target w e t (\<lambda>_. True) amount (case t of None \<Rightarrow> ''EMPLOYEE_NOT_FOUND'' | Some _ \<Rightarrow> ''POOL_NOT_FOUND'') 409 s1 = (Inr u, s')"
      using assms(5) True unfolding move_funds_def by (auto elim!: andThen_InrE)
    obtain d' where ok: "n_le amount n" and v1: "world_view w s1 = ((gs(gid \<mapsto> d'), ps, es), ms)"
      and b: "get (Obj d') ''balance'' = Num (n_add n (n_neg amount))"
      by (rule company_added [OF assms(1,2) c d(1,2) nn(1,3)])
    let ?x = "milli amount"
    have x: "near 1 ?x amount" "0 \<le> ?x" "?x \<le> milli n" using amount_below [OF form ok d(3) assms(4)] by blast+
    have xb: "\<bar>?x\<bar> \<le> 1000000000" using x near_k [OF d(3)] by simp
    have m1: "milli (n_add n (n_neg amount)) = milli n - ?x"
      using added_amount [OF d(3) near_neg [OF x(1)] _ assms(4)] xb by simp
    show ?thesis
    proof (cases "ex_balancePoolId e")
      case None
      then have "t = None" using t by simp
      from target_added(1) [OF assms(1) v1 r this] e(1) id
      have v2: "world_view w s' = ((gs(gid \<mapsto> d'), ps, es(i \<mapsto> e\<lparr>ex_balance := n_add (ex_balance e) amount\<rparr>)), ms)" by simp
      show ?thesis unfolding view_ledger [OF v2]
        using funded_solo [where gs = gs and es = es and gid = gid and i = i and x = ?x, OF d(1,2) b m1 e(1,2) None added_amount [OF me x(1) xb assms(4)]] x near_k [OF me] v2 by auto
    next
      case (Some j)
      then obtain q where q: "t = Some q" "ps j = Some q" "active_pool gid q" using t by auto
      have qid: "bp_id q = j" and mq: "money_ok k (bp_balance q)" using pools_wfD(2,3) [OF assms(3) q(2)] q(3) by blast+
      from target_added(2) [OF assms(1) v1 r q(1)] q(2) qid
      have v2: "world_view w s' = ((gs(gid \<mapsto> d'), ps(j \<mapsto> q\<lparr>bp_balance := n_add (bp_balance q) amount\<rparr>), es), ms)" by simp
      show ?thesis unfolding view_ledger [OF v2]
        using funded_pool [where gs = gs and es = es and ps = ps and gid = gid and i = i and j = j and x = ?x, OF d(1,2) b m1 e(1,2) Some q(2,3) added_amount [OF mq x(1) xb assms(4)]] x near_k [OF mq] v2 by auto
    qed
  next
    case False
    obtain s1 where r: "add_to_target w e t (n_le amount) (n_neg amount) ''INSUFFICIENT_EXECUTOR_BALANCE'' 400 s = (Inr (), s1)"
      and c: "add_to_company w gid g (\<lambda>_. True) amount ''GROUP_NOT_FOUND'' 409 s1 = (Inr u, s')"
      using assms(5) False unfolding move_funds_def by (auto elim!: andThen_InrE simp: check_Inr)
    let ?x = "milli amount"
    have comp: "milli (n_add n amount) = milli n - (- ?x)" if "near 1 ?x amount" "\<bar>?x\<bar> \<le> 1000000000"
      using added_amount [OF d(3) that assms(4)] by simp
    show ?thesis
    proof (cases "ex_balancePoolId e")
      case None
      then have "t = None" using t by simp
      from target_added(1) [OF assms(1,2) r this] e(1) id
      have ok: "n_le amount (ex_balance e)"
        and v1: "world_view w s1 = ((gs, ps, es(i \<mapsto> e\<lparr>ex_balance := n_add (ex_balance e) (n_neg amount)\<rparr>)), ms)" by simp_all
      have x: "near 1 ?x amount" "0 \<le> ?x" "?x \<le> milli (ex_balance e)" using amount_below [OF form ok me assms(4)] by blast+
      then have xb: "\<bar>?x\<bar> \<le> 1000000000" "\<bar>- ?x\<bar> \<le> 1000000000" using near_k [OF me] by simp_all
      obtain d' where v2: "world_view w s' = ((gs(gid \<mapsto> d'), ps, es(i \<mapsto> e\<lparr>ex_balance := n_add (ex_balance e) (n_neg amount)\<rparr>)), ms)"
        and b: "get (Obj d') ''balance'' = Num (n_add n amount)"
        by (rule company_added [OF assms(1) v1 c d(1,2) nn(1,2)])
      show ?thesis unfolding view_ledger [OF v2]
        using funded_solo [where gs = gs and es = es and gid = gid and i = i and x = "- ?x", OF d(1,2) b comp [OF x(1) xb(1)] e(1,2) None added_amount [OF me near_neg [OF x(1)] xb(2) assms(4)]] x v2 by auto
    next
      case (Some j)
      then obtain q where q: "t = Some q" "ps j = Some q" "active_pool gid q" using t by auto
      have qid: "bp_id q = j" and mq: "money_ok k (bp_balance q)" using pools_wfD(2,3) [OF assms(3) q(2)] q(3) by blast+
      from target_added(2) [OF assms(1,2) r q(1)] q(2) qid
      have ok: "n_le amount (bp_balance q)"
        and v1: "world_view w s1 = ((gs, ps(j \<mapsto> q\<lparr>bp_balance := n_add (bp_balance q) (n_neg amount)\<rparr>), es), ms)" by simp_all
      have x: "near 1 ?x amount" "0 \<le> ?x" "?x \<le> milli (bp_balance q)" using amount_below [OF form ok mq assms(4)] by blast+
      then have xb: "\<bar>?x\<bar> \<le> 1000000000" "\<bar>- ?x\<bar> \<le> 1000000000" using near_k [OF mq] by simp_all
      obtain d' where v2: "world_view w s' = ((gs(gid \<mapsto> d'), ps(j \<mapsto> q\<lparr>bp_balance := n_add (bp_balance q) (n_neg amount)\<rparr>), es), ms)"
        and b: "get (Obj d') ''balance'' = Num (n_add n amount)"
        by (rule company_added [OF assms(1) v1 c d(1,2) nn(1,2)])
      show ?thesis unfolding view_ledger [OF v2]
        using funded_pool [where gs = gs and es = es and ps = ps and gid = gid and i = i and j = j and x = "- ?x", OF d(1,2) b comp [OF x(1) xb(1)] e(1,2) Some q(2,3) added_amount [OF mq near_neg [OF x(1)] xb(2) assms(4)]] x v2 by auto
    qed
  qed
qed

lemma fund_work_refines:
  assumes "pool_store w" and form: "amount = PInf \<or> (\<exists>r. amount = num (of_int r / 100) \<and> 0 \<le> r)"
  shows "refines w k m gid (fund_work w f cid gid amount g)"
proof (rule refinesI)
  fix s a s' gs ps es ms
  assume v: "world_view w s = ((gs, ps, es), ms)" and gd: "gs gid \<noteq> None" and wf: "pools_wf k gid (gs, ps, es)"
    and km: "Suc k * Suc m \<le> 2000" and run: "fund_work w f cid gid amount g s = (Inr a, s')"
  have k: "k \<le> 1999" using km by (cases m) simp_all
  obtain x s1 where ge: "c_get (pw_executors w) (fu_employeeId f) s = (Inr x, s1)"
    and r0: "(case x of None \<Rightarrow> fail ''EMPLOYEE_NOT_FOUND'' 404
       | Some e \<Rightarrow> if \<not> is_external gid e then fail ''EMPLOYEE_NOT_FOUND'' 404
           else bind (pool_of w gid e) (\<lambda>p.
             andThen (move_funds w gid g e p (fu_type f) amount)
               (let tx = movement_of f cid gid e amount
                in andThen (c_insert (pw_movements w) cid tx) (ret (Moved tx))))) s1 = (Inr a, s')"
    using run unfolding fund_work_def by (rule bind_InrE)
  note x = get_executor [OF assms(1) v ge]
  obtain e where e: "x = Some e" "is_external gid e" using r0 by (auto split: option.splits if_splits)
  obtain t s2 s3 where po: "pool_of w gid e s1 = (Inr t, s2)" and mf: "move_funds w gid g e t (fu_type f) amount s2 = (Inr (), s3)"
    and ins: "c_insert (pw_movements w) cid (movement_of f cid gid e amount) s3 = (Inr (), s')"
    using r0 e unfolding Let_def by (auto elim!: bind_InrE andThen_InrE)
  note p = pool_of_found [OF assms(1) x(2) po]
  have ee: "es (fu_employeeId f) = Some e" using x(1) e(1) by simp
  from move_funds_step [OF assms(1) p(1) wf k mf ee e(2) p(2) form gd] obtain u where
    st: "pool_step (abs_ledger gid (gs, ps, es)) (abs_ledger gid (ledger_view w s3))" and u: "world_view w s3 = (u, ms)" by blast
  obtain gs' ps' es' where u': "u = (gs', ps', es')" by (rule prod_cases3)
  have "ledger_view w s' = ledger_view w s3"
    using ins_movement(2) [OF assms(1) u [unfolded u'] ins] view_ledger [OF u] u' by (simp add: world_view_def)
  with st show "pool_step\<^sup>*\<^sup>* (abs_ledger gid (gs, ps, es)) (abs_ledger gid (ledger_view w s'))" by simp
qed

section \<open>Under the lock of the ledger\<close>

lemma bump_balance: "get (Obj (bump_version g)) ''balance'' = get (Obj g) ''balance''"
  by (simp add: bump_version_def get_obj_set del: get.simps)

lemma locked_refines:
  assumes "pool_store w" "\<And>g. refines w k m gid (work g)" "pools_wf k gid (ledger_view w s)" "Suc k * Suc m \<le> 2000"
    and run: "bind (bind (lockExecutorLedger w gid session) (or_fail ''GROUP_NOT_FOUND'' 404)) work s = (Inr a, s')"
  shows "pool_step\<^sup>*\<^sup>* (abs_ledger gid (ledger_view w s)) (abs_ledger gid (ledger_view w s'))"
proof -
  obtain gs ps es ms where v: "world_view w s = ((gs, ps, es), ms)" by (metis prod_cases3 surj_pair)
  have l: "ledger_view w s = (gs, ps, es)" using view_ledger [OF v] .
  obtain g s1 where lk: "lockExecutorLedger w gid session s = (Inr (Some g), s1)" and r: "work g s1 = (Inr a, s')"
    using run by (auto elim!: bind_InrE simp: check_Inr)
  obtain gs' where gs': "world_view w s1 = ((gs', ps, es), ms)" "gs' gid \<noteq> None"
    "abs_ledger gid (gs', ps, es) = abs_ledger gid (gs, ps, es)" "pools_wf k gid (gs', ps, es)"
  proof (cases session)
    case True
    then have "c_update (pw_groups w) gid (\<lambda>_. True) bump_version s = (Inr (Some g), s1)" using lk by (simp add: lockExecutorLedger_def)
    then obtain d where d: "gs gid = Some d" "world_view w s1 = ((gs(gid \<mapsto> bump_version d), ps, es), ms)"
      by (rule upd_group [OF assms(1) v]) blast
    show ?thesis
    proof (rule that [OF d(2)])
      show "abs_ledger gid (gs(gid \<mapsto> bump_version d), ps, es) = abs_ledger gid (gs, ps, es)"
        by (simp add: abs_group_upd bump_balance del: get.simps) (simp add: abs_ledger_def d(1))
      show "pools_wf k gid (gs(gid \<mapsto> bump_version d), ps, es)"
        using assms(3) d(1) unfolding l pools_wf_def by (simp add: bump_balance del: get.simps)
    qed simp
  next
    case False
    then have "c_get (pw_groups w) gid s = (Inr (Some g), s1)" using lk by (simp add: lockExecutorLedger_def)
    from get_group [OF assms(1) v this] have "gs gid = Some g" "world_view w s1 = ((gs, ps, es), ms)" by simp_all
    then show ?thesis using that [of gs] assms(3) l by simp
  qed
  have "ledger_view w s1 = (gs', ps, es)" using view_ledger [OF gs'(1)] .
  then show ?thesis
    using assms(2) [of g, unfolded refines_def, rule_format, of s1 a s'] assms(4) r gs'(2-4) l by simp
qed

lemma ledger_transaction:
  assumes "pool_store w" "txn_ok txn unknown (world_view w)" "requires" "\<And>session g. refines w k m gid (work session g)"
    and "pools_wf k gid (ledger_view w s)" "Suc k * Suc m \<le> 2000"
    and run: "withLedgerTransaction txn notStarted requires w gid work s = (r, s')"
  shows "pool_step\<^sup>*\<^sup>* (abs_ledger gid (ledger_view w s)) (abs_ledger gid (ledger_view w s'))"
proof -
  let ?work = "bind (bind (lockExecutorLedger w gid True) (or_fail ''GROUP_NOT_FOUND'' 404)) (work True)"
  obtain r1 where t: "txn ?work s = (r1, s')"
    using run assms(3) unfolding withLedgerTransaction_def withOptionalMongoTransaction_def catch_run
    by (auto split: prod.splits sum.splits if_splits)
  from txn_cases [OF assms(2) t] show ?thesis
  proof cases
    case 1
    then show ?thesis by (simp add: world_view_def)
  next
    case (2 a s0 s1)
    have "ledger_view w s0 = ledger_view w s" "ledger_view w s' = ledger_view w s1" using 2(1,3) by (simp_all add: world_view_def)
    then show ?thesis using locked_refines [OF assms(1,4) _ assms(6) 2(2)] assms(5) by simp
  qed
qed

end
