(* ===== verification/Pool_Requests.thy ===== *)
theory Pool_Requests
  imports Pool_Refinement
begin

text \<open>
  The requests to the pools as a whole, with their transactions, retries and later reads: each follows the abstract
  ledger, whatever its outcome; a half-failed one without transactions loses money; a funding with a request number
  takes effect once.
\<close>

section \<open>Every request refines the abstract ledger\<close>

datatype pool_request =
    Create_pool jsval jsval string
  | Rename_pool string jsval
  | Attach_members string jsval
  | Detach_member string string
  | Archive_pool string
  | Detach_archived executor
  | Fund_executor funding

definition members_of_request :: "pool_request \<Rightarrow> nat" where
  "members_of_request rq = (case rq of
     Create_pool _ ids _ \<Rightarrow> length (uniqueIds ids) | Attach_members _ ids \<Rightarrow> length (uniqueIds ids) | _ \<Rightarrow> 0)"

definition serve ::
    "'s txn \<Rightarrow> (error \<Rightarrow> bool) \<Rightarrow> bool \<Rightarrow> (string \<Rightarrow> string) \<Rightarrow> 's pool_world \<Rightarrow> executor option \<Rightarrow> pool_request \<Rightarrow> ('s, unit) run" where
  "serve txn notStarted requires sha256 w manager rq = (case rq of
     Create_pool name ids newId \<Rightarrow> andThen (createPool txn notStarted requires w manager name ids newId) (ret ())
   | Rename_pool i name \<Rightarrow> andThen (renamePool w manager i name) (ret ())
   | Attach_members i ids \<Rightarrow> andThen (attachMembers txn notStarted requires w manager i ids) (ret ())
   | Detach_member i e \<Rightarrow> andThen (detachMember txn notStarted requires w manager i e) (ret ())
   | Archive_pool i \<Rightarrow> andThen (archivePool txn notStarted requires w manager i) (ret ())
   | Detach_archived e \<Rightarrow> andThen (detachEmployeeOnArchive txn notStarted requires w e) (ret ())
   | Fund_executor f \<Rightarrow> andThen (fundExternalExecutor txn notStarted requires sha256 w (f\<lparr>fu_manager := manager\<rparr>)) (ret ()))"

text \<open>
  A run follows the abstract ledger when, whatever its outcome, the ledger has gone through abstract steps.
\<close>

definition follows :: "'s pool_world \<Rightarrow> nat \<Rightarrow> nat \<Rightarrow> string \<Rightarrow> ('s, 'a) run \<Rightarrow> bool" where
  "follows w k m gid run \<longleftrightarrow> (\<forall>s r s'. pools_wf k gid (ledger_view w s) \<longrightarrow> Suc k * Suc m \<le> 2000 \<longrightarrow> run s = (r, s')
     \<longrightarrow> pool_step\<^sup>*\<^sup>* (abs_ledger gid (ledger_view w s)) (abs_ledger gid (ledger_view w s')))"

lemma keeps_follows: "keeps (ledger_view w) run \<Longrightarrow> follows w k m gid run"
  unfolding follows_def using keepsD by fastforce

lemma keeps_ledger: "keeps (world_view w) run \<Longrightarrow> keeps (ledger_view w) run"
  unfolding keeps_def world_view_def by auto

lemma follows_then: "follows w k m gid run \<Longrightarrow> (\<And>a. keeps (ledger_view w) (next a)) \<Longrightarrow> follows w k m gid (bind run next)"
  unfolding follows_def bind_run
proof (intro allI impI, goal_cases)
  case (1 s r s')
  obtain r1 s1 where m: "run s = (r1, s1)" by fastforce
  then have "ledger_view w s' = ledger_view w s1"
    using 1(5) keepsD [OF 1(2)] by (cases r1) auto
  then show ?case using 1(1,3,4) m by metis
qed

lemma follows_andThen: "follows w k m gid run \<Longrightarrow> keeps (ledger_view w) n \<Longrightarrow> follows w k m gid (andThen run n)"
  unfolding andThen_def by (rule follows_then)

lemma follows_after: "keeps (ledger_view w) run \<Longrightarrow> (\<And>a. follows w k m gid (next a)) \<Longrightarrow> follows w k m gid (bind run next)"
  unfolding follows_def bind_run
proof (intro allI impI, goal_cases)
  case (1 s r s')
  obtain r1 s1 where m: "run s = (r1, s1)" by fastforce
  then have v: "ledger_view w s1 = ledger_view w s" using keepsD [OF 1(1)] by simp
  show ?case
  proof (cases r1)
    case (Inl e)
    then show ?thesis using 1(5) m v by simp
  next
    case (Inr a)
    then have "next a s1 = (r, s')" using 1(5) m by simp
    then show ?thesis using 1(2) [of a, rule_format, of s1 r s'] 1(3,4) v by simp
  qed
qed

lemma follows_catch: "follows w k m gid run \<Longrightarrow> (\<And>e. keeps (ledger_view w) (h e)) \<Longrightarrow> follows w k m gid (catch run h)"
  unfolding follows_def catch_run
proof (intro allI impI, goal_cases)
  case (1 s r s')
  obtain r1 s1 where m: "run s = (r1, s1)" by fastforce
  then have "ledger_view w s' = ledger_view w s1"
    using 1(5) keepsD [OF 1(2)] by (cases r1) auto
  then show ?case using 1(1,3,4) m by metis
qed

lemma ledger_transaction_follows:
  assumes "pool_store w" "txn_ok txn unknown (world_view w)" "\<And>session g. refines w k m gid (work session g)"
  shows "follows w k m gid (withLedgerTransaction txn notStarted True w gid work)"
  unfolding follows_def using ledger_transaction [where work = work, OF assms(1,2) TrueI assms(3)] by blast

lemma keeps_checks [keeps_intros]:
  "keeps v (fail c st)" "keeps v (or_fail c st x)" "keeps v (require b c st)" "keeps v (managerGroupId manager)" "keeps v (parseAmount a)"
  by (auto simp: fail_def or_fail_def require_def throw_if_def managerGroupId_def parseAmount_def Let_def intro!: keeps_intros split: option.split)

lemma keeps_views:
  assumes "pool_store w"
  shows "keeps (ledger_view w) (listExternalBalanceWorkspace w manager)" "keeps (ledger_view w) (loadAllocatedByGroupIds w ids)"
    "keeps (ledger_view w) (workingBalanceForEmployee w e)" "keeps (ledger_view w) (pool_of w gid x)"
    "keeps (ledger_view w) (loadOwnedPool w manager i)" "keeps (ledger_view w) (assertUniquePoolName w gid name y)"
  unfolding listExternalBalanceWorkspace_def loadActiveExternalLedger_def loadAllocatedByGroupIds_def workingBalanceForEmployee_def
    pool_of_def loadOwnedPool_def assertUniquePoolName_def Let_def
  by (intro keeps_intros keeps_ledger store_reads assms)+

lemma keeps_result: "pool_store w \<Longrightarrow> keeps (ledger_view w) (resultForMovement w gid cid e b)"
  unfolding resultForMovement_def Let_def by (intro keeps_intros keeps_views keeps_ledger store_reads)

lemma keeps_check_funding: "pool_store w \<Longrightarrow> keeps (ledger_view w) (check_funding w f)"
  unfolding check_funding_def funding_party_def by (intro keeps_intros keeps_views keeps_ledger store_reads)

lemma rename_follows:
  assumes "pool_store w"
  shows "follows w k m gid (renamePool w manager i name)"
  unfolding follows_def
proof (intro allI impI)
  fix s r s'
  assume run: "renamePool w manager i name s = (r, s')"
  have up: "follows w k m gid (bind (c_update (pw_pools w) j (\<lambda>_. True) (\<lambda>d. d\<lparr>bp_name := n\<rparr>)) (or_fail ''DocumentNotFoundError'' 0))" for j n
    unfolding follows_def
  proof (intro allI impI)
    fix t q t'
    assume b: "bind (c_update (pw_pools w) j (\<lambda>_. True) (\<lambda>d. d\<lparr>bp_name := n\<rparr>)) (or_fail ''DocumentNotFoundError'' 0) t = (q, t')"
    obtain gs ps es ms where v: "world_view w t = ((gs, ps, es), ms)" by (metis prod_cases3 surj_pair)
    obtain q1 where c: "c_update (pw_pools w) j (\<lambda>_. True) (\<lambda>d. d\<lparr>bp_name := n\<rparr>) t = (q1, t')"
      using b by (auto simp: bind_run or_fail_def fail_def split: prod.splits sum.splits option.splits)
    show "pool_step\<^sup>*\<^sup>* (abs_ledger gid (ledger_view w t)) (abs_ledger gid (ledger_view w t'))"
    proof (cases "\<exists>d. q1 = Inr (Some d)")
      case True
      then obtain d where "c_update (pw_pools w) j (\<lambda>_. True) (\<lambda>d. d\<lparr>bp_name := n\<rparr>) t = (Inr (Some d), t')" using c by blast
      then obtain p where p: "ps j = Some p" "world_view w t' = ((gs, ps(j \<mapsto> p\<lparr>bp_name := n\<rparr>), es), ms)"
        by (rule upd_pool [OF assms v]) blast
      have "abs_ledger gid (gs, ps(j \<mapsto> p\<lparr>bp_name := n\<rparr>), es) = abs_ledger gid (gs, ps, es)"
        using p(1) by (auto simp: abs_ledger_def active_pool_def fun_eq_iff)
      then show ?thesis by (simp add: view_ledger [OF v] view_ledger [OF p(2)])
    next
      case False
      have st: "coll_ok (pw_pools w)" "quiet (pw_pools w) (\<lambda>s. (c_view (pw_groups w) s, c_view (pw_executors w) s, c_view (pw_movements w) s))"
        using assms by (simp_all add: pool_store_def)
      have "c_view (pw_pools w) t' = c_view (pw_pools w) t"
        using False c c_update_fail [OF st(1)] c_update_None(1) [OF st(1)] by (cases q1) (auto simp: not_Some_eq)
      then have "ledger_view w t' = ledger_view w t" using quietD(2) [OF st(2) c] by (simp add: ledger_view_def)
      then show ?thesis by simp
    qed
  qed
  have "follows w k m gid (renamePool w manager i name)"
    unfolding renamePool_def Let_def andThen_def
    by (intro follows_after keeps_intros keeps_views assms follows_then [OF up])
  then show "pools_wf k gid (ledger_view w s) \<Longrightarrow> Suc k * Suc m \<le> 2000 \<Longrightarrow>
      pool_step\<^sup>*\<^sup>* (abs_ledger gid (ledger_view w s)) (abs_ledger gid (ledger_view w s'))"
    using run unfolding follows_def by blast
qed

definition own_request :: "string \<Rightarrow> pool_request \<Rightarrow> bool" where
  "own_request gid rq \<longleftrightarrow> (case rq of Detach_archived e \<Rightarrow> ex_groupId e = gid | _ \<Rightarrow> True)"

lemma check_funding_form:
  fixes w :: "'s pool_world"
  assumes "check_funding w f s = (Inr (g, amount, e), s')" "manages (fu_manager f) gid"
  shows "g = gid \<and> (amount = PInf \<or> (\<exists>r. amount = num (of_int r / 100) \<and> 0 \<le> r))"
proof -
  obtain a and s1 s2 :: 's where pa: "parseAmount (fu_amount f) s1 = (Inr a, s2)" and "g = gid" "amount = a"
    using assms(1) unfolding check_funding_def managerGroupId_run [OF assms(2)] bind_ret
    by (elim bind_InrE andThen_InrE) simp
  then show ?thesis using amount_form [OF pa] by simp
qed

lemma post_follows:
  assumes "pool_store w" "txn_ok txn unknown (world_view w)" "amount = PInf \<or> (\<exists>r. amount = num (of_int r / 100) \<and> 0 \<le> r)"
  shows "follows w k m gid (post_movement txn notStarted True w f cid gid amount e)"
  unfolding post_movement_def
  by (intro follows_then follows_catch ledger_transaction_follows [OF assms(1,2)] fund_work_refines [OF assms(1,3)]
      keeps_intros keeps_ledger store_reads assms(1))

lemma fund_checked_follows:
  assumes "pool_store w" "txn_ok txn unknown (world_view w)" "amount = PInf \<or> (\<exists>r. amount = num (of_int r / 100) \<and> 0 \<le> r)"
  shows "follows w k m gid (fund_checked txn notStarted True w f cid gid amount e)"
  unfolding fund_checked_def
proof (rule follows_after)
  show "keeps (ledger_view w) (if normalizedRequestId f \<noteq> [] then c_get (pw_movements w) cid else ret None)"
    by (intro keeps_intros keeps_ledger store_reads assms(1))
  fix existing
  show "follows w k m gid (case existing of
         Some tx \<Rightarrow> if matchingMovement f gid e amount tx then resultForMovement w gid cid e True
                    else fail ''REQUEST_ID_CONFLICT'' 409
       | None \<Rightarrow> bind (post_movement txn notStarted True w f cid gid amount e) (resultForMovement w gid cid e))"
  proof (cases existing)
    case None
    show ?thesis unfolding None option.case by (intro follows_then post_follows [OF assms] keeps_result assms(1))
  next
    case (Some tx)
    show ?thesis unfolding Some option.case by (intro keeps_follows keeps_intros keeps_result assms(1))
  qed
qed

lemma fund_follows:
  assumes "pool_store w" "txn_ok txn unknown (world_view w)" "manages (fu_manager f) gid"
  shows "follows w k m gid (fundExternalExecutor txn notStarted True sha256 w f)"
  unfolding follows_def
proof (intro allI impI)
  fix s r s'
  assume h: "pools_wf k gid (ledger_view w s)" "Suc k * Suc m \<le> 2000"
    and run: "fundExternalExecutor txn notStarted True sha256 w f s = (r, s')"
  obtain r1 s1 where c: "check_funding w f s = (r1, s1)" by fastforce
  have v1: "ledger_view w s1 = ledger_view w s" using keepsD [OF keeps_check_funding [OF assms(1)] c] .
  show "pool_step\<^sup>*\<^sup>* (abs_ledger gid (ledger_view w s)) (abs_ledger gid (ledger_view w s'))"
  proof (cases r1)
    case (Inl e)
    then show ?thesis using run c v1 by (simp add: fundExternalExecutor_def bind_run)
  next
    case (Inr x)
    obtain g amount e where x: "x = (g, amount, e)" by (rule prod_cases3)
    note ga = check_funding_form [OF c [unfolded Inr x] assms(3)]
    have "fund_checked txn notStarted True w f (customId sha256 f) gid amount e s1 = (r, s')"
      using run c ga unfolding Inr x fundExternalExecutor_def by (simp add: bind_run)
    then show ?thesis
      using fund_checked_follows [OF assms(1,2), of amount k m gid] ga h v1 unfolding follows_def by metis
  qed
qed

lemma detach_follows:
  assumes "pool_store w" "txn_ok txn unknown (world_view w)" "manages manager gid"
  shows "follows w k m gid (detachMember txn notStarted True w manager i e)"
  unfolding detachMember_def managerGroupId_run [OF assms(3)] bind_ret
  by (intro follows_andThen ledger_transaction_follows [OF assms(1,2)] detach_work_refines [OF assms(1,3)] keeps_views [OF assms(1)])

text \<open>Whatever a request does and however it ends, the ledger has gone through steps of the abstract one.\<close>

lemma serve_follows:
  assumes "pool_store w" "txn_ok txn unknown (world_view w)" "manages manager gid" "own_request gid rq"
    and "members_of_request rq \<le> 1000"
  shows "follows w k (members_of_request rq) gid (serve txn notStarted True sha256 w manager rq)"
proof (cases rq)
  case (Create_pool name ids newId)
  show ?thesis
    unfolding Create_pool serve_def pool_request.case createPool_def managerGroupId_run [OF assms(3)] bind_ret Let_def andThen_def
      members_of_request_def
    by (intro follows_then follows_after ledger_transaction_follows [OF assms(1,2)] create_work_refines [OF assms(1,3)]
        keeps_intros order_refl) (use assms(5) Create_pool in \<open>simp add: members_of_request_def\<close>)
next
  case (Rename_pool i name)
  show ?thesis unfolding Rename_pool serve_def pool_request.case
    by (intro follows_andThen rename_follows assms keeps_intros)
next
  case (Attach_members i ids)
  show ?thesis
    unfolding Attach_members serve_def pool_request.case attachMembers_def managerGroupId_run [OF assms(3)] bind_ret members_of_request_def
    by (intro follows_andThen ledger_transaction_follows [OF assms(1,2)] attach_work_refines [OF assms(1,3)] keeps_intros keeps_views [OF assms(1)]
        order_refl) (use assms(5) Attach_members in \<open>simp add: members_of_request_def\<close>)
next
  case (Detach_member i e)
  show ?thesis unfolding Detach_member serve_def pool_request.case
    by (intro follows_andThen detach_follows [OF assms(1-3)] keeps_intros)
next
  case (Archive_pool i)
  show ?thesis
    unfolding Archive_pool serve_def pool_request.case archivePool_def managerGroupId_run [OF assms(3)] bind_ret
    by (intro follows_andThen ledger_transaction_follows [OF assms(1,2)] archive_work_refines [OF assms(1,3)] keeps_intros keeps_views [OF assms(1)])
next
  case (Detach_archived e)
  have m: "manages (Some (as_manager e)) gid" using assms(3,4) Detach_archived by (auto simp: manages_def as_manager_def own_request_def)
  have d: "follows w k n gid (detachEmployeeOnArchive txn notStarted True w e)" for n
  proof (cases "ex_balancePoolId e = None \<or> ex_role e \<noteq> ''external''")
    case True
    then show ?thesis unfolding detachEmployeeOnArchive_def by (cases "ex_balancePoolId e") (auto intro!: keeps_follows keeps_intros)
  next
    case False
    then obtain i where i: "ex_balancePoolId e = Some i" "ex_role e = ''external''" by auto
    show ?thesis unfolding detachEmployeeOnArchive_def i option.case
      by (simp, intro follows_catch follows_andThen detach_follows [OF assms(1,2) m] keeps_intros keeps_ledger store_reads assms(1))
  qed
  show ?thesis unfolding Detach_archived serve_def pool_request.case by (intro follows_andThen d keeps_intros)
next
  case (Fund_executor f)
  show ?thesis unfolding Fund_executor serve_def pool_request.case
    by (intro follows_andThen fund_follows [OF assms(1,2)] keeps_intros) (simp add: assms(3))
qed

text \<open>
  C19: When transactions are required, every request to the pools follows the abstract ledger: whatever it asks for,
  whatever its outcome, and even when the outcome of its commit is unknown, the stored amounts have gone through steps of
  the abstract ledger, so that money is only moved between the company, its pools and its executors, and their total stays
  the same.  The company, its active pools and its external executors have balances near three decimals from 0 to a million,
  an executor in a pool has none of its own, and a request names at most 1000 executors.
\<close>

theorem pool_requests_refine:
  assumes "pool_store w" "txn_ok txn unknown (world_view w)" "manages manager gid" "own_request gid rq"
    and "pools_wf k gid (ledger_view w s)" "members_of_request rq \<le> 1000" "Suc k * Suc (members_of_request rq) \<le> 2000"
    and "serve txn notStarted True sha256 w manager rq s = (r, s')"
  shows "pool_step\<^sup>*\<^sup>* (abs_ledger gid (ledger_view w s)) (abs_ledger gid (ledger_view w s'))
    \<and> (finite_ledger (abs_ledger gid (ledger_view w s)) \<longrightarrow>
        ledger_total (abs_ledger gid (ledger_view w s')) = ledger_total (abs_ledger gid (ledger_view w s)))"
proof -
  have "follows w k (members_of_request rq) gid (serve txn notStarted True sha256 w manager rq)"
    by (rule serve_follows [OF assms(1-4,6)])
  then have "pool_step\<^sup>*\<^sup>* (abs_ledger gid (ledger_view w s)) (abs_ledger gid (ledger_view w s'))"
    using assms(5,7,8) unfolding follows_def by blast
  then show ?thesis using steps_total by blast
qed

text \<open>A database in memory with a company, two pools and two external executors.\<close>

record pool_db =
  db_groups :: "(string \<times> grp) list"
  db_pools :: "(string \<times> pool) list"
  db_executors :: "(string \<times> executor) list"
  db_movements :: "(string \<times> movement) list"

definition mem_world :: "pool_db pool_world" where
  "mem_world = \<lparr>pw_groups = mem_coll db_groups (\<lambda>l s. s\<lparr>db_groups := l\<rparr>), pw_pools = mem_coll db_pools (\<lambda>l s. s\<lparr>db_pools := l\<rparr>),
     pw_executors = mem_coll db_executors (\<lambda>l s. s\<lparr>db_executors := l\<rparr>), pw_movements = mem_coll db_movements (\<lambda>l s. s\<lparr>db_movements := l\<rparr>)\<rparr>"

definition demo_pool :: "string \<Rightarrow> pool" where
  "demo_pool i = \<lparr>bp_id = i, bp_name = i, bp_groupId = ''g'', bp_balance = Fin 0, bp_archived = False, bp_archivedBy = [], bp_tenantId = Undef\<rparr>"

definition demo_executor :: "string \<Rightarrow> string \<Rightarrow> jsnum \<Rightarrow> string option \<Rightarrow> executor" where
  "demo_executor i role bal p = \<lparr>ex_id = i, ex_name = i, ex_phone = [], ex_webUsername = [], ex_status = ''active'', ex_role = role,
     ex_groupId = ''g'', ex_balance = bal, ex_balancePoolId = p, ex_archived = False, ex_tenantId = Undef\<rparr>"

definition demo_pools :: pool_db where
  "demo_pools = \<lparr>db_groups = [(''g'', [(''balance'', Num (Fin 500))])], db_pools = [(''p1'', demo_pool ''p1''), (''p2'', demo_pool ''p2'')],
     db_executors = [(''a'', demo_executor ''a'' ''external'' (Fin 100) None), (''b'', demo_executor ''b'' ''external'' (Fin 0) (Some ''p2''))],
     db_movements = []\<rparr>"

definition demo_manager :: "executor option" where
  "demo_manager = Some (demo_executor ''m'' ''manager'' (Fin 0) None)"

lemma mem_world_store: "pool_store mem_world"
  unfolding pool_store_def mem_world_def
  by (simp add: mem_coll_ok) (intro conjI mem_coll_quiet; simp add: mem_coll_view)

lemma money_whole: "0 \<le> n \<Longrightarrow> n \<le> 1000000 \<Longrightarrow> money_ok k (Fin (of_int n))"
proof -
  assume n: "0 \<le> n" "n \<le> 1000000"
  have z: "near 0 (1000 * n) (Fin (of_int n))" by (simp add: near_def)
  then have "milli (Fin (of_int n)) = 1000 * n" by (rule milli_near) simp
  with near_mono [OF z, of k] n show ?thesis by (simp add: money_ok_def)
qed

lemma demo_pools_wf: "pools_wf 1 ''g'' (ledger_view mem_world demo_pools)"
  using money_whole [of 500 1] money_whole [of 100 1] money_whole [of 0 1] milli_0
  by (auto simp: pools_wf_def ledger_view_def mem_world_def mem_coll_view demo_pools_def demo_pool_def demo_executor_def active_pool_def)

definition demo_attach :: pool_request where
  "demo_attach = Attach_members ''p1'' (Arr [Str ''a''])"

lemmas pool_runs = run_simps mem_coll_def mem_world_def withLedgerTransaction_def withOptionalMongoTransaction_def lockExecutorLedger_def
  or_fail_def require_def fail_def attach_work_def loadOwnedPool_def loadExternalEmployees_def attachEmployeesToPool_def save_executor_def
  managerGroupId_def attachMembers_def listExternalBalanceWorkspace_def loadActiveExternalLedger_def

lemmas demo_data = demo_pools_def demo_pool_def demo_executor_def demo_manager_def active_pool_def active_executor_def is_external_def add_balance_def

lemma ids_a: "uniqueIds (Arr [Str ''a'']) = [''a'']"
  by (simp add: uniqueIds_def objectIdString_def or_else_def)

lemma ids_ab: "uniqueIds (Arr [Str ''a'', Str ''b'']) = [''a'', ''b'']"
  by (simp add: uniqueIds_def objectIdString_def or_else_def)

lemma demo_attach_runs:
  "\<exists>s'. serve atomic (\<lambda>_. False) True (\<lambda>_. []) mem_world demo_manager demo_attach demo_pools = (Inr (), s')
     \<and> map_of (db_pools s') ''p1'' = Some ((demo_pool ''p1'')\<lparr>bp_balance := Fin 100\<rparr>)"
  by (simp add: serve_def demo_attach_def pool_runs atomic_def demo_data ids_a or_zero_def)


lemma demo_finite: "finite_ledger (abs_ledger ''g'' (ledger_view mem_world demo_pools))"
proof -
  have "dom (la_pool (abs_ledger ''g'' (ledger_view mem_world demo_pools))) \<subseteq> {''p1'', ''p2''}"
    "dom (la_member (abs_ledger ''g'' (ledger_view mem_world demo_pools))) \<subseteq> {''a'', ''b''}"
    by (auto simp: abs_ledger_def ledger_view_def mem_world_def mem_coll_view demo_pools_def split: if_splits)
  then show ?thesis unfolding finite_ledger_def by (meson finite.emptyI finite.insertI finite_subset)
qed

lemma demo_manages: "manages demo_manager ''g''"
  by (simp add: manages_def demo_manager_def demo_executor_def)

lemma pool_requests_refine_witness:
  "\<exists>s'. serve atomic (\<lambda>_. False) True (\<lambda>_. []) mem_world demo_manager demo_attach demo_pools = (Inr (), s')
     \<and> pool_step\<^sup>*\<^sup>* (abs_ledger ''g'' (ledger_view mem_world demo_pools)) (abs_ledger ''g'' (ledger_view mem_world s'))
     \<and> ledger_total (abs_ledger ''g'' (ledger_view mem_world s')) = ledger_total (abs_ledger ''g'' (ledger_view mem_world demo_pools))"
proof -
  obtain s' where run: "serve atomic (\<lambda>_. False) True (\<lambda>_. []) mem_world demo_manager demo_attach demo_pools = (Inr (), s')"
    using demo_attach_runs by blast
  have "pool_step\<^sup>*\<^sup>* (abs_ledger ''g'' (ledger_view mem_world demo_pools)) (abs_ledger ''g'' (ledger_view mem_world s'))
    \<and> (finite_ledger (abs_ledger ''g'' (ledger_view mem_world demo_pools)) \<longrightarrow>
        ledger_total (abs_ledger ''g'' (ledger_view mem_world s')) = ledger_total (abs_ledger ''g'' (ledger_view mem_world demo_pools)))"
    by (rule pool_requests_refine [OF mem_world_store atomic_ok [where unknown = "\<lambda>_. False"] demo_manages _ demo_pools_wf _ _ run])
       (simp_all add: own_request_def demo_attach_def members_of_request_def ids_a)
  then show ?thesis using run demo_finite by blast
qed

section \<open>Without transactions\<close>

definition no_transactions :: "('s, 'a) run \<Rightarrow> ('s, 'a) run" where
  "no_transactions m = throw (plain_error ''Transaction numbers are only allowed on a replica set member'')"

text \<open>
  An example of what happens on a server without transactions, where a request that fails half way loses money: of two
  executors to attach the first one is already emptied when the second one turns out to be in another pool, and its amount, here 100, is
  neither with it nor in the pool.
\<close>

lemma failed_attach_loses_balance:
  "case attachMembers no_transactions (\<lambda>_. False) False mem_world demo_manager ''p1'' (Arr [Str ''a'', Str ''b'']) demo_pools of
     (r, s') \<Rightarrow> r = Inl (coded ''ALREADY_IN_POOL'' 400)
       \<and> map_of (db_executors demo_pools) ''a'' = Some (demo_executor ''a'' ''external'' (Fin 100) None)
       \<and> map_of (db_executors s') ''a'' = Some (demo_executor ''a'' ''external'' (Fin 0) (Some ''p1''))
       \<and> db_pools s' = db_pools demo_pools \<and> db_groups s' = db_groups demo_pools"
proof -
  have "isMongoTransactionFallbackError (plain_error ''Transaction numbers are only allowed on a replica set member'')" by code_simp
  then show ?thesis
    by (simp add: no_transactions_def pool_runs demo_data ids_ab or_zero_def)
qed

section \<open>Funding once\<close>

lemma keeps_checks_world:
  assumes "pool_store w"
  shows "keeps (world_view w) (check_funding w f)" "keeps (world_view w) (resultForMovement w gid cid e b)"
  unfolding check_funding_def funding_party_def resultForMovement_def loadAllocatedByGroupIds_def workingBalanceForEmployee_def
    pool_of_def Let_def
  by (intro keeps_intros store_reads assms)+

lemma fund_work_stores:
  fixes w :: "'s pool_world" and s s' :: 's
  assumes "pool_store w" "fund_work w f cid gid amount g s = (Inr a, s')"
  shows "snd (world_view w s') cid \<noteq> None"
proof -
  obtain e and s1 :: 's where "(case e of None \<Rightarrow> fail ''EMPLOYEE_NOT_FOUND'' 404
       | Some e \<Rightarrow> if \<not> is_external gid e then fail ''EMPLOYEE_NOT_FOUND'' 404
           else bind (pool_of w gid e) (\<lambda>p.
             andThen (move_funds w gid g e p (fu_type f) amount)
               (let tx = movement_of f cid gid e amount
                in andThen (c_insert (pw_movements w) cid tx) (ret (Moved tx))))) s1 = (Inr a, s')"
    using assms(2) unfolding fund_work_def by (rule bind_InrE)
  then obtain e' where "bind (pool_of w gid e') (\<lambda>p. andThen (move_funds w gid g e' p (fu_type f) amount)
               (andThen (c_insert (pw_movements w) cid (movement_of f cid gid e' amount)) (ret (Moved (movement_of f cid gid e' amount))))) s1 = (Inr a, s')"
    by (cases e) (simp_all add: fail_def throw_def Let_def split: if_splits)
  then obtain p and s2 :: 's where "andThen (move_funds w gid g e' p (fu_type f) amount)
               (andThen (c_insert (pw_movements w) cid (movement_of f cid gid e' amount)) (ret (Moved (movement_of f cid gid e' amount)))) s2 = (Inr a, s')"
    by (rule bind_InrE)
  then obtain u and s3 :: 's where "andThen (c_insert (pw_movements w) cid (movement_of f cid gid e' amount)) (ret (Moved (movement_of f cid gid e' amount))) s3 = (Inr a, s')"
    by (rule andThen_InrE)
  then obtain u and s4 :: 's where i: "c_insert (pw_movements w) cid (movement_of f cid gid e' amount) s3 = (Inr u, s4)" and "ret (Moved (movement_of f cid gid e' amount)) s4 = (Inr a, s')"
    by (rule andThen_InrE)
  then have "s4 = s'" by (simp add: ret_def)
  have "coll_ok (pw_movements w)" using assms(1) by (simp add: pool_store_def)
  from c_insert_ok [OF this i] show ?thesis by (simp add: world_view_def \<open>s4 = s'\<close>)
qed

lemma transaction_returns:
  fixes w :: "'s pool_world" and s s' :: 's
  assumes "txn_ok txn unknown v" "withLedgerTransaction txn notStarted requires w gid work s = (Inr a, s')"
    and works: "\<And>session g (t::'s) b t'. work session g t = (Inr b, t') \<Longrightarrow> P (v t')"
  shows "P (v s')"
proof -
  let ?work = "\<lambda>session. bind (bind (lockExecutorLedger w gid session) (or_fail ''GROUP_NOT_FOUND'' 404)) (work session)"
  have once: "P (v t')" if "?work session t = (Inr b, t')" for session t b t'
    using that by (rule bind_InrE) (rule works)
  obtain r and t :: 's where x: "txn (?work True) s = (r, t)" by fastforce
  show ?thesis
  proof (cases r)
    case (Inr b)
    then have t: "t = s'" using x assms(2) unfolding withLedgerTransaction_def withOptionalMongoTransaction_def catch_run by simp
    obtain s0 t' :: 's where "?work True s0 = (Inr b, t')" "v t = v t'"
      by (rule txn_commit [OF assms(1) x [unfolded Inr]]) (rule that)
    then show ?thesis using once t by simp
  next
    case (Inl err)
    then have "?work False t = (Inr a, s')"
      using x assms(2) unfolding withLedgerTransaction_def withOptionalMongoTransaction_def catch_run
      by (simp add: throw_def split: if_splits)
    then show ?thesis by (rule once)
  qed
qed

lemma post_movement_stores:
  fixes w :: "'s pool_world" and s s' :: 's
  assumes "pool_store w" "txn_ok txn unknown (world_view w)" "post_movement txn notStarted requires w f cid gid amount e s = (Inr b, s')"
  shows "snd (world_view w s') cid \<noteq> None"
proof -
  obtain r1 and s1 :: 's where t: "withLedgerTransaction txn notStarted requires w gid (\<lambda>session g. fund_work w f cid gid amount g) s = (r1, s1)"
    by fastforce
  show ?thesis
  proof (cases r1)
    case (Inr a)
    then have s1: "s1 = s'" using assms(3) t by (simp add: post_movement_def catch_run bind_run ret_def)
    show ?thesis using transaction_returns [OF assms(2) t [unfolded Inr], of "\<lambda>y. snd y cid \<noteq> None"] fund_work_stores [OF assms(1)] s1
      by blast
  next
    case (Inl err)
    then have "bind (c_get (pw_movements w) cid) (\<lambda>committed. case committed of
                   Some tx \<Rightarrow> if matchingMovement f gid e amount tx then ret True else throw err
                 | None \<Rightarrow> throw err) s1 = (Inr b, s')"
      using assms(3) t by (simp only: post_movement_def catch_run bind_run prod.case sum.case throw_def split: if_splits) simp_all
    then obtain x and s2 :: 's where g: "c_get (pw_movements w) cid s1 = (Inr x, s2)"
      and rest: "(case x of Some tx \<Rightarrow> if matchingMovement f gid e amount tx then ret True else throw err
                 | None \<Rightarrow> throw err) s2 = (Inr b, s')" by (rule bind_InrE)
    from rest obtain tx where x: "x = Some tx" and s2: "s2 = s'"
      by (cases x) (simp_all add: throw_def ret_def split: if_splits)
    obtain gs ps es ms where v: "world_view w s1 = ((gs, ps, es), ms)" by (metis prod_cases3 surj_pair)
    from get_movement [OF assms(1) v g] s2 x have "ms cid = Some tx" "world_view w s' = ((gs, ps, es), ms)" by simp_all
    then show ?thesis by simp
  qed
qed

text \<open>
  C20: A funding with a request identifier takes effect once: after it has returned, any further request with its
  number changes neither a balance nor a movement, and if it returns it says that it was a repetition.
\<close>

theorem funding_request_once:
  assumes "pool_store w" "txn_ok txn unknown (world_view w)" "normalizedRequestId f \<noteq> []" "normalizedRequestId f' \<noteq> []"
    and first: "fundExternalExecutor txn notStarted requires sha256 w f s = (Inr res, s1)"
    and between: "world_view w s2 = world_view w s1"
    and again: "fundExternalExecutor txn' notStarted' requires' sha256 w f' s2 = (r, s3)" "customId sha256 f' = customId sha256 f"
  shows "world_view w s3 = world_view w s2 \<and> (\<forall>res'. r = Inr res' \<longrightarrow> fr_replayed res')"
proof -
  let ?cid = "customId sha256 f"
  have stored: "snd (world_view w s1) ?cid \<noteq> None"
  proof -
    obtain gid amount e t where c: "check_funding w f s = (Inr (gid, amount, e), t)"
      and fc: "fund_checked txn notStarted requires w f ?cid gid amount e t = (Inr res, s1)"
      using first unfolding fundExternalExecutor_def by (auto elim!: bind_InrE)
    obtain x t1 where g: "c_get (pw_movements w) ?cid t = (Inr x, t1)" and rest: "(case x of
         Some tx \<Rightarrow> if matchingMovement f gid e amount tx then resultForMovement w gid ?cid e True
                    else fail ''REQUEST_ID_CONFLICT'' 409
       | None \<Rightarrow> bind (post_movement txn notStarted requires w f ?cid gid amount e) (resultForMovement w gid ?cid e)) t1 = (Inr res, s1)"
      using fc assms(3) unfolding fund_checked_def by (auto elim!: bind_InrE)
    obtain gs ps es ms where v: "world_view w t = ((gs, ps, es), ms)" by (metis prod_cases3 surj_pair)
    show ?thesis
    proof (cases x)
      case None
      then obtain b t2 where "post_movement txn notStarted requires w f ?cid gid amount e t1 = (Inr b, t2)"
        "resultForMovement w gid ?cid e b t2 = (Inr res, s1)" using rest by (auto elim!: bind_InrE)
      then show ?thesis
        using post_movement_stores [OF assms(1,2)] keepsD [OF keeps_checks_world(2) [OF assms(1)]] by metis
    next
      case (Some tx)
      then have "resultForMovement w gid ?cid e True t1 = (Inr res, s1)" using rest by (auto split: if_splits)
      then have "world_view w s1 = world_view w t1" by (rule keepsD [OF keeps_checks_world(2) [OF assms(1)]])
      moreover have "ms ?cid = Some tx" "world_view w t1 = ((gs, ps, es), ms)" using get_movement [OF assms(1) v g] Some by simp_all
      ultimately show ?thesis by simp
    qed
  qed
  obtain r1 t where c: "check_funding w f' s2 = (r1, t)" by fastforce
  have vt: "world_view w t = world_view w s2" using keepsD [OF keeps_checks_world(1) [OF assms(1)] c] .
  show ?thesis
  proof (cases r1)
    case (Inl e)
    then show ?thesis using again(1) c vt by (auto simp: fundExternalExecutor_def bind_run)
  next
    case (Inr y)
    obtain gid amount e where y: "y = (gid, amount, e)" by (rule prod_cases3)
    have fc: "fund_checked txn' notStarted' requires' w f' ?cid gid amount e t = (r, s3)"
      using again c unfolding Inr y fundExternalExecutor_def by (simp add: bind_run)
    obtain q t1 where g: "c_get (pw_movements w) ?cid t = (q, t1)" by fastforce
    have v1: "world_view w t1 = world_view w s2" using keepsD [OF store_reads(4) [OF assms(1)] g] vt by simp
    show ?thesis
    proof (cases q)
      case (Inl err)
      then show ?thesis using fc g assms(4) v1 by (auto simp: fund_checked_def bind_run)
    next
      case (Inr x)
      have "c_view (pw_movements w) t = c_view (pw_movements w) s1" using vt between by (simp add: world_view_def)
      moreover have "x = c_view (pw_movements w) t ?cid"
        using c_get_view(2) [OF _ g [unfolded Inr]] assms(1) by (simp add: pool_store_def)
      ultimately obtain tx where x: "x = Some tx" using stored by (auto simp: world_view_def)
      have "(if matchingMovement f' gid e amount tx then resultForMovement w gid ?cid e True else fail ''REQUEST_ID_CONFLICT'' 409) t1 = (r, s3)"
        using fc g assms(4) Inr x by (simp add: fund_checked_def bind_run)
      then show ?thesis
        using keepsD [OF keeps_checks_world(2) [OF assms(1)]] v1
        by (auto simp: resultForMovement_def fail_def Let_def elim!: bind_InrE split: if_splits)
    qed
  qed
qed

definition demo_funding :: funding where
  "demo_funding = \<lparr>fu_manager = demo_manager, fu_employeeId = ''a'', fu_type = ''deposit'', fu_amount = Num (Fin 50), fu_note = Undef,
     fu_requestId = Str ''1111222233334444'', fu_generatedId = []\<rparr>"

definition demo_fund :: "(pool_db, funding_result) run" where
  "demo_fund = fundExternalExecutor atomic (\<lambda>_. False) True (\<lambda>_. []) mem_world demo_funding"

lemma demo_fund_runs: "case fst (demo_fund demo_pools) of Inr res \<Rightarrow> \<not> fr_replayed res | Inl e \<Rightarrow> False"
  by code_simp

lemma demo_request: "normalizedRequestId demo_funding \<noteq> []"
  by code_simp

lemma funding_request_once_witness:
  "\<exists>res s1. demo_fund demo_pools = (Inr res, s1) \<and> \<not> fr_replayed res
     \<and> world_view mem_world (snd (demo_fund s1)) = world_view mem_world s1
     \<and> (\<forall>res'. fst (demo_fund s1) = Inr res' \<longrightarrow> fr_replayed res')"
proof -
  obtain r s1 where "demo_fund demo_pools = (r, s1)" by fastforce
  with demo_fund_runs obtain res where run: "demo_fund demo_pools = (Inr res, s1)" and new: "\<not> fr_replayed res"
    by (cases r) simp_all
  have again: "demo_fund s1 = (fst (demo_fund s1), snd (demo_fund s1))" by simp
  from funding_request_once [OF mem_world_store atomic_ok [where unknown = "\<lambda>_. False"] demo_request demo_request
      run [unfolded demo_fund_def] refl again [unfolded demo_fund_def] refl]
  show ?thesis using run new unfolding demo_fund_def by blast
qed

end
