(* ===== verification/Admin_Mutation.thy ===== *)
theory Admin_Mutation
  imports Executor_Ledger Mongo_Session Pricing
begin

text \<open>
  The corrections that an administrator makes to stored transactions (\<open>src/services/adminFinancialMutationService.js\<close>):
  a new exchange rate, a new amount, another executor.  The four collections are parameters with the laws of
  \<open>coll_ok\<close>.  The texts of the notes and the clock are fields of a request.
\<close>

section \<open>Documents\<close>

record admin_tx =
  at_id :: string
  at_status :: string
  at_amount :: jsnum
  at_costLYD :: jsnum
  at_exchangeRate :: jsnum
  at_transferType :: jsval
  at_companyId :: "string option"
  at_userId :: string
  at_isSubAccountTx :: bool
  at_subAccountId :: "string option"
  at_executorGroupId :: "string option"
  at_managerGroupId :: "string option"
  at_executorName :: string
  at_adminNotes :: string
  at_createdAt :: int
  at_updatedAt :: int
  at_routedBy :: "(string \<times> string \<times> int) option"

type_synonym group_doc = "(string \<times> jsval) list"

text \<open>Customers are stored by their phone number, which has a unique index; the other documents by their identifier.\<close>

record 's admin_world =
  aw_txs :: "('s, admin_tx) coll"
  aw_companies :: "('s, account) coll"
  aw_users :: "('s, account) coll"
  aw_groups :: "('s, group_doc) coll"

text \<open>What a mutation returns, one constructor for each service function.\<close>

record owner_ref =
  or_model :: string
  or_id :: string

datatype admin_result =
    Repriced admin_tx jsnum jsnum jsnum "owner_ref option"
  | Edited admin_tx jsnum jsnum int jsnum jsnum "owner_ref option" "string list"
  | Reassigned admin_tx "string option" string

type_synonym 's admin_txn = "('s, admin_result) run \<Rightarrow> ('s, admin_result) run"

section \<open>Shared steps\<close>

definition appendNote :: "string \<Rightarrow> string \<Rightarrow> string" where
  "appendNote current note = join_with [CHR 10] (filter (\<lambda>s. s \<noteq> []) [current, trim note])"

definition isAgencyClientScopedTx :: "admin_tx \<Rightarrow> bool" where
  "isAgencyClientScopedTx tx \<longleftrightarrow> at_isSubAccountTx tx \<or> at_subAccountId tx \<noteq> None"

definition loadAdminVisibleTransaction :: "'s admin_world \<Rightarrow> string \<Rightarrow> ('s, admin_tx) run" where
  "loadAdminVisibleTransaction w i = bind (c_get (aw_txs w) i) (\<lambda>found. case found of
     Some tx \<Rightarrow> if isAgencyClientScopedTx tx then throw (plain_error ''TRANSACTION_NOT_FOUND'') else ret tx
   | None \<Rightarrow> throw (plain_error ''TRANSACTION_NOT_FOUND''))"

definition incrementBalance :: "('s, 'd) coll \<Rightarrow> (jsnum \<Rightarrow> 'd \<Rightarrow> 'd) \<Rightarrow> string \<Rightarrow> string \<Rightarrow> jsnum \<Rightarrow> ('s, owner_ref option) run" where
  "incrementBalance c add modelName i amount =
     (if \<not> truthy (Num amount) then ret None
      else bind (c_update c i (\<lambda>_. True) (add amount)) (\<lambda>record. case record of
          None \<Rightarrow> throw (plain_error ''FINANCIAL_OWNER_NOT_FOUND'')
        | Some _ \<Rightarrow> ret (Some \<lparr>or_model = modelName, or_id = i\<rparr>)))"

definition add_account :: "jsnum \<Rightarrow> account \<Rightarrow> account" where
  "add_account amount acc = acc\<lparr>balance := n_add (balance acc) amount\<rparr>"

definition add_group :: "jsnum \<Rightarrow> group_doc \<Rightarrow> group_doc" where
  "add_group amount g = obj_set ''balance'' (Num (n_add (num_or_0 (get (Obj g) ''balance'')) amount)) g"

definition inc_company :: "'s admin_world \<Rightarrow> string \<Rightarrow> jsnum \<Rightarrow> ('s, owner_ref option) run" where
  "inc_company w = incrementBalance (aw_companies w) add_account ''ClientCompany''"

definition inc_user :: "'s admin_world \<Rightarrow> string \<Rightarrow> jsnum \<Rightarrow> ('s, owner_ref option) run" where
  "inc_user w = incrementBalance (aw_users w) add_account ''User''"

definition inc_group :: "'s admin_world \<Rightarrow> string \<Rightarrow> jsnum \<Rightarrow> ('s, owner_ref option) run" where
  "inc_group w = incrementBalance (aw_groups w) add_group ''ExecutorGroup''"

definition adjustOwnerBalance :: "'s admin_world \<Rightarrow> admin_tx \<Rightarrow> jsnum \<Rightarrow> ('s, owner_ref option) run" where
  "adjustOwnerBalance w tx deltaLYD =
     (if \<not> truthy (Num deltaLYD) then ret None
      else case at_companyId tx of
          Some c \<Rightarrow> inc_company w c (n_neg deltaLYD)
        | None \<Rightarrow> if at_userId tx \<noteq> [] then inc_user w (at_userId tx) (n_neg deltaLYD) else ret None)"

definition save_tx :: "'s admin_world \<Rightarrow> string \<Rightarrow> (admin_tx \<Rightarrow> admin_tx) \<Rightarrow> ('s, admin_tx) run" where
  "save_tx w i set_fields = bind (c_update (aw_txs w) i (\<lambda>_. True) set_fields) (\<lambda>updated. case updated of
     None \<Rightarrow> throw (plain_error ''TRANSACTION_UPDATE_CONFLICT'') | Some tx \<Rightarrow> ret tx)"

definition editable :: "admin_tx \<Rightarrow> bool" where
  "editable tx \<longleftrightarrow> at_status tx \<notin> {''rejected'', ''cancelled_by_admin''}"

definition not_positive :: "jsnum \<Rightarrow> bool" where
  "not_positive x \<longleftrightarrow> \<not> isFinite x \<or> n_le x (Fin 0)"

section \<open>Repricing\<close>

text \<open>
  The texts of the notes are left out: the note that is appended to the transaction comes with the request, and so
  does the time.
\<close>

record reprice_request =
  rr_transactionId :: string
  rr_newRate :: jsval
  rr_note :: string
  rr_now :: int

definition reprice_work :: "'s admin_world \<Rightarrow> reprice_request \<Rightarrow> ('s, admin_result) run" where
  "reprice_work w rq =
     bind (loadAdminVisibleTransaction w (rr_transactionId rq)) (\<lambda>tx.
       andThen (throw_if (\<not> editable tx) (plain_error ''TRANSACTION_NOT_EDITABLE''))
       (let rate = toNumber (rr_newRate rq);
            oldCostLYD = or_zero (at_costLYD tx);
            oldRate = or_zero (at_exchangeRate tx);
            newCostLYD = calculateTransferCostLYD (at_transferType tx) (Num (at_amount tx)) (Num rate) 3
        in andThen (throw_if (not_positive rate) (plain_error ''INVALID_EXCHANGE_RATE''))
          (bind (adjustOwnerBalance w tx (n_sub newCostLYD oldCostLYD)) (\<lambda>owner.
           bind (save_tx w (at_id tx) (\<lambda>d. d\<lparr>at_costLYD := newCostLYD, at_exchangeRate := rate,
                   at_adminNotes := appendNote (at_adminNotes tx) (rr_note rq), at_updatedAt := rr_now rq\<rparr>)) (\<lambda>updated.
             ret (Repriced updated oldCostLYD oldRate newCostLYD owner))))))"

definition repriceTransaction ::
    "'s admin_txn \<Rightarrow> (error \<Rightarrow> bool) \<Rightarrow> bool \<Rightarrow> 's admin_world \<Rightarrow> reprice_request \<Rightarrow> ('s, admin_result) run" where
  "repriceTransaction txn notStarted requires w rq =
     withOptionalMongoTransaction txn notStarted requires (\<lambda>session. reprice_work w rq)"

section \<open>Editing the amount\<close>

text \<open>A date in the request is valid or not.\<close>

record edit_request =
  er_transactionId :: string
  er_newAmount :: jsval
  er_createdAt :: "int option option"
  er_note :: string
  er_now :: int

definition is_funding :: "admin_tx \<Rightarrow> bool" where
  "is_funding tx \<longleftrightarrow> at_status tx = ''deposit'' \<or> at_status tx = ''deduction''"

definition funds_executor :: "admin_tx \<Rightarrow> bool" where
  "funds_executor tx \<longleftrightarrow> at_userId tx = ''admin'' \<and> at_executorGroupId tx \<noteq> None"

text \<open>A deposit or a deduction: its owner gets the difference, or the executor groups are reported for a later synchronisation.\<close>

definition edit_funding :: "'s admin_world \<Rightarrow> admin_tx \<Rightarrow> jsnum \<Rightarrow> ('s, owner_ref option \<times> string list) run" where
  "edit_funding w tx amountDifference =
     (let balanceDifference = (if at_status tx = ''deposit'' then amountDifference else n_neg amountDifference)
      in if funds_executor tx
         then ret (None, (case at_executorGroupId tx of None \<Rightarrow> [] | Some g \<Rightarrow> [g]) @ (case at_managerGroupId tx of None \<Rightarrow> [] | Some g \<Rightarrow> [g]))
         else case at_companyId tx of
             Some c \<Rightarrow> bind (inc_company w c balanceDifference) (\<lambda>owner. ret (owner, []))
           | None \<Rightarrow> if at_userId tx \<noteq> [] then bind (inc_user w (at_userId tx) balanceDifference) (\<lambda>owner. ret (owner, []))
                     else ret (None, []))"

text \<open>A completed transfer also moves the balances of its executor and of the manager of that executor.\<close>

definition edit_executors :: "'s admin_world \<Rightarrow> admin_tx \<Rightarrow> jsnum \<Rightarrow> ('s, unit) run" where
  "edit_executors w tx amountDifference =
     (case at_executorGroupId tx of
        Some g \<Rightarrow> if at_status tx = ''completed''
          then andThen (inc_group w g (n_neg amountDifference))
                 (case at_managerGroupId tx of
                    Some m \<Rightarrow> andThen (inc_group w m (n_neg amountDifference)) (ret ()) | None \<Rightarrow> ret ())
          else ret ()
      | None \<Rightarrow> ret ())"

definition edit_transfer :: "'s admin_world \<Rightarrow> admin_tx \<Rightarrow> jsnum \<Rightarrow> jsnum \<Rightarrow> ('s, owner_ref option) run" where
  "edit_transfer w tx costDifference amountDifference =
     bind (adjustOwnerBalance w tx costDifference) (\<lambda>owner.
       andThen (edit_executors w tx amountDifference) (ret owner))"

definition edit_fields :: "admin_tx \<Rightarrow> edit_request \<Rightarrow> jsnum \<Rightarrow> jsnum option \<Rightarrow> admin_tx \<Rightarrow> admin_tx" where
  "edit_fields tx rq amount cost d = d\<lparr>at_amount := amount,
     at_costLYD := (case cost of None \<Rightarrow> at_costLYD d | Some c \<Rightarrow> c),
     at_adminNotes := appendNote (at_adminNotes tx) (er_note rq), at_updatedAt := er_now rq,
     at_createdAt := (case er_createdAt rq of Some (Some t) \<Rightarrow> t | _ \<Rightarrow> at_createdAt d)\<rparr>"

definition edit_checked :: "'s admin_world \<Rightarrow> edit_request \<Rightarrow> admin_tx \<Rightarrow> jsnum \<Rightarrow> ('s, admin_result) run" where
  "edit_checked w rq tx amount =
     (let oldAmountEGP = or_zero (at_amount tx);
          oldCostLYD = or_zero (at_costLYD tx);
          difference = n_sub amount oldAmountEGP;
          edited = (\<lambda>updated newCost owner syncIds. Edited updated oldAmountEGP oldCostLYD (at_createdAt tx) amount newCost owner syncIds)
      in if is_funding tx
         then bind (edit_funding w tx difference) (\<lambda>(owner, syncIds).
              bind (save_tx w (at_id tx) (edit_fields tx rq amount None)) (\<lambda>updated. ret (edited updated oldCostLYD owner syncIds)))
         else let rate = at_exchangeRate tx;
                  newCostLYD = calculateTransferCostLYD (at_transferType tx) (Num amount) (Num rate) 3
              in andThen (throw_if (not_positive rate) (plain_error ''INVALID_EXCHANGE_RATE''))
                (bind (edit_transfer w tx (n_sub newCostLYD oldCostLYD) difference) (\<lambda>owner.
                 bind (save_tx w (at_id tx) (edit_fields tx rq amount (Some newCostLYD))) (\<lambda>updated.
                   ret (edited updated newCostLYD owner [])))))"

definition edit_work :: "'s admin_world \<Rightarrow> edit_request \<Rightarrow> ('s, admin_result) run" where
  "edit_work w rq =
     bind (loadAdminVisibleTransaction w (er_transactionId rq)) (\<lambda>tx.
       andThen (throw_if (\<not> editable tx) (plain_error ''TRANSACTION_NOT_EDITABLE''))
       (let amount = toNumber (er_newAmount rq)
        in andThen (throw_if (not_positive amount) (plain_error ''INVALID_AMOUNT''))
          (andThen (throw_if (er_createdAt rq = Some None) (plain_error ''INVALID_TRANSACTION_DATE''))
            (edit_checked w rq tx amount))))"

definition editTransactionAmount ::
    "'s admin_txn \<Rightarrow> (error \<Rightarrow> bool) \<Rightarrow> bool \<Rightarrow> 's admin_world \<Rightarrow> edit_request \<Rightarrow> ('s, admin_result) run" where
  "editTransactionAmount txn notStarted requires w rq =
     withOptionalMongoTransaction txn notStarted requires (\<lambda>session. edit_work w rq)"

section \<open>Changing the executor\<close>

record reassign_request =
  ar_transactionId :: string
  ar_newGroupId :: string
  ar_routedBy :: "(jsval \<times> jsval \<times> int option) option"
  ar_unknownName :: string
  ar_note :: string
  ar_now :: int

definition accepts_transfer :: "group_doc \<Rightarrow> jsval \<Rightarrow> bool" where
  "accepts_transfer g transferType \<longleftrightarrow> get (Obj g) ''status'' = Str ''active'' \<and> \<not> truthy (get (Obj g) ''isManagerBot'')
     \<and> executorSupportsTransferType (Obj g) transferType"

definition manager_of :: "group_doc \<Rightarrow> string option" where
  "manager_of g = (case or_else (get (Obj g) ''parentGroupId'') (get (Obj g) ''parentBotId'') of
     Str i \<Rightarrow> if i = [] then None else Some i | _ \<Rightarrow> None)"

definition inc_optional :: "'s admin_world \<Rightarrow> string option \<Rightarrow> jsnum \<Rightarrow> ('s, unit) run" where
  "inc_optional w g amount = (case g of None \<Rightarrow> ret () | Some i \<Rightarrow> andThen (inc_group w i amount) (ret ()))"

definition routed_actor :: "reassign_request \<Rightarrow> (string \<times> string \<times> int) option" where
  "routed_actor rq = (case ar_routedBy rq of None \<Rightarrow> None
     | Some (i, name, stamp) \<Rightarrow> if clean i \<noteq> [] \<and> clean name \<noteq> []
         then Some (clean i, clean name, case stamp of None \<Rightarrow> ar_now rq | Some t \<Rightarrow> t) else None)"

definition reassign_fields :: "admin_tx \<Rightarrow> reassign_request \<Rightarrow> group_doc \<Rightarrow> admin_tx \<Rightarrow> admin_tx" where
  "reassign_fields tx rq g d = d\<lparr>at_executorGroupId := Some (ar_newGroupId rq), at_managerGroupId := manager_of g,
     at_executorName := (case or_else (get (Obj g) ''name'') (Str (ar_unknownName rq)) of v \<Rightarrow> toString v),
     at_adminNotes := appendNote (at_adminNotes tx) (ar_note rq), at_updatedAt := ar_now rq,
     at_routedBy := (case routed_actor rq of None \<Rightarrow> at_routedBy d | Some a \<Rightarrow> Some a)\<rparr>"

definition find_executor :: "'s admin_world \<Rightarrow> reassign_request \<Rightarrow> admin_tx \<Rightarrow> ('s, group_doc) run" where
  "find_executor w rq tx = bind (c_get (aw_groups w) (ar_newGroupId rq)) (\<lambda>found. case found of
     Some g \<Rightarrow> if accepts_transfer g (at_transferType tx) then ret g else throw (plain_error ''EXECUTOR_SERVICE_MISMATCH'')
   | None \<Rightarrow> throw (plain_error ''EXECUTOR_SERVICE_MISMATCH''))"

definition reassign_to :: "'s admin_world \<Rightarrow> reassign_request \<Rightarrow> admin_tx \<Rightarrow> group_doc \<Rightarrow> ('s, admin_result) run" where
  "reassign_to w rq tx g = (let amount = or_zero (at_amount tx)
     in andThen (throw_if (not_positive amount) (plain_error ''INVALID_AMOUNT''))
       (andThen (inc_optional w (at_executorGroupId tx) amount)
       (andThen (inc_optional w (at_managerGroupId tx) amount)
       (andThen (inc_group w (ar_newGroupId rq) (n_neg amount))
       (andThen (inc_optional w (manager_of g) (n_neg amount))
       (bind (save_tx w (at_id tx) (reassign_fields tx rq g)) (\<lambda>updated.
         ret (Reassigned updated (at_executorGroupId tx) (at_executorName tx)))))))))"

definition reassign_work :: "'s admin_world \<Rightarrow> reassign_request \<Rightarrow> ('s, admin_result) run" where
  "reassign_work w rq =
     bind (loadAdminVisibleTransaction w (ar_transactionId rq)) (\<lambda>tx.
       andThen (throw_if (at_status tx \<noteq> ''completed'') (plain_error ''TRANSACTION_NOT_COMPLETED''))
       (andThen (throw_if (at_executorGroupId tx = Some (ar_newGroupId rq)) (plain_error ''EXECUTOR_ALREADY_ASSIGNED''))
       (bind (find_executor w rq tx) (reassign_to w rq tx))))"

definition reassignTransactionExecutor ::
    "'s admin_txn \<Rightarrow> (error \<Rightarrow> bool) \<Rightarrow> bool \<Rightarrow> 's admin_world \<Rightarrow> reassign_request \<Rightarrow> ('s, admin_result) run" where
  "reassignTransactionExecutor txn notStarted requires w rq =
     withOptionalMongoTransaction txn notStarted requires (\<lambda>session. reassign_work w rq)"

end
