(* ===== verification/Admin_Books.thy ===== *)
theory Admin_Books
  imports Admin_Mutation
begin

text \<open>
  The books that the corrections keep: each party's capital, read off the stored balances and transactions, and the
  proof that every correction leaves it unchanged.  Two defects of the corrections follow.
\<close>

section \<open>The books\<close>

text \<open>
  What the administration promises about money: whoever pays for the transfers has a capital, the balance plus the
  cost of every transfer that still counts and less what was deposited, and every executor group has one, the balance
  plus the amounts that it has executed.
\<close>

datatype party = Company string | Customer string | Executor string

type_synonym admin_books =
  "(string \<Rightarrow> admin_tx option) \<times> (string \<Rightarrow> account option) \<times> (string \<Rightarrow> account option) \<times> (string \<Rightarrow> group_doc option)"

definition books_view :: "'s admin_world \<Rightarrow> 's \<Rightarrow> admin_books" where
  "books_view w s = (c_view (aw_txs w) s, c_view (aw_companies w) s, c_view (aw_users w) s, c_view (aw_groups w) s)"

definition admin_store :: "'s admin_world \<Rightarrow> bool" where
  "admin_store w \<longleftrightarrow> coll_ok (aw_txs w) \<and> coll_ok (aw_companies w) \<and> coll_ok (aw_users w) \<and> coll_ok (aw_groups w)
     \<and> quiet (aw_txs w) (c_view (aw_companies w)) \<and> quiet (aw_txs w) (c_view (aw_users w)) \<and> quiet (aw_txs w) (c_view (aw_groups w))
     \<and> quiet (aw_companies w) (c_view (aw_txs w)) \<and> quiet (aw_companies w) (c_view (aw_users w)) \<and> quiet (aw_companies w) (c_view (aw_groups w))
     \<and> quiet (aw_users w) (c_view (aw_txs w)) \<and> quiet (aw_users w) (c_view (aw_companies w)) \<and> quiet (aw_users w) (c_view (aw_groups w))
     \<and> quiet (aw_groups w) (c_view (aw_txs w)) \<and> quiet (aw_groups w) (c_view (aw_companies w)) \<and> quiet (aw_groups w) (c_view (aw_users w))"

definition group_balance :: "group_doc \<Rightarrow> jsnum" where
  "group_balance g = num_or_0 (get (Obj g) ''balance'')"

fun balance_of :: "admin_books \<Rightarrow> party \<Rightarrow> jsnum option" where
  "balance_of (ts, cs, us, gs) (Company c) = map_option balance (cs c)"
| "balance_of (ts, cs, us, gs) (Customer u) = map_option balance (us u)"
| "balance_of (ts, cs, us, gs) (Executor g) = map_option group_balance (gs g)"

definition pay_to :: "party option \<Rightarrow> int \<Rightarrow> party \<Rightarrow> int" where
  "pay_to po x p = (if po = Some p then x else 0)"

definition customer_of :: "admin_tx \<Rightarrow> party option" where
  "customer_of tx = (case at_companyId tx of Some c \<Rightarrow> Some (Company c)
     | None \<Rightarrow> if at_userId tx \<noteq> [] then Some (Customer (at_userId tx)) else None)"

definition payer :: "admin_tx \<Rightarrow> party option" where
  "payer tx = (if is_funding tx \<and> funds_executor tx then None else customer_of tx)"

definition charge :: "admin_tx \<Rightarrow> int" where
  "charge tx = (if at_status tx = ''deposit'' then - milli (at_amount tx)
     else if at_status tx = ''deduction'' then milli (at_amount tx)
     else if editable tx then milli (at_costLYD tx) else 0)"

definition share :: "admin_tx \<Rightarrow> party \<Rightarrow> int" where
  "share tx p = pay_to (payer tx) (charge tx) p
     + (if at_status tx = ''completed''
        then pay_to (map_option Executor (at_executorGroupId tx)) (milli (at_amount tx)) p
           + pay_to (map_option Executor (at_managerGroupId tx)) (milli (at_amount tx)) p
        else 0)"

definition capital :: "admin_books \<Rightarrow> party \<Rightarrow> int option" where
  "capital v p = map_option (\<lambda>b. milli b + sum_map (\<lambda>tx. share tx p) (fst v)) (balance_of v p)"

definition priced :: "jsnum \<Rightarrow> bool" where
  "priced x \<longleftrightarrow> near 1 (milli x) x \<and> 0 \<le> milli x \<and> milli x \<le> 1000000000"

definition tx_ok :: "string \<Rightarrow> admin_tx \<Rightarrow> bool" where
  "tx_ok i tx \<longleftrightarrow> at_id tx = i \<and> priced (at_amount tx) \<and> priced (at_costLYD tx)
     \<and> (at_executorGroupId tx = None \<longrightarrow> at_managerGroupId tx = None)"

definition txs_ok :: "(string \<Rightarrow> admin_tx option) \<Rightarrow> bool" where
  "txs_ok ts \<longleftrightarrow> finite (dom ts) \<and> (\<forall>i tx. ts i = Some tx \<longrightarrow> tx_ok i tx)"

definition held :: "nat \<Rightarrow> jsnum \<Rightarrow> bool" where
  "held k b \<longleftrightarrow> near k (milli b) b \<and> \<bar>milli b\<bar> \<le> int k * 1000000000"

definition accounts_ok :: "nat \<Rightarrow> admin_books \<Rightarrow> bool" where
  "accounts_ok k v \<longleftrightarrow> (\<forall>p b. balance_of v p = Some b \<longrightarrow> held k b)"

text \<open>Payments: every party's balance has changed by what \<open>f\<close> says, and no transaction has.\<close>

definition paid :: "nat \<Rightarrow> (party \<Rightarrow> int) \<Rightarrow> admin_books \<Rightarrow> admin_books \<Rightarrow> bool" where
  "paid k f v v' \<longleftrightarrow> fst v' = fst v \<and> accounts_ok k v'
     \<and> (\<forall>p. map_option milli (balance_of v' p) = map_option (\<lambda>b. milli b + f p) (balance_of v p))"

lemma held_mono: "held k b \<Longrightarrow> k \<le> k' \<Longrightarrow> held k' b"
  unfolding held_def by (meson mult_right_mono near_mono of_nat_mono order_trans zero_le_numeral)

lemma accounts_mono: "accounts_ok k v \<Longrightarrow> k \<le> k' \<Longrightarrow> accounts_ok k' v"
  unfolding accounts_ok_def using held_mono by blast

lemma held_add:
  assumes "held k b" "near 3 x d" "\<bar>x\<bar> \<le> 1000000000" "k + 4 \<le> 1000"
  shows "milli (n_add b d) = milli b + x" "held (k + 4) (n_add b d)"
proof -
  have "\<bar>milli b + x\<bar> \<le> \<bar>milli b\<bar> + \<bar>x\<bar>" by (rule abs_triangle_ineq)
  also have "\<dots> \<le> int (k + 4) * 1000000000" using assms by (simp add: held_def)
  finally have k: "\<bar>milli b + x\<bar> \<le> int (k + 4) * 1000000000" .
  also have "int (k + 4) * 1000000000 \<le> 1000 * 1000000000" using assms(4) by (intro mult_right_mono) simp_all
  finally have "\<bar>milli b + x\<bar> \<le> LIMIT" by (simp add: LIMIT_def)
  then have n: "near (k + 4) (milli b + x) (n_add b d)"
    using near_add [of k "milli b" b 3 x d] assms by (simp add: held_def add.commute)
  show m: "milli (n_add b d) = milli b + x" by (rule milli_near [OF n]) (use assms(4) in linarith)
  show "held (k + 4) (n_add b d)" using n k by (simp add: held_def m)
qed

lemma paid_refl: "accounts_ok k v \<Longrightarrow> paid k (\<lambda>_. 0) v v"
  by (simp add: paid_def comp_def)

lemma paid_trans:
  assumes "paid k f u v" "paid k' g v w"
  shows "paid k' (\<lambda>p. f p + g p) u w"
  unfolding paid_def
proof (intro conjI allI)
  fix p
  have "map_option milli (balance_of v p) = map_option (\<lambda>b. milli b + f p) (balance_of u p)"
    "map_option milli (balance_of w p) = map_option (\<lambda>b. milli b + g p) (balance_of v p)"
    using assms by (simp_all add: paid_def)
  then show "map_option milli (balance_of w p) = map_option (\<lambda>b. milli b + (f p + g p)) (balance_of u p)"
    by (cases "balance_of u p"; cases "balance_of v p"; cases "balance_of w p") simp_all
qed (use assms in \<open>simp_all add: paid_def\<close>)

lemma group_balance_add [simp]: "group_balance (add_group a g) = or_zero (n_add (group_balance g) a)"
  by (simp add: group_balance_def add_group_def get_obj_set num_or_0_Num del: get.simps)

lemma or_zero_held: "held k b \<Longrightarrow> or_zero b = b"
  by (auto simp: held_def near_def or_zero_def)

lemma milli_or_zero [simp]: "milli (or_zero b) = milli b"
  by (auto simp: or_zero_def milli_def fixed_int_def fixed_digits_def split: jsnum.splits)

lemma pay_at:
  assumes "accounts_ok k v" "fst v' = fst v" "balance_of v' = (balance_of v)(p \<mapsto> n_add b d)" "balance_of v p = Some b"
    and "near 3 x d" "\<bar>x\<bar> \<le> 1000000000" "k + 4 \<le> 1000"
  shows "paid (k + 4) (pay_to (Some p) x) v v'"
proof -
  have b: "held k b" using assms(1,4) by (simp add: accounts_ok_def)
  note add = held_add [OF b assms(5-7)]
  have "accounts_ok (k + 4) v'"
    unfolding accounts_ok_def assms(3) using add(2) accounts_mono [OF assms(1), of "k + 4"]
    by (simp add: accounts_ok_def)
  then show ?thesis
    using add(1) assms(2-4) by (simp add: paid_def pay_to_def comp_def)
qed

lemma pay_party:
  "cs i = Some acc \<Longrightarrow> balance_of (ts, cs(i \<mapsto> add_account d acc), us, gs) = (balance_of (ts, cs, us, gs))(Company i \<mapsto> n_add (balance acc) d)"
  "us i = Some acc \<Longrightarrow> balance_of (ts, cs, us(i \<mapsto> add_account d acc), gs) = (balance_of (ts, cs, us, gs))(Customer i \<mapsto> n_add (balance acc) d)"
  "gs i = Some g \<Longrightarrow> or_zero (n_add (group_balance g) d) = n_add (group_balance g) d
    \<Longrightarrow> balance_of (ts, cs, us, gs(i \<mapsto> add_group d g)) = (balance_of (ts, cs, us, gs))(Executor i \<mapsto> n_add (group_balance g) d)"
  by (rule ext, rename_tac p, case_tac p; simp add: add_account_def)+

section \<open>Effects of the steps\<close>

lemma store_view:
  assumes "admin_store w" "books_view w s = (ts, cs, us, gs)"
  shows "c_view (aw_txs w) s = ts" "c_view (aw_companies w) s = cs" "c_view (aw_users w) s = us" "c_view (aw_groups w) s = gs"
  using assms(2) by (simp_all add: books_view_def)

lemma admin_storeD:
  assumes "admin_store w"
  shows "coll_ok (aw_txs w)" "coll_ok (aw_companies w)" "coll_ok (aw_users w)" "coll_ok (aw_groups w)"
    "quiet (aw_txs w) (c_view (aw_companies w))" "quiet (aw_txs w) (c_view (aw_users w))" "quiet (aw_txs w) (c_view (aw_groups w))"
    "quiet (aw_companies w) (c_view (aw_txs w))" "quiet (aw_companies w) (c_view (aw_users w))" "quiet (aw_companies w) (c_view (aw_groups w))"
    "quiet (aw_users w) (c_view (aw_txs w))" "quiet (aw_users w) (c_view (aw_companies w))" "quiet (aw_users w) (c_view (aw_groups w))"
    "quiet (aw_groups w) (c_view (aw_txs w))" "quiet (aw_groups w) (c_view (aw_companies w))" "quiet (aw_groups w) (c_view (aw_users w))"
  using assms unfolding admin_store_def by blast+

lemma books_view_eqI:
  "c_view (aw_txs w) s' = c_view (aw_txs w) s \<Longrightarrow> c_view (aw_companies w) s' = c_view (aw_companies w) s
    \<Longrightarrow> c_view (aw_users w) s' = c_view (aw_users w) s \<Longrightarrow> c_view (aw_groups w) s' = c_view (aw_groups w) s
    \<Longrightarrow> books_view w s' = books_view w s"
  by (simp add: books_view_def)

lemma read_tx:
  assumes "admin_store w" "c_get (aw_txs w) i s = (r, s')"
  shows "books_view w s' = books_view w s" "r = Inr x \<Longrightarrow> x = c_view (aw_txs w) s i"
  using c_get_view [OF admin_storeD(1) [OF assms(1)]] quietD(4) [OF admin_storeD(5) [OF assms(1)]]
    quietD(4) [OF admin_storeD(6) [OF assms(1)]] quietD(4) [OF admin_storeD(7) [OF assms(1)]] assms(2)
  by (auto intro!: books_view_eqI)

lemma read_group:
  assumes "admin_store w" "c_get (aw_groups w) i s = (r, s')"
  shows "books_view w s' = books_view w s" "r = Inr x \<Longrightarrow> x = c_view (aw_groups w) s i"
  using c_get_view [OF admin_storeD(4) [OF assms(1)]] quietD(4) [OF admin_storeD(14) [OF assms(1)]]
    quietD(4) [OF admin_storeD(15) [OF assms(1)]] quietD(4) [OF admin_storeD(16) [OF assms(1)]] assms(2)
  by (auto intro!: books_view_eqI)

lemma keeps_increment [keeps_intros]: "quiet c v \<Longrightarrow> keeps v (incrementBalance c add m i d)"
  unfolding incrementBalance_def by (intro keeps_intros)

lemma incrementBalance_Inr:
  assumes "coll_ok c" "incrementBalance c add m i amount s = (Inr r, s')"
  shows "\<not> truthy (Num amount) \<and> s' = s
    \<or> (\<exists>d. c_view c s i = Some d \<and> c_view c s' = (c_view c s)(i \<mapsto> add amount d))"
proof (cases "truthy (Num amount)")
  case False
  then show ?thesis using assms(2) by (auto simp: incrementBalance_def ret_def simp del: truthy.simps)
next
  case True
  then obtain x s1 where u: "c_update c i (\<lambda>_. True) (add amount) s = (Inr x, s1)"
    and r: "(case x of None \<Rightarrow> throw (plain_error ''FINANCIAL_OWNER_NOT_FOUND'')
        | Some _ \<Rightarrow> ret (Some \<lparr>or_model = m, or_id = i\<rparr>)) s1 = (Inr r, s')"
    using assms(2) unfolding incrementBalance_def by (auto elim: bind_InrE simp del: truthy.simps)
  from r obtain d' where "x = Some d'" "s1 = s'" by (cases x) (simp_all add: throw_def ret_def)
  with u c_update_Some [OF assms(1), of i "\<lambda>_. True" "add amount" s d' s'] show ?thesis by blast
qed

lemma falsy_near: "near 3 x d \<Longrightarrow> \<not> truthy (Num d) \<Longrightarrow> x = 0"
proof -
  assume n: "near 3 x d" and "\<not> truthy (Num d)"
  then have "d = Fin 0" by (auto simp: near_def)
  moreover have "near 3 0 (Fin 0)" by (simp add: near_def)
  ultimately show "x = 0" using near_unique [OF n] by simp
qed

lemma paid_zero: "accounts_ok k v \<Longrightarrow> paid (k + 4) (pay_to (Some p) 0) v v"
  using accounts_mono [of k v "k + 4"] by (simp add: paid_def pay_to_def comp_def)

lemma inc_paid:
  assumes "coll_ok c" "incrementBalance c add m i d s = (Inr r, s')" "accounts_ok k (books_view w s)"
    "near 3 x d" "\<bar>x\<bar> \<le> 1000000000" "k + 4 \<le> 1000"
    and upd: "\<And>a. c_view c s i = Some a \<Longrightarrow> c_view c s' = (c_view c s)(i \<mapsto> add d a) \<Longrightarrow>
      \<exists>b. balance_of (books_view w s) p = Some b \<and> balance_of (books_view w s') = (balance_of (books_view w s))(p \<mapsto> n_add b d)
        \<and> fst (books_view w s') = fst (books_view w s)"
  shows "paid (k + 4) (pay_to (Some p) x) (books_view w s) (books_view w s')"
  using incrementBalance_Inr [OF assms(1,2)]
proof (elim disjE conjE exE)
  assume "\<not> truthy (Num d)" "s' = s"
  then show ?thesis using falsy_near [OF assms(4)] paid_zero [OF assms(3)] by simp
next
  fix a assume "c_view c s i = Some a" "c_view c s' = (c_view c s)(i \<mapsto> add d a)"
  from upd [OF this] show ?thesis using pay_at [OF assms(3) _ _ _ assms(4-6)] by blast
qed

lemma inc_company_paid:
  assumes "admin_store w" "inc_company w i d s = (Inr r, s')" "accounts_ok k (books_view w s)"
    "near 3 x d" "\<bar>x\<bar> \<le> 1000000000" "k + 4 \<le> 1000"
  shows "paid (k + 4) (pay_to (Some (Company i)) x) (books_view w s) (books_view w s')"
  by (rule inc_paid [OF admin_storeD(2) [OF assms(1)] assms(2) [unfolded inc_company_def] assms(3-6)])
     (use keepsD [OF keeps_increment [OF admin_storeD(8) [OF assms(1)]] assms(2) [unfolded inc_company_def]]
        keepsD [OF keeps_increment [OF admin_storeD(9) [OF assms(1)]] assms(2) [unfolded inc_company_def]]
        keepsD [OF keeps_increment [OF admin_storeD(10) [OF assms(1)]] assms(2) [unfolded inc_company_def]]
      in \<open>simp add: books_view_def pay_party\<close>)

lemma inc_user_paid:
  assumes "admin_store w" "inc_user w i d s = (Inr r, s')" "accounts_ok k (books_view w s)"
    "near 3 x d" "\<bar>x\<bar> \<le> 1000000000" "k + 4 \<le> 1000"
  shows "paid (k + 4) (pay_to (Some (Customer i)) x) (books_view w s) (books_view w s')"
  by (rule inc_paid [OF admin_storeD(3) [OF assms(1)] assms(2) [unfolded inc_user_def] assms(3-6)])
     (use keepsD [OF keeps_increment [OF admin_storeD(11) [OF assms(1)]] assms(2) [unfolded inc_user_def]]
        keepsD [OF keeps_increment [OF admin_storeD(12) [OF assms(1)]] assms(2) [unfolded inc_user_def]]
        keepsD [OF keeps_increment [OF admin_storeD(13) [OF assms(1)]] assms(2) [unfolded inc_user_def]]
      in \<open>simp add: books_view_def pay_party\<close>)

lemma inc_group_paid:
  assumes "admin_store w" "inc_group w i d s = (Inr r, s')" "accounts_ok k (books_view w s)"
    "near 3 x d" "\<bar>x\<bar> \<le> 1000000000" "k + 4 \<le> 1000"
  shows "paid (k + 4) (pay_to (Some (Executor i)) x) (books_view w s) (books_view w s')"
proof (rule inc_paid [OF admin_storeD(4) [OF assms(1)] assms(2) [unfolded inc_group_def] assms(3-6)])
  fix g
  assume g: "c_view (aw_groups w) s i = Some g" "c_view (aw_groups w) s' = (c_view (aw_groups w) s)(i \<mapsto> add_group d g)"
  then have "held k (group_balance g)"
    using assms(3) unfolding accounts_ok_def books_view_def by (metis balance_of.simps(3) option.simps(9))
  then have "or_zero (n_add (group_balance g) d) = n_add (group_balance g) d"
    using held_add(2) assms(4-6) or_zero_held by blast
  then show "\<exists>b. balance_of (books_view w s) (Executor i) = Some b
      \<and> balance_of (books_view w s') = (balance_of (books_view w s))(Executor i \<mapsto> n_add b d) \<and> fst (books_view w s') = fst (books_view w s)"
    using g keepsD [OF keeps_increment [OF admin_storeD(14) [OF assms(1)]] assms(2) [unfolded inc_group_def]]
        keepsD [OF keeps_increment [OF admin_storeD(15) [OF assms(1)]] assms(2) [unfolded inc_group_def]]
        keepsD [OF keeps_increment [OF admin_storeD(16) [OF assms(1)]] assms(2) [unfolded inc_group_def]]
    by (simp add: books_view_def pay_party)
qed

definition books_ok :: "nat \<Rightarrow> admin_books \<Rightarrow> bool" where
  "books_ok k v \<longleftrightarrow> txs_ok (fst v) \<and> accounts_ok k v"

lemma paid_mono: "paid k f v v' \<Longrightarrow> k \<le> k' \<Longrightarrow> paid k' f v v'"
  unfolding paid_def using accounts_mono by blast

lemma pay_none: "accounts_ok k v \<Longrightarrow> paid (k + 4) (pay_to None x) v v"
  using accounts_mono [of k v "k + 4"] by (simp add: paid_def pay_to_def comp_def)

lemma paid_ok: "paid k f v v' \<Longrightarrow> accounts_ok k v'"
  by (simp add: paid_def)

lemma adjust_paid:
  assumes "admin_store w" "adjustOwnerBalance w tx d s = (Inr r, s')" "accounts_ok k (books_view w s)"
    "near 3 x d" "\<bar>x\<bar> \<le> 1000000000" "k + 4 \<le> 1000"
  shows "paid (k + 4) (pay_to (customer_of tx) (- x)) (books_view w s) (books_view w s')"
proof (cases "truthy (Num d)")
  case False
  then have "s' = s" "x = 0" using assms(2) falsy_near [OF assms(4)] by (auto simp: adjustOwnerBalance_def ret_def simp del: truthy.simps)
  then show ?thesis using assms(3) accounts_mono [of k _ "k + 4"] by (simp add: paid_def pay_to_def comp_def)
next
  case True
  have n: "near 3 (- x) (n_neg d)" "\<bar>- x\<bar> \<le> 1000000000" using near_neg [OF assms(4)] assms(5) by simp_all
  show ?thesis
  proof (cases "at_companyId tx")
    case (Some c)
    then show ?thesis
      using assms(2) True inc_company_paid [OF assms(1) _ assms(3) n assms(6)]
      by (simp add: adjustOwnerBalance_def customer_of_def del: truthy.simps)
  next
    case None
    then show ?thesis
      using assms(2) True inc_user_paid [OF assms(1) _ assms(3) n assms(6)] pay_none [OF assms(3)]
      by (cases "at_userId tx = []") (simp_all add: adjustOwnerBalance_def customer_of_def ret_def del: truthy.simps)
  qed
qed

lemma optional_paid:
  assumes "admin_store w" "inc_optional w g d s = (Inr r, s')" "accounts_ok k (books_view w s)"
    "near 3 x d" "\<bar>x\<bar> \<le> 1000000000" "k + 4 \<le> 1000"
  shows "paid (k + 4) (pay_to (map_option Executor g) x) (books_view w s) (books_view w s')"
proof (cases g)
  case None
  then show ?thesis using assms(2) pay_none [OF assms(3)] by (simp add: inc_optional_def ret_def)
next
  case (Some i)
  then obtain u where "inc_group w i d s = (Inr u, s')"
    using assms(2) by (auto simp: inc_optional_def ret_def elim!: andThen_InrE)
  from inc_group_paid [OF assms(1) this assms(3-6)] show ?thesis by (simp add: Some)
qed

lemma funding_paid:
  assumes "admin_store w" "edit_funding w tx d s = (Inr r, s')" "accounts_ok k (books_view w s)"
    "near 3 x d" "\<bar>x\<bar> \<le> 1000000000" "k + 4 \<le> 1000" "is_funding tx"
  shows "paid (k + 4) (pay_to (payer tx) (if at_status tx = ''deposit'' then x else - x)) (books_view w s) (books_view w s')"
proof (cases "funds_executor tx")
  case True
  then show ?thesis using assms(2,7) pay_none [OF assms(3)] by (simp add: edit_funding_def payer_def Let_def ret_def)
next
  case False
  let ?x = "if at_status tx = ''deposit'' then x else - x" and ?d = "if at_status tx = ''deposit'' then d else n_neg d"
  have n: "near 3 ?x ?d" "\<bar>?x\<bar> \<le> 1000000000" using near_neg [OF assms(4)] assms(4,5) by simp_all
  show ?thesis
  proof (cases "at_companyId tx")
    case (Some c)
    then obtain u where "inc_company w c ?d s = (Inr u, s')"
      using assms(2) False by (auto simp: edit_funding_def Let_def ret_def elim!: bind_InrE)
    from inc_company_paid [OF assms(1) this assms(3) n assms(6)] show ?thesis
      using Some False by (simp add: payer_def customer_of_def)
  next
    case None
    show ?thesis
    proof (cases "at_userId tx = []")
      case True
      then show ?thesis using assms(2) None False pay_none [OF assms(3)]
        by (simp add: edit_funding_def payer_def customer_of_def Let_def ret_def)
    next
      case nonempty: False
      then obtain u where "inc_user w (at_userId tx) ?d s = (Inr u, s')"
        using assms(2) None False by (auto simp: edit_funding_def Let_def ret_def elim!: bind_InrE)
      from inc_user_paid [OF assms(1) this assms(3) n assms(6)] show ?thesis
        using None False nonempty by (simp add: payer_def customer_of_def)
    qed
  qed
qed

lemma executors_paid:
  assumes "admin_store w" "edit_executors w tx d s = (Inr r, s')" "accounts_ok k (books_view w s)"
    "near 3 x d" "\<bar>x\<bar> \<le> 1000000000" "k + 8 \<le> 1000" "at_executorGroupId tx = None \<longrightarrow> at_managerGroupId tx = None"
  shows "paid (k + 8) (\<lambda>p. if at_status tx = ''completed''
      then pay_to (map_option Executor (at_executorGroupId tx)) (- x) p + pay_to (map_option Executor (at_managerGroupId tx)) (- x) p else 0)
     (books_view w s) (books_view w s')"
proof (cases "at_status tx = ''completed'' \<and> at_executorGroupId tx \<noteq> None")
  case True
  have n: "near 3 (- x) (n_neg d)" "\<bar>- x\<bar> \<le> 1000000000" using near_neg [OF assms(4)] assms(5) by simp_all
  obtain s1 where g: "inc_optional w (at_executorGroupId tx) (n_neg d) s = (Inr (), s1)"
    and m: "inc_optional w (at_managerGroupId tx) (n_neg d) s1 = (Inr (), s')"
    using True assms(2) by (auto simp: edit_executors_def inc_optional_def andThen_run ret_def split: prod.splits sum.splits option.splits)
  have p1: "paid (k + 4) (pay_to (map_option Executor (at_executorGroupId tx)) (- x)) (books_view w s) (books_view w s1)"
    using assms(6) by (intro optional_paid [OF assms(1) g assms(3) n]) simp
  have "paid (k + 4 + 4) (pay_to (map_option Executor (at_managerGroupId tx)) (- x)) (books_view w s1) (books_view w s')"
    using assms(6) by (intro optional_paid [OF assms(1) m paid_ok [OF p1] n]) simp
  from paid_trans [OF p1 this] show ?thesis using True by (simp add: add.assoc)
next
  case False
  then have "s' = s" using assms(2) by (auto simp: edit_executors_def ret_def split: option.splits if_splits)
  then show ?thesis using False assms(7) accounts_mono [OF assms(3), of "k + 8"] by (auto simp: paid_def pay_to_def comp_def)
qed

definition kept :: "nat \<Rightarrow> admin_books \<Rightarrow> admin_books \<Rightarrow> bool" where
  "kept k v v' \<longleftrightarrow> books_ok k v' \<and> (\<forall>p. capital v' p = capital v p)"

lemma balance_of_txs: "balance_of (ts, snd v) = balance_of v"
proof (cases v)
  case (fields ts' cs us gs)
  show ?thesis by (rule ext, rename_tac p, case_tac p) (simp_all add: fields)
qed

lemma save_tx_Inr:
  assumes "admin_store w" "save_tx w i f s = (Inr tx, s')"
  obtains d where "c_view (aw_txs w) s i = Some d" "tx = f d"
    "books_view w s' = ((fst (books_view w s))(i \<mapsto> f d), snd (books_view w s))"
proof -
  obtain x s1 where u: "c_update (aw_txs w) i (\<lambda>_. True) f s = (Inr x, s1)"
    and r: "(case x of None \<Rightarrow> throw (plain_error ''TRANSACTION_UPDATE_CONFLICT'') | Some tx \<Rightarrow> ret tx) s1 = (Inr tx, s')"
    using assms(2) unfolding save_tx_def by (rule bind_InrE)
  from r have x: "x = Some tx" and s1: "s1 = s'" by (cases x; simp add: throw_def ret_def)+
  obtain d where d: "c_view (aw_txs w) s i = Some d" "tx = f d" "c_view (aw_txs w) s' = (c_view (aw_txs w) s)(i \<mapsto> f d)"
    using u unfolding x s1 by (rule c_update_Some [OF admin_storeD(1) [OF assms(1)]])
  have "c_view (aw_companies w) s' = c_view (aw_companies w) s" "c_view (aw_users w) s' = c_view (aw_users w) s"
    "c_view (aw_groups w) s' = c_view (aw_groups w) s"
    using u unfolding s1
    by (rule quietD(2) [OF admin_storeD(5) [OF assms(1)]] quietD(2) [OF admin_storeD(6) [OF assms(1)]]
        quietD(2) [OF admin_storeD(7) [OF assms(1)]])+
  then have "books_view w s' = ((fst (books_view w s))(i \<mapsto> f d), snd (books_view w s))"
    using d(3) by (simp add: books_view_def)
  from that [OF d(1,2) this] show thesis .
qed

text \<open>Payments that make up for the change of one transaction keep the books.\<close>

lemma kept_save:
  assumes "paid k f v v1" "txs_ok (fst v)" "fst v i = Some tx" "v' = ((fst v1)(i \<mapsto> tx'), snd v1)" "tx_ok i tx'"
    and change: "\<And>p. f p = share tx p - share tx' p"
  shows "kept k v v'"
proof -
  have ts: "fst v1 = fst v" and acc: "accounts_ok k v1"
    and bal: "\<And>p. map_option milli (balance_of v1 p) = map_option (\<lambda>b. milli b + f p) (balance_of v p)"
    using assms(1) by (simp_all add: paid_def)
  have b: "balance_of v' = balance_of v1" by (simp add: assms(4) balance_of_txs)
  have "txs_ok (fst v')" using assms(2,5) ts by (simp add: txs_ok_def assms(4))
  moreover have "accounts_ok k v'" using acc by (simp add: accounts_ok_def b)
  moreover have "capital v' p = capital v p" for p
  proof -
    have "sum_map (\<lambda>tx. share tx p) (fst v') = sum_map (\<lambda>tx. share tx p) (fst v) - share tx p + share tx' p"
      using sum_map_upd [of "fst v" "\<lambda>tx. share tx p" i tx'] assms(2,3) ts by (simp add: txs_ok_def assms(4))
    then show ?thesis
      using bal [of p] change [of p] by (cases "balance_of v p"; cases "balance_of v1 p") (simp_all add: capital_def b)
  qed
  ultimately show ?thesis by (simp add: kept_def books_ok_def)
qed

section \<open>Prices\<close>

lemma dec3_le: "n_le (dec 3 k) (Fin 1000000) \<Longrightarrow> k \<le> 1000000000"
proof (rule ccontr)
  assume le: "n_le (dec 3 k) (Fin 1000000)" and "\<not> k \<le> 1000000000"
  then have k: "1000000001 \<le> k" by simp
  have f: "dec 3 1000000001 = Fin (decv 3 1000000001)" by (rule dec_limit) (simp add: LIMIT_def)
  have "n_le (dec 3 1000000001) (dec 3 k)"
    using dec_mono [OF k] .
  from n_le_trans [OF this le] f have "decv 3 1000000001 \<le> 1000000" by simp
  moreover have "\<bar>decv 3 1000000001 - 1000000001 / 1000\<bar> \<le> 1 / 2 ^ 23"
    using near_dec [of 1000000001] f by (simp add: near_def LIMIT_def)
  then have "1000000001 / 1000 - 1 / 2 ^ 23 \<le> decv 3 1000000001" by linarith
  ultimately show False by simp
qed

lemma priced_dec: "0 \<le> k \<Longrightarrow> k \<le> 1000000000 \<Longrightarrow> priced (dec 3 k) \<and> milli (dec 3 k) = k"
  using near_dec [of k] milli_dec [of k] by (simp add: priced_def LIMIT_def)

lemma priced_0: "priced (Fin 0)"
  using priced_dec [of 0] by (simp add: dec_0)

lemma fixed_priced:
  assumes "0 \<le> x" "n_le (n_fixed 3 (Fin x)) (Fin 1000000)"
  shows "priced (n_fixed 3 (Fin x))"
proof (cases "x < 10 ^ 21")
  case True
  then have e: "n_fixed 3 (Fin x) = dec 3 (fixed_int 3 x)" using assms(1) by (intro n_fixed_eq_dec) simp
  have "0 \<le> fixed_int 3 x" using assms(1) fixed_digits_nonneg [of 3 x] by (simp add: fixed_int_def)
  then show ?thesis using priced_dec dec3_le assms(2) unfolding e by blast
next
  case False
  then have "n_fixed 3 (Fin x) = Fin x" using assms(1) by (simp add: n_fixed.simps(1))
  then show ?thesis using assms(2) False by simp
qed

lemma price_priced:
  assumes "n_le (calculateTransferCostLYD key amount rate 3) (Fin 1000000)"
  shows "priced (calculateTransferCostLYD key amount rate 3)"
proof -
  have r: "priced (round_num n 3)" if "n = PInf \<or> (\<exists>z. n = Fin z \<and> 0 \<le> z)" "n_le (round_num n 3) (Fin 1000000)" for n
    using that fixed_priced priced_0 by (auto simp: round_num_def simp del: n_fixed.simps)
  have p: "num (x * z) = PInf \<or> (\<exists>y. num (x * z) = Fin y \<and> 0 \<le> y)" "num (x / z) = PInf \<or> (\<exists>y. num (x / z) = Fin y \<and> 0 \<le> y)"
    if "0 < x" "0 < z" for x z
    using that num_nonneg [of "x * z"] num_nonneg [of "x / z"] by auto
  show ?thesis
    using assms p r priced_0
    by (cases "toNumber amount"; cases "toNumber rate") (auto simp: calculateTransferCostLYD_def Let_def split: if_splits)
qed

section \<open>The mutations keep the books\<close>

lemma visible_Inr:
  assumes "admin_store w" "loadAdminVisibleTransaction w i s = (Inr tx, s')"
  shows "books_view w s' = books_view w s" "fst (books_view w s) i = Some tx"
proof -
  obtain x s1 where g: "c_get (aw_txs w) i s = (Inr x, s1)" and r: "(case x of
      Some tx \<Rightarrow> if isAgencyClientScopedTx tx then throw (plain_error ''TRANSACTION_NOT_FOUND'') else ret tx
    | None \<Rightarrow> throw (plain_error ''TRANSACTION_NOT_FOUND'')) s1 = (Inr tx, s')"
    using assms(2) unfolding loadAdminVisibleTransaction_def by (rule bind_InrE)
  from r have x: "x = Some tx" and s1: "s1 = s'" by (cases x; simp add: throw_def ret_def split: if_splits)+
  show "books_view w s' = books_view w s" using read_tx(1) [OF assms(1) g] s1 by simp
  show "fst (books_view w s) i = Some tx" using read_tx(2) [OF assms(1) g refl] x by (simp add: books_view_def)
qed

lemma throw_if_andThen: "andThen (throw_if b e) m s = (Inr a, s') \<longleftrightarrow> \<not> b \<and> m s = (Inr a, s')"
  by (simp add: andThen_run throw_if_def throw_def ret_def)

lemma difference_near:
  assumes "priced x" "priced y"
  shows "near 3 (milli x - milli y) (n_sub x (or_zero y))" "\<bar>milli x - milli y\<bar> \<le> 1000000000"
proof -
  have y: "or_zero y = y" using assms(2) by (auto simp: priced_def near_def or_zero_def)
  show d: "\<bar>milli x - milli y\<bar> \<le> 1000000000" using assms unfolding priced_def by linarith
  show "near 3 (milli x - milli y) (n_sub x (or_zero y))"
    unfolding y using near_sub [of 1 "milli x" x 1 "milli y" y] assms d by (simp add: priced_def LIMIT_def numeral_3_eq_3)
qed

definition executed :: "admin_tx \<Rightarrow> party \<Rightarrow> int" where
  "executed tx p = (if at_status tx = ''completed''
        then pay_to (map_option Executor (at_executorGroupId tx)) (milli (at_amount tx)) p
           + pay_to (map_option Executor (at_managerGroupId tx)) (milli (at_amount tx)) p
        else 0)"

lemma share_transfer:
  "\<not> is_funding tx \<Longrightarrow> editable tx \<Longrightarrow> share tx p = pay_to (customer_of tx) (milli (at_costLYD tx)) p + executed tx p"
  by (simp add: share_def payer_def charge_def is_funding_def executed_def)

lemma customer_cong: "at_companyId d = at_companyId tx \<Longrightarrow> at_userId d = at_userId tx \<Longrightarrow> customer_of d = customer_of tx"
  by (cases "at_companyId tx") (simp_all add: customer_of_def)

lemma reprice_kept:
  assumes store: "admin_store w" and ok: "books_ok k (books_view w s)" "k + 16 \<le> 1000"
    and run: "reprice_work w rq s = (Inr r, s')"
    and price: "\<And>tx. fst (books_view w s) (rr_transactionId rq) = Some tx \<Longrightarrow> \<not> is_funding tx
      \<and> n_le (calculateTransferCostLYD (at_transferType tx) (Num (at_amount tx)) (Num (toNumber (rr_newRate rq))) 3) (Fin 1000000)"
  shows "kept (k + 16) (books_view w s) (books_view w s')"
proof -
  obtain tx s1 where l: "loadAdminVisibleTransaction w (rr_transactionId rq) s = (Inr tx, s1)"
    and rest: "andThen (throw_if (\<not> editable tx) (plain_error ''TRANSACTION_NOT_EDITABLE''))
       (let rate = toNumber (rr_newRate rq);
            oldCostLYD = or_zero (at_costLYD tx);
            oldRate = or_zero (at_exchangeRate tx);
            newCostLYD = calculateTransferCostLYD (at_transferType tx) (Num (at_amount tx)) (Num rate) 3
        in andThen (throw_if (not_positive rate) (plain_error ''INVALID_EXCHANGE_RATE''))
          (bind (adjustOwnerBalance w tx (n_sub newCostLYD oldCostLYD)) (\<lambda>owner.
           bind (save_tx w (at_id tx) (\<lambda>d. d\<lparr>at_costLYD := newCostLYD, at_exchangeRate := rate,
                   at_adminNotes := appendNote (at_adminNotes tx) (rr_note rq), at_updatedAt := rr_now rq\<rparr>)) (\<lambda>updated.
             ret (Repriced updated oldCostLYD oldRate newCostLYD owner))))) s1 = (Inr r, s')"
    using run unfolding reprice_work_def by (rule bind_InrE)
  note v = visible_Inr [OF store l]
  let ?c = "calculateTransferCostLYD (at_transferType tx) (Num (at_amount tx)) (Num (toNumber (rr_newRate rq))) 3"
  let ?f = "\<lambda>d. d\<lparr>at_costLYD := ?c, at_exchangeRate := toNumber (rr_newRate rq),
                   at_adminNotes := appendNote (at_adminNotes tx) (rr_note rq), at_updatedAt := rr_now rq\<rparr>"
  have tx: "tx_ok (rr_transactionId rq) tx" and ts: "txs_ok (fst (books_view w s))" and acc: "accounts_ok k (books_view w s1)"
    using ok v by (simp_all add: books_ok_def txs_ok_def)
  obtain owner s2 updated where edit: "editable tx"
    and a: "adjustOwnerBalance w tx (n_sub ?c (or_zero (at_costLYD tx))) s1 = (Inr owner, s2)"
    and u: "save_tx w (at_id tx) ?f s2 = (Inr updated, s')"
    using rest by (auto simp: throw_if_andThen Let_def ret_def elim!: bind_InrE)
  have c: "priced ?c" using price [OF v(2)] price_priced by blast
  have o: "priced (at_costLYD tx)" using tx by (simp add: tx_ok_def)
  have p: "paid (k + 4) (pay_to (customer_of tx) (- (milli ?c - milli (at_costLYD tx)))) (books_view w s1) (books_view w s2)"
    using ok(2) by (intro adjust_paid [OF store a acc difference_near [OF c o]]) simp
  obtain d where d: "c_view (aw_txs w) s2 (at_id tx) = Some d"
    "books_view w s' = ((fst (books_view w s2))(at_id tx \<mapsto> ?f d), snd (books_view w s2))"
    using u by (rule save_tx_Inr [OF store])
  have i: "at_id tx = rr_transactionId rq" using tx by (simp add: tx_ok_def)
  have "d = tx" using d(1) p v i by (simp add: paid_def books_view_def)
  have s1: "books_view w s1 = books_view w s" by (rule v(1))
  show ?thesis
  proof (rule kept_save [where i = "at_id tx" and tx = tx and tx' = "?f tx" and ?v1.0 = "books_view w s2"])
    show "paid (k + 16) (pay_to (customer_of tx) (- (milli ?c - milli (at_costLYD tx)))) (books_view w s) (books_view w s2)"
      using paid_mono [OF p, of "k + 16"] s1 by simp
    show "txs_ok (fst (books_view w s))" by (rule ts)
    show "fst (books_view w s) (at_id tx) = Some tx" using v(2) i by simp
    show "books_view w s' = ((fst (books_view w s2))(at_id tx \<mapsto> ?f tx), snd (books_view w s2))" using d(2) \<open>d = tx\<close> by simp
    show "tx_ok (at_id tx) (?f tx)" using tx c i by (simp add: tx_ok_def)
    fix p
    show "pay_to (customer_of tx) (- (milli ?c - milli (at_costLYD tx))) p = share tx p - share (?f tx) p"
      using price [OF v(2)] edit customer_cong [of "?f tx" tx] share_transfer [of tx p] share_transfer [of "?f tx" p]
      by (simp add: is_funding_def editable_def executed_def pay_to_def)
  qed
qed

lemma save_kept:
  assumes store: "admin_store w" and p: "paid k f (books_view w s) (books_view w s2)" and ts: "txs_ok (fst (books_view w s))"
    and i: "fst (books_view w s) i = Some tx" "tx_ok i tx" and u: "save_tx w i g s2 = (Inr updated, s')" and "tx_ok i (g tx)"
    and "\<And>p. f p = share tx p - share (g tx) p"
  shows "kept k (books_view w s) (books_view w s')"
proof -
  obtain d where d: "c_view (aw_txs w) s2 i = Some d" "books_view w s' = ((fst (books_view w s2))(i \<mapsto> g d), snd (books_view w s2))"
    using u by (rule save_tx_Inr [OF store])
  have "d = tx" using d(1) p i(1) by (simp add: paid_def books_view_def)
  then show ?thesis using kept_save [OF p ts i(1), of "books_view w s'" "g tx"] d(2) assms(7,8) by simp
qed

lemma edit_fields_simps [simp]:
  "at_id (edit_fields tx rq a c d) = at_id d" "at_amount (edit_fields tx rq a c d) = a" "at_status (edit_fields tx rq a c d) = at_status d"
  "at_costLYD (edit_fields tx rq a c d) = (case c of None \<Rightarrow> at_costLYD d | Some x \<Rightarrow> x)"
  "at_companyId (edit_fields tx rq a c d) = at_companyId d" "at_userId (edit_fields tx rq a c d) = at_userId d"
  "at_executorGroupId (edit_fields tx rq a c d) = at_executorGroupId d" "at_managerGroupId (edit_fields tx rq a c d) = at_managerGroupId d"
  by (simp_all add: edit_fields_def)

lemma tx_ok_edit: "tx_ok i tx \<Longrightarrow> priced a \<Longrightarrow> (\<And>x. c = Some x \<Longrightarrow> priced x) \<Longrightarrow> tx_ok i (edit_fields tx rq a c tx)"
  by (cases c) (simp_all add: tx_ok_def)

lemma edit_same [simp]:
  "is_funding (edit_fields tx rq a c d) = is_funding d" "funds_executor (edit_fields tx rq a c d) = funds_executor d"
  "editable (edit_fields tx rq a c d) = editable d"
  by (simp_all add: is_funding_def funds_executor_def editable_def)

lemma customer_edit [simp]: "customer_of (edit_fields tx rq a c d) = customer_of d"
  by (rule customer_cong) simp_all

lemma payer_edit [simp]: "payer (edit_fields tx rq a c d) = payer d"
  by (simp add: payer_def)

lemma edit_work_Inr:
  assumes "edit_work w rq s = (Inr r, s')"
  obtains tx s1 where "loadAdminVisibleTransaction w (er_transactionId rq) s = (Inr tx, s1)" "editable tx"
      "\<not> not_positive (toNumber (er_newAmount rq))" "is_funding tx"
      "\<exists>res s2 updated. edit_funding w tx (n_sub (toNumber (er_newAmount rq)) (or_zero (at_amount tx))) s1 = (Inr res, s2)
         \<and> save_tx w (at_id tx) (edit_fields tx rq (toNumber (er_newAmount rq)) None) s2 = (Inr updated, s')"
  | tx s1 where "loadAdminVisibleTransaction w (er_transactionId rq) s = (Inr tx, s1)" "editable tx"
      "\<not> not_positive (toNumber (er_newAmount rq))" "\<not> is_funding tx"
      "\<exists>owner s2 updated. edit_transfer w tx
           (n_sub (calculateTransferCostLYD (at_transferType tx) (Num (toNumber (er_newAmount rq))) (Num (at_exchangeRate tx)) 3)
             (or_zero (at_costLYD tx))) (n_sub (toNumber (er_newAmount rq)) (or_zero (at_amount tx))) s1 = (Inr owner, s2)
         \<and> save_tx w (at_id tx) (edit_fields tx rq (toNumber (er_newAmount rq))
             (Some (calculateTransferCostLYD (at_transferType tx) (Num (toNumber (er_newAmount rq))) (Num (at_exchangeRate tx)) 3))) s2
           = (Inr updated, s')"
proof -
  obtain tx s1 where l: "loadAdminVisibleTransaction w (er_transactionId rq) s = (Inr tx, s1)"
    and rest: "andThen (throw_if (\<not> editable tx) (plain_error ''TRANSACTION_NOT_EDITABLE''))
       (let amount = toNumber (er_newAmount rq)
        in andThen (throw_if (not_positive amount) (plain_error ''INVALID_AMOUNT''))
          (andThen (throw_if (er_createdAt rq = Some None) (plain_error ''INVALID_TRANSACTION_DATE''))
            (edit_checked w rq tx amount))) s1 = (Inr r, s')"
    using assms unfolding edit_work_def by (rule bind_InrE)
  show thesis
  proof (cases "is_funding tx")
    case True
    show thesis
      by (rule that(1) [OF l]) (use rest True in \<open>auto simp: edit_checked_def throw_if_andThen Let_def ret_def elim!: bind_InrE\<close>)
  next
    case False
    show thesis
      by (rule that(2) [OF l]) (use rest False in \<open>auto simp: edit_checked_def throw_if_andThen Let_def ret_def elim!: bind_InrE\<close>)
  qed
qed

lemma share_funding:
  "is_funding tx \<Longrightarrow> share tx p = pay_to (payer tx) (if at_status tx = ''deposit'' then - milli (at_amount tx) else milli (at_amount tx)) p"
  by (auto simp: share_def charge_def is_funding_def)

lemma pay_to_minus: "pay_to po (- (x - y)) p = pay_to po y p - pay_to po x p"
  by (simp add: pay_to_def)

lemma edit_kept:
  assumes store: "admin_store w" and ok: "books_ok k (books_view w s)" "k + 16 \<le> 1000"
    and run: "edit_work w rq s = (Inr r, s')"
    and amount: "priced (toNumber (er_newAmount rq))"
    and price: "\<And>tx. fst (books_view w s) (er_transactionId rq) = Some tx \<Longrightarrow> is_funding tx
      \<or> n_le (calculateTransferCostLYD (at_transferType tx) (Num (toNumber (er_newAmount rq))) (Num (at_exchangeRate tx)) 3) (Fin 1000000)"
  shows "kept (k + 16) (books_view w s) (books_view w s')"
  using run
proof (cases rule: edit_work_Inr)
  case (1 tx s1)
  note v = visible_Inr [OF store 1(1)]
  have tx: "tx_ok (er_transactionId rq) tx" and ts: "txs_ok (fst (books_view w s))" and acc: "accounts_ok k (books_view w s1)"
    using ok v by (simp_all add: books_ok_def txs_ok_def)
  have i: "at_id tx = er_transactionId rq" using tx by (simp add: tx_ok_def)
  obtain res s2 updated where e: "edit_funding w tx (n_sub (toNumber (er_newAmount rq)) (or_zero (at_amount tx))) s1 = (Inr res, s2)"
    and u: "save_tx w (er_transactionId rq) (edit_fields tx rq (toNumber (er_newAmount rq)) None) s2 = (Inr updated, s')"
    using 1(5) unfolding i by blast
  have o: "priced (at_amount tx)" using tx by (simp add: tx_ok_def)
  let ?x = "milli (toNumber (er_newAmount rq)) - milli (at_amount tx)"
  have "paid (k + 4) (pay_to (payer tx) (if at_status tx = ''deposit'' then ?x else - ?x)) (books_view w s1) (books_view w s2)"
    using ok(2) by (intro funding_paid [OF store e acc difference_near [OF amount o] _ 1(4)]) simp
  then have p: "paid (k + 16) (pay_to (payer tx) (if at_status tx = ''deposit'' then ?x else - ?x)) (books_view w s) (books_view w s2)"
    unfolding v(1) by (rule paid_mono) simp
  show ?thesis
  proof (rule save_kept [OF store p ts v(2) tx u])
    show "tx_ok (er_transactionId rq) (edit_fields tx rq (toNumber (er_newAmount rq)) None tx)" using tx amount by (rule tx_ok_edit) simp
    fix p
    show "pay_to (payer tx) (if at_status tx = ''deposit'' then ?x else - ?x) p
        = share tx p - share (edit_fields tx rq (toNumber (er_newAmount rq)) None tx) p"
      using share_funding [OF 1(4)] share_funding [of "edit_fields tx rq (toNumber (er_newAmount rq)) None tx"] 1(4)
      by (simp add: pay_to_def)
  qed
next
  case (2 tx s1)
  note v = visible_Inr [OF store 2(1)]
  have tx: "tx_ok (er_transactionId rq) tx" and ts: "txs_ok (fst (books_view w s))" and acc: "accounts_ok k (books_view w s1)"
    using ok v by (simp_all add: books_ok_def txs_ok_def)
  have i: "at_id tx = er_transactionId rq" using tx by (simp add: tx_ok_def)
  let ?a = "toNumber (er_newAmount rq)"
  let ?c = "calculateTransferCostLYD (at_transferType tx) (Num ?a) (Num (at_exchangeRate tx)) 3"
  obtain owner s2 updated where e: "edit_transfer w tx (n_sub ?c (or_zero (at_costLYD tx))) (n_sub ?a (or_zero (at_amount tx))) s1 = (Inr owner, s2)"
    and u: "save_tx w (er_transactionId rq) (edit_fields tx rq ?a (Some ?c)) s2 = (Inr updated, s')"
    using 2(5) unfolding i by blast
  obtain owner' t where a: "adjustOwnerBalance w tx (n_sub ?c (or_zero (at_costLYD tx))) s1 = (Inr owner', t)"
    and x: "edit_executors w tx (n_sub ?a (or_zero (at_amount tx))) t = (Inr (), s2)"
    using e unfolding edit_transfer_def by (auto simp: ret_def elim!: bind_InrE andThen_InrE)
  have o: "priced (at_amount tx)" "priced (at_costLYD tx)" and g: "at_executorGroupId tx = None \<longrightarrow> at_managerGroupId tx = None"
    using tx by (simp_all add: tx_ok_def)
  have c: "priced ?c" using price [OF v(2)] 2(4) price_priced by blast
  let ?x = "milli ?c - milli (at_costLYD tx)" and ?y = "milli ?a - milli (at_amount tx)"
  let ?f = "\<lambda>p. if at_status tx = ''completed''
      then pay_to (map_option Executor (at_executorGroupId tx)) (- ?y) p + pay_to (map_option Executor (at_managerGroupId tx)) (- ?y) p else 0"
  have p1: "paid (k + 4) (pay_to (customer_of tx) (- ?x)) (books_view w s1) (books_view w t)"
    using ok(2) by (intro adjust_paid [OF store a acc difference_near [OF c o(2)]]) simp
  have "paid (k + 4 + 8) ?f (books_view w t) (books_view w s2)"
    using ok(2) by (intro executors_paid [OF store x paid_ok [OF p1] difference_near [OF amount o(1)] _ g]) simp
  from paid_trans [OF p1 this] have p: "paid (k + 16) (\<lambda>p. pay_to (customer_of tx) (- ?x) p + ?f p) (books_view w s) (books_view w s2)"
    unfolding v(1) by (rule paid_mono) simp
  show ?thesis
  proof (rule save_kept [OF store p ts v(2) tx u])
    show "tx_ok (er_transactionId rq) (edit_fields tx rq ?a (Some ?c) tx)" using tx amount c by (intro tx_ok_edit) simp_all
    fix p
    show "pay_to (customer_of tx) (- ?x) p + ?f p = share tx p - share (edit_fields tx rq ?a (Some ?c) tx) p"
    proof -
      have "share (edit_fields tx rq ?a (Some ?c) tx) p = pay_to (customer_of tx) (milli ?c) p + executed (edit_fields tx rq ?a (Some ?c) tx) p"
        using share_transfer [of "edit_fields tx rq ?a (Some ?c) tx" p] 2(2,4) by simp
      then show ?thesis using share_transfer [OF 2(4,2), of p]
        by (cases "at_status tx = ''completed''") (simp_all only: executed_def pay_to_minus edit_fields_simps, simp_all)
    qed
  qed
qed

lemma reassign_fields_simps [simp]:
  "at_id (reassign_fields tx rq g d) = at_id d" "at_amount (reassign_fields tx rq g d) = at_amount d"
  "at_status (reassign_fields tx rq g d) = at_status d" "at_costLYD (reassign_fields tx rq g d) = at_costLYD d"
  "at_companyId (reassign_fields tx rq g d) = at_companyId d" "at_userId (reassign_fields tx rq g d) = at_userId d"
  "at_executorGroupId (reassign_fields tx rq g d) = Some (ar_newGroupId rq)"
  "at_managerGroupId (reassign_fields tx rq g d) = manager_of g"
  by (simp_all add: reassign_fields_def)

lemma reassign_work_Inr:
  assumes "reassign_work w rq s = (Inr r, s')"
  obtains tx g s1 s2 where "loadAdminVisibleTransaction w (ar_transactionId rq) s = (Inr tx, s1)" "at_status tx = ''completed''"
    "c_get (aw_groups w) (ar_newGroupId rq) s1 = (Inr (Some g), s2)"
    "\<exists>t1 t2 t3 t4 u updated. inc_optional w (at_executorGroupId tx) (or_zero (at_amount tx)) s2 = (Inr (), t1)
      \<and> inc_optional w (at_managerGroupId tx) (or_zero (at_amount tx)) t1 = (Inr (), t2)
      \<and> inc_group w (ar_newGroupId rq) (n_neg (or_zero (at_amount tx))) t2 = (Inr u, t3)
      \<and> inc_optional w (manager_of g) (n_neg (or_zero (at_amount tx))) t3 = (Inr (), t4)
      \<and> save_tx w (at_id tx) (reassign_fields tx rq g) t4 = (Inr updated, s')"
proof -
  obtain tx s1 where l: "loadAdminVisibleTransaction w (ar_transactionId rq) s = (Inr tx, s1)"
    and rest: "andThen (throw_if (at_status tx \<noteq> ''completed'') (plain_error ''TRANSACTION_NOT_COMPLETED''))
       (andThen (throw_if (at_executorGroupId tx = Some (ar_newGroupId rq)) (plain_error ''EXECUTOR_ALREADY_ASSIGNED''))
       (bind (find_executor w rq tx) (reassign_to w rq tx))) s1 = (Inr r, s')"
    using assms unfolding reassign_work_def by (rule bind_InrE)
  from rest have completed: "at_status tx = ''completed''" and r1: "bind (find_executor w rq tx) (reassign_to w rq tx) s1 = (Inr r, s')"
    by (simp_all add: throw_if_andThen)
  obtain g s2 where fe: "find_executor w rq tx s1 = (Inr g, s2)" and r2: "reassign_to w rq tx g s2 = (Inr r, s')"
    using r1 by (rule bind_InrE)
  have f: "c_get (aw_groups w) (ar_newGroupId rq) s1 = (Inr (Some g), s2)"
    using fe unfolding find_executor_def by (auto simp: throw_def ret_def elim!: bind_InrE split: option.splits if_splits)
  have "\<exists>t1 t2 t3 t4 u updated. inc_optional w (at_executorGroupId tx) (or_zero (at_amount tx)) s2 = (Inr (), t1)
      \<and> inc_optional w (at_managerGroupId tx) (or_zero (at_amount tx)) t1 = (Inr (), t2)
      \<and> inc_group w (ar_newGroupId rq) (n_neg (or_zero (at_amount tx))) t2 = (Inr u, t3)
      \<and> inc_optional w (manager_of g) (n_neg (or_zero (at_amount tx))) t3 = (Inr (), t4)
      \<and> save_tx w (at_id tx) (reassign_fields tx rq g) t4 = (Inr updated, s')"
    using r2 unfolding reassign_to_def by (auto simp: throw_if_andThen Let_def ret_def elim!: bind_InrE andThen_InrE)
  from that [OF l completed f this] show thesis .
qed

lemma pay_to_neg: "pay_to po (- x) p = - pay_to po x p"
  by (simp add: pay_to_def)

lemma reassign_kept:
  assumes store: "admin_store w" and ok: "books_ok k (books_view w s)" "k + 16 \<le> 1000"
    and run: "reassign_work w rq s = (Inr r, s')"
  shows "kept (k + 16) (books_view w s) (books_view w s')"
proof -
  obtain tx g s1 s2 where l: "loadAdminVisibleTransaction w (ar_transactionId rq) s = (Inr tx, s1)"
    and completed: "at_status tx = ''completed''" and f: "c_get (aw_groups w) (ar_newGroupId rq) s1 = (Inr (Some g), s2)"
    and pays: "\<exists>t1 t2 t3 t4 u updated. inc_optional w (at_executorGroupId tx) (or_zero (at_amount tx)) s2 = (Inr (), t1)
      \<and> inc_optional w (at_managerGroupId tx) (or_zero (at_amount tx)) t1 = (Inr (), t2)
      \<and> inc_group w (ar_newGroupId rq) (n_neg (or_zero (at_amount tx))) t2 = (Inr u, t3)
      \<and> inc_optional w (manager_of g) (n_neg (or_zero (at_amount tx))) t3 = (Inr (), t4)
      \<and> save_tx w (at_id tx) (reassign_fields tx rq g) t4 = (Inr updated, s')"
    using run by (rule reassign_work_Inr)
  note v = visible_Inr [OF store l]
  have tx: "tx_ok (ar_transactionId rq) tx" and ts: "txs_ok (fst (books_view w s))"
    using ok v by (simp_all add: books_ok_def txs_ok_def)
  have i: "at_id tx = ar_transactionId rq" using tx by (simp add: tx_ok_def)
  have a: "priced (at_amount tx)" using tx by (simp add: tx_ok_def)
  then have z: "or_zero (at_amount tx) = at_amount tx" by (auto simp: priced_def near_def or_zero_def)
  let ?m = "milli (at_amount tx)"
  have n: "near 3 ?m (at_amount tx)" "\<bar>?m\<bar> \<le> 1000000000" using a near_mono [of 1 ?m "at_amount tx" 3] by (simp_all add: priced_def)
  have n': "near 3 (- ?m) (n_neg (at_amount tx))" "\<bar>- ?m\<bar> \<le> 1000000000" using near_neg [OF n(1)] n(2) by simp_all
  obtain t1 t2 t3 t4 u updated where e1: "inc_optional w (at_executorGroupId tx) (at_amount tx) s2 = (Inr (), t1)"
      and e2: "inc_optional w (at_managerGroupId tx) (at_amount tx) t1 = (Inr (), t2)"
      and e3: "inc_group w (ar_newGroupId rq) (n_neg (at_amount tx)) t2 = (Inr u, t3)"
      and e4: "inc_optional w (manager_of g) (n_neg (at_amount tx)) t3 = (Inr (), t4)"
      and sv: "save_tx w (ar_transactionId rq) (reassign_fields tx rq g) t4 = (Inr updated, s')"
    using pays unfolding z i by blast
  have v2: "books_view w s2 = books_view w s" using read_group(1) [OF store f] v(1) by simp
  have acc: "accounts_ok k (books_view w s2)" using ok(1) v2 by (simp add: books_ok_def)
  have p1: "paid (k + 4) (pay_to (map_option Executor (at_executorGroupId tx)) ?m) (books_view w s2) (books_view w t1)"
    using ok(2) by (intro optional_paid [OF store e1 acc n]) simp
  have p2: "paid (k + 4 + 4) (pay_to (map_option Executor (at_managerGroupId tx)) ?m) (books_view w t1) (books_view w t2)"
    using ok(2) by (intro optional_paid [OF store e2 paid_ok [OF p1] n]) simp
  have p3: "paid (k + 4 + 4 + 4) (pay_to (Some (Executor (ar_newGroupId rq))) (- ?m)) (books_view w t2) (books_view w t3)"
    using ok(2) by (intro inc_group_paid [OF store e3 paid_ok [OF p2] n']) simp
  have p4: "paid (k + 4 + 4 + 4 + 4) (pay_to (map_option Executor (manager_of g)) (- ?m)) (books_view w t3) (books_view w t4)"
    using ok(2) by (intro optional_paid [OF store e4 paid_ok [OF p3] n']) simp
  have k: "k + 4 + 4 + 4 + 4 = k + 16" by simp
  note p = paid_trans [OF p1 paid_trans [OF p2 paid_trans [OF p3 p4]], unfolded v2 k]
  show ?thesis
  proof (rule save_kept [OF store p ts v(2) tx sv])
    show "tx_ok (ar_transactionId rq) (reassign_fields tx rq g tx)" using tx by (simp add: tx_ok_def)
    fix p
    have "payer (reassign_fields tx rq g tx) = payer tx" "charge (reassign_fields tx rq g tx) = charge tx"
      using completed customer_cong [of "reassign_fields tx rq g tx" tx]
      by (simp_all add: payer_def is_funding_def charge_def editable_def)
    then show "pay_to (map_option Executor (at_executorGroupId tx)) ?m p + (pay_to (map_option Executor (at_managerGroupId tx)) ?m p
        + (pay_to (Some (Executor (ar_newGroupId rq))) (- ?m) p + pay_to (map_option Executor (manager_of g)) (- ?m) p))
      = share tx p - share (reassign_fields tx rq g tx) p"
      using completed by (simp add: share_def pay_to_neg)
  qed
qed

section \<open>Requests of the administration\<close>

datatype admin_request = Reprice reprice_request | Edit edit_request | Reassign reassign_request

definition serve_admin ::
    "'s admin_txn \<Rightarrow> (error \<Rightarrow> bool) \<Rightarrow> bool \<Rightarrow> 's admin_world \<Rightarrow> admin_request \<Rightarrow> ('s, admin_result) run" where
  "serve_admin txn notStarted requires w rq = (case rq of
     Reprice r \<Rightarrow> repriceTransaction txn notStarted requires w r
   | Edit r \<Rightarrow> editTransactionAmount txn notStarted requires w r
   | Reassign r \<Rightarrow> reassignTransactionExecutor txn notStarted requires w r)"

definition admin_work :: "'s admin_world \<Rightarrow> admin_request \<Rightarrow> ('s, admin_result) run" where
  "admin_work w rq = (case rq of Reprice r \<Rightarrow> reprice_work w r | Edit r \<Rightarrow> edit_work w r | Reassign r \<Rightarrow> reassign_work w r)"

lemma serve_admin_work:
  "serve_admin txn notStarted requires w rq = withOptionalMongoTransaction txn notStarted requires (\<lambda>session. admin_work w rq)"
  by (cases rq) (simp_all add: serve_admin_def admin_work_def repriceTransaction_def editTransactionAmount_def reassignTransactionExecutor_def)

text \<open>
  A request within the bounds of the model: amounts of at most three decimals and a million, prices of at most a
  million, and no new rate for a deposit or a deduction.
\<close>

definition sound_request :: "admin_books \<Rightarrow> admin_request \<Rightarrow> bool" where
  "sound_request v rq = (case rq of
     Reprice r \<Rightarrow> (case fst v (rr_transactionId r) of None \<Rightarrow> True
       | Some tx \<Rightarrow> \<not> is_funding tx
           \<and> n_le (calculateTransferCostLYD (at_transferType tx) (Num (at_amount tx)) (Num (toNumber (rr_newRate r))) 3) (Fin 1000000))
   | Edit r \<Rightarrow> priced (toNumber (er_newAmount r)) \<and> (case fst v (er_transactionId r) of None \<Rightarrow> True
       | Some tx \<Rightarrow> is_funding tx
           \<or> n_le (calculateTransferCostLYD (at_transferType tx) (Num (toNumber (er_newAmount r))) (Num (at_exchangeRate tx)) 3) (Fin 1000000))
   | Reassign r \<Rightarrow> True)"

lemma admin_work_kept:
  assumes "admin_store w" "books_ok k (books_view w s)" "k + 16 \<le> 1000" "sound_request (books_view w s) rq"
    and "admin_work w rq s = (Inr r, s')"
  shows "kept (k + 16) (books_view w s) (books_view w s')"
proof (cases rq)
  case (Reprice q)
  show ?thesis
    by (rule reprice_kept [OF assms(1-3)]) (use assms(4,5) in \<open>auto simp: Reprice admin_work_def sound_request_def\<close>)
next
  case (Edit q)
  show ?thesis
    by (rule edit_kept [OF assms(1-3)]) (use assms(4,5) in \<open>auto simp: Edit admin_work_def sound_request_def\<close>)
next
  case (Reassign q)
  show ?thesis
    by (rule reassign_kept [OF assms(1-3)]) (use assms(5) in \<open>simp add: Reassign admin_work_def\<close>)
qed

text \<open>
  C18: Repricing a transfer, editing an amount and changing the executor keep the books when transactions are required:
  whatever the outcome, even when it is unknown whether the commit took place, every customer, every client company and
  every executor group has the capital it had before.  The stored amounts and costs and the new ones have three decimals
  and are at most a million, the balances are near three decimals and bounded, and no new rate is given to a deposit or a
  deduction.
\<close>

theorem admin_mutations_keep_books:
  assumes "admin_store w" "txn_ok txn unknown (books_view w)" "books_ok k (books_view w s)" "k + 16 \<le> 1000"
    and "sound_request (books_view w s) rq" "serve_admin txn notStarted True w rq s = (r, s')"
  shows "books_ok (k + 16) (books_view w s') \<and> (\<forall>p. capital (books_view w s') p = capital (books_view w s) p)"
proof -
  have same: ?thesis if "books_view w s' = books_view w s"
    using that assms(3) accounts_mono [of k _ "k + 16"] by (simp add: books_ok_def)
  obtain q t where x: "txn (admin_work w rq) s = (q, t)" by fastforce
  have t: "t = s'"
    using assms(6) x unfolding serve_admin_work withOptionalMongoTransaction_def catch_run
    by (cases q) (auto simp: throw_def split: if_splits)
  show ?thesis
    using assms(2) x
  proof (cases rule: txn_cases)
    case 1
    then show ?thesis using same t by simp
  next
    case (2 a s0 s1)
    then have "kept (k + 16) (books_view w s0) (books_view w s1)"
      using assms(3-5) by (intro admin_work_kept [OF assms(1)]) simp_all
    then show ?thesis using 2 t by (simp add: kept_def)
  qed
qed

section \<open>An administration in memory\<close>

record admin_db =
  adm_txs :: "(string \<times> admin_tx) list"
  adm_companies :: "(string \<times> account) list"
  adm_users :: "(string \<times> account) list"
  adm_groups :: "(string \<times> group_doc) list"

definition mem_admin :: "admin_db admin_world" where
  "mem_admin = \<lparr>aw_txs = mem_coll adm_txs (\<lambda>l s. s\<lparr>adm_txs := l\<rparr>), aw_companies = mem_coll adm_companies (\<lambda>l s. s\<lparr>adm_companies := l\<rparr>),
     aw_users = mem_coll adm_users (\<lambda>l s. s\<lparr>adm_users := l\<rparr>), aw_groups = mem_coll adm_groups (\<lambda>l s. s\<lparr>adm_groups := l\<rparr>)\<rparr>"

definition demo_tx :: "string \<Rightarrow> jsnum \<Rightarrow> jsnum \<Rightarrow> admin_tx" where
  "demo_tx status amount cost = \<lparr>at_id = ''t'', at_status = status, at_amount = amount, at_costLYD = cost, at_exchangeRate = Fin 5,
     at_transferType = Str ''vodafone'', at_companyId = None, at_userId = ''u'', at_isSubAccountTx = False, at_subAccountId = None,
     at_executorGroupId = Some ''g'', at_managerGroupId = None, at_executorName = [], at_adminNotes = [], at_createdAt = 0, at_updatedAt = 0,
     at_routedBy = None\<rparr>"

definition demo_admin :: "admin_tx \<Rightarrow> admin_db" where
  "demo_admin tx = \<lparr>adm_txs = [(''t'', tx)], adm_companies = [], adm_users = [(''u'', \<lparr>balance = Fin 1000, acc_tenantId = None\<rparr>)],
     adm_groups = [(''g'', [(''balance'', Num (Fin 0))])]\<rparr>"

definition demo_edit :: edit_request where
  "demo_edit = \<lparr>er_transactionId = ''t'', er_newAmount = Num (Fin 1000), er_createdAt = None, er_note = [], er_now = 1\<rparr>"

lemma mem_admin_store: "admin_store mem_admin"
  unfolding admin_store_def mem_admin_def
  by (simp add: mem_coll_ok) (intro conjI mem_coll_quiet; simp add: mem_coll_view)

lemma whole_milli: "0 \<le> n \<Longrightarrow> n \<le> 1000000 \<Longrightarrow> near 1 (1000 * n) (Fin (of_int n)) \<and> milli (Fin (of_int n)) = 1000 * n"
proof -
  assume "0 \<le> n" "n \<le> 1000000"
  have z: "near 1 (1000 * n) (Fin (of_int n))" by (simp add: near_def)
  then show ?thesis using milli_near [OF z] by simp
qed

lemma demo_books: "books_ok 1 (books_view mem_admin (demo_admin (demo_tx ''completed'' (Fin 500) (Fin 100))))"
proof -
  have p: "priced (Fin 500)" "priced (Fin 100)" and h: "held 1 (Fin 1000)" "held 1 (Fin 0)"
    using whole_milli [of 500] whole_milli [of 100] whole_milli [of 1000] whole_milli [of 0] by (simp_all add: priced_def held_def)
  have "held 1 b" if "balance_of (books_view mem_admin (demo_admin (demo_tx ''completed'' (Fin 500) (Fin 100)))) q = Some b" for q b
    using that h by (cases q) (auto simp: books_view_def mem_admin_def mem_coll_view demo_admin_def group_balance_def num_or_0_Num or_zero_def split: if_splits)
  then show ?thesis
    using p by (auto simp: books_ok_def accounts_ok_def txs_ok_def tx_ok_def books_view_def mem_admin_def mem_coll_view demo_admin_def demo_tx_def split: if_splits)
qed

lemma demo_edit_runs:
  "case serve_admin atomic (\<lambda>_. False) True mem_admin (Edit demo_edit) (demo_admin (demo_tx ''completed'' (Fin 500) (Fin 100))) of
     (r, s') \<Rightarrow> \<not> isl r \<and> balance_of (books_view mem_admin s') (Customer ''u'') = Some (Fin 900)
       \<and> balance_of (books_view mem_admin s') (Executor ''g'') = Some (Fin (- 500))"
  by code_simp

lemma demo_edit_sound:
  "sound_request (books_view mem_admin (demo_admin (demo_tx ''completed'' (Fin 500) (Fin 100)))) (Edit demo_edit)"
proof -
  have "n_le (calculateTransferCostLYD (Str ''vodafone'') (Num (Fin 1000)) (Num (Fin 5)) 3) (Fin 1000000)" by code_simp
  then show ?thesis
    using whole_milli [of 1000]
    by (simp add: sound_request_def demo_edit_def books_view_def mem_admin_def mem_coll_view demo_admin_def demo_tx_def priced_def)
qed

lemma admin_mutations_keep_books_witness:
  "\<exists>r s'. serve_admin atomic (\<lambda>_. False) True mem_admin (Edit demo_edit) (demo_admin (demo_tx ''completed'' (Fin 500) (Fin 100))) = (Inr r, s')
     \<and> balance_of (books_view mem_admin s') (Customer ''u'') = Some (Fin 900)
     \<and> (\<forall>p. capital (books_view mem_admin s') p
            = capital (books_view mem_admin (demo_admin (demo_tx ''completed'' (Fin 500) (Fin 100)))) p)"
proof -
  obtain q s' where run: "serve_admin atomic (\<lambda>_. False) True mem_admin (Edit demo_edit) (demo_admin (demo_tx ''completed'' (Fin 500) (Fin 100))) = (q, s')"
    by fastforce
  then obtain r where q: "q = Inr r" and b: "balance_of (books_view mem_admin s') (Customer ''u'') = Some (Fin 900)"
    using demo_edit_runs by (cases q) simp_all
  have "(1::nat) + 16 \<le> 1000" by simp
  from admin_mutations_keep_books [OF mem_admin_store atomic_ok [where unknown = "\<lambda>_. False"] demo_books this demo_edit_sound run]
  show ?thesis using run b q by blast
qed

text \<open>
  An example of what the bound on a new rate leaves out: repricing does not ask whether the transaction is a transfer, so
  a deposit of 1000 that is given the rate 5 costs its owner 200 and is stored with that cost.
\<close>

lemma reprice_charges_deposit:
  "case serve_admin atomic (\<lambda>_. False) True mem_admin
      (Reprice \<lparr>rr_transactionId = ''t'', rr_newRate = Num (Fin 5), rr_note = [], rr_now = 1\<rparr>) (demo_admin (demo_tx ''deposit'' (Fin 1000) (Fin 0))) of
     (r, s') \<Rightarrow> \<not> isl r
       \<and> map_option balance (map_of (adm_users s') ''u'') = Some (Fin 800)
       \<and> map_option at_status (map_of (adm_txs s') ''t'') = Some ''deposit''
       \<and> map_option at_costLYD (map_of (adm_txs s') ''t'') = Some (Fin 200)"
  by code_simp

section \<open>Balances by service\<close>

definition service_maps :: "'s admin_world \<Rightarrow> 's \<Rightarrow> string \<Rightarrow> (string \<times> jsval) list option" where
  "service_maps w s g = map_option (\<lambda>d. readServiceBalanceMap (Obj d)) (c_view (aw_groups w) s g)"

lemma add_group_map: "readServiceBalanceMap (Obj (add_group d g)) = readServiceBalanceMap (Obj g)"
  by (simp add: readServiceBalanceMap_def add_group_def get_obj_set del: get.simps)

lemma keeps_service_maps: "keeps (c_view (aw_groups w)) m \<Longrightarrow> keeps (service_maps w) m"
  by (simp add: keeps_def service_maps_def fun_eq_iff)

lemma keeps_maps:
  assumes "admin_store w"
  shows "keeps (service_maps w) (inc_group w i d)" "keeps (service_maps w) (inc_company w i d)" "keeps (service_maps w) (inc_user w i d)"
    "keeps (service_maps w) (c_get (aw_txs w) i)" "keeps (service_maps w) (c_get (aw_groups w) i)"
    "keeps (service_maps w) (c_update (aw_txs w) i p f)"
proof -
  note other = keeps_service_maps
  show "keeps (service_maps w) (inc_company w i d)" "keeps (service_maps w) (inc_user w i d)"
    "keeps (service_maps w) (c_get (aw_txs w) i)" "keeps (service_maps w) (c_update (aw_txs w) i p f)"
    unfolding inc_company_def inc_user_def
    by (rule other keeps_increment keeps_quiet admin_storeD(10,13,7) [OF assms])+
  show "keeps (service_maps w) (c_get (aw_groups w) i)"
    by (rule other keepsI c_get_view(1) [OF admin_storeD(4) [OF assms]])+
  have up: "keeps (service_maps w) (c_update (aw_groups w) i (\<lambda>_. True) (add_group d))"
  proof (rule keepsI)
    fix s r s'
    assume u: "c_update (aw_groups w) i (\<lambda>_. True) (add_group d) s = (r, s')"
    note c = admin_storeD(4) [OF assms]
    show "service_maps w s' = service_maps w s"
    proof (cases r)
      case (Inl e)
      then show ?thesis using c_update_fail [OF c u [unfolded Inl]] by (simp add: service_maps_def fun_eq_iff)
    next
      case (Inr x)
      show ?thesis
      proof (cases x)
        case None
        then show ?thesis using c_update_None(1) [OF c u [unfolded Inr None]] by (simp add: service_maps_def fun_eq_iff)
      next
        case (Some g')
        obtain g where "c_view (aw_groups w) s i = Some g" "c_view (aw_groups w) s' = (c_view (aw_groups w) s)(i \<mapsto> add_group d g)"
          using u unfolding Inr Some by (rule c_update_Some [OF c])
        then show ?thesis by (simp add: service_maps_def fun_eq_iff add_group_map)
      qed
    qed
  qed
  show "keeps (service_maps w) (inc_group w i d)"
    unfolding inc_group_def incrementBalance_def
    by (rule keeps_branch(1)) (intro keeps_intros, rule keeps_bind [OF up], intro keeps_intros)
qed

lemma keeps_admin_work: "admin_store w \<Longrightarrow> keeps (service_maps w) (admin_work w rq)"
  unfolding admin_work_def reprice_work_def edit_work_def reassign_work_def edit_checked_def reassign_to_def find_executor_def
    loadAdminVisibleTransaction_def adjustOwnerBalance_def edit_funding_def edit_transfer_def edit_executors_def inc_optional_def
    save_tx_def throw_if_def Let_def
  by (cases rq) (simp_all only: admin_request.case; intro keeps_intros keeps_maps)+

text \<open>
  None of the mutations touches a balance by service: whatever the outcome, the per-service map of every executor
  group is the one it was, although an edit of a completed transfer and a change of executor move the total balances
  of the groups.  The two views of a group's money disagree until its next reconciliation.
\<close>

theorem admin_mutations_skip_services:
  assumes "admin_store w" "txn_ok txn unknown (books_view w)" "serve_admin txn notStarted requires w rq s = (r, s')"
  shows "service_maps w s' = service_maps w s"
proof -
  have same: "service_maps w t = service_maps w s0" if "books_view w t = books_view w s0" for t s0
    using that by (simp add: books_view_def service_maps_def fun_eq_iff)
  have work: "service_maps w b = service_maps w a" if "admin_work w rq a = (c, b)" for a b c
    using keepsD [OF keeps_admin_work [OF assms(1)] that] .
  obtain q t where x: "txn (admin_work w rq) s = (q, t)" by fastforce
  have t: "service_maps w t = service_maps w s"
    using assms(2) x
  proof (cases rule: txn_cases)
    case (2 a s0 s1)
    then show ?thesis using same work by metis
  qed (rule same)
  have "service_maps w s' = service_maps w t"
    using assms(3) x work [of t r s'] unfolding serve_admin_work withOptionalMongoTransaction_def catch_run
    by (cases q) (auto simp: throw_def split: if_splits)
  then show ?thesis using t by simp
qed

theorem admin_mutations_skip_services_witness:
  "case serve_admin atomic (\<lambda>_. False) True mem_admin (Edit demo_edit) (demo_admin (demo_tx ''completed'' (Fin 500) (Fin 100))) of
     (r, s') \<Rightarrow> balance_of (books_view mem_admin s') (Executor ''g'') = Some (Fin (- 500))
       \<and> service_maps mem_admin s' = service_maps mem_admin (demo_admin (demo_tx ''completed'' (Fin 500) (Fin 100)))"
proof -
  obtain r s' where run: "serve_admin atomic (\<lambda>_. False) True mem_admin (Edit demo_edit) (demo_admin (demo_tx ''completed'' (Fin 500) (Fin 100))) = (r, s')"
    by fastforce
  from admin_mutations_skip_services [OF mem_admin_store atomic_ok [where unknown = "\<lambda>_. False"] run] demo_edit_runs run
  show ?thesis by simp
qed

end
