(* ===== verification/Provider_Dispatch.thy ===== *)
theory Provider_Dispatch
  imports Prelude Js_Text
begin

text \<open>
  The claim that a worker takes on a transaction before it calls a payment provider, and what the stored row says about
  the money in between (\<open>src/services/providerDispatchClaimService.js\<close>).  The collection is a parameter with the
  laws of \<open>coll_ok\<close>; messages and the log are left out.
\<close>

section \<open>Documents\<close>

text \<open>
  A stored date is an object with the milliseconds since 1970 under \<open>$date\<close>, as in extended JSON: it is always
  truthy.  \<open>pt_data\<close> is the mixed field \<open>apiResultData\<close>, which may be missing.
\<close>

record provider_tx =
  pt_id :: string
  pt_customId :: string
  pt_status :: string
  pt_amount :: jsnum
  pt_executorGroupId :: "string option"
  pt_executorName :: string
  pt_executorSenderPhone :: jsval
  pt_adminNotes :: string
  pt_createdAt :: int
  pt_updatedAt :: int
  pt_data :: "(string \<times> jsval) list option"

definition date_val :: "int \<Rightarrow> jsval" where
  "date_val ms = Obj [(''$date'', Num (Fin (of_int ms)))]"

definition is_date :: "jsval \<Rightarrow> bool" where
  "is_date v \<longleftrightarrow> (case v of Obj kvs \<Rightarrow> map_of kvs ''$date'' \<noteq> None | _ \<Rightarrow> False)"

definition UNRESOLVED_CODE :: string where
  "UNRESOLVED_CODE = ''PROVIDER_RESULT_UNRESOLVED''"

definition DEFINITIVE_DISPATCH_RESULTS :: "string set" where
  "DEFINITIVE_DISPATCH_RESULTS = {''accepted'', ''rejected''}"

definition BEFORE_SEND_CODES :: "string set" where
  "BEFORE_SEND_CODES = {''ENOTFOUND'', ''EAI_AGAIN'', ''EAI_NODATA'', ''ECONNREFUSED'', ''ENETUNREACH'', ''EHOSTUNREACH'',
     ''EADDRNOTAVAIL''}"

definition appendNoteText :: "string \<Rightarrow> string \<Rightarrow> string" where
  "appendNoteText current note = (let cleanNote = trim note in
     if cleanNote = [] then current
     else if includes_str current cleanNote then current
     else if current \<noteq> [] then current @ [CHR 10] @ cleanNote else cleanNote)"

definition dataOf :: "'a provider_tx_scheme \<Rightarrow> jsval" where
  "dataOf tx = (case pt_data tx of None \<Rightarrow> Obj [] | Some d \<Rightarrow> Obj d)"

text \<open>A field of the result data as text, and setting or removing fields.\<close>

definition data_str :: "'a provider_tx_scheme \<Rightarrow> string \<Rightarrow> string" where
  "data_str tx k = toString (or_else (get (dataOf tx) k) (Str []))"

definition set_data :: "(string \<times> jsval) list \<Rightarrow> 'a provider_tx_scheme \<Rightarrow> 'a provider_tx_scheme" where
  "set_data kvs tx = tx\<lparr>pt_data := Some (fold (\<lambda>(k, v). obj_set k v) kvs (case pt_data tx of None \<Rightarrow> [] | Some d \<Rightarrow> d))\<rparr>"

definition unset_data :: "string list \<Rightarrow> 'a provider_tx_scheme \<Rightarrow> 'a provider_tx_scheme" where
  "unset_data ks tx = tx\<lparr>pt_data := map_option (filter (\<lambda>(k, v). k \<notin> set ks)) (pt_data tx)\<rparr>"

section \<open>What the stored data say\<close>

definition hasDispatchMarker :: "'a provider_tx_scheme \<Rightarrow> bool" where
  "hasDispatchMarker tx \<longleftrightarrow> truthy (get (dataOf tx) ''providerDispatchStartedAt'')
     \<or> trim (data_str tx ''providerDispatchAttemptId'') \<noteq> []"

definition hasDefinitiveProviderResult :: "'a provider_tx_scheme \<Rightarrow> bool" where
  "hasDefinitiveProviderResult tx \<longleftrightarrow>
     data_str tx ''providerDispatchResult'' \<in> DEFINITIVE_DISPATCH_RESULTS
     \<or> get (dataOf tx) ''waitingApiAutoCompletion'' = Bool True \<and> trim (data_str tx ''referenceNumber'') \<noteq> []
     \<or> pt_status tx = ''completed'' \<and> trim (data_str tx ''referenceNumber'') \<noteq> []"

definition isProviderResultUnresolved :: "'a provider_tx_scheme \<Rightarrow> bool" where
  "isProviderResultUnresolved tx \<longleftrightarrow> get (dataOf tx) ''providerResultUnresolved'' = Bool True"

definition needsUnresolvedHold :: "'a provider_tx_scheme \<Rightarrow> bool" where
  "needsUnresolvedHold tx \<longleftrightarrow> hasDispatchMarker tx \<and> \<not> hasDefinitiveProviderResult tx \<and> \<not> isProviderResultUnresolved tx"

definition resolutionOutcome :: "'a provider_tx_scheme \<Rightarrow> string" where
  "resolutionOutcome tx = data_str tx ''providerResolutionOutcome''"

text \<open>The characters that mask a reference: the asterisk, the full width one, the multiplication sign, the bullet and the middle dot.\<close>

definition mask_marks :: "string list" where
  "mask_marks = map utf8 [[42], [239, 188, 138], [195, 151], [226, 128, 162], [194, 183]]"

definition has_mask :: "string \<Rightarrow> bool" where
  "has_mask s \<longleftrightarrow> (\<exists>m\<in>set mask_marks. includes_str s m)"

definition shown_reference :: "'a provider_tx_scheme \<Rightarrow> string" where
  "shown_reference tx = toString (or_else (or_else (get (dataOf tx) ''referenceNumber'') (or_else (get (dataOf tx) ''providerReportedReference'')
     (pt_executorSenderPhone tx))) (Str []))"

definition completedMaskedProviderSuccess :: "'a provider_tx_scheme \<Rightarrow> bool" where
  "completedMaskedProviderSuccess tx \<longleftrightarrow> pt_status tx = ''completed'' \<and> has_mask (shown_reference tx)
     \<and> get (dataOf tx) ''providerResolutionOutcome'' \<noteq> Str ''provider_not_paid''"

definition providerMoneyHold :: "'a provider_tx_scheme \<Rightarrow> bool" where
  "providerMoneyHold tx = (let outcome = resolutionOutcome tx in
     if completedMaskedProviderSuccess tx then False
     else if outcome = ''provider_not_paid'' \<and> pt_status tx = ''pending'' \<and> \<not> isProviderResultUnresolved tx then False
     else if outcome = ''provider_paid'' \<and> pt_status tx = ''completed'' then False
     else if isProviderResultUnresolved tx \<or> needsUnresolvedHold tx then True
     else if data_str tx ''providerDispatchResult'' = ''pending_reference'' then True
     else outcome = ''provider_paid'' \<or> outcome = ''provider_not_paid'')"

definition automaticPaymentBlocked :: "'a provider_tx_scheme \<Rightarrow> bool" where
  "automaticPaymentBlocked tx = (if providerMoneyHold tx then True
     else if \<not> hasDispatchMarker tx then False
     else data_str tx ''providerDispatchResult'' \<in> {''accepted'', ''pending_reference''})"

text \<open>The refusal of a refund: a status and a code; its message is left out.\<close>

definition refundBlockedByUnresolvedProvider :: "'a provider_tx_scheme option \<Rightarrow> (nat \<times> string) option" where
  "refundBlockedByUnresolvedProvider found = (case found of
     Some tx \<Rightarrow> if providerMoneyHold tx then Some (409, UNRESOLVED_CODE) else None | None \<Rightarrow> None)"

definition classifyPaymentTransportError :: "jsval \<Rightarrow> string" where
  "classifyPaymentTransportError err =
     (let status = toNumber (get (get err ''response'') ''status'');
          code = toString (or_else (get err ''code'') (Str []))
      in if n_le (Fin 500) status then ''unresolved''
         else if n_le (Fin 400) status \<and> n_lt status (Fin 500) then ''definitive_rejection''
         else if \<not> truthy (get err ''response'') \<and> code \<in> BEFORE_SEND_CODES then ''before_send''
         else ''unresolved'')"

section \<open>Claiming the dispatch\<close>

definition marker_fields :: "string list" where
  "marker_fields = [''providerDispatchStartedAt'', ''providerDispatchAttemptId'', ''providerDispatchExecutorGroupId'']"

definition group_val :: "string option \<Rightarrow> jsval" where
  "group_val g = (case g of None \<Rightarrow> Null | Some i \<Rightarrow> Str i)"

definition applyClaimToDoc :: "string \<Rightarrow> int \<Rightarrow> 'a provider_tx_scheme \<Rightarrow> 'a provider_tx_scheme" where
  "applyClaimToDoc attemptId claimedAt tx = set_data [(''providerDispatchStartedAt'', date_val claimedAt),
     (''providerDispatchAttemptId'', Str attemptId), (''providerDispatchExecutorGroupId'', group_val (pt_executorGroupId tx))] tx"

definition clearClaimOnDoc :: "'a provider_tx_scheme \<Rightarrow> 'a provider_tx_scheme" where
  "clearClaimOnDoc tx = unset_data marker_fields tx"

definition claim_filter :: "string \<Rightarrow> 'a provider_tx_scheme \<Rightarrow> bool" where
  "claim_filter gid d \<longleftrightarrow> pt_status d = ''processing'' \<and> pt_executorGroupId d = Some gid
     \<and> get (dataOf d) ''providerResultUnresolved'' \<noteq> Bool True
     \<and> nullish (get (dataOf d) ''providerDispatchStartedAt'')
     \<and> (nullish (get (dataOf d) ''providerDispatchAttemptId'') \<or> get (dataOf d) ''providerDispatchAttemptId'' = Str [])"

definition claim_fields :: "string \<Rightarrow> string \<Rightarrow> int \<Rightarrow> 'a provider_tx_scheme \<Rightarrow> 'a provider_tx_scheme" where
  "claim_fields gid attemptId now d = (set_data [(''providerDispatchStartedAt'', date_val now), (''providerDispatchAttemptId'', Str attemptId),
     (''providerDispatchExecutorGroupId'', Str gid)] d)\<lparr>pt_updatedAt := now\<rparr>"

datatype claim_result = Claimed string int | Not_claimed string "string option"

text \<open>The attempt identifier is a fresh UUID; the returned document is the caller's copy.  A failure of the database is an answer.\<close>

definition claimProviderDispatch ::
    "('s, 'a provider_tx_scheme) coll \<Rightarrow> string \<Rightarrow> int \<Rightarrow> 'a provider_tx_scheme
      \<Rightarrow> ('s, claim_result \<times> 'a provider_tx_scheme) run" where
  "claimProviderDispatch txs uuid now tx = (case pt_executorGroupId tx of
     None \<Rightarrow> ret (Not_claimed ''missing_transaction'' None, tx)
   | Some gid \<Rightarrow> if pt_id tx = [] then ret (Not_claimed ''missing_transaction'' None, tx)
       else catch (bind (c_update txs (pt_id tx) (claim_filter gid) (claim_fields gid uuid now)) (\<lambda>claimed. case claimed of
              None \<Rightarrow> ret (Not_claimed ''claim_lost'' (Some uuid), tx)
            | Some _ \<Rightarrow> ret (Claimed uuid now, applyClaimToDoc uuid now tx)))
          (\<lambda>err. ret (Not_claimed ''claim_error'' (Some uuid), tx)))"

definition release_filter :: "string \<Rightarrow> 'a provider_tx_scheme \<Rightarrow> bool" where
  "release_filter attemptId d \<longleftrightarrow> pt_status d = ''processing'' \<and> get (dataOf d) ''providerDispatchAttemptId'' = Str attemptId
     \<and> get (dataOf d) ''providerResultUnresolved'' \<noteq> Bool True"

definition release_fields :: "int \<Rightarrow> 'a provider_tx_scheme \<Rightarrow> 'a provider_tx_scheme" where
  "release_fields now d = (unset_data marker_fields d)\<lparr>pt_updatedAt := now\<rparr>"

definition releaseProviderDispatchClaim ::
    "('s, 'a provider_tx_scheme) coll \<Rightarrow> string \<Rightarrow> int \<Rightarrow> 'a provider_tx_scheme
      \<Rightarrow> ('s, bool \<times> 'a provider_tx_scheme) run" where
  "releaseProviderDispatchClaim txs attemptId now tx =
     (if pt_id tx = [] \<or> attemptId = [] then ret (False, clearClaimOnDoc tx)
      else bind (c_update txs (pt_id tx) (release_filter attemptId) (release_fields now)) (\<lambda>_. ret (True, clearClaimOnDoc tx)))"

section \<open>Marking a result as unresolved\<close>

text \<open>In a query a missing value stands for one that is missing or null.\<close>

definition same_value :: "jsval \<Rightarrow> jsval \<Rightarrow> bool" where
  "same_value a b \<longleftrightarrow> a = b \<or> nullish a \<and> nullish b"

definition mark_filter :: "jsval \<Rightarrow> 'a provider_tx_scheme \<Rightarrow> bool" where
  "mark_filter attempt d \<longleftrightarrow> pt_status d = ''processing'' \<and> same_value (get (dataOf d) ''providerDispatchAttemptId'') attempt
     \<and> get (dataOf d) ''providerDispatchResult'' \<notin> {Str ''accepted'', Str ''rejected''}"

definition mark_fields :: "string \<Rightarrow> jsval \<Rightarrow> int \<Rightarrow> 'a provider_tx_scheme \<Rightarrow> 'a provider_tx_scheme" where
  "mark_fields notes reason now d =
     (set_data [(''providerResultUnresolved'', Bool True), (''providerResultUnresolvedAt'', date_val now),
        (''providerResultUnresolvedReason'', Str (slice_units 500 (toString (or_else reason (Str []))))),
        (''providerResultUnresolvedCode'', Str UNRESOLVED_CODE)] d)\<lparr>pt_status := ''processing'', pt_adminNotes := notes, pt_updatedAt := now\<rparr>"

datatype mark_result = Not_marked string | Already_marked | Marked bool

text \<open>The text of the note comes with the call; \<open>online\<close> says whether the connection to the database is up.\<close>

definition markProviderResultUnresolved ::
    "('s, 'a provider_tx_scheme) coll \<Rightarrow> bool \<Rightarrow> int \<Rightarrow> string \<Rightarrow> jsval \<Rightarrow> string \<Rightarrow> ('s, mark_result) run" where
  "markProviderResultUnresolved txs online now note reason txId =
     (if txId = [] \<or> \<not> online then ret (Not_marked ''not_connected'')
      else bind (c_get txs txId) (\<lambda>found. case found of
          None \<Rightarrow> ret (Not_marked ''not_processing'')
        | Some current \<Rightarrow>
            if pt_status current \<noteq> ''processing'' then ret (Not_marked ''not_processing'')
            else if hasDefinitiveProviderResult current then ret (Not_marked ''definitive_result'')
            else if \<not> hasDispatchMarker current then ret (Not_marked ''no_marker'')
            else if isProviderResultUnresolved current then ret Already_marked
            else bind (c_update txs txId (mark_filter (get (dataOf current) ''providerDispatchAttemptId''))
                    (mark_fields (appendNoteText (pt_adminNotes current) note) reason now))
                   (\<lambda>written. ret (Marked (written \<noteq> None)))))"

definition guardAutomaticProviderRedispatch ::
    "('s, 'a provider_tx_scheme) coll \<Rightarrow> bool \<Rightarrow> int \<Rightarrow> string \<Rightarrow> string \<Rightarrow> ('s, bool \<times> string) run" where
  "guardAutomaticProviderRedispatch txs online now note txId =
     (if txId = [] then ret (False, ''missing_id'')
      else if \<not> online then ret (False, ''not_connected'')
      else bind (catch (bind (c_get txs txId) (\<lambda>tx. ret (Inr tx))) (\<lambda>err. ret (Inl err))) (\<lambda>looked. case looked of
          Inl err \<Rightarrow> ret (False, ''lookup_failed'')
        | Inr None \<Rightarrow> ret (False, ''missing'')
        | Inr (Some tx) \<Rightarrow>
            if needsUnresolvedHold tx
            then andThen (markProviderResultUnresolved txs online now note
                    (Str ''dispatch marker without a definitive provider result'') (pt_id tx)) (ret (True, ''in_flight_dispatch''))
            else if isProviderResultUnresolved tx then ret (True, ''unresolved'')
            else if automaticPaymentBlocked tx then ret (True, ''provider_already_dispatched'')
            else ret (False, ''clear'')))"

section \<open>The list for review\<close>

definition unresolvedProviderResultFilter :: "'a provider_tx_scheme \<Rightarrow> bool" where
  "unresolvedProviderResultFilter d \<longleftrightarrow> get (dataOf d) ''providerResultUnresolved'' = Bool True
     \<or> pt_status d = ''processing'' \<and> is_date (get (dataOf d) ''providerDispatchStartedAt'')
       \<and> get (dataOf d) ''providerDispatchResult'' \<notin> {Str ''accepted'', Str ''rejected''}"

record unresolved_row =
  ur_id :: string
  ur_customId :: string
  ur_status :: string
  ur_amount :: jsnum
  ur_executorGroupId :: "string option"
  ur_executorName :: string
  ur_unresolved :: bool
  ur_unresolvedAt :: jsval
  ur_reason :: jsval
  ur_startedAt :: jsval
  ur_attemptId :: jsval
  ur_result :: jsval

definition unresolved_row_of :: "'a provider_tx_scheme \<Rightarrow> unresolved_row" where
  "unresolved_row_of d = \<lparr>ur_id = pt_id d, ur_customId = pt_customId d, ur_status = pt_status d, ur_amount = pt_amount d,
     ur_executorGroupId = pt_executorGroupId d, ur_executorName = pt_executorName d,
     ur_unresolved = (get (dataOf d) ''providerResultUnresolved'' = Bool True),
     ur_unresolvedAt = or_else (get (dataOf d) ''providerResultUnresolvedAt'') Null,
     ur_reason = or_else (get (dataOf d) ''providerResultUnresolvedReason'') (Str []),
     ur_startedAt = or_else (get (dataOf d) ''providerDispatchStartedAt'') Null,
     ur_attemptId = or_else (get (dataOf d) ''providerDispatchAttemptId'') (Str []),
     ur_result = or_else (get (dataOf d) ''providerDispatchResult'') (Str [])\<rparr>"

definition capped_limit :: "jsval \<Rightarrow> jsnum" where
  "capped_limit limit = (let n = toNumber limit; n' = (if truthy (Num n) then n else Fin 100) in n_min (n_max n' (Fin 1)) (Fin 500))"

text \<open>The number of rows that a cursor with this limit returns; a fraction is cut off.\<close>

definition limit_rows :: "jsnum \<Rightarrow> nat" where
  "limit_rows n = (case n of Fin r \<Rightarrow> nat \<lfloor>r\<rfloor> | _ \<Rightarrow> 0)"

definition listUnresolvedProviderResults ::
    "('s, 'a provider_tx_scheme) coll \<Rightarrow> jsval \<Rightarrow> ('s, nat \<times> jsnum \<times> unresolved_row list) run" where
  "listUnresolvedProviderResults txs limit = (let capped = capped_limit limit in
     bind (c_findMany txs unresolvedProviderResultFilter) (\<lambda>counted.
     bind (c_findMany txs unresolvedProviderResultFilter) (\<lambda>found.
       ret (length counted, capped,
            map unresolved_row_of (take (limit_rows capped) (sort_key (\<lambda>d. - pt_updatedAt d) found))))))"

section \<open>Facts about the data\<close>

lemma get_fold_set: "get (Obj (fold (\<lambda>(k, v). obj_set k v) kvs d)) f = (case map_of (rev kvs) f of None \<Rightarrow> get (Obj d) f | Some v \<Rightarrow> v)"
proof (induction kvs arbitrary: d)
  case (Cons kv kvs)
  obtain k v where kv: "kv = (k, v)" by (cases kv)
  show ?case by (simp add: kv Cons get_obj_set map_add_def del: get.simps split: option.split)
qed simp

lemma get_set_data: "get (dataOf (set_data kvs tx)) f = (case map_of (rev kvs) f of None \<Rightarrow> get (dataOf tx) f | Some v \<Rightarrow> v)"
  by (simp add: dataOf_def set_data_def get_fold_set del: get.simps split: option.split)

lemma get_unset_data: "get (dataOf (unset_data ks tx)) f = (if f \<in> set ks then Undef else get (dataOf tx) f)"
proof (cases "pt_data tx")
  case (Some d)
  have "map_of (filter (\<lambda>(k, v). k \<notin> set ks) d) f = (if f \<notin> set ks then map_of d f else None)"
    by (rule map_of_filter_keys)
  then show ?thesis by (simp add: dataOf_def unset_data_def Some)
qed (simp add: dataOf_def unset_data_def)

lemma set_data_fields [simp]:
  "pt_id (set_data kvs tx) = pt_id tx" "pt_status (set_data kvs tx) = pt_status tx"
  "pt_executorGroupId (set_data kvs tx) = pt_executorGroupId tx" "pt_executorSenderPhone (set_data kvs tx) = pt_executorSenderPhone tx"
  by (simp_all add: set_data_def)

lemma unset_data_fields [simp]:
  "pt_id (unset_data ks tx) = pt_id tx" "pt_status (unset_data ks tx) = pt_status tx"
  "pt_executorGroupId (unset_data ks tx) = pt_executorGroupId tx" "pt_executorSenderPhone (unset_data ks tx) = pt_executorSenderPhone tx"
  by (simp_all add: unset_data_def)

lemma dataOf_same [simp]:
  "dataOf (tx\<lparr>pt_updatedAt := t\<rparr>) = dataOf tx" "dataOf (tx\<lparr>pt_status := x\<rparr>) = dataOf tx" "dataOf (tx\<lparr>pt_adminNotes := n\<rparr>) = dataOf tx"
  by (simp_all add: dataOf_def)

lemma get_claimed:
  "get (dataOf (claim_fields gid a now d)) f = (if f = ''providerDispatchStartedAt'' then date_val now
     else if f = ''providerDispatchAttemptId'' then Str a
     else if f = ''providerDispatchExecutorGroupId'' then Str gid else get (dataOf d) f)"
  by (simp add: claim_fields_def get_set_data)

lemma claimed_fields [simp]: "pt_status (claim_fields gid a now d) = pt_status d" "pt_executorGroupId (claim_fields gid a now d) = pt_executorGroupId d"
  by (simp_all add: claim_fields_def)

lemma data_str_claimed:
  "f \<notin> set marker_fields \<Longrightarrow> data_str (claim_fields gid a now d) f = data_str d f"
  by (auto simp: data_str_def get_claimed marker_fields_def)

lemma definitive_claimed: "hasDefinitiveProviderResult (claim_fields gid a now d) = hasDefinitiveProviderResult d"
  by (simp add: hasDefinitiveProviderResult_def data_str_claimed get_claimed marker_fields_def)

section \<open>A claim holds the money\<close>

lemma claim_granted:
  assumes "coll_ok txs" "claimProviderDispatch txs uuid now tx s = (Inr (Claimed a t, tx'), s')"
  obtains gid d where "pt_executorGroupId tx = Some gid" "c_view txs s (pt_id tx) = Some d" "claim_filter gid d" "a = uuid" "t = now"
    "c_view txs s' = (c_view txs s)(pt_id tx \<mapsto> claim_fields gid uuid now d)"
proof (cases "pt_executorGroupId tx")
  case None
  then show thesis using assms(2) by (simp add: claimProviderDispatch_def)
next
  case (Some gid)
  obtain r s1 where u: "c_update txs (pt_id tx) (claim_filter gid) (claim_fields gid uuid now) s = (r, s1)" by fastforce
  from assms(2) u have "\<exists>d'. r = Inr (Some d') \<and> a = uuid \<and> t = now \<and> s1 = s'"
    by (cases r) (auto simp: claimProviderDispatch_def Some catch_run bind_run ret_def split: if_splits option.splits)
  then obtain d' where r: "r = Inr (Some d')" "a = uuid" "t = now" "s1 = s'" by blast
  show thesis
    using u unfolding r by (rule c_update_Some [OF assms(1)]) (rule that [OF Some _ _ r(2,3)])
qed

lemma money_hold:
  assumes "needsUnresolvedHold d" "pt_status d = ''processing''"
  shows "providerMoneyHold d"
  using assms by (simp add: providerMoneyHold_def completedMaskedProviderSuccess_def Let_def)

lemma needs_hold_claimed:
  assumes "\<not> hasDefinitiveProviderResult d" "claim_filter gid d"
  shows "needsUnresolvedHold (claim_fields gid a now d)"
  using assms by (simp add: needsUnresolvedHold_def definitive_claimed hasDispatchMarker_def get_claimed date_val_def
      isProviderResultUnresolved_def claim_filter_def)

lemma settled_hold:
  assumes "resolutionOutcome d = ''provider_not_paid'' \<or> resolutionOutcome d = ''provider_paid''" "pt_status d = ''processing''"
  shows "providerMoneyHold d"
  using assms by (auto simp: providerMoneyHold_def completedMaskedProviderSuccess_def Let_def)

lemma outcome_claimed: "resolutionOutcome (claim_fields gid a now d) = resolutionOutcome d"
  by (simp add: resolutionOutcome_def data_str_claimed marker_fields_def)

text \<open>
  C14: From the moment a dispatch is claimed, its row cannot be claimed again by a worker.  Unless it already has a
  definitive result from an earlier payment that no administrator has settled, its refund is refused and no other payment
  of it is sent automatically; and it is on the list for review exactly when no earlier payment left accepted or rejected
  as its result.
\<close>

theorem claimed_row_held:
  assumes "coll_ok txs" "claimProviderDispatch txs uuid now tx s = (Inr (Claimed a t, tx'), s')"
  shows "\<exists>d d'. c_view txs s (pt_id tx) = Some d \<and> c_view txs s' (pt_id tx) = Some d' \<and> (\<forall>gid. \<not> claim_filter gid d')
     \<and> (unresolvedProviderResultFilter d' = (get (dataOf d) ''providerDispatchResult'' \<notin> {Str ''accepted'', Str ''rejected''}))
     \<and> (refundBlockedByUnresolvedProvider (Some d') = Some (409, UNRESOLVED_CODE) \<and> automaticPaymentBlocked d'
        \<or> hasDefinitiveProviderResult d \<and> resolutionOutcome d \<notin> {''provider_paid'', ''provider_not_paid''})"
proof -
  obtain gid d where d: "c_view txs s (pt_id tx) = Some d" "claim_filter gid d" "c_view txs s' = (c_view txs s)(pt_id tx \<mapsto> claim_fields gid uuid now d)"
    using claim_granted [OF assms(1,2)] by metis
  let ?d = "claim_fields gid uuid now d"
  have p: "pt_status ?d = ''processing''" using d(2) by (simp add: claim_filter_def)
  have once: "\<not> claim_filter g ?d" for g by (simp add: claim_filter_def get_claimed nullish_def date_val_def)
  have listed: "unresolvedProviderResultFilter ?d = (get (dataOf d) ''providerDispatchResult'' \<notin> {Str ''accepted'', Str ''rejected''})"
    using d(2) p by (simp add: unresolvedProviderResultFilter_def get_claimed is_date_def date_val_def claim_filter_def)
  have hold: "providerMoneyHold ?d \<or> hasDefinitiveProviderResult d \<and> resolutionOutcome d \<notin> {''provider_paid'', ''provider_not_paid''}"
    using money_hold [OF needs_hold_claimed [OF _ d(2)] p] settled_hold [OF _ p] unfolding outcome_claimed by blast
  have "refundBlockedByUnresolvedProvider (Some ?d) = Some (409, UNRESOLVED_CODE) \<and> automaticPaymentBlocked ?d"
    if "providerMoneyHold ?d" using that by (simp add: refundBlockedByUnresolvedProvider_def automaticPaymentBlocked_def)
  then have "c_view txs s (pt_id tx) = Some d \<and> c_view txs s' (pt_id tx) = Some ?d \<and> (\<forall>gid. \<not> claim_filter gid ?d)
     \<and> (unresolvedProviderResultFilter ?d = (get (dataOf d) ''providerDispatchResult'' \<notin> {Str ''accepted'', Str ''rejected''}))
     \<and> (refundBlockedByUnresolvedProvider (Some ?d) = Some (409, UNRESOLVED_CODE) \<and> automaticPaymentBlocked ?d
        \<or> hasDefinitiveProviderResult d \<and> resolutionOutcome d \<notin> {''provider_paid'', ''provider_not_paid''})"
    using d(1,3) once listed hold by auto
  then show ?thesis by blast
qed

section \<open>A released row can be claimed again\<close>

lemma released_free:
  assumes "release_filter a d" "pt_executorGroupId d = Some gid"
  shows "claim_filter gid (release_fields now d)"
  using assms by (simp add: claim_filter_def release_filter_def release_fields_def get_unset_data marker_fields_def nullish_def)

lemma clear_fields [simp]: "pt_id (clearClaimOnDoc tx) = pt_id tx" "pt_executorGroupId (clearClaimOnDoc tx) = pt_executorGroupId tx"
  by (simp_all add: clearClaimOnDoc_def)

lemma release_released:
  assumes "coll_ok txs" "releaseProviderDispatchClaim txs a now tx s = (Inr (rel, tx'), s')"
    and "c_view txs s (pt_id tx) = Some d" "release_filter a d" "a \<noteq> []" "pt_id tx \<noteq> []"
  shows "rel" "tx' = clearClaimOnDoc tx" "c_view txs s' (pt_id tx) = Some (release_fields now d)"
proof -
  obtain r s1 where u: "c_update txs (pt_id tx) (release_filter a) (release_fields now) s = (r, s1)" by fastforce
  with assms(2,5,6) obtain x where r: "r = Inr x" "s1 = s'" and t: "rel" "tx' = clearClaimOnDoc tx"
    by (cases r) (auto simp: releaseProviderDispatchClaim_def bind_run ret_def)
  have "x \<noteq> None" using c_update_None(2) [OF assms(1)] u assms(3,4) unfolding r by metis
  then obtain y where x: "x = Some y" by blast
  obtain d' where "c_view txs s (pt_id tx) = Some d'" "c_view txs s' = (c_view txs s)(pt_id tx \<mapsto> release_fields now d')"
    using u unfolding r x by (rule c_update_Some [OF assms(1)])
  then show "rel" "tx' = clearClaimOnDoc tx" "c_view txs s' (pt_id tx) = Some (release_fields now d)" using t assms(3) by simp_all
qed

lemma free_claim:
  assumes "coll_ok txs" "c_view txs s (pt_id tx) = Some d" "claim_filter gid d" "pt_executorGroupId tx = Some gid" "pt_id tx \<noteq> []"
  shows "\<exists>res tx' s'. claimProviderDispatch txs b now tx s = (Inr (res, tx'), s')
     \<and> (res = Claimed b now \<or> res = Not_claimed ''claim_error'' (Some b))"
proof -
  obtain r s1 where u: "c_update txs (pt_id tx) (claim_filter gid) (claim_fields gid b now) s = (r, s1)" by fastforce
  show ?thesis
  proof (cases r)
    case (Inl e)
    then show ?thesis using u assms(4,5) by (simp add: claimProviderDispatch_def catch_run bind_run ret_def)
  next
    case (Inr x)
    have "x \<noteq> None" using c_update_None(2) [OF assms(1)] u assms(2,3) unfolding Inr by metis
    then show ?thesis using u Inr assms(4,5) by (auto simp: claimProviderDispatch_def catch_run bind_run ret_def)
  qed
qed

text \<open>
  C15: A payment that the provider did not take is not stuck: when the holder of a claim has released it, the next claim of
  the row is granted, unless the database fails; it is never told that somebody else holds the row.
\<close>

theorem released_claim_reopens:
  assumes "coll_ok txs" "c_view txs s (pt_id tx) = Some d" "release_filter a d" "pt_executorGroupId d = pt_executorGroupId tx"
    and "pt_executorGroupId tx \<noteq> None" "a \<noteq> []" "pt_id tx \<noteq> []"
    and "releaseProviderDispatchClaim txs a now tx s = (Inr (rel, tx'), s')"
  shows "rel \<and> (\<exists>res tx2 s2. claimProviderDispatch txs b later tx' s' = (Inr (res, tx2), s2)
     \<and> (res = Claimed b later \<or> res = Not_claimed ''claim_error'' (Some b)))"
proof -
  obtain gid where g: "pt_executorGroupId tx = Some gid" using assms(5) by blast
  note rel = release_released [OF assms(1,8,2,3,6,7)]
  have "claim_filter gid (release_fields now d)" using released_free [OF assms(3)] assms(4) g by simp
  then show ?thesis using free_claim [OF assms(1), of s' "clearClaimOnDoc tx"] rel g assms(7) by auto
qed

section \<open>Examples\<close>

definition mem_dispatch :: "((string \<times> provider_tx) list, provider_tx) coll" where
  "mem_dispatch = mem_coll (\<lambda>s. s) (\<lambda>l _. l)"

definition demo_row :: provider_tx where
  "demo_row = \<lparr>pt_id = ''t'', pt_customId = ''1'', pt_status = ''processing'', pt_amount = Fin 100, pt_executorGroupId = Some ''g'',
     pt_executorName = ''api'', pt_executorSenderPhone = Undef, pt_adminNotes = [], pt_createdAt = 0, pt_updatedAt = 0, pt_data = None\<rparr>"

definition demo_claimed :: "(string \<times> provider_tx) list" where
  "demo_claimed = [(''t'', claim_fields ''g'' ''a'' 5 demo_row), (''t'', demo_row)]"

lemma mem_dispatch_ok: "coll_ok mem_dispatch"
  unfolding mem_dispatch_def by (rule mem_coll_ok) simp

lemma demo_claim: "claimProviderDispatch mem_dispatch ''a'' 5 demo_row [(''t'', demo_row)] = (Inr (Claimed ''a'' 5, applyClaimToDoc ''a'' 5 demo_row), demo_claimed)"
  by (simp add: claimProviderDispatch_def mem_dispatch_def mem_coll_def demo_row_def catch_run bind_run ret_def claim_filter_def
      dataOf_def nullish_def demo_claimed_def)

lemma claimed_row_held_witness:
  "\<exists>d'. c_view mem_dispatch demo_claimed (pt_id demo_row) = Some d' \<and> refundBlockedByUnresolvedProvider (Some d') = Some (409, UNRESOLVED_CODE)
     \<and> automaticPaymentBlocked d' \<and> (\<forall>gid. \<not> claim_filter gid d') \<and> unresolvedProviderResultFilter d'"
proof -
  have v: "c_view mem_dispatch [(''t'', demo_row)] (pt_id demo_row) = Some demo_row"
    by (simp add: mem_dispatch_def mem_coll_view demo_row_def)
  have "\<not> hasDefinitiveProviderResult demo_row" "get (dataOf demo_row) ''providerDispatchResult'' = Undef"
    by (simp_all add: demo_row_def hasDefinitiveProviderResult_def data_str_def dataOf_def or_else_def DEFINITIVE_DISPATCH_RESULTS_def)
  then show ?thesis using claimed_row_held [OF mem_dispatch_ok demo_claim] unfolding v by auto
qed

lemma released_claim_reopens_witness:
  "\<exists>rel tx' s'. releaseProviderDispatchClaim mem_dispatch ''a'' 6 demo_row demo_claimed = (Inr (rel, tx'), s') \<and> rel
    \<and> (\<exists>res tx2 s2. claimProviderDispatch mem_dispatch ''b'' 7 tx' s' = (Inr (res, tx2), s2)
     \<and> (res = Claimed ''b'' 7 \<or> res = Not_claimed ''claim_error'' (Some ''b'')))"
proof -
  have v: "c_view mem_dispatch demo_claimed (pt_id demo_row) = Some (claim_fields ''g'' ''a'' 5 demo_row)"
    by (simp add: mem_dispatch_def mem_coll_view demo_claimed_def demo_row_def)
  have f: "release_filter ''a'' (claim_fields ''g'' ''a'' 5 demo_row)"
    by (simp add: release_filter_def get_claimed) (simp add: demo_row_def dataOf_def)
  obtain rel tx' s' where r: "releaseProviderDispatchClaim mem_dispatch ''a'' 6 demo_row demo_claimed = (Inr (rel, tx'), s')"
    using f by (auto simp: releaseProviderDispatchClaim_def bind_run ret_def mem_dispatch_def mem_coll_def demo_claimed_def demo_row_def
        split: if_splits)
  have "rel \<and> (\<exists>res tx2 s2. claimProviderDispatch mem_dispatch ''b'' 7 tx' s' = (Inr (res, tx2), s2)
     \<and> (res = Claimed ''b'' 7 \<or> res = Not_claimed ''claim_error'' (Some ''b'')))"
    by (rule released_claim_reopens [OF mem_dispatch_ok v f _ _ _ _ r]) (simp_all add: demo_row_def)
  then show ?thesis using r by blast
qed

end
