(* ===== verification/Provider_Review.thy ===== *)
theory Provider_Review
  imports Provider_Dispatch Mongo_Session Executor_Ledger
begin

text \<open>
  Transfers whose result at a payment provider is open: which of them a person may review
  (\<open>src/utils/providerPendingOperation.js\<close>), and the fence that keeps a payment away from a row that is being
  recovered (\<open>src/services/apiRuntimeRecoveryPolicy.js\<close>).
\<close>

section \<open>Documents\<close>

text \<open>
  The further fields of a transaction that the review of a dispatch uses.  An empty text stands for a missing one.
\<close>

record review_tx = provider_tx +
  rt_transferType :: jsval
  rt_vodafoneNumber :: jsval
  rt_accountNumber :: jsval
  rt_managerGroupId :: "string option"
  rt_completedAt :: "int option"
  rt_notes :: string
  rt_customerNotes :: string
  rt_proofImage :: string
  rt_proofImages :: "string list"

section \<open>Operations that a person may review\<close>

definition ACTIVE_STATUSES :: "string list" where
  "ACTIVE_STATUSES = [''pending'', ''processing'', ''accepted'']"

definition providerTransactionIdOf :: "review_tx \<Rightarrow> string" where
  "providerTransactionIdOf tx = (let data = dataOf tx in
     clean (or_else (get data ''externalTransactionId'') (or_else (get data ''providerTransactionId'')
       (or_else (get data ''providerTransactionNumber'') (get data ''transactionNumber'')))))"

text \<open>
  The milliseconds of \<open>new Date(v)\<close>, which are missing for an invalid date.  How a text is read is left to
  \<open>parseDate\<close>, since the language leaves most formats to the implementation.
\<close>

definition time_clip :: "rat \<Rightarrow> int option" where
  "time_clip r = (if 8640000000000000 < \<bar>r\<bar> then None else Some (if r < 0 then - \<lfloor>- r\<rfloor> else \<lfloor>r\<rfloor>))"

definition date_ms :: "(string \<Rightarrow> int option) \<Rightarrow> jsval \<Rightarrow> int option" where
  "date_ms parseDate v = (case v of
     Undef \<Rightarrow> None
   | Null \<Rightarrow> Some 0
   | Bool b \<Rightarrow> Some (if b then 1 else 0)
   | Num n \<Rightarrow> (case n of Fin r \<Rightarrow> time_clip r | _ \<Rightarrow> None)
   | Obj kvs \<Rightarrow> (case map_of kvs ''$date'' of Some (Num (Fin r)) \<Rightarrow> Some \<lfloor>r\<rfloor> | _ \<Rightarrow> parseDate (toString v))
   | _ \<Rightarrow> parseDate (toString v))"

definition stale_dispatch :: "(string \<Rightarrow> int option) \<Rightarrow> int \<Rightarrow> review_tx \<Rightarrow> bool" where
  "stale_dispatch parseDate now tx = (let data = dataOf tx in
     (truthy (get data ''providerDispatchStartedAt'') \<or> truthy (get data ''providerDispatchAttemptId''))
     \<and> (case date_ms parseDate (or_else (get data ''providerDispatchStartedAt'') (date_val (pt_updatedAt tx))) of
          Some dispatchAt \<Rightarrow> 300000 \<le> now - dispatchAt | None \<Rightarrow> False))"

definition canReviewProviderOperation :: "(string \<Rightarrow> int option) \<Rightarrow> int \<Rightarrow> review_tx \<Rightarrow> bool" where
  "canReviewProviderOperation parseDate now tx = (let data = dataOf tx in
     if pt_status tx \<notin> set ACTIVE_STATUSES \<or> rt_transferType tx = Str ''balance_transfer'' then False
     else if truthy (get data ''providerResolutionOutcome'') \<or> get data ''providerDispatchResult'' = Str ''rejected'' then False
     else get data ''providerResultUnresolved'' = Bool True
       \<or> get data ''providerDispatchResult'' = Str ''pending_reference''
       \<or> stale_dispatch parseDate now tx
       \<or> get data ''waitingApiAutoCompletion'' = Bool True
       \<or> providerTransactionIdOf tx \<noteq> []
       \<or> get data ''referenceMasked'' = Bool False \<and> truthy (get data ''referenceNumber''))"

text \<open>A phone number as it is dialled in the country, whichever way its country code is written.\<close>

definition normalizePhone :: "jsval \<Rightarrow> string" where
  "normalizePhone v = (let digits = filter is_digit (toString (or_else v (Str []))) in
     if has_prefix ''002001'' digits \<and> length digits = 15 then drop 4 digits
     else if has_prefix ''2001'' digits \<and> length digits = 13 then drop 2 digits
     else if has_prefix ''201'' digits \<and> length digits = 12 then CHR ''0'' # drop 2 digits
     else if has_prefix ''00201'' digits \<and> length digits = 14 then CHR ''0'' # drop 4 digits
     else digits)"

definition providerOperationMatches :: "review_tx \<Rightarrow> jsval \<Rightarrow> bool" where
  "providerOperationMatches tx operation =
     (let expectedPhone = normalizePhone (or_else (rt_vodafoneNumber tx) (rt_accountNumber tx));
          actualPhone = normalizePhone (get operation ''phone'');
          expectedId = providerTransactionIdOf tx;
          actualId = clean (get operation ''providerTransactionId'');
          amount = toNumber (get operation ''amount'')
      in expectedId \<noteq> [] \<and> actualId = expectedId \<and> expectedPhone \<noteq> [] \<and> actualPhone = expectedPhone
         \<and> \<not> nullish (get operation ''amount'') \<and> isFinite amount
         \<and> n_lt (n_abs (n_sub amount (pt_amount tx))) (num (5 / 1000)))"

definition blank :: "jsval \<Rightarrow> bool" where
  "blank v \<longleftrightarrow> nullish v \<or> v = Str []"

definition pendingProviderQuery :: "int \<Rightarrow> int \<Rightarrow> review_tx \<Rightarrow> bool" where
  "pendingProviderQuery now minimumAgeMs d = (let data = dataOf d in
     pt_status d \<in> set ACTIVE_STATUSES \<and> rt_transferType d \<noteq> Str ''balance_transfer''
     \<and> pt_createdAt d \<le> now - minimumAgeMs
     \<and> blank (get data ''providerResolutionOutcome'')
     \<and> get data ''providerDispatchResult'' \<noteq> Str ''rejected''
     \<and> (get data ''providerResultUnresolved'' = Bool True
        \<or> get data ''providerDispatchResult'' = Str ''pending_reference''
        \<or> get data ''waitingApiAutoCompletion'' = Bool True
        \<or> (\<exists>key\<in>set [''providerDispatchStartedAt'', ''providerDispatchAttemptId'', ''externalTransactionId'', ''providerTransactionId'',
              ''providerTransactionNumber'', ''transactionNumber'']. \<not> blank (get data key))
        \<or> get data ''referenceMasked'' = Bool False \<and> \<not> blank (get data ''referenceNumber'')))"

section \<open>The fence of a recovery\<close>

definition TERMINAL :: "string set" where
  "TERMINAL = {''completed'', ''rejected'', ''cancelled_by_admin''}"

definition hasReference :: "jsval \<Rightarrow> bool" where
  "hasReference data \<longleftrightarrow> truthy (get data ''referenceNumber'') \<or> truthy (get data ''externalTransactionId'')
     \<or> truthy (get data ''providerTransactionId'') \<or> truthy (get data ''providerReportedReference'')"

definition hasClaim :: "jsval \<Rightarrow> bool" where
  "hasClaim data \<longleftrightarrow> truthy (get data ''providerDispatchAttemptId'') \<or> truthy (get data ''providerDispatchStartedAt'')"

definition pristine :: "review_tx \<Rightarrow> bool" where
  "pristine tx = (let data = dataOf tx in
     pt_status tx = ''processing'' \<and> rt_completedAt tx = None \<and> pt_executorGroupId tx \<noteq> None
     \<and> \<not> hasClaim data \<and> \<not> hasReference data \<and> \<not> truthy (get data ''providerDispatchResult'')
     \<and> get data ''providerResultUnresolved'' \<noteq> Bool True \<and> get data ''ledgerPosted'' \<noteq> Bool True
     \<and> \<not> truthy (get data ''runtimeRecoveryFence'') \<and> \<not> truthy (get data ''providerResolutionOutcome'')
     \<and> \<not> truthy (get data ''providerResolvedAt'') \<and> get data ''waitingApiAutoCompletion'' \<noteq> Bool True)"

record recovery_summary =
  rs_transaction :: string
  rs_status :: string
  rs_terminal :: bool
  rs_claim :: bool
  rs_reference :: bool
  rs_result :: jsval
  rs_ledgerPosted :: jsval

definition summarize :: "review_tx \<Rightarrow> recovery_summary" where
  "summarize tx = (let data = dataOf tx in
     \<lparr>rs_transaction = pt_customId tx, rs_status = pt_status tx, rs_terminal = (pt_status tx \<in> TERMINAL),
      rs_claim = hasClaim data, rs_reference = hasReference data, rs_result = or_else (get data ''providerDispatchResult'') Null,
      rs_ledgerPosted = coalesce (get data ''ledgerPosted'') Null\<rparr>)"

text \<open>The two filters and the two updates of a fence.  The row is looked up by its identifier.\<close>

record recovery_fence =
  rf_filter :: "review_tx \<Rightarrow> bool"
  rf_update :: "review_tx \<Rightarrow> review_tx"
  rf_releaseFilter :: "review_tx \<Rightarrow> bool"
  rf_releaseUpdate :: "review_tx \<Rightarrow> review_tx"

definition fenced_data :: "review_tx \<Rightarrow> string \<Rightarrow> int \<Rightarrow> (string \<times> jsval) list" where
  "fenced_data tx token now = fold (\<lambda>(k, v). obj_set k v)
     [(''providerDispatchAttemptId'', Str token), (''providerDispatchStartedAt'', date_val now), (''providerResultUnresolved'', Bool True),
      (''providerResultUnresolvedReason'', Str ''Operational recovery fence; recovery has NOT sent a Payment request''),
      (''runtimeRecoveryFence'', Str token)] (case pt_data tx of None \<Rightarrow> [] | Some d \<Rightarrow> d)"

definition buildRecoveryFence :: "review_tx \<Rightarrow> string \<Rightarrow> int \<Rightarrow> error + recovery_fence" where
  "buildRecoveryFence tx token now =
     (if \<not> pristine tx then Inl (plain_error ''TARGET_NOT_PRISTINE'')
      else let identity = (\<lambda>d. pt_id d = pt_id tx \<and> pt_status d = ''processing'' \<and> pt_executorGroupId d = pt_executorGroupId tx
                 \<and> pt_updatedAt d = pt_updatedAt tx);
               fenced = fenced_data tx token now
           in Inr \<lparr>rf_filter = (\<lambda>d. identity d \<and> pt_data d = pt_data tx), rf_update = (\<lambda>d. d\<lparr>pt_data := Some fenced\<rparr>),
                   rf_releaseFilter = (\<lambda>d. identity d \<and> pt_data d = Some fenced),
                   rf_releaseUpdate = (\<lambda>d. d\<lparr>pt_data := pt_data tx\<rparr>)\<rparr>)"

end
