(* ===== verification/Provider_Resolution.thy ===== *)
theory Provider_Resolution
  imports Provider_Review
begin

text \<open>
  An administrator settles the result of a provider by hand (\<open>src/services/providerResolutionService.js\<close>): the provider
  has paid, and the transfer is completed by the reference (\<open>src/services/apiExecutionLifecycleService.js\<close>), or it has
  not, and the transfer returns to the queue.  The four collections are parameters with the laws of \<open>coll_ok\<close>; the clock,
  the identifier of a new ledger entry, the texts of the notes and the outcome of rendering a receipt are fields of a
  request.
\<close>

section \<open>Completing a transfer by its reference\<close>

text \<open>The texts that are stored or searched for: they are Arabic, so they are given by their bytes.\<close>

definition EXECUTOR_DEBIT_DESCRIPTION :: string where
  "EXECUTOR_DEBIT_DESCRIPTION = utf8 [216, 170, 217, 134, 217, 129, 217, 138, 216, 176, 32, 65, 80, 73, 32, 216, 162, 217, 132, 217, 138]"

definition API_EXECUTOR_NAME :: string where
  "API_EXECUTOR_NAME = utf8 [216, 170, 217, 134, 217, 129, 217, 138, 216, 176, 32, 216, 162, 217, 132, 217, 138, 32, 40, 65, 80, 73, 41]"

definition REFERENCE_LABEL :: string where
  "REFERENCE_LABEL = utf8 [216, 167, 217, 132, 216, 177, 217, 130, 217, 133, 32, 216, 167, 217, 132, 217, 133, 216, 177, 216, 172, 216, 185, 217, 138]"

definition PROVIDER_NUMBER_LABEL :: string where
  "PROVIDER_NUMBER_LABEL = utf8 [216, 177, 217, 130, 217, 133, 32, 216, 185, 217, 133, 217, 132, 217, 138, 216, 169, 32, 216, 167, 217, 132, 217, 133, 216, 178, 217, 136, 216, 175]"

record exec_group =
  eg_id :: string
  eg_name :: string
  eg_parent :: "string option"

record 's review_world =
  rw_txs :: "('s, review_tx) coll"
  rw_groups :: "('s, exec_group) coll"
  rw_accounts :: "('s, account) coll"
  rw_ledger :: "('s, ledger_entry) coll"

type_synonym 's wallet_txn = "('s, balance_update) run \<Rightarrow> ('s, balance_update) run"

definition appendApiNote :: "string \<Rightarrow> string \<Rightarrow> string" where
  "appendApiNote current note = (let cleanNote = trim note in
     if cleanNote = [] then current else if current \<noteq> [] then current @ [CHR 10] @ cleanNote else cleanNote)"

definition appendCustomerReference :: "string \<Rightarrow> jsval \<Rightarrow> review_tx \<Rightarrow> review_tx" where
  "appendCustomerReference label v tx = (let cleanValue = clean v; line = ''['' @ label @ '': '' @ cleanValue @ '']'' in
     if cleanValue = [] \<or> includes_str (rt_notes tx) line then tx else tx\<lparr>rt_notes := appendApiNote (rt_notes tx) line\<rparr>)"

text \<open>\<open>/"RefTransactionNumber"\s*:\s*"([^"]+)"/\<close>\<close>

definition match_reference :: "string \<Rightarrow> string option" where
  "match_reference s = (let key = [CHR 34] @ ''RefTransactionNumber'' @ [CHR 34] in
     if \<not> has_prefix key s then None
     else case trimStart (drop (length key) s) of
         c # r \<Rightarrow> if c \<noteq> CHR '':'' then None
           else (case trimStart r of
               q # t \<Rightarrow> let number = takeWhile (\<lambda>x. x \<noteq> CHR 34) t in
                 if q = CHR 34 \<and> number \<noteq> [] \<and> length number < length t then Some number else None
             | [] \<Rightarrow> None)
       | [] \<Rightarrow> None)"

definition resolveApiReferenceNumber :: "jsval \<Rightarrow> string" where
  "resolveApiReferenceNumber apiResult =
     (let referenceNumber = or_else (get apiResult ''reference_number'') (or_else (get apiResult ''sender_number'')
            (or_else (get apiResult ''external_transaction_id'') (get apiResult ''provider_transaction_id'')))
      in if truthy (get apiResult ''processLog'') \<and> \<not> truthy referenceNumber
         then case search match_reference (toString (get apiResult ''processLog'')) of Some n \<Rightarrow> trim n | None \<Rightarrow> []
         else clean referenceNumber)"

fun unique_proofs :: "string set \<Rightarrow> string list \<Rightarrow> string list" where
  "unique_proofs seen [] = []"
| "unique_proofs seen (v # vs) = (let proofId = trim v in
     if proofId \<noteq> [] \<and> proofId \<notin> seen then proofId # unique_proofs (insert proofId seen) vs else unique_proofs seen vs)"

definition uniqueProofIds :: "string list \<Rightarrow> string list" where
  "uniqueProofIds = unique_proofs {}"

text \<open>Rendering and storing a receipt gives its identifier or a note about the failure.\<close>

definition createApiExecutorReceiptProof :: "string + string \<Rightarrow> jsval \<Rightarrow> review_tx \<Rightarrow> string + jsval" where
  "createApiExecutorReceiptProof rendered apiResult tx = (let data = dataOf tx; existing = get data ''executorReceiptProof'' in
     if truthy existing then Inr existing
     else let referenceNumber = (if resolveApiReferenceNumber apiResult \<noteq> [] then resolveApiReferenceNumber apiResult
                else clean (get data ''referenceNumber''));
              providerTransactionId = clean (or_else (get apiResult ''external_transaction_id'') (or_else (get apiResult ''provider_transaction_id'')
                (or_else (get data ''externalTransactionId'') (or_else (get data ''providerTransactionId'') (Str referenceNumber)))))
          in if referenceNumber = [] \<and> providerTransactionId = [] then Inr Null
             else case rendered of Inl note \<Rightarrow> Inl note | Inr i \<Rightarrow> Inr (Str i))"

definition attachApiReceiptProofs :: "jsval \<Rightarrow> jsval \<Rightarrow> review_tx \<Rightarrow> review_tx" where
  "attachApiReceiptProofs systemProof providerProof tx =
     (let text = (\<lambda>v. toString (or_else v (Str [])));
          proofs = uniqueProofIds ([text systemProof, text providerProof] @ rt_proofImages tx @ [rt_proofImage tx])
      in case proofs of [] \<Rightarrow> tx
         | p # ps \<Rightarrow> tx\<lparr>rt_proofImage := (if truthy systemProof then text systemProof else p), rt_proofImages := proofs\<rparr>)"

text \<open>What a completion reads from outside: the clock, the identifier of a new ledger entry, the notes, the receipt.\<close>

record completion_input =
  ci_now :: int
  ci_entryId :: string
  ci_doneNote :: string
  ci_moneyNote :: "error \<Rightarrow> string"
  ci_rendered :: "string + string"

definition debit_amount :: "review_tx \<Rightarrow> jsnum" where
  "debit_amount tx = n_neg (or_zero (pt_amount tx))"

definition executor_debit :: "review_tx \<Rightarrow> string \<Rightarrow> ledger_entry \<Rightarrow> bool" where
  "executor_debit tx gid e \<longleftrightarrow> le_entityModel e = ''ExecutorGroup'' \<and> le_entityId e = gid \<and> le_transactionId e = pt_customId tx
     \<and> le_type e = ''TRANSFER'' \<and> le_amount e = debit_amount tx \<and> le_description e = EXECUTOR_DEBIT_DESCRIPTION"

definition debit_request :: "review_tx \<Rightarrow> string \<Rightarrow> wallet_request" where
  "debit_request tx gid = \<lparr>wr_entityModel = ''ExecutorGroup'', wr_entityId = gid, wr_amount = debit_amount tx, wr_type = ''TRANSFER'',
     wr_transactionId = pt_customId tx, wr_description = EXECUTOR_DEBIT_DESCRIPTION, wr_options = default_options\<rparr>"

definition post_debit :: "'s wallet_txn \<Rightarrow> bool \<Rightarrow> 's review_world \<Rightarrow> string \<Rightarrow> review_tx \<Rightarrow> string \<Rightarrow> ('s, error option) run" where
  "post_debit txn requires w entryId tx gid =
     catch (bind (c_findOne (rw_ledger w) (executor_debit tx gid)) (\<lambda>existingDebit. case existingDebit of
         Some _ \<Rightarrow> ret None
       | None \<Rightarrow> andThen (updateBalanceWithLedger txn requires False (rw_accounts w) (rw_ledger w) entryId (debit_request tx gid)) (ret None)))
       (\<lambda>err. ret (Some err))"

definition completed_data :: "jsval \<Rightarrow> string \<Rightarrow> jsval \<Rightarrow> error option \<Rightarrow> int \<Rightarrow> review_tx \<Rightarrow> (string \<times> jsval) list" where
  "completed_data apiResult referenceNumber receiptProof ledgerError now tx =
     [(''waitingApiAutoCompletion'', Bool False), (''autoCompleteAt'', Null), (''referenceNumber'', Str referenceNumber),
      (''referenceMasked'', Bool (get apiResult ''reference_masked'' = Bool True)),
      (''externalTransactionId'', or_else (get apiResult ''external_transaction_id'') Null),
      (''providerTransactionId'', or_else (get apiResult ''provider_transaction_id'') Null),
      (''completedAt'', date_val now), (''completionMode'', Str ''immediate_reference''), (''ledgerPosted'', Bool (ledgerError = None)),
      (''ledgerError'', case ledgerError of None \<Rightarrow> Null | Some e \<Rightarrow> Str (message e)),
      (''providerDispatchResult'', Str ''accepted''), (''providerResultUnresolved'', Bool False),
      (''executorReceiptProof'', or_else receiptProof (or_else (get (dataOf tx) ''executorReceiptProof'') Null)),
      (''apiProviderReceiptProof'', or_else (get (dataOf tx) ''apiProviderReceiptProof'') Null)]"

definition completed_doc :: "completion_input \<Rightarrow> exec_group \<Rightarrow> jsval \<Rightarrow> string \<Rightarrow> error option \<Rightarrow> review_tx \<Rightarrow> review_tx" where
  "completed_doc ci executorGroup apiResult referenceNumber ledgerError tx0 =
     (let noted = (case ledgerError of None \<Rightarrow> tx0 | Some e \<Rightarrow> tx0\<lparr>pt_adminNotes := appendApiNote (pt_adminNotes tx0) (ci_moneyNote ci e)\<rparr>);
          tx1 = noted\<lparr>pt_status := ''completed'', pt_executorGroupId := Some (eg_id executorGroup), rt_managerGroupId := eg_parent executorGroup,
            pt_executorName := API_EXECUTOR_NAME, pt_executorSenderPhone := Str referenceNumber, rt_completedAt := Some (ci_now ci)\<rparr>;
          tx2 = appendCustomerReference REFERENCE_LABEL (Str referenceNumber) tx1;
          external = get apiResult ''external_transaction_id'';
          tx3 = (if truthy external \<and> external \<noteq> Str referenceNumber then appendCustomerReference PROVIDER_NUMBER_LABEL external tx2 else tx2);
          tx4 = tx3\<lparr>pt_adminNotes := appendApiNote (pt_adminNotes tx3) (ci_doneNote ci)\<rparr>;
          rendered = createApiExecutorReceiptProof (ci_rendered ci) apiResult tx4;
          tx5 = (case rendered of Inr p \<Rightarrow> attachApiReceiptProofs p Null tx4
                 | Inl note \<Rightarrow> tx4\<lparr>pt_adminNotes := appendApiNote (pt_adminNotes tx4) note\<rparr>);
          receiptProof = (case rendered of Inr p \<Rightarrow> p | Inl _ \<Rightarrow> Null)
      in set_data (completed_data apiResult referenceNumber receiptProof ledgerError (ci_now ci) tx5) tx5)"

text \<open>The provider's own receipt and the detailed log are missing in the calls that are modelled here.\<close>

definition completeApiTransactionWithReference ::
    "'s wallet_txn \<Rightarrow> bool \<Rightarrow> 's review_world \<Rightarrow> completion_input \<Rightarrow> exec_group \<Rightarrow> jsval \<Rightarrow> review_tx \<Rightarrow> ('s, review_tx option) run" where
  "completeApiTransactionWithReference txn requires w ci executorGroup apiResult tx =
     (let referenceNumber = resolveApiReferenceNumber apiResult
      in if referenceNumber = [] then ret None
         else bind (post_debit txn requires w (ci_entryId ci) tx (eg_id executorGroup)) (\<lambda>ledgerError.
           ret (Some (completed_doc ci executorGroup apiResult referenceNumber ledgerError tx))))"

section \<open>Settling the result of a provider\<close>

definition PROVIDER_RESOLUTION_PERMISSION :: string where
  "PROVIDER_RESOLUTION_PERMISSION = ''transactions.resolve_provider''"

definition NOT_PAID_CONFLICT_CODE :: string where
  "NOT_PAID_CONFLICT_CODE = ''NOT_PAID_CONFLICTS_WITH_EVIDENCE''"

definition OUTCOMES :: "string set" where
  "OUTCOMES = {''provider_paid'', ''provider_not_paid''}"

definition PREVIOUS_NOTES_MARK :: string where
  "PREVIOUS_NOTES_MARK = utf8 [91, 217, 133, 217, 132, 216, 167, 216, 173, 216, 184, 216, 167, 216, 170, 32, 217, 130, 216, 168, 217, 132, 32,
     216, 167, 217, 132, 216, 173, 216, 179, 217, 133, 32, 216, 167, 217, 132, 217, 138, 216, 175, 217, 136, 217, 138, 93]"

record actor =
  ac_id :: string
  ac_role :: string
  ac_permissions :: "string list"

definition actorCanResolve :: "actor option \<Rightarrow> bool" where
  "actorCanResolve who = (case who of None \<Rightarrow> False
     | Some a \<Rightarrow> ac_role a = ''master'' \<or> ''*'' \<in> set (ac_permissions a) \<or> PROVIDER_RESOLUTION_PERMISSION \<in> set (ac_permissions a))"

text \<open>The administrator's note becomes the public one; the earlier notes are kept among the internal ones.\<close>

definition applyResolutionNote :: "string \<Rightarrow> review_tx \<Rightarrow> review_tx" where
  "applyResolutionNote note tx =
     (let a = trim (rt_notes tx); b = trim (rt_customerNotes tx);
          previousNotes = filter (\<lambda>p. p \<noteq> [] \<and> p \<noteq> note) (if a = b then [a] else [a, b]);
          notes = (if previousNotes = [] then pt_adminNotes tx
            else join_with [CHR 10] (filter (\<lambda>s. s \<noteq> []) ([trim (pt_adminNotes tx), PREVIOUS_NOTES_MARK] @ previousNotes)))
      in tx\<lparr>pt_adminNotes := notes, rt_notes := note, rt_customerNotes := note\<rparr>)"

definition resolutionOutcomeOf :: "review_tx \<Rightarrow> string" where
  "resolutionOutcomeOf tx = clean (get (dataOf tx) ''providerResolutionOutcome'')"

definition sameInstant :: "(string \<Rightarrow> int option) \<Rightarrow> jsval \<Rightarrow> int \<Rightarrow> bool" where
  "sameInstant parseDate left right \<longleftrightarrow> date_ms parseDate left = Some right"

definition countExecutorDebits :: "'s review_world \<Rightarrow> review_tx \<Rightarrow> ('s, nat) run" where
  "countExecutorDebits w tx = (case pt_executorGroupId tx of
     None \<Rightarrow> ret 0
   | Some gid \<Rightarrow> if pt_customId tx = [] then ret 0
       else bind (c_findMany (rw_ledger w) (executor_debit tx gid)) (\<lambda>found. ret (length found)))"

definition storedProviderReference :: "review_tx \<Rightarrow> string" where
  "storedProviderReference tx = (let data = dataOf tx in
     case find (\<lambda>s. s \<noteq> []) (map (\<lambda>k. clean (get data k)) [''referenceNumber'', ''externalTransactionId'', ''providerTransactionId'',
        ''providerTransactionNumber'', ''transactionNumber'']) of Some s \<Rightarrow> s | None \<Rightarrow> [])"

definition notPaidEvidenceConflict :: "'s review_world \<Rightarrow> review_tx \<Rightarrow> ('s, string option) run" where
  "notPaidEvidenceConflict w tx =
     (let data = dataOf tx; dispatchResult = clean (get data ''providerDispatchResult'');
          unmasked = (get data ''referenceMasked'' = Bool False)
      in if truthy (get data ''providerResolutionEffectStartedAt'') then ret (Some ''providerResolutionEffectStartedAt'')
         else if has_mask (clean (get data ''referenceNumber'')) \<or> has_mask (clean (get data ''providerReportedReference''))
         then ret (Some ''provider_reference'')
         else if dispatchResult = ''accepted'' then ret (Some dispatchResult)
         else if dispatchResult = ''pending_reference'' \<and> \<not> unmasked then ret (Some dispatchResult)
         else if storedProviderReference tx \<noteq> [] \<and> \<not> unmasked then ret (Some ''provider_reference'')
         else if get data ''waitingApiAutoCompletion'' = Bool True \<and> clean (get data ''referenceNumber'') \<noteq> []
         then ret (Some ''waiting_reference'')
         else if pt_customId tx = [] then ret None
         else bind (c_findOne (rw_ledger w) (\<lambda>e. le_entityModel e = ''ExecutorGroup'' \<and> le_transactionId e = pt_customId tx
                  \<and> le_type e = ''TRANSFER'' \<and> n_lt (le_amount e) (Fin 0)))
               (\<lambda>debit. ret (if debit = None then None else Some ''executor_debit'')))"

text \<open>What a resolution will do: the status and the executor afterwards, and whether a debit of the executor is due.\<close>

record money_preview =
  mp_statusAfter :: string
  mp_executorGroupIdAfter :: "string option"
  mp_debit :: "(string option \<times> jsnum \<times> bool) option"

definition moneyPreview :: "'s review_world \<Rightarrow> review_tx \<Rightarrow> string \<Rightarrow> ('s, money_preview) run" where
  "moneyPreview w tx outcome = bind (countExecutorDebits w tx) (\<lambda>debits. ret
     (if outcome = ''provider_paid''
      then \<lparr>mp_statusAfter = ''completed'', mp_executorGroupIdAfter = pt_executorGroupId tx,
            mp_debit = Some (pt_executorGroupId tx, debit_amount tx, debits = 0)\<rparr>
      else \<lparr>mp_statusAfter = ''pending'', mp_executorGroupIdAfter = None, mp_debit = None\<rparr>))"

record tx_snapshot =
  sn_status :: string
  sn_executorGroupId :: "string option"
  sn_result :: jsval
  sn_unresolved :: bool
  sn_outcome :: "string option"
  sn_updatedAt :: int

definition snapshot :: "review_tx \<Rightarrow> tx_snapshot" where
  "snapshot tx = \<lparr>sn_status = pt_status tx, sn_executorGroupId = pt_executorGroupId tx,
     sn_result = or_else (get (dataOf tx) ''providerDispatchResult'') Null, sn_unresolved = isProviderResultUnresolved tx,
     sn_outcome = (if resolutionOutcomeOf tx = [] then None else Some (resolutionOutcomeOf tx)), sn_updatedAt = pt_updatedAt tx\<rparr>"

definition effectDone :: "review_tx \<Rightarrow> string \<Rightarrow> bool" where
  "effectDone tx outcome \<longleftrightarrow> resolutionOutcomeOf tx = outcome
     \<and> (if outcome = ''provider_paid'' then pt_status tx = ''completed''
        else pt_status tx = ''pending'' \<and> pt_data tx \<noteq> None \<and> \<not> isProviderResultUnresolved tx)"

record resolve_request =
  rq_transactionId :: string
  rq_outcome :: jsval
  rq_evidence :: jsval
  rq_note :: jsval
  rq_confirm :: jsval
  rq_expectedUpdatedAt :: jsval
  rq_actor :: "actor option"
  rq_completion :: completion_input
  rq_failureNote :: string
  rq_audit :: "error option"

datatype resolution =
    Refused nat string
  | Conflict string
  | Already money_preview
  | Preview tx_snapshot money_preview
  | Settled string tx_snapshot tx_snapshot money_preview

definition validateRequest :: "resolve_request \<Rightarrow> (nat \<times> string) + (string \<times> string \<times> string)" where
  "validateRequest rq = (let outcome = clean (rq_outcome rq); evidenceReference = clean (rq_evidence rq); note = clean (rq_note rq) in
     if outcome \<notin> OUTCOMES then Inl (400, ''OUTCOME_INVALID'')
     else if evidenceReference = [] \<or> note = [] then Inl (400, ''EVIDENCE_REQUIRED'')
     else Inr (outcome, evidenceReference, note))"

definition actor_id :: "resolve_request \<Rightarrow> string" where
  "actor_id rq = (case rq_actor rq of None \<Rightarrow> [] | Some a \<Rightarrow> ac_id a)"

definition rq_now :: "resolve_request \<Rightarrow> int" where
  "rq_now rq = ci_now (rq_completion rq)"

definition resolve_filter :: "review_tx \<Rightarrow> review_tx \<Rightarrow> bool" where
  "resolve_filter tx d \<longleftrightarrow> pt_updatedAt d = pt_updatedAt tx \<and> pt_status d = pt_status tx
     \<and> get (dataOf d) ''providerResolutionOutcome'' = Undef"

definition resolve_claim :: "resolve_request \<Rightarrow> string \<Rightarrow> string \<Rightarrow> string \<Rightarrow> review_tx \<Rightarrow> review_tx" where
  "resolve_claim rq outcome evidence note d = (set_data [(''providerResolutionOutcome'', Str outcome), (''providerResolutionEvidence'', Str evidence),
     (''providerResolutionNote'', Str note), (''providerResolutionActorId'', Str (actor_id rq)), (''providerResolutionClaimedAt'', date_val (rq_now rq)),
     (''waitingApiAutoCompletion'', Bool False)] d)\<lparr>pt_updatedAt := rq_now rq\<rparr>"

definition effect_filter :: "string \<Rightarrow> string \<Rightarrow> review_tx \<Rightarrow> bool" where
  "effect_filter outcome evidence d \<longleftrightarrow> get (dataOf d) ''providerResolutionOutcome'' = Str outcome
     \<and> get (dataOf d) ''providerResolutionEvidence'' = Str evidence \<and> get (dataOf d) ''providerResolutionEffectStartedAt'' = Undef"

definition effect_fields :: "int \<Rightarrow> review_tx \<Rightarrow> review_tx" where
  "effect_fields now d = (set_data [(''providerResolutionEffectStartedAt'', date_val now)] d)\<lparr>pt_updatedAt := now\<rparr>"

definition resolved_data :: "resolve_request \<Rightarrow> string \<Rightarrow> string \<Rightarrow> string \<Rightarrow> (string \<times> jsval) list" where
  "resolved_data rq outcome evidence note = [(''providerResolutionOutcome'', Str outcome), (''providerResolutionEvidence'', Str evidence),
     (''providerResolutionNote'', Str note), (''providerResolutionActorId'', Str (actor_id rq)), (''providerResolvedAt'', date_val (rq_now rq))]"

text \<open>
  Saving writes the fields that the operations here change in memory.  One that this call has not changed is written
  with the value that was read; nobody has written it in between when the row was read under a claim, and what is proved
  of the save of an old copy is about fields that it has changed.
\<close>

definition saved_fields :: "int \<Rightarrow> review_tx \<Rightarrow> review_tx \<Rightarrow> review_tx" where
  "saved_fields now tx d = d\<lparr>pt_status := pt_status tx, pt_executorGroupId := pt_executorGroupId tx, rt_managerGroupId := rt_managerGroupId tx,
     pt_executorName := pt_executorName tx, pt_executorSenderPhone := pt_executorSenderPhone tx, rt_completedAt := rt_completedAt tx,
     rt_notes := rt_notes tx, rt_customerNotes := rt_customerNotes tx, pt_adminNotes := pt_adminNotes tx, rt_proofImage := rt_proofImage tx,
     rt_proofImages := rt_proofImages tx, pt_data := pt_data tx, pt_updatedAt := now\<rparr>"

definition save_review :: "'s review_world \<Rightarrow> int \<Rightarrow> review_tx \<Rightarrow> ('s, unit) run" where
  "save_review w now tx = bind (c_update (rw_txs w) (pt_id tx) (\<lambda>_. True) (saved_fields now tx))
     (\<lambda>saved. throw_if (saved = None) (plain_error ''DocumentNotFoundError''))"

definition releaseFailedApiExecutionToPending :: "'s review_world \<Rightarrow> int \<Rightarrow> string \<Rightarrow> review_tx \<Rightarrow> ('s, unit) run" where
  "releaseFailedApiExecutionToPending w now failureNote tx =
     save_review w now (tx\<lparr>pt_status := ''pending'', pt_adminNotes := appendApiNote (pt_adminNotes tx) failureNote,
       pt_executorGroupId := None, pt_executorName := []\<rparr>)"

definition resolution_result :: "review_tx \<Rightarrow> string \<Rightarrow> jsval" where
  "resolution_result tx evidence = (let number = Str (if providerTransactionIdOf tx \<noteq> [] then providerTransactionIdOf tx else evidence) in
     Obj [(''reference_number'', Str evidence), (''external_transaction_id'', number), (''provider_transaction_id'', number),
          (''reference_masked'', Bool (has_mask evidence))])"

definition settle_paid ::
    "'s wallet_txn \<Rightarrow> bool \<Rightarrow> 's review_world \<Rightarrow> resolve_request \<Rightarrow> string \<Rightarrow> string \<Rightarrow> review_tx \<Rightarrow> ('s, resolution + string) run" where
  "settle_paid txn requires w rq evidence note current =
     bind (c_get (rw_groups w) (case pt_executorGroupId current of None \<Rightarrow> [] | Some g \<Rightarrow> g)) (\<lambda>executorGroup. case executorGroup of
       None \<Rightarrow> ret (Inl (Refused 409 ''EXECUTOR_MISSING''))
     | Some g \<Rightarrow> bind (completeApiTransactionWithReference txn requires w (rq_completion rq) g (resolution_result current evidence) current)
         (\<lambda>completion. case completion of
            None \<Rightarrow> ret (Inl (Refused 409 ''COMPLETION_REJECTED''))
          | Some tx \<Rightarrow> andThen (save_review w (rq_now rq) (set_data (resolved_data rq ''provider_paid'' evidence note) (applyResolutionNote note tx)))
              (ret (Inr (pt_status tx)))))"

definition unpaid_doc :: "resolve_request \<Rightarrow> string \<Rightarrow> string \<Rightarrow> review_tx \<Rightarrow> review_tx" where
  "unpaid_doc rq evidence note current = applyResolutionNote note
     (set_data ([(''providerDispatchResult'', Str ''rejected''), (''providerResultUnresolved'', Bool False)] @ resolved_data rq ''provider_not_paid'' evidence note)
       (clearClaimOnDoc
         (set_data ([(''providerResultUnresolved'', Bool False), (''providerDispatchResult'', Str ''rejected'')] @ resolved_data rq ''provider_not_paid'' evidence note)
           current)))"

definition settle_unpaid :: "'s review_world \<Rightarrow> resolve_request \<Rightarrow> string \<Rightarrow> string \<Rightarrow> review_tx \<Rightarrow> ('s, resolution + string) run" where
  "settle_unpaid w rq evidence note current =
     andThen (releaseFailedApiExecutionToPending w (rq_now rq) (rq_failureNote rq) (unpaid_doc rq evidence note current)) (ret (Inr ''pending''))"

definition apply_effect ::
    "'s wallet_txn \<Rightarrow> bool \<Rightarrow> 's review_world \<Rightarrow> resolve_request \<Rightarrow> string \<Rightarrow> string \<Rightarrow> string \<Rightarrow> review_tx \<Rightarrow> money_preview \<Rightarrow> ('s, resolution) run" where
  "apply_effect txn requires w rq outcome evidence note tx preview =
     bind (c_get (rw_txs w) (pt_id tx)) (\<lambda>found. case found of
       None \<Rightarrow> throw (plain_error ''TypeError'')
     | Some current \<Rightarrow> bind (if outcome = ''provider_paid'' then settle_paid txn requires w rq evidence note current
                             else settle_unpaid w rq evidence note current) (\<lambda>outcome_of. case outcome_of of
           Inl refused \<Rightarrow> ret refused
         | Inr statusAfter \<Rightarrow> bind (c_get (rw_txs w) (pt_id tx)) (\<lambda>after. case after of
             None \<Rightarrow> throw (plain_error ''TypeError'')
           | Some afterTx \<Rightarrow> (case rq_audit rq of Some e \<Rightarrow> throw e
               | None \<Rightarrow> ret (Settled statusAfter (snapshot tx) (snapshot afterTx) preview)))))"

definition claim_resolution ::
    "'s wallet_txn \<Rightarrow> bool \<Rightarrow> 's review_world \<Rightarrow> resolve_request \<Rightarrow> string \<Rightarrow> string \<Rightarrow> string \<Rightarrow> review_tx \<Rightarrow> money_preview \<Rightarrow> ('s, resolution) run" where
  "claim_resolution txn requires w rq outcome evidence note tx preview =
     bind (c_update (rw_txs w) (pt_id tx) (resolve_filter tx) (resolve_claim rq outcome evidence note)) (\<lambda>claimed. case claimed of
       None \<Rightarrow> bind (c_get (rw_txs w) (pt_id tx)) (\<lambda>latest. case latest of
           Some l \<Rightarrow> if effectDone l outcome then bind (moneyPreview w l outcome) (\<lambda>p. ret (Already p)) else ret (Refused 409 ''ROW_CHANGED'')
         | None \<Rightarrow> ret (Refused 409 ''ROW_CHANGED''))
     | Some _ \<Rightarrow> bind (c_update (rw_txs w) (pt_id tx) (effect_filter outcome evidence) (effect_fields (rq_now rq))) (\<lambda>effect.
         if effect = None then ret (Refused 409 ''RESOLUTION_IN_PROGRESS'')
         else apply_effect txn requires w rq outcome evidence note tx preview))"

definition confirm_resolution ::
    "'s wallet_txn \<Rightarrow> bool \<Rightarrow> (string \<Rightarrow> int option) \<Rightarrow> 's review_world \<Rightarrow> resolve_request \<Rightarrow> string \<Rightarrow> string \<Rightarrow> string \<Rightarrow> review_tx \<Rightarrow> ('s, resolution) run" where
  "confirm_resolution txn requires parseDate w rq outcome evidence note tx =
     (if \<not> canReviewProviderOperation parseDate (rq_now rq) tx \<or> resolutionOutcomeOf tx \<noteq> []
      then ret (Refused 409 (if resolutionOutcomeOf tx \<noteq> [] then ''RESOLUTION_IN_PROGRESS'' else ''NOT_ELIGIBLE''))
      else bind (moneyPreview w tx outcome) (\<lambda>preview.
        if rq_confirm rq \<noteq> Bool True then ret (Preview (snapshot tx) preview)
        else if \<not> truthy (rq_expectedUpdatedAt rq) \<or> \<not> sameInstant parseDate (rq_expectedUpdatedAt rq) (pt_updatedAt tx)
        then ret (Refused 409 ''ROW_CHANGED'')
        else if outcome = ''provider_paid'' \<and> pt_executorGroupId tx = None then ret (Refused 409 ''EXECUTOR_MISSING'')
        else claim_resolution txn requires w rq outcome evidence note tx preview))"

definition resolve_row ::
    "'s wallet_txn \<Rightarrow> bool \<Rightarrow> (string \<Rightarrow> int option) \<Rightarrow> 's review_world \<Rightarrow> resolve_request \<Rightarrow> string \<Rightarrow> string \<Rightarrow> string \<Rightarrow> review_tx \<Rightarrow> ('s, resolution) run" where
  "resolve_row txn requires parseDate w rq outcome evidence note tx =
     (if effectDone tx outcome \<and> clean (get (dataOf tx) ''providerResolutionEvidence'') = evidence
      then bind (moneyPreview w tx outcome) (\<lambda>p. ret (Already p))
      else bind (if outcome = ''provider_not_paid'' then notPaidEvidenceConflict w tx else ret None) (\<lambda>conflict. case conflict of
          Some reason \<Rightarrow> ret (Conflict reason)
        | None \<Rightarrow> confirm_resolution txn requires parseDate w rq outcome evidence note tx))"

definition resolveProviderResult ::
    "'s wallet_txn \<Rightarrow> bool \<Rightarrow> (string \<Rightarrow> int option) \<Rightarrow> 's review_world \<Rightarrow> resolve_request \<Rightarrow> ('s, resolution) run" where
  "resolveProviderResult txn requires parseDate w rq =
     (if \<not> actorCanResolve (rq_actor rq) then ret (Refused 403 ''PROVIDER_RESOLUTION_FORBIDDEN'')
      else case validateRequest rq of
        Inl (st, code) \<Rightarrow> ret (Refused st code)
      | Inr (outcome, evidence, note) \<Rightarrow> bind (c_get (rw_txs w) (rq_transactionId rq)) (\<lambda>found. case found of
          None \<Rightarrow> ret (Refused 404 ''NOT_FOUND'')
        | Some tx \<Rightarrow> resolve_row txn requires parseDate w rq outcome evidence note tx))"

end
