(* ===== verification/Resolution_Books.thy ===== *)
theory Resolution_Books
  imports Provider_Resolution
begin

text \<open>
  What the operations of \<open>Provider_Resolution\<close> do to the stored rows and balances: a row is settled at most once, a
  provider that has not paid moves no money, one that has paid moves it once.
\<close>

section \<open>Stored documents and money\<close>

type_synonym review_books =
  "(string \<Rightarrow> review_tx option) \<times> (string \<Rightarrow> account option) \<times> (string \<Rightarrow> ledger_entry option)"

definition review_view :: "'s review_world \<Rightarrow> 's \<Rightarrow> review_books" where
  "review_view w s = (c_view (rw_txs w) s, c_view (rw_accounts w) s, c_view (rw_ledger w) s)"

definition review_store :: "'s review_world \<Rightarrow> bool" where
  "review_store w \<longleftrightarrow> coll_ok (rw_txs w) \<and> coll_ok (rw_groups w) \<and> coll_ok (rw_accounts w) \<and> coll_ok (rw_ledger w)
     \<and> quiet (rw_groups w) (review_view w)
     \<and> quiet (rw_txs w) (c_view (rw_accounts w)) \<and> quiet (rw_txs w) (c_view (rw_ledger w)) \<and> quiet (rw_txs w) (c_view (rw_groups w))
     \<and> quiet (rw_accounts w) (c_view (rw_txs w)) \<and> quiet (rw_accounts w) (c_view (rw_ledger w)) \<and> quiet (rw_accounts w) (c_view (rw_groups w))
     \<and> quiet (rw_ledger w) (c_view (rw_txs w)) \<and> quiet (rw_ledger w) (c_view (rw_accounts w)) \<and> quiet (rw_ledger w) (c_view (rw_groups w))"

lemma review_storeD:
  assumes "review_store w"
  shows "coll_ok (rw_txs w)" "coll_ok (rw_groups w)" "coll_ok (rw_accounts w)" "coll_ok (rw_ledger w)" "quiet (rw_groups w) (review_view w)"
    "quiet (rw_txs w) (c_view (rw_accounts w))" "quiet (rw_txs w) (c_view (rw_ledger w))" "quiet (rw_txs w) (c_view (rw_groups w))"
    "quiet (rw_accounts w) (c_view (rw_txs w))" "quiet (rw_accounts w) (c_view (rw_ledger w))" "quiet (rw_accounts w) (c_view (rw_groups w))"
    "quiet (rw_ledger w) (c_view (rw_txs w))" "quiet (rw_ledger w) (c_view (rw_accounts w))" "quiet (rw_ledger w) (c_view (rw_groups w))"
  using assms unfolding review_store_def by blast+

lemma review_reads [keeps_intros]:
  assumes "review_store w"
  shows "keeps (review_view w) (c_get (rw_txs w) i)" "keeps (review_view w) (c_get (rw_groups w) i)"
    "keeps (review_view w) (c_findOne (rw_ledger w) p)" "keeps (review_view w) (c_findMany (rw_ledger w) p)"
proof -
  show "keeps (review_view w) (c_get (rw_txs w) i)"
    using c_get_view(1) [OF review_storeD(1) [OF assms]] quietD(4) [OF review_storeD(6) [OF assms]] quietD(4) [OF review_storeD(7) [OF assms]]
    by (intro keepsI) (simp add: review_view_def)
  show "keeps (review_view w) (c_get (rw_groups w) i)" by (rule keeps_quiet [OF review_storeD(5) [OF assms]])
  show "keeps (review_view w) (c_findOne (rw_ledger w) p)"
    using c_findOne_view [OF review_storeD(4) [OF assms]] quietD(1) [OF review_storeD(12) [OF assms]] quietD(1) [OF review_storeD(13) [OF assms]]
    by (intro keepsI) (simp add: review_view_def)
  show "keeps (review_view w) (c_findMany (rw_ledger w) p)"
    using c_findMany_view [OF review_storeD(4) [OF assms]] quietD(5) [OF review_storeD(12) [OF assms]] quietD(5) [OF review_storeD(13) [OF assms]]
    by (intro keepsI) (simp add: review_view_def)
qed

lemma preview_reads [keeps_intros]: "review_store w \<Longrightarrow> keeps (review_view w) (moneyPreview w tx outcome)"
  unfolding moneyPreview_def countExecutorDebits_def by (intro keeps_intros)

lemma conflict_reads [keeps_intros]: "review_store w \<Longrightarrow> keeps (review_view w) (notPaidEvidenceConflict w tx)"
  unfolding notPaidEvidenceConflict_def Let_def by (intro keeps_intros)

lemma keeps_comp: "keeps v m \<Longrightarrow> keeps (\<lambda>s. f (v s)) m"
  by (simp add: keeps_def)

lemma review_fst: "c_view (rw_txs w) = (\<lambda>s. fst (review_view w s))"
  by (simp add: review_view_def)

section \<open>A settled row stays as it is\<close>

text \<open>The row \<open>i\<close> carries an outcome.\<close>

definition outcome_kept :: "'s review_world \<Rightarrow> string \<Rightarrow> 's \<Rightarrow> bool" where
  "outcome_kept w i s \<longleftrightarrow> (\<exists>t. c_view (rw_txs w) s i = Some t \<and> resolutionOutcomeOf t \<noteq> [])"

abbreviation steady :: "'s review_world \<Rightarrow> string \<Rightarrow> ('s, 'a) run \<Rightarrow> bool" where
  "steady w i m \<equiv> spec (outcome_kept w i) m (\<lambda>_. outcome_kept w i) (\<lambda>_. outcome_kept w i)"

lemma steady_keeps: "keeps (c_view (rw_txs w)) m \<Longrightarrow> steady w i m"
  by (intro specI; drule (1) keepsD; simp add: outcome_kept_def)

lemma steady_update:
  assumes "review_store w" "\<And>d. resolutionOutcomeOf d \<noteq> [] \<Longrightarrow> resolutionOutcomeOf (f d) \<noteq> []"
  shows "steady w i (c_update (rw_txs w) j p f)"
proof (rule specI)
  fix s a s' assume "outcome_kept w i s" "c_update (rw_txs w) j p f s = (Inr a, s')"
  then show "outcome_kept w i s'"
    using update_view [OF review_storeD(1) [OF assms(1)]] assms(2) by (cases a) (fastforce simp: outcome_kept_def)+
next
  fix s e s' assume "outcome_kept w i s" "c_update (rw_txs w) j p f s = (Inl e, s')"
  then show "outcome_kept w i s'" using c_update_fail [OF review_storeD(1) [OF assms(1)]] by (simp add: outcome_kept_def)
qed

lemma review_set_data [simp]: "pt_data (applyResolutionNote n tx) = pt_data tx" "dataOf (applyResolutionNote n tx) = dataOf tx"
  by (simp_all add: applyResolutionNote_def Let_def dataOf_def)

lemma outcome_saved: "resolutionOutcomeOf (saved_fields now tx d) = resolutionOutcomeOf tx"
  by (simp add: resolutionOutcomeOf_def saved_fields_def dataOf_def)

lemma steady_save:
  assumes "review_store w" "resolutionOutcomeOf tx \<noteq> []"
  shows "steady w i (save_review w now tx)"
  unfolding save_review_def
proof (rule spec_bind)
  show "steady w i (c_update (rw_txs w) (pt_id tx) (\<lambda>_. True) (saved_fields now tx))"
    by (rule steady_update [OF assms(1)]) (simp add: outcome_saved assms(2))
  show "steady w i (throw_if (a = None) (plain_error ''DocumentNotFoundError''))" for a
    by (rule spec_throw_if)
qed

lemma outcome_texts: "clean (Str ''provider_paid'') \<noteq> []" "clean (Str ''provider_not_paid'') \<noteq> []"
  by code_simp+

lemma outcome_paid: "resolutionOutcomeOf (set_data (resolved_data rq ''provider_paid'' evidence note) tx) \<noteq> []"
  using outcome_texts(1) by (simp add: resolutionOutcomeOf_def get_set_data resolved_data_def del: get.simps)

lemma outcome_unpaid: "resolutionOutcomeOf (unpaid_doc rq evidence note tx) \<noteq> []"
  using outcome_texts(2) by (simp add: unpaid_doc_def resolutionOutcomeOf_def get_set_data resolved_data_def del: get.simps)

lemma debit_keeps:
  assumes "review_store w" "txn_ok txn unknown (review_view w)"
  shows "keeps (c_view (rw_txs w)) (post_debit txn requires w n tx gid)"
proof -
  have run: "keeps (c_view (rw_txs w)) (runWithSession (rw_accounts w) (rw_ledger w) n r)"
    "keeps (c_view (rw_txs w)) (executeFallback (rw_accounts w) (rw_ledger w) n r)" for r
    unfolding runWithSession_def executeFallback_def Let_def
    by (intro keeps_intros review_storeD(9,12) [OF assms(1)])+
  have "keeps (c_view (rw_txs w)) (txn (runWithSession (rw_accounts w) (rw_ledger w) n r))" for r
  proof (rule keepsI)
    fix s a s' assume "txn (runWithSession (rw_accounts w) (rw_ledger w) n r) s = (a, s')"
    with assms(2) show "c_view (rw_txs w) s' = c_view (rw_txs w) s"
      by (cases rule: txn_cases) (use keepsD [OF run(1)] in \<open>auto simp: review_view_def\<close>)
  qed
  then show ?thesis
    unfolding post_debit_def updateBalanceWithLedger_def
    by (intro keeps_intros run review_storeD(9,12) [OF assms(1)]) simp_all
qed

lemma steady_basic: "steady w i (ret a)" "steady w i (throw e)"
  by (simp_all add: spec_ret spec_throw)

lemma steady_bind: "steady w i m \<Longrightarrow> (\<And>a. steady w i (k a)) \<Longrightarrow> steady w i (bind m k)"
  by (rule spec_bind)

lemma steady_andThen: "steady w i m \<Longrightarrow> steady w i n \<Longrightarrow> steady w i (andThen m n)"
  by (rule spec_andThen)

lemma steady_branch:
  "(b \<Longrightarrow> steady w i m) \<Longrightarrow> (\<not> b \<Longrightarrow> steady w i n) \<Longrightarrow> steady w i (if b then m else n)"
  "(x = None \<Longrightarrow> steady w i m) \<Longrightarrow> (\<And>a. x = Some a \<Longrightarrow> steady w i (f a)) \<Longrightarrow> steady w i (case x of None \<Rightarrow> m | Some a \<Rightarrow> f a)"
  "(\<And>a. y = Inl a \<Longrightarrow> steady w i (g a)) \<Longrightarrow> (\<And>a. y = Inr a \<Longrightarrow> steady w i (h a)) \<Longrightarrow> steady w i (case y of Inl a \<Rightarrow> g a | Inr a \<Rightarrow> h a)"
  by (cases b; cases x; cases y; simp)+

lemmas steady_intros = steady_basic steady_bind steady_andThen steady_branch

lemma txs_read: "review_store w \<Longrightarrow> keeps (review_view w) m \<Longrightarrow> steady w i m"
  unfolding review_fst by (intro steady_keeps) (simp add: review_fst keeps_comp)

lemma steady_paid:
  assumes "review_store w" "txn_ok txn unknown (review_view w)"
  shows "steady w i (settle_paid txn requires w rq evidence note current)"
proof -
  have debit: "steady w i (post_debit txn requires w n tx gid)" for n tx gid by (rule steady_keeps [OF debit_keeps [OF assms]])
  show ?thesis
    unfolding settle_paid_def completeApiTransactionWithReference_def Let_def
    by (intro steady_intros debit txs_read [OF assms(1)] review_reads [OF assms(1)] steady_save [OF assms(1)] outcome_paid)
qed

lemma steady_unpaid:
  assumes "review_store w"
  shows "steady w i (settle_unpaid w rq evidence note current)"
proof -
  have "resolutionOutcomeOf ((unpaid_doc rq evidence note current)\<lparr>pt_status := x, pt_adminNotes := y, pt_executorGroupId := None, pt_executorName := []\<rparr>) \<noteq> []" for x y
    using outcome_unpaid by (simp add: resolutionOutcomeOf_def dataOf_def)
  then show ?thesis
    unfolding settle_unpaid_def releaseFailedApiExecutionToPending_def by (intro steady_intros steady_save [OF assms(1)])
qed

lemma steady_effect:
  assumes "review_store w" "txn_ok txn unknown (review_view w)"
  shows "steady w i (apply_effect txn requires w rq outcome evidence note tx preview)"
  unfolding apply_effect_def
  by (intro steady_intros txs_read [OF assms(1)] review_reads [OF assms(1)] steady_paid [OF assms] steady_unpaid [OF assms(1)])

text \<open>From a state that reads \<open>v\<close>: the reading is unchanged, or the row carries an outcome.\<close>

abbreviation settles :: "'s review_world \<Rightarrow> string \<Rightarrow> review_books \<Rightarrow> ('s, 'a) run \<Rightarrow> bool" where
  "settles w i v m \<equiv> spec (\<lambda>s. review_view w s = v) m (\<lambda>_ s. review_view w s = v \<or> outcome_kept w i s) (\<lambda>_ s. review_view w s = v \<or> outcome_kept w i s)"

lemma settles_keeps: "keeps (review_view w) m \<Longrightarrow> settles w i v m"
  by (intro specI; drule (1) keepsD; simp)

lemma settles_read: "keeps (review_view w) m \<Longrightarrow> (\<And>a. settles w i v (k a)) \<Longrightarrow> settles w i v (bind m k)"
  by (rule spec_bind [where R = "\<lambda>_ s. review_view w s = v"]) (intro specI; drule (1) keepsD; simp)+

lemma settles_claim:
  assumes "review_store w" "txn_ok txn unknown (review_view w)" "outcome \<in> OUTCOMES"
  shows "settles w (pt_id tx) v (claim_resolution txn requires w rq outcome evidence note tx preview)"
proof (rule specI)
  fix s
  let ?i = "pt_id tx"
  let ?Q = "\<lambda>s'. review_view w s' = v \<or> outcome_kept w ?i s'"
  assume v: "review_view w s = v"
  obtain r s1 where u: "c_update (rw_txs w) ?i (resolve_filter tx) (resolve_claim rq outcome evidence note) s = (r, s1)" by fastforce
  have same: "review_view w s1 = v" if "c_view (rw_txs w) s1 = c_view (rw_txs w) s"
    using that v quietD(2) [OF review_storeD(6) [OF assms(1)] u] quietD(2) [OF review_storeD(7) [OF assms(1)] u] by (simp add: review_view_def)
  have rest: "?Q s'" if "claim_resolution txn requires w rq outcome evidence note tx preview s = (q, s')" for q s'
  proof (cases r)
    case (Inl e)
    then show ?thesis using that u same c_update_fail [OF review_storeD(1) [OF assms(1)]] by (simp add: claim_resolution_def bind_run)
  next
    case (Inr x)
    show ?thesis
    proof (cases x)
      case None
      have s1: "review_view w s1 = v" using same update_view [OF review_storeD(1) [OF assms(1)] u [unfolded Inr]] None by simp
      have "keeps (review_view w) (bind (c_get (rw_txs w) ?i) (\<lambda>latest. case latest of
           Some l \<Rightarrow> if effectDone l outcome then bind (moneyPreview w l outcome) (\<lambda>p. ret (Already p)) else ret (Refused 409 ''ROW_CHANGED'')
         | None \<Rightarrow> ret (Refused 409 ''ROW_CHANGED'')))"
        by (intro keeps_intros assms(1))
      then show ?thesis using that u Inr None s1 keepsD by (fastforce simp: claim_resolution_def bind_run)
    next
      case (Some d')
      have out: "clean (Str outcome) \<noteq> []" using assms(3) outcome_texts by (auto simp: OUTCOMES_def)
      have kept: "outcome_kept w ?i s1"
        using update_view [OF review_storeD(1) [OF assms(1)] u [unfolded Inr]] Some out
        by (auto simp: outcome_kept_def resolve_claim_def resolutionOutcomeOf_def get_set_data simp del: get.simps)
      have "steady w ?i (bind (c_update (rw_txs w) ?i (effect_filter outcome evidence) (effect_fields (rq_now rq)))
         (\<lambda>effect. if effect = None then ret (Refused 409 ''RESOLUTION_IN_PROGRESS'')
            else apply_effect txn requires w rq outcome evidence note tx preview))"
      proof (intro steady_intros steady_effect [OF assms(1,2)] steady_update [OF assms(1)])
        fix d :: review_tx assume "resolutionOutcomeOf d \<noteq> []"
        then show "resolutionOutcomeOf (effect_fields (rq_now rq) d) \<noteq> []"
          by (simp add: effect_fields_def resolutionOutcomeOf_def get_set_data del: get.simps)
      qed
      from spec_Inr [OF this kept] spec_Inl [OF this kept] show ?thesis
        using that u Inr Some by (cases q) (auto simp: claim_resolution_def bind_run)
    qed
  qed
  show "?Q s'" if "claim_resolution txn requires w rq outcome evidence note tx preview s = (Inr a, s')" for a s' by (rule rest [OF that])
  show "?Q s'" if "claim_resolution txn requires w rq outcome evidence note tx preview s = (Inl e, s')" for e s' by (rule rest [OF that])
qed

lemma settles_get:
  assumes "review_store w" "\<And>x. x = fst v i \<Longrightarrow> settles w j v (k x)"
  shows "settles w j v (bind (c_get (rw_txs w) i) k)"
proof (rule spec_bind [where R = "\<lambda>x s. review_view w s = v \<and> x = fst v i"])
  show "spec (\<lambda>s. review_view w s = v) (c_get (rw_txs w) i) (\<lambda>x s. review_view w s = v \<and> x = fst v i)
      (\<lambda>_ s. review_view w s = v \<or> outcome_kept w j s)"
    using keepsD [OF review_reads(1) [OF assms(1)]] c_get_view(2) [OF review_storeD(1) [OF assms(1)]]
    by (intro specI) (auto simp: review_view_def)
  show "spec (\<lambda>s. review_view w s = v \<and> x = fst v i) (k x) (\<lambda>_ s. review_view w s = v \<or> outcome_kept w j s)
      (\<lambda>_ s. review_view w s = v \<or> outcome_kept w j s)" for x
  proof (cases "x = fst v i")
    case True
    then show ?thesis by (intro spec_pre [OF assms(2)]) simp_all
  qed (simp add: spec_def)
qed

lemma settles_confirm:
  assumes "review_store w" "txn_ok txn unknown (review_view w)" "outcome \<in> OUTCOMES"
  shows "settles w (pt_id tx) v (confirm_resolution txn requires parseDate w rq outcome evidence nt tx)"
proof -
  have r: "settles w (pt_id tx) v (ret x)" for x :: resolution by (intro settles_keeps keeps_intros)
  show ?thesis
    unfolding confirm_resolution_def
    by (intro spec_if r settles_read preview_reads assms(1) settles_claim [OF assms])
qed

lemma validate_outcome: "validateRequest rq = Inr (outcome, evidence, nt) \<Longrightarrow> outcome = clean (rq_outcome rq) \<and> outcome \<in> OUTCOMES"
  by (auto simp: validateRequest_def Let_def split: if_splits)

lemma settles_row:
  assumes "review_store w" "txn_ok txn unknown (review_view w)" "outcome \<in> OUTCOMES"
  shows "settles w (pt_id tx) v (resolve_row txn requires parseDate w rq outcome evidence nt tx)"
proof -
  have r: "settles w (pt_id tx) v (ret x)" for x :: resolution by (intro settles_keeps keeps_intros)
  have c: "settles w (pt_id tx) v (case conflict of Some reason \<Rightarrow> ret (Conflict reason)
              | None \<Rightarrow> confirm_resolution txn requires parseDate w rq outcome evidence nt tx)" for conflict
    using settles_confirm [OF assms] r by (cases conflict) simp_all
  show ?thesis
    unfolding resolve_row_def by (intro spec_if settles_read keeps_intros assms(1) r c)
qed

lemma resolve_cases:
  obtains st code where "resolveProviderResult txn requires parseDate w rq = ret (Refused st code)"
  | outcome evidence nt where "validateRequest rq = Inr (outcome, evidence, nt)"
      "resolveProviderResult txn requires parseDate w rq = bind (c_get (rw_txs w) (rq_transactionId rq)) (\<lambda>found. case found of
          None \<Rightarrow> ret (Refused 404 ''NOT_FOUND'')
        | Some tx \<Rightarrow> resolve_row txn requires parseDate w rq outcome evidence nt tx)"
proof (cases "validateRequest rq")
  case (Inl e)
  obtain st code where e: "e = (st, code)" by (cases e)
  have "\<exists>st code. resolveProviderResult txn requires parseDate w rq = ret (Refused st code)"
    unfolding resolveProviderResult_def Inl e by simp blast
  then show ?thesis using that(1) by blast
next
  case (Inr x)
  obtain outcome evidence nt where x: "x = (outcome, evidence, nt)" by (cases x)
  show ?thesis
  proof (cases "actorCanResolve (rq_actor rq)")
    case True
    then show ?thesis using that(2) [of outcome evidence nt] Inr x by (simp add: resolveProviderResult_def)
  next
    case False
    then show ?thesis using that(1) by (simp add: resolveProviderResult_def)
  qed
qed

lemma settles_resolve:
  assumes "review_store w" "txn_ok txn unknown (review_view w)" "\<And>t. fst v (rq_transactionId rq) = Some t \<Longrightarrow> pt_id t = rq_transactionId rq"
  shows "settles w (rq_transactionId rq) v (resolveProviderResult txn requires parseDate w rq)"
proof (cases rule: resolve_cases [of txn requires parseDate w rq])
  case (1 st code)
  show ?thesis unfolding 1 by (intro settles_keeps keeps_intros)
next
  case (2 outcome evidence nt)
  have r: "settles w i v (ret x)" for i and x :: resolution by (intro settles_keeps keeps_intros)
  show ?thesis
    unfolding 2(2)
  proof (rule settles_get [OF assms(1)])
    fix x assume x: "x = fst v (rq_transactionId rq)"
    show "settles w (rq_transactionId rq) v (case x of None \<Rightarrow> ret (Refused 404 ''NOT_FOUND'')
        | Some tx \<Rightarrow> resolve_row txn requires parseDate w rq outcome evidence nt tx)"
    proof (cases x)
      case None
      then show ?thesis using r by simp
    next
      case (Some tx)
      have "pt_id tx = rq_transactionId rq" using assms(3) x Some by simp
      moreover have "settles w (pt_id tx) v (resolve_row txn requires parseDate w rq outcome evidence nt tx)"
        by (rule settles_row [OF assms(1,2)]) (use validate_outcome [OF 2(1)] in blast)
      ultimately show ?thesis unfolding Some option.case by simp
    qed
  qed
qed

text \<open>A row that carries an outcome is not touched by any request.\<close>

lemma settled_row_reads:
  assumes "review_store w" "resolutionOutcomeOf tx \<noteq> []"
  shows "keeps (review_view w) (resolve_row txn requires parseDate w rq outcome evidence nt tx)"
proof -
  have refused: "confirm_resolution txn requires parseDate w rq outcome evidence nt tx = ret (Refused 409 ''RESOLUTION_IN_PROGRESS'')"
    using assms(2) by (simp add: confirm_resolution_def)
  show ?thesis
    unfolding resolve_row_def refused by (intro keeps_intros assms(1))
qed

lemma settled_untouched:
  assumes "review_store w" "outcome_kept w (rq_transactionId rq) s" "resolveProviderResult txn requires parseDate w rq s = (r, s')"
  shows "review_view w s' = review_view w s"
proof (cases rule: resolve_cases [of txn requires parseDate w rq])
  case (1 st code)
  then show ?thesis using assms(3) by (simp add: ret_def)
next
  case (2 outcome evidence nt)
  obtain t where t: "c_view (rw_txs w) s (rq_transactionId rq) = Some t" "resolutionOutcomeOf t \<noteq> []"
    using assms(2) by (auto simp: outcome_kept_def)
  obtain q s1 where g: "c_get (rw_txs w) (rq_transactionId rq) s = (q, s1)" by fastforce
  have v1: "review_view w s1 = review_view w s" by (rule keepsD [OF review_reads(1) [OF assms(1)] g])
  show ?thesis
  proof (cases q)
    case (Inl e)
    then show ?thesis using assms(3) g v1 unfolding 2(2) by (simp add: bind_run)
  next
    case (Inr x)
    have "x = Some t" using c_get_view(2) [OF review_storeD(1) [OF assms(1)] g [unfolded Inr]] t(1) by simp
    then have "resolve_row txn requires parseDate w rq outcome evidence nt t s1 = (r, s')"
      using assms(3) g Inr unfolding 2(2) by (simp add: bind_run)
    then show ?thesis using keepsD [OF settled_row_reads [OF assms(1) t(2)]] v1 by metis
  qed
qed

fun resolve_all ::
    "'s wallet_txn \<Rightarrow> bool \<Rightarrow> (string \<Rightarrow> int option) \<Rightarrow> 's review_world \<Rightarrow> resolve_request list \<Rightarrow> 's \<Rightarrow> 's" where
  "resolve_all txn requires parseDate w [] s = s"
| "resolve_all txn requires parseDate w (rq # rqs) s =
     resolve_all txn requires parseDate w rqs (snd (resolveProviderResult txn requires parseDate w rq s))"

text \<open>
  C6: The result of a provider is settled at most once: as soon as a request has changed anything, a transaction, a
  balance or the ledger, whatever its outcome, all later requests about that transaction change nothing, whatever
  they ask for and whoever makes them.
\<close>

theorem resolution_takes_effect_once:
  fixes w :: "'s review_world" and s :: 's
  assumes "review_store w" "txn_ok txn unknown (review_view w)"
    and "\<And>t. fst (review_view w s) (rq_transactionId rq) = Some t \<Longrightarrow> pt_id t = rq_transactionId rq"
    and "resolveProviderResult txn requires parseDate w rq s = (r, s')" "review_view w s' \<noteq> review_view w s"
    and "\<And>q. q \<in> set rqs \<Longrightarrow> rq_transactionId q = rq_transactionId rq"
  shows "review_view w (resolve_all txn requires parseDate w rqs s') = review_view w s'"
proof -
  note sp = settles_resolve [OF assms(1,2), where v = "review_view w s" and rq = rq and requires = requires and parseDate = parseDate, OF assms(3)]
  have kept: "outcome_kept w (rq_transactionId rq) s'"
  proof (cases r)
    case (Inl e)
    have "review_view w s' = review_view w s \<or> outcome_kept w (rq_transactionId rq) s'"
      using spec_Inl [OF sp, where s = s and s' = s'] assms(4) Inl by simp
    then show ?thesis using assms(5) by simp
  next
    case (Inr a)
    have "review_view w s' = review_view w s \<or> outcome_kept w (rq_transactionId rq) s'"
      using spec_Inr [OF sp, where s = s and s' = s'] assms(4) Inr by simp
    then show ?thesis using assms(5) by simp
  qed
  have "review_view w (resolve_all txn requires parseDate w rqs t) = review_view w t"
    if "outcome_kept w (rq_transactionId rq) t" "\<forall>q\<in>set rqs. rq_transactionId q = rq_transactionId rq" for t
    using that
  proof (induction rqs arbitrary: t)
    case (Cons q rqs)
    obtain x t' where run: "resolveProviderResult txn requires parseDate w q t = (x, t')" by fastforce
    have q: "rq_transactionId q = rq_transactionId rq" by (rule bspec [OF Cons.prems(2) list.set_intros(1)])
    have rest: "\<forall>q\<in>set rqs. rq_transactionId q = rq_transactionId rq" using Cons.prems(2) list.set_intros(2) by fast
    have same: "review_view w t' = review_view w t"
      by (rule settled_untouched [OF assms(1) _ run]) (unfold q, rule Cons.prems(1))
    then have "outcome_kept w (rq_transactionId rq) t'" using Cons.prems(1) by (simp add: outcome_kept_def review_view_def)
    from Cons.IH [OF this rest] show ?case by (simp only: resolve_all.simps run snd_conv same)
  qed simp
  then show ?thesis using kept assms(6) by blast
qed

section \<open>Settling that the provider has not paid\<close>

abbreviation money_view_of :: "'s review_world \<Rightarrow> 's \<Rightarrow> (string \<Rightarrow> account option) \<times> (string \<Rightarrow> ledger_entry option)" where
  "money_view_of w s \<equiv> snd (review_view w s)"

lemma txs_quiet_money: "review_store w \<Longrightarrow> quiet (rw_txs w) (money_view_of w)"
  using review_storeD(6,7) [of w] by (simp add: quiet_def review_view_def)

lemma keeps_money: "keeps (review_view w) m \<Longrightarrow> keeps (money_view_of w) m"
  by (rule keeps_comp)

lemma keeps_unpaid:
  assumes "review_store w"
  shows "keeps (money_view_of w) (resolve_row txn requires parseDate w rq ''provider_not_paid'' evidence nt tx)"
proof -
  note quiet = keeps_quiet [OF txs_quiet_money [OF assms]]
  have settle: "keeps (money_view_of w) (settle_unpaid w rq evidence nt current)" for current
    unfolding settle_unpaid_def releaseFailedApiExecutionToPending_def save_review_def throw_if_def by (intro keeps_intros quiet)
  have effect: "keeps (money_view_of w) (apply_effect txn requires w rq ''provider_not_paid'' evidence nt tx preview)" for preview
    unfolding apply_effect_def sum.case_distrib [symmetric]
    by (intro keeps_intros quiet settle) (auto intro!: keeps_intros quiet settle split: sum.splits)
  have claim: "keeps (money_view_of w) (claim_resolution txn requires w rq ''provider_not_paid'' evidence nt tx preview)" for preview
    unfolding claim_resolution_def by (intro keeps_intros quiet effect keeps_money [OF preview_reads [OF assms]])
  show ?thesis
    unfolding resolve_row_def confirm_resolution_def
    by (intro keeps_intros claim keeps_money [OF preview_reads [OF assms]] keeps_money [OF conflict_reads [OF assms]])
qed

lemma save_review_Inr:
  assumes "review_store w" "save_review w now tx s = (Inr u, s')"
  shows "\<exists>d. c_view (rw_txs w) s (pt_id tx) = Some d \<and> c_view (rw_txs w) s' = (c_view (rw_txs w) s)(pt_id tx \<mapsto> saved_fields now tx d)
    \<and> money_view_of w s' = money_view_of w s"
proof -
  obtain x s1 where u: "c_update (rw_txs w) (pt_id tx) (\<lambda>_. True) (saved_fields now tx) s = (Inr x, s1)"
    and t: "throw_if (x = None) (plain_error ''DocumentNotFoundError'') s1 = (Inr u, s')"
    using assms(2) unfolding save_review_def by (rule bind_InrE)
  have x: "x \<noteq> None" "s1 = s'" using t by (simp_all split: if_splits)
  have "money_view_of w s1 = money_view_of w s" by (rule quietD(2) [OF txs_quiet_money [OF assms(1)] u])
  then show ?thesis using update_view [OF review_storeD(1) [OF assms(1)] u] x by auto
qed

section \<open>The way to a settlement\<close>

abbreviation all_view :: "'s review_world \<Rightarrow> 's \<Rightarrow> review_books \<times> (string \<Rightarrow> exec_group option)" where
  "all_view w s \<equiv> (review_view w s, c_view (rw_groups w) s)"

lemma keeps_pair: "keeps f m \<Longrightarrow> keeps g m \<Longrightarrow> keeps (\<lambda>s. (f s, g s)) m"
  by (simp add: keeps_def)

lemma all_reads [keeps_intros]:
  assumes "review_store w"
  shows "keeps (all_view w) (c_get (rw_txs w) i)" "keeps (all_view w) (c_findOne (rw_ledger w) p)" "keeps (all_view w) (c_findMany (rw_ledger w) p)"
  by (intro keeps_pair review_reads [OF assms] keeps_quiet review_storeD(8,14) [OF assms])+

lemma all_preview [keeps_intros]: "review_store w \<Longrightarrow> keeps (all_view w) (moneyPreview w tx outcome)"
  unfolding moneyPreview_def countExecutorDebits_def by (intro keeps_intros)

lemma all_conflict [keeps_intros]: "review_store w \<Longrightarrow> keeps (all_view w) (notPaidEvidenceConflict w tx)"
  unfolding notPaidEvidenceConflict_def Let_def by (intro keeps_intros)

lemma run_else: "(if c then m else n) s = r \<Longrightarrow> m s \<noteq> r \<Longrightarrow> n s = r"
  by (cases c) simp_all

lemma claimed_through:
  assumes "review_store w" "claim_resolution txn requires w rq outcome evidence nt tx preview s = (Inr (Settled st b a p), s')"
  obtains d s3 where "c_view (rw_txs w) s (pt_id tx) = Some d"
    "c_view (rw_txs w) s3 = (c_view (rw_txs w) s)(pt_id tx \<mapsto> effect_fields (rq_now rq) (resolve_claim rq outcome evidence nt d))"
    "money_view_of w s3 = money_view_of w s" "c_view (rw_groups w) s3 = c_view (rw_groups w) s"
    "apply_effect txn requires w rq outcome evidence nt tx preview s3 = (Inr (Settled st b a p), s')"
proof -
  let ?late = "bind (c_get (rw_txs w) (pt_id tx)) (\<lambda>latest. case latest of
           Some l \<Rightarrow> if effectDone l outcome then bind (moneyPreview w l outcome) (\<lambda>p. ret (Already p)) else ret (Refused 409 ''ROW_CHANGED'')
         | None \<Rightarrow> ret (Refused 409 ''ROW_CHANGED''))"
  obtain x s1 where u: "c_update (rw_txs w) (pt_id tx) (resolve_filter tx) (resolve_claim rq outcome evidence nt) s = (Inr x, s1)"
    and k: "(case x of None \<Rightarrow> ?late
     | Some _ \<Rightarrow> bind (c_update (rw_txs w) (pt_id tx) (effect_filter outcome evidence) (effect_fields (rq_now rq))) (\<lambda>effect.
         if effect = None then ret (Refused 409 ''RESOLUTION_IN_PROGRESS'')
         else apply_effect txn requires w rq outcome evidence nt tx preview)) s1 = (Inr (Settled st b a p), s')"
    using assms(2) unfolding claim_resolution_def by (rule bind_InrE)
  have late: "?late s1 \<noteq> (Inr (Settled st b a p), s')"
    by (auto simp: bind_run ret_def split: prod.splits sum.splits option.splits if_splits)
  obtain d1 where x: "x = Some d1" using k late by (cases x) auto
  obtain d where d: "c_view (rw_txs w) s (pt_id tx) = Some d" "d1 = resolve_claim rq outcome evidence nt d"
    "c_view (rw_txs w) s1 = (c_view (rw_txs w) s)(pt_id tx \<mapsto> d1)"
    using update_view [OF review_storeD(1) [OF assms(1)] u] x by auto
  obtain e s3 where u2: "c_update (rw_txs w) (pt_id tx) (effect_filter outcome evidence) (effect_fields (rq_now rq)) s1 = (Inr e, s3)"
    and k2: "(if e = None then ret (Refused 409 ''RESOLUTION_IN_PROGRESS'') else apply_effect txn requires w rq outcome evidence nt tx preview) s3
      = (Inr (Settled st b a p), s')"
    using k unfolding x option.case by (rule bind_InrE)
  have e: "e \<noteq> None" using k2 by (cases e) (auto simp: ret_def)
  have "c_view (rw_txs w) s3 = (c_view (rw_txs w) s)(pt_id tx \<mapsto> effect_fields (rq_now rq) d1)"
    using update_view [OF review_storeD(1) [OF assms(1)] u2] e d(3) by auto
  moreover have "money_view_of w s3 = money_view_of w s"
    using quietD(2) [OF txs_quiet_money [OF assms(1)] u] quietD(2) [OF txs_quiet_money [OF assms(1)] u2] by simp
  moreover have "c_view (rw_groups w) s3 = c_view (rw_groups w) s"
    using quietD(2) [OF review_storeD(8) [OF assms(1)] u] quietD(2) [OF review_storeD(8) [OF assms(1)] u2] by simp
  ultimately show thesis using that [of d s3] d k2 e by simp
qed

text \<open>A settlement that is reported has gone through the two claims and its effect.\<close>

lemma settled_through:
  assumes "review_store w" "resolveProviderResult txn requires parseDate w rq s = (Inr (Settled st b a p), s')"
  obtains outcome evidence nt tx preview s1 where
    "outcome = clean (rq_outcome rq)" "outcome \<in> OUTCOMES"
    "c_view (rw_txs w) s (rq_transactionId rq) = Some tx" "outcome = ''provider_paid'' \<longrightarrow> pt_executorGroupId tx \<noteq> None"
    "all_view w s1 = all_view w s"
    "claim_resolution txn requires w rq outcome evidence nt tx preview s1 = (Inr (Settled st b a p), s')"
proof (cases rule: resolve_cases [of txn requires parseDate w rq])
  case (1 st' code)
  then have False using assms(2) by (simp add: ret_def)
  then show ?thesis ..
next
  case (2 outcome evidence nt)
  obtain found s1 where g: "c_get (rw_txs w) (rq_transactionId rq) s = (Inr found, s1)"
    and k: "(case found of None \<Rightarrow> ret (Refused 404 ''NOT_FOUND'')
        | Some tx \<Rightarrow> resolve_row txn requires parseDate w rq outcome evidence nt tx) s1 = (Inr (Settled st b a p), s')"
    using assms(2) unfolding 2(2) by (rule bind_InrE)
  obtain tx where tx: "found = Some tx" using k by (cases found) (auto simp: ret_def)
  have v1: "all_view w s1 = all_view w s" by (rule keepsD [OF all_reads(1) [OF assms(1)] g])
  have row: "c_view (rw_txs w) s (rq_transactionId rq) = Some tx"
    using c_get_view(2) [OF review_storeD(1) [OF assms(1)] g] tx by simp
  have k1: "resolve_row txn requires parseDate w rq outcome evidence nt tx s1 = (Inr (Settled st b a p), s')" using k tx by simp
  have no: "bind (moneyPreview w tx outcome) (\<lambda>p. ret (Already p)) s1 \<noteq> (Inr (Settled st b a p), s')"
    by (auto simp: bind_run ret_def split: prod.splits sum.splits)
  from k1 no have "bind (if outcome = ''provider_not_paid'' then notPaidEvidenceConflict w tx else ret None) (\<lambda>conflict. case conflict of
          Some reason \<Rightarrow> ret (Conflict reason)
        | None \<Rightarrow> confirm_resolution txn requires parseDate w rq outcome evidence nt tx) s1 = (Inr (Settled st b a p), s')"
    unfolding resolve_row_def by (rule run_else)
  then obtain conflict s2 where c: "(if outcome = ''provider_not_paid'' then notPaidEvidenceConflict w tx else ret None) s1 = (Inr conflict, s2)"
    and k2: "(case conflict of Some reason \<Rightarrow> ret (Conflict reason)
        | None \<Rightarrow> confirm_resolution txn requires parseDate w rq outcome evidence nt tx) s2 = (Inr (Settled st b a p), s')"
    by (rule bind_InrE)
  have "keeps (all_view w) (if outcome = ''provider_not_paid'' then notPaidEvidenceConflict w tx else ret None)" by (intro keeps_intros assms(1))
  from keepsD [OF this c] have v2: "all_view w s2 = all_view w s1" .
  have "conflict = None" using k2 by (cases conflict) (auto simp: ret_def)
  with k2 have k3: "confirm_resolution txn requires parseDate w rq outcome evidence nt tx s2 = (Inr (Settled st b a p), s')" by simp
  then obtain preview s3 where m: "moneyPreview w tx outcome s2 = (Inr preview, s3)"
    and k4: "(if rq_confirm rq \<noteq> Bool True then ret (Preview (snapshot tx) preview)
        else if \<not> truthy (rq_expectedUpdatedAt rq) \<or> \<not> sameInstant parseDate (rq_expectedUpdatedAt rq) (pt_updatedAt tx)
        then ret (Refused 409 ''ROW_CHANGED'')
        else if outcome = ''provider_paid'' \<and> pt_executorGroupId tx = None then ret (Refused 409 ''EXECUTOR_MISSING'')
        else claim_resolution txn requires w rq outcome evidence nt tx preview) s3 = (Inr (Settled st b a p), s')"
    unfolding confirm_resolution_def by (auto simp: ret_def elim: bind_InrE split: if_splits)
  have v3: "all_view w s3 = all_view w s2" by (rule keepsD [OF all_preview [OF assms(1)] m])
  have cl: "claim_resolution txn requires w rq outcome evidence nt tx preview s3 = (Inr (Settled st b a p), s')"
    and ex: "outcome = ''provider_paid'' \<longrightarrow> pt_executorGroupId tx \<noteq> None"
    using k4 by (auto simp: ret_def split: if_splits)
  have vo: "outcome = clean (rq_outcome rq)" "outcome \<in> OUTCOMES" using validate_outcome [OF 2(1)] by blast+
  have v: "all_view w s3 = all_view w s" using v1 v2 v3 by simp
  show ?thesis by (rule that [OF vo row ex v cl])
qed

lemma applied_through:
  assumes "review_store w" "apply_effect txn requires w rq outcome evidence nt tx preview s = (Inr (Settled st b a p), s')"
    and "c_view (rw_txs w) s (pt_id tx) = Some current"
  obtains t1 t2 where "all_view w t1 = all_view w s" "review_view w s' = review_view w t2"
    "(if outcome = ''provider_paid'' then settle_paid txn requires w rq evidence nt current
      else settle_unpaid w rq evidence nt current) t1 = (Inr (Inr st), t2)"
proof -
  let ?settle = "\<lambda>c. if outcome = ''provider_paid'' then settle_paid txn requires w rq evidence nt c else settle_unpaid w rq evidence nt c"
  let ?finish = "\<lambda>out. case out of Inl refused \<Rightarrow> ret refused
         | Inr statusAfter \<Rightarrow> bind (c_get (rw_txs w) (pt_id tx)) (\<lambda>after. case after of
             None \<Rightarrow> throw (plain_error ''TypeError'')
           | Some afterTx \<Rightarrow> (case rq_audit rq of Some e \<Rightarrow> throw e
               | None \<Rightarrow> ret (Settled statusAfter (snapshot tx) (snapshot afterTx) preview)))"
  obtain found t1 where g: "c_get (rw_txs w) (pt_id tx) s = (Inr found, t1)"
    and k: "(case found of None \<Rightarrow> throw (plain_error ''TypeError'') | Some current \<Rightarrow> bind (?settle current) ?finish) t1 = (Inr (Settled st b a p), s')"
    using assms(2) unfolding apply_effect_def by (rule bind_InrE)
  have found: "found = Some current" using c_get_view(2) [OF review_storeD(1) [OF assms(1)] g] assms(3) by simp
  obtain out t2 where m: "?settle current t1 = (Inr out, t2)" and e: "?finish out t2 = (Inr (Settled st b a p), s')"
    using k unfolding found option.case by (rule bind_InrE)
  have refused: "x \<noteq> Settled st b a p" if "out = Inl x" for x
  proof -
    have paid: "y = Inl x \<longrightarrow> (\<exists>n c. x = Refused n c)" if "settle_paid txn requires w rq evidence nt current q = (Inr y, q')" for q q' y x
      using that by (auto simp: settle_paid_def bind_run andThen_run ret_def split: prod.splits sum.splits option.splits)
    have unpaid: "y \<noteq> Inl x" if "settle_unpaid w rq evidence nt current q = (Inr y, q')" for q q' y x
      using that by (auto simp: settle_unpaid_def andThen_run ret_def split: prod.splits sum.splits)
    show ?thesis using m that paid unpaid by (cases "outcome = ''provider_paid''") fastforce+
  qed
  obtain st' where out: "out = Inr st'" using e refused by (cases out) (auto simp: ret_def)
  obtain after t3 where g2: "c_get (rw_txs w) (pt_id tx) t2 = (Inr after, t3)"
    and f: "(case after of None \<Rightarrow> throw (plain_error ''TypeError'') | Some afterTx \<Rightarrow> (case rq_audit rq of Some e \<Rightarrow> throw e
               | None \<Rightarrow> ret (Settled st' (snapshot tx) (snapshot afterTx) preview))) t3 = (Inr (Settled st b a p), s')"
    using e unfolding out sum.case by (rule bind_InrE)
  have "st' = st" "s' = t3" using f by (auto simp: ret_def throw_def split: option.splits)
  then show thesis
    using that [of t1 t2] keepsD [OF all_reads(1) [OF assms(1)] g] keepsD [OF review_reads(1) [OF assms(1)] g2] m out by simp
qed

lemma unpaid_free:
  assumes "pt_status t = ''pending''" "pt_data t = pt_data (unpaid_doc rq evidence nt current)"
  shows "\<not> providerMoneyHold t" "\<not> automaticPaymentBlocked t" "\<not> hasDispatchMarker t"
    "claim_filter gid (t\<lparr>pt_status := ''processing'', pt_executorGroupId := Some gid\<rparr>)"
proof -
  have d: "dataOf t = dataOf (unpaid_doc rq evidence nt current)" using assms(2) by (simp add: dataOf_def)
  have g: "get (dataOf t) ''providerResolutionOutcome'' = Str ''provider_not_paid''" "get (dataOf t) ''providerResultUnresolved'' = Bool False"
    "get (dataOf t) ''providerDispatchStartedAt'' = Undef" "get (dataOf t) ''providerDispatchAttemptId'' = Undef"
    by (simp_all add: d unpaid_doc_def get_set_data resolved_data_def clearClaimOnDoc_def get_unset_data marker_fields_def del: get.simps)
  have trim: "trim [] = []" by code_simp
  show h: "\<not> providerMoneyHold t"
    using g assms(1) by (simp add: providerMoneyHold_def completedMaskedProviderSuccess_def resolutionOutcome_def data_str_def or_else_def
        isProviderResultUnresolved_def Let_def del: get.simps)
  have same: "dataOf (t\<lparr>pt_status := ''processing'', pt_executorGroupId := Some gid\<rparr>) = dataOf t" by (simp add: dataOf_def)
  show "claim_filter gid (t\<lparr>pt_status := ''processing'', pt_executorGroupId := Some gid\<rparr>)"
    unfolding claim_filter_def same using g by (simp add: nullish_def del: get.simps)
  show "\<not> hasDispatchMarker t" using g trim by (simp add: hasDispatchMarker_def data_str_def or_else_def del: get.simps)
  then show "\<not> automaticPaymentBlocked t" using h by (simp add: automaticPaymentBlocked_def)
qed

lemma effect_same [simp]:
  "pt_id (effect_fields now d) = pt_id d" "pt_id (resolve_claim rq o2 e n d) = pt_id d"
  "pt_customId (effect_fields now d) = pt_customId d" "pt_customId (resolve_claim rq o2 e n d) = pt_customId d"
  "pt_amount (effect_fields now d) = pt_amount d" "pt_amount (resolve_claim rq o2 e n d) = pt_amount d"
  "pt_executorGroupId (effect_fields now d) = pt_executorGroupId d" "pt_executorGroupId (resolve_claim rq o2 e n d) = pt_executorGroupId d"
  by (simp_all add: effect_fields_def resolve_claim_def set_data_def)

lemma unpaid_doc_id [simp]: "pt_id (unpaid_doc rq evidence nt d) = pt_id d"
  by (simp add: unpaid_doc_def applyResolutionNote_def Let_def clearClaimOnDoc_def)

lemma unpaid_row:
  fixes w :: "'s review_world" and s :: 's
  assumes "review_store w" "clean (rq_outcome rq) = ''provider_not_paid''"
    and "\<And>t. c_view (rw_txs w) s (rq_transactionId rq) = Some t \<Longrightarrow> pt_id t = rq_transactionId rq"
    and "resolveProviderResult txn requires parseDate w rq s = (Inr (Settled st b a p), s')"
  obtains t evidence nt current where "c_view (rw_txs w) s' (rq_transactionId rq) = Some t" "pt_status t = ''pending''"
    "pt_executorGroupId t = None" "pt_data t = pt_data (unpaid_doc rq evidence nt current)"
proof -
  obtain outcome evidence nt tx preview s1 where "outcome = clean (rq_outcome rq)" "outcome \<in> OUTCOMES"
    and tx: "c_view (rw_txs w) s (rq_transactionId rq) = Some tx" and "outcome = ''provider_paid'' \<longrightarrow> pt_executorGroupId tx \<noteq> None"
    and v1: "all_view w s1 = all_view w s" and c: "claim_resolution txn requires w rq outcome evidence nt tx preview s1 = (Inr (Settled st b a p), s')"
    using assms(1,4) by (rule settled_through)
  have id: "pt_id tx = rq_transactionId rq" by (rule assms(3) [OF tx])
  obtain d s3 where d: "c_view (rw_txs w) s1 (pt_id tx) = Some d"
    and v3: "c_view (rw_txs w) s3 = (c_view (rw_txs w) s1)(pt_id tx \<mapsto> effect_fields (rq_now rq) (resolve_claim rq outcome evidence nt d))"
    and "money_view_of w s3 = money_view_of w s1" "c_view (rw_groups w) s3 = c_view (rw_groups w) s1"
    and ap: "apply_effect txn requires w rq outcome evidence nt tx preview s3 = (Inr (Settled st b a p), s')"
    using assms(1) c by (rule claimed_through)
  have "d = tx" using d tx id v1 by (simp add: review_view_def)
  let ?current = "effect_fields (rq_now rq) (resolve_claim rq outcome evidence nt d)"
  have cur: "c_view (rw_txs w) s3 (pt_id tx) = Some ?current" by (simp add: v3)
  obtain t1 t2 where t1: "all_view w t1 = all_view w s3" and t2: "review_view w s' = review_view w t2"
    and se: "(if outcome = ''provider_paid'' then settle_paid txn requires w rq evidence nt ?current
      else settle_unpaid w rq evidence nt ?current) t1 = (Inr (Inr st), t2)"
    using assms(1) ap cur by (rule applied_through)
  let ?u = "(unpaid_doc rq evidence nt ?current)\<lparr>pt_status := ''pending'',
      pt_adminNotes := appendApiNote (pt_adminNotes (unpaid_doc rq evidence nt ?current)) (rq_failureNote rq), pt_executorGroupId := None, pt_executorName := []\<rparr>"
  have "settle_unpaid w rq evidence nt ?current t1 = (Inr (Inr st), t2)"
    using se \<open>outcome = clean (rq_outcome rq)\<close> assms(2) by simp
  then obtain x where "save_review w (rq_now rq) ?u t1 = (Inr x, t2)"
    unfolding settle_unpaid_def releaseFailedApiExecutionToPending_def by (auto simp: ret_def elim: andThen_InrE)
  from save_review_Inr [OF assms(1) this] obtain d2 where "c_view (rw_txs w) t2 (pt_id ?u) = Some (saved_fields (rq_now rq) ?u d2)" by auto
  then have row: "c_view (rw_txs w) s' (rq_transactionId rq) = Some (saved_fields (rq_now rq) ?u d2)"
    using t2 id \<open>d = tx\<close> by (simp add: review_view_def)
  show thesis by (rule that [OF row]) (simp_all add: saved_fields_def)
qed

text \<open>
  C8: When an administrator settles that the provider has not paid, no balance and no ledger entry changes, whatever
  happens on the way; and once the settlement is reported the transaction is pending without an executor, its money is
  no longer held, it carries no mark of a dispatch, and whichever executor company is given it next passes the filter of a
  new claim.
\<close>

theorem unpaid_resolution_frees:
  fixes w :: "'s review_world" and s :: 's
  assumes "review_store w" "clean (rq_outcome rq) = ''provider_not_paid''"
    and "\<And>t. c_view (rw_txs w) s (rq_transactionId rq) = Some t \<Longrightarrow> pt_id t = rq_transactionId rq"
    and "resolveProviderResult txn requires parseDate w rq s = (r, s')"
  shows "c_view (rw_accounts w) s' = c_view (rw_accounts w) s \<and> c_view (rw_ledger w) s' = c_view (rw_ledger w) s
    \<and> (\<forall>st b a p. r = Inr (Settled st b a p) \<longrightarrow> (\<exists>t. c_view (rw_txs w) s' (rq_transactionId rq) = Some t \<and> pt_status t = ''pending''
        \<and> pt_executorGroupId t = None \<and> refundBlockedByUnresolvedProvider (Some t) = None \<and> \<not> automaticPaymentBlocked t
        \<and> \<not> hasDispatchMarker t \<and> (\<forall>gid. claim_filter gid (t\<lparr>pt_status := ''processing'', pt_executorGroupId := Some gid\<rparr>))))"
proof (intro conjI allI impI)
  have "keeps (money_view_of w) (resolveProviderResult txn requires parseDate w rq)"
  proof (cases rule: resolve_cases [of txn requires parseDate w rq])
    case (1 st code)
    then show ?thesis by (simp add: keeps_intros)
  next
    case (2 outcome evidence nt)
    then have "outcome = ''provider_not_paid''" using validate_outcome [OF 2(1)] assms(2) by simp
    then show ?thesis
      unfolding 2(2) by (auto intro!: keeps_intros keeps_unpaid [OF assms(1)] keeps_money [OF review_reads(1) [OF assms(1)]])
  qed
  then have "money_view_of w s' = money_view_of w s" using assms(4) by (rule keepsD)
  then show "c_view (rw_accounts w) s' = c_view (rw_accounts w) s" "c_view (rw_ledger w) s' = c_view (rw_ledger w) s"
    by (simp_all add: review_view_def)
  fix st b a p assume "r = Inr (Settled st b a p)"
  then have run: "resolveProviderResult txn requires parseDate w rq s = (Inr (Settled st b a p), s')" using assms(4) by simp
  obtain t evidence nt current where t: "c_view (rw_txs w) s' (rq_transactionId rq) = Some t" "pt_status t = ''pending''"
    "pt_executorGroupId t = None" "pt_data t = pt_data (unpaid_doc rq evidence nt current)"
    by (rule unpaid_row [OF assms(1-3) run])
  show "\<exists>t. c_view (rw_txs w) s' (rq_transactionId rq) = Some t \<and> pt_status t = ''pending'' \<and> pt_executorGroupId t = None
      \<and> refundBlockedByUnresolvedProvider (Some t) = None \<and> \<not> automaticPaymentBlocked t
      \<and> \<not> hasDispatchMarker t \<and> (\<forall>gid. claim_filter gid (t\<lparr>pt_status := ''processing'', pt_executorGroupId := Some gid\<rparr>))"
    using t unpaid_free [OF t(2,4)] by (simp add: refundBlockedByUnresolvedProvider_def)
qed

section \<open>Settling that the provider has paid\<close>








lemma attach_data: "pt_data (attachApiReceiptProofs a b tx) = pt_data tx" "pt_status (attachApiReceiptProofs a b tx) = pt_status tx"
  "pt_id (attachApiReceiptProofs a b tx) = pt_id tx"
  by (simp_all add: attachApiReceiptProofs_def Let_def split: list.split)

lemma reference_data: "pt_status (appendCustomerReference l v tx) = pt_status tx" "pt_id (appendCustomerReference l v tx) = pt_id tx"
  by (simp_all add: appendCustomerReference_def Let_def)

lemma completed_doc_facts:
  "pt_status (completed_doc ci g res ref err tx) = ''completed''" "pt_id (completed_doc ci g res ref err tx) = pt_id tx"
  "get (dataOf (completed_doc ci g res ref err tx)) ''ledgerPosted'' = Bool (err = None)"
  "get (dataOf (completed_doc ci g res ref err tx)) ''ledgerError'' = (case err of None \<Rightarrow> Null | Some e \<Rightarrow> Str (message e))"
  by (auto simp: completed_doc_def Let_def attach_data reference_data get_set_data completed_data_def simp del: get.simps split: sum.split option.split)





section \<open>The fence of a recovery\<close>

lemma fenced_get:
  "get (Obj (fenced_data tx token now)) f = (case map_of (rev [(''providerDispatchAttemptId'', Str token), (''providerDispatchStartedAt'', date_val now),
      (''providerResultUnresolved'', Bool True),
      (''providerResultUnresolvedReason'', Str ''Operational recovery fence; recovery has NOT sent a Payment request''),
      (''runtimeRecoveryFence'', Str token)]) f of None \<Rightarrow> get (dataOf tx) f | Some v \<Rightarrow> v)"
  unfolding fenced_data_def by (subst get_fold_set) (simp add: dataOf_def del: get.simps split: option.split)

text \<open>
  C9: A recovery fence and a payment exclude one another.  A row that a worker has claimed does not pass the filter of
  the fence; a fenced row cannot be claimed, no claim on it can be released, its money is held, and removing the fence
  gives back the row as it was.
\<close>

theorem recovery_fence_exclusive:
  assumes "buildRecoveryFence tx token now = Inr f"
  shows "(\<forall>gid a t d. \<not> rf_filter f (claim_fields gid a t d))
    \<and> (\<forall>d. rf_filter f d \<longrightarrow> (\<forall>gid. \<not> claim_filter gid (rf_update f d)) \<and> (\<forall>a. \<not> release_filter a (rf_update f d))
         \<and> refundBlockedByUnresolvedProvider (Some (rf_update f d)) = Some (409, UNRESOLVED_CODE)
         \<and> rf_releaseFilter f (rf_update f d) \<and> rf_releaseUpdate f (rf_update f d) = d)"
proof (intro conjI allI impI)
  have p: "pristine tx" using assms by (simp add: buildRecoveryFence_def split: if_splits)
  have f: "f = \<lparr>rf_filter = (\<lambda>d. (pt_id d = pt_id tx \<and> pt_status d = ''processing'' \<and> pt_executorGroupId d = pt_executorGroupId tx
                 \<and> pt_updatedAt d = pt_updatedAt tx) \<and> pt_data d = pt_data tx), rf_update = (\<lambda>d. d\<lparr>pt_data := Some (fenced_data tx token now)\<rparr>),
                   rf_releaseFilter = (\<lambda>d. (pt_id d = pt_id tx \<and> pt_status d = ''processing'' \<and> pt_executorGroupId d = pt_executorGroupId tx
                 \<and> pt_updatedAt d = pt_updatedAt tx) \<and> pt_data d = Some (fenced_data tx token now)),
                   rf_releaseUpdate = (\<lambda>d. d\<lparr>pt_data := pt_data tx\<rparr>)\<rparr>"
    using assms p by (simp add: buildRecoveryFence_def Let_def)
  show "\<not> rf_filter f (claim_fields gid a t d)" for gid a t d
  proof
    assume "rf_filter f (claim_fields gid a t d)"
    then have "dataOf (claim_fields gid a t d) = dataOf tx" by (simp add: f dataOf_def)
    then have "get (dataOf tx) ''providerDispatchStartedAt'' = date_val t" using get_claimed [of gid a t d "''providerDispatchStartedAt''"] by simp
    then show False using p by (simp add: pristine_def hasClaim_def date_val_def Let_def del: get.simps)
  qed
  fix d assume d: "rf_filter f d"
  have g: "get (dataOf (rf_update f d)) k = get (Obj (fenced_data tx token now)) k" for k by (simp add: f dataOf_def)
  have u: "get (dataOf (rf_update f d)) ''providerResultUnresolved'' = Bool True" unfolding g fenced_get by simp
  have same: "get (dataOf (rf_update f d)) ''providerResolutionOutcome'' = get (dataOf tx) ''providerResolutionOutcome''"
    unfolding g fenced_get by (simp del: get.simps)
  show "\<not> claim_filter gid (rf_update f d)" for gid using u by (simp add: claim_filter_def del: get.simps)
  show "\<not> release_filter a (rf_update f d)" for a using u by (simp add: release_filter_def del: get.simps)
  have st: "pt_status (rf_update f d) = ''processing''" using d by (simp add: f)
  have "\<not> truthy (get (dataOf tx) ''providerResolutionOutcome'')" using p by (simp add: pristine_def Let_def)
  then have "resolutionOutcome (rf_update f d) = []"
    using same by (simp add: resolutionOutcome_def data_str_def or_else_def del: get.simps)
  then show "refundBlockedByUnresolvedProvider (Some (rf_update f d)) = Some (409, UNRESOLVED_CODE)"
    using u st by (simp add: refundBlockedByUnresolvedProvider_def providerMoneyHold_def completedMaskedProviderSuccess_def
        isProviderResultUnresolved_def Let_def del: get.simps)
  show "rf_releaseFilter f (rf_update f d)" "rf_releaseUpdate f (rf_update f d) = d" using d by (simp_all add: f)
qed

section \<open>A review in memory\<close>

record review_db =
  vd_txs :: "(string \<times> review_tx) list"
  vd_groups :: "(string \<times> exec_group) list"
  vd_accounts :: "(string \<times> account) list"
  vd_ledger :: "(string \<times> ledger_entry) list"

definition mem_review :: "review_db review_world" where
  "mem_review = \<lparr>rw_txs = mem_coll vd_txs (\<lambda>l s. s\<lparr>vd_txs := l\<rparr>), rw_groups = mem_coll vd_groups (\<lambda>l s. s\<lparr>vd_groups := l\<rparr>),
     rw_accounts = mem_coll vd_accounts (\<lambda>l s. s\<lparr>vd_accounts := l\<rparr>), rw_ledger = mem_coll vd_ledger (\<lambda>l s. s\<lparr>vd_ledger := l\<rparr>)\<rparr>"

lemma mem_review_store: "review_store mem_review"
  unfolding review_store_def mem_review_def
  by (simp add: mem_coll_ok) (intro conjI mem_coll_quiet; simp add: mem_coll_view review_view_def)

definition demo_review :: "(string \<times> jsval) list option \<Rightarrow> review_tx" where
  "demo_review data = \<lparr>pt_id = ''t'', pt_customId = ''1'', pt_status = ''processing'', pt_amount = Fin 100, pt_executorGroupId = Some ''g'',
     pt_executorName = [], pt_executorSenderPhone = Undef, pt_adminNotes = [], pt_createdAt = 0, pt_updatedAt = 0, pt_data = data,
     rt_transferType = Str ''vodafone'', rt_vodafoneNumber = Undef, rt_accountNumber = Undef, rt_managerGroupId = None, rt_completedAt = None,
     rt_notes = [], rt_customerNotes = [], rt_proofImage = [], rt_proofImages = []\<rparr>"

definition demo_reviews :: review_db where
  "demo_reviews = \<lparr>vd_txs = [(''t'', demo_review (Some [(''providerResultUnresolved'', Bool True)]))],
     vd_groups = [(''g'', \<lparr>eg_id = ''g'', eg_name = ''api'', eg_parent = None\<rparr>)],
     vd_accounts = [(''g'', \<lparr>balance = Fin 500, acc_tenantId = None\<rparr>)], vd_ledger = []\<rparr>"

definition demo_resolve :: "string \<Rightarrow> resolve_request" where
  "demo_resolve outcome = \<lparr>rq_transactionId = ''t'', rq_outcome = Str outcome, rq_evidence = Str ''R1'', rq_note = Str ''ok'', rq_confirm = Bool True,
     rq_expectedUpdatedAt = date_val 0, rq_actor = Some \<lparr>ac_id = ''a'', ac_role = ''master'', ac_permissions = []\<rparr>,
     rq_completion = \<lparr>ci_now = 9, ci_entryId = ''l'', ci_doneNote = [], ci_moneyNote = (\<lambda>_. []), ci_rendered = Inr ''p''\<rparr>,
     rq_failureNote = [], rq_audit = None\<rparr>"

abbreviation demo_settle :: "string \<Rightarrow> review_db \<Rightarrow> (error + resolution) \<times> review_db" where
  "demo_settle outcome \<equiv> resolveProviderResult atomic True (\<lambda>_. None) mem_review (demo_resolve outcome)"

definition held_row :: review_tx where
  "held_row = demo_review (Some [(''providerResultUnresolved'', Bool True)])"

lemma held_row_simps [simp]:
  "pt_id held_row = ''t''" "pt_status held_row = ''processing''" "pt_executorGroupId held_row = Some ''g''" "pt_amount held_row = Fin 100"
  "pt_customId held_row = ''1''" "pt_updatedAt held_row = 0"
  by (simp_all add: held_row_def demo_review_def)

lemma held_row_data: "get (dataOf held_row) k = (if k = ''providerResultUnresolved'' then Bool True else Undef)"
  by (simp add: held_row_def demo_review_def dataOf_def)

lemma demo_row_read: "c_get (rw_txs mem_review) ''t'' demo_reviews = (Inr (Some held_row), demo_reviews)"
  by (simp add: mem_review_def mem_coll_def demo_reviews_def held_row_def)

lemma demo_checks:
  "actorCanResolve (rq_actor (demo_resolve out))"
  "validateRequest (demo_resolve ''provider_paid'') = Inr (''provider_paid'', ''R1'', ''ok'')"
  "validateRequest (demo_resolve ''provider_not_paid'') = Inr (''provider_not_paid'', ''R1'', ''ok'')"
  "rq_transactionId (demo_resolve out) = ''t''" "rq_confirm (demo_resolve out) = Bool True" "rq_now (demo_resolve out) = 9"
  "truthy (rq_expectedUpdatedAt (demo_resolve out))" "sameInstant d (rq_expectedUpdatedAt (demo_resolve out)) 0"
  "rq_audit (demo_resolve out) = None" "ci_entryId (rq_completion (demo_resolve out)) = ''l''"
  by (simp_all add: demo_resolve_def actorCanResolve_def rq_now_def date_val_def sameInstant_def date_ms_def) code_simp+

lemma held_row_checks:
  "canReviewProviderOperation d 9 held_row" "resolutionOutcomeOf held_row = []" "\<not> effectDone held_row ''provider_paid''"
  "\<not> effectDone held_row ''provider_not_paid''" "resolve_filter held_row held_row"
proof -
  have e: "clean Undef = []" by code_simp
  show "resolutionOutcomeOf held_row = []" by (simp add: resolutionOutcomeOf_def held_row_data e del: get.simps)
  then show "\<not> effectDone held_row ''provider_paid''" "\<not> effectDone held_row ''provider_not_paid''" by (simp_all add: effectDone_def)
  show "resolve_filter held_row held_row" by (simp add: resolve_filter_def held_row_data del: get.simps)
  have "rt_transferType held_row \<noteq> Str ''balance_transfer''" by (simp add: held_row_def demo_review_def)
  then show "canReviewProviderOperation d 9 held_row"
    by (simp add: canReviewProviderOperation_def ACTIVE_STATUSES_def held_row_data Let_def del: get.simps)
qed

lemma demo_preview: "\<exists>p. moneyPreview mem_review held_row out demo_reviews = (Inr p, demo_reviews)"
  by (simp add: moneyPreview_def countExecutorDebits_def bind_run ret_def mem_review_def mem_coll_def demo_reviews_def)

lemma demo_no_conflict: "notPaidEvidenceConflict mem_review held_row demo_reviews = (Inr None, demo_reviews)"
proof -
  have e: "clean Undef = []" "has_mask [] = False" by code_simp+
  have "storedProviderReference held_row = []" by (simp add: storedProviderReference_def held_row_data e del: get.simps)
  then show ?thesis
    by (simp add: notPaidEvidenceConflict_def held_row_data e Let_def bind_run ret_def del: get.simps)
       (simp add: mem_review_def mem_coll_def demo_reviews_def)
qed

lemma demo_reaches_claim:
  assumes "out = ''provider_paid'' \<or> out = ''provider_not_paid''"
  shows "\<exists>p. demo_settle out demo_reviews = claim_resolution atomic True mem_review (demo_resolve out) out ''R1'' ''ok'' held_row p demo_reviews"
proof -
  obtain p where p: "moneyPreview mem_review held_row out demo_reviews = (Inr p, demo_reviews)" using demo_preview by blast
  show ?thesis
    using assms p demo_no_conflict
    by (auto simp: resolveProviderResult_def demo_checks demo_row_read resolve_row_def confirm_resolution_def held_row_checks bind_run ret_def simp del: truthy.simps)
qed

lemma mem_review_ops:
  "c_get (rw_txs mem_review) i s = (Inr (map_of (vd_txs s) i), s)"
  "c_get (rw_groups mem_review) i s = (Inr (map_of (vd_groups s) i), s)"
  "c_update (rw_txs mem_review) i p f s = (case map_of (vd_txs s) i of None \<Rightarrow> (Inr None, s)
     | Some d \<Rightarrow> if p d then (Inr (Some (f d)), s\<lparr>vd_txs := (i, f d) # vd_txs s\<rparr>) else (Inr None, s))"
  "c_view (rw_txs mem_review) s = map_of (vd_txs s)" "c_view (rw_groups mem_review) s = map_of (vd_groups s)"
  by (simp_all add: mem_review_def mem_coll_def)

lemma demo_claim_applies:
  "effect_filter out ''R1'' (resolve_claim (demo_resolve out) out ''R1'' ''ok'' held_row)"
proof -
  have "get (dataOf (resolve_claim (demo_resolve out) out ''R1'' ''ok'' held_row)) k
    = get (dataOf (set_data [(''providerResolutionOutcome'', Str out), (''providerResolutionEvidence'', Str ''R1''),
     (''providerResolutionNote'', Str ''ok''), (''providerResolutionActorId'', Str (actor_id (demo_resolve out))), (''providerResolutionClaimedAt'', date_val (rq_now (demo_resolve out))),
     (''waitingApiAutoCompletion'', Bool False)] held_row)) k" for k
    by (simp add: resolve_claim_def dataOf_def del: get.simps)
  then show ?thesis by (simp add: effect_filter_def get_set_data held_row_data del: get.simps)
qed

definition demo_current :: "string \<Rightarrow> review_tx" where
  "demo_current out = effect_fields 9 (resolve_claim (demo_resolve out) out ''R1'' ''ok'' held_row)"

lemma demo_current_fields [simp]:
  "pt_id (demo_current out) = ''t''" "pt_executorGroupId (demo_current out) = Some ''g''" "pt_amount (demo_current out) = Fin 100"
  "pt_customId (demo_current out) = ''1''"
  by (simp_all add: demo_current_def effect_fields_def resolve_claim_def set_data_def)

lemma demo_txs: "map_of (vd_txs demo_reviews) ''t'' = Some held_row" "map_of (vd_groups demo_reviews) ''g'' = Some \<lparr>eg_id = ''g'', eg_name = ''api'', eg_parent = None\<rparr>"
  by (simp_all add: demo_reviews_def held_row_def)

lemma demo_claimed:
  "claim_resolution atomic True mem_review (demo_resolve out) out ''R1'' ''ok'' held_row p demo_reviews
    = apply_effect atomic True mem_review (demo_resolve out) out ''R1'' ''ok'' held_row p
        (demo_reviews\<lparr>vd_txs := (''t'', demo_current out) # (''t'', resolve_claim (demo_resolve out) out ''R1'' ''ok'' held_row) # vd_txs demo_reviews\<rparr>)"
  by (simp add: claim_resolution_def bind_run mem_review_ops demo_txs held_row_checks demo_claim_applies demo_checks demo_current_def)

lemma mem_save: "map_of (vd_txs s) (pt_id tx) = Some d \<Longrightarrow>
    save_review mem_review now tx s = (Inr (), s\<lparr>vd_txs := (pt_id tx, saved_fields now tx d) # vd_txs s\<rparr>)"
  by (simp add: save_review_def bind_run mem_review_ops)

lemma mem_unpaid:
  assumes "map_of (vd_txs s) ''t'' = Some cur" "pt_id cur = ''t''"
  shows "\<exists>x. settle_unpaid mem_review rq e n cur s = (Inr (Inr ''pending''), s\<lparr>vd_txs := (''t'', x) # vd_txs s\<rparr>) \<and> pt_status x = ''pending''"
proof -
  let ?u = "(unpaid_doc rq e n cur)\<lparr>pt_status := ''pending'', pt_adminNotes := appendApiNote (pt_adminNotes (unpaid_doc rq e n cur)) (rq_failureNote rq),
       pt_executorGroupId := None, pt_executorName := []\<rparr>"
  have i: "pt_id ?u = ''t''" using assms(2) by simp
  have "save_review mem_review (rq_now rq) ?u s = (Inr (), s\<lparr>vd_txs := (pt_id ?u, saved_fields (rq_now rq) ?u cur) # vd_txs s\<rparr>)"
    by (rule mem_save) (simp only: i assms(1))
  then have "settle_unpaid mem_review rq e n cur s = (Inr (Inr ''pending''), s\<lparr>vd_txs := (''t'', saved_fields (rq_now rq) ?u cur) # vd_txs s\<rparr>)"
    unfolding settle_unpaid_def andThen_run releaseFailedApiExecutionToPending_def i by simp
  moreover have "pt_status (saved_fields (rq_now rq) ?u cur) = ''pending''" by (simp add: saved_fields_def)
  ultimately show ?thesis by blast
qed

lemma demo_settled:
  assumes "out = ''provider_paid'' \<or> out = ''provider_not_paid''"
    and "\<And>s. map_of (vd_txs s) ''t'' = Some (demo_current out) \<Longrightarrow> map_of (vd_groups s) ''g'' = map_of (vd_groups demo_reviews) ''g'' \<Longrightarrow>
      \<exists>x s'. (if out = ''provider_paid'' then settle_paid atomic True mem_review (demo_resolve out) ''R1'' ''ok'' (demo_current out)
          else settle_unpaid mem_review (demo_resolve out) ''R1'' ''ok'' (demo_current out)) s = (Inr (Inr st), s') \<and> map_of (vd_txs s') ''t'' = Some x \<and> pt_status x = st"
  shows "\<exists>b a p s' x. demo_settle out demo_reviews = (Inr (Settled st b a p), s') \<and> map_of (vd_txs s') ''t'' = Some x \<and> pt_status x = st"
proof -
  let ?s = "demo_reviews\<lparr>vd_txs := (''t'', demo_current out) # (''t'', resolve_claim (demo_resolve out) out ''R1'' ''ok'' held_row) # vd_txs demo_reviews\<rparr>"
  obtain p where p: "demo_settle out demo_reviews = claim_resolution atomic True mem_review (demo_resolve out) out ''R1'' ''ok'' held_row p demo_reviews"
    using demo_reaches_claim [OF assms(1)] by blast
  have g: "map_of (vd_txs ?s) ''t'' = Some (demo_current out)" "map_of (vd_groups ?s) ''g'' = map_of (vd_groups demo_reviews) ''g''" by simp_all
  from assms(2) [OF g] obtain x s' where e: "(if out = ''provider_paid'' then settle_paid atomic True mem_review (demo_resolve out) ''R1'' ''ok'' (demo_current out)
          else settle_unpaid mem_review (demo_resolve out) ''R1'' ''ok'' (demo_current out)) ?s = (Inr (Inr st), s')" "map_of (vd_txs s') ''t'' = Some x" "pt_status x = st" by blast
  have "apply_effect atomic True mem_review (demo_resolve out) out ''R1'' ''ok'' held_row p ?s = (Inr (Settled st (snapshot held_row) (snapshot x) p), s')"
    unfolding apply_effect_def bind_run mem_review_ops held_row_simps g by (simp only: sum.case option.case prod.case e(1) bind_run mem_review_ops e(2) demo_checks ret_run)
  then show ?thesis using e unfolding p demo_claimed by blast
qed

lemma demo_unpaid_settles: "\<exists>b a p s' x. demo_settle ''provider_not_paid'' demo_reviews = (Inr (Settled ''pending'' b a p), s')
    \<and> map_of (vd_txs s') ''t'' = Some x \<and> pt_status x = ''pending''"
proof (rule demo_settled)
  fix s :: review_db
  assume "map_of (vd_txs s) ''t'' = Some (demo_current ''provider_not_paid'')"
  from mem_unpaid [OF this, where rq = "demo_resolve ''provider_not_paid''" and e = "''R1''" and n = "''ok''"]
  show "\<exists>x s'. (if ''provider_not_paid'' = ''provider_paid'' then settle_paid atomic True mem_review (demo_resolve ''provider_not_paid'') ''R1'' ''ok'' (demo_current ''provider_not_paid'')
          else settle_unpaid mem_review (demo_resolve ''provider_not_paid'') ''R1'' ''ok'' (demo_current ''provider_not_paid'')) s = (Inr (Inr ''pending''), s') \<and> map_of (vd_txs s') ''t'' = Some x \<and> pt_status x = ''pending''"
    by auto
qed simp

lemma mem_post_debit: "\<exists>err s'. post_debit atomic True mem_review n tx g s = (Inr err, s') \<and> map_of (vd_txs s') = map_of (vd_txs s)"
proof -
  obtain r s' where p: "post_debit atomic True mem_review n tx g s = (r, s')" by fastforce
  have "map_of (vd_txs s') = map_of (vd_txs s)"
    using keepsD [OF debit_keeps [OF mem_review_store atomic_ok [where unknown = "\<lambda>_. False"]] p] by (simp add: mem_review_ops)
  moreover have "\<exists>err. r = Inr err"
    using p by (auto simp: post_debit_def catch_run split: prod.splits sum.splits)
  ultimately show ?thesis using p by blast
qed

lemma demo_paid_settles: "\<exists>b a p s' x. demo_settle ''provider_paid'' demo_reviews = (Inr (Settled ''completed'' b a p), s')
    \<and> map_of (vd_txs s') ''t'' = Some x \<and> pt_status x = ''completed''"
proof (rule demo_settled)
  fix s :: review_db
  assume s: "map_of (vd_txs s) ''t'' = Some (demo_current ''provider_paid'')" "map_of (vd_groups s) ''g'' = map_of (vd_groups demo_reviews) ''g''"
  let ?c = "demo_current ''provider_paid''"
  let ?rq = "demo_resolve ''provider_paid''"
  have r: "resolveApiReferenceNumber (resolution_result ?c ''R1'') = ''R1''"
    by (simp add: resolveApiReferenceNumber_def resolution_result_def or_else_def Let_def) code_simp
  obtain err s1 where d: "post_debit atomic True mem_review ''l'' ?c ''g'' s = (Inr err, s1)" "map_of (vd_txs s1) = map_of (vd_txs s)"
    using mem_post_debit [of "''l''" ?c "''g''" s] by auto
  let ?g = "\<lparr>eg_id = ''g'', eg_name = ''api'', eg_parent = None\<rparr>"
  let ?doc = "completed_doc (rq_completion ?rq) ?g (resolution_result ?c ''R1'') ''R1'' err ?c"
  let ?tx = "set_data (resolved_data ?rq ''provider_paid'' ''R1'' ''ok'') (applyResolutionNote ''ok'' ?doc)"
  have c: "completeApiTransactionWithReference atomic True mem_review (rq_completion ?rq) ?g (resolution_result ?c ''R1'') ?c s = (Inr (Some ?doc), s1)"
    unfolding completeApiTransactionWithReference_def Let_def r bind_run demo_checks exec_group.simps by (simp add: d)
  have i: "pt_id ?tx = ''t''" by (simp add: applyResolutionNote_def Let_def completed_doc_facts)
  have sv: "save_review mem_review (rq_now ?rq) ?tx s1 = (Inr (), s1\<lparr>vd_txs := (''t'', saved_fields (rq_now ?rq) ?tx ?c) # vd_txs s1\<rparr>)"
    using mem_save [of s1 ?tx ?c "rq_now ?rq"] unfolding i by (simp add: d s)
  have st: "pt_status ?doc = ''completed''" by (simp add: completed_doc_facts)
  have "settle_paid atomic True mem_review ?rq ''R1'' ''ok'' ?c s = (Inr (Inr ''completed''), s1\<lparr>vd_txs := (''t'', saved_fields (rq_now ?rq) ?tx ?c) # vd_txs s1\<rparr>)"
    unfolding settle_paid_def bind_run mem_review_ops demo_current_fields option.case s demo_txs sum.case prod.case c andThen_run sv ret_run st by (rule refl)
  then show "\<exists>x s'. (if ''provider_paid'' = ''provider_paid'' then settle_paid atomic True mem_review ?rq ''R1'' ''ok'' ?c
          else settle_unpaid mem_review ?rq ''R1'' ''ok'' ?c) s = (Inr (Inr ''completed''), s') \<and> map_of (vd_txs s') ''t'' = Some x \<and> pt_status x = ''completed''"
    by (auto simp: saved_fields_def applyResolutionNote_def Let_def st)
qed simp

theorem recovery_fence_exclusive_witness:
  "\<exists>f. buildRecoveryFence (demo_review None) ''k'' 5 = Inr f \<and> (\<forall>gid a t d. \<not> rf_filter f (claim_fields gid a t d))"
proof -
  have p: "pristine (demo_review None)" unfolding demo_review_def by code_simp
  then obtain f where f: "buildRecoveryFence (demo_review None) ''k'' 5 = Inr f"
    by (simp add: buildRecoveryFence_def Let_def)
  from recovery_fence_exclusive [OF f] show ?thesis using f by blast
qed

lemma demo_rows: "c_view (rw_txs mem_review) demo_reviews i = Some t \<Longrightarrow> i = ''t'' \<and> t = held_row"
  by (simp add: mem_review_ops demo_reviews_def held_row_def split: if_splits)

theorem resolution_takes_effect_once_witness:
  "\<exists>r s'. demo_settle ''provider_paid'' demo_reviews = (r, s')
     \<and> review_view mem_review (resolve_all atomic True (\<lambda>_. None) mem_review [demo_resolve ''provider_paid'', demo_resolve ''provider_not_paid''] s')
       = review_view mem_review s'"
proof -
  obtain b a p s' x where run: "demo_settle ''provider_paid'' demo_reviews = (Inr (Settled ''completed'' b a p), s')"
    and x: "map_of (vd_txs s') ''t'' = Some x" "pt_status x = ''completed''" using demo_paid_settles by blast
  have tid: "rq_transactionId (demo_resolve out) = ''t''" for out by (rule demo_checks)
  have i: "pt_id t = rq_transactionId (demo_resolve ''provider_paid'')"
    if "fst (review_view mem_review demo_reviews) (rq_transactionId (demo_resolve ''provider_paid'')) = Some t" for t
    using demo_rows [of "rq_transactionId (demo_resolve ''provider_paid'')" t] that by (simp add: review_view_def tid)
  have "x \<noteq> held_row" using x(2) by auto
  then have "fst (review_view mem_review s') ''t'' \<noteq> fst (review_view mem_review demo_reviews) ''t''"
    unfolding review_view_def fst_conv mem_review_ops x(1) demo_txs by simp
  then have ne: "review_view mem_review s' \<noteq> review_view mem_review demo_reviews" by metis
  have q: "rq_transactionId q = rq_transactionId (demo_resolve ''provider_paid'')"
    if "q \<in> set [demo_resolve ''provider_paid'', demo_resolve ''provider_not_paid'']" for q using that tid by auto
  have "review_view mem_review (resolve_all atomic True (\<lambda>_. None) mem_review [demo_resolve ''provider_paid'', demo_resolve ''provider_not_paid''] s')
      = review_view mem_review s'"
    by (rule resolution_takes_effect_once [where unknown = "\<lambda>_. False", OF mem_review_store atomic_ok _ run ne]) (fact i, fact q)
  then show ?thesis using run by blast
qed

theorem unpaid_resolution_frees_witness:
  "\<exists>s' t. c_view (rw_txs mem_review) s' ''t'' = Some t \<and> s' = snd (demo_settle ''provider_not_paid'' demo_reviews) \<and> pt_status t = ''pending''
     \<and> pt_executorGroupId t = None \<and> refundBlockedByUnresolvedProvider (Some t) = None
     \<and> claim_filter ''h'' (t\<lparr>pt_status := ''processing'', pt_executorGroupId := Some ''h''\<rparr>)"
proof -
  obtain b a p s' where run: "demo_settle ''provider_not_paid'' demo_reviews = (Inr (Settled ''pending'' b a p), s')" using demo_unpaid_settles by blast
  have o: "clean (rq_outcome (demo_resolve ''provider_not_paid'')) = ''provider_not_paid''" unfolding demo_resolve_def by code_simp
  have i: "pt_id t = rq_transactionId (demo_resolve ''provider_not_paid'')"
    if "c_view (rw_txs mem_review) demo_reviews (rq_transactionId (demo_resolve ''provider_not_paid'')) = Some t" for t
    using demo_rows [OF that] by (simp add: demo_checks)
  from unpaid_resolution_frees [OF mem_review_store o i run]
  show ?thesis using run by (auto simp: demo_checks)
qed


end
