(* ===== verification/Provider_Exclusion.thy ===== *)
theory Provider_Exclusion
  imports Resolution_Books
begin

text \<open>
  Payments of one row that are under way at the same time.  The queue's workers
  (\<open>src/services/providerDispatchClaimService.js\<close>), an executor's own payment
  (\<open>src/services/executorProviderExecutionService.js\<close>) and the fence of a recovery
  (\<open>src/services/apiRuntimeRecoveryPolicy.js\<close>) exclude one another; the save of an old copy
  (\<open>src/services/queueService.js\<close>) breaks this, and a settled row is never paid again.
\<close>

section \<open>An executor's own payment\<close>

text \<open>
  The claim that an executor takes before it pays by itself: it looks for an accepted task of its own.  Who operates
  the row is a field of another view of the document, so that part of the filter is the parameter \<open>mine\<close>.
\<close>

definition executor_claim_filter :: "string \<Rightarrow> ('a provider_tx_scheme \<Rightarrow> bool) \<Rightarrow> 'a provider_tx_scheme \<Rightarrow> bool" where
  "executor_claim_filter gid mine d \<longleftrightarrow> pt_status d = ''accepted'' \<and> mine d \<and> pt_executorGroupId d = Some gid
     \<and> get (dataOf d) ''providerDispatchAttemptId'' = Undef"

definition executor_claim_fields :: "string \<Rightarrow> string \<Rightarrow> int \<Rightarrow> 'a provider_tx_scheme \<Rightarrow> 'a provider_tx_scheme" where
  "executor_claim_fields gid attemptId now d = (set_data [(''providerDispatchAttemptId'', Str attemptId),
     (''providerDispatchStartedAt'', date_val now), (''providerDispatchExecutorGroupId'', Str gid)] d)
     \<lparr>pt_status := ''processing'', pt_updatedAt := now\<rparr>"

definition claim_own_payment ::
    "('s, 'a provider_tx_scheme) coll \<Rightarrow> string \<Rightarrow> ('a provider_tx_scheme \<Rightarrow> bool) \<Rightarrow> string \<Rightarrow> int \<Rightarrow> string \<Rightarrow> ('s, unit) run" where
  "claim_own_payment txs gid mine attemptId now txId =
     bind (c_update txs txId (executor_claim_filter gid mine) (executor_claim_fields gid attemptId now)) (\<lambda>claimedTx.
       throw_if (claimedTx = None) \<lparr>message = ''ALREADY_STARTED'', e_code = [], statusCode = 409\<rparr>)"

section \<open>The steps on a row\<close>

text \<open>
  A state is the store, the attempts whose payment may be under way and the identifiers used so far.  An attempt
  enters with its claim and leaves with its release, with its result or when it is known to be over, as before a
  settlement by an administrator.  The write that marks a row unresolved stands for itself, since its caller has read the
  row some time before.  Any other write may change the row, but not the attempt in it.
\<close>

definition attempt_of :: "'a provider_tx_scheme option \<Rightarrow> jsval" where
  "attempt_of x = (case x of None \<Rightarrow> Undef | Some d \<Rightarrow> get (dataOf d) ''providerDispatchAttemptId'')"

inductive dispatch_step ::
    "('s, review_tx) coll \<Rightarrow> string \<Rightarrow> 's \<times> string set \<times> string set \<Rightarrow> 's \<times> string set \<times> string set \<Rightarrow> bool"
  for txs i where
  claim: "claimProviderDispatch txs a now tx s = (Inr (res, tx'), s') \<Longrightarrow> pt_id tx = i \<Longrightarrow> a \<notin> used \<Longrightarrow> a \<noteq> []
    \<Longrightarrow> dispatch_step txs i (s, going, used) (s', if res = Claimed a now then insert a going else going, insert a used)"
| own: "claim_own_payment txs gid mine a now i s = (r, s') \<Longrightarrow> a \<notin> used \<Longrightarrow> a \<noteq> []
    \<Longrightarrow> dispatch_step txs i (s, going, used) (s', if r = Inr () then insert a going else going, insert a used)"
| release: "releaseProviderDispatchClaim txs a now tx s = (r, s') \<Longrightarrow> pt_id tx = i \<Longrightarrow> a \<in> going
    \<Longrightarrow> dispatch_step txs i (s, going, used) (s', going - {a}, used)"
| mark: "c_update txs i (mark_filter attempt) (mark_fields notes reason now) s = (r, s')
    \<Longrightarrow> dispatch_step txs i (s, going, used) (s', going, used)"
| fence: "buildRecoveryFence tx token now = Inr f \<Longrightarrow> c_update txs i (rf_filter f) (rf_update f) s = (r, s') \<Longrightarrow> token \<notin> used
    \<Longrightarrow> dispatch_step txs i (s, going, used) (s', going, insert token used)"
| unfence: "buildRecoveryFence tx token now = Inr f \<Longrightarrow> c_update txs i (rf_releaseFilter f) (rf_releaseUpdate f) s = (r, s')
    \<Longrightarrow> token \<notin> going \<Longrightarrow> dispatch_step txs i (s, going, used) (s', going, used)"
| over: "dispatch_step txs i (s, going, used) (s', {}, used)"
| other: "attempt_of (c_view txs s' i) = attempt_of (c_view txs s i) \<Longrightarrow> going' \<subseteq> going
    \<Longrightarrow> dispatch_step txs i (s, going, used) (s', going', used)"

definition held_by_one :: "('s, review_tx) coll \<Rightarrow> string \<Rightarrow> 's \<times> string set \<times> string set \<Rightarrow> bool" where
  "held_by_one txs i = (\<lambda>(s, going, used). \<forall>a\<in>going. going = {a} \<and> a \<noteq> [] \<and> attempt_of (c_view txs s i) = Str a)"

lemma held_one: "held_by_one txs i (s, going, used) \<Longrightarrow> a \<in> going \<Longrightarrow> going = {a} \<and> a \<noteq> [] \<and> attempt_of (c_view txs s i) = Str a"
  by (simp add: held_by_one_def)

lemma held_oneI:
  "(\<And>a. a \<in> going \<Longrightarrow> going = {a} \<and> a \<noteq> [] \<and> attempt_of (c_view txs s i) = Str a) \<Longrightarrow> held_by_one txs i (s, going, used)"
  by (simp add: held_by_one_def)

lemma held_none: "held_by_one txs i (s, {}, used)"
  by (simp add: held_by_one_def)

lemma held_same:
  assumes "held_by_one txs i (s, going, used)" "attempt_of (c_view txs s' i) = attempt_of (c_view txs s i)" "going' \<subseteq> going"
  shows "held_by_one txs i (s', going', used')"
proof (rule held_oneI)
  fix a assume a: "a \<in> going'"
  then have "going = {a} \<and> a \<noteq> [] \<and> attempt_of (c_view txs s i) = Str a" using held_one [OF assms(1)] assms(3) by blast
  then show "going' = {a} \<and> a \<noteq> [] \<and> attempt_of (c_view txs s' i) = Str a" using a assms(2,3) by auto
qed

text \<open>A row whose attempt is none of those under way has no payment under way.\<close>

lemma held_free:
  assumes "held_by_one txs i (s, going, used)" "c_view txs s i = Some d"
    and "\<And>a. a \<in> going \<Longrightarrow> a \<noteq> [] \<Longrightarrow> get (dataOf d) ''providerDispatchAttemptId'' \<noteq> Str a"
  shows "going = {}"
  using held_one [OF assms(1)] assms(2,3) by (auto simp: attempt_of_def)

text \<open>An update whose filter lets a row pass only when none is under way, or which leaves the attempt alone.\<close>

lemma held_update:
  assumes "coll_ok txs" "held_by_one txs i (s, going, used)" "c_update txs i p f s = (r, s')"
    and "\<And>d. c_view txs s i = Some d \<Longrightarrow> p d \<Longrightarrow> going = {} \<or> attempt_of (Some (f d)) = attempt_of (Some d)"
  shows "held_by_one txs i (s', going, used')"
proof (cases "going = {}")
  case False
  have "attempt_of (c_view txs s' i) = attempt_of (c_view txs s i)"
  proof (cases r)
    case (Inl e)
    then show ?thesis using c_update_fail [OF assms(1)] assms(3) by simp
  next
    case (Inr x)
    show ?thesis
    proof (cases x)
      case None
      then show ?thesis using c_update_None(1) [OF assms(1)] assms(3) Inr by simp
    next
      case (Some d')
      obtain d where "c_view txs s i = Some d" "p d" "c_view txs s' = (c_view txs s)(i \<mapsto> f d)"
        using assms(3) unfolding Inr Some by (rule c_update_Some [OF assms(1)])
      then show ?thesis using assms(4) False by simp
    qed
  qed
  then show ?thesis by (rule held_same [OF assms(2)]) simp
qed (simp add: held_none)

lemma claim_not_granted:
  assumes "coll_ok txs" "claimProviderDispatch txs a now tx s = (Inr (res, tx'), s')" "res \<noteq> Claimed a now"
  shows "c_view txs s' = c_view txs s"
proof (cases "pt_executorGroupId tx")
  case None
  then show ?thesis using assms(2) by (simp add: claimProviderDispatch_def)
next
  case (Some gid)
  obtain r s1 where u: "c_update txs (pt_id tx) (claim_filter gid) (claim_fields gid a now) s = (r, s1)" by fastforce
  then show ?thesis
    using assms(2,3) c_update_fail [OF assms(1)] c_update_None(1) [OF assms(1)]
    by (cases r) (auto simp: claimProviderDispatch_def Some catch_run bind_run ret_def split: if_splits option.splits)
qed

lemma claim_attempt: "claim_filter gid d \<Longrightarrow> a \<noteq> [] \<Longrightarrow> get (dataOf d) ''providerDispatchAttemptId'' \<noteq> Str a"
  by (auto simp: claim_filter_def nullish_def simp del: get.simps)

lemma held_claim:
  assumes "coll_ok txs" "held_by_one txs i (s, going, used)" "a \<noteq> []" "pt_id tx = i"
    and "claimProviderDispatch txs a now tx s = (Inr (res, tx'), s')"
  shows "held_by_one txs i (s', if res = Claimed a now then insert a going else going, used')"
proof (cases "res = Claimed a now")
  case True
  have granted: "claimProviderDispatch txs a now tx s = (Inr (Claimed a now, tx'), s')" using assms(5) True by simp
  obtain gid d where d: "c_view txs s (pt_id tx) = Some d" "claim_filter gid d"
    "c_view txs s' = (c_view txs s)(pt_id tx \<mapsto> claim_fields gid a now d)"
    by (rule claim_granted [OF assms(1) granted])
  have "going = {}" using held_free [OF assms(2)] d(1) claim_attempt [OF d(2)] unfolding assms(4) by metis
  then show ?thesis using True d(3) assms(3,4) by (simp add: held_by_one_def attempt_of_def get_claimed del: get.simps)
next
  case False
  have "c_view txs s' = c_view txs s" by (rule claim_not_granted [OF assms(1,5) False])
  then have "held_by_one txs i (s', going, used')" by (intro held_same [OF assms(2)]) simp_all
  then show ?thesis using False by simp
qed

lemma own_granted:
  assumes "coll_ok txs" "claim_own_payment txs gid mine a now i s = (Inr (), s')"
  obtains d where "c_view txs s i = Some d" "executor_claim_filter gid mine d"
    "c_view txs s' = (c_view txs s)(i \<mapsto> executor_claim_fields gid a now d)"
proof -
  obtain r s1 where u: "c_update txs i (executor_claim_filter gid mine) (executor_claim_fields gid a now) s = (r, s1)" by fastforce
  with assms(2) obtain y where r: "r = Inr (Some y)" "s1 = s'"
    by (cases r) (auto simp: claim_own_payment_def bind_run split: if_splits)
  show thesis using u unfolding r by (rule c_update_Some [OF assms(1)]) (rule that)
qed

lemma own_refused:
  assumes "coll_ok txs" "claim_own_payment txs gid mine a now i s = (Inl e, s')"
  shows "c_view txs s' = c_view txs s"
proof -
  obtain r s1 where u: "c_update txs i (executor_claim_filter gid mine) (executor_claim_fields gid a now) s = (r, s1)" by fastforce
  then show ?thesis
    using assms(2) c_update_fail [OF assms(1)] c_update_None(1) [OF assms(1)]
    by (cases r) (auto simp: claim_own_payment_def bind_run split: if_splits)
qed

lemma attempt_own: "attempt_of (Some (executor_claim_fields gid a now d)) = Str a"
proof -
  have "dataOf (executor_claim_fields gid a now d) = dataOf (set_data [(''providerDispatchAttemptId'', Str a),
     (''providerDispatchStartedAt'', date_val now), (''providerDispatchExecutorGroupId'', Str gid)] d)"
    by (simp add: executor_claim_fields_def dataOf_def)
  then show ?thesis by (simp add: attempt_of_def get_set_data del: get.simps)
qed

lemma held_own:
  assumes "coll_ok txs" "held_by_one txs i (s, going, used)" "a \<noteq> []" "claim_own_payment txs gid mine a now i s = (r, s')"
  shows "held_by_one txs i (s', if r = Inr () then insert a going else going, used')"
proof (cases r)
  case (Inl e)
  have "c_view txs s' = c_view txs s" using own_refused [OF assms(1)] assms(4) Inl by simp
  then have "held_by_one txs i (s', going, used')" by (intro held_same [OF assms(2)]) simp_all
  then show ?thesis using Inl by simp
next
  case (Inr u)
  obtain d where d: "c_view txs s i = Some d" "executor_claim_filter gid mine d"
    "c_view txs s' = (c_view txs s)(i \<mapsto> executor_claim_fields gid a now d)"
    using own_granted [OF assms(1)] assms(4) Inr by (metis old.unit.exhaust)
  have "going = {}" using held_free [OF assms(2) d(1)] d(2) by (simp add: executor_claim_filter_def)
  then show ?thesis using Inr d(3) assms(3) by (simp add: held_by_one_def attempt_own)
qed

text \<open>The fence is put only on a row without an attempt, and taken only from one that carries its token.\<close>

lemma fence_free:
  assumes "buildRecoveryFence tx token now = Inr f"
  shows "rf_filter f d \<Longrightarrow> a \<noteq> [] \<Longrightarrow> get (dataOf d) ''providerDispatchAttemptId'' \<noteq> Str a"
    and "rf_releaseFilter f d \<Longrightarrow> get (dataOf d) ''providerDispatchAttemptId'' = Str token"
proof -
  have p: "pristine tx" using assms by (simp add: buildRecoveryFence_def split: if_splits)
  then have f: "rf_filter f d \<Longrightarrow> pt_data d = pt_data tx" "rf_releaseFilter f d \<Longrightarrow> pt_data d = Some (fenced_data tx token now)"
    using assms by (auto simp: buildRecoveryFence_def Let_def)
  show "rf_filter f d \<Longrightarrow> a \<noteq> [] \<Longrightarrow> get (dataOf d) ''providerDispatchAttemptId'' \<noteq> Str a"
    using p f(1) by (auto simp: pristine_def hasClaim_def dataOf_def Let_def simp del: get.simps)
  assume "rf_releaseFilter f d"
  then have "dataOf d = Obj (fenced_data tx token now)" using f(2) by (simp add: dataOf_def)
  then show "get (dataOf d) ''providerDispatchAttemptId'' = Str token" by (simp add: fenced_get del: get.simps)
qed

lemma held_step:
  assumes "dispatch_step txs i x y" "coll_ok txs" "held_by_one txs i x"
  shows "held_by_one txs i y"
  using assms
proof (induction rule: dispatch_step.induct)
  case (claim a now tx s res tx' s' used going)
  show ?case by (rule held_claim [OF claim(5,6,4,2,1)])
next
  case (own gid mine a now s r s' used going)
  show ?case by (rule held_own [OF own(4,5,3,1)])
next
  case (release a now tx s r s' going used)
  have "going - {a} = {}" using held_one [OF release(5,3)] by blast
  then show ?case using held_none by metis
next
  case (mark attempt nts reason now s r s' going used)
  show ?case
    by (rule held_update [OF mark(2,3,1)]) (simp add: attempt_of_def mark_fields_def get_set_data del: get.simps)
next
  case (fence tx token now f s r s' used going)
  show ?case by (rule held_update [OF fence(4,5,2)]) (use held_free [OF fence(5)] fence_free(1) [OF fence(1)] in blast)
next
  case (unfence tx token now f s r s' going used)
  show ?case
  proof (rule held_update [OF unfence(4,5,2)])
    fix d assume d: "c_view txs s i = Some d" "rf_releaseFilter f d"
    have "going = {}" by (rule held_free [OF unfence(5) d(1)]) (use fence_free(2) [OF unfence(1) d(2)] unfence(3) in auto)
    then show "going = {} \<or> attempt_of (Some (rf_releaseUpdate f d)) = attempt_of (Some d)" by (rule disjI1)
  qed
next
  case (over s going used s')
  show ?case by (rule held_none)
next
  case (other s' s going' going used)
  show ?case by (rule held_same [OF other(4,1,2)])
qed

text \<open>
  C13: However the claims of the queue's workers and of executors, releases, marks, recovery fences, results and
  settlements on a row interleave, at most one payment of it is under way, the row carries its attempt, and no
  claim of either kind finds the row free.  A payment is taken to be over when an administrator settles it, and a write
  outside these operations not to change the attempt of the row; the save of an old copy does, as the next section shows.
\<close>

theorem provider_dispatch_exclusive:
  assumes "coll_ok txs" "(dispatch_step txs i)\<^sup>*\<^sup>* (s, {}, used) (s', going, used')"
  shows "(\<forall>a\<in>going. \<forall>b\<in>going. a = b)
    \<and> (\<forall>a\<in>going. \<exists>d. c_view txs s' i = Some d \<and> get (dataOf d) ''providerDispatchAttemptId'' = Str a
         \<and> (\<forall>gid mine. \<not> claim_filter gid d \<and> \<not> executor_claim_filter gid mine d))"
proof -
  have "held_by_one txs i (s', going, used')"
    using assms(2) by (induction rule: rtranclp_induct) (use held_step [OF _ assms(1)] held_none in auto)
  then have h: "going = {a} \<and> a \<noteq> [] \<and> attempt_of (c_view txs s' i) = Str a" if "a \<in> going" for a
    using that by (auto simp: held_by_one_def)
  have "\<exists>d. c_view txs s' i = Some d \<and> get (dataOf d) ''providerDispatchAttemptId'' = Str a
       \<and> (\<forall>gid mine. \<not> claim_filter gid d \<and> \<not> executor_claim_filter gid mine d)" if a: "a \<in> going" for a
  proof -
    obtain d where d: "c_view txs s' i = Some d" "get (dataOf d) ''providerDispatchAttemptId'' = Str a"
      using h [OF a] by (cases "c_view txs s' i") (simp_all add: attempt_of_def del: get.simps)
    moreover have "\<not> claim_filter gid d" for gid using claim_attempt d(2) h [OF a] by blast
    moreover have "\<not> executor_claim_filter gid mine d" for gid mine using d(2) by (simp add: executor_claim_filter_def)
    ultimately show ?thesis by blast
  qed
  then show ?thesis using h by blast
qed

section \<open>The save of an old copy\<close>

text \<open>
  A worker whose payment the provider has refused releases its claim, does some more work, and then puts the
  transaction back into the queue by saving its copy of the document, whose data have no claim.
\<close>

lemma cleared_get: "k \<notin> set marker_fields \<Longrightarrow> get (dataOf (clearClaimOnDoc tx)) k = get (dataOf tx) k"
  "k \<in> set marker_fields \<Longrightarrow> get (dataOf (clearClaimOnDoc tx)) k = Undef"
  by (simp_all add: clearClaimOnDoc_def get_unset_data del: get.simps)

text \<open>A document without a claim, result or settlement: its money is free.\<close>

lemma unclaimed_free:
  assumes "dataOf d = dataOf (clearClaimOnDoc tx)" "get (dataOf tx) ''providerResultUnresolved'' \<noteq> Bool True"
    and "resolutionOutcome tx = []" "data_str tx ''providerDispatchResult'' = []"
  shows "\<not> hasDispatchMarker d" "\<not> providerMoneyHold d" "\<not> automaticPaymentBlocked d"
    "pt_status d = ''processing'' \<Longrightarrow> pt_executorGroupId d = Some gid \<Longrightarrow> claim_filter gid d"
proof -
  have m: "get (dataOf d) ''providerDispatchStartedAt'' = Undef" "get (dataOf d) ''providerDispatchAttemptId'' = Undef"
    unfolding assms(1) by (simp_all add: cleared_get marker_fields_def del: get.simps)
  have k: "get (dataOf d) k = get (dataOf tx) k" if "k \<notin> set marker_fields" for k unfolding assms(1) by (rule cleared_get(1) [OF that])
  have u: "\<not> isProviderResultUnresolved d" using assms(2) k by (simp add: isProviderResultUnresolved_def marker_fields_def del: get.simps)
  have o: "resolutionOutcome d = []" using assms(3) k by (simp add: resolutionOutcome_def data_str_def marker_fields_def del: get.simps)
  have r: "data_str d ''providerDispatchResult'' = []" using assms(4) k by (simp add: data_str_def marker_fields_def del: get.simps)
  have trim: "trim [] = []" by code_simp
  show n: "\<not> hasDispatchMarker d" using m trim by (simp add: hasDispatchMarker_def data_str_def or_else_def del: get.simps)
  then show h: "\<not> providerMoneyHold d" using u o r by (simp add: providerMoneyHold_def needsUnresolvedHold_def Let_def)
  show "\<not> automaticPaymentBlocked d" using n h by (simp add: automaticPaymentBlocked_def)
  show "pt_status d = ''processing'' \<Longrightarrow> pt_executorGroupId d = Some gid \<Longrightarrow> claim_filter gid d"
    using m u by (simp add: claim_filter_def nullish_def isProviderResultUnresolved_def del: get.simps)
qed

lemma release_answers:
  assumes "answers txs" "coll_ok txs" "c_view txs s (pt_id tx) = Some d" "release_filter a d" "a \<noteq> []" "pt_id tx \<noteq> []"
  obtains s' where "releaseProviderDispatchClaim txs a now tx s = (Inr (True, clearClaimOnDoc tx), s')"
    "c_view txs s' = (c_view txs s)(pt_id tx \<mapsto> release_fields now d)"
proof -
  obtain s' where "c_update txs (pt_id tx) (release_filter a) (release_fields now) s = (Inr (Some (release_fields now d)), s')"
    "c_view txs s' = (c_view txs s)(pt_id tx \<mapsto> release_fields now d)"
    using assms(1,2,3,4) by (rule update_answers)
  then show thesis using that assms(5,6) by (simp add: releaseProviderDispatchClaim_def bind_run ret_def)
qed

lemma claim_answers:
  assumes "answers txs" "coll_ok txs" "c_view txs s (pt_id tx) = Some d" "claim_filter gid d" "pt_executorGroupId tx = Some gid" "pt_id tx \<noteq> []"
  obtains s' where "claimProviderDispatch txs b now tx s = (Inr (Claimed b now, applyClaimToDoc b now tx), s')"
    "c_view txs s' = (c_view txs s)(pt_id tx \<mapsto> claim_fields gid b now d)"
proof -
  obtain s' where "c_update txs (pt_id tx) (claim_filter gid) (claim_fields gid b now) s = (Inr (Some (claim_fields gid b now d)), s')"
    "c_view txs s' = (c_view txs s)(pt_id tx \<mapsto> claim_fields gid b now d)"
    using assms(1,2,3,4) by (rule update_answers)
  then show thesis using that assms(5,6) by (simp add: claimProviderDispatch_def catch_run bind_run ret_def)
qed

lemma requeue_answers:
  assumes "answers (rw_txs w)" "coll_ok (rw_txs w)" "c_view (rw_txs w) s (pt_id tx) = Some d"
  obtains s' e where "releaseFailedApiExecutionToPending w now failureNote tx s = (Inr (), s')" "c_view (rw_txs w) s' (pt_id tx) = Some e"
    "pt_status e = ''pending''" "pt_data e = pt_data tx"
proof -
  let ?u = "tx\<lparr>pt_status := ''pending'', pt_adminNotes := appendApiNote (pt_adminNotes tx) failureNote, pt_executorGroupId := None, pt_executorName := []\<rparr>"
  obtain s' where "c_update (rw_txs w) (pt_id tx) (\<lambda>_. True) (saved_fields now ?u) s = (Inr (Some (saved_fields now ?u d)), s')"
    "c_view (rw_txs w) s' = (c_view (rw_txs w) s)(pt_id tx \<mapsto> saved_fields now ?u d)"
    using assms by (rule update_answers) simp
  then show thesis
    by (intro that [of s' "saved_fields now ?u d"])
       (simp_all add: releaseFailedApiExecutionToPending_def save_review_def bind_run saved_fields_def)
qed

text \<open>
  C16: The claim of a worker is erased by another one that has given the row up before.  Worker A holds attempt
  \<open>a\<close> and releases it, worker B is granted attempt \<open>b\<close> and pays, then A puts its copy back into the queue: on a
  database that answers all three succeed, and although the payment of B is under way the row is pending, shows no
  dispatch, its refund is not refused, its automatic payment is not blocked, and given to any executor company it passes the
  filter of a third claim.
\<close>

theorem late_save_erases_claim:
  assumes "coll_ok (rw_txs w)" "answers (rw_txs w)"
    and "c_view (rw_txs w) s i = Some d" "release_filter a d" "pt_executorGroupId d = Some gid" "a \<noteq> []" "i \<noteq> []"
    and "pt_id txA = i" "pt_id txB = i" "pt_executorGroupId txB = Some gid"
    and "get (dataOf txA) ''providerResultUnresolved'' \<noteq> Bool True" "resolutionOutcome txA = []" "data_str txA ''providerDispatchResult'' = []"
  shows "\<exists>txA' s1 txB' s2 s3 e.
      releaseProviderDispatchClaim (rw_txs w) a t1 txA s = (Inr (True, txA'), s1)
    \<and> claimProviderDispatch (rw_txs w) b t2 txB s1 = (Inr (Claimed b t2, txB'), s2)
    \<and> releaseFailedApiExecutionToPending w t3 failureNote txA' s2 = (Inr (), s3)
    \<and> c_view (rw_txs w) s3 i = Some e \<and> pt_status e = ''pending'' \<and> \<not> hasDispatchMarker e
    \<and> refundBlockedByUnresolvedProvider (Some e) = None
    \<and> (\<forall>g. let r = e\<lparr>pt_status := ''processing'', pt_executorGroupId := Some g\<rparr> in \<not> automaticPaymentBlocked r \<and> claim_filter g r)"
proof -
  obtain s1 where s1: "releaseProviderDispatchClaim (rw_txs w) a t1 txA s = (Inr (True, clearClaimOnDoc txA), s1)"
    "c_view (rw_txs w) s1 = (c_view (rw_txs w) s)(i \<mapsto> release_fields t1 d)"
    using release_answers [OF assms(2,1) _ assms(4,6)] assms(3,7,8) by metis
  have "claim_filter gid (release_fields t1 d)" by (rule released_free [OF assms(4,5)])
  then obtain s2 where s2: "claimProviderDispatch (rw_txs w) b t2 txB s1 = (Inr (Claimed b t2, applyClaimToDoc b t2 txB), s2)"
    "c_view (rw_txs w) s2 = (c_view (rw_txs w) s1)(i \<mapsto> claim_fields gid b t2 (release_fields t1 d))"
    using claim_answers [OF assms(2,1) _ _ assms(10)] s1(2) assms(7,9) by (metis fun_upd_same)
  have "c_view (rw_txs w) s2 (pt_id (clearClaimOnDoc txA)) = Some (claim_fields gid b t2 (release_fields t1 d))" by (simp add: s2(2) assms(8))
  then obtain s3 e where s3: "releaseFailedApiExecutionToPending w t3 failureNote (clearClaimOnDoc txA) s2 = (Inr (), s3)"
    "c_view (rw_txs w) s3 i = Some e" "pt_status e = ''pending''" "pt_data e = pt_data (clearClaimOnDoc txA)"
    using requeue_answers [OF assms(2,1)] assms(8) by (metis clear_fields(1))
  have same: "dataOf e = dataOf (clearClaimOnDoc txA)" using s3(4) by (simp add: dataOf_def)
  let ?r = "\<lambda>g. e\<lparr>pt_status := ''processing'', pt_executorGroupId := Some g\<rparr>"
  have sameR: "dataOf (?r g) = dataOf (clearClaimOnDoc txA)" for g unfolding same [symmetric] by (simp add: dataOf_def)
  note free = unclaimed_free [OF same assms(11-13)] and freeR = unclaimed_free [OF sameR assms(11-13)]
  have "\<not> automaticPaymentBlocked (?r g) \<and> claim_filter g (?r g)" for g using freeR(3) freeR(4) by simp
  then show ?thesis using s1(1) s2(1) s3(1-3) free(1,2) by (auto simp: refundBlockedByUnresolvedProvider_def Let_def)
qed

section \<open>A settled row is not paid again\<close>

lemma unpaid_data:
  assumes "pt_data d = pt_data (unpaid_doc rq evidence nt current)"
  shows "resolutionOutcome d = ''provider_not_paid''" "truthy (get (dataOf d) ''providerResolutionOutcome'')" "\<not> isProviderResultUnresolved d"
    "\<not> hasDispatchMarker d" "\<not> is_date (get (dataOf d) ''providerDispatchStartedAt'')"
proof -
  have d: "dataOf d = dataOf (unpaid_doc rq evidence nt current)" using assms by (simp add: dataOf_def)
  have g: "get (dataOf d) ''providerResolutionOutcome'' = Str ''provider_not_paid''" "get (dataOf d) ''providerResultUnresolved'' = Bool False"
    "get (dataOf d) ''providerDispatchStartedAt'' = Undef" "get (dataOf d) ''providerDispatchAttemptId'' = Undef"
    by (simp_all add: d unpaid_doc_def get_set_data resolved_data_def clearClaimOnDoc_def get_unset_data marker_fields_def del: get.simps)
  have trim: "trim [] = []" by code_simp
  show "resolutionOutcome d = ''provider_not_paid''" "truthy (get (dataOf d) ''providerResolutionOutcome'')" "\<not> isProviderResultUnresolved d"
    "\<not> is_date (get (dataOf d) ''providerDispatchStartedAt'')"
    using g by (simp_all add: resolutionOutcome_def data_str_def or_else_def isProviderResultUnresolved_def is_date_def del: get.simps)
  show "\<not> hasDispatchMarker d" using g trim by (simp add: hasDispatchMarker_def data_str_def or_else_def del: get.simps)
qed

lemma guard_refuses:
  assumes "answers txs" "coll_ok txs" "c_view txs q i = Some d" "i \<noteq> []"
    and "\<not> hasDispatchMarker d" "\<not> isProviderResultUnresolved d" "automaticPaymentBlocked d"
  shows "\<exists>q'. guardAutomaticProviderRedispatch txs True now note' i q = (Inr (True, ''provider_already_dispatched''), q')"
proof -
  obtain q' where "c_get txs i q = (Inr (Some d), q')" using get_answers [OF assms(1,2)] assms(3) by metis
  moreover have "\<not> needsUnresolvedHold d" using assms(5) by (simp add: needsUnresolvedHold_def)
  ultimately show ?thesis using assms(4,6,7) by (simp add: guardAutomaticProviderRedispatch_def catch_run bind_run ret_def)
qed

text \<open>
  C17: A row of which an administrator has settled that the provider did not pay is not paid by the queue any more.
  Once it has been routed to an executor company again, that is in processing with the data of the settlement, the guard of
  the queue answers that its payment has been sent already, on a database that answers; and the row is stuck: its refund is
  refused, it may not be reviewed again, and it is not on the list for review.
\<close>

theorem unpaid_row_not_repaid:
  assumes "review_store w" "clean (rq_outcome rq) = ''provider_not_paid''"
    and "\<And>t. c_view (rw_txs w) s (rq_transactionId rq) = Some t \<Longrightarrow> pt_id t = rq_transactionId rq"
    and "resolveProviderResult txn requires parseDate w rq s = (Inr (Settled st b a p), s')"
    and "answers (rw_txs w)" "rq_transactionId rq \<noteq> []"
  shows "\<exists>t. c_view (rw_txs w) s' (rq_transactionId rq) = Some t \<and> (\<forall>d. pt_data d = pt_data t \<and> pt_status d = ''processing'' \<longrightarrow>
      (\<forall>q now text. c_view (rw_txs w) q (rq_transactionId rq) = Some d \<longrightarrow>
         (\<exists>q'. guardAutomaticProviderRedispatch (rw_txs w) True now text (rq_transactionId rq) q = (Inr (True, ''provider_already_dispatched''), q')))
      \<and> refundBlockedByUnresolvedProvider (Some d) = Some (409, UNRESOLVED_CODE)
      \<and> (\<forall>now. \<not> canReviewProviderOperation parseDate now d) \<and> \<not> unresolvedProviderResultFilter d)"
proof -
  obtain t evidence nt current where t: "c_view (rw_txs w) s' (rq_transactionId rq) = Some t"
    "pt_data t = pt_data (unpaid_doc rq evidence nt current)" using unpaid_row [OF assms(1-4)] by metis
  have "(\<forall>q now text. c_view (rw_txs w) q (rq_transactionId rq) = Some d \<longrightarrow>
         (\<exists>q'. guardAutomaticProviderRedispatch (rw_txs w) True now text (rq_transactionId rq) q = (Inr (True, ''provider_already_dispatched''), q')))
      \<and> refundBlockedByUnresolvedProvider (Some d) = Some (409, UNRESOLVED_CODE)
      \<and> (\<forall>now. \<not> canReviewProviderOperation parseDate now d) \<and> \<not> unresolvedProviderResultFilter d"
    if d: "pt_data d = pt_data t" "pt_status d = ''processing''" for d
  proof -
    note f = unpaid_data [OF d(1) [unfolded t(2)]]
    have h: "providerMoneyHold d" by (rule settled_hold) (use f(1) d(2) in simp_all)
    then have auto: "automaticPaymentBlocked d" by (simp add: automaticPaymentBlocked_def)
    show ?thesis
      using guard_refuses [OF assms(5) review_storeD(1) [OF assms(1)] _ assms(6) f(4,3) auto] h f(2,3,5)
      by (auto simp: refundBlockedByUnresolvedProvider_def canReviewProviderOperation_def unresolvedProviderResultFilter_def
          isProviderResultUnresolved_def Let_def simp del: get.simps)
  qed
  then show ?thesis using t(1) by blast
qed

section \<open>Examples\<close>

lemma mem_rows_ok: "coll_ok (rw_txs mem_review)" "answers (rw_txs mem_review)"
  by (rule review_storeD(1) [OF mem_review_store]) (simp add: mem_review_def mem_coll_answers)

definition open_reviews :: "review_tx \<Rightarrow> review_db" where
  "open_reviews d = demo_reviews\<lparr>vd_txs := [(''t'', d)]\<rparr>"

lemma open_row: "c_view (rw_txs mem_review) (open_reviews d) ''t'' = Some d"
  by (simp add: open_reviews_def mem_review_ops)

lemma fresh_row:
  "pt_id (demo_review None) = ''t''" "pt_executorGroupId (demo_review None) = Some ''g''" "pt_status (demo_review None) = ''processing''"
  "get (dataOf (demo_review None)) k = Undef" "claim_filter ''g'' (demo_review None)"
  by (simp_all add: demo_review_def dataOf_def claim_filter_def nullish_def)

theorem provider_dispatch_exclusive_witness:
  "\<exists>s'. (dispatch_step (rw_txs mem_review) ''t'')\<^sup>*\<^sup>* (open_reviews (demo_review None), {}, {}) (s', {''a''}, {''a''})
    \<and> (\<exists>d. c_view (rw_txs mem_review) s' ''t'' = Some d \<and> get (dataOf d) ''providerDispatchAttemptId'' = Str ''a'')"
proof -
  obtain s' where c: "claimProviderDispatch (rw_txs mem_review) ''a'' 5 (demo_review None) (open_reviews (demo_review None))
      = (Inr (Claimed ''a'' 5, applyClaimToDoc ''a'' 5 (demo_review None)), s')"
    using claim_answers [OF mem_rows_ok(2,1) _ fresh_row(5,2), of "open_reviews (demo_review None)" "''a''" 5] by (auto simp: fresh_row open_row)
  have "dispatch_step (rw_txs mem_review) ''t'' (open_reviews (demo_review None), {}, {}) (s', {''a''}, {''a''})"
    using dispatch_step.claim [OF c, of "''t''" "{}" "{}"] by (simp add: fresh_row)
  then have run: "(dispatch_step (rw_txs mem_review) ''t'')\<^sup>*\<^sup>* (open_reviews (demo_review None), {}, {}) (s', {''a''}, {''a''})" by blast
  show ?thesis using run provider_dispatch_exclusive [OF mem_rows_ok(1) run] by auto
qed

theorem late_save_erases_claim_witness:
  "\<exists>s3 e. c_view (rw_txs mem_review) s3 ''t'' = Some e \<and> pt_status e = ''pending'' \<and> \<not> hasDispatchMarker e \<and> refundBlockedByUnresolvedProvider (Some e) = None"
proof -
  let ?d = "claim_fields ''g'' ''a'' 5 (demo_review None)"
  have f: "release_filter ''a'' ?d" by (simp add: release_filter_def get_claimed fresh_row del: get.simps)
  have g: "pt_executorGroupId ?d = Some ''g''" by (simp add: fresh_row)
  have o: "resolutionOutcome (demo_review None) = []" "data_str (demo_review None) ''providerDispatchResult'' = []"
    by (simp_all add: resolutionOutcome_def data_str_def fresh_row or_else_def del: get.simps)
  have u: "get (dataOf (demo_review None)) ''providerResultUnresolved'' \<noteq> Bool True" by (simp add: fresh_row del: get.simps)
  from late_save_erases_claim [OF mem_rows_ok open_row f g _ _ fresh_row(1) fresh_row(1) fresh_row(2) u o, of 6 "''b''" 7 8 "[]"]
  show ?thesis by auto
qed

theorem unpaid_row_not_repaid_witness:
  "\<exists>d q'. pt_status d = ''processing'' \<and> refundBlockedByUnresolvedProvider (Some d) = Some (409, UNRESOLVED_CODE)
    \<and> guardAutomaticProviderRedispatch (rw_txs mem_review) True 9 [] ''t'' (open_reviews d) = (Inr (True, ''provider_already_dispatched''), q')"
proof -
  obtain b a p s' where run: "demo_settle ''provider_not_paid'' demo_reviews = (Inr (Settled ''pending'' b a p), s')" using demo_unpaid_settles by blast
  have o: "clean (rq_outcome (demo_resolve ''provider_not_paid'')) = ''provider_not_paid''" unfolding demo_resolve_def by code_simp
  have i: "pt_id t = rq_transactionId (demo_resolve ''provider_not_paid'')"
    if "c_view (rw_txs mem_review) demo_reviews (rq_transactionId (demo_resolve ''provider_not_paid'')) = Some t" for t
    using demo_rows [OF that] by (simp add: demo_checks)
  have n: "rq_transactionId (demo_resolve ''provider_not_paid'') \<noteq> []" by (simp add: demo_checks)
  obtain t :: review_tx where t: "\<forall>d. pt_data d = pt_data t \<and> pt_status d = ''processing'' \<longrightarrow>
      (\<forall>q now text. c_view (rw_txs mem_review) q ''t'' = Some d \<longrightarrow>
         (\<exists>q'. guardAutomaticProviderRedispatch (rw_txs mem_review) True now text ''t'' q = (Inr (True, ''provider_already_dispatched''), q')))
      \<and> refundBlockedByUnresolvedProvider (Some d) = Some (409, UNRESOLVED_CODE)"
    using unpaid_row_not_repaid [OF mem_review_store o i run mem_rows_ok(2) n, unfolded demo_checks, simplified] by blast
  let ?d = "t\<lparr>pt_status := ''processing''\<rparr>"
  have "\<exists>q'. guardAutomaticProviderRedispatch (rw_txs mem_review) True 9 [] ''t'' (open_reviews ?d) = (Inr (True, ''provider_already_dispatched''), q')"
    "refundBlockedByUnresolvedProvider (Some ?d) = Some (409, UNRESOLVED_CODE)"
    using t [rule_format, of ?d] open_row by simp_all
  then show ?thesis by (intro exI [of _ ?d]) auto
qed

end
