(* ===== verification/Executor_Tasks.thy ===== *)
theory Executor_Tasks
  imports Mongo_Session Pricing Executor_Ledger Provider_Dispatch
begin

text \<open>
  What an executor does with a task that it has accepted: change its amount, cancel it, return it to the administration
  (\<open>src/services/executorTransactionMutationService.js\<close>).  The four collections are parameters with the laws of
  \<open>coll_ok\<close>.  The texts of the notes and the clock are fields of a request.
\<close>

section \<open>Documents\<close>

text \<open>
  A transaction as its executor sees it, on top of the fields that the dispatch claims use.  An empty text stands for a
  missing one.  A customer is found by phone number or web user name, so both are fields of the account.
\<close>

record task_tx = provider_tx +
  kt_costLYD :: jsnum
  kt_exchangeRate :: jsnum
  kt_transferType :: jsval
  kt_operatorId :: "string option"
  kt_companyId :: "string option"
  kt_userId :: string
  kt_managerGroupId :: "string option"
  kt_assigned :: "(string \<times> string \<times> int) option"
  kt_broadcastMessages :: "string list"
  kt_cancellation :: "(string \<times> string \<times> int) option"

record task_owner = account +
  ow_id :: string
  ow_creditLimit :: jsnum
  ow_phone :: string
  ow_webUsername :: string

record employee =
  em_id :: string
  em_name :: string

record 's task_world =
  kw_txs :: "('s, task_tx) coll"
  kw_employees :: "('s, employee) coll"
  kw_companies :: "('s, task_owner) coll"
  kw_users :: "('s, task_owner) coll"

section \<open>Shared steps\<close>

text \<open>The texts of the errors are replaced by names.\<close>

definition ExecutorTransactionError :: "string \<Rightarrow> nat \<Rightarrow> string \<Rightarrow> error" where
  "ExecutorTransactionError msg status code = \<lparr>message = msg, e_code = code, statusCode = status\<rparr>"

definition task_error :: "string \<Rightarrow> nat \<Rightarrow> error" where
  "task_error msg status = ExecutorTransactionError msg status []"

definition appendAdminNote :: "string \<Rightarrow> task_tx \<Rightarrow> task_tx" where
  "appendAdminNote note tx = (let cleanNote = trim note; current = pt_adminNotes tx
     in tx\<lparr>pt_adminNotes := (if cleanNote = [] then current
          else if current \<noteq> [] then current @ [CHR 10] @ cleanNote else cleanNote)\<rparr>)"

definition join_notes :: "string \<Rightarrow> string \<Rightarrow> string" where
  "join_notes current note = join_with [CHR 10] (filter (\<lambda>s. s \<noteq> []) [current, note])"

definition names_customer :: "string \<Rightarrow> task_owner \<Rightarrow> bool" where
  "names_customer userId acc \<longleftrightarrow> ow_phone acc = userId \<or> ow_webUsername acc = userId"

definition inc_owner :: "jsnum \<Rightarrow> task_owner \<Rightarrow> task_owner" where
  "inc_owner amount acc = acc\<lparr>balance := n_add (balance acc) amount\<rparr>"

definition find_employee :: "'s task_world \<Rightarrow> string \<Rightarrow> ('s, employee) run" where
  "find_employee w i = bind (c_get (kw_employees w) i) (\<lambda>found. case found of
     None \<Rightarrow> throw (task_error ''EXECUTOR_ACCOUNT_UNAVAILABLE'' 401) | Some emp \<Rightarrow> ret emp)"

definition run_by :: "employee \<Rightarrow> task_tx \<Rightarrow> bool" where
  "run_by emp tx \<longleftrightarrow> pt_status tx = ''accepted'' \<and> kt_operatorId tx = Some (em_id emp)"

section \<open>Editing the amount\<close>

record amount_request =
  aq_transactionId :: string
  aq_executorId :: string
  aq_newAmount :: jsval
  aq_note :: string
  aq_now :: int

definition actual_rate :: "task_tx \<Rightarrow> jsnum" where
  "actual_rate tx =
     (let oldAmount = or_zero (pt_amount tx); oldCost = or_zero (kt_costLYD tx)
      in if truthy (Num (kt_exchangeRate tx)) then kt_exchangeRate tx
         else if n_lt (Fin 0) oldAmount \<and> n_lt (Fin 0) oldCost
         then if isSourceToLydRate (kt_transferType tx) then n_div oldCost oldAmount else n_div oldAmount oldCost
         else Fin 0)"

text \<open>The owner of a transaction pays a higher cost, within the credit limit, and gets back the difference to a lower one.\<close>

definition charge_owner :: "('s, task_owner) coll \<Rightarrow> string \<Rightarrow> task_owner \<Rightarrow> jsnum \<Rightarrow> ('s, unit) run" where
  "charge_owner owners i acc diffCost =
     (if n_lt (Fin 0) diffCost
      then bind (c_update owners i (\<lambda>d. n_le (n_sub diffCost (or_zero (ow_creditLimit acc))) (balance d)) (inc_owner (n_neg diffCost)))
             (\<lambda>updated. throw_if (updated = None) (task_error ''CUSTOMER_BALANCE_TOO_LOW'' 409))
      else if n_lt diffCost (Fin 0)
      then bind (c_update owners i (\<lambda>_. True) (inc_owner (n_abs diffCost)))
             (\<lambda>refunded. throw_if (refunded = None) (task_error ''CUSTOMER_REFUND_FAILED'' 409))
      else ret ())"

definition adjust_task_owner :: "'s task_world \<Rightarrow> task_tx \<Rightarrow> jsnum \<Rightarrow> ('s, unit) run" where
  "adjust_task_owner w tx diffCost = (case kt_companyId tx of
     Some c \<Rightarrow> bind (c_get (kw_companies w) c) (\<lambda>comp. case comp of
         None \<Rightarrow> throw (task_error ''CUSTOMER_ACCOUNT_MISSING'' 409)
       | Some acc \<Rightarrow> charge_owner (kw_companies w) c acc diffCost)
   | None \<Rightarrow> if kt_userId tx \<noteq> []
       then bind (c_findOne (kw_users w) (names_customer (kt_userId tx))) (\<lambda>user. case user of
         None \<Rightarrow> throw (task_error ''CUSTOMER_ACCOUNT_MISSING'' 409)
       | Some acc \<Rightarrow> charge_owner (kw_users w) (ow_id acc) acc diffCost)
       else throw_if (diffCost \<noteq> Fin 0) (task_error ''OWNER_UNKNOWN'' 409))"

definition edit_task_fields :: "amount_request \<Rightarrow> task_tx \<Rightarrow> jsnum \<Rightarrow> jsnum \<Rightarrow> task_tx \<Rightarrow> task_tx" where
  "edit_task_fields rq tx parsedAmount newCost d = d\<lparr>pt_amount := parsedAmount, kt_costLYD := newCost,
     pt_adminNotes := pt_adminNotes (appendAdminNote (aq_note rq) tx), pt_updatedAt := aq_now rq\<rparr>"

definition edit_task_work :: "'s task_world \<Rightarrow> amount_request \<Rightarrow> employee \<Rightarrow> jsnum \<Rightarrow> ('s, unit) run" where
  "edit_task_work w rq emp parsedAmount =
     bind (c_get (kw_txs w) (aq_transactionId rq)) (\<lambda>found. case found of
       None \<Rightarrow> throw (task_error ''TRANSACTION_INVALID'' 409)
     | Some tx \<Rightarrow> if \<not> run_by emp tx then throw (task_error ''TRANSACTION_INVALID'' 409)
         else let oldAmount = or_zero (pt_amount tx);
                  oldCost = or_zero (kt_costLYD tx);
                  actualRate = actual_rate tx;
                  newCost = calculateTransferCostLYD (kt_transferType tx) (Num parsedAmount) (Num actualRate) 3
              in andThen (throw_if (\<not> truthy (Num actualRate) \<or> \<not> isFinite newCost) (task_error ''RATE_UNKNOWN'' 400))
                (andThen (adjust_task_owner w tx (n_sub newCost oldCost))
                (bind (c_update (kw_txs w) (pt_id tx) (\<lambda>d. run_by emp d \<and> pt_amount d = oldAmount \<and> kt_costLYD d = oldCost)
                         (edit_task_fields rq tx parsedAmount newCost))
                   (\<lambda>saved. throw_if (saved = None) (plain_error ''DocumentNotFoundError'')))))"

definition editExecutorAmount ::
    "(('s, unit) run \<Rightarrow> ('s, unit) run) \<Rightarrow> (error \<Rightarrow> bool) \<Rightarrow> bool \<Rightarrow> 's task_world \<Rightarrow> amount_request \<Rightarrow> ('s, jsnum) run" where
  "editExecutorAmount txn notStarted requires w rq =
     bind (find_employee w (aq_executorId rq)) (\<lambda>emp.
       let parsedAmount = toNumber (aq_newAmount rq)
       in andThen (throw_if (\<not> isFinite parsedAmount \<or> n_le parsedAmount (Fin 0)) (task_error ''INVALID_AMOUNT'' 400))
         (andThen (withOptionalMongoTransaction txn notStarted requires (\<lambda>session. edit_task_work w rq emp parsedAmount))
           (ret parsedAmount)))"

section \<open>Cancelling\<close>

record cancel_request =
  cq_transactionId :: string
  cq_executorId :: string
  cq_reason :: jsval
  cq_note :: string
  cq_now :: int

definition cancel_fields :: "cancel_request \<Rightarrow> employee \<Rightarrow> string \<Rightarrow> task_tx \<Rightarrow> task_tx \<Rightarrow> task_tx" where
  "cancel_fields rq emp cleanReason current d = d\<lparr>pt_status := ''rejected'',
     kt_cancellation := Some (cleanReason, if em_name emp \<noteq> [] then em_name emp else ''executor'', cq_now rq),
     pt_adminNotes := join_notes (pt_adminNotes current) (cq_note rq), pt_updatedAt := cq_now rq\<rparr>"

text \<open>Who is given back the cost; the update of a customer looks for the account by phone number or web user name.\<close>

definition refund_owner :: "'s task_world \<Rightarrow> task_tx \<Rightarrow> ('s, task_owner option) run" where
  "refund_owner w tx = (case kt_companyId tx of
     Some c \<Rightarrow> c_update (kw_companies w) c (\<lambda>_. True) (inc_owner (kt_costLYD tx))
   | None \<Rightarrow> if kt_userId tx \<noteq> []
       then bind (c_findOne (kw_users w) (names_customer (kt_userId tx))) (\<lambda>user. case user of
         None \<Rightarrow> ret None
       | Some acc \<Rightarrow> c_update (kw_users w) (ow_id acc) (names_customer (kt_userId tx)) (inc_owner (kt_costLYD tx)))
       else ret None)"

definition cancel_work :: "'s task_world \<Rightarrow> cancel_request \<Rightarrow> employee \<Rightarrow> string \<Rightarrow> ('s, task_tx option) run" where
  "cancel_work w rq emp cleanReason =
     bind (c_get (kw_txs w) (cq_transactionId rq)) (\<lambda>found. case found of
       None \<Rightarrow> ret None
     | Some current \<Rightarrow> if \<not> run_by emp current then ret None
         else case refundBlockedByUnresolvedProvider (Some current) of
           Some (st, code) \<Rightarrow> throw (ExecutorTransactionError ''PROVIDER_RESULT_OPEN'' st code)
         | None \<Rightarrow> bind (c_update (kw_txs w) (pt_id current) (run_by emp) (cancel_fields rq emp cleanReason current)) (\<lambda>cancelled.
             case cancelled of
               None \<Rightarrow> ret None
             | Some tx \<Rightarrow> bind (refund_owner w tx) (\<lambda>refunded.
                 andThen (throw_if (refunded = None \<and> truthy (Num (kt_costLYD tx))) (task_error ''CUSTOMER_REFUND_FAILED'' 409))
                   (ret (Some tx)))))"

definition cancelExecutorTask ::
    "(('s, task_tx option) run \<Rightarrow> ('s, task_tx option) run) \<Rightarrow> (error \<Rightarrow> bool) \<Rightarrow> bool \<Rightarrow> 's task_world \<Rightarrow> cancel_request
      \<Rightarrow> ('s, (task_tx \<times> employee \<times> string \<times> int) option) run" where
  "cancelExecutorTask txn notStarted requires w rq =
     (let cleanReason = trim (toString (or_else (cq_reason rq) (Str [])))
      in andThen (throw_if (cleanReason = []) (task_error ''REASON_REQUIRED'' 400))
        (bind (find_employee w (cq_executorId rq)) (\<lambda>emp.
         bind (withOptionalMongoTransaction txn notStarted requires (\<lambda>session. cancel_work w rq emp cleanReason)) (\<lambda>tx.
           ret (map_option (\<lambda>t. (t, emp, cleanReason, cq_now rq)) tx)))))"

section \<open>Returning to the administration\<close>

definition return_fields :: "cancel_request \<Rightarrow> task_tx \<Rightarrow> task_tx \<Rightarrow> task_tx" where
  "return_fields rq tx d = d\<lparr>pt_status := ''pending'', kt_broadcastMessages := [],
     pt_adminNotes := join_notes (pt_adminNotes tx) (cq_note rq), pt_executorGroupId := None, kt_managerGroupId := None,
     pt_executorName := [], kt_operatorId := None, kt_assigned := None, pt_updatedAt := cq_now rq\<rparr>"

definition returnExecutorTask :: "'s task_world \<Rightarrow> cancel_request \<Rightarrow> ('s, bool) run" where
  "returnExecutorTask w rq =
     bind (c_get (kw_txs w) (cq_transactionId rq)) (\<lambda>found. case refundBlockedByUnresolvedProvider found of
         Some (st, code) \<Rightarrow> throw (ExecutorTransactionError ''PROVIDER_RESULT_OPEN'' st code)
       | None \<Rightarrow> bind (c_get (kw_employees w) (cq_executorId rq)) (\<lambda>emp. case (found, emp) of
           (Some tx, Some e) \<Rightarrow> if \<not> run_by e tx then ret False
             else bind (c_update (kw_txs w) (pt_id tx) (run_by e) (return_fields rq tx)) (\<lambda>returned. ret (returned \<noteq> None))
         | _ \<Rightarrow> ret False))"

end
