(* ===== verification/Executor_Task_Books.thy ===== *)
theory Executor_Task_Books
  imports Executor_Tasks Admin_Books
begin

text \<open>
  What the operations of \<open>Executor_Tasks\<close> do to the stored transactions and balances: all or nothing, exact to the
  thousandth, and at most one refund.  A task whose provider did not pay cannot be cancelled.
\<close>

section \<open>What the operations do to the books\<close>

type_synonym task_books =
  "(string \<Rightarrow> task_tx option) \<times> (string \<Rightarrow> task_owner option) \<times> (string \<Rightarrow> task_owner option)"

definition task_view :: "'s task_world \<Rightarrow> 's \<Rightarrow> task_books" where
  "task_view w s = (c_view (kw_txs w) s, c_view (kw_companies w) s, c_view (kw_users w) s)"

definition task_store :: "'s task_world \<Rightarrow> bool" where
  "task_store w \<longleftrightarrow> coll_ok (kw_txs w) \<and> coll_ok (kw_companies w) \<and> coll_ok (kw_users w) \<and> coll_ok (kw_employees w)
     \<and> quiet (kw_employees w) (task_view w)
     \<and> quiet (kw_txs w) (c_view (kw_companies w)) \<and> quiet (kw_txs w) (c_view (kw_users w))
     \<and> quiet (kw_companies w) (c_view (kw_txs w)) \<and> quiet (kw_companies w) (c_view (kw_users w))
     \<and> quiet (kw_users w) (c_view (kw_txs w)) \<and> quiet (kw_users w) (c_view (kw_companies w))"

text \<open>Transactions and customers carry their own identifiers.\<close>

definition task_keyed :: "task_books \<Rightarrow> bool" where
  "task_keyed v \<longleftrightarrow> (\<forall>i tx. fst v i = Some tx \<longrightarrow> pt_id tx = i) \<and> (\<forall>u acc. snd (snd v) u = Some acc \<longrightarrow> ow_id acc = u)"

text \<open>The owner of the transaction has changed as \<open>P\<close> says, and no other account has.\<close>

definition owner_changed :: "task_tx \<Rightarrow> (task_owner \<Rightarrow> task_owner \<Rightarrow> bool) \<Rightarrow> task_books \<Rightarrow> task_books \<Rightarrow> bool" where
  "owner_changed tx P = (\<lambda>(ts, cs, us) (ts', cs', us'). case kt_companyId tx of
     Some c \<Rightarrow> \<exists>acc acc'. cs c = Some acc \<and> P acc acc' \<and> cs' = cs(c \<mapsto> acc') \<and> us' = us
   | None \<Rightarrow> kt_userId tx \<noteq> [] \<and> (\<exists>u acc acc'. us u = Some acc \<and> names_customer (kt_userId tx) acc \<and> P acc acc'
       \<and> us' = us(u \<mapsto> acc') \<and> cs' = cs))"

definition task_cancelled :: "cancel_request \<Rightarrow> employee \<Rightarrow> string \<Rightarrow> task_tx \<Rightarrow> task_books \<Rightarrow> task_books \<Rightarrow> bool" where
  "task_cancelled rq emp reason tx v v' \<longleftrightarrow> (\<exists>t. fst v (cq_transactionId rq) = Some t \<and> run_by emp t
     \<and> refundBlockedByUnresolvedProvider (Some t) = None \<and> tx = cancel_fields rq emp reason t t
     \<and> fst v' = (fst v)(cq_transactionId rq \<mapsto> tx)
     \<and> (owner_changed t (\<lambda>acc acc'. acc' = inc_owner (kt_costLYD t) acc) v v'
        \<or> \<not> truthy (Num (kt_costLYD t)) \<and> snd v' = snd v))"

section \<open>Steps\<close>

lemma task_storeD:
  assumes "task_store w"
  shows "coll_ok (kw_txs w)" "coll_ok (kw_companies w)" "coll_ok (kw_users w)" "coll_ok (kw_employees w)" "quiet (kw_employees w) (task_view w)"
    "quiet (kw_txs w) (c_view (kw_companies w))" "quiet (kw_txs w) (c_view (kw_users w))"
    "quiet (kw_companies w) (c_view (kw_txs w))" "quiet (kw_companies w) (c_view (kw_users w))"
    "quiet (kw_users w) (c_view (kw_txs w))" "quiet (kw_users w) (c_view (kw_companies w))"
  using assms unfolding task_store_def by blast+

lemma get_task:
  assumes "task_store w" "c_get (kw_txs w) i s = (r, s')"
  shows "task_view w s' = task_view w s" "r = Inr x \<Longrightarrow> x = fst (task_view w s) i"
  using c_get_view [OF task_storeD(1) [OF assms(1)]] quietD(4) [OF task_storeD(6) [OF assms(1)]] quietD(4) [OF task_storeD(7) [OF assms(1)]] assms(2)
  by (auto simp: task_view_def)

lemma get_company:
  assumes "task_store w" "c_get (kw_companies w) i s = (r, s')"
  shows "task_view w s' = task_view w s" "r = Inr x \<Longrightarrow> x = fst (snd (task_view w s)) i"
  using c_get_view [OF task_storeD(2) [OF assms(1)]] quietD(4) [OF task_storeD(8) [OF assms(1)]] quietD(4) [OF task_storeD(9) [OF assms(1)]] assms(2)
  by (auto simp: task_view_def)

lemma find_user:
  assumes "task_store w" "c_findOne (kw_users w) p s = (r, s')"
  shows "task_view w s' = task_view w s" "r = Inr (Some acc) \<Longrightarrow> \<exists>u. snd (snd (task_view w s)) u = Some acc \<and> p acc"
proof -
  show "task_view w s' = task_view w s"
    using c_findOne_view [OF task_storeD(3) [OF assms(1)] assms(2)] quietD(1) [OF task_storeD(10) [OF assms(1)] assms(2)]
      quietD(1) [OF task_storeD(11) [OF assms(1)] assms(2)] by (simp add: task_view_def)
  show "\<exists>u. snd (snd (task_view w s)) u = Some acc \<and> p acc" if "r = Inr (Some acc)"
    using assms(2) unfolding that by (rule c_findOne_Some [OF task_storeD(3) [OF assms(1)]]) (auto simp: task_view_def)
qed

lemma update_task:
  assumes "task_store w" "c_update (kw_txs w) i p f s = (Inr x, s')"
  shows "case x of None \<Rightarrow> task_view w s' = task_view w s
    | Some d' \<Rightarrow> \<exists>d. fst (task_view w s) i = Some d \<and> p d \<and> d' = f d \<and> task_view w s' = ((fst (task_view w s))(i \<mapsto> d'), snd (task_view w s))"
  using update_view [OF task_storeD(1) [OF assms(1)] assms(2)] quietD(2) [OF task_storeD(6) [OF assms(1)] assms(2)]
    quietD(2) [OF task_storeD(7) [OF assms(1)] assms(2)] by (cases x) (auto simp: task_view_def)

lemma update_company:
  assumes "task_store w" "c_update (kw_companies w) i p f s = (Inr x, s')"
  shows "case x of None \<Rightarrow> task_view w s' = task_view w s
    | Some d' \<Rightarrow> \<exists>d. fst (snd (task_view w s)) i = Some d \<and> p d \<and> d' = f d
        \<and> task_view w s' = (fst (task_view w s), (fst (snd (task_view w s)))(i \<mapsto> d'), snd (snd (task_view w s)))"
  using update_view [OF task_storeD(2) [OF assms(1)] assms(2)] quietD(2) [OF task_storeD(8) [OF assms(1)] assms(2)]
    quietD(2) [OF task_storeD(9) [OF assms(1)] assms(2)] by (cases x) (auto simp: task_view_def)

lemma update_user:
  assumes "task_store w" "c_update (kw_users w) i p f s = (Inr x, s')"
  shows "case x of None \<Rightarrow> task_view w s' = task_view w s
    | Some d' \<Rightarrow> \<exists>d. snd (snd (task_view w s)) i = Some d \<and> p d \<and> d' = f d
        \<and> task_view w s' = (fst (task_view w s), fst (snd (task_view w s)), (snd (snd (task_view w s)))(i \<mapsto> d'))"
  using update_view [OF task_storeD(3) [OF assms(1)] assms(2)] quietD(2) [OF task_storeD(10) [OF assms(1)] assms(2)]
    quietD(2) [OF task_storeD(11) [OF assms(1)] assms(2)] by (cases x) (auto simp: task_view_def)

lemma employee_read:
  assumes "task_store w" "find_employee w i s = (r, s')"
  shows "task_view w s' = task_view w s"
proof -
  have "keeps (task_view w) (find_employee w i)"
    unfolding find_employee_def by (intro keeps_intros keeps_quiet [OF task_storeD(5) [OF assms(1)]])
  then show ?thesis using assms(2) by (rule keepsD)
qed

section \<open>Cancelling\<close>

lemma refund_Inr:
  assumes "task_store w" "task_keyed (task_view w s)" "refund_owner w tx s = (Inr r, s')"
  shows "case r of None \<Rightarrow> task_view w s' = task_view w s
    | Some d \<Rightarrow> fst (task_view w s') = fst (task_view w s)
        \<and> owner_changed tx (\<lambda>acc acc'. acc' = inc_owner (kt_costLYD tx) acc) (task_view w s) (task_view w s')"
proof (cases "kt_companyId tx")
  case (Some c)
  then have "c_update (kw_companies w) c (\<lambda>_. True) (inc_owner (kt_costLYD tx)) s = (Inr r, s')"
    using assms(3) by (simp add: refund_owner_def)
  from update_company [OF assms(1) this] show ?thesis
    using Some by (cases r) (auto simp: owner_changed_def split: prod.splits)
next
  case None
  show ?thesis
  proof (cases "kt_userId tx = []")
    case True
    then show ?thesis using assms(3) None by (auto simp: refund_owner_def ret_def)
  next
    case False
    then obtain x s1 where f: "c_findOne (kw_users w) (names_customer (kt_userId tx)) s = (Inr x, s1)"
      and k: "(case x of None \<Rightarrow> ret None | Some acc \<Rightarrow> c_update (kw_users w) (ow_id acc) (names_customer (kt_userId tx))
          (inc_owner (kt_costLYD tx))) s1 = (Inr r, s')"
      using assms(3) None unfolding refund_owner_def by (auto elim: bind_InrE)
    have v1: "task_view w s1 = task_view w s" by (rule find_user(1) [OF assms(1) f])
    show ?thesis
    proof (cases x)
      case None
      then show ?thesis using k v1 by (auto simp: ret_def)
    next
      case (Some acc)
      then have "c_update (kw_users w) (ow_id acc) (names_customer (kt_userId tx)) (inc_owner (kt_costLYD tx)) s1 = (Inr r, s')"
        using k by simp
      from update_user [OF assms(1) this] show ?thesis
        using v1 None False by (cases r) (auto simp: owner_changed_def split: prod.splits, blast)
    qed
  qed
qed

lemma cancel_fields_simps [simp]:
  "pt_status (cancel_fields rq emp reason t d) = ''rejected''" "kt_companyId (cancel_fields rq emp reason t d) = kt_companyId d"
  "kt_userId (cancel_fields rq emp reason t d) = kt_userId d" "kt_costLYD (cancel_fields rq emp reason t d) = kt_costLYD d"
  by (simp_all add: cancel_fields_def)

lemma owner_changed_cong:
  "kt_companyId tx' = kt_companyId tx \<Longrightarrow> kt_userId tx' = kt_userId tx
    \<Longrightarrow> owner_changed tx' P (t1, v) (t2, v') = owner_changed tx P (t1', v) (t2', v')"
  by (cases v; cases v'; cases "kt_companyId tx") (simp_all add: owner_changed_def)

lemma cancelled_row:
  assumes "task_store w" "task_keyed (task_view w s)" "fst (task_view w s) (cq_transactionId rq) = Some t" "run_by emp t"
    and "refundBlockedByUnresolvedProvider (Some t) = None"
    and "c_update (kw_txs w) (pt_id t) (run_by emp) (cancel_fields rq emp reason t) s = (Inr (Some tx), s1)"
    and "bind (refund_owner w tx) (\<lambda>refunded. andThen (throw_if (refunded = None \<and> truthy (Num (kt_costLYD tx))) (task_error ''CUSTOMER_REFUND_FAILED'' 409))
                   (ret (Some tx))) s1 = (Inr res, s')"
  shows "res = Some tx \<and> task_cancelled rq emp reason tx (task_view w s) (task_view w s')"
proof -
  have i: "pt_id t = cq_transactionId rq" using assms(2,3) by (simp add: task_keyed_def)
  have tx: "tx = cancel_fields rq emp reason t t"
    and v1: "task_view w s1 = ((fst (task_view w s))(cq_transactionId rq \<mapsto> tx), snd (task_view w s))"
    using update_task [OF assms(1,6)] assms(3) i by auto
  have "pt_id tx = cq_transactionId rq" using tx i by (simp add: cancel_fields_def)
  then have k1: "task_keyed (task_view w s1)" using assms(2) v1 by (simp add: task_keyed_def)
  obtain refunded s2 where r: "refund_owner w tx s1 = (Inr refunded, s2)"
    and k: "andThen (throw_if (refunded = None \<and> truthy (Num (kt_costLYD tx))) (task_error ''CUSTOMER_REFUND_FAILED'' 409)) (ret (Some tx)) s2 = (Inr res, s')"
    using assms(7) by (rule bind_InrE)
  then have res: "res = Some tx" "s2 = s'" "\<not> (refunded = None \<and> truthy (Num (kt_costLYD tx)))"
    unfolding throw_if_andThen by (simp_all add: ret_def)
  have "fst (task_view w s') = (fst (task_view w s))(cq_transactionId rq \<mapsto> tx)
    \<and> (owner_changed t (\<lambda>acc acc'. acc' = inc_owner (kt_costLYD t) acc) (task_view w s) (task_view w s')
        \<or> \<not> truthy (Num (kt_costLYD t)) \<and> snd (task_view w s') = snd (task_view w s))"
  proof (cases refunded)
    case None
    then have "task_view w s' = task_view w s1" using refund_Inr [OF assms(1) k1 r] res(2) by simp
    then show ?thesis using v1 None res(3) tx by simp
  next
    case (Some d)
    then have f: "fst (task_view w s') = fst (task_view w s1)"
      and o: "owner_changed tx (\<lambda>acc acc'. acc' = inc_owner (kt_costLYD tx) acc) (task_view w s1) (task_view w s')"
      using refund_Inr [OF assms(1) k1 r] res(2) by simp_all
    have "owner_changed t (\<lambda>acc acc'. acc' = inc_owner (kt_costLYD t) acc) (task_view w s) (task_view w s')"
      using o owner_changed_cong [of tx t _ "fst (task_view w s1)" "snd (task_view w s)" "fst (task_view w s')" "snd (task_view w s')"
          "fst (task_view w s)" "fst (task_view w s')"] tx v1 by simp
    then show ?thesis using f v1 by simp
  qed
  then show ?thesis using res(1) assms(3-5) tx by (simp add: task_cancelled_def)
qed

lemma cancel_work_Inr:
  assumes "task_store w" "task_keyed (task_view w s)" "cancel_work w rq emp reason s = (Inr res, s')"
  shows "case res of None \<Rightarrow> task_view w s' = task_view w s | Some tx \<Rightarrow> task_cancelled rq emp reason tx (task_view w s) (task_view w s')"
proof -
  let ?k = "\<lambda>tx. bind (refund_owner w tx) (\<lambda>refunded. andThen (throw_if (refunded = None \<and> truthy (Num (kt_costLYD tx)))
      (task_error ''CUSTOMER_REFUND_FAILED'' 409)) (ret (Some tx)))"
  let ?b = "\<lambda>t. case refundBlockedByUnresolvedProvider (Some t) of
      Some (st, code) \<Rightarrow> throw (ExecutorTransactionError ''PROVIDER_RESULT_OPEN'' st code)
    | None \<Rightarrow> bind (c_update (kw_txs w) (pt_id t) (run_by emp) (cancel_fields rq emp reason t))
        (\<lambda>cancelled. case cancelled of None \<Rightarrow> ret None | Some tx \<Rightarrow> ?k tx)"
  obtain found s1 where g: "c_get (kw_txs w) (cq_transactionId rq) s = (Inr found, s1)"
    and r: "(case found of None \<Rightarrow> ret None | Some t \<Rightarrow> if \<not> run_by emp t then ret None else ?b t) s1 = (Inr res, s')"
    using assms(3) unfolding cancel_work_def by (rule bind_InrE)
  have v1: "task_view w s1 = task_view w s" and found: "found = fst (task_view w s) (cq_transactionId rq)"
    using get_task [OF assms(1) g] by simp_all
  show ?thesis
  proof (cases "\<exists>t. found = Some t \<and> run_by emp t")
    case False
    then have "res = None" "s1 = s'" using r by (auto simp: ret_def split: option.splits)
    then show ?thesis using v1 by simp
  next
    case True
    then obtain t where t: "found = Some t" "run_by emp t" by blast
    with r have b: "?b t s1 = (Inr res, s')" by simp
    then have clear: "refundBlockedByUnresolvedProvider (Some t) = None"
      by (cases "refundBlockedByUnresolvedProvider (Some t)") (auto simp: throw_def split: prod.splits)
    then have "bind (c_update (kw_txs w) (pt_id t) (run_by emp) (cancel_fields rq emp reason t))
        (\<lambda>cancelled. case cancelled of None \<Rightarrow> ret None | Some tx \<Rightarrow> ?k tx) s1 = (Inr res, s')"
      using b by (simp only: option.case)
    then obtain cancelled s2 where u: "c_update (kw_txs w) (pt_id t) (run_by emp) (cancel_fields rq emp reason t) s1 = (Inr cancelled, s2)"
      and k: "(case cancelled of None \<Rightarrow> ret None | Some tx \<Rightarrow> ?k tx) s2 = (Inr res, s')"
      by (rule bind_InrE)
    show ?thesis
    proof (cases cancelled)
      case None
      then show ?thesis using update_task [OF assms(1) u] k v1 by (simp add: ret_def) 
    next
      case (Some tx)
      have "res = Some tx \<and> task_cancelled rq emp reason tx (task_view w s1) (task_view w s')"
        by (rule cancelled_row [OF assms(1) _ _ t(2) clear u [unfolded Some]]) (use assms(2) v1 found t k Some in simp_all)
      then show ?thesis using v1 by simp
    qed
  qed
qed

text \<open>A run in an optional transaction that is required: everything the work did, or nothing.\<close>

lemma required_txn:
  assumes "txn_ok txn unknown v" "withOptionalMongoTransaction txn notStarted True (\<lambda>session. work) s = (r, s')"
  shows "v s' = v s \<and> isl r \<or> (\<exists>a s0 s1. v s0 = v s \<and> work s0 = (Inr a, s1) \<and> v s' = v s1 \<and> (isl r \<or> r = Inr a))"
proof -
  obtain q t where x: "txn work s = (q, t)" by fastforce
  have t: "t = s'" "isl q \<longleftrightarrow> isl r" "\<not> isl q \<Longrightarrow> r = q"
    using assms(2) x unfolding withOptionalMongoTransaction_def catch_run by (cases q; auto simp: throw_def split: if_splits)+
  show ?thesis
  proof (cases q)
    case (Inl e)
    then show ?thesis using txn_cases [OF assms(1) x] t by (metis isl_def)
  next
    case (Inr a)
    then show ?thesis using txn_commit [OF assms(1) x [unfolded Inr]] t by (metis isl_def sum.disc(2))
  qed
qed

text \<open>Cancelling is all or nothing, even when the outcome of the commit is unknown.\<close>

lemma cancel_all_or_nothing:
  fixes w :: "'s task_world" and s :: 's
  assumes "task_store w" "txn_ok txn unknown (task_view w)" "task_keyed (task_view w s)"
    and "cancelExecutorTask txn notStarted True w rq s = (r, s')"
  shows "task_view w s' = task_view w s \<and> (\<forall>x. r \<noteq> Inr (Some x))
    \<or> (\<exists>emp reason tx. task_cancelled rq emp reason tx (task_view w s) (task_view w s') \<and> pt_status tx = ''rejected''
        \<and> (\<forall>x. r = Inr x \<longrightarrow> x = Some (tx, emp, reason, cq_now rq)))"
proof -
  let ?reason = "trim (toString (or_else (cq_reason rq) (Str [])))"
  obtain q s1 where e: "find_employee w (cq_executorId rq) s = (q, s1)" by fastforce
  have v1: "task_view w s1 = task_view w s" by (rule employee_read [OF assms(1) e])
  show ?thesis
  proof (cases "?reason = [] \<or> isl q")
    case True
    then have "\<exists>x. r = Inl x" "s' = s \<or> s' = s1"
      using assms(4) e by (auto simp: cancelExecutorTask_def Let_def andThen_run bind_run isl_def split: if_splits sum.splits)
    then show ?thesis using v1 by auto
  next
    case False
    then obtain emp where q: "q = Inr emp" by (auto simp: isl_def) (metis sum.exhaust)
    obtain r2 s2 where x: "withOptionalMongoTransaction txn notStarted True (\<lambda>session. cancel_work w rq emp ?reason) s1 = (r2, s2)" by fastforce
    then have s2: "s2 = s'" and r: "isl r \<longleftrightarrow> isl r2" "\<And>a. r2 = Inr a \<Longrightarrow> r = Inr (map_option (\<lambda>t. (t, emp, ?reason, cq_now rq)) a)"
      using assms(4) e False q by (cases r2; auto simp: cancelExecutorTask_def Let_def andThen_run bind_run ret_def)+
    from required_txn [OF assms(2) x]
    consider (same) "task_view w s2 = task_view w s1" "isl r2"
      | (committed) a t0 t1 where "task_view w t0 = task_view w s1" "cancel_work w rq emp ?reason t0 = (Inr a, t1)"
          "task_view w s2 = task_view w t1" "isl r2 \<or> r2 = Inr a" by blast
    then show ?thesis
    proof cases
      case same
      then show ?thesis using s2 v1 r(1) by auto
    next
      case (committed a t0 t1)
      note w = committed(1-3) and o = committed(4)
      have c: "case a of None \<Rightarrow> task_view w t1 = task_view w t0 | Some tx \<Rightarrow> task_cancelled rq emp ?reason tx (task_view w t0) (task_view w t1)"
        by (rule cancel_work_Inr [OF assms(1) _ w(2)]) (use assms(3) w(1) v1 in simp)
      show ?thesis
      proof (cases a)
        case None
        then show ?thesis using c w(1,3) v1 s2 o r by auto
      next
        case (Some tx)
        then have d: "task_cancelled rq emp ?reason tx (task_view w s) (task_view w s')" using c w(1,3) v1 s2 by simp
        then have "pt_status tx = ''rejected''" by (auto simp: task_cancelled_def)
        moreover have "x = Some (tx, emp, ?reason, cq_now rq)" if "r = Inr x" for x
          using that o r Some by (cases r2) auto
        ultimately show ?thesis using d by blast
      qed
    qed
  qed
qed

section \<open>Editing the amount\<close>

lemma charge_amount:
  assumes "near 3 d diff" "\<bar>d\<bar> \<le> 1000000000" "held k (balance acc)" "k + 4 \<le> 1000"
  shows "milli (balance (inc_owner (n_neg diff) acc)) = milli (balance acc) - d"
  using held_add(1) [OF assms(3) near_neg [OF assms(1)]] assms(2,4) by (simp add: inc_owner_def)

lemma charge_within_limit:
  assumes "near 3 d diff" "\<bar>d\<bar> \<le> 1000000000" "held k (balance acc)" "k + 4 \<le> 1000" "priced (ow_creditLimit acc)"
    and "n_le (n_sub diff (or_zero (ow_creditLimit acc))) (balance acc)"
  shows "- milli (ow_creditLimit acc) \<le> milli (balance acc) - d"
proof -
  have c: "or_zero (ow_creditLimit acc) = ow_creditLimit acc" using assms(5) by (auto simp: priced_def near_def or_zero_def)
  have "near (Suc (3 + 1)) (d - milli (ow_creditLimit acc)) (n_sub diff (ow_creditLimit acc))"
    using assms(1,2,5) by (intro near_sub) (auto simp: priced_def LIMIT_def)
  moreover have "near k (milli (balance acc)) (balance acc)" using assms(3) by (simp add: held_def)
  moreover have "k + Suc (3 + 1) \<le> 4096" using assms(4) by linarith
  ultimately have "d - milli (ow_creditLimit acc) \<le> milli (balance acc)"
    using assms(6) unfolding c by (intro near_le)
  then show ?thesis by linarith
qed

lemma charge_owner_Inr:
  assumes "coll_ok c" "charge_owner c i acc diff s = (Inr u, s')" "c_view c s i = Some acc"
    and "near 3 d diff" "\<bar>d\<bar> \<le> 1000000000" "held k (balance acc)" "k + 4 \<le> 1000" "priced (ow_creditLimit acc)"
  shows "c_view c s' = c_view c s \<and> d = 0
    \<or> c_view c s' = (c_view c s)(i \<mapsto> inc_owner (n_neg diff) acc) \<and> (0 < d \<longrightarrow> - milli (ow_creditLimit acc) \<le> milli (balance acc) - d)"
proof (cases "n_lt (Fin 0) diff")
  case True
  then obtain x s1 where u: "c_update c i (\<lambda>a. n_le (n_sub diff (or_zero (ow_creditLimit acc))) (balance a)) (inc_owner (n_neg diff)) s = (Inr x, s1)"
    and x: "x \<noteq> None" "s1 = s'"
    using assms(2) unfolding charge_owner_def by (auto elim!: bind_InrE simp: throw_if_run split: if_splits)
  then have "c_view c s' = (c_view c s)(i \<mapsto> inc_owner (n_neg diff) acc)" "n_le (n_sub diff (or_zero (ow_creditLimit acc))) (balance acc)"
    using update_view [OF assms(1) u] assms(3) by auto
  then show ?thesis using charge_within_limit [OF assms(4-8)] by blast
next
  case False
  obtain y where y: "diff = Fin y" using near_Fin [OF assms(4)] by blast
  have "n_le diff (Fin 0)" using False y by simp
  then have d: "d \<le> 0" using near_le [of 0 0 "Fin 0" 3 d diff] assms(4) by (simp add: near_def)
  show ?thesis
  proof (cases "y = 0")
    case True
    then show ?thesis using assms(2) falsy_near [OF assms(4)] y by (simp add: charge_owner_def ret_def)
  next
    case neq: False
    then have abs: "n_abs diff = n_neg diff" "n_lt diff (Fin 0)" using False y by simp_all
    obtain x s1 where u: "c_update c i (\<lambda>_. True) (inc_owner (n_neg diff)) s = (Inr x, s1)" and x: "x \<noteq> None" "s1 = s'"
      using assms(2) False abs unfolding charge_owner_def by (auto elim!: bind_InrE simp: throw_if_run split: if_splits)
    then have "c_view c s' = (c_view c s)(i \<mapsto> inc_owner (n_neg diff) acc)"
      using update_view [OF assms(1) u] assms(3) by auto
    then show ?thesis using d by simp
  qed
qed

text \<open>Books within the bounds of the model: balances, credit limits and costs of at most three decimals and a million.\<close>

definition task_sound :: "nat \<Rightarrow> task_books \<Rightarrow> bool" where
  "task_sound k v \<longleftrightarrow> task_keyed v \<and> (\<forall>i tx. fst v i = Some tx \<longrightarrow> priced (kt_costLYD tx))
     \<and> (\<forall>acc. acc \<in> ran (fst (snd v)) \<union> ran (snd (snd v)) \<longrightarrow> held k (balance acc) \<and> priced (ow_creditLimit acc))"

definition owner_charged :: "int \<Rightarrow> task_owner \<Rightarrow> task_owner \<Rightarrow> bool" where
  "owner_charged d acc acc' \<longleftrightarrow> acc' = acc\<lparr>balance := balance acc'\<rparr> \<and> milli (balance acc') = milli (balance acc) - d
     \<and> (0 < d \<longrightarrow> - milli (ow_creditLimit acc) \<le> milli (balance acc'))"

lemma owner_chargedI:
  assumes "near 3 d diff" "\<bar>d\<bar> \<le> 1000000000" "held k (balance acc)" "k + 4 \<le> 1000"
    and "0 < d \<longrightarrow> - milli (ow_creditLimit acc) \<le> milli (balance acc) - d"
  shows "owner_charged d acc (inc_owner (n_neg diff) acc)"
  unfolding owner_charged_def charge_amount [OF assms(1-4)] using assms(5) by (simp add: inc_owner_def)

lemma owner_changed_user:
  "kt_companyId tx = None \<Longrightarrow> kt_userId tx \<noteq> [] \<Longrightarrow> snd (snd v) u = Some acc \<Longrightarrow> names_customer (kt_userId tx) acc \<Longrightarrow> P acc acc'
    \<Longrightarrow> owner_changed tx P v (ts, fst (snd v), (snd (snd v))(u \<mapsto> acc'))"
  by (cases v) (simp add: owner_changed_def, metis)

lemma charge_keeps: "quiet c v \<Longrightarrow> keeps v (charge_owner c i acc diff)"
  unfolding charge_owner_def throw_if_def by (intro keeps_intros)

lemma adjust_owner_Inr:
  assumes "task_store w" "task_sound k (task_view w s)" "k + 4 \<le> 1000" "adjust_task_owner w tx diff s = (Inr u, s')"
    and "near 3 d diff" "\<bar>d\<bar> \<le> 1000000000"
  shows "fst (task_view w s') = fst (task_view w s)
    \<and> (owner_changed tx (owner_charged d) (task_view w s) (task_view w s') \<or> d = 0 \<and> snd (task_view w s') = snd (task_view w s))"
proof (cases "kt_companyId tx")
  case (Some c)
  then obtain acc s1 where g: "c_get (kw_companies w) c s = (Inr (Some acc), s1)"
    and h: "charge_owner (kw_companies w) c acc diff s1 = (Inr u, s')"
    using assms(4) unfolding adjust_task_owner_def by (auto elim!: bind_InrE simp: throw_def split: option.splits)
  have v1: "task_view w s1 = task_view w s" and acc: "fst (snd (task_view w s)) c = Some acc"
    using get_company [OF assms(1) g] by simp_all
  have sound: "held k (balance acc)" "priced (ow_creditLimit acc)" using assms(2) acc by (auto simp: task_sound_def intro: ranI)
  have "c_view (kw_txs w) s' = c_view (kw_txs w) s1" "c_view (kw_users w) s' = c_view (kw_users w) s1"
    using keepsD [OF charge_keeps [OF task_storeD(8) [OF assms(1)]] h] keepsD [OF charge_keeps [OF task_storeD(9) [OF assms(1)]] h] by simp_all
  then have "task_view w s' = (fst (task_view w s), c_view (kw_companies w) s', snd (snd (task_view w s)))"
    using v1 by (simp add: task_view_def)
  moreover have "c_view (kw_companies w) s1 = fst (snd (task_view w s))" using v1 by (simp add: task_view_def)
  ultimately show ?thesis
    using charge_owner_Inr [OF task_storeD(2) [OF assms(1)] h _ assms(5,6) sound(1) assms(3) sound(2)] acc Some
      owner_chargedI [OF assms(5,6) sound(1) assms(3)]
    by (auto simp: owner_changed_def split: prod.splits)
next
  case None
  show ?thesis
  proof (cases "kt_userId tx = []")
    case True
    then have "diff = Fin 0" "s' = s" using assms(4) None by (auto simp: adjust_task_owner_def split: if_splits)
    then show ?thesis using falsy_near [OF assms(5)] by simp
  next
    case False
    then obtain acc s1 where g: "c_findOne (kw_users w) (names_customer (kt_userId tx)) s = (Inr (Some acc), s1)"
      and h: "charge_owner (kw_users w) (ow_id acc) acc diff s1 = (Inr u, s')"
      using assms(4) None unfolding adjust_task_owner_def by (auto elim!: bind_InrE simp: throw_def split: option.splits)
    have v1: "task_view w s1 = task_view w s" by (rule find_user(1) [OF assms(1) g])
    obtain i where i: "snd (snd (task_view w s)) i = Some acc" "names_customer (kt_userId tx) acc"
      using find_user(2) [OF assms(1) g refl] by blast
    have id: "ow_id acc = i" using assms(2) i(1) by (simp add: task_sound_def task_keyed_def)
    have sound: "held k (balance acc)" "priced (ow_creditLimit acc)" using assms(2) i(1) by (auto simp: task_sound_def intro: ranI)
    have "c_view (kw_txs w) s' = c_view (kw_txs w) s1" "c_view (kw_companies w) s' = c_view (kw_companies w) s1"
      using keepsD [OF charge_keeps [OF task_storeD(10) [OF assms(1)]] h] keepsD [OF charge_keeps [OF task_storeD(11) [OF assms(1)]] h] by simp_all
    then have v': "task_view w s' = (fst (task_view w s), fst (snd (task_view w s)), c_view (kw_users w) s')"
      using v1 by (simp add: task_view_def)
    have us: "c_view (kw_users w) s1 = snd (snd (task_view w s))" using v1 by (simp add: task_view_def)
    have "c_view (kw_users w) s1 (ow_id acc) = Some acc" using us i(1) id by simp
    from charge_owner_Inr [OF task_storeD(3) [OF assms(1)] h this assms(5,6) sound(1) assms(3) sound(2)]
    show ?thesis
    proof (elim disjE conjE)
      assume upd: "c_view (kw_users w) s' = (c_view (kw_users w) s1)(ow_id acc \<mapsto> inc_owner (n_neg diff) acc)"
        and limit: "0 < d \<longrightarrow> - milli (ow_creditLimit acc) \<le> milli (balance acc) - d"
      have "owner_changed tx (owner_charged d) (task_view w s) (task_view w s')"
        unfolding v' upd us using owner_chargedI [OF assms(5,6) sound(1) assms(3) limit] i None False id
        by (intro owner_changed_user) simp_all
      then show ?thesis using v' by simp
    qed (use v' us in \<open>simp add: task_view_def\<close>)
  qed
qed


definition amount_edited :: "amount_request \<Rightarrow> task_books \<Rightarrow> task_books \<Rightarrow> bool" where
  "amount_edited rq v v' \<longleftrightarrow> (\<exists>emp t. fst v (aq_transactionId rq) = Some t \<and> run_by emp t
     \<and> (let amount = toNumber (aq_newAmount rq);
            cost = calculateTransferCostLYD (kt_transferType t) (Num amount) (Num (actual_rate t)) 3;
            d = milli cost - milli (kt_costLYD t)
        in isFinite amount \<and> n_lt (Fin 0) amount \<and> truthy (Num (actual_rate t))
          \<and> fst v' = (fst v)(aq_transactionId rq \<mapsto> edit_task_fields rq t amount cost t)
          \<and> (owner_changed t (owner_charged d) v v' \<or> d = 0 \<and> snd v' = snd v)))"

lemma owner_changed_rows: "owner_changed tx P v (ts, cs, us) = owner_changed tx P v (ts', cs, us)"
  by (cases v) (simp add: owner_changed_def)

lemma edit_task_Inr:
  assumes "task_store w" "task_sound k (task_view w s)" "k + 4 \<le> 1000"
    and cost: "\<And>t. fst (task_view w s) (aq_transactionId rq) = Some t \<Longrightarrow>
      n_le (calculateTransferCostLYD (kt_transferType t) (Num (toNumber (aq_newAmount rq))) (Num (actual_rate t)) 3) (Fin 1000000)"
    and amount: "isFinite (toNumber (aq_newAmount rq))" "n_lt (Fin 0) (toNumber (aq_newAmount rq))"
    and "edit_task_work w rq emp (toNumber (aq_newAmount rq)) s = (Inr u, s')"
  shows "amount_edited rq (task_view w s) (task_view w s')"
proof -
  let ?n = "toNumber (aq_newAmount rq)"
  obtain found s1 where g: "c_get (kw_txs w) (aq_transactionId rq) s = (Inr found, s1)"
    and f: "(case found of None \<Rightarrow> throw (task_error ''TRANSACTION_INVALID'' 409)
     | Some tx \<Rightarrow> if \<not> run_by emp tx then throw (task_error ''TRANSACTION_INVALID'' 409)
         else let oldAmount = or_zero (pt_amount tx); oldCost = or_zero (kt_costLYD tx); actualRate = actual_rate tx;
                  newCost = calculateTransferCostLYD (kt_transferType tx) (Num ?n) (Num actualRate) 3
              in andThen (throw_if (\<not> truthy (Num actualRate) \<or> \<not> isFinite newCost) (task_error ''RATE_UNKNOWN'' 400))
                (andThen (adjust_task_owner w tx (n_sub newCost oldCost))
                (bind (c_update (kw_txs w) (pt_id tx) (\<lambda>d. run_by emp d \<and> pt_amount d = oldAmount \<and> kt_costLYD d = oldCost)
                         (edit_task_fields rq tx ?n newCost))
                   (\<lambda>saved. throw_if (saved = None) (plain_error ''DocumentNotFoundError''))))) s1 = (Inr u, s')"
    using assms(7) unfolding edit_task_work_def by (rule bind_InrE)
  have v1: "task_view w s1 = task_view w s" and found: "found = fst (task_view w s) (aq_transactionId rq)"
    using get_task [OF assms(1) g] by simp_all
  obtain t where t: "found = Some t" "run_by emp t" using f by (cases found) (auto simp: throw_def split: if_splits)
  define cost where "cost = calculateTransferCostLYD (kt_transferType t) (Num ?n) (Num (actual_rate t)) 3"
  have row: "fst (task_view w s) (aq_transactionId rq) = Some t" using t(1) found by simp
  from f have "andThen (throw_if (\<not> truthy (Num (actual_rate t)) \<or> \<not> isFinite cost) (task_error ''RATE_UNKNOWN'' 400))
      (andThen (adjust_task_owner w t (n_sub cost (or_zero (kt_costLYD t))))
      (bind (c_update (kw_txs w) (pt_id t) (\<lambda>d. run_by emp d \<and> pt_amount d = or_zero (pt_amount t) \<and> kt_costLYD d = or_zero (kt_costLYD t))
               (edit_task_fields rq t ?n cost)) (\<lambda>saved. throw_if (saved = None) (plain_error ''DocumentNotFoundError'')))) s1 = (Inr u, s')"
    using t by (simp only: option.case Let_def cost_def if_False not_True_eq_False simp_thms)
  then have rate: "truthy (Num (actual_rate t))" and rest: "andThen (adjust_task_owner w t (n_sub cost (or_zero (kt_costLYD t))))
      (bind (c_update (kw_txs w) (pt_id t) (\<lambda>d. run_by emp d \<and> pt_amount d = or_zero (pt_amount t) \<and> kt_costLYD d = or_zero (kt_costLYD t))
               (edit_task_fields rq t ?n cost)) (\<lambda>saved. throw_if (saved = None) (plain_error ''DocumentNotFoundError''))) s1 = (Inr u, s')"
    unfolding throw_if_andThen by blast+
  obtain x s2 where a: "adjust_task_owner w t (n_sub cost (or_zero (kt_costLYD t))) s1 = (Inr x, s2)"
    and b: "bind (c_update (kw_txs w) (pt_id t) (\<lambda>d. run_by emp d \<and> pt_amount d = or_zero (pt_amount t) \<and> kt_costLYD d = or_zero (kt_costLYD t))
               (edit_task_fields rq t ?n cost)) (\<lambda>saved. throw_if (saved = None) (plain_error ''DocumentNotFoundError'')) s2 = (Inr u, s')"
    using rest by (rule andThen_InrE)
  obtain saved s3 where sv: "c_update (kw_txs w) (pt_id t) (\<lambda>d. run_by emp d \<and> pt_amount d = or_zero (pt_amount t) \<and> kt_costLYD d = or_zero (kt_costLYD t))
               (edit_task_fields rq t ?n cost) s2 = (Inr saved, s3)"
    and x: "throw_if (saved = None) (plain_error ''DocumentNotFoundError'') s3 = (Inr u, s')"
    using b by (rule bind_InrE)
  then obtain d' where saved: "saved = Some d'" and s3: "s3 = s'" by (auto split: if_splits)
  have priced: "priced cost" unfolding cost_def by (rule price_priced [OF cost [OF row]])
  have old: "priced (kt_costLYD t)" "pt_id t = aq_transactionId rq"
    using assms(2) row by (simp_all add: task_sound_def task_keyed_def)
  note adj = adjust_owner_Inr [OF assms(1) assms(2) [folded v1] assms(3) a difference_near [OF priced old(1)], unfolded v1]
  have upd: "task_view w s' = ((fst (task_view w s2))(aq_transactionId rq \<mapsto> d'), snd (task_view w s2))"
    and d': "d' = edit_task_fields rq t ?n cost t"
    using update_task [OF assms(1) sv] saved s3 old(2) adj row by auto
  have rows: "owner_changed t P (task_view w s) (task_view w s') = owner_changed t P (task_view w s) (task_view w s2)" for P
    unfolding upd using owner_changed_rows by (metis prod.collapse)
  show ?thesis
    unfolding amount_edited_def Let_def cost_def [symmetric]
    using adj rows upd d' rate amount row t(2) cost_def by (intro exI [of _ emp] exI [of _ t]) (simp add: cost_def)
qed

section \<open>Cancelling once\<close>

lemma cancelled_keyed:
  assumes "task_keyed v" "task_cancelled rq emp reason tx v v'"
  shows "task_keyed v'"
proof -
  obtain t where t: "fst v (cq_transactionId rq) = Some t" "tx = cancel_fields rq emp reason t t" "fst v' = (fst v)(cq_transactionId rq \<mapsto> tx)"
    and o: "owner_changed t (\<lambda>acc acc'. acc' = inc_owner (kt_costLYD t) acc) v v' \<or> snd v' = snd v"
    using assms(2) unfolding task_cancelled_def by blast
  have "pt_id tx = cq_transactionId rq" using assms(1) t by (simp add: task_keyed_def cancel_fields_def)
  moreover have "ow_id acc = u" if "snd (snd v') u = Some acc" for u acc
    using o assms(1) that by (auto simp: owner_changed_def task_keyed_def inc_owner_def split: prod.splits option.splits if_splits)
  ultimately show ?thesis using assms(1) t(3) by (simp add: task_keyed_def)
qed

text \<open>
  C10: When transactions are required, cancelling a task is all or nothing, even when the outcome of the commit is
  unknown: either nothing has changed, or a task that its executor had accepted and whose payment is not open with a
  provider is rejected and its owner has got back exactly its cost, and nothing else has changed.  Once a cancellation
  has returned its task, a further one changes nothing and returns none, so nobody is refunded twice.
\<close>

theorem cancel_refund_exact:
  fixes w :: "'s task_world" and s :: 's
  assumes "task_store w" "txn_ok txn unknown (task_view w)" "task_keyed (task_view w s)"
    and "cancelExecutorTask txn notStarted True w rq s = (r, s')"
    and "cq_transactionId rq2 = cq_transactionId rq" "cancelExecutorTask txn notStarted True w rq2 s' = (r2, s2)"
  shows "(task_view w s' = task_view w s \<and> (\<forall>x. r \<noteq> Inr (Some x))
      \<or> (\<exists>emp reason tx. task_cancelled rq emp reason tx (task_view w s) (task_view w s') \<and> pt_status tx = ''rejected''
          \<and> (\<forall>x. r = Inr x \<longrightarrow> x = Some (tx, emp, reason, cq_now rq))))
    \<and> (\<forall>x. r = Inr (Some x) \<longrightarrow> task_view w s2 = task_view w s' \<and> (\<forall>y. r2 \<noteq> Inr (Some y)))"
proof (intro conjI allI impI)
  note first = cancel_all_or_nothing [OF assms(1-4)]
  show "task_view w s' = task_view w s \<and> (\<forall>x. r \<noteq> Inr (Some x))
      \<or> (\<exists>emp reason tx. task_cancelled rq emp reason tx (task_view w s) (task_view w s') \<and> pt_status tx = ''rejected''
          \<and> (\<forall>x. r = Inr x \<longrightarrow> x = Some (tx, emp, reason, cq_now rq)))" by (rule first)
  fix x assume "r = Inr (Some x)"
  then obtain emp reason tx where c: "task_cancelled rq emp reason tx (task_view w s) (task_view w s')" "pt_status tx = ''rejected''"
    using first by blast
  have row: "fst (task_view w s') (cq_transactionId rq2) = Some tx" using c(1) assms(5) by (auto simp: task_cancelled_def)
  have "\<not> task_cancelled rq2 e q t (task_view w s') v" for e q t v
    using row c(2) by (auto simp: task_cancelled_def run_by_def)
  then show "task_view w s2 = task_view w s'" "\<And>y. r2 \<noteq> Inr (Some y)"
    using cancel_all_or_nothing [OF assms(1,2) cancelled_keyed [OF assms(3) c(1)] assms(6)] by auto
qed

section \<open>Editing is exact\<close>

text \<open>
  C11: When transactions are required, an executor who changes the amount of an accepted task either changes nothing, or
  the task has the new amount at its stored rate and its owner has paid exactly the difference of the costs; a higher
  cost never takes the balance below the credit limit, and nothing else has changed.
\<close>

theorem edit_amount_exact:
  fixes w :: "'s task_world" and s :: 's
  assumes "task_store w" "txn_ok txn unknown (task_view w)" "task_sound k (task_view w s)" "k + 4 \<le> 1000"
    and "\<And>t. fst (task_view w s) (aq_transactionId rq) = Some t \<Longrightarrow>
      n_le (calculateTransferCostLYD (kt_transferType t) (Num (toNumber (aq_newAmount rq))) (Num (actual_rate t)) 3) (Fin 1000000)"
    and "editExecutorAmount txn notStarted True w rq s = (r, s')"
  shows "task_view w s' = task_view w s \<and> isl r
    \<or> amount_edited rq (task_view w s) (task_view w s') \<and> (\<forall>n. r = Inr n \<longrightarrow> n = toNumber (aq_newAmount rq))"
proof -
  let ?n = "toNumber (aq_newAmount rq)"
  obtain q s1 where e: "find_employee w (aq_executorId rq) s = (q, s1)" by fastforce
  have v1: "task_view w s1 = task_view w s" by (rule employee_read [OF assms(1) e])
  show ?thesis
  proof (cases "isl q \<or> \<not> isFinite ?n \<or> n_le ?n (Fin 0)")
    case True
    then have "isl r" "s' = s1"
      using assms(6) e by (auto simp: editExecutorAmount_def Let_def andThen_run bind_run isl_def split: if_splits sum.splits)
    then show ?thesis using v1 by auto
  next
    case False
    then obtain emp where q: "q = Inr emp" by (auto simp: isl_def) (metis sum.exhaust)
    have pos: "isFinite ?n" "n_lt (Fin 0) ?n" using False by (cases ?n; simp)+
    obtain r2 s2 where x: "withOptionalMongoTransaction txn notStarted True (\<lambda>session. edit_task_work w rq emp ?n) s1 = (r2, s2)" by fastforce
    then have s2: "s2 = s'" and r: "isl r \<longleftrightarrow> isl r2" "\<not> isl r2 \<Longrightarrow> r = Inr ?n"
      using assms(6) e False q by (cases r2; auto simp: editExecutorAmount_def Let_def andThen_run bind_run ret_def)+
    from required_txn [OF assms(2) x]
    consider (same) "task_view w s2 = task_view w s1" "isl r2"
      | (committed) a t0 t1 where "task_view w t0 = task_view w s1" "edit_task_work w rq emp ?n t0 = (Inr a, t1)" "task_view w s2 = task_view w t1"
      by blast
    then show ?thesis
    proof cases
      case same
      then show ?thesis using s2 v1 r(1) by simp
    next
      case (committed a t0 t1)
      have "amount_edited rq (task_view w t0) (task_view w t1)"
        by (rule edit_task_Inr [OF assms(1) _ assms(4) _ pos committed(2)]) (use assms(3,5) committed(1) v1 in simp_all)
      then show ?thesis using committed v1 s2 r by (cases r2) auto
    qed
  qed
qed

section \<open>A task that the provider has not paid\<close>

lemma unpaid_held:
  assumes "get (dataOf t) ''providerResolutionOutcome'' = Str ''provider_not_paid''" "pt_status t = ''accepted''"
  shows "refundBlockedByUnresolvedProvider (Some t) = Some (409, UNRESOLVED_CODE)"
  using assms by (simp add: refundBlockedByUnresolvedProvider_def providerMoneyHold_def completedMaskedProviderSuccess_def
      resolutionOutcome_def data_str_def or_else_def Let_def)

text \<open>
  C12: Once an administrator has settled that a provider did not pay a transaction, and a manual executor has accepted
  it, the settled outcome is taken for an open one: the executor can neither cancel the task nor return it.
\<close>

theorem unpaid_task_stuck:
  fixes w :: "'s task_world" and s :: 's
  assumes "task_store w" "txn_ok txn unknown (task_view w)" "task_keyed (task_view w s)"
    and "fst (task_view w s) (cq_transactionId rq) = Some t" "pt_status t = ''accepted''"
    and "get (dataOf t) ''providerResolutionOutcome'' = Str ''provider_not_paid''"
    and "cancelExecutorTask txn notStarted True w rq s = (r1, s1)" "returnExecutorTask w rq s = (r2, s2)"
  shows "task_view w s1 = task_view w s \<and> (\<forall>x. r1 \<noteq> Inr (Some x)) \<and> task_view w s2 = task_view w s \<and> isl r2"
proof -
  note held = unpaid_held [OF assms(6,5)]
  have "\<not> task_cancelled rq e q x (task_view w s) v" for e q x v
    using assms(4) held by (simp add: task_cancelled_def)
  then have "task_view w s1 = task_view w s \<and> (\<forall>x. r1 \<noteq> Inr (Some x))"
    using cancel_all_or_nothing [OF assms(1-3,7)] by blast
  moreover have "task_view w s2 = task_view w s \<and> isl r2"
  proof -
    obtain q t0 where g: "c_get (kw_txs w) (cq_transactionId rq) s = (q, t0)" by fastforce
    have v0: "task_view w t0 = task_view w s" by (rule get_task(1) [OF assms(1) g])
    have "\<exists>e. r2 = Inl e \<and> s2 = t0"
      using assms(8) g held get_task(2) [OF assms(1) g] assms(4)
      by (cases q) (auto simp: returnExecutorTask_def bind_run throw_def)
    then show ?thesis using v0 by auto
  qed
  ultimately show ?thesis by blast
qed

section \<open>Tasks in memory\<close>

record task_db =
  kd_txs :: "(string \<times> task_tx) list"
  kd_employees :: "(string \<times> employee) list"
  kd_companies :: "(string \<times> task_owner) list"
  kd_users :: "(string \<times> task_owner) list"

definition mem_tasks :: "task_db task_world" where
  "mem_tasks = \<lparr>kw_txs = mem_coll kd_txs (\<lambda>l s. s\<lparr>kd_txs := l\<rparr>), kw_employees = mem_coll kd_employees (\<lambda>l s. s\<lparr>kd_employees := l\<rparr>),
     kw_companies = mem_coll kd_companies (\<lambda>l s. s\<lparr>kd_companies := l\<rparr>), kw_users = mem_coll kd_users (\<lambda>l s. s\<lparr>kd_users := l\<rparr>)\<rparr>"

definition demo_task :: "(string \<times> jsval) list option \<Rightarrow> task_tx" where
  "demo_task data = \<lparr>pt_id = ''t'', pt_customId = ''1'', pt_status = ''accepted'', pt_amount = Fin 500, pt_executorGroupId = Some ''g'',
     pt_executorName = [], pt_executorSenderPhone = Undef, pt_adminNotes = [], pt_createdAt = 0, pt_updatedAt = 0, pt_data = data,
     kt_costLYD = Fin 100, kt_exchangeRate = Fin 5, kt_transferType = Str ''vodafone'', kt_operatorId = Some ''e'', kt_companyId = None,
     kt_userId = ''09'', kt_managerGroupId = None, kt_assigned = None, kt_broadcastMessages = [], kt_cancellation = None\<rparr>"

definition demo_tasks :: "(string \<times> jsval) list option \<Rightarrow> task_db" where
  "demo_tasks data = \<lparr>kd_txs = [(''t'', demo_task data)], kd_employees = [(''e'', \<lparr>em_id = ''e'', em_name = ''Ali''\<rparr>)], kd_companies = [],
     kd_users = [(''u'', \<lparr>balance = Fin 20, acc_tenantId = None, ow_id = ''u'', ow_creditLimit = Fin 100, ow_phone = ''09'', ow_webUsername = []\<rparr>)]\<rparr>"

definition demo_cancel :: cancel_request where
  "demo_cancel = \<lparr>cq_transactionId = ''t'', cq_executorId = ''e'', cq_reason = Str ''wrong'', cq_note = [], cq_now = 1\<rparr>"

definition demo_amount :: amount_request where
  "demo_amount = \<lparr>aq_transactionId = ''t'', aq_executorId = ''e'', aq_newAmount = Num (Fin 1000), aq_note = [], aq_now = 1\<rparr>"

lemma mem_tasks_store: "task_store mem_tasks"
  unfolding task_store_def mem_tasks_def
  by (simp add: mem_coll_ok) (intro conjI mem_coll_quiet; simp add: mem_coll_view task_view_def)

lemma demo_tasks_sound: "task_sound 1 (task_view mem_tasks (demo_tasks data))"
proof -
  have "priced (Fin 100)" "held 1 (Fin 20)"
    using whole_milli [of 100] whole_milli [of 20] by (simp_all add: priced_def held_def)
  then show ?thesis
    by (auto simp: task_sound_def task_keyed_def task_view_def mem_tasks_def mem_coll_view demo_tasks_def demo_task_def ran_def split: if_splits)
qed

lemma demo_keyed: "task_keyed (task_view mem_tasks (demo_tasks data))"
  using demo_tasks_sound by (simp add: task_sound_def)

abbreviation demo_run :: "cancel_request \<Rightarrow> task_db \<Rightarrow> (error + (task_tx \<times> employee \<times> string \<times> int) option) \<times> task_db" where
  "demo_run \<equiv> cancelExecutorTask atomic (\<lambda>_. False) True mem_tasks"

lemma demo_cancel_runs:
  "case demo_run demo_cancel (demo_tasks None) of
     (Inr (Some x), s') \<Rightarrow> map_option balance (map_of (kd_users s') ''u'') = Some (Fin 120) | _ \<Rightarrow> False"
  by code_simp

lemma cancel_refund_exact_witness:
  "\<exists>x s' r2 s2. demo_run demo_cancel (demo_tasks None) = (Inr (Some x), s') \<and> demo_run demo_cancel s' = (r2, s2)
     \<and> map_option balance (map_of (kd_users s') ''u'') = Some (Fin 120)
     \<and> task_view mem_tasks s2 = task_view mem_tasks s' \<and> (\<forall>y. r2 \<noteq> Inr (Some y))"
proof -
  obtain x s' where run: "demo_run demo_cancel (demo_tasks None) = (Inr (Some x), s')"
    and b: "map_option balance (map_of (kd_users s') ''u'') = Some (Fin 120)"
    using demo_cancel_runs by (auto split: prod.splits sum.splits option.splits)
  obtain r2 s2 where again: "demo_run demo_cancel s' = (r2, s2)" by fastforce
  show ?thesis
    using cancel_refund_exact [OF mem_tasks_store atomic_ok [where unknown = "\<lambda>_. False"] demo_keyed run refl again] run b again by blast
qed

lemma demo_edit_task_runs:
  "case editExecutorAmount atomic (\<lambda>_. False) True mem_tasks demo_amount (demo_tasks None) of
     (r, s') \<Rightarrow> \<not> isl r \<and> map_option balance (map_of (kd_users s') ''u'') = Some (Fin (- 80))"
  by code_simp

lemma edit_amount_exact_witness:
  "\<exists>r s'. editExecutorAmount atomic (\<lambda>_. False) True mem_tasks demo_amount (demo_tasks None) = (Inr r, s')
     \<and> map_option balance (map_of (kd_users s') ''u'') = Some (Fin (- 80))
     \<and> amount_edited demo_amount (task_view mem_tasks (demo_tasks None)) (task_view mem_tasks s')"
proof -
  obtain r s' where run: "editExecutorAmount atomic (\<lambda>_. False) True mem_tasks demo_amount (demo_tasks None) = (r, s')" by fastforce
  then have r: "\<not> isl r" "map_option balance (map_of (kd_users s') ''u'') = Some (Fin (- 80))" using demo_edit_task_runs by simp_all
  have c: "n_le (calculateTransferCostLYD (Str ''vodafone'') (Num (Fin 1000)) (Num (Fin 5)) 3) (Fin 1000000)" by code_simp
  have rate: "actual_rate (demo_task None) = Fin 5" by code_simp
  have "task_view mem_tasks s' = task_view mem_tasks (demo_tasks None) \<and> isl r
    \<or> amount_edited demo_amount (task_view mem_tasks (demo_tasks None)) (task_view mem_tasks s') \<and> (\<forall>n. r = Inr n \<longrightarrow> n = toNumber (aq_newAmount demo_amount))"
  proof (rule edit_amount_exact [OF mem_tasks_store atomic_ok [where unknown = "\<lambda>_. False"] demo_tasks_sound _ _ run])
    fix t assume "fst (task_view mem_tasks (demo_tasks None)) (aq_transactionId demo_amount) = Some t"
    then have t: "t = demo_task None" by (simp add: task_view_def mem_tasks_def mem_coll_view demo_tasks_def demo_amount_def)
    have ty: "kt_transferType t = Str ''vodafone''" "toNumber (aq_newAmount demo_amount) = Fin 1000"
      by (simp_all add: t demo_task_def demo_amount_def)
    show "n_le (calculateTransferCostLYD (kt_transferType t) (Num (toNumber (aq_newAmount demo_amount))) (Num (actual_rate t)) 3) (Fin 1000000)"
      using c rate unfolding ty unfolding t by simp
  qed simp
  then show ?thesis using run r by (cases r) auto
qed

abbreviation not_paid :: "(string \<times> jsval) list" where
  "not_paid \<equiv> [(''providerResolutionOutcome'', Str ''provider_not_paid'')]"

lemma unpaid_task_stuck_witness:
  "\<exists>e s1 e2 s2. demo_run demo_cancel (demo_tasks (Some not_paid)) = (e, s1)
     \<and> returnExecutorTask mem_tasks demo_cancel (demo_tasks (Some not_paid)) = (e2, s2)
     \<and> task_view mem_tasks s1 = task_view mem_tasks (demo_tasks (Some not_paid)) \<and> (\<forall>x. e \<noteq> Inr (Some x)) \<and> isl e2"
proof -
  obtain e s1 where r: "demo_run demo_cancel (demo_tasks (Some not_paid)) = (e, s1)" by fastforce
  obtain e2 s2 where r2: "returnExecutorTask mem_tasks demo_cancel (demo_tasks (Some not_paid)) = (e2, s2)" by fastforce
  have row: "fst (task_view mem_tasks (demo_tasks (Some not_paid))) (cq_transactionId demo_cancel) = Some (demo_task (Some not_paid))"
    by (simp add: task_view_def mem_tasks_def mem_coll_view demo_tasks_def demo_cancel_def)
  have "pt_status (demo_task (Some not_paid)) = ''accepted''"
    "get (dataOf (demo_task (Some not_paid))) ''providerResolutionOutcome'' = Str ''provider_not_paid''"
    by (simp_all add: demo_task_def dataOf_def)
  from unpaid_task_stuck [OF mem_tasks_store atomic_ok [where unknown = "\<lambda>_. False"] demo_keyed row this r r2]
  show ?thesis using r r2 by blast
qed

end
