(* ===== verification/Provider_Completion.thy ===== *)
theory Provider_Completion
  imports Provider_Resolution
begin

text \<open>
  A transfer that a provider has accepted waits and is then completed once
  (\<open>src/services/apiExecutionLifecycleService.js\<close>): the claim of the row, the debit of the executor and the saving of the
  row are one transaction.  The transaction is a parameter with the law \<open>txn_ok\<close>; the clock, the identifier of the ledger
  entry, the texts of the notes and the outcome of rendering a receipt are fields of an input.
\<close>

section \<open>Waiting for the completion\<close>

definition DEFAULT_API_COMPLETION_DELAY_MS :: jsnum where
  "DEFAULT_API_COMPLETION_DELAY_MS = Fin 25000"

definition getApiCompletionDelayMs :: "jsval \<Rightarrow> jsnum" where
  "getApiCompletionDelayMs setting = (let configured = toNumber setting in
     if isFinite configured \<and> n_le (Fin 0) configured then configured else DEFAULT_API_COMPLETION_DELAY_MS)"

definition appendAdminNote :: "string \<Rightarrow> review_tx \<Rightarrow> review_tx" where
  "appendAdminNote nt tx = tx\<lparr>pt_adminNotes := appendApiNote (pt_adminNotes tx) nt\<rparr>"

definition sameId :: "string option \<Rightarrow> string \<Rightarrow> bool" where
  "sameId left right \<longleftrightarrow> (case left of None \<Rightarrow> [] | Some i \<Rightarrow> i) = right"

text \<open>The date a number of milliseconds from now; it may be an invalid one.\<close>

definition later_date :: "int \<Rightarrow> jsnum \<Rightarrow> jsval" where
  "later_date now delayMs = (case n_add (Fin (of_int now)) delayMs of
     Fin r \<Rightarrow> (case time_clip r of Some ms \<Rightarrow> date_val ms | None \<Rightarrow> Obj [(''$date'', Num NaN)])
   | _ \<Rightarrow> Obj [(''$date'', Num NaN)])"

definition WAITING_NAME :: string where
  "WAITING_NAME = utf8 [217, 130, 217, 138, 216, 175, 32, 216, 167, 217, 132, 216, 170, 217, 134, 217, 129, 217, 138, 216, 176, 32, 216, 185, 216, 168, 216, 177, 32, 65, 80, 73]"

definition waiting_data :: "jsval \<Rightarrow> string \<Rightarrow> jsval \<Rightarrow> jsval \<Rightarrow> jsnum \<Rightarrow> review_tx \<Rightarrow> (string \<times> jsval) list" where
  "waiting_data apiResult referenceNumber receiptProof autoCompleteAt delayMs tx =
     [(''waitingApiAutoCompletion'', Bool True), (''autoCompleteAt'', autoCompleteAt), (''referenceNumber'', Str referenceNumber),
      (''referenceMasked'', Bool (get apiResult ''reference_masked'' = Bool True)),
      (''externalTransactionId'', or_else (get apiResult ''external_transaction_id'') Null),
      (''providerTransactionId'', or_else (get apiResult ''provider_transaction_id'') Null),
      (''completionDelayMs'', Num delayMs),
      (''apiProviderReceiptProof'', or_else receiptProof (or_else (get (dataOf tx) ''apiProviderReceiptProof'') Null))]"

definition prepareApiTransactionForDelayedCompletion ::
    "jsval \<Rightarrow> int \<Rightarrow> (string \<Rightarrow> jsnum \<Rightarrow> string) \<Rightarrow> exec_group \<Rightarrow> jsval \<Rightarrow> jsval \<Rightarrow> string \<Rightarrow> review_tx
      \<Rightarrow> (string \<times> jsval \<times> jsnum) option \<times> review_tx" where
  "prepareApiTransactionForDelayedCompletion setting now waitNote executorGroup apiResult receiptProof detailedLog tx =
     (let referenceNumber = resolveApiReferenceNumber apiResult
      in if referenceNumber = [] then (None, tx)
         else let delayMs = getApiCompletionDelayMs setting;
                  autoCompleteAt = later_date now delayMs;
                  tx1 = tx\<lparr>pt_status := ''processing'', pt_executorGroupId := Some (eg_id executorGroup), rt_managerGroupId := eg_parent executorGroup,
                    pt_executorName := WAITING_NAME, pt_executorSenderPhone := Str referenceNumber\<rparr>;
                  tx2 = appendCustomerReference REFERENCE_LABEL (Str referenceNumber) tx1;
                  external = get apiResult ''external_transaction_id'';
                  tx3 = (if truthy external \<and> external \<noteq> Str referenceNumber then appendCustomerReference PROVIDER_NUMBER_LABEL external tx2 else tx2);
                  tx4 = appendAdminNote (waitNote referenceNumber delayMs) tx3;
                  tx5 = (if detailedLog = [] then tx4 else appendAdminNote detailedLog tx4);
                  tx6 = (if truthy receiptProof then attachApiReceiptProofs Undef receiptProof tx5 else tx5)
              in (Some (referenceNumber, autoCompleteAt, delayMs),
                  set_data (waiting_data apiResult referenceNumber receiptProof autoCompleteAt delayMs tx6) tx6))"

definition PROVIDER_PAID_AWAITING_COMPLETION_FILTER :: "review_tx \<Rightarrow> bool" where
  "PROVIDER_PAID_AWAITING_COMPLETION_FILTER d \<longleftrightarrow> pt_status d = ''processing'' \<and> get (dataOf d) ''waitingApiAutoCompletion'' = Bool True"

definition countProviderPaidAwaitingCompletion :: "'s review_world \<Rightarrow> ('s, nat) run" where
  "countProviderPaidAwaitingCompletion w = bind (c_findMany (rw_txs w) PROVIDER_PAID_AWAITING_COMPLETION_FILTER) (\<lambda>ds. ret (length ds))"

definition warnProviderPaidAwaitingCompletion :: "'s review_world \<Rightarrow> ('s, nat option) run" where
  "warnProviderPaidAwaitingCompletion w = catch (bind (countProviderPaidAwaitingCompletion w) (\<lambda>n. ret (Some n))) (\<lambda>_. ret None)"

section \<open>The completion\<close>

text \<open>What a completion reads from outside: the switch of the schedulers, the clock, texts and the receipt.\<close>

record delayed_input =
  di_enabled :: bool
  di_now :: int
  di_entryId :: string
  di_missingNote :: string
  di_doneNote :: string
  di_moneyNote :: "error \<Rightarrow> string"
  di_rendered :: "string + string"

datatype completion_result = Completed_api | Not_completed string

definition completion_filter :: "review_tx \<Rightarrow> review_tx \<Rightarrow> bool" where
  "completion_filter tx d \<longleftrightarrow> pt_status d = ''processing'' \<and> pt_executorGroupId d = pt_executorGroupId tx
     \<and> get (dataOf d) ''waitingApiAutoCompletion'' = Bool True"

definition claim_completion :: "int \<Rightarrow> review_tx \<Rightarrow> review_tx" where
  "claim_completion now d = (set_data [(''waitingApiAutoCompletion'', Bool False), (''completionClaimedAt'', date_val now)] d)\<lparr>pt_updatedAt := now\<rparr>"

definition delayed_doc :: "delayed_input \<Rightarrow> review_tx \<Rightarrow> review_tx" where
  "delayed_doc di claimed = appendAdminNote (di_doneNote di)
     (set_data [(''waitingApiAutoCompletion'', Bool False), (''completedAt'', date_val (di_now di)),
        (''executorReceiptProof'', or_else (get (dataOf claimed) ''executorReceiptProof'') Null)]
       (claimed\<lparr>pt_status := ''completed'', pt_executorName := API_EXECUTOR_NAME, rt_completedAt := Some (di_now di)\<rparr>))"

definition delayed_fields :: "int \<Rightarrow> review_tx \<Rightarrow> review_tx \<Rightarrow> review_tx" where
  "delayed_fields now tx d = d\<lparr>pt_status := pt_status tx, pt_executorName := pt_executorName tx, rt_completedAt := rt_completedAt tx,
     pt_data := pt_data tx, pt_adminNotes := pt_adminNotes tx, pt_updatedAt := now\<rparr>"

text \<open>The body of the transaction: claim, debit, save.  The debit runs in the session of the transaction.\<close>

definition delayed_work :: "'s review_world \<Rightarrow> delayed_input \<Rightarrow> exec_group \<Rightarrow> review_tx \<Rightarrow> ('s, review_tx option) run" where
  "delayed_work w di executorGroup tx =
     bind (c_update (rw_txs w) (pt_id tx) (completion_filter tx) (claim_completion (di_now di))) (\<lambda>claimed. case claimed of
       None \<Rightarrow> ret None
     | Some c \<Rightarrow> andThen (runWithSession (rw_accounts w) (rw_ledger w) (di_entryId di) (debit_request c (eg_id executorGroup)))
         (bind (c_update (rw_txs w) (pt_id c) (\<lambda>_. True) (delayed_fields (di_now di) (delayed_doc di c))) (\<lambda>saved.
            if saved = None then throw (plain_error ''DocumentNotFoundError'') else ret (Some (delayed_doc di c)))))"

definition note_fields :: "int \<Rightarrow> string \<Rightarrow> review_tx \<Rightarrow> review_tx" where
  "note_fields now notes d = d\<lparr>pt_adminNotes := notes, pt_updatedAt := now\<rparr>"

definition save_note :: "'s review_world \<Rightarrow> int \<Rightarrow> string \<Rightarrow> review_tx \<Rightarrow> ('s, unit) run" where
  "save_note w now nt tx = bind (c_update (rw_txs w) (pt_id tx) (\<lambda>_. True) (note_fields now (pt_adminNotes (appendAdminNote nt tx))))
     (\<lambda>saved. throw_if (saved = None) (plain_error ''DocumentNotFoundError''))"

definition receipt_filter :: "review_tx \<Rightarrow> bool" where
  "receipt_filter d \<longleftrightarrow> get (dataOf d) ''executorReceiptProof'' = Undef \<or> get (dataOf d) ''executorReceiptProof'' = Null"

definition receipt_fields :: "int \<Rightarrow> jsval \<Rightarrow> review_tx \<Rightarrow> review_tx \<Rightarrow> review_tx" where
  "receipt_fields now proof tx d = (set_data [(''executorReceiptProof'', or_else proof Null)] d)
     \<lparr>rt_proofImages := rt_proofImages tx, rt_proofImage := (if rt_proofImage tx = [] then rt_proofImage d else rt_proofImage tx), pt_updatedAt := now\<rparr>"

definition attachCompletionReceiptAfterCommit :: "'s review_world \<Rightarrow> delayed_input \<Rightarrow> review_tx \<Rightarrow> ('s, unit) run" where
  "attachCompletionReceiptAfterCommit w di tx =
     (let data = dataOf tx;
          apiResult = Obj [(''reference_number'', get data ''referenceNumber''), (''external_transaction_id'', get data ''externalTransactionId''),
            (''provider_transaction_id'', get data ''providerTransactionId'')]
      in if truthy (get data ''executorReceiptProof'') then ret ()
         else case createApiExecutorReceiptProof (di_rendered di) apiResult tx of
             Inl nt \<Rightarrow> catch (bind (c_update (rw_txs w) (pt_id tx) (\<lambda>_. True) (note_fields (di_now di) (pt_adminNotes (appendAdminNote nt tx))))
               (\<lambda>_. ret ())) (\<lambda>_. ret ())
           | Inr proof \<Rightarrow> let tx1 = attachApiReceiptProofs proof (get data ''apiProviderReceiptProof'') tx in
               if \<not> truthy proof \<and> rt_proofImage tx1 = [] then ret ()
               else catch (bind (c_update (rw_txs w) (pt_id tx) receipt_filter (receipt_fields (di_now di) proof tx1)) (\<lambda>_. ret ())) (\<lambda>_. ret ()))"

text \<open>After an error: when the balance was too small, the row that still waits gets a note.\<close>

definition abort_completion :: "'s review_world \<Rightarrow> delayed_input \<Rightarrow> review_tx \<Rightarrow> error \<Rightarrow> ('s, completion_result) run" where
  "abort_completion w di tx err =
     (if message err = ''INSUFFICIENT_BALANCE''
      then bind (c_get (rw_txs w) (pt_id tx)) (\<lambda>found. andThen (case found of
             Some fresh \<Rightarrow> if PROVIDER_PAID_AWAITING_COMPLETION_FILTER fresh then save_note w (di_now di) (di_moneyNote di err) fresh else ret ()
           | None \<Rightarrow> ret ()) (ret (Not_completed ''balance_update_failed'')))
      else ret (Not_completed ''completion_aborted''))"

definition commit_completion ::
    "(('s, review_tx option) run \<Rightarrow> ('s, review_tx option) run) \<Rightarrow> 's review_world \<Rightarrow> delayed_input \<Rightarrow> exec_group \<Rightarrow> review_tx \<Rightarrow> ('s, completion_result) run" where
  "commit_completion txn w di executorGroup tx =
     bind (catch (bind (txn (delayed_work w di executorGroup tx)) (\<lambda>x. ret (Inr x))) (\<lambda>err. ret (Inl err))) (\<lambda>outcome. case outcome of
         Inl err \<Rightarrow> abort_completion w di tx err
       | Inr None \<Rightarrow> ret (Not_completed ''completion_already_claimed'')
       | Inr (Some completedTx) \<Rightarrow> andThen (attachCompletionReceiptAfterCommit w di completedTx) (ret Completed_api))"

definition complete_row ::
    "(('s, review_tx option) run \<Rightarrow> ('s, review_tx option) run) \<Rightarrow> 's review_world \<Rightarrow> delayed_input \<Rightarrow> string \<Rightarrow> review_tx \<Rightarrow> ('s, completion_result) run" where
  "complete_row txn w di executorGroupId tx =
     (if pt_status tx \<noteq> ''processing'' then ret (Not_completed (''invalid_status:'' @ pt_status tx))
      else if isProviderResultUnresolved tx \<or> needsUnresolvedHold tx then ret (Not_completed ''provider_result_unresolved'')
      else if \<not> sameId (pt_executorGroupId tx) executorGroupId then ret (Not_completed ''executor_changed'')
      else if get (dataOf tx) ''waitingApiAutoCompletion'' \<noteq> Bool True then ret (Not_completed ''not_waiting_api_completion'')
      else bind (c_get (rw_groups w) executorGroupId) (\<lambda>executorGroup. case executorGroup of
          None \<Rightarrow> andThen (save_note w (di_now di) (di_missingNote di) tx) (ret (Not_completed ''executor_not_found''))
        | Some g \<Rightarrow> commit_completion txn w di g tx))"

definition completeApiTransaction ::
    "(('s, review_tx option) run \<Rightarrow> ('s, review_tx option) run) \<Rightarrow> 's review_world \<Rightarrow> delayed_input \<Rightarrow> string \<Rightarrow> string \<Rightarrow> ('s, completion_result) run" where
  "completeApiTransaction txn w di txId executorGroupId =
     (if \<not> di_enabled di then ret (Not_completed ''financial_schedulers_disabled'')
      else bind (c_get (rw_txs w) txId) (\<lambda>found. case found of
          None \<Rightarrow> ret (Not_completed ''transaction_not_found'')
        | Some tx \<Rightarrow> complete_row txn w di executorGroupId tx))"

section \<open>The scan for rows that are due\<close>

definition due_at :: "int \<Rightarrow> jsval \<Rightarrow> bool" where
  "due_at now v \<longleftrightarrow> (case v of Obj kvs \<Rightarrow> (case map_of kvs ''$date'' of Some (Num (Fin r)) \<Rightarrow> r \<le> of_int now | _ \<Rightarrow> False) | _ \<Rightarrow> False)"

definition due_filter :: "int \<Rightarrow> review_tx \<Rightarrow> bool" where
  "due_filter now d \<longleftrightarrow> (let data = dataOf d in pt_status d = ''processing'' \<and> get data ''waitingApiAutoCompletion'' = Bool True
     \<and> due_at now (get data ''autoCompleteAt'') \<and> get data ''providerResultUnresolved'' \<noteq> Bool True
     \<and> get data ''providerDispatchResult'' \<noteq> Str ''pending_reference'')"

fun complete_each ::
    "(('s, review_tx option) run \<Rightarrow> ('s, review_tx option) run) \<Rightarrow> 's review_world \<Rightarrow> (string \<Rightarrow> delayed_input) \<Rightarrow> review_tx list \<Rightarrow> ('s, unit) run" where
  "complete_each txn w input [] = ret ()"
| "complete_each txn w input (tx # txs) =
     andThen (case pt_executorGroupId tx of
         Some gid \<Rightarrow> bind (completeApiTransaction txn w (input (pt_id tx)) (pt_id tx) gid) (\<lambda>_. ret ())
       | None \<Rightarrow> ret ())
       (complete_each txn w input txs)"

definition completeDueApiTransactions ::
    "(('s, review_tx option) run \<Rightarrow> ('s, review_tx option) run) \<Rightarrow> 's review_world \<Rightarrow> int \<Rightarrow> (string \<Rightarrow> delayed_input) \<Rightarrow> ('s, unit) run" where
  "completeDueApiTransactions txn w now input =
     bind (c_findMany (rw_txs w) (due_filter now)) (\<lambda>dueTransactions. complete_each txn w input (take 50 dueTransactions))"

end
