(* ===== verification/Completion_Books.thy ===== *)
theory Completion_Books
  imports Provider_Completion Resolution_Books
begin

text \<open>
  What the operations of \<open>Provider_Completion\<close> do to the stored rows and balances: a waiting transfer is completed and
  its executor debited at most once, and a settlement by hand excludes it.
\<close>

section \<open>What a completion may touch\<close>

text \<open>The part of a row that decides about its completion, and the money.\<close>

definition row_key :: "review_tx \<Rightarrow> string \<times> string \<times> bool \<times> string option" where
  "row_key t = (pt_id t, pt_status t, get (dataOf t) ''waitingApiAutoCompletion'' = Bool True, pt_executorGroupId t)"

definition completion_view :: "'s review_world \<Rightarrow> string \<Rightarrow> 's
    \<Rightarrow> (string \<times> string \<times> bool \<times> string option) option \<times> (string \<Rightarrow> account option) \<times> (string \<Rightarrow> ledger_entry option)" where
  "completion_view w i s = (map_option row_key (c_view (rw_txs w) s i), c_view (rw_accounts w) s, c_view (rw_ledger w) s)"

lemma completion_view_of: "completion_view w i = (\<lambda>s. (\<lambda>(t, a, l). (map_option row_key (t i), a, l)) (review_view w s))"
  by (rule ext) (simp add: completion_view_def review_view_def)

lemma completion_view_eq: "completion_view w i s = (map_option row_key (fst (review_view w s) i), snd (review_view w s))"
  by (simp add: completion_view_def review_view_def)

lemma keeps_completion: "keeps (review_view w) m \<Longrightarrow> keeps (completion_view w i) m"
  unfolding completion_view_of by (rule keeps_comp)

lemma keeps_row_update [keeps_intros]:
  assumes "review_store w" "\<And>d. row_key (f d) = row_key d"
  shows "keeps (completion_view w i) (c_update (rw_txs w) j p f)"
proof (rule keepsI)
  fix s r s' assume u: "c_update (rw_txs w) j p f s = (r, s')"
  have "map_option row_key (c_view (rw_txs w) s' i) = map_option row_key (c_view (rw_txs w) s i)"
  proof (cases r)
    case (Inl e)
    then show ?thesis using c_update_fail [OF review_storeD(1) [OF assms(1)]] u by simp
  next
    case (Inr x)
    then show ?thesis using update_view [OF review_storeD(1) [OF assms(1)] u [unfolded Inr]] assms(2) by (cases x) auto
  qed
  then show "completion_view w i s' = completion_view w i s"
    using quietD(2) [OF review_storeD(6) [OF assms(1)] u] quietD(2) [OF review_storeD(7) [OF assms(1)] u] by (simp add: completion_view_def)
qed

lemma row_key_note: "row_key (note_fields now n d) = row_key d"
  by (simp add: row_key_def note_fields_def dataOf_def)

lemma row_key_receipt: "row_key (receipt_fields now p tx d) = row_key d"
proof -
  have "get (dataOf (receipt_fields now p tx d)) k = get (dataOf (set_data [(''executorReceiptProof'', or_else p Null)] d)) k" for k
    by (simp add: receipt_fields_def dataOf_def)
  then have "get (dataOf (receipt_fields now p tx d)) ''waitingApiAutoCompletion'' = get (dataOf d) ''waitingApiAutoCompletion''"
    by (simp add: get_set_data del: get.simps)
  then show ?thesis by (simp add: row_key_def receipt_fields_def)
qed

lemma keeps_save_note: "review_store w \<Longrightarrow> keeps (completion_view w i) (save_note w now n tx)"
  unfolding save_note_def throw_if_def by (intro keeps_intros row_key_note)

lemma keeps_receipt: "review_store w \<Longrightarrow> keeps (completion_view w i) (attachCompletionReceiptAfterCommit w di tx)"
  unfolding attachCompletionReceiptAfterCommit_def Let_def
  by (cases "createApiExecutorReceiptProof (di_rendered di)
      (Obj [(''reference_number'', get (dataOf tx) ''referenceNumber''), (''external_transaction_id'', get (dataOf tx) ''externalTransactionId''),
        (''provider_transaction_id'', get (dataOf tx) ''providerTransactionId'')]) tx")
     (simp_all only: sum.case, (intro keeps_intros row_key_note row_key_receipt; assumption)+)

lemma keeps_abort: "review_store w \<Longrightarrow> keeps (completion_view w i) (abort_completion w di tx err)"
  unfolding abort_completion_def
  by (intro keeps_intros keeps_save_note keeps_completion review_reads)

section \<open>One completion\<close>

lemma set_waiting:
  "get (dataOf (claim_completion now d)) ''waitingApiAutoCompletion'' = Bool False"
  "get (dataOf (delayed_doc di c)) ''waitingApiAutoCompletion'' = Bool False"
proof -
  have "get (dataOf (claim_completion now d)) k = get (dataOf (set_data [(''waitingApiAutoCompletion'', Bool False), (''completionClaimedAt'', date_val now)] d)) k" for k
    by (simp add: claim_completion_def dataOf_def)
  then show "get (dataOf (claim_completion now d)) ''waitingApiAutoCompletion'' = Bool False" by (simp add: get_set_data del: get.simps)
  have "get (dataOf (delayed_doc di c)) k = get (dataOf (set_data [(''waitingApiAutoCompletion'', Bool False), (''completedAt'', date_val (di_now di)),
        (''executorReceiptProof'', or_else (get (dataOf c) ''executorReceiptProof'') Null)]
       (c\<lparr>pt_status := ''completed'', pt_executorName := API_EXECUTOR_NAME, rt_completedAt := Some (di_now di)\<rparr>))) k" for k
    by (simp add: delayed_doc_def appendAdminNote_def dataOf_def)
  then show "get (dataOf (delayed_doc di c)) ''waitingApiAutoCompletion'' = Bool False" by (simp add: get_set_data del: get.simps)
qed

lemma delayed_key: "row_key (delayed_fields now (delayed_doc di c) d) = (pt_id d, ''completed'', False, pt_executorGroupId d)"
proof -
  have "dataOf (delayed_fields now (delayed_doc di c) d) = dataOf (delayed_doc di c)" by (simp add: delayed_fields_def dataOf_def)
  moreover have "pt_status (delayed_doc di c) = ''completed''" by (simp add: delayed_doc_def appendAdminNote_def)
  ultimately show ?thesis by (simp add: row_key_def set_waiting delayed_fields_def del: get.simps)
qed

lemma claim_fields_kept:
  "pt_id (claim_completion now d) = pt_id d" "pt_executorGroupId (claim_completion now d) = pt_executorGroupId d"
  "debit_request (claim_completion now d) g = debit_request d g"
  by (simp_all add: claim_completion_def set_data_def debit_request_def debit_amount_def)

text \<open>A waiting row \<open>c\<close> is completed and its executor debited.\<close>

definition completed_once :: "delayed_input \<Rightarrow> string \<Rightarrow> review_tx \<Rightarrow> string \<Rightarrow> review_books \<Rightarrow> review_books \<Rightarrow> bool" where
  "completed_once di i c g v v' \<longleftrightarrow> fst v i = Some c \<and> PROVIDER_PAID_AWAITING_COMPLETION_FILTER c
     \<and> (\<exists>acc. posted (di_entryId di) (debit_request c g) (fst (snd v)) (snd (snd v)) (fst (snd v')) (snd (snd v')) acc)
     \<and> map_option row_key (fst v' i) = Some (pt_id c, ''completed'', False, pt_executorGroupId c)"

lemma update_money:
  assumes "review_store w" "c_update (rw_txs w) j p f s = (r, s')"
  shows "c_view (rw_accounts w) s' = c_view (rw_accounts w) s" "c_view (rw_ledger w) s' = c_view (rw_ledger w) s"
  using quietD(2) [OF review_storeD(6) [OF assms(1)] assms(2)] quietD(2) [OF review_storeD(7) [OF assms(1)] assms(2)] by simp_all

lemma work_effect:
  assumes "review_store w" "\<And>c. fst (review_view w s) (pt_id tx) = Some c \<Longrightarrow> pt_id c = pt_id tx"
    and run: "delayed_work w di g tx s = (Inr x, s')"
  shows "case x of None \<Rightarrow> review_view w s' = review_view w s
    | Some t \<Rightarrow> \<exists>c. completion_filter tx c \<and> completed_once di (pt_id tx) c (eg_id g) (review_view w s) (review_view w s')"
proof -
  let ?i = "pt_id tx"
  let ?now = "di_now di"
  obtain found s1 where u: "c_update (rw_txs w) ?i (completion_filter tx) (claim_completion ?now) s = (Inr found, s1)"
    and rest: "(case found of None \<Rightarrow> ret None
     | Some c \<Rightarrow> andThen (runWithSession (rw_accounts w) (rw_ledger w) (di_entryId di) (debit_request c (eg_id g)))
         (bind (c_update (rw_txs w) (pt_id c) (\<lambda>_. True) (delayed_fields ?now (delayed_doc di c))) (\<lambda>saved.
            if saved = None then throw (plain_error ''DocumentNotFoundError'') else ret (Some (delayed_doc di c))))) s1 = (Inr x, s')"
    using run unfolding delayed_work_def by (elim bind_InrE)
  note u1 = update_view [OF review_storeD(1) [OF assms(1)] u]
  note m1 = update_money [OF assms(1) u]
  show ?thesis
  proof (cases found)
    case None
    then show ?thesis using rest u1 m1 by (auto simp: review_view_def)
  next
    case (Some c1)
    obtain c where c: "c_view (rw_txs w) s ?i = Some c" "completion_filter tx c" "c1 = claim_completion ?now c"
      "c_view (rw_txs w) s1 = (c_view (rw_txs w) s)(?i \<mapsto> c1)" using u1 Some by auto
    have id: "pt_id c = ?i" using assms(2) c(1) by (simp add: review_view_def)
    obtain b s2 where p: "runWithSession (rw_accounts w) (rw_ledger w) (di_entryId di) (debit_request c (eg_id g)) s1 = (Inr b, s2)"
      and k: "bind (c_update (rw_txs w) ?i (\<lambda>_. True) (delayed_fields ?now (delayed_doc di c1))) (\<lambda>saved.
            if saved = None then throw (plain_error ''DocumentNotFoundError'') else ret (Some (delayed_doc di c1))) s2 = (Inr x, s')"
      using rest unfolding Some option.case andThen_run c(3) claim_fields_kept id by (auto split: prod.splits sum.splits)
    obtain acc where acc: "posted (di_entryId di) (debit_request c (eg_id g)) (c_view (rw_accounts w) s1) (c_view (rw_ledger w) s1)
        (c_view (rw_accounts w) s2) (c_view (rw_ledger w) s2) acc"
      by (rule runWithSession_Inr [OF review_storeD(3,4,10,13) [OF assms(1)] p])
    have "keeps (c_view (rw_txs w)) (runWithSession (rw_accounts w) (rw_ledger w) (di_entryId di) (debit_request c (eg_id g)))"
      unfolding runWithSession_def Let_def by (intro keeps_intros review_storeD(9,12) [OF assms(1)])
    from keepsD [OF this p] have t2: "c_view (rw_txs w) s2 = (c_view (rw_txs w) s)(?i \<mapsto> c1)" using c(4) by simp
    obtain saved s3 where u2: "c_update (rw_txs w) ?i (\<lambda>_. True) (delayed_fields ?now (delayed_doc di c1)) s2 = (Inr saved, s3)"
      and k2: "(if saved = None then throw (plain_error ''DocumentNotFoundError'') else ret (Some (delayed_doc di c1))) s3 = (Inr x, s')"
      using k by (elim bind_InrE)
    obtain d where "saved = Some d" using k2 by (cases saved) auto
    then have x: "x = Some (delayed_doc di c1)" "s' = s3" using k2 by simp_all
    have row: "c_view (rw_txs w) s' ?i = Some (delayed_fields ?now (delayed_doc di c1) c1)"
      using update_view [OF review_storeD(1) [OF assms(1)] u2] \<open>saved = Some d\<close> t2 x by auto
    have key: "map_option row_key (c_view (rw_txs w) s' ?i) = Some (pt_id c, ''completed'', False, pt_executorGroupId c)"
      unfolding row by (simp add: delayed_key c(3) claim_fields_kept)
    have paid: "PROVIDER_PAID_AWAITING_COMPLETION_FILTER c"
      using c(2) by (simp add: completion_filter_def PROVIDER_PAID_AWAITING_COMPLETION_FILTER_def)
    have "completed_once di ?i c (eg_id g) (review_view w s) (review_view w s')"
      unfolding completed_once_def review_view_def fst_conv snd_conv update_money [OF assms(1) u2, folded x(2)]
      using c(1) paid key acc m1 by auto
    then show ?thesis using x(1) c(2) by auto
  qed
qed

lemma commit_effect:
  assumes "review_store w" "txn_ok txn unknown (review_view w)" "\<And>c. fst (review_view w s) (pt_id tx) = Some c \<Longrightarrow> pt_id c = pt_id tx"
    and run: "commit_completion txn w di g tx s = (r, s')"
  shows "completion_view w (pt_id tx) s' = completion_view w (pt_id tx) s \<and> r \<noteq> Inr Completed_api
    \<or> (\<exists>c v. completion_filter tx c \<and> completed_once di (pt_id tx) c (eg_id g) (review_view w s) v
         \<and> completion_view w (pt_id tx) s' = (map_option row_key (fst v (pt_id tx)), snd v))"
proof -
  obtain q s1 where t: "txn (delayed_work w di g tx) s = (q, s1)" by fastforce
  let ?i = "pt_id tx"
  let ?tail = "\<lambda>outcome. case outcome of Inl err \<Rightarrow> abort_completion w di tx err
     | Inr None \<Rightarrow> ret (Not_completed ''completion_already_claimed'')
     | Inr (Some completedTx) \<Rightarrow> andThen (attachCompletionReceiptAfterCommit w di completedTx) (ret Completed_api)"
  have tail: "?tail q s1 = (r, s')" using run t by (cases q) (simp_all add: commit_completion_def bind_run catch_run)
  have "keeps (completion_view w ?i) (?tail q)"
    by (cases q; simp; (intro keeps_abort assms(1))?) (simp split: option.split, intro conjI allI impI keeps_intros keeps_receipt assms(1))
  from keepsD [OF this tail] have v1: "completion_view w ?i s' = completion_view w ?i s1" .
  have same: "completion_view w ?i s1 = completion_view w ?i s" if "review_view w s1 = review_view w s"
    using that by (simp add: completion_view_of)
  have work: "case x of None \<Rightarrow> review_view w s1 = review_view w s
      | Some t \<Rightarrow> \<exists>c. completion_filter tx c \<and> completed_once di ?i c (eg_id g) (review_view w s) (review_view w s1)"
    if "review_view w s0 = review_view w s" "delayed_work w di g tx s0 = (Inr x, s2)" "review_view w s1 = review_view w s2" for x s0 s2
  proof -
    have "pt_id c = ?i" if "fst (review_view w s0) ?i = Some c" for c using that assms(3) \<open>review_view w s0 = review_view w s\<close> by simp
    from work_effect [OF assms(1) this that(2)] show ?thesis unfolding that .
  qed
  have finished: "\<exists>c v. completion_filter tx c \<and> completed_once di ?i c (eg_id g) (review_view w s) v
         \<and> completion_view w ?i s' = (map_option row_key (fst v ?i), snd v)"
    if "completion_filter tx c" "completed_once di ?i c (eg_id g) (review_view w s) (review_view w s1)" for c
    using that by (intro exI [of _ c] exI [of _ "review_view w s1"]) (simp only: v1 completion_view_eq [of w ?i s1] simp_thms)
  have nr: "r \<noteq> Inr Completed_api" if "\<And>t. q \<noteq> Inr (Some t)"
  proof (cases q)
    case (Inl e)
    then show ?thesis using tail
      by (auto simp: abort_completion_def bind_run andThen_run split: if_splits prod.splits sum.splits option.splits)
  next
    case (Inr x)
    then show ?thesis using tail that by (cases x) auto
  qed
  show ?thesis
  proof (cases "\<exists>c. completion_filter tx c \<and> completed_once di ?i c (eg_id g) (review_view w s) (review_view w s1)")
    case True
    then show ?thesis using finished by blast
  next
    case False
    have none: "x = None \<and> review_view w s1 = review_view w s"
      if "review_view w s0 = review_view w s" "delayed_work w di g tx s0 = (Inr x, s2)" "review_view w s1 = review_view w s2" for x s0 s2
      using work [OF that] False by (cases x) auto
    have "review_view w s1 = review_view w s \<and> (\<forall>t. q \<noteq> Inr (Some t))"
    proof (cases q)
      case (Inr x)
      obtain s0 s2 where "review_view w s0 = review_view w s" "delayed_work w di g tx s0 = (Inr x, s2)" "review_view w s1 = review_view w s2"
        by (rule txn_commit [OF assms(2) t [unfolded Inr]])
      then show ?thesis using none Inr by blast
    next
      case (Inl e)
      then show ?thesis using txn_cases [OF assms(2) t] none by (metis Inr_not_Inl)
    qed
    then show ?thesis using same v1 nr by simp
  qed
qed

lemma complete_row_effect:
  assumes "review_store w" "txn_ok txn unknown (review_view w)" "\<And>c. fst (review_view w s) (pt_id tx) = Some c \<Longrightarrow> pt_id c = pt_id tx"
    and run: "complete_row txn w di gid tx s = (r, s')"
  shows "completion_view w (pt_id tx) s' = completion_view w (pt_id tx) s \<and> r \<noteq> Inr Completed_api
    \<or> (\<exists>c g v. c_view (rw_groups w) s gid = Some g \<and> sameId (pt_executorGroupId c) gid
         \<and> completed_once di (pt_id tx) c (eg_id g) (review_view w s) v
         \<and> completion_view w (pt_id tx) s' = (map_option row_key (fst v (pt_id tx)), snd v))"
proof -
  let ?lookup = "bind (c_get (rw_groups w) gid) (\<lambda>executorGroup. case executorGroup of
          None \<Rightarrow> andThen (save_note w (di_now di) (di_missingNote di) tx) (ret (Not_completed ''executor_not_found''))
        | Some g \<Rightarrow> commit_completion txn w di g tx)"
  have refused: ?thesis if "complete_row txn w di gid tx = ret (Not_completed n)" for n using run that by (auto simp: ret_def)
  show ?thesis
  proof (cases "complete_row txn w di gid tx = ?lookup \<and> sameId (pt_executorGroupId tx) gid")
    case False
    then have "\<exists>n. complete_row txn w di gid tx = ret (Not_completed n)" by (auto simp: complete_row_def)
    then show ?thesis using refused by blast
  next
    case True
    obtain found s1 where g: "c_get (rw_groups w) gid s = (found, s1)" by fastforce
    have v1: "review_view w s1 = review_view w s" by (rule keepsD [OF review_reads(2) [OF assms(1)] g])
    then have c1: "completion_view w (pt_id tx) s1 = completion_view w (pt_id tx) s" by (simp only: completion_view_eq)
    show ?thesis
    proof (cases found)
      case (Inl e)
      then show ?thesis using run True g c1 by (auto simp: bind_run)
    next
      case (Inr x)
      show ?thesis
      proof (cases x)
        case None
        then have m: "andThen (save_note w (di_now di) (di_missingNote di) tx) (ret (Not_completed ''executor_not_found'')) s1 = (r, s')"
          using run True g Inr by (simp add: bind_run)
        have "keeps (completion_view w (pt_id tx)) (andThen (save_note w (di_now di) (di_missingNote di) tx) (ret (Not_completed ''executor_not_found'')))"
          by (intro keeps_intros keeps_save_note assms(1))
        from keepsD [OF this m] have "completion_view w (pt_id tx) s' = completion_view w (pt_id tx) s" using c1 by simp
        moreover have "r \<noteq> Inr Completed_api" using m by (auto simp: andThen_run split: prod.splits sum.splits)
        ultimately show ?thesis by simp
      next
        case (Some gr)
        have gr: "c_view (rw_groups w) s gid = Some gr" using c_get_view(2) [OF review_storeD(2) [OF assms(1)] g [unfolded Inr]] Some by simp
        have m: "commit_completion txn w di gr tx s1 = (r, s')" using run True g Inr Some by (simp add: bind_run)
        have i1: "pt_id c = pt_id tx" if "fst (review_view w s1) (pt_id tx) = Some c" for c using that assms(3) v1 by simp
        have same: "sameId (pt_executorGroupId c) gid" if "completion_filter tx c" for c
          using that True by (simp add: completion_filter_def)
        from commit_effect [OF assms(1,2) i1 m] show ?thesis
          unfolding v1 c1 using gr same by blast
      qed
    qed
  qed
qed

lemma complete_effect:
  assumes "review_store w" "txn_ok txn unknown (review_view w)" "\<And>c. fst (review_view w s) i = Some c \<Longrightarrow> pt_id c = i"
    and run: "completeApiTransaction txn w di i gid s = (r, s')"
  shows "completion_view w i s' = completion_view w i s \<and> r \<noteq> Inr Completed_api
    \<or> (\<exists>c g v. c_view (rw_groups w) s gid = Some g \<and> sameId (pt_executorGroupId c) gid
         \<and> completed_once di i c (eg_id g) (review_view w s) v \<and> completion_view w i s' = (map_option row_key (fst v i), snd v))"
proof (cases "di_enabled di")
  case False
  then show ?thesis using run by (auto simp: completeApiTransaction_def ret_def)
next
  case True
  obtain found s1 where g: "c_get (rw_txs w) i s = (found, s1)" by fastforce
  have v1: "review_view w s1 = review_view w s" by (rule keepsD [OF review_reads(1) [OF assms(1)] g])
  then have c1: "completion_view w i s1 = completion_view w i s" by (simp only: completion_view_eq)
  have groups: "c_view (rw_groups w) s1 = c_view (rw_groups w) s" using quietD(4) [OF review_storeD(8) [OF assms(1)] g] .
  show ?thesis
  proof (cases found)
    case (Inl e)
    then show ?thesis using run True g c1 by (auto simp: completeApiTransaction_def bind_run)
  next
    case (Inr x)
    show ?thesis
    proof (cases x)
      case None
      then show ?thesis using run True g Inr c1 by (auto simp: completeApiTransaction_def bind_run ret_def)
    next
      case (Some tx)
      have "fst (review_view w s) i = Some tx"
        using c_get_view(2) [OF review_storeD(1) [OF assms(1)] g [unfolded Inr]] Some by (simp add: review_view_def)
      then have id: "pt_id tx = i" by (rule assms(3))
      have m: "complete_row txn w di gid tx s1 = (r, s')" using run True g Inr Some by (simp add: completeApiTransaction_def bind_run)
      have i1: "pt_id c = pt_id tx" if "fst (review_view w s1) (pt_id tx) = Some c" for c using that assms(3) v1 id by simp
      from complete_row_effect [OF assms(1,2) i1 m] show ?thesis unfolding v1 c1 id groups .
    qed
  qed
qed

text \<open>Later runs for the row, by timers or by the scan.\<close>

fun complete_all ::
    "(('s, review_tx option) run \<Rightarrow> ('s, review_tx option) run) \<Rightarrow> 's review_world \<Rightarrow> string \<Rightarrow> (delayed_input \<times> string) list \<Rightarrow> 's \<Rightarrow> 's" where
  "complete_all txn w i [] s = s"
| "complete_all txn w i ((di, gid) # runs) s = complete_all txn w i runs (snd (completeApiTransaction txn w di i gid s))"

lemma completed_stays:
  assumes "review_store w" "txn_ok txn unknown (review_view w)" "fst (completion_view w i s) = Some (i, ''completed'', False, e)"
  shows "completion_view w i (complete_all txn w i runs s) = completion_view w i s"
  using assms(3)
proof (induction runs arbitrary: s)
  case (Cons run runs)
  obtain di gid where run: "run = (di, gid)" by fastforce
  obtain r s1 where m: "completeApiTransaction txn w di i gid s = (r, s1)" by fastforce
  have id: "pt_id c = i" "\<not> PROVIDER_PAID_AWAITING_COMPLETION_FILTER c" if "fst (review_view w s) i = Some c" for c
    using Cons.prems that by (auto simp: completion_view_eq row_key_def PROVIDER_PAID_AWAITING_COMPLETION_FILTER_def)
  from complete_effect [OF assms(1,2) id(1) m] have "completion_view w i s1 = completion_view w i s"
    using id(2) by (auto simp: completed_once_def)
  then show ?case using Cons.IH [of s1] Cons.prems run m by simp
qed simp

text \<open>
  C4: A waiting transfer is completed at most once.  A run either leaves the status of the row and all money as they
  were and does not report a completion, or it has found the row waiting for this executor, has debited the executor once
  by the amount of the row and has completed the row, and then no later run for it moves money, whether the run was
  reported as completed or as aborted.
\<close>

theorem delayed_completion_once:
  fixes w :: "'s review_world" and s :: 's
  assumes "review_store w" "txn_ok txn unknown (review_view w)"
    and "\<And>c. c_view (rw_txs w) s i = Some c \<Longrightarrow> pt_id c = i" "\<And>g. c_view (rw_groups w) s gid = Some g \<Longrightarrow> eg_id g = gid"
    and "completeApiTransaction txn w di i gid s = (r, s')"
  shows "completion_view w i s' = completion_view w i s \<and> r \<noteq> Inr Completed_api
    \<or> (\<exists>c acc. c_view (rw_txs w) s i = Some c \<and> PROVIDER_PAID_AWAITING_COMPLETION_FILTER c \<and> sameId (pt_executorGroupId c) gid
         \<and> posted (di_entryId di) (debit_request c gid) (c_view (rw_accounts w) s) (c_view (rw_ledger w) s)
             (c_view (rw_accounts w) s') (c_view (rw_ledger w) s') acc
         \<and> map_option pt_status (c_view (rw_txs w) s' i) = Some ''completed''
         \<and> (\<forall>runs. completion_view w i (complete_all txn w i runs s') = completion_view w i s'))"
proof -
  have id: "pt_id c = i" if "fst (review_view w s) i = Some c" for c using that assms(3) by (simp add: review_view_def)
  from complete_effect [OF assms(1,2) id assms(5)] show ?thesis
  proof
    assume "\<exists>c g v. c_view (rw_groups w) s gid = Some g \<and> sameId (pt_executorGroupId c) gid
         \<and> completed_once di i c (eg_id g) (review_view w s) v \<and> completion_view w i s' = (map_option row_key (fst v i), snd v)"
    then obtain c g v where c: "c_view (rw_groups w) s gid = Some g" "sameId (pt_executorGroupId c) gid"
        "completed_once di i c (eg_id g) (review_view w s) v" "completion_view w i s' = (map_option row_key (fst v i), snd v)" by blast
    obtain acc where p: "c_view (rw_txs w) s i = Some c" "PROVIDER_PAID_AWAITING_COMPLETION_FILTER c"
        "posted (di_entryId di) (debit_request c (eg_id g)) (c_view (rw_accounts w) s) (c_view (rw_ledger w) s) (fst (snd v)) (snd (snd v)) acc"
        "map_option row_key (fst v i) = Some (pt_id c, ''completed'', False, pt_executorGroupId c)"
      using c(3) unfolding completed_once_def review_view_def fst_conv snd_conv by blast
    have v: "fst (snd v) = c_view (rw_accounts w) s'" "snd (snd v) = c_view (rw_ledger w) s'"
      "map_option row_key (c_view (rw_txs w) s' i) = Some (pt_id c, ''completed'', False, pt_executorGroupId c)"
      using c(4) p(4) by (cases v; simp add: completion_view_def)+
    have "map_option pt_status (c_view (rw_txs w) s' i) = Some ''completed''" using v(3) by (auto simp: row_key_def)
    moreover have "fst (completion_view w i s') = Some (i, ''completed'', False, pt_executorGroupId c)"
      using v(3) assms(3) [OF p(1)] by (simp add: completion_view_def)
    note completed_stays [OF assms(1,2) this]
    ultimately show ?thesis using c(2) p(1-3) v(1,2) assms(4) [OF c(1)] by auto
  qed (assumption, rule disjI1)
qed

text \<open>
  C5: Settling a row by hand and its delayed completion exclude one another, whatever their order.  Once a settlement has
  claimed the row, no completion can claim it; a row that has been completed can be neither reviewed nor claimed for a
  settlement that was prepared before.
\<close>

theorem settlement_excludes_completion:
  "\<not> completion_filter tx (resolve_claim rq outcome evidence nt d)
    \<and> \<not> completion_filter tx (effect_fields now (resolve_claim rq outcome evidence nt d))
    \<and> \<not> canReviewProviderOperation parseDate now (delayed_fields later (delayed_doc di c) d)
    \<and> \<not> (canReviewProviderOperation parseDate now tx \<and> resolve_filter tx (delayed_fields later (delayed_doc di c) d))"
proof -
  have w: "get (dataOf (resolve_claim rq outcome evidence nt d)) ''waitingApiAutoCompletion'' = Bool False"
    by (simp add: resolve_claim_def get_set_data dataOf_def [of "_\<lparr>pt_updatedAt := _\<rparr>"] flip: dataOf_def del: get.simps)
  have e: "get (dataOf (effect_fields now (resolve_claim rq outcome evidence nt d))) ''waitingApiAutoCompletion'' = Bool False"
    using w by (simp add: effect_fields_def get_set_data del: get.simps)
  have st: "pt_status (delayed_fields later (delayed_doc di c) d) = ''completed''"
    by (simp add: delayed_fields_def delayed_doc_def appendAdminNote_def)
  have active: "pt_status tx \<noteq> ''completed''" if "canReviewProviderOperation parseDate now tx" for tx
    using that by (auto simp: canReviewProviderOperation_def ACTIVE_STATUSES_def)
  have "\<not> canReviewProviderOperation parseDate now (delayed_fields later (delayed_doc di c) d)" using active st by blast
  moreover have "\<not> (canReviewProviderOperation parseDate now tx \<and> resolve_filter tx (delayed_fields later (delayed_doc di c) d))"
    using active [of tx] st by (auto simp: resolve_filter_def)
  ultimately show ?thesis using w e by (simp add: completion_filter_def)
qed

section \<open>A completion in memory\<close>

definition waiting_row :: review_tx where
  "waiting_row = demo_review (Some [(''waitingApiAutoCompletion'', Bool True), (''referenceNumber'', Str ''R1'')])"

definition waiting_db :: review_db where
  "waiting_db = demo_reviews\<lparr>vd_txs := [(''t'', waiting_row)]\<rparr>"

definition demo_delayed :: delayed_input where
  "demo_delayed = \<lparr>di_enabled = True, di_now = 9, di_entryId = ''l'', di_missingNote = [], di_doneNote = [], di_moneyNote = (\<lambda>_. []), di_rendered = Inr ''p''\<rparr>"

lemma attach_total: "\<exists>s'. attachCompletionReceiptAfterCommit w di tx s = (Inr (), s')"
  by (auto simp: attachCompletionReceiptAfterCommit_def Let_def catch_run bind_run ret_def split: sum.split prod.split)

lemma waiting_row_facts: "pt_id waiting_row = ''t''" "pt_status waiting_row = ''processing''" "pt_executorGroupId waiting_row = Some ''g''"
  "get (dataOf waiting_row) ''waitingApiAutoCompletion'' = Bool True" "\<not> isProviderResultUnresolved waiting_row" "\<not> needsUnresolvedHold waiting_row"
  by (simp_all add: waiting_row_def demo_review_def) code_simp+

lemma demo_delayed_simps [simp]: "di_now demo_delayed = 9" "di_entryId demo_delayed = ''l''" "di_enabled demo_delayed"
  by (simp_all add: demo_delayed_def)

lemma demo_work: "\<exists>t s'. delayed_work mem_review demo_delayed \<lparr>eg_id = ''g'', eg_name = ''api'', eg_parent = None\<rparr> waiting_row waiting_db = (Inr (Some t), s')"
proof -
  let ?g = "\<lparr>eg_id = ''g'', eg_name = ''api'', eg_parent = None\<rparr>"
  let ?c = "claim_completion 9 waiting_row"
  let ?s = "waiting_db\<lparr>vd_txs := (''t'', ?c) # vd_txs waiting_db\<rparr>"
  have u: "c_update (rw_txs mem_review) ''t'' (completion_filter waiting_row) (claim_completion 9) waiting_db = (Inr (Some ?c), ?s)"
    by (simp add: mem_review_ops waiting_db_def completion_filter_def waiting_row_facts del: get.simps)
  have bal: "balance_filter (debit_request ?c ''g'') \<lparr>balance = Fin 500, acc_tenantId = None\<rparr>"
    unfolding claim_fields_kept waiting_row_def demo_review_def by code_simp
  have p: "\<exists>b s'. runWithSession (rw_accounts mem_review) (rw_ledger mem_review) ''l'' (debit_request ?c ''g'') ?s = (Inr b, s') \<and> vd_txs s' = vd_txs ?s"
    using bal unfolding debit_request_def runWithSession_def Let_def bind_run andThen_run mem_review_def mem_coll_def
    by (simp add: waiting_db_def demo_reviews_def)
  then obtain b s2 where p: "runWithSession (rw_accounts mem_review) (rw_ledger mem_review) ''l'' (debit_request ?c ''g'') ?s = (Inr b, s2)" "vd_txs s2 = vd_txs ?s" by blast
  have m: "map_of (vd_txs s2) ''t'' = Some ?c" unfolding p(2) by simp
  have "delayed_work mem_review demo_delayed ?g waiting_row waiting_db
      = (Inr (Some (delayed_doc demo_delayed ?c)), s2\<lparr>vd_txs := (''t'', delayed_fields 9 (delayed_doc demo_delayed ?c) ?c) # vd_txs s2\<rparr>)"
    unfolding delayed_work_def bind_run waiting_row_facts(1) demo_delayed_simps u
    by (simp add: andThen_run p [unfolded claim_fields_kept] bind_run claim_fields_kept waiting_row_facts mem_review_ops m [unfolded p(2)])
  then show ?thesis by blast
qed

lemma demo_completes: "\<exists>s'. completeApiTransaction atomic mem_review demo_delayed ''t'' ''g'' waiting_db = (Inr Completed_api, s')"
proof -
  obtain t s1 where w: "delayed_work mem_review demo_delayed \<lparr>eg_id = ''g'', eg_name = ''api'', eg_parent = None\<rparr> waiting_row waiting_db = (Inr (Some t), s1)"
    using demo_work by blast
  obtain s2 where a: "attachCompletionReceiptAfterCommit mem_review demo_delayed t s1 = (Inr (), s2)" using attach_total [of mem_review demo_delayed t s1] by blast
  have m: "map_of (vd_txs waiting_db) ''t'' = Some waiting_row" "map_of (vd_groups waiting_db) ''g'' = Some \<lparr>eg_id = ''g'', eg_name = ''api'', eg_parent = None\<rparr>"
    by (simp_all add: waiting_db_def demo_reviews_def)
  have "completeApiTransaction atomic mem_review demo_delayed ''t'' ''g'' waiting_db = (Inr Completed_api, s2)"
    by (simp add: completeApiTransaction_def complete_row_def commit_completion_def bind_run catch_run andThen_run mem_review_ops m waiting_row_facts sameId_def
        atomic_def w a)
  then show ?thesis by blast
qed

theorem delayed_completion_once_witness:
  "\<exists>s' acc. completeApiTransaction atomic mem_review demo_delayed ''t'' ''g'' waiting_db = (Inr Completed_api, s')
     \<and> posted ''l'' (debit_request waiting_row ''g'') (c_view (rw_accounts mem_review) waiting_db) (c_view (rw_ledger mem_review) waiting_db)
         (c_view (rw_accounts mem_review) s') (c_view (rw_ledger mem_review) s') acc
     \<and> (\<forall>runs. completion_view mem_review ''t'' (complete_all atomic mem_review ''t'' runs s') = completion_view mem_review ''t'' s')"
proof -
  obtain s' where run: "completeApiTransaction atomic mem_review demo_delayed ''t'' ''g'' waiting_db = (Inr Completed_api, s')" using demo_completes by blast
  have row: "c = waiting_row" if "c_view (rw_txs mem_review) waiting_db ''t'' = Some c" for c
    using that by (simp add: mem_review_ops waiting_db_def)
  have id: "pt_id c = ''t''" if "c_view (rw_txs mem_review) waiting_db ''t'' = Some c" for c using row [OF that] by (simp add: waiting_row_facts)
  have g: "eg_id g = ''g''" if "c_view (rw_groups mem_review) waiting_db ''g'' = Some g" for g
    using that by (auto simp: mem_review_ops waiting_db_def demo_reviews_def)
  from delayed_completion_once [where unknown = "\<lambda>_. False", OF mem_review_store atomic_ok id g run] obtain c acc where
    "c_view (rw_txs mem_review) waiting_db ''t'' = Some c"
    "posted ''l'' (debit_request c ''g'') (c_view (rw_accounts mem_review) waiting_db) (c_view (rw_ledger mem_review) waiting_db)
         (c_view (rw_accounts mem_review) s') (c_view (rw_ledger mem_review) s') acc"
    "\<forall>runs. completion_view mem_review ''t'' (complete_all atomic mem_review ''t'' runs s') = completion_view mem_review ''t'' s'"
    by auto
  then show ?thesis using run row by blast
qed

end
