(* ===== verification/Client_Deposits.thy ===== *)
theory Client_Deposits
  imports Wallet Js_Text
begin

text \<open>
  A client asks for a deposit and an administrator decides about it (\<open>src/services/clientDepositRequestService.js\<close>).  The
  five collections are parameters with the laws of \<open>coll_ok\<close>; fresh identifiers, the clock and the texts of messages are
  fields of a request.  A decision reads the request (\<open>load_case\<close>) and then settles it (\<open>settle_case\<close>); they are two
  definitions because other requests may run in between.
\<close>

section \<open>Documents\<close>

text \<open>
  An empty text stands for a missing one.  A client's balance is read as an \<open>account\<close> and the fields that identify the
  client as a \<open>client_user\<close>.
\<close>

record client_user =
  cu_id :: string
  cu_role :: string
  cu_phone :: string
  cu_webUsername :: string
  cu_name :: string

record adjustment =
  ad_entityModel :: string
  ad_entityId :: string
  ad_delta :: jsnum
  ad_reversible :: bool

record deposit_tx =
  dt_id :: string
  dt_customId :: string
  dt_userId :: string
  dt_amount :: jsnum
  dt_status :: string
  dt_notes :: string
  dt_note :: string
  dt_ticketId :: "string option"
  dt_submittedById :: string
  dt_submittedByName :: string
  dt_submittedByRole :: string
  dt_reviewed :: "(string \<times> string \<times> int) option"
  dt_rejectionReason :: string
  dt_adjustment :: "adjustment option"
  dt_performed :: "(string \<times> string \<times> int) option"
  dt_createdAt :: int
  dt_updatedAt :: int

record deposit_ticket =
  tk_id :: string
  tk_type :: string
  tk_entityId :: string
  tk_status :: string
  tk_transactionId :: string
  tk_amount :: jsnum
  tk_requestStatus :: string
  tk_resolvedAt :: "int option"
  tk_closedAt :: "int option"
  tk_unreadUser :: jsnum
  tk_messages :: "(string \<times> string \<times> string) list"

record 's deposit_world =
  dw_txs :: "('s, deposit_tx) coll"
  dw_tickets :: "('s, deposit_ticket) coll"
  dw_users :: "('s, client_user) coll"
  dw_accounts :: "('s, account) coll"
  dw_ledger :: "('s, ledger_entry) coll"

definition failure :: "string \<Rightarrow> nat \<Rightarrow> error" where
  "failure msg status = \<lparr>message = msg, e_code = [], statusCode = status\<rparr>"

definition first_text :: "string list \<Rightarrow> string" where
  "first_text ts = (case find (\<lambda>t. t \<noteq> []) ts of Some t \<Rightarrow> t | None \<Rightarrow> [])"

definition clientUserKey :: "client_user \<Rightarrow> string" where
  "clientUserKey client = first_text [cu_phone client, cu_webUsername client, cu_id client]"

definition CLIENT_NAME :: string where
  "CLIENT_NAME = utf8 [216, 185, 217, 133, 217, 138, 217, 132, 32, 217, 133, 216, 168, 216, 167, 216, 180, 216, 177]"

section \<open>Asking for a deposit\<close>

text \<open>The fresh identifiers, the clock, the text of the message and the outcome of the notifications come from outside.\<close>

record deposit_request =
  dr_amount :: jsval
  dr_note :: jsval
  dr_customId :: string
  dr_txId :: string
  dr_ticketId :: string
  dr_message :: string
  dr_now :: int
  dr_notify :: "error option"

definition pending_of :: "string \<Rightarrow> deposit_tx \<Rightarrow> bool" where
  "pending_of userKey d \<longleftrightarrow> dt_userId d = userKey \<and> dt_status d = ''deposit_pending'' \<and> dt_submittedByRole d = ''client''"

definition deposit_note :: "jsval \<Rightarrow> string" where
  "deposit_note v = slice_units 1000 (trim (filter (\<lambda>c. c \<noteq> CHR 0x00) (toString (or_else v (Str [])))))"

definition valid_amount :: "jsnum \<Rightarrow> bool" where
  "valid_amount n \<longleftrightarrow> isFinite n \<and> \<not> n_le n (Fin 0) \<and> \<not> n_lt (Fin 1000000) n"

definition deposit_doc :: "deposit_request \<Rightarrow> client_user \<Rightarrow> jsnum \<Rightarrow> string \<Rightarrow> deposit_tx" where
  "deposit_doc rq client parsedAmount cleanNote = \<lparr>dt_id = dr_txId rq, dt_customId = dr_customId rq, dt_userId = clientUserKey client,
     dt_amount = parsedAmount, dt_status = ''deposit_pending'', dt_notes = cleanNote, dt_note = trim cleanNote, dt_ticketId = None,
     dt_submittedById = cu_id client, dt_submittedByName = trim (first_text [cu_name client, CLIENT_NAME]), dt_submittedByRole = ''client'',
     dt_reviewed = None, dt_rejectionReason = [], dt_adjustment = None, dt_performed = None, dt_createdAt = dr_now rq, dt_updatedAt = dr_now rq\<rparr>"

definition deposit_ticket_doc :: "deposit_request \<Rightarrow> client_user \<Rightarrow> jsnum \<Rightarrow> deposit_ticket" where
  "deposit_ticket_doc rq client parsedAmount = \<lparr>tk_id = dr_ticketId rq, tk_type = ''client_deposit'', tk_entityId = cu_id client, tk_status = ''open'',
     tk_transactionId = dr_txId rq, tk_amount = parsedAmount, tk_requestStatus = ''pending'', tk_resolvedAt = None, tk_closedAt = None,
     tk_unreadUser = Fin 0, tk_messages = [(''user'', first_text [cu_name client, CLIENT_NAME], dr_message rq)]\<rparr>"

definition link_ticket :: "deposit_request \<Rightarrow> deposit_tx \<Rightarrow> deposit_tx" where
  "link_ticket rq d = d\<lparr>dt_ticketId := Some (dr_ticketId rq), dt_updatedAt := dr_now rq\<rparr>"

definition store_request :: "'s deposit_world \<Rightarrow> deposit_request \<Rightarrow> client_user \<Rightarrow> jsnum \<Rightarrow> string \<Rightarrow> ('s, deposit_tx) run" where
  "store_request w rq client parsedAmount cleanNote =
     andThen (c_insert (dw_txs w) (dr_txId rq) (deposit_doc rq client parsedAmount cleanNote))
       (andThen (c_insert (dw_tickets w) (dr_ticketId rq) (deposit_ticket_doc rq client parsedAmount))
         (bind (c_update (dw_txs w) (dr_txId rq) (\<lambda>_. True) (link_ticket rq)) (\<lambda>saved. case saved of
              None \<Rightarrow> throw (plain_error ''DocumentNotFoundError'')
            | Some tx \<Rightarrow> (case dr_notify rq of Some e \<Rightarrow> throw e | None \<Rightarrow> ret tx))))"

definition createClientDepositRequest :: "'s deposit_world \<Rightarrow> deposit_request \<Rightarrow> client_user option \<Rightarrow> ('s, deposit_tx) run" where
  "createClientDepositRequest w rq client = (case client of
       None \<Rightarrow> throw (failure ''DEPOSIT_NOT_ALLOWED'' 403)
     | Some c \<Rightarrow> if cu_role c = ''agent'' then throw (failure ''DEPOSIT_NOT_ALLOWED'' 403)
         else bind (c_findOne (dw_txs w) (pending_of (clientUserKey c))) (\<lambda>pending.
           if pending \<noteq> None then throw (failure ''DEPOSIT_UNDER_REVIEW'' 409)
           else let parsedAmount = toNumber (dr_amount rq); cleanNote = deposit_note (dr_note rq) in
             if \<not> valid_amount parsedAmount then throw (failure ''AMOUNT_INVALID'' 400)
             else if js_length cleanNote < 3 then throw (failure ''NOTE_MISSING'' 400)
             else store_request w rq c parsedAmount cleanNote))"

section \<open>The requests of a client\<close>

record deposit_row =
  ro_id :: string
  ro_customId :: string
  ro_amount :: jsnum
  ro_status :: string
  ro_note :: string
  ro_rejectionReason :: string
  ro_reviewedByName :: string
  ro_reviewedAt :: "int option"
  ro_createdAt :: int
  ro_updatedAt :: int

definition deposit_row_of :: "deposit_tx \<Rightarrow> deposit_row" where
  "deposit_row_of d = \<lparr>ro_id = dt_id d, ro_customId = dt_customId d,
     ro_amount = (case dt_amount d of NaN \<Rightarrow> Fin 0 | n \<Rightarrow> n),
     ro_status = (if dt_status d = ''deposit_pending'' then ''pending'' else dt_status d), ro_note = first_text [dt_note d, dt_notes d],
     ro_rejectionReason = dt_rejectionReason d, ro_reviewedByName = (case dt_reviewed d of Some (_, n, _) \<Rightarrow> n | None \<Rightarrow> []),
     ro_reviewedAt = (case dt_reviewed d of Some (_, _, ms) \<Rightarrow> Some ms | None \<Rightarrow> None), ro_createdAt = dt_createdAt d, ro_updatedAt = dt_updatedAt d\<rparr>"

definition listed :: "string \<Rightarrow> deposit_tx \<Rightarrow> bool" where
  "listed userKey d \<longleftrightarrow> dt_userId d = userKey \<and> dt_submittedByRole d = ''client''
     \<and> dt_status d \<in> {''deposit_pending'', ''deposit'', ''rejected''}"

definition listClientDepositRequests :: "'s deposit_world \<Rightarrow> client_user \<Rightarrow> ('s, deposit_row list) run" where
  "listClientDepositRequests w client = bind (c_findMany (dw_txs w) (listed (clientUserKey client))) (\<lambda>rows.
     ret (map deposit_row_of (take 50 (sort_key (\<lambda>d. - dt_createdAt d) rows))))"

section \<open>The decision of an administrator\<close>

record review_request =
  vw_ticketId :: string
  vw_adminId :: string
  vw_adminName :: string
  vw_approved :: bool
  vw_reason :: jsval
  vw_entryId :: string
  vw_reply :: "jsnum \<Rightarrow> string"
  vw_now :: int

record deposit_case =
  cs_ticket :: deposit_ticket
  cs_tx :: deposit_tx
  cs_client :: client_user

definition clean_reason :: "review_request \<Rightarrow> string" where
  "clean_reason rq = slice_units 1000 (clean (vw_reason rq))"

definition reviewer :: "review_request \<Rightarrow> string \<times> string \<times> int" where
  "reviewer rq = (trim (vw_adminId rq), trim (vw_adminName rq), vw_now rq)"

definition open_request :: "string \<Rightarrow> deposit_ticket \<Rightarrow> deposit_tx \<Rightarrow> bool" where
  "open_request transactionId ticket d \<longleftrightarrow> dt_id d = transactionId \<and> dt_status d = ''deposit_pending''
     \<and> dt_ticketId d = Some (tk_id ticket) \<and> dt_submittedByRole d = ''client''"

definition account_of :: "deposit_tx \<Rightarrow> client_user \<Rightarrow> bool" where
  "account_of tx u \<longleftrightarrow> cu_phone u = dt_userId tx \<or> cu_webUsername u = dt_userId tx \<or> cu_id u = dt_submittedById tx"

text \<open>What is read before anything is written.\<close>

definition load_request :: "'s deposit_world \<Rightarrow> deposit_ticket \<Rightarrow> ('s, deposit_case) run" where
  "load_request w ticket = bind (c_findOne (dw_txs w) (open_request (tk_transactionId ticket) ticket)) (\<lambda>found. case found of
       None \<Rightarrow> throw (failure ''ALREADY_REVIEWED'' 409)
     | Some tx \<Rightarrow> bind (c_findOne (dw_users w) (account_of tx)) (\<lambda>client. case client of
         None \<Rightarrow> throw (failure ''CLIENT_NOT_FOUND'' 404)
       | Some c \<Rightarrow> ret \<lparr>cs_ticket = ticket, cs_tx = tx, cs_client = c\<rparr>))"

definition load_case :: "(string \<Rightarrow> bool) \<Rightarrow> 's deposit_world \<Rightarrow> review_request \<Rightarrow> ('s, deposit_case) run" where
  "load_case isValidObjectId w rq =
     (if \<not> isValidObjectId (vw_ticketId rq) then throw (failure ''TICKET_INVALID'' 404)
      else bind (c_get (dw_tickets w) (vw_ticketId rq)) (\<lambda>found. case found of
          None \<Rightarrow> throw (failure ''DEPOSIT_NOT_FOUND'' 404)
        | Some ticket \<Rightarrow>
            if tk_type ticket \<noteq> ''client_deposit'' \<or> \<not> isValidObjectId (tk_transactionId ticket) then throw (failure ''DEPOSIT_NOT_FOUND'' 404)
            else if trim (vw_adminId rq) = [] \<or> trim (vw_adminName rq) = [] then throw (failure ''REVIEWER_UNKNOWN'' 401)
            else if \<not> vw_approved rq \<and> js_length (clean_reason rq) < 3 then throw (failure ''REASON_MISSING'' 400)
            else load_request w ticket))"

definition DEPOSIT_DESCRIPTION :: string where
  "DEPOSIT_DESCRIPTION = utf8 [216, 165, 217, 138, 216, 175, 216, 167, 216, 185, 32, 217, 133, 216, 185, 216, 170, 217, 133, 216, 175, 32]"

definition credit_request :: "review_request \<Rightarrow> deposit_case \<Rightarrow> wallet_request" where
  "credit_request rq cs = \<lparr>wr_entityModel = ''User'', wr_entityId = cu_id (cs_client cs), wr_amount = dt_amount (cs_tx cs), wr_type = ''DEPOSIT'',
     wr_transactionId = dt_customId (cs_tx cs), wr_description = DEPOSIT_DESCRIPTION @ dt_customId (cs_tx cs), wr_options = default_options\<rparr>"

definition approve_fields :: "review_request \<Rightarrow> deposit_case \<Rightarrow> deposit_tx \<Rightarrow> deposit_tx" where
  "approve_fields rq cs d = d\<lparr>dt_status := ''deposit'', dt_adjustment := Some \<lparr>ad_entityModel = ''User'', ad_entityId = cu_id (cs_client cs),
       ad_delta = dt_amount (cs_tx cs), ad_reversible = True\<rparr>, dt_reviewed := Some (reviewer rq), dt_performed := Some (reviewer rq), dt_updatedAt := vw_now rq\<rparr>"

definition reject_fields :: "review_request \<Rightarrow> deposit_tx \<Rightarrow> deposit_tx" where
  "reject_fields rq d = d\<lparr>dt_status := ''rejected'', dt_reviewed := Some (reviewer rq), dt_rejectionReason := trim (clean_reason rq), dt_updatedAt := vw_now rq\<rparr>"

definition save_deposit :: "'s deposit_world \<Rightarrow> string \<Rightarrow> (deposit_tx \<Rightarrow> deposit_tx) \<Rightarrow> ('s, deposit_tx) run" where
  "save_deposit w i f = bind (c_update (dw_txs w) i (\<lambda>_. True) f) (\<lambda>saved. case saved of
     None \<Rightarrow> throw (plain_error ''DocumentNotFoundError'') | Some tx \<Rightarrow> ret tx)"

definition decide ::
    "(('s, balance_update) run \<Rightarrow> ('s, balance_update) run) \<Rightarrow> bool \<Rightarrow> 's deposit_world \<Rightarrow> review_request \<Rightarrow> deposit_case \<Rightarrow> ('s, deposit_tx) run" where
  "decide txn requires w rq cs =
     (if vw_approved rq
      then andThen (updateBalanceWithLedger txn requires False (dw_accounts w) (dw_ledger w) (vw_entryId rq) (credit_request rq cs))
             (save_deposit w (dt_id (cs_tx cs)) (approve_fields rq cs))
      else save_deposit w (dt_id (cs_tx cs)) (reject_fields rq))"

text \<open>
  The ticket is loaded, changed and saved.  Its \<open>metadata\<close> has no schema, so a change inside it is only saved when it is
  announced by \<open>markModified\<close>, which does not happen here: the status of the request in the ticket is not written.
\<close>

definition ticket_fields :: "review_request \<Rightarrow> deposit_case \<Rightarrow> deposit_ticket \<Rightarrow> deposit_ticket" where
  "ticket_fields rq cs d = d\<lparr>tk_status := (if vw_approved rq then ''resolved'' else ''closed''),
     tk_resolvedAt := (if vw_approved rq then Some (vw_now rq) else tk_resolvedAt d),
     tk_closedAt := (if vw_approved rq then tk_closedAt d else Some (vw_now rq)),
     tk_unreadUser := n_add (case tk_unreadUser (cs_ticket cs) of NaN \<Rightarrow> Fin 0 | n \<Rightarrow> n) (Fin 1),
     tk_messages := tk_messages d @ [(''admin'', trim (vw_adminName rq), vw_reply rq (dt_amount (cs_tx cs)))]\<rparr>"

definition close_ticket :: "'s deposit_world \<Rightarrow> review_request \<Rightarrow> deposit_case \<Rightarrow> ('s, unit) run" where
  "close_ticket w rq cs = bind (c_update (dw_tickets w) (tk_id (cs_ticket cs)) (\<lambda>_. True) (ticket_fields rq cs)) (\<lambda>saved.
     throw_if (saved = None) (plain_error ''DocumentNotFoundError''))"

definition settle_case ::
    "(('s, balance_update) run \<Rightarrow> ('s, balance_update) run) \<Rightarrow> bool \<Rightarrow> 's deposit_world \<Rightarrow> review_request \<Rightarrow> deposit_case \<Rightarrow> ('s, deposit_tx) run" where
  "settle_case txn requires w rq cs = bind (decide txn requires w rq cs) (\<lambda>tx. andThen (close_ticket w rq cs) (ret tx))"

definition resolveClientDepositTicket ::
    "(('s, balance_update) run \<Rightarrow> ('s, balance_update) run) \<Rightarrow> bool \<Rightarrow> (string \<Rightarrow> bool) \<Rightarrow> 's deposit_world \<Rightarrow> review_request \<Rightarrow> ('s, deposit_tx) run" where
  "resolveClientDepositTicket txn requires isValidObjectId w rq = bind (load_case isValidObjectId w rq) (settle_case txn requires w rq)"

end
