(* ===== verification/Deposit_Books.thy ===== *)
theory Deposit_Books
  imports Client_Deposits
begin

text \<open>
  What the operations of \<open>Client_Deposits\<close> do to the stored requests and balances.
\<close>

section \<open>What is stored\<close>

type_synonym deposit_books = "(string \<Rightarrow> deposit_tx option) \<times> (string \<Rightarrow> deposit_ticket option)
  \<times> (string \<Rightarrow> account option) \<times> (string \<Rightarrow> ledger_entry option)"

definition deposit_view :: "'s deposit_world \<Rightarrow> 's \<Rightarrow> deposit_books" where
  "deposit_view w s = (c_view (dw_txs w) s, c_view (dw_tickets w) s, c_view (dw_accounts w) s, c_view (dw_ledger w) s)"

definition deposit_store :: "'s deposit_world \<Rightarrow> bool" where
  "deposit_store w \<longleftrightarrow> coll_ok (dw_txs w) \<and> coll_ok (dw_tickets w) \<and> coll_ok (dw_users w) \<and> coll_ok (dw_accounts w) \<and> coll_ok (dw_ledger w)
     \<and> quiet (dw_users w) (deposit_view w)
     \<and> quiet (dw_txs w) (\<lambda>s. (c_view (dw_tickets w) s, c_view (dw_accounts w) s, c_view (dw_ledger w) s))
     \<and> quiet (dw_tickets w) (\<lambda>s. (c_view (dw_txs w) s, c_view (dw_accounts w) s, c_view (dw_ledger w) s))
     \<and> quiet (dw_accounts w) (\<lambda>s. (c_view (dw_txs w) s, c_view (dw_tickets w) s)) \<and> quiet (dw_accounts w) (c_view (dw_ledger w))
     \<and> quiet (dw_ledger w) (\<lambda>s. (c_view (dw_txs w) s, c_view (dw_tickets w) s)) \<and> quiet (dw_ledger w) (c_view (dw_accounts w))"

lemma deposit_storeD:
  assumes "deposit_store w"
  shows "coll_ok (dw_txs w)" "coll_ok (dw_tickets w)" "coll_ok (dw_users w)" "coll_ok (dw_accounts w)" "coll_ok (dw_ledger w)"
    "quiet (dw_users w) (deposit_view w)"
    "quiet (dw_txs w) (\<lambda>s. (c_view (dw_tickets w) s, c_view (dw_accounts w) s, c_view (dw_ledger w) s))"
    "quiet (dw_tickets w) (\<lambda>s. (c_view (dw_txs w) s, c_view (dw_accounts w) s, c_view (dw_ledger w) s))"
    "quiet (dw_accounts w) (\<lambda>s. (c_view (dw_txs w) s, c_view (dw_tickets w) s))" "quiet (dw_accounts w) (c_view (dw_ledger w))"
    "quiet (dw_ledger w) (\<lambda>s. (c_view (dw_txs w) s, c_view (dw_tickets w) s))" "quiet (dw_ledger w) (c_view (dw_accounts w))"
  using assms unfolding deposit_store_def by blast+

lemma deposit_reads [keeps_intros]:
  assumes "deposit_store w"
  shows "keeps (deposit_view w) (c_get (dw_tickets w) i)" "keeps (deposit_view w) (c_findOne (dw_txs w) p)" "keeps (deposit_view w) (c_findOne (dw_users w) q)"
    "keeps (deposit_view w) (c_findMany (dw_txs w) p)"
proof -
  show "keeps (deposit_view w) (c_get (dw_tickets w) i)"
    using c_get_view(1) [OF deposit_storeD(2) [OF assms]] quietD(4) [OF deposit_storeD(8) [OF assms]] by (intro keepsI) (simp add: deposit_view_def)
  show "keeps (deposit_view w) (c_findOne (dw_txs w) p)"
    using c_findOne_view [OF deposit_storeD(1) [OF assms]] quietD(1) [OF deposit_storeD(7) [OF assms]] by (intro keepsI) (simp add: deposit_view_def)
  show "keeps (deposit_view w) (c_findMany (dw_txs w) p)"
    using c_findMany_view [OF deposit_storeD(1) [OF assms]] quietD(5) [OF deposit_storeD(7) [OF assms]] by (intro keepsI) (simp add: deposit_view_def)
  show "keeps (deposit_view w) (c_findOne (dw_users w) q)" by (rule keeps_quiet [OF deposit_storeD(6) [OF assms]])
qed

lemma load_reads: "deposit_store w \<Longrightarrow> keeps (deposit_view w) (load_case v w rq)"
  unfolding load_case_def load_request_def by (intro keeps_intros)

text \<open>Every stored row carries its own identifier.\<close>

definition own_ids :: "'s deposit_world \<Rightarrow> 's \<Rightarrow> bool" where
  "own_ids w s \<longleftrightarrow> (\<forall>i d. c_view (dw_txs w) s i = Some d \<longrightarrow> dt_id d = i) \<and> (\<forall>i t. c_view (dw_tickets w) s i = Some t \<longrightarrow> tk_id t = i)"

lemma load_case_Inr:
  assumes "load_case v w rq s = (Inr cs, s')"
  obtains ticket s1 where "c_get (dw_tickets w) (vw_ticketId rq) s = (Inr (Some ticket), s1)" "load_request w ticket s1 = (Inr cs, s')"
proof -
  have "v (vw_ticketId rq)" using assms by (rule contrapos_pp) (simp add: load_case_def)
  then obtain x s1 where g: "c_get (dw_tickets w) (vw_ticketId rq) s = (Inr x, s1)" and rest: "(case x of
          None \<Rightarrow> throw (failure ''DEPOSIT_NOT_FOUND'' 404)
        | Some ticket \<Rightarrow>
            if tk_type ticket \<noteq> ''client_deposit'' \<or> \<not> v (tk_transactionId ticket) then throw (failure ''DEPOSIT_NOT_FOUND'' 404)
            else if trim (vw_adminId rq) = [] \<or> trim (vw_adminName rq) = [] then throw (failure ''REVIEWER_UNKNOWN'' 401)
            else if \<not> vw_approved rq \<and> js_length (clean_reason rq) < 3 then throw (failure ''REASON_MISSING'' 400)
            else load_request w ticket) s1 = (Inr cs, s')"
    using assms unfolding load_case_def by (simp only: if_True if_False simp_thms) (elim bind_InrE)
  then obtain ticket where x: "x = Some ticket" by (cases x) auto
  then have "load_request w ticket s1 = (Inr cs, s')" using rest by (simp split: if_splits)
  then show thesis using that g x by blast
qed

lemma load_request_Inr:
  assumes "deposit_store w" "load_request w ticket s = (Inr cs, s')"
  obtains i tx cl where "c_view (dw_txs w) s i = Some tx" "open_request (tk_transactionId ticket) ticket tx" "account_of tx cl"
    "cs = \<lparr>cs_ticket = ticket, cs_tx = tx, cs_client = cl\<rparr>"
proof -
  obtain y s1 where f: "c_findOne (dw_txs w) (open_request (tk_transactionId ticket) ticket) s = (Inr y, s1)"
    and k: "(case y of None \<Rightarrow> throw (failure ''ALREADY_REVIEWED'' 409)
     | Some tx \<Rightarrow> bind (c_findOne (dw_users w) (account_of tx)) (\<lambda>client. case client of
         None \<Rightarrow> throw (failure ''CLIENT_NOT_FOUND'' 404)
       | Some c \<Rightarrow> ret \<lparr>cs_ticket = ticket, cs_tx = tx, cs_client = c\<rparr>)) s1 = (Inr cs, s')"
    using assms(2) unfolding load_request_def by (elim bind_InrE)
  obtain tx where y: "y = Some tx" using k by (cases y) auto
  obtain z s2 where u: "c_findOne (dw_users w) (account_of tx) s1 = (Inr z, s2)" and k2: "(case z of
         None \<Rightarrow> throw (failure ''CLIENT_NOT_FOUND'' 404)
       | Some c \<Rightarrow> ret \<lparr>cs_ticket = ticket, cs_tx = tx, cs_client = c\<rparr>) s2 = (Inr cs, s')"
    using k unfolding y option.case by (elim bind_InrE)
  obtain cl where z: "z = Some cl" using k2 by (cases z) auto
  obtain i where "c_view (dw_txs w) s i = Some tx" "open_request (tk_transactionId ticket) ticket tx"
    using f unfolding y by (rule c_findOne_Some [OF deposit_storeD(1) [OF assms(1)]])
  moreover obtain j where "c_view (dw_users w) s1 j = Some cl" "account_of tx cl"
    using u unfolding z by (rule c_findOne_Some [OF deposit_storeD(3) [OF assms(1)]])
  ultimately show thesis using that k2 z by simp
qed

lemma load_found:
  assumes "deposit_store w" "load_case v w rq s = (Inr cs, s')" "own_ids w s"
  shows "deposit_view w s' = deposit_view w s" "c_view (dw_tickets w) s (vw_ticketId rq) = Some (cs_ticket cs)" "tk_id (cs_ticket cs) = vw_ticketId rq"
    "c_view (dw_txs w) s (tk_transactionId (cs_ticket cs)) = Some (cs_tx cs)" "dt_id (cs_tx cs) = tk_transactionId (cs_ticket cs)"
    "dt_status (cs_tx cs) = ''deposit_pending''" "account_of (cs_tx cs) (cs_client cs)"
proof -
  show "deposit_view w s' = deposit_view w s" by (rule keepsD [OF load_reads [OF assms(1)] assms(2)])
  obtain ticket s1 where g: "c_get (dw_tickets w) (vw_ticketId rq) s = (Inr (Some ticket), s1)" and k: "load_request w ticket s1 = (Inr cs, s')"
    by (rule load_case_Inr [OF assms(2)])
  have ticket: "c_view (dw_tickets w) s (vw_ticketId rq) = Some ticket" using c_get_view(2) [OF deposit_storeD(2) [OF assms(1)] g] by simp
  have v1: "deposit_view w s1 = deposit_view w s" by (rule keepsD [OF deposit_reads(1) [OF assms(1)] g])
  obtain i tx cl where r: "c_view (dw_txs w) s1 i = Some tx" "open_request (tk_transactionId ticket) ticket tx" "account_of tx cl"
    "cs = \<lparr>cs_ticket = ticket, cs_tx = tx, cs_client = cl\<rparr>" by (rule load_request_Inr [OF assms(1) k])
  have i: "c_view (dw_txs w) s i = Some tx" using r(1) v1 by (simp add: deposit_view_def)
  then have "dt_id tx = i" using assms(3) by (simp add: own_ids_def)
  then show "c_view (dw_tickets w) s (vw_ticketId rq) = Some (cs_ticket cs)" "tk_id (cs_ticket cs) = vw_ticketId rq"
    "c_view (dw_txs w) s (tk_transactionId (cs_ticket cs)) = Some (cs_tx cs)" "dt_id (cs_tx cs) = tk_transactionId (cs_ticket cs)"
    "dt_status (cs_tx cs) = ''deposit_pending''" "account_of (cs_tx cs) (cs_client cs)"
    using ticket r i assms(3) by (simp_all add: open_request_def own_ids_def)
qed

section \<open>What a decision does\<close>

abbreviation rows_of :: "'s deposit_world \<Rightarrow> 's \<Rightarrow> (string \<Rightarrow> deposit_tx option) \<times> (string \<Rightarrow> deposit_ticket option)" where
  "rows_of w s \<equiv> (c_view (dw_txs w) s, c_view (dw_tickets w) s)"

lemma credit_keeps_rows:
  assumes "deposit_store w" "txn_ok txn unknown (deposit_view w)"
  shows "keeps (rows_of w) (updateBalanceWithLedger txn True False (dw_accounts w) (dw_ledger w) n r)"
proof -
  have run: "keeps (rows_of w) (runWithSession (dw_accounts w) (dw_ledger w) n r)"
    unfolding runWithSession_def Let_def by (intro keeps_intros deposit_storeD(9,11) [OF assms(1)])
  have "keeps (rows_of w) (txn (runWithSession (dw_accounts w) (dw_ledger w) n r))"
  proof (rule keepsI)
    fix s a s' assume "txn (runWithSession (dw_accounts w) (dw_ledger w) n r) s = (a, s')"
    with assms(2) show "rows_of w s' = rows_of w s"
      by (cases rule: txn_cases) (use keepsD [OF run] in \<open>auto simp: deposit_view_def\<close>)
  qed
  then show ?thesis unfolding updateBalanceWithLedger_def by (intro keeps_intros) simp_all
qed

lemma credit_book:
  assumes "deposit_store w" "txn_ok txn unknown (deposit_view w)"
  shows "ledger_book (c_view (dw_accounts w)) (c_view (dw_ledger w)) (updateBalanceWithLedger txn True False (dw_accounts w) (dw_ledger w))"
  using txn_ok_comp [OF assms(2), of "\<lambda>v. (fst (snd (snd v)), snd (snd (snd v)))"]
  by (intro runWithSession_book [where unknown = unknown] deposit_storeD(4,5,10,12) [OF assms(1)]) (simp add: deposit_view_def)

lemma save_deposit_Inr:
  assumes "deposit_store w" "save_deposit w i f s = (Inr t, s')"
  shows "\<exists>d. c_view (dw_txs w) s i = Some d \<and> t = f d \<and> deposit_view w s' = ((c_view (dw_txs w) s)(i \<mapsto> f d), snd (deposit_view w s))"
proof -
  obtain x s1 where u: "c_update (dw_txs w) i (\<lambda>_. True) f s = (Inr x, s1)"
    and k: "(case x of None \<Rightarrow> throw (plain_error ''DocumentNotFoundError'') | Some tx \<Rightarrow> ret tx) s1 = (Inr t, s')"
    using assms(2) unfolding save_deposit_def by (elim bind_InrE)
  obtain d' where x: "x = Some d'" using k by (cases x) auto
  have "t = d'" "s' = s1" using k x by simp_all
  then show ?thesis using update_view [OF deposit_storeD(1) [OF assms(1)] u] x quietD(2) [OF deposit_storeD(7) [OF assms(1)] u]
    by (auto simp: deposit_view_def)
qed

lemma approve_effect:
  assumes "deposit_store w" "txn_ok txn unknown (deposit_view w)" "vw_approved rq"
    and run: "decide txn True w rq cs s = (Inr t, s')"
  obtains d acc where "c_view (dw_txs w) s (dt_id (cs_tx cs)) = Some d" "t = approve_fields rq cs d"
    "c_view (dw_txs w) s' = (c_view (dw_txs w) s)(dt_id (cs_tx cs) \<mapsto> approve_fields rq cs d)" "c_view (dw_tickets w) s' = c_view (dw_tickets w) s"
    "posted (vw_entryId rq) (credit_request rq cs) (c_view (dw_accounts w) s) (c_view (dw_ledger w) s) (c_view (dw_accounts w) s') (c_view (dw_ledger w) s') acc"
proof -
  obtain u s1 where p: "updateBalanceWithLedger txn True False (dw_accounts w) (dw_ledger w) (vw_entryId rq) (credit_request rq cs) s = (Inr u, s1)"
    and k: "save_deposit w (dt_id (cs_tx cs)) (approve_fields rq cs) s1 = (Inr t, s')"
    using run assms(3) by (auto simp: decide_def elim: andThen_InrE)
  obtain acc where acc: "posted (vw_entryId rq) (credit_request rq cs) (c_view (dw_accounts w) s) (c_view (dw_ledger w) s) (c_view (dw_accounts w) s1) (c_view (dw_ledger w) s1) acc"
    using ledger_book.post_cases [OF credit_book [OF assms(1,2)] p] by auto
  have rows: "rows_of w s1 = rows_of w s" by (rule keepsD [OF credit_keeps_rows [OF assms(1,2)] p])
  show thesis using save_deposit_Inr [OF assms(1) k] acc rows that by (auto simp: deposit_view_def)
qed

lemma reject_effect:
  assumes "deposit_store w" "\<not> vw_approved rq" "decide txn requires w rq cs s = (Inr t, s')"
  obtains d where "c_view (dw_txs w) s (dt_id (cs_tx cs)) = Some d" "t = reject_fields rq d"
    "deposit_view w s' = ((c_view (dw_txs w) s)(dt_id (cs_tx cs) \<mapsto> reject_fields rq d), snd (deposit_view w s))"
  using save_deposit_Inr [OF assms(1), of "dt_id (cs_tx cs)" "reject_fields rq" s t s'] assms(2,3) by (auto simp: decide_def)

lemma close_effect:
  assumes "deposit_store w" "close_ticket w rq cs s = (Inr u, s')"
  shows "\<exists>d. c_view (dw_tickets w) s (tk_id (cs_ticket cs)) = Some d
    \<and> c_view (dw_tickets w) s' = (c_view (dw_tickets w) s)(tk_id (cs_ticket cs) \<mapsto> ticket_fields rq cs d)
    \<and> c_view (dw_txs w) s' = c_view (dw_txs w) s \<and> c_view (dw_accounts w) s' = c_view (dw_accounts w) s \<and> c_view (dw_ledger w) s' = c_view (dw_ledger w) s"
proof -
  obtain x s1 where u: "c_update (dw_tickets w) (tk_id (cs_ticket cs)) (\<lambda>_. True) (ticket_fields rq cs) s = (Inr x, s1)"
    and k: "throw_if (x = None) (plain_error ''DocumentNotFoundError'') s1 = (Inr u, s')"
    using assms(2) unfolding close_ticket_def by (elim bind_InrE)
  obtain d where x: "x = Some d" "s' = s1" using k by (cases x) (auto split: if_splits)
  show ?thesis using update_view [OF deposit_storeD(2) [OF assms(1)] u] x quietD(2) [OF deposit_storeD(8) [OF assms(1)] u] by auto
qed

lemma settle_parts:
  assumes "settle_case txn requires w rq cs s = (Inr t, s')"
  obtains s1 u where "decide txn requires w rq cs s = (Inr t, s1)" "close_ticket w rq cs s1 = (Inr u, s')"
  using assms unfolding settle_case_def by (auto elim!: bind_InrE andThen_InrE)

lemma credit_answers:
  assumes "deposit_store w" "answers (dw_accounts w)" "answers (dw_ledger w)" "commits txn"
    and "c_view (dw_accounts w) s (wr_entityId r) = Some acc" "balance_filter r acc" "c_view (dw_ledger w) s n = None"
  obtains u s' where "updateBalanceWithLedger txn True False (dw_accounts w) (dw_ledger w) n r s = (Inr u, s')"
proof -
  obtain s1 where 1: "c_update (dw_accounts w) (wr_entityId r) (balance_filter r) (inc_balance (wr_amount r)) s = (Inr (Some (inc_balance (wr_amount r) acc)), s1)"
    by (rule update_answers [where p = "balance_filter r", OF assms(2) deposit_storeD(4) [OF assms(1)] assms(5,6)])
  have "c_view (dw_ledger w) s1 n = None" using quietD(2) [OF deposit_storeD(10) [OF assms(1)] 1] assms(7) by simp
  then obtain s2 where 2: "c_insert (dw_ledger w) n (build_entry r (inc_balance (wr_amount r) acc)) s1 = (Inr (), s2)"
    by (rule insert_answers [OF assms(3) deposit_storeD(5) [OF assms(1)]])
  have "runWithSession (dw_accounts w) (dw_ledger w) n r s = (Inr (update_of (build_entry r (inc_balance (wr_amount r) acc))), s2)"
    by (simp add: runWithSession_def bind_run andThen_run 1 2 Let_def)
  then obtain s3 where "txn (runWithSession (dw_accounts w) (dw_ledger w) n r) s = (Inr (update_of (build_entry r (inc_balance (wr_amount r) acc))), s3)"
    using assms(4) unfolding commits_def by blast
  then show thesis using that by (simp add: updateBalanceWithLedger_def catch_run)
qed

lemma credit_unguarded: "0 \<le> x \<Longrightarrow> dt_amount (cs_tx cs) = Fin x \<Longrightarrow> balance_filter (credit_request rq cs) acc"
  by (simp add: balance_filter_def guarded_def credit_request_def)

text \<open>An approval whose case has been read succeeds on a database that answers, whatever has been decided since.\<close>

lemma approval_succeeds:
  assumes "deposit_store w" "txn_ok txn unknown (deposit_view w)" "commits txn"
    and "answers (dw_txs w)" "answers (dw_tickets w)" "answers (dw_accounts w)" "answers (dw_ledger w)"
    and "vw_approved rq" "dt_amount (cs_tx cs) = Fin x" "0 \<le> x"
    and "c_view (dw_accounts w) s (cu_id (cs_client cs)) \<noteq> None" "c_view (dw_ledger w) s (vw_entryId rq) = None"
    and "c_view (dw_txs w) s (dt_id (cs_tx cs)) \<noteq> None" "c_view (dw_tickets w) s (tk_id (cs_ticket cs)) \<noteq> None"
  obtains t s' acc where "settle_case txn True w rq cs s = (Inr t, s')"
    "posted (vw_entryId rq) (credit_request rq cs) (c_view (dw_accounts w) s) (c_view (dw_ledger w) s) (c_view (dw_accounts w) s') (c_view (dw_ledger w) s') acc"
    "dom (c_view (dw_txs w) s') = dom (c_view (dw_txs w) s)" "dom (c_view (dw_tickets w) s') = dom (c_view (dw_tickets w) s)"
proof -
  have id: "wr_entityId (credit_request rq cs) = cu_id (cs_client cs)" by (simp add: credit_request_def)
  obtain acc0 where acc0: "c_view (dw_accounts w) s (wr_entityId (credit_request rq cs)) = Some acc0" using assms(11) unfolding id by blast
  obtain u s1 where 1: "updateBalanceWithLedger txn True False (dw_accounts w) (dw_ledger w) (vw_entryId rq) (credit_request rq cs) s = (Inr u, s1)"
    by (rule credit_answers [OF assms(1,6,7,3) acc0 credit_unguarded [OF assms(10,9)] assms(12)])
  have rows: "rows_of w s1 = rows_of w s" by (rule keepsD [OF credit_keeps_rows [OF assms(1,2)] 1])
  obtain d where "c_view (dw_txs w) s1 (dt_id (cs_tx cs)) = Some d" using rows assms(13) by auto
  then obtain s2 where 2: "c_update (dw_txs w) (dt_id (cs_tx cs)) (\<lambda>_. True) (approve_fields rq cs) s1 = (Inr (Some (approve_fields rq cs d)), s2)"
    using update_answers [OF assms(4) deposit_storeD(1) [OF assms(1)], where p = "\<lambda>_. True" and f = "approve_fields rq cs"] by metis
  have decided: "decide txn True w rq cs s = (Inr (approve_fields rq cs d), s2)"
    by (simp add: decide_def assms(8) andThen_run bind_run 1 2 save_deposit_def)
  obtain d' acc where e: "c_view (dw_txs w) s (dt_id (cs_tx cs)) = Some d'"
    "c_view (dw_txs w) s2 = (c_view (dw_txs w) s)(dt_id (cs_tx cs) \<mapsto> approve_fields rq cs d')" "c_view (dw_tickets w) s2 = c_view (dw_tickets w) s"
    "posted (vw_entryId rq) (credit_request rq cs) (c_view (dw_accounts w) s) (c_view (dw_ledger w) s) (c_view (dw_accounts w) s2) (c_view (dw_ledger w) s2) acc"
    by (rule approve_effect [OF assms(1,2,8) decided]) blast
  obtain k where "c_view (dw_tickets w) s2 (tk_id (cs_ticket cs)) = Some k" using e(3) assms(14) by auto
  then obtain s3 where 3: "c_update (dw_tickets w) (tk_id (cs_ticket cs)) (\<lambda>_. True) (ticket_fields rq cs) s2 = (Inr (Some (ticket_fields rq cs k)), s3)"
    using update_answers [OF assms(5) deposit_storeD(2) [OF assms(1)], where p = "\<lambda>_. True" and f = "ticket_fields rq cs"] by metis
  have closed: "close_ticket w rq cs s2 = (Inr (), s3)" by (simp add: close_ticket_def bind_run 3)
  have "settle_case txn True w rq cs s = (Inr (approve_fields rq cs d), s3)"
    by (simp add: settle_case_def bind_run andThen_run decided closed)
  moreover have "dom (c_view (dw_txs w) s3) = dom (c_view (dw_txs w) s)" "dom (c_view (dw_tickets w) s3) = dom (c_view (dw_tickets w) s)"
    using close_effect [OF assms(1) closed] e(1-3) by (auto split: if_splits)
  moreover have "posted (vw_entryId rq) (credit_request rq cs) (c_view (dw_accounts w) s) (c_view (dw_ledger w) s) (c_view (dw_accounts w) s3) (c_view (dw_ledger w) s3) acc"
    using close_effect [OF assms(1) closed] e(4) by auto
  ultimately show thesis using that by blast
qed

text \<open>
  C1: Approving a deposit twice at the same time credits it twice.  When two administrators, or one by the list of
  transactions and one by the ticket, have both read the request before either has decided, then on a database that
  answers and commits both approvals succeed: the amount is credited by two entries of the ledger, both for the one
  request.  The transactions are required and the client has an account.
\<close>

theorem concurrent_approvals_credit_twice:
  fixes w :: "'s deposit_world" and s :: 's
  assumes "deposit_store w" "txn_ok txn unknown (deposit_view w)" "commits txn" "own_ids w s"
    and "answers (dw_txs w)" "answers (dw_tickets w)" "answers (dw_accounts w)" "answers (dw_ledger w)"
    and "vw_ticketId b = vw_ticketId a" "vw_approved a" "vw_approved b"
    and "load_case v w a s = (Inr ca, s1)" "load_case v w b s1 = (Inr cb, s2)"
    and "dt_amount (cs_tx ca) = Fin z" "0 \<le> z"
    and "c_view (dw_accounts w) s (cu_id (cs_client ca)) \<noteq> None" "c_view (dw_accounts w) s (cu_id (cs_client cb)) \<noteq> None"
    and "c_view (dw_ledger w) s (vw_entryId a) = None" "c_view (dw_ledger w) s (vw_entryId b) = None" "vw_entryId a \<noteq> vw_entryId b"
  shows "\<exists>x s3 y s4 tx acc acc'. settle_case txn True w a ca s2 = (Inr x, s3) \<and> settle_case txn True w b cb s3 = (Inr y, s4)
    \<and> dt_status tx = ''deposit_pending'' \<and> c_view (dw_txs w) s (dt_id tx) = Some tx
    \<and> (\<forall>r\<in>{credit_request a ca, credit_request b cb}. wr_amount r = dt_amount tx \<and> wr_transactionId r = dt_customId tx)
    \<and> posted (vw_entryId a) (credit_request a ca) (c_view (dw_accounts w) s) (c_view (dw_ledger w) s) (c_view (dw_accounts w) s3) (c_view (dw_ledger w) s3) acc
    \<and> posted (vw_entryId b) (credit_request b cb) (c_view (dw_accounts w) s3) (c_view (dw_ledger w) s3) (c_view (dw_accounts w) s4) (c_view (dw_ledger w) s4) acc'"
proof -
  note la = load_found [OF assms(1,12,4)]
  have "own_ids w s1" using assms(4) la(1) by (simp add: own_ids_def deposit_view_def)
  note lb = load_found [OF assms(1,13) this]
  have same: "cs_tx cb = cs_tx ca" "tk_id (cs_ticket cb) = tk_id (cs_ticket ca)" using la lb assms(9) by (simp_all add: deposit_view_def)
  have v2: "deposit_view w s2 = deposit_view w s" using la(1) lb(1) by simp
  then have v: "c_view (dw_txs w) s2 = c_view (dw_txs w) s" "c_view (dw_tickets w) s2 = c_view (dw_tickets w) s"
      "c_view (dw_accounts w) s2 = c_view (dw_accounts w) s" "c_view (dw_ledger w) s2 = c_view (dw_ledger w) s"
    by (simp_all add: deposit_view_def)
  have row: "c_view (dw_txs w) s (dt_id (cs_tx ca)) = Some (cs_tx ca)" using la(4,5) by simp
  have ticket: "c_view (dw_tickets w) s (tk_id (cs_ticket ca)) \<noteq> None" using la(2,3) by simp
  obtain x s3 acc where a: "settle_case txn True w a ca s2 = (Inr x, s3)"
    "posted (vw_entryId a) (credit_request a ca) (c_view (dw_accounts w) s2) (c_view (dw_ledger w) s2) (c_view (dw_accounts w) s3) (c_view (dw_ledger w) s3) acc"
    "dom (c_view (dw_txs w) s3) = dom (c_view (dw_txs w) s2)" "dom (c_view (dw_tickets w) s3) = dom (c_view (dw_tickets w) s2)"
    by (rule approval_succeeds [OF assms(1-3,5-8,10,14,15), where s = s2]) (use assms(16,18) row ticket v in simp_all)
  have acc3: "c_view (dw_accounts w) s3 (cu_id (cs_client cb)) \<noteq> None" "c_view (dw_ledger w) s3 (vw_entryId b) = None"
    using a(2) assms(17,19,20) v by (auto simp: posted_def)
  have "c_view (dw_txs w) s3 (dt_id (cs_tx cb)) \<noteq> None" "c_view (dw_tickets w) s3 (tk_id (cs_ticket cb)) \<noteq> None"
    using a(3,4) row ticket same v by (auto simp: dom_def set_eq_iff)
  moreover have "dt_amount (cs_tx cb) = Fin z" using assms(14) same(1) by simp
  ultimately obtain y s4 acc' where b: "settle_case txn True w b cb s3 = (Inr y, s4)"
    "posted (vw_entryId b) (credit_request b cb) (c_view (dw_accounts w) s3) (c_view (dw_ledger w) s3) (c_view (dw_accounts w) s4) (c_view (dw_ledger w) s4) acc'"
    using approval_succeeds [OF assms(1-3,5-8,11) _ assms(15) acc3] by metis
  show ?thesis
    by (rule exI [of _ x], rule exI [of _ s3], rule exI [of _ y], rule exI [of _ s4], rule exI [of _ "cs_tx ca"], rule exI [of _ acc], rule exI [of _ acc'])
      (use a(1,2) b la(6) row same(1) v in \<open>simp add: credit_request_def\<close>)
qed

lemma review_fields [simp]:
  "dt_id (approve_fields rq cs d) = dt_id d" "dt_id (reject_fields rq d) = dt_id d" "dt_status (approve_fields rq cs d) = ''deposit''"
  "dt_status (reject_fields rq d) = ''rejected''" "tk_id (ticket_fields rq cs k) = tk_id k" "tk_transactionId (ticket_fields rq cs k) = tk_transactionId k"
  "tk_requestStatus (ticket_fields rq cs k) = tk_requestStatus k"
  by (simp_all add: approve_fields_def reject_fields_def ticket_fields_def)

lemma decided_refuses:
  assumes "deposit_store w" "own_ids w s" "c_view (dw_tickets w) s i = Some k" "c_view (dw_txs w) s (tk_transactionId k) = Some d"
    "dt_status d \<noteq> ''deposit_pending''" "vw_ticketId rq = i" "resolveClientDepositTicket txn requires v w rq s = (r, s')"
  shows "(\<exists>e. r = Inl e) \<and> deposit_view w s' = deposit_view w s"
proof -
  obtain q s1 where l: "load_case v w rq s = (q, s1)" by fastforce
  show ?thesis
  proof (cases q)
    case (Inl e)
    then show ?thesis using assms(7) l keepsD [OF load_reads [OF assms(1)] l] by (auto simp: resolveClientDepositTicket_def bind_run)
  next
    case (Inr cs)
    from load_found [OF assms(1) l [unfolded Inr] assms(2)] have False using assms(3-6) by auto
    then show ?thesis ..
  qed
qed

text \<open>
  C2: A request is decided once when one decision follows another.  A decision that is reported has found the request
  pending; an approval has credited exactly its amount by one entry of the ledger, a rejection has moved no money; every
  later decision of the same request fails and changes nothing.  The status of the request inside its ticket is not
  updated.
\<close>

theorem client_deposit_decided_once:
  fixes w :: "'s deposit_world" and s :: 's
  assumes "deposit_store w" "txn_ok txn unknown (deposit_view w)" "own_ids w s"
    and "resolveClientDepositTicket txn True v w rq s = (Inr t, s')"
  shows "\<exists>tx cs. dt_status tx = ''deposit_pending'' \<and> c_view (dw_txs w) s (dt_id tx) = Some tx \<and> account_of tx (cs_client cs)
    \<and> (if vw_approved rq
       then wr_amount (credit_request rq cs) = dt_amount tx \<and> wr_transactionId (credit_request rq cs) = dt_customId tx
         \<and> (\<exists>acc. posted (vw_entryId rq) (credit_request rq cs) (c_view (dw_accounts w) s) (c_view (dw_ledger w) s) (c_view (dw_accounts w) s') (c_view (dw_ledger w) s') acc)
         \<and> map_option dt_status (c_view (dw_txs w) s' (dt_id tx)) = Some ''deposit''
       else c_view (dw_accounts w) s' = c_view (dw_accounts w) s \<and> c_view (dw_ledger w) s' = c_view (dw_ledger w) s
         \<and> map_option dt_status (c_view (dw_txs w) s' (dt_id tx)) = Some ''rejected'')
    \<and> map_option tk_requestStatus (c_view (dw_tickets w) s' (vw_ticketId rq)) = map_option tk_requestStatus (c_view (dw_tickets w) s (vw_ticketId rq))
    \<and> (\<forall>rq2 r s2. vw_ticketId rq2 = vw_ticketId rq \<longrightarrow> resolveClientDepositTicket txn True v w rq2 s' = (r, s2)
         \<longrightarrow> (\<exists>e. r = Inl e) \<and> deposit_view w s2 = deposit_view w s')"
proof -
  obtain cs s1 where l: "load_case v w rq s = (Inr cs, s1)" and k: "settle_case txn True w rq cs s1 = (Inr t, s')"
    using assms(4) unfolding resolveClientDepositTicket_def by (elim bind_InrE)
  note f = load_found [OF assms(1) l assms(3)]
  obtain s2 u where d: "decide txn True w rq cs s1 = (Inr t, s2)" and c: "close_ticket w rq cs s2 = (Inr u, s')" by (rule settle_parts [OF k])
  let ?i = "dt_id (cs_tx cs)"
  have v1: "c_view (dw_txs w) s1 = c_view (dw_txs w) s" "c_view (dw_tickets w) s1 = c_view (dw_tickets w) s"
    "c_view (dw_accounts w) s1 = c_view (dw_accounts w) s" "c_view (dw_ledger w) s1 = c_view (dw_ledger w) s"
    using f(1) by (simp_all add: deposit_view_def)
  obtain g where g: "g = approve_fields rq cs \<or> g = reject_fields rq" "c_view (dw_txs w) s2 = (c_view (dw_txs w) s)(?i \<mapsto> g (cs_tx cs))"
      "c_view (dw_tickets w) s2 = c_view (dw_tickets w) s" and money: "if vw_approved rq then g = approve_fields rq cs \<and>
         (\<exists>acc. posted (vw_entryId rq) (credit_request rq cs) (c_view (dw_accounts w) s) (c_view (dw_ledger w) s) (c_view (dw_accounts w) s2) (c_view (dw_ledger w) s2) acc)
       else g = reject_fields rq \<and> c_view (dw_accounts w) s2 = c_view (dw_accounts w) s \<and> c_view (dw_ledger w) s2 = c_view (dw_ledger w) s"
  proof (cases "vw_approved rq")
    case True
    show thesis
      by (rule approve_effect [OF assms(1,2) True d], rule that [of "approve_fields rq cs"]) (use True v1 f(4,5) in auto)
  next
    case False
    show thesis
      by (rule reject_effect [OF assms(1) False d], rule that [of "reject_fields rq"]) (use False v1 f(4,5) in \<open>auto simp: deposit_view_def\<close>)
  qed
  obtain b where b: "c_view (dw_tickets w) s2 (tk_id (cs_ticket cs)) = Some b"
    "c_view (dw_tickets w) s' = (c_view (dw_tickets w) s2)(tk_id (cs_ticket cs) \<mapsto> ticket_fields rq cs b)" "c_view (dw_txs w) s' = c_view (dw_txs w) s2"
    "c_view (dw_accounts w) s' = c_view (dw_accounts w) s2" "c_view (dw_ledger w) s' = c_view (dw_ledger w) s2"
    using close_effect [OF assms(1) c] by blast
  have bt: "b = cs_ticket cs" using b(1) g(3) f(2,3) by simp
  have tick: "c_view (dw_tickets w) s' (vw_ticketId rq) = Some (ticket_fields rq cs (cs_ticket cs))" using b(2) bt f(3) by simp
  have row: "c_view (dw_txs w) s' ?i = Some (g (cs_tx cs))" using b(3) g(2) by simp
  have gid: "dt_id (g x) = dt_id x" "dt_status (g x) \<noteq> ''deposit_pending''" for x using g(1) by auto
  have ids: "own_ids w s'"
    using assms(3) unfolding own_ids_def b(3) g(2) b(2) bt g(3) by (auto simp: gid)
  have later: "(\<exists>e. r = Inl e) \<and> deposit_view w s3 = deposit_view w s'"
    if "vw_ticketId rq2 = vw_ticketId rq" "resolveClientDepositTicket txn True v w rq2 s' = (r, s3)" for rq2 r s3
    using decided_refuses [OF assms(1) ids tick _ gid(2) that] row f(5) by simp
  have st: "dt_status (g (cs_tx cs)) = (if vw_approved rq then ''deposit'' else ''rejected'')" using money by (auto split: if_splits)
  show ?thesis
    using f(2-7) money tick row later st b(4,5)
    by (intro exI [of _ "cs_tx cs"] exI [of _ cs]) (auto simp: credit_request_def split: if_splits)
qed

section \<open>Asking for a deposit\<close>

lemma create_Inr:
  assumes "createClientDepositRequest w rq client s = (Inr t, s')"
  obtains c s1 where "client = Some c" "cu_role c \<noteq> ''agent''" "c_findOne (dw_txs w) (pending_of (clientUserKey c)) s = (Inr None, s1)"
    "valid_amount (toNumber (dr_amount rq))" "3 \<le> js_length (deposit_note (dr_note rq))"
    "store_request w rq c (toNumber (dr_amount rq)) (deposit_note (dr_note rq)) s1 = (Inr t, s')"
proof -
  obtain c where c: "client = Some c" "cu_role c \<noteq> ''agent''"
    using assms by (cases client) (auto simp: createClientDepositRequest_def split: if_splits)
  obtain p s1 where f: "c_findOne (dw_txs w) (pending_of (clientUserKey c)) s = (Inr p, s1)" and k: "(if p \<noteq> None then throw (failure ''DEPOSIT_UNDER_REVIEW'' 409)
           else let parsedAmount = toNumber (dr_amount rq); cleanNote = deposit_note (dr_note rq) in
             if \<not> valid_amount parsedAmount then throw (failure ''AMOUNT_INVALID'' 400)
             else if js_length cleanNote < 3 then throw (failure ''NOTE_MISSING'' 400)
             else store_request w rq c parsedAmount cleanNote) s1 = (Inr t, s')"
    using assms c unfolding createClientDepositRequest_def by (simp only: option.case if_False) (elim bind_InrE)
  have "p = None" "valid_amount (toNumber (dr_amount rq))" "3 \<le> js_length (deposit_note (dr_note rq))"
    "store_request w rq c (toNumber (dr_amount rq)) (deposit_note (dr_note rq)) s1 = (Inr t, s')"
    using k by (simp_all add: Let_def split: if_splits)
  then show thesis using that c f by blast
qed

lemma store_effect:
  assumes "deposit_store w" "store_request w rq c n nt s = (Inr t, s')"
  shows "t = link_ticket rq (deposit_doc rq c n nt)
    \<and> deposit_view w s' = ((c_view (dw_txs w) s)(dr_txId rq \<mapsto> t), (c_view (dw_tickets w) s)(dr_ticketId rq \<mapsto> deposit_ticket_doc rq c n),
         c_view (dw_accounts w) s, c_view (dw_ledger w) s)"
proof -
  obtain a s1 where i: "c_insert (dw_txs w) (dr_txId rq) (deposit_doc rq c n nt) s = (Inr a, s1)"
    and k: "andThen (c_insert (dw_tickets w) (dr_ticketId rq) (deposit_ticket_doc rq c n))
         (bind (c_update (dw_txs w) (dr_txId rq) (\<lambda>_. True) (link_ticket rq)) (\<lambda>saved. case saved of
              None \<Rightarrow> throw (plain_error ''DocumentNotFoundError'')
            | Some tx \<Rightarrow> (case dr_notify rq of Some e \<Rightarrow> throw e | None \<Rightarrow> ret tx))) s1 = (Inr t, s')"
    using assms(2) [unfolded store_request_def] by (rule andThen_InrE)
  obtain b s2 where j: "c_insert (dw_tickets w) (dr_ticketId rq) (deposit_ticket_doc rq c n) s1 = (Inr b, s2)"
    and k2: "bind (c_update (dw_txs w) (dr_txId rq) (\<lambda>_. True) (link_ticket rq)) (\<lambda>saved. case saved of
              None \<Rightarrow> throw (plain_error ''DocumentNotFoundError'')
            | Some tx \<Rightarrow> (case dr_notify rq of Some e \<Rightarrow> throw e | None \<Rightarrow> ret tx)) s2 = (Inr t, s')"
    using k by (rule andThen_InrE)
  obtain x s3 where u: "c_update (dw_txs w) (dr_txId rq) (\<lambda>_. True) (link_ticket rq) s2 = (Inr x, s3)"
    and k3: "(case x of None \<Rightarrow> throw (plain_error ''DocumentNotFoundError'')
            | Some tx \<Rightarrow> (case dr_notify rq of Some e \<Rightarrow> throw e | None \<Rightarrow> ret tx)) s3 = (Inr t, s')"
    using k2 by (elim bind_InrE)
  obtain d where x: "x = Some d" "t = d" "s' = s3" using k3 by (cases x; cases "dr_notify rq") auto
  note v1 = c_insert_ok [OF deposit_storeD(1) [OF assms(1)] i] quietD(3) [OF deposit_storeD(7) [OF assms(1)] i]
  note v2 = c_insert_ok [OF deposit_storeD(2) [OF assms(1)] j] quietD(3) [OF deposit_storeD(8) [OF assms(1)] j]
  note v3 = update_view [OF deposit_storeD(1) [OF assms(1)] u] quietD(2) [OF deposit_storeD(7) [OF assms(1)] u]
  show ?thesis using v1 v2 v3 x by (auto simp: deposit_view_def)
qed

lemma pending_refuses:
  assumes "deposit_store w" "c_view (dw_txs w) s i = Some d" "pending_of (clientUserKey c) d" "createClientDepositRequest w rq (Some c) s = (r, s')"
  shows "(\<exists>e. r = Inl e) \<and> deposit_view w s' = deposit_view w s"
proof (cases "cu_role c = ''agent''")
  case True
  then show ?thesis using assms(4) by (auto simp: createClientDepositRequest_def)
next
  case False
  obtain p s1 where f: "c_findOne (dw_txs w) (pending_of (clientUserKey c)) s = (p, s1)" by fastforce
  have v: "deposit_view w s1 = deposit_view w s" by (rule keepsD [OF deposit_reads(2) [OF assms(1)] f])
  have "p \<noteq> Inr None" using c_findOne_None [OF deposit_storeD(1) [OF assms(1)]] f assms(2,3) by blast
  then obtain e where "p = Inl e \<or> (\<exists>d. p = Inr (Some d))" by (cases p) auto
  then show ?thesis using assms(4) False f v by (auto simp: createClientDepositRequest_def bind_run)
qed

text \<open>
  C3: A client has one request under review.  A request that is accepted has a finite amount above zero and up to a
  million and a note of at least three characters, finds no request of the client under review, stores the request and its
  ticket, linked to one another, and moves no money; a further request of the client is refused and changes nothing.
\<close>

theorem one_deposit_under_review:
  fixes w :: "'s deposit_world" and s :: 's
  assumes "deposit_store w" "createClientDepositRequest w rq client s = (Inr t, s')"
  shows "\<exists>c. client = Some c \<and> valid_amount (dt_amount t) \<and> 3 \<le> js_length (dt_notes t) \<and> dt_status t = ''deposit_pending''
    \<and> (\<forall>i d. c_view (dw_txs w) s i = Some d \<longrightarrow> \<not> pending_of (clientUserKey c) d)
    \<and> c_view (dw_txs w) s' = (c_view (dw_txs w) s)(dr_txId rq \<mapsto> t) \<and> dt_ticketId t = Some (dr_ticketId rq)
    \<and> map_option tk_transactionId (c_view (dw_tickets w) s' (dr_ticketId rq)) = Some (dt_id t)
    \<and> c_view (dw_accounts w) s' = c_view (dw_accounts w) s \<and> c_view (dw_ledger w) s' = c_view (dw_ledger w) s
    \<and> (\<forall>rq2 c2 r s2. clientUserKey c2 = clientUserKey c \<longrightarrow> createClientDepositRequest w rq2 (Some c2) s' = (r, s2)
         \<longrightarrow> (\<exists>e. r = Inl e) \<and> deposit_view w s2 = deposit_view w s')"
proof -
  obtain c s1 where c: "client = Some c" "c_findOne (dw_txs w) (pending_of (clientUserKey c)) s = (Inr None, s1)"
    "valid_amount (toNumber (dr_amount rq))" "3 \<le> js_length (deposit_note (dr_note rq))"
    "store_request w rq c (toNumber (dr_amount rq)) (deposit_note (dr_note rq)) s1 = (Inr t, s')"
    by (rule create_Inr [OF assms(2)]) blast
  have v1: "deposit_view w s1 = deposit_view w s" by (rule keepsD [OF deposit_reads(2) [OF assms(1)] c(2)])
  have none: "\<forall>i d. c_view (dw_txs w) s i = Some d \<longrightarrow> \<not> pending_of (clientUserKey c) d"
    using c_findOne_None [OF deposit_storeD(1) [OF assms(1)] c(2)] by blast
  note e = store_effect [OF assms(1) c(5)]
  have t: "dt_amount t = toNumber (dr_amount rq)" "dt_notes t = deposit_note (dr_note rq)" "dt_status t = ''deposit_pending''" "dt_id t = dr_txId rq"
    "dt_ticketId t = Some (dr_ticketId rq)" "pending_of (clientUserKey c) t"
    using e by (simp_all add: link_ticket_def deposit_doc_def pending_of_def)
  have s': "c_view (dw_txs w) s' = (c_view (dw_txs w) s)(dr_txId rq \<mapsto> t)"
    "c_view (dw_tickets w) s' (dr_ticketId rq) = Some (deposit_ticket_doc rq c (toNumber (dr_amount rq)))"
    "c_view (dw_accounts w) s' = c_view (dw_accounts w) s" "c_view (dw_ledger w) s' = c_view (dw_ledger w) s"
    using e v1 by (simp_all add: deposit_view_def)
  have "(\<exists>e. r = Inl e) \<and> deposit_view w s2 = deposit_view w s'"
    if "clientUserKey c2 = clientUserKey c" "createClientDepositRequest w rq2 (Some c2) s' = (r, s2)" for rq2 c2 r s2
    by (rule pending_refuses [OF assms(1) _ _ that(2), where i = "dr_txId rq"]) (use s'(1) t(6) that(1) in auto)
  then show ?thesis using c(1,3,4) none t s' by (intro exI [of _ c]) (simp add: deposit_ticket_doc_def)
qed

section \<open>A deposit in memory\<close>

record deposit_db =
  pd_txs :: "(string \<times> deposit_tx) list"
  pd_tickets :: "(string \<times> deposit_ticket) list"
  pd_users :: "(string \<times> client_user) list"
  pd_accounts :: "(string \<times> account) list"
  pd_ledger :: "(string \<times> ledger_entry) list"

definition mem_deposits :: "deposit_db deposit_world" where
  "mem_deposits = \<lparr>dw_txs = mem_coll pd_txs (\<lambda>l s. s\<lparr>pd_txs := l\<rparr>), dw_tickets = mem_coll pd_tickets (\<lambda>l s. s\<lparr>pd_tickets := l\<rparr>),
     dw_users = mem_coll pd_users (\<lambda>l s. s\<lparr>pd_users := l\<rparr>), dw_accounts = mem_coll pd_accounts (\<lambda>l s. s\<lparr>pd_accounts := l\<rparr>),
     dw_ledger = mem_coll pd_ledger (\<lambda>l s. s\<lparr>pd_ledger := l\<rparr>)\<rparr>"

lemma mem_deposits_store: "deposit_store mem_deposits"
  unfolding deposit_store_def mem_deposits_def
  by (simp add: mem_coll_ok) (intro conjI mem_coll_quiet; simp add: mem_coll_view deposit_view_def)

definition demo_client :: client_user where
  "demo_client = \<lparr>cu_id = ''u'', cu_role = ''client'', cu_phone = ''1'', cu_webUsername = [], cu_name = ''n''\<rparr>"

definition demo_ask :: deposit_request where
  "demo_ask = \<lparr>dr_amount = Num (Fin 100), dr_note = Str ''ref'', dr_customId = ''D'', dr_txId = ''t'', dr_ticketId = ''k'', dr_message = ''m'',
     dr_now = 1, dr_notify = None\<rparr>"

definition no_deposits :: deposit_db where
  "no_deposits = \<lparr>pd_txs = [], pd_tickets = [], pd_users = [(''u'', demo_client)], pd_accounts = [(''u'', \<lparr>balance = Fin 5, acc_tenantId = None\<rparr>)], pd_ledger = []\<rparr>"

definition asked_tx :: deposit_tx where
  "asked_tx = link_ticket demo_ask (deposit_doc demo_ask demo_client (Fin 100) ''ref'')"

definition asked_ticket :: deposit_ticket where
  "asked_ticket = deposit_ticket_doc demo_ask demo_client (Fin 100)"

definition asked :: deposit_db where
  "asked = no_deposits\<lparr>pd_txs := [(''t'', asked_tx)], pd_tickets := [(''k'', asked_ticket)]\<rparr>"

definition demo_decide :: "string \<Rightarrow> review_request" where
  "demo_decide entry = \<lparr>vw_ticketId = ''k'', vw_adminId = ''a'', vw_adminName = ''b'', vw_approved = True, vw_reason = Undef, vw_entryId = entry,
     vw_reply = (\<lambda>_. []), vw_now = 2\<rparr>"

lemma mem_deposit_ops:
  "c_get (dw_tickets mem_deposits) i s = (Inr (map_of (pd_tickets s) i), s)"
  "c_update (dw_txs mem_deposits) i p f s = (case map_of (pd_txs s) i of None \<Rightarrow> (Inr None, s)
     | Some d \<Rightarrow> if p d then (Inr (Some (f d)), s\<lparr>pd_txs := (i, f d) # pd_txs s\<rparr>) else (Inr None, s))"
  "c_update (dw_tickets mem_deposits) i p2 f2 s = (case map_of (pd_tickets s) i of None \<Rightarrow> (Inr None, s)
     | Some d \<Rightarrow> if p2 d then (Inr (Some (f2 d)), s\<lparr>pd_tickets := (i, f2 d) # pd_tickets s\<rparr>) else (Inr None, s))"
  "c_view (dw_txs mem_deposits) s = map_of (pd_txs s)" "c_view (dw_tickets mem_deposits) s = map_of (pd_tickets s)"
  by (simp_all add: mem_deposits_def mem_coll_def)

lemma demo_asks: "createClientDepositRequest mem_deposits demo_ask (Some demo_client) no_deposits = (Inr asked_tx, asked\<lparr>pd_txs := (''t'', asked_tx) # [(''t'', deposit_doc demo_ask demo_client (Fin 100) ''ref'')]\<rparr>)"
proof -
  have n: "deposit_note (dr_note demo_ask) = ''ref''" "js_length ''ref'' = 3" unfolding demo_ask_def by code_simp+
  have a: "toNumber (dr_amount demo_ask) = Fin 100" "valid_amount (Fin 100)" unfolding demo_ask_def by code_simp+
  have s: "dr_txId demo_ask = ''t''" "dr_ticketId demo_ask = ''k''" "dr_notify demo_ask = None" "cu_role demo_client = ''client''"
    by (simp_all add: demo_ask_def demo_client_def)
  show ?thesis
    by (simp add: createClientDepositRequest_def store_request_def bind_run andThen_run Let_def n a s mem_deposits_def mem_coll_def no_deposits_def asked_def asked_tx_def asked_ticket_def)
qed

theorem one_deposit_under_review_witness:
  "\<exists>s'. createClientDepositRequest mem_deposits demo_ask (Some demo_client) no_deposits = (Inr asked_tx, s') \<and> dt_status asked_tx = ''deposit_pending''
     \<and> (\<forall>rq2 r s2. createClientDepositRequest mem_deposits rq2 (Some demo_client) s' = (r, s2) \<longrightarrow> (\<exists>e. r = Inl e))"
  using one_deposit_under_review [OF mem_deposits_store demo_asks] demo_asks by auto

lemma asked_ids: "own_ids mem_deposits asked"
  by (simp add: own_ids_def mem_deposit_ops asked_def asked_tx_def asked_ticket_def link_ticket_def deposit_doc_def deposit_ticket_doc_def demo_ask_def)

lemma asked_facts: "map_of (pd_tickets asked) ''k'' = Some asked_ticket" "map_of (pd_txs asked) ''t'' = Some asked_tx"
  "tk_id asked_ticket = ''k''" "tk_type asked_ticket = ''client_deposit''" "tk_transactionId asked_ticket = ''t''" "dt_id asked_tx = ''t''"
  "open_request ''t'' asked_ticket asked_tx" "account_of asked_tx demo_client" "dt_amount asked_tx = Fin 100" "dt_customId asked_tx = ''D''"
  by (simp_all add: asked_def asked_tx_def asked_ticket_def link_ticket_def deposit_doc_def deposit_ticket_doc_def demo_ask_def open_request_def account_of_def
      demo_client_def clientUserKey_def first_text_def)

abbreviation demo_case :: deposit_case where
  "demo_case \<equiv> \<lparr>cs_ticket = asked_ticket, cs_tx = asked_tx, cs_client = demo_client\<rparr>"

lemma demo_loads: "load_case (\<lambda>_. True) mem_deposits (demo_decide n) asked = (Inr demo_case, asked)"
proof -
  have f: "c_findOne (dw_txs mem_deposits) (open_request ''t'' asked_ticket) asked = (Inr (Some asked_tx), asked)"
    "c_findOne (dw_users mem_deposits) (account_of asked_tx) asked = (Inr (Some demo_client), asked)"
    using asked_facts(7,8) by (simp_all add: mem_deposits_def mem_coll_def asked_def no_deposits_def)
  have t: "trim ''a'' \<noteq> []" "trim ''b'' \<noteq> []" by code_simp+
  show ?thesis
    by (simp add: load_case_def load_request_def bind_run mem_deposit_ops asked_facts f t demo_decide_def)
qed

lemma demo_credits:
  assumes "map_of (pd_accounts s) ''u'' = Some acc" "map_of (pd_ledger s) n = None"
  shows "\<exists>b a l. updateBalanceWithLedger atomic True False (dw_accounts mem_deposits) (dw_ledger mem_deposits) n (credit_request (demo_decide n) demo_case) s
    = (Inr b, s\<lparr>pd_accounts := (''u'', a) # pd_accounts s, pd_ledger := (n, l) # pd_ledger s\<rparr>)"
proof -
  have "balance_filter (credit_request (demo_decide n) demo_case) acc"
    unfolding balance_filter_def guarded_def credit_request_def by (simp add: asked_facts)
  then show ?thesis
    using assms by (simp add: updateBalanceWithLedger_def runWithSession_def atomic_def catch_run bind_run andThen_run mem_deposits_def mem_coll_def credit_request_def
        demo_client_def Let_def) (intro exI, rule refl)
qed

lemma demo_settles:
  assumes "map_of (pd_accounts s) ''u'' = Some acc" "map_of (pd_ledger s) n = None" "map_of (pd_txs s) ''t'' = Some d" "map_of (pd_tickets s) ''k'' = Some k"
  shows "\<exists>s' a l. settle_case atomic True mem_deposits (demo_decide n) demo_case s = (Inr (approve_fields (demo_decide n) demo_case d), s')
    \<and> map_of (pd_accounts s') ''u'' = Some a \<and> pd_ledger s' = (n, l) # pd_ledger s
    \<and> map_of (pd_txs s') ''t'' = Some (approve_fields (demo_decide n) demo_case d) \<and> map_of (pd_tickets s') ''k'' \<noteq> None"
proof -
  obtain b a l where u: "updateBalanceWithLedger atomic True False (dw_accounts mem_deposits) (dw_ledger mem_deposits) n (credit_request (demo_decide n) demo_case) s
    = (Inr b, s\<lparr>pd_accounts := (''u'', a) # pd_accounts s, pd_ledger := (n, l) # pd_ledger s\<rparr>)" using demo_credits [OF assms(1,2)] by blast
  have e: "vw_approved (demo_decide n)" "vw_entryId (demo_decide n) = n" by (simp_all add: demo_decide_def)
  show ?thesis
    using assms(3,4)
    by (simp add: settle_case_def decide_def e bind_run andThen_run u save_deposit_def close_ticket_def mem_deposit_ops asked_facts)
qed

lemma mem_deposits_answer:
  "answers (dw_txs mem_deposits)" "answers (dw_tickets mem_deposits)" "answers (dw_accounts mem_deposits)" "answers (dw_ledger mem_deposits)"
  by (simp_all add: mem_deposits_def mem_coll_answers)

theorem concurrent_approvals_credit_twice_witness:
  "\<exists>x s3 y s4 acc acc'. settle_case atomic True mem_deposits (demo_decide ''1'') demo_case asked = (Inr x, s3)
     \<and> settle_case atomic True mem_deposits (demo_decide ''2'') demo_case s3 = (Inr y, s4)
     \<and> posted ''1'' (credit_request (demo_decide ''1'') demo_case) (c_view (dw_accounts mem_deposits) asked) (c_view (dw_ledger mem_deposits) asked)
         (c_view (dw_accounts mem_deposits) s3) (c_view (dw_ledger mem_deposits) s3) acc
     \<and> posted ''2'' (credit_request (demo_decide ''2'') demo_case) (c_view (dw_accounts mem_deposits) s3) (c_view (dw_ledger mem_deposits) s3)
         (c_view (dw_accounts mem_deposits) s4) (c_view (dw_ledger mem_deposits) s4) acc'"
proof -
  have t: "vw_ticketId (demo_decide ''2'') = vw_ticketId (demo_decide ''1'')" "vw_approved (demo_decide n)" "vw_entryId (demo_decide n) = n" for n
    by (simp_all add: demo_decide_def)
  have m: "c_view (dw_accounts mem_deposits) asked ''u'' \<noteq> None" "c_view (dw_ledger mem_deposits) asked n = None" for n
    by (simp_all add: mem_deposits_def mem_coll_view asked_def no_deposits_def)
  have c: "cu_id demo_client = ''u''" by (simp add: demo_client_def)
  have "dt_amount (cs_tx demo_case) = Fin 100" by (simp add: asked_facts)
  from concurrent_approvals_credit_twice [where unknown = "\<lambda>_. False", OF mem_deposits_store atomic_ok atomic_commits asked_ids mem_deposits_answer
      t(1) t(2) t(2) demo_loads demo_loads this]
  show ?thesis using m c unfolding t(3) by auto
qed

theorem client_deposit_decided_once_witness:
  "\<exists>t s'. resolveClientDepositTicket atomic True (\<lambda>_. True) mem_deposits (demo_decide ''1'') asked = (Inr t, s')
     \<and> (\<forall>rq2 r s2. vw_ticketId rq2 = ''k'' \<longrightarrow> resolveClientDepositTicket atomic True (\<lambda>_. True) mem_deposits rq2 s' = (r, s2) \<longrightarrow> (\<exists>e. r = Inl e))
     \<and> map_option dt_status (c_view (dw_txs mem_deposits) s' ''t'') = Some ''deposit''"
proof -
  have m: "map_of (pd_accounts asked) ''u'' = Some \<lparr>balance = Fin 5, acc_tenantId = None\<rparr>" "map_of (pd_ledger asked) ''1'' = None"
    by (simp_all add: asked_def no_deposits_def)
  obtain t s' where "settle_case atomic True mem_deposits (demo_decide ''1'') demo_case asked = (Inr t, s')"
    using demo_settles [OF m asked_facts(2,1)] by blast
  then have run: "resolveClientDepositTicket atomic True (\<lambda>_. True) mem_deposits (demo_decide ''1'') asked = (Inr t, s')"
    by (simp add: resolveClientDepositTicket_def bind_run demo_loads)
  have t: "vw_ticketId (demo_decide ''1'') = ''k''" "vw_approved (demo_decide ''1'')" by (simp_all add: demo_decide_def)
  have row: "tx = asked_tx" if "c_view (dw_txs mem_deposits) asked i = Some tx" for i tx
    using that by (simp add: mem_deposit_ops asked_def split: if_splits)
  from client_deposit_decided_once [where unknown = "\<lambda>_. False", OF mem_deposits_store atomic_ok asked_ids run]
  obtain tx where tx: "c_view (dw_txs mem_deposits) asked (dt_id tx) = Some tx" "map_option dt_status (c_view (dw_txs mem_deposits) s' (dt_id tx)) = Some ''deposit''"
    and later: "\<forall>rq2 r s2. vw_ticketId rq2 = ''k'' \<longrightarrow> resolveClientDepositTicket atomic True (\<lambda>_. True) mem_deposits rq2 s' = (r, s2) \<longrightarrow>
      (\<exists>e. r = Inl e) \<and> deposit_view mem_deposits s2 = deposit_view mem_deposits s'"
    unfolding t if_P [OF t(2)] by blast
  have "dt_id tx = ''t''" using row [OF tx(1)] asked_facts(6) by simp
  then show ?thesis using run tx(2) later by auto
qed

end
