(* ===== verification/Spec2Isabelle.thy ===== *)
theory Spec2Isabelle
  imports Agency_Journal Credit_Limit Executor_Ledger Balance_Adjustment Transfer_Cooldown Balance_Transfer Executor_Policy Transfer_Rules Pool_Requests Admin_Books Provider_Exclusion Executor_Task_Books Completion_Books Deposit_Books
begin

text \<open>
  A verification library for Al-Ahram Pay, a money transfer system on Node, Express and MongoDB.  Customers, client
  companies and agencies with sub-accounts order transfers to wallets, banks and post accounts; executor companies
  carry them out by hand or through payment providers.  The library models the code that decides about money and the
  code that keeps concurrent requests apart.  Paths are below \<open>src/\<close>.

  \<^bold>\<open>The machine\<close>

  \<^item> \<open>Js_Number\<close>: the type \<open>Number\<close>.  A finite value is a rational, every result is rounded to binary64, with
    infinities and NaN; \<open>toFixed\<close>, \<open>Math.round\<close>, reading a decimal.  \<open>Js_Value\<close>: dynamic values, truthiness,
    \<open>Number(v)\<close>, \<open>String(v)\<close>, property access.  \<open>Js_Text\<close>: strings are UTF-8 bytes; trimming, slices, searches,
    case.  \<open>Js_Json\<close>: \<open>JSON.stringify\<close>.
  \<^item> \<open>Prelude\<close>: a computation takes a state and gives an error or a result with a new state, an error included, so
    that a failure half way is visible.  The database is not code of the repository: a collection (\<open>coll\<close>) is a
    parameter, \<open>coll_ok\<close> states what its driver documents (a single-document update is atomic, a failed one changes
    nothing, identifiers are unique), \<open>quiet\<close> that collections are independent, \<open>txn_ok\<close> that a transaction is all
    or nothing unless the outcome of its commit is unknown.  \<open>mem_coll\<close> and \<open>atomic\<close> are the reference instances on
    which the examples run; \<open>answers\<close> and \<open>commits\<close> say that a collection and a transaction never fail, for the
    theorems that show a run to succeed.  \<open>keeps\<close> is the calculus of runs that leave a reading of the state alone.
  \<^item> \<open>Money\<close>: a stored balance is a double near an exact number of thousandths (\<open>near\<close>, \<open>milli\<close>).  Amounts are bounded
    by \<open>LIMIT\<close>, about a billion units, and an error of up to 4096 units of 2 to the power -23 still
    rounds to the same thousandth; a theorem that counts operations (\<open>k + 16 \<le> 1000\<close>) keeps within it.

  \<^bold>\<open>Prices and limits\<close>

  \<^item> \<open>Pricing\<close> (\<open>utils/transferPricing.js\<close>, \<open>utils/rateHelper.js\<close>, \<open>utils/mobileTransferServiceCatalog.js\<close>): rates of a
    service, company offsets, the cost of a transfer.  Custom rates survive their storage as offsets; linked rate fields
    agree with the price engine.
  \<^item> \<open>Agency_Pricing\<close> (\<open>utils/agencyPricing.js\<close>): customer rate, margin and profit of an agency, exact to the last digit.
  \<^item> \<open>Credit_Limit\<close> (\<open>services/agencyCreditLimitService.js\<close>): credit state and the filter of a debit on credit.
  \<^item> \<open>Transfer_Rules\<close> (\<open>utils/transferServiceRules.js\<close>, \<open>utils/egyptianBanks.js\<close>, \<open>utils/bankTransferExecution.js\<close>): the check
    of a submitted transfer.  \<open>Executor_Policy\<close> (\<open>utils/executorManualPolicy.js\<close>): what an executor may do.
    \<open>Executor_Catalog\<close> (\<open>utils/executorServiceCatalog.js\<close>): the services of an executor company.

  \<^bold>\<open>Balances\<close>

  \<^item> \<open>Wallet\<close> (\<open>services/walletService.js\<close>): a balance changes only with a ledger entry; own transaction, caller's
    session, or compensation where there are no transactions.  The ledger always explains the balances.
  \<^item> \<open>Mongo_Session\<close>: the wrappers that run work in an optional transaction, as a locale with two interpretations.
  \<^item> \<open>Balance_Adjustment\<close> (\<open>services/balanceAdjustmentService.js\<close>): manual adjustments and their voids, reversed once.
  \<^item> \<open>Balance_Transfer\<close> (\<open>services/balanceTransferService.js\<close>, \<open>balanceTransferReceiptService.js\<close>): transfers between accounts,
    with \<open>Account_Codes\<close> (\<open>services/accountCodeService.js\<close>) and the guards of \<open>Financial_Safety\<close>
    (\<open>services/financialSafety.js\<close>, \<open>merchantIdempotencyService.js\<close>): conservation, atomicity, one effect for a key.
  \<^item> \<open>Agency_Journal\<close> (\<open>services/agencyJournalService.js\<close>, \<open>models/AgencyJournal.js\<close>): double entries of priced agency
    transfers; every entry balances, repricing telescopes.
  \<^item> \<open>Executor_Ledger\<close> (\<open>utils/executorServiceLedger.js\<close>, \<open>utils/helpers.js\<close>): balances of an executor company by service;
    the increments agree with the reconciliation from all transactions.
  \<^item> \<open>Executor_Pool\<close> (\<open>services/executorBalancePoolService.js\<close>, \<open>utils/executorLedgerGuard.js\<close>): pools of external
    executors.  \<open>Pool_Ledger\<close> is the abstract ledger they promise, \<open>Pool_Refinement\<close> and \<open>Pool_Requests\<close> the proof that
    every request, however it ends, goes through its steps.
  \<^item> \<open>Admin_Mutation\<close> (\<open>services/adminFinancialMutationService.js\<close>): repricing, editing and reassigning stored
    transactions; \<open>Admin_Books\<close> proves that every party keeps its capital.

  \<^bold>\<open>Transfers under way\<close>

  \<^item> \<open>Lock_Service\<close> (\<open>services/lockService.js\<close>, \<open>config/runtimeScale.js\<close>): the locks in memory as a step relation with
    timers; mutual exclusion as long as nobody outstays its lock, and an acquisition makes at most the attempts of its
    options.
  \<^item> \<open>Transfer_Cooldown\<close> (\<open>services/transferCooldownService.js\<close>): the wait between transfers to one recipient.
  \<^item> \<open>Provider_Dispatch\<close> (\<open>services/providerDispatchClaimService.js\<close>): the claim of a row before a payment provider is
    called; the money is held from the claim on, and a released row can be claimed again.  \<open>Provider_Exclusion\<close> (with the
    claim of \<open>services/executorProviderExecutionService.js\<close>) puts the claims, releases, marks, fences and settlements of a
    row into one step relation with at most one payment under way, and shows two faults: the save of an old copy
    (\<open>services/queueService.js\<close>) erases the claim of another worker, and a row settled as not paid is never paid again.
  \<^item> \<open>Provider_Review\<close> (\<open>utils/providerPendingOperation.js\<close>, \<open>services/apiRuntimeRecoveryPolicy.js\<close>): the open results a person
    may review, and the fence of a recovery.  \<open>Provider_Resolution\<close> (\<open>services/providerResolutionService.js\<close>, the completion by
    reference of \<open>services/apiExecutionLifecycleService.js\<close>): an administrator settles a result; \<open>Resolution_Books\<close> proves
    that a row is settled once, with one debit when the provider has paid and no movement of money when it has not.
  \<^item> \<open>Provider_Completion\<close> (\<open>services/apiExecutionLifecycleService.js\<close>): the completion of a payment after a delay;
    \<open>Completion_Books\<close> proves that it moves money once and excludes a settlement.
  \<^item> \<open>Client_Deposits\<close> (\<open>services/clientDepositRequestService.js\<close>): requests for a deposit; \<open>Deposit_Books\<close> proves that
    decisions one after another credit once and that overlapping ones credit twice.
  \<^item> \<open>Executor_Tasks\<close> (\<open>services/executorTransactionMutationService.js\<close>, \<open>utils/executorTransactionNotes.js\<close>): what an executor
    does with an accepted task; \<open>Executor_Task_Books\<close> proves that a cancellation refunds exactly once and an edit charges
    the exact difference within the credit limit.

  \<^bold>\<open>Conventions\<close>

  Definitions carry the names of the code where Isabelle allows it.  Errors are values with their code and status; Arabic
  texts are replaced by names or left out.  The clock, random numbers, new identifiers, hashes and the texts of notes are
  arguments or fields of a request.  Queries that the code runs in parallel run in sequence.  A text that
  begins with C and a number states a property of the program; the other lemmas are the library.  Fuel occurs only where the code counts its
  own attempts (retries of a lock, of a new account code, of a pool request).  Where transactions are optional the
  theorems say which deployment they are about: with required transactions nothing is lost; several theorems show what
  the fallback can lose.

  \<^bold>\<open>Not modelled\<close>

  The TypeScript core under \<open>src/src\<close> is another language.  Routes, controllers and views hold no state of their own;
  login and sessions, messages, webhooks, reports and receipts rest on libraries and services of third parties; the
  workspaces of portals and the mobile application are read models.  The calls to payment providers, the scheduling of
  their queue, receipts and the outbox are left out; the claim that guards a call, what its result does to the row and the
  increments to balances are modelled.  The step relation of \<open>Provider_Exclusion\<close> takes any other write to leave the
  attempt of a row alone.  Settlements and reconciliation reports compute totals for a person to read.  In
  \<open>Financial_Safety\<close> the check that an index exists, the retry of a concurrent merchant request, the texts of public
  messages and sources that are themselves database identifiers are left out; in \<open>Balance_Transfer\<close> the notifications.
  Amounts beyond \<open>LIMIT\<close> are not covered by the theorems about exact sums.
\<close>

end
